(* ===== verification/Rts2Prelude.thy ===== *)
theory Rts2Prelude
  imports Main "HOL-Library.Word"
begin

section \<open>Prelude: C strings, decimal text, machine words\<close>

text \<open>
  What every component of the development shares: the collections of rewrite rules the
  component proofs use, the character classes of \<open>ctype.h\<close> in the C locale, the decimal
  printing of \<open>std::ostream\<close>, the reading of \<open>strtol\<close>/\<open>strtoll\<close>, and facts on masked
  machine words. A C string is an Isabelle \<open>string\<close> without the terminating NUL; the
  pointer \<open>command_buf_top\<close> into it is the suffix that is still to be read.
\<close>

unbundle bit_operations_syntax

named_theorems status_consts \<open>values of the constants of status.h\<close>
named_theorems word_mask \<open>rules on masked state words\<close>
named_theorems text_simps \<open>rules on printing and reading of wire text\<close>

type_synonym u32 = "32 word"

subsection \<open>Character classes\<close>

definition is_space :: "char \<Rightarrow> bool" where
  "is_space c \<longleftrightarrow> c = CHR '' '' \<or> c = CHR 0x09 \<or> c = CHR 0x0A \<or> c = CHR 0x0B \<or> c = CHR 0x0C
     \<or> c = CHR 0x0D"

definition is_digit :: "char \<Rightarrow> bool" where
  "is_digit c \<longleftrightarrow> (48::nat) \<le> of_char c \<and> (of_char c :: nat) \<le> 57"

definition digit_val :: "char \<Rightarrow> nat" where
  "digit_val c = of_char c - 48"

definition digit_char :: "nat \<Rightarrow> char" where
  "digit_char d = char_of (d + 48)"

definition skip_space :: "string \<Rightarrow> string" where
  "skip_space s = dropWhile is_space s"

abbreviation NUL :: char where "NUL \<equiv> CHR 0x00"
abbreviation LF :: char where "LF \<equiv> CHR 0x0A"
abbreviation CR :: char where "CR \<equiv> CHR 0x0D"
abbreviation DQ :: char where "DQ \<equiv> CHR 0x22"

lemma of_char_digit_char [simp]: "d < 10 \<Longrightarrow> (of_char (digit_char d) :: nat) = d + 48"
  by (simp add: digit_char_def)

lemma digit_val_char [text_simps, simp]: "d < 10 \<Longrightarrow> digit_val (digit_char d) = d"
  by (simp add: digit_val_def)

lemma is_digit_char [text_simps, simp]: "d < 10 \<Longrightarrow> is_digit (digit_char d)"
  by (simp add: is_digit_def)

lemma digit_not_space: "is_digit c \<Longrightarrow> \<not> is_space c"
  by (auto simp: is_digit_def is_space_def)

lemma is_digit_minus [simp]: "\<not> is_digit (CHR ''-'')" "\<not> is_digit (CHR ''+'')"
  "\<not> is_digit (CHR '','')" "\<not> is_digit DQ" "\<not> is_digit (CHR '' '')"
  by (simp_all add: is_digit_def)

lemma is_space_consts [simp]: "is_space (CHR '' '')" "is_space LF" "is_space CR"
  "\<not> is_space (CHR ''-'')" "\<not> is_space (CHR ''+'')" "\<not> is_space DQ" "\<not> is_space (CHR '','')"
  by (simp_all add: is_space_def)

lemma skip_space_Cons [text_simps]:
  "skip_space (c # s) = (if is_space c then skip_space s else c # s)"
  by (simp add: skip_space_def)

lemma skip_space_Nil [text_simps, simp]: "skip_space [] = []"
  by (simp add: skip_space_def)

lemma skip_space_idem [simp]: "skip_space (skip_space s) = skip_space s"
  by (induction s) (auto simp: skip_space_def)

lemma skip_space_length: "length (skip_space s) \<le> length s"
  by (simp add: skip_space_def length_dropWhile_le)

lemma skip_space_hd: "skip_space s = c # t \<Longrightarrow> \<not> is_space c"
  by (induction s) (auto simp: skip_space_def split: if_splits)

subsection \<open>Decimal text\<close>

text \<open>What \<open>std::ostream\<close> prints for an integer.\<close>

fun show_nat :: "nat \<Rightarrow> string" where
  "show_nat n = (if n < 10 then [digit_char n] else show_nat (n div 10) @ [digit_char (n mod 10)])"

declare show_nat.simps [simp del]

definition show_int :: "int \<Rightarrow> string" where
  "show_int i = (if i < 0 then CHR ''-'' # show_nat (nat (- i)) else show_nat (nat i))"

definition show_u32 :: "u32 \<Rightarrow> string" where
  "show_u32 w = show_nat (unat w)"

fun read_digits :: "nat \<Rightarrow> string \<Rightarrow> nat \<times> string" where
  "read_digits acc [] = (acc, [])"
| "read_digits acc (c # s) =
     (if is_digit c then read_digits (10 * acc + digit_val c) s else (acc, c # s))"

lemma show_nat_digits: "c \<in> set (show_nat n) \<Longrightarrow> is_digit c"
proof (induction n rule: show_nat.induct)
  case (1 n)
  then show ?case
    by (subst (asm) (2) show_nat.simps) (auto split: if_splits)
qed

lemma show_nat_nonempty [simp]: "show_nat n \<noteq> []"
  by (subst show_nat.simps) simp

lemma read_digits_append_digit:
  "(\<And>c. c \<in> set xs \<Longrightarrow> is_digit c) \<Longrightarrow>
   read_digits acc (xs @ s) = read_digits (fst (read_digits acc xs)) s"
  by (induction xs arbitrary: acc) auto

lemma read_digits_show_nat:
  "fst (read_digits 0 (show_nat n)) = n"
proof (induction n rule: show_nat.induct)
  case (1 n)
  show ?case
  proof (cases "n < 10")
    case True
    then show ?thesis by (subst show_nat.simps) simp
  next
    case False
    then have "read_digits 0 (show_nat n) =
        read_digits (n div 10) [digit_char (n mod 10)]"
      using 1 by (subst show_nat.simps)
        (simp add: read_digits_append_digit[OF show_nat_digits])
    then show ?thesis by simp
  qed
qed

lemma read_digits_all:
  "(\<And>c. c \<in> set xs \<Longrightarrow> is_digit c) \<Longrightarrow> snd (read_digits acc xs) = []"
  by (induction xs arbitrary: acc) auto

lemma read_digits_show_nat_append [text_simps]:
  "s = [] \<or> \<not> is_digit (hd s) \<Longrightarrow> read_digits 0 (show_nat n @ s) = (n, s)"
  by (cases s) (auto simp: read_digits_append_digit[OF show_nat_digits] read_digits_show_nat
      prod_eq_iff read_digits_all[OF show_nat_digits])

lemma show_nat_hd: "is_digit (hd (show_nat n))"
  by (rule show_nat_digits) (rule hd_in_set, simp)

lemma show_nat_Cons: obtains c t where "show_nat n = c # t" "is_digit c"
  using show_nat_hd [of n] by (cases "show_nat n") auto

lemma show_int_chars: "c \<in> set (show_int i) \<Longrightarrow> is_digit c \<or> c = CHR ''-''"
  by (auto simp: show_int_def dest: show_nat_digits split: if_splits)

lemma show_int_nonempty [simp]: "show_int i \<noteq> []"
  by (simp add: show_int_def)

text \<open>
  \<open>strtol\<close>/\<open>strtoll\<close> with base 10: leading white space and one sign are accepted, the value
  saturates at the 64-bit range, and the second component is what \<open>endptr\<close> points to
  (the whole input when there is no digit).
\<close>

definition long_min :: int where "long_min = - 9223372036854775808"
definition long_max :: int where "long_max = 9223372036854775807"

definition strtol10 :: "string \<Rightarrow> int \<times> string" where
  "strtol10 s =
     (let s1 = skip_space s;
          neg = (s1 \<noteq> [] \<and> hd s1 = CHR ''-'');
          s2 = (if s1 \<noteq> [] \<and> (hd s1 = CHR ''-'' \<or> hd s1 = CHR ''+'') then tl s1 else s1)
      in if s2 = [] \<or> \<not> is_digit (hd s2) then (0, s)
         else let (n, r) = read_digits 0 s2;
                  v = (if neg then - int n else int n)
              in (max long_min (min long_max v), r))"

text \<open>The conversion of a 64-bit \<open>long\<close> to a 32-bit \<open>int\<close>, and to \<open>rts2_status_t\<close>.\<close>

definition to_int32 :: "int \<Rightarrow> int" where
  "to_int32 v = signed_take_bit 31 v"

definition int32_range :: "int \<Rightarrow> bool" where
  "int32_range v \<longleftrightarrow> - 2147483648 \<le> v \<and> v \<le> 2147483647"

lemma to_int32_id [simp]: "int32_range v \<Longrightarrow> to_int32 v = v"
  by (simp add: to_int32_def int32_range_def signed_take_bit_int_eq_self_iff)

lemma to_int32_range: "int32_range (to_int32 v)"
  using signed_take_bit_int_greater_eq_minus_exp [of 31 v] signed_take_bit_int_less_exp [of 31 v]
  by (simp add: int32_range_def to_int32_def)

lemma digit_cases_minus: "is_digit c \<Longrightarrow> c \<noteq> CHR ''-'' \<and> c \<noteq> CHR ''+''"
  by (auto simp: is_digit_def)

lemma strtol10_show_int:
  assumes "long_min \<le> i" "i \<le> long_max" "s = [] \<or> \<not> is_digit (hd s)"
  shows "strtol10 (show_int i @ s) = (i, s)"
proof (cases "i < 0")
  case True
  obtain c t where ct: "show_nat (nat (- i)) = c # t" "is_digit c" by (rule show_nat_Cons)
  have r: "read_digits 0 (c # t @ s) = (nat (- i), s)"
    using read_digits_show_nat_append [OF assms(3), of "nat (- i)"] ct(1) by simp
  show ?thesis
    using True ct assms(1,2) r by (simp add: strtol10_def show_int_def skip_space_Cons Let_def)
next
  case False
  obtain c t where ct: "show_nat (nat i) = c # t" "is_digit c" by (rule show_nat_Cons)
  have r: "read_digits 0 (c # t @ s) = (nat i, s)"
    using read_digits_show_nat_append [OF assms(3), of "nat i"] ct(1) by simp
  show ?thesis
    using False ct assms(1,2) r digit_not_space [OF ct(2)] digit_cases_minus [OF ct(2)]
    by (simp add: strtol10_def show_int_def skip_space_Cons Let_def)
qed

lemma show_u32_int: "show_u32 w = show_int (uint w)"
  by (simp add: show_u32_def show_int_def unsigned_less not_less)

subsection \<open>Masked words\<close>

lemma and_or_not_disjoint [word_mask]:
  fixes s :: "'a::len word"
  assumes "m AND k = 0" "n AND k = 0"
  shows "((s AND NOT m) OR n) AND k = s AND k"
proof (rule bit_word_eqI)
  fix i assume "i < LENGTH('a)"
  have "\<not> (bit m i \<and> bit k i)" "\<not> (bit n i \<and> bit k i)"
    using assms by (metis bit_and_iff bit_0_eq bot_apply bot_bool_def)+
  then show "bit (((s AND NOT m) OR n) AND k) i = bit (s AND k) i"
    using \<open>i < LENGTH('a)\<close> by (auto simp: bit_simps)
qed

lemma and_or_not_inside [word_mask]:
  fixes s :: "'a::len word"
  assumes "k AND m = k"
  shows "((s AND NOT m) OR n) AND k = n AND k"
proof (rule bit_word_eqI)
  fix i assume "i < LENGTH('a)"
  have "bit k i \<longrightarrow> bit m i"
    using assms by (metis bit_and_iff)
  then show "bit (((s AND NOT m) OR n) AND k) i = bit (n AND k) i"
    using \<open>i < LENGTH('a)\<close> by (auto simp: bit_simps)
qed

end
