(* ===== verification/Status.thy ===== *)
theory Status
  imports Rts2Prelude
begin

section \<open>Status words\<close>

text \<open>
  The bit layout of the 32-bit status word every daemon keeps and sends
  (\<open>base/kernel/include/status.h\<close>), the pair of old and new value a connection stores
  (\<open>ServerState\<close>, \<open>serverstate.h\<close>), and the text of a centrald state
  (\<open>centralstate.cpp\<close>). The locale \<open>masked_state\<close> is the contract of every operation
  that writes some bits of a status word and clears the error bits, as
  \<open>Daemon::maskState\<close> does; its lemmas say which fields survive such a write.
\<close>

subsection \<open>Fields\<close>

abbreviation DEVICE_ERROR_MASK :: u32 where "DEVICE_ERROR_MASK \<equiv> 0x000f0000"
abbreviation DEVICE_ERROR_KILL :: u32 where "DEVICE_ERROR_KILL \<equiv> 0x00010000"
abbreviation DEVICE_ERROR_HW :: u32 where "DEVICE_ERROR_HW \<equiv> 0x00020000"
abbreviation DEVICE_NOT_READY :: u32 where "DEVICE_NOT_READY \<equiv> 0x00040000"

abbreviation BOP_MASK :: u32 where "BOP_MASK \<equiv> 0x3f000000"
abbreviation BOP_EXPOSURE :: u32 where "BOP_EXPOSURE \<equiv> 0x01000000"
abbreviation BOP_READOUT :: u32 where "BOP_READOUT \<equiv> 0x02000000"
abbreviation BOP_TEL_MOVE :: u32 where "BOP_TEL_MOVE \<equiv> 0x04000000"
abbreviation BOP_WILL_EXPOSE :: u32 where "BOP_WILL_EXPOSE \<equiv> 0x08000000"
abbreviation BOP_TRIG_EXPOSE :: u32 where "BOP_TRIG_EXPOSE \<equiv> 0x10000000"

abbreviation STOP_MASK :: u32 where "STOP_MASK \<equiv> 0x40000000"
abbreviation CAN_MOVE :: u32 where "CAN_MOVE \<equiv> 0"
abbreviation STOP_EVERYTHING :: u32 where "STOP_EVERYTHING \<equiv> 0x40000000"

abbreviation WEATHER_MASK :: u32 where "WEATHER_MASK \<equiv> 0x80000000"
abbreviation GOOD_WEATHER :: u32 where "GOOD_WEATHER \<equiv> 0"
abbreviation BAD_WEATHER :: u32 where "BAD_WEATHER \<equiv> 0x80000000"

abbreviation DEVICE_STATUS_MASK :: u32 where "DEVICE_STATUS_MASK \<equiv> 0x00000fff"
abbreviation WR_RAIN :: u32 where "WR_RAIN \<equiv> 0x00100000"
abbreviation WR_WIND :: u32 where "WR_WIND \<equiv> 0x00200000"
abbreviation WR_HUMIDITY :: u32 where "WR_HUMIDITY \<equiv> 0x00400000"
abbreviation WR_CLOUD :: u32 where "WR_CLOUD \<equiv> 0x00800000"

abbreviation DEVICE_SC_CURR :: u32 where "DEVICE_SC_CURR \<equiv> 0x00001000"
abbreviation DEVICE_BLOCK_CLOSE :: u32 where "DEVICE_BLOCK_CLOSE \<equiv> 0x00002000"
abbreviation DEVICE_BLOCK_OPEN :: u32 where "DEVICE_BLOCK_OPEN \<equiv> 0x00004000"
abbreviation DEVICE_IDLE :: u32 where "DEVICE_IDLE \<equiv> 0"

abbreviation SERVERD_STATUS_MASK :: u32 where "SERVERD_STATUS_MASK \<equiv> 0x00f"
abbreviation SERVERD_DAY :: u32 where "SERVERD_DAY \<equiv> 0x000"
abbreviation SERVERD_EVENING :: u32 where "SERVERD_EVENING \<equiv> 0x001"
abbreviation SERVERD_DUSK :: u32 where "SERVERD_DUSK \<equiv> 0x002"
abbreviation SERVERD_NIGHT :: u32 where "SERVERD_NIGHT \<equiv> 0x003"
abbreviation SERVERD_DAWN :: u32 where "SERVERD_DAWN \<equiv> 0x004"
abbreviation SERVERD_MORNING :: u32 where "SERVERD_MORNING \<equiv> 0x005"

abbreviation SERVERD_ONOFF_MASK :: u32 where "SERVERD_ONOFF_MASK \<equiv> 0x030"
abbreviation SERVERD_ON :: u32 where "SERVERD_ON \<equiv> 0x000"
abbreviation SERVERD_STANDBY :: u32 where "SERVERD_STANDBY \<equiv> 0x010"
abbreviation SERVERD_SOFT_OFF :: u32 where "SERVERD_SOFT_OFF \<equiv> 0x020"
abbreviation SERVERD_HARD_OFF :: u32 where "SERVERD_HARD_OFF \<equiv> 0x030"

text \<open>Return codes of commands.\<close>

abbreviation DEVDEM_OK :: int where "DEVDEM_OK \<equiv> 0"
abbreviation DEVDEM_E_COMMAND :: int where "DEVDEM_E_COMMAND \<equiv> -1"
abbreviation DEVDEM_E_PARAMSNUM :: int where "DEVDEM_E_PARAMSNUM \<equiv> -2"
abbreviation DEVDEM_E_PARAMSVAL :: int where "DEVDEM_E_PARAMSVAL \<equiv> -3"
abbreviation DEVDEM_E_HW :: int where "DEVDEM_E_HW \<equiv> -4"
abbreviation DEVDEM_E_SYSTEM :: int where "DEVDEM_E_SYSTEM \<equiv> -5"
abbreviation DEVDEM_I_QUED :: int where "DEVDEM_I_QUED \<equiv> 1"

text \<open>Bits of \<open>m\<close> that are set in \<open>s\<close>: the C test \<open>s & m\<close>.\<close>

definition has_bits :: "u32 \<Rightarrow> u32 \<Rightarrow> bool" where
  "has_bits s m \<longleftrightarrow> s AND m \<noteq> 0"

subsection \<open>ServerState\<close>

record server_state =
  ss_value :: u32
  ss_old :: u32

definition new_server_state :: server_state where
  "new_server_state = \<lparr>ss_value = DEVICE_NOT_READY, ss_old = 0\<rparr>"

definition ss_setValue :: "u32 \<Rightarrow> server_state \<Rightarrow> server_state" where
  "ss_setValue v st = st\<lparr>ss_old := ss_value st, ss_value := v\<rparr>"

definition maskValueChanged :: "u32 \<Rightarrow> server_state \<Rightarrow> bool" where
  "maskValueChanged q st \<longleftrightarrow> ss_value st AND q \<noteq> ss_old st AND q"

lemma ss_setValue_sel [simp]:
  "ss_value (ss_setValue v st) = v" "ss_old (ss_setValue v st) = ss_value st"
  by (simp_all add: ss_setValue_def)

subsection \<open>Masked writes\<close>

definition mask_word :: "u32 \<Rightarrow> u32 \<Rightarrow> u32 \<Rightarrow> u32" where
  "mask_word m n s = (s AND NOT (DEVICE_ERROR_MASK OR m)) OR n"

lemma and_or_absorb_word: "(k :: 'a::len word) AND (k OR m) = k"
  by (rule bit_word_eqI) (auto simp: bit_simps)

lemma or_and_absorb_word: "(k :: 'a::len word) OR (k AND m) = k"
  by (rule bit_word_eqI) (auto simp: bit_simps)

lemma mask_word_other:
  "(DEVICE_ERROR_MASK OR m) AND k = 0 \<Longrightarrow> n AND k = 0 \<Longrightarrow> mask_word m n s AND k = s AND k"
  unfolding mask_word_def by (rule and_or_not_disjoint)

lemma mask_word_field: "k AND m = k \<Longrightarrow> mask_word m n s AND k = n AND k"
  unfolding mask_word_def
proof (rule and_or_not_inside)
  assume "k AND m = k"
  then show "k AND (DEVICE_ERROR_MASK OR m) = k"
    by (metis bit.conj_disj_distrib or.commute or_and_absorb_word)
qed

lemma mask_word_errors: "n AND DEVICE_ERROR_MASK = 0 \<Longrightarrow> mask_word m n s AND DEVICE_ERROR_MASK = 0"
  unfolding mask_word_def
proof (subst and_or_not_inside)
  show "DEVICE_ERROR_MASK AND (DEVICE_ERROR_MASK OR m) = DEVICE_ERROR_MASK"
    by (rule and_or_absorb_word)
qed simp

locale masked_state =
  fixes word_of :: "'s \<Rightarrow> u32" and mask_state :: "u32 \<Rightarrow> u32 \<Rightarrow> 's \<Rightarrow> 's"
  assumes word_mask_state: "word_of (mask_state m n s) = mask_word m n (word_of s)"
begin

lemma field_written: "k AND m = k \<Longrightarrow> word_of (mask_state m n s) AND k = n AND k"
  by (simp add: word_mask_state mask_word_field)

lemma field_kept:
  "(DEVICE_ERROR_MASK OR m) AND k = 0 \<Longrightarrow> n AND k = 0 \<Longrightarrow>
   word_of (mask_state m n s) AND k = word_of s AND k"
  by (simp add: word_mask_state mask_word_other)

lemma errors_cleared:
  "n AND DEVICE_ERROR_MASK = 0 \<Longrightarrow> word_of (mask_state m n s) AND DEVICE_ERROR_MASK = 0"
  by (simp add: word_mask_state mask_word_errors)

end

subsection \<open>The text of a centrald state\<close>

definition getStringShort :: "u32 \<Rightarrow> string" where
  "getStringShort st =
     (let f = st AND SERVERD_STATUS_MASK in
      if f = SERVERD_DAY then ''day''
      else if f = SERVERD_EVENING then ''evening''
      else if f = SERVERD_DUSK then ''dusk''
      else if f = SERVERD_NIGHT then ''night''
      else if f = SERVERD_DAWN then ''dawn''
      else if f = SERVERD_MORNING then ''morning''
      else ''unknow'')"

definition opt_text :: "bool \<Rightarrow> string \<Rightarrow> string" where
  "opt_text b s = (if b then s else [])"

definition getString :: "u32 \<Rightarrow> string" where
  "getString st =
     opt_text (st AND WEATHER_MASK = BAD_WEATHER) ''bad weather | ''
     @ opt_text (has_bits st WR_RAIN) ''rain |''
     @ opt_text (has_bits st WR_WIND) ''wind |''
     @ opt_text (has_bits st WR_HUMIDITY) ''humidity |''
     @ opt_text (has_bits st WR_CLOUD) ''cloud |''
     @ opt_text (st AND STOP_MASK = STOP_EVERYTHING) ''stop | ''
     @ (if st AND SERVERD_ONOFF_MASK = SERVERD_HARD_OFF then ''HARD OFF ''
        else if st AND SERVERD_ONOFF_MASK = SERVERD_SOFT_OFF then ''SOFT OFF ''
        else if st AND SERVERD_ONOFF_MASK = SERVERD_STANDBY then ''standby ''
        else ''ON '')
     @ getStringShort st
     @ opt_text (has_bits st BOP_EXPOSURE) '', block exposure''
     @ opt_text (has_bits st BOP_READOUT) '', block readout''
     @ opt_text (has_bits st BOP_TEL_MOVE) '', block telescope move''"

end
