(* ===== verification/ConnText.thy ===== *)
theory ConnText
  imports Rts2Prelude
begin

section \<open>Wire text: splitting lines, reading parameters\<close>

text \<open>
  The text half of \<open>rts2core::Connection\<close> (\<open>base/kernel/src/connection.cpp\<close>): how the
  receive buffer is cut into lines (\<open>processBuffer\<close>), how a line is cut into a command and
  its parameters (\<open>processLine\<close>, \<open>paramNext...\<close>), and the reading of the parameter types.
  A parameter reader gets the text from \<open>command_buf_top\<close> on, and returns the value
  (\<open>None\<close> where the code returns -1) with the new \<open>command_buf_top\<close>; a failed read has
  consumed its token, as in the code. The locale \<open>wire_item\<close> is the contract between what
  a peer prints and what the reader takes back; its lemmas on sequences of parameters are
  used for every message whose printer and parser are both modelled.
\<close>

subsection \<open>Parameter readers\<close>

type_synonym 'a param = "string \<Rightarrow> 'a option \<times> string"

definition paramEnd :: "string \<Rightarrow> bool \<times> string" where
  "paramEnd s = (skip_space s = [], skip_space s)"

definition in_delims :: "string option \<Rightarrow> char \<Rightarrow> bool" where
  "in_delims enddelim c = (case enddelim of None \<Rightarrow> False | Some ds \<Rightarrow> c \<in> set ds)"

definition paramNextString :: "string option \<Rightarrow> string param" where
  "paramNextString enddelim s =
     (let s1 = skip_space s in
      if s1 = [] then (None, s1)
      else if hd s1 = DQ then
        (let str = takeWhile (\<lambda>c. c \<noteq> DQ) (tl s1);
             rest = dropWhile (\<lambda>c. c \<noteq> DQ) (tl s1)
         in (Some str, if rest = [] then [] else tl rest))
      else
        (let stop = (\<lambda>c. is_space c \<or> in_delims enddelim c);
             str = takeWhile (\<lambda>c. \<not> stop c) s1;
             rest = dropWhile (\<lambda>c. \<not> stop c) s1
         in (Some str, if rest = [] then [] else tl rest)))"

definition paramNextWholeString :: "string \<Rightarrow> string" where
  "paramNextWholeString s = skip_space s"

text \<open>
  \<open>paramNextStringNull\<close> succeeds at the end of the line without storing a string: the
  value \<open>Some None\<close>.
\<close>

definition paramNextStringNull :: "string option param" where
  "paramNextStringNull s =
     (case paramNextString None s of
        (Some str, r) \<Rightarrow> (Some (Some str), r)
      | (None, r) \<Rightarrow> (if fst (paramEnd r) then Some None else None, snd (paramEnd r)))"

definition read_strtol :: "string option \<Rightarrow> int param" where
  "read_strtol enddelim s =
     (case paramNextString enddelim s of
        (None, r) \<Rightarrow> (None, r)
      | (Some str, r) \<Rightarrow> (if snd (strtol10 str) = [] then Some (fst (strtol10 str)) else None, r))"

definition paramNextInteger :: "int param" where
  "paramNextInteger s =
     (case read_strtol (Some '','') s of (v, r) \<Rightarrow> (map_option to_int32 v, r))"

definition paramNextLong :: "int param" where
  "paramNextLong s = read_strtol (Some '','') s"

definition paramNextLongLong :: "int param" where
  "paramNextLongLong s = read_strtol (Some '','') s"

definition paramNextSSizeT :: "int param" where
  "paramNextSSizeT s = read_strtol None s"

text \<open>\<open>size_t\<close> is 64 bits and unsigned: a negative text wraps.\<close>

definition paramNextSizeT :: "nat param" where
  "paramNextSizeT s =
     (case read_strtol None s of (v, r) \<Rightarrow> (map_option (\<lambda>i. nat (i mod 2 ^ 64)) v, r))"

text \<open>Reading one parameter and then the rest: \<open>a || b\<close> of the code stops at the first failure.\<close>

definition pbind :: "'a param \<Rightarrow> ('a \<Rightarrow> 'b param) \<Rightarrow> 'b param" where
  "pbind p f s = (case p s of (None, r) \<Rightarrow> (None, r) | (Some x, r) \<Rightarrow> f x r)"

definition preturn :: "'a \<Rightarrow> 'a param" where
  "preturn x s = (Some x, s)"

definition pend :: "'a \<Rightarrow> 'a param" where
  "pend x s = (if fst (paramEnd s) then Some x else None, snd (paramEnd s))"

definition paramNextTimeval :: "(int \<times> int) param" where
  "paramNextTimeval =
     pbind paramNextInteger (\<lambda>sec. pbind paramNextInteger (\<lambda>usec. preturn (sec, usec)))"

text \<open>\<open>unquoteRest\<close> drops one leading quote and everything that mirrors it at the end.\<close>

definition strip_trail :: "char \<Rightarrow> string \<Rightarrow> string" where
  "strip_trail ch t = rev (dropWhile (\<lambda>c. is_space c \<or> c = ch) (rev t))"

definition unquoteRest :: "string \<Rightarrow> string" where
  "unquoteRest s =
     (case skip_space s of
        [] \<Rightarrow> []
      | c # t \<Rightarrow> if c = DQ \<or> c = CHR 0x27 then strip_trail c t else c # t)"

subsection \<open>Lines\<close>

text \<open>
  \<open>processBuffer\<close> without a binary transfer: the complete lines of the buffer, in order,
  and what stays in it for the next read. A line ends with LF or CR LF; a CR followed by
  anything else discards the text before it (the scan restarts at the CR); a CR at the very
  end waits for the next read. The C string ends at the first NUL.
\<close>

definition line_char :: "char \<Rightarrow> bool" where
  "line_char c \<longleftrightarrow> c \<noteq> LF \<and> c \<noteq> CR"

lemma scan_rest_length:
  assumes "skip_space s \<noteq> []"
  shows "length (dropWhile line_char (skip_space s)) < length s"
proof -
  obtain c t where ct: "skip_space s = c # t" using assms by (cases "skip_space s") auto
  then have "line_char c" using skip_space_hd [OF ct] by (auto simp: line_char_def)
  then have "length (dropWhile line_char (skip_space s)) \<le> length t"
    using ct by (simp add: length_dropWhile_le)
  moreover have "length (c # t) \<le> length s" using skip_space_length [of s] ct by simp
  ultimately show ?thesis by simp
qed

function scan_lines :: "string \<Rightarrow> string list \<times> string" where
  "scan_lines s =
     (let s1 = skip_space s;
          line = takeWhile line_char s1;
          rest = dropWhile line_char s1
      in if s1 = [] then ([], [])
         else if rest = [] then ([], s1)
         else if hd rest = CR \<and> tl rest = [] then ([], s1)
         else if hd rest = CR \<and> hd (tl rest) \<noteq> LF then scan_lines rest
         else let (ls, r) = scan_lines (if hd rest = CR then tl (tl rest) else tl rest)
              in (line # ls, r))"
  by pat_completeness auto

termination
  by (relation "measure length")
    (auto dest!: scan_rest_length intro: le_less_trans [rotated] simp: le_diff_conv)

declare scan_lines.simps [simp del]

definition processBuffer :: "string \<Rightarrow> string list \<times> string" where
  "processBuffer s = scan_lines (takeWhile (\<lambda>c. c \<noteq> NUL) s)"

text \<open>A read appends to what is left, then processes the buffer.\<close>

definition receive_text :: "string \<Rightarrow> string \<Rightarrow> string list \<times> string" where
  "receive_text pending chunk = processBuffer (pending @ chunk)"

fun receive_chunks :: "string \<Rightarrow> string list \<Rightarrow> string list \<times> string" where
  "receive_chunks pending [] = ([], pending)"
| "receive_chunks pending (c # cs) =
     (let (ls, p) = receive_text pending c; (ls', p') = receive_chunks p cs in (ls @ ls', p'))"

definition split_command :: "string \<Rightarrow> string \<times> string" where
  "split_command line =
     (takeWhile (\<lambda>c. \<not> is_space c) line,
      (let r = dropWhile (\<lambda>c. \<not> is_space c) line in if r = [] then [] else tl r))"

definition isCommandReturn :: "string \<Rightarrow> bool" where
  "isCommandReturn cmd \<longleftrightarrow> cmd \<noteq> [] \<and> (hd cmd = CHR ''+'' \<or> hd cmd = CHR ''-'')"

subsection \<open>Lines: the way the bytes are cut into reads does not matter\<close>

lemma skip_space_append:
  "skip_space (a @ b) = (if skip_space a = [] then skip_space b else skip_space a @ b)"
  by (induction a) (auto simp: skip_space_def)

lemma scan_lines_skip: "scan_lines (skip_space s) = scan_lines s"
  by (simp add: scan_lines.simps [of s] scan_lines.simps [of "skip_space s"])

lemma scan_lines_Nil [simp]: "scan_lines [] = ([], [])"
  by (simp add: scan_lines.simps)

lemma scan_lines_no_end:
  "skip_space s \<noteq> [] \<Longrightarrow> dropWhile line_char (skip_space s) = [] \<Longrightarrow> scan_lines s = ([], skip_space s)"
  by (simp add: scan_lines.simps Let_def)

lemma takeWhile_append_rest:
  "dropWhile P xs \<noteq> [] \<Longrightarrow>
   takeWhile P (xs @ ys) = takeWhile P xs \<and> dropWhile P (xs @ ys) = dropWhile P xs @ ys"
  by (induction xs) auto

lemma scan_lines_append:
  "scan_lines (a @ b) =
     (let (ls, p) = scan_lines a; (ls', p') = scan_lines (p @ b) in (ls @ ls', p'))"
proof (induction a rule: scan_lines.induct)
  case (1 a)
  define s1 where "s1 = skip_space a"
  define rest where "rest = dropWhile line_char s1"
  define line where "line = takeWhile line_char s1"
  note defs = s1_def [symmetric] rest_def [symmetric] line_def [symmetric]
  have ab: "skip_space (a @ b) = s1 @ b" if "s1 \<noteq> []"
    using that by (simp add: skip_space_append s1_def)
  have tr: "takeWhile line_char (s1 @ b) = line \<and> dropWhile line_char (s1 @ b) = rest @ b"
    if "rest \<noteq> []"
    using that takeWhile_append_rest [of line_char s1 b] by (simp add: rest_def line_def)
  have keep: "scan_lines (a @ b) = scan_lines (s1 @ b)" if "s1 \<noteq> []"
    using ab [OF that] scan_lines_skip [of "a @ b"] by simp
  show ?case
  proof (cases "s1 = []")
    case True
    then have "skip_space (a @ b) = skip_space b" by (simp add: skip_space_append s1_def)
    then have "scan_lines (a @ b) = scan_lines b" using scan_lines_skip by metis
    with True show ?thesis by (simp add: scan_lines.simps [of a] defs Let_def split: prod.splits)
  next
    case ne: False
    show ?thesis
    proof (cases "rest = [] \<or> (hd rest = CR \<and> tl rest = [])")
      case True
      then have "scan_lines a = ([], s1)"
        using ne by (auto simp: scan_lines.simps [of a] defs Let_def)
      with keep [OF ne] show ?thesis by (simp split: prod.splits)
    next
      case rn: False
      then obtain c r where cr: "rest = c # r" by (cases rest) auto
      show ?thesis
      proof (cases "c = CR \<and> hd r \<noteq> LF")
        case True
        with rn cr have "r \<noteq> []" by auto
        have a: "scan_lines a = scan_lines rest"
          using ne rn cr True by (simp add: scan_lines.simps [of a] defs Let_def)
        have "scan_lines (a @ b) = scan_lines (rest @ b)"
          using ne rn cr True tr ab \<open>r \<noteq> []\<close>
          by (subst scan_lines.simps) (simp add: defs Let_def)
        moreover have "scan_lines (rest @ b) =
            (let (ls, p) = scan_lines rest; (ls', p') = scan_lines (p @ b) in (ls @ ls', p'))"
          by (rule "1.IH" (1) [OF s1_def line_def, unfolded defs]) (use ne rn cr True in auto)
        ultimately show ?thesis by (simp only: a)
      next
        case False
        define n where "n = (if hd rest = CR then tl (tl rest) else tl rest)"
        have a: "scan_lines a = (let (ls, r) = scan_lines n in (line # ls, r))"
          using ne rn cr False by (simp add: scan_lines.simps [of a] defs Let_def n_def)
        have nb: "(if hd (rest @ b) = CR then tl (tl (rest @ b)) else tl (rest @ b)) = n @ b"
          using cr False rn by (auto simp: n_def neq_Nil_conv)
        have "scan_lines (a @ b) = (let (ls, r) = scan_lines (n @ b) in (line # ls, r))"
          using ne rn cr False tr ab nb
          by (subst scan_lines.simps) (auto simp: defs Let_def neq_Nil_conv)
        moreover have "scan_lines (n @ b) =
            (let (ls, p) = scan_lines n; (ls', p') = scan_lines (p @ b) in (ls @ ls', p'))"
          unfolding n_def
          by (rule "1.IH" (2) [OF s1_def line_def, unfolded defs]) (use ne rn cr False in auto)
        ultimately show ?thesis by (auto simp: a Let_def split: prod.splits)
      qed
    qed
  qed
qed

lemma scan_lines_leftover:
  "scan_lines s = (ls, p) \<Longrightarrow> scan_lines p = ([], p)"
proof (induction s arbitrary: ls rule: scan_lines.induct)
  case (1 s)
  define s1 where "s1 = skip_space s"
  define rest where "rest = dropWhile line_char s1"
  define line where "line = takeWhile line_char s1"
  note defs = s1_def [symmetric] rest_def [symmetric] line_def [symmetric]
  note eq = "1.prems" [unfolded scan_lines.simps [of s] Let_def defs]
  have keep: "scan_lines s1 = scan_lines s" by (simp add: s1_def scan_lines_skip)
  consider (stop) "s1 = [] \<or> rest = [] \<or> hd rest = CR \<and> tl rest = []"
    | (cr) "s1 \<noteq> []" "rest \<noteq> []" "hd rest = CR" "tl rest \<noteq> []" "hd (tl rest) \<noteq> LF"
    | (lf) "s1 \<noteq> []" "rest \<noteq> []" "\<not> (hd rest = CR \<and> tl rest = [])"
        "\<not> (hd rest = CR \<and> hd (tl rest) \<noteq> LF)"
    by blast
  then show ?case
  proof cases
    case stop
    then have p: "p = s1" "ls = []" using eq by (auto split: if_splits)
    with "1.prems" keep show ?thesis by simp
  next
    case cr
    then have "scan_lines rest = (ls, p)" using eq by auto
    then show ?thesis using "1.IH" (1) [OF s1_def line_def, unfolded defs] cr by auto
  next
    case lf
    then obtain ls' where "scan_lines (if hd rest = CR then tl (tl rest) else tl rest) = (ls', p)"
      using eq by (auto split: prod.splits if_splits)
    then show ?thesis
      by (intro "1.IH" (2) [OF s1_def line_def, unfolded defs]) (use lf in auto)
  qed
qed

lemma takeWhile_no_NUL: "NUL \<notin> set s \<Longrightarrow> takeWhile (\<lambda>c. c \<noteq> NUL) s = s"
  by (rule takeWhile_eq_all_conv [THEN iffD2]) auto

lemma scan_lines_subset:
  "scan_lines s = (ls, p) \<Longrightarrow> set p \<subseteq> set s"
proof (induction s arbitrary: ls rule: scan_lines.induct)
  case (1 s)
  define s1 where "s1 = skip_space s"
  define rest where "rest = dropWhile line_char s1"
  define line where "line = takeWhile line_char s1"
  note defs = s1_def [symmetric] rest_def [symmetric] line_def [symmetric]
  note eq = "1.prems" [unfolded scan_lines.simps [of s] Let_def defs]
  have sub1: "set s1 \<subseteq> set s" unfolding s1_def skip_space_def by (rule set_dropWhileD [THEN subsetI])
  have "set rest \<subseteq> set s1" unfolding rest_def by (rule set_dropWhileD [THEN subsetI])
  with sub1 have sub2: "set rest \<subseteq> set s" by blast
  have sub3: "rest \<noteq> [] \<Longrightarrow> set (if hd rest = CR then tl (tl rest) else tl rest) \<subseteq> set rest"
    by (cases rest; cases "tl rest") auto
  consider (stop) "s1 = [] \<or> rest = [] \<or> hd rest = CR \<and> tl rest = []"
    | (cr) "s1 \<noteq> []" "rest \<noteq> []" "hd rest = CR" "tl rest \<noteq> []" "hd (tl rest) \<noteq> LF"
    | (lf) "s1 \<noteq> []" "rest \<noteq> []" "\<not> (hd rest = CR \<and> tl rest = [])"
        "\<not> (hd rest = CR \<and> hd (tl rest) \<noteq> LF)"
    by blast
  then show ?case
  proof cases
    case stop
    then have "p = s1" using eq by (auto split: if_splits)
    with sub1 show ?thesis by simp
  next
    case cr
    then have "scan_lines rest = (ls, p)" using eq by auto
    then have "set p \<subseteq> set rest" using "1.IH" (1) [OF s1_def line_def, unfolded defs] cr by auto
    with sub2 show ?thesis by blast
  next
    case lf
    then obtain ls' where "scan_lines (if hd rest = CR then tl (tl rest) else tl rest) = (ls', p)"
      using eq by (auto split: prod.splits if_splits)
    then have "set p \<subseteq> set (if hd rest = CR then tl (tl rest) else tl rest)"
      by (intro "1.IH" (2) [OF s1_def line_def, unfolded defs]) (use lf in auto)
    with sub2 sub3 lf(2) show ?thesis by blast
  qed
qed

lemma receive_chunks_scan:
  "scan_lines p = ([], p) \<Longrightarrow> NUL \<notin> set p \<Longrightarrow> (\<forall>c\<in>set cs. NUL \<notin> set c) \<Longrightarrow>
   receive_chunks p cs = scan_lines (p @ concat cs)"
proof (induction cs arbitrary: p)
  case Nil
  then show ?case by simp
next
  case (Cons c cs)
  obtain ls p' where sc: "scan_lines (p @ c) = (ls, p')" by fastforce
  have nul: "NUL \<notin> set (p @ c)" using Cons.prems by simp
  have rt: "receive_text p c = (ls, p')"
    using sc by (simp add: receive_text_def processBuffer_def takeWhile_no_NUL [OF nul])
  have "scan_lines p' = ([], p')" by (rule scan_lines_leftover [OF sc])
  moreover have "NUL \<notin> set p'" using scan_lines_subset [OF sc] nul by blast
  ultimately have ih: "receive_chunks p' cs = scan_lines (p' @ concat cs)"
    using Cons by simp
  show ?case
    using rt ih sc scan_lines_append [of "p @ c" "concat cs"] by (simp add: Let_def)
qed

subsection \<open>Parameters: the contract of a printed item\<close>

lemma paramNextString_skip [simp]: "paramNextString d (skip_space s) = paramNextString d s"
  by (simp add: paramNextString_def)

lemma paramEnd_skip [simp]: "paramEnd (skip_space s) = paramEnd s"
  by (simp add: paramEnd_def)

definition skips :: "'a param \<Rightarrow> bool" where
  "skips p \<longleftrightarrow> (\<forall>s. p (skip_space s) = p s)"

lemma skips_eq: "skips p \<Longrightarrow> skip_space s = skip_space t \<Longrightarrow> p s = p t"
  by (metis skips_def)

lemma skips_pend [simp, intro]: "skips (pend x)"
  by (simp add: skips_def pend_def)

lemma skips_pbind [intro]: "skips p \<Longrightarrow> skips (pbind p f)"
  by (simp add: skips_def pbind_def)

lemma skips_string [simp]: "skips (paramNextString d)"
  by (simp add: skips_def)

lemma read_strtol_skip [simp]: "read_strtol d (skip_space s) = read_strtol d s"
  by (simp add: read_strtol_def)

lemma skips_integer [simp]: "skips paramNextInteger" "skips paramNextLongLong"
  "skips paramNextLong" "skips paramNextSizeT" "skips paramNextSSizeT"
  by (simp_all add: skips_def paramNextInteger_def paramNextLongLong_def paramNextLong_def
      paramNextSizeT_def paramNextSSizeT_def)

text \<open>
  What a printer \<open>put\<close> and a reader \<open>get\<close> owe each other: the printed text of every item
  that satisfies \<open>ok\<close> is read back, whether it is the last of its line or followed by a
  space and more text; the reader looks only at the text after white space.
\<close>

locale wire_item =
  fixes put :: "'a \<Rightarrow> string" and get :: "'a param" and ok :: "'a \<Rightarrow> bool"
  assumes get_last: "ok x \<Longrightarrow> fst (get (put x)) = Some x \<and> skip_space (snd (get (put x))) = []"
    and get_sep: "ok x \<Longrightarrow> fst (get (put x @ '' '' @ r)) = Some x
      \<and> skip_space (snd (get (put x @ '' '' @ r))) = skip_space r"
    and get_skips: "skips get"
begin

lemma bind_sep: "ok x \<Longrightarrow> skips (f x) \<Longrightarrow> pbind get f (put x @ '' '' @ r) = f x r"
  using get_sep [of x r] skips_eq [of "f x" "snd (get (put x @ '' '' @ r))" r]
  by (cases "get (put x @ '' '' @ r)") (simp add: pbind_def)

lemma bind_sep': "ok x \<Longrightarrow> skips (f x) \<Longrightarrow> pbind get f (put x @ CHR '' '' # r) = f x r"
  using bind_sep [of x f r] by simp

lemma bind_last: "ok x \<Longrightarrow> skips (f x) \<Longrightarrow> pbind get f (put x) = f x []"
  using get_last [of x] skips_eq [of "f x" "snd (get (put x))" "[]"]
  by (cases "get (put x)") (simp add: pbind_def)

lemma bind_space: "pbind get f (CHR '' '' # s) = pbind get f s"
proof -
  have "get (CHR '' '' # s) = get s"
    by (rule skips_eq [OF get_skips]) (simp add: skip_space_Cons)
  then show ?thesis by (simp add: pbind_def)
qed

lemma last_end: "ok x \<Longrightarrow> fst (pbind get (\<lambda>y. pend (g y)) (put x)) = Some (g x)"
  by (simp add: bind_last pend_def paramEnd_def)

lemmas wire_simps = bind_sep bind_sep' bind_last bind_space last_end

end

subsection \<open>Integers, words and quoted text are wire items\<close>

definition plain_word :: "string \<Rightarrow> bool" where
  "plain_word w \<longleftrightarrow> w \<noteq> [] \<and> hd w \<noteq> DQ \<and> (\<forall>c\<in>set w. \<not> is_space c)"

definition quoted :: "string \<Rightarrow> string" where
  "quoted s = DQ # s @ [DQ]"

definition quotable :: "string \<Rightarrow> bool" where
  "quotable s \<longleftrightarrow> DQ \<notin> set s"

lemma plain_word_skip: "plain_word w \<Longrightarrow> skip_space (w @ r) = w @ r"
  by (cases w) (auto simp: plain_word_def skip_space_Cons)

lemma takeWhile_word:
  assumes "\<forall>c\<in>set w. \<not> stop c"
  shows "takeWhile (\<lambda>c. \<not> stop c) w = w" "dropWhile (\<lambda>c. \<not> stop c) w = []"
    "stop d \<Longrightarrow> takeWhile (\<lambda>c. \<not> stop c) (w @ d # r) = w"
    "stop d \<Longrightarrow> dropWhile (\<lambda>c. \<not> stop c) (w @ d # r) = d # r"
  using assms by (induction w) auto

lemma token_plain:
  assumes "plain_word w" "\<forall>c\<in>set w. \<not> in_delims d c"
  shows "paramNextString d w = (Some w, [])"
    "paramNextString d (w @ CHR '' '' # r) = (Some w, r)"
proof -
  have stop: "\<forall>c\<in>set w. \<not> (is_space c \<or> in_delims d c)"
    using assms by (auto simp: plain_word_def)
  have hd: "hd (w @ x) \<noteq> DQ" "w @ x \<noteq> []" for x
    using assms(1) by (auto simp: plain_word_def)
  show "paramNextString d w = (Some w, [])"
    using hd [of "[]"] takeWhile_word (1,2) [OF stop] plain_word_skip [OF assms(1), of "[]"]
    by (simp add: paramNextString_def)
  show "paramNextString d (w @ CHR '' '' # r) = (Some w, r)"
    using hd [of "CHR '' '' # r"] takeWhile_word (3,4) [OF stop, of "CHR '' ''"]
      plain_word_skip [OF assms(1), of "CHR '' '' # r"]
    by (simp add: paramNextString_def)
qed

lemma show_int_plain: "plain_word (show_int i)" "\<forall>c\<in>set (show_int i). \<not> in_delims (Some '','') c"
proof -
  have *: "\<not> is_space c \<and> c \<noteq> CHR '','' \<and> c \<noteq> DQ" if "c \<in> set (show_int i)" for c
    using show_int_chars [OF that] by (auto dest: digit_not_space)
  then show "plain_word (show_int i)"
    using hd_in_set [of "show_int i"] by (auto simp: plain_word_def)
  show "\<forall>c\<in>set (show_int i). \<not> in_delims (Some '','') c"
    using * by (auto simp: in_delims_def)
qed

lemma read_strtol_show_int:
  assumes "long_min \<le> i" "i \<le> long_max"
  shows "read_strtol (Some '','') (show_int i) = (Some i, [])"
    "read_strtol (Some '','') (show_int i @ CHR '' '' # r) = (Some i, r)"
  using token_plain [OF show_int_plain] strtol10_show_int [OF assms, of "[]"]
  by (simp_all add: read_strtol_def)

interpretation int_item: wire_item show_int paramNextInteger int32_range
proof unfold_locales
  fix x r assume ok: "int32_range x"
  then have r: "long_min \<le> x" "x \<le> long_max"
    by (simp_all add: int32_range_def long_min_def long_max_def)
  show "fst (paramNextInteger (show_int x)) = Some x
      \<and> skip_space (snd (paramNextInteger (show_int x))) = []"
    using ok by (simp add: paramNextInteger_def read_strtol_show_int [OF r])
  show "fst (paramNextInteger (show_int x @ '' '' @ r)) = Some x
      \<and> skip_space (snd (paramNextInteger (show_int x @ '' '' @ r))) = skip_space r"
    using ok by (simp add: paramNextInteger_def read_strtol_show_int [OF r])
qed simp

interpretation long_item: wire_item show_int paramNextLongLong "\<lambda>i. long_min \<le> i \<and> i \<le> long_max"
  by unfold_locales (simp_all add: paramNextLongLong_def read_strtol_show_int)

interpretation word_item: wire_item "\<lambda>w. w" "paramNextString None" plain_word
  by unfold_locales (simp_all add: token_plain in_delims_def)

lemma token_quoted:
  assumes "quotable s"
  shows "paramNextString d (quoted s @ r) = (Some s, r)"
proof -
  have "takeWhile (\<lambda>c. c \<noteq> DQ) (s @ DQ # r) = s" "dropWhile (\<lambda>c. c \<noteq> DQ) (s @ DQ # r) = DQ # r"
    using takeWhile_word (3,4) [where w = s and stop = "\<lambda>c. c = DQ" and d = DQ and r = r] assms
    by (fastforce simp: quotable_def)+
  then show ?thesis by (simp add: paramNextString_def quoted_def skip_space_Cons)
qed

interpretation quoted_item: wire_item quoted "paramNextString None" quotable
  using token_quoted [where r = "[]"] by unfold_locales (simp_all add: token_quoted skip_space_Cons)

lemma u32_in_long: "long_min \<le> uint (w :: u32) \<and> uint w \<le> long_max"
proof -
  have "uint w < 4294967296" using uint_lt2p [of w] by simp
  moreover have "0 \<le> uint w" by simp
  ultimately show ?thesis unfolding long_min_def long_max_def by linarith
qed

end
