(* ===== verification/Connection.thy ===== *)
theory Connection
  imports Status ConnText
begin

section \<open>A connection and its command queue\<close>

text \<open>
  The command half of \<open>rts2core::Connection\<close> (\<open>base/kernel/src/connection.cpp\<close>) and the
  command objects it carries (\<open>command.cpp\<close>, \<open>command.h\<close>). A component queues commands on
  the connection to a peer; one of them is running, and its reply starts the next. A command
  may name block-operation (BOP) bits: it is then preceded by a \<open>device_status\<close> query and
  held back while the peer's full BOP state has one of its bits.

  The record \<open>conn\<close> holds the fields of the class that these operations read or write.
  The socket is the flag \<open>sock_open\<close> with \<open>writes\<close>, the results the next \<open>write\<close> calls
  will have (\<open>False\<close>: an error or a short write; an exhausted list stands for writes that
  succeed), and \<open>clock\<close> is what \<open>time\<close> returns. What the connection does to the rest of the
  program is recorded, in order, in \<open>outs\<close>: the lines handed to \<open>write\<close> and the calls of
  the owner (\<open>Block\<close>), of the attached \<open>DevClient\<close> and of a command's originator. Log
  output is left out.
\<close>

subsection \<open>Commands\<close>

abbreviation BOP_WHILE_STATE :: u32 where "BOP_WHILE_STATE \<equiv> 0x00001000"
abbreviation BOP_CIP_MASK :: u32 where "BOP_CIP_MASK \<equiv> 0x00006000"
abbreviation CIP_NOT_CALLED :: u32 where "CIP_NOT_CALLED \<equiv> 0"
abbreviation CIP_WAIT :: u32 where "CIP_WAIT \<equiv> 0x00002000"
abbreviation CIP_RUN :: u32 where "CIP_RUN \<equiv> 0x00004000"
abbreviation CIP_RETURN :: u32 where "CIP_RETURN \<equiv> 0x00006000"

text \<open>
  The command classes whose return handlers differ. A connection is named by its number; the
  controlling connection of a status query may be gone (\<open>None\<close>).
\<close>

datatype cmd_kind =
    PlainCommand
  | SendKey int int int
  | Authorize int
  | StatusInfo "nat option"
  | DeviceStatus "nat option"

record command =
  ctext :: string
  cbop :: u32
  corig :: "nat option"
  ckind :: cmd_kind

definition new_command :: "cmd_kind \<Rightarrow> string \<Rightarrow> command" where
  "new_command k t = \<lparr>ctext = t, cbop = 0, corig = None, ckind = k\<rparr>"

definition progress :: "command \<Rightarrow> u32" where
  "progress cmd = cbop cmd AND BOP_CIP_MASK"

definition set_progress :: "u32 \<Rightarrow> command \<Rightarrow> command" where
  "set_progress p cmd = cmd\<lparr>cbop := (cbop cmd AND NOT BOP_CIP_MASK) OR (p AND BOP_CIP_MASK)\<rparr>"

definition commandSendKey :: "int \<Rightarrow> int \<Rightarrow> int \<Rightarrow> command" where
  "commandSendKey cid num key = new_command (SendKey cid num key) []"

definition commandAuthorize :: "int \<Rightarrow> int \<Rightarrow> command" where
  "commandAuthorize client key = new_command (Authorize client)
     (''authorize '' @ show_int client @ '' '' @ show_int key)"

definition commandKey :: "string \<Rightarrow> command" where
  "commandKey dev = new_command PlainCommand (''key '' @ dev)"

definition commandStatusInfo :: "nat option \<Rightarrow> command" where
  "commandStatusInfo control = new_command (StatusInfo control) ''status_info''"

definition commandDeviceStatus :: "nat option \<Rightarrow> command" where
  "commandDeviceStatus control = new_command (DeviceStatus control) ''device_status''"

definition commandMessageMask :: "int \<Rightarrow> command" where
  "commandMessageMask m = new_command PlainCommand (''message_mask '' @ show_int m)"

text \<open>\<open>CommandSendKey::send\<close> writes its text only when it is sent.\<close>

definition send_text :: "command \<Rightarrow> string" where
  "send_text cmd = (case ckind cmd of
     SendKey cid num key \<Rightarrow> ''auth '' @ show_int cid @ '' '' @ show_int num @ '' '' @ show_int key
   | _ \<Rightarrow> ctext cmd)"

definition cmd_deleteConnection :: "nat \<Rightarrow> command \<Rightarrow> command" where
  "cmd_deleteConnection i cmd =
     (let cmd1 = (case ckind cmd of
                    StatusInfo c \<Rightarrow> if c = Some i then cmd\<lparr>ckind := StatusInfo None\<rparr> else cmd
                  | DeviceStatus c \<Rightarrow> if c = Some i then cmd\<lparr>ckind := DeviceStatus None\<rparr> else cmd
                  | _ \<Rightarrow> cmd)
      in if corig cmd1 = Some i then cmd1\<lparr>corig := None\<rparr> else cmd1)"

subsection \<open>The connection\<close>

datatype conn_type_t = NOT_DEFINED_SERVER | CLIENT_SERVER | DEVICE_SERVER | DEVICE_DEVICE

datatype conn_state_t =
    CONN_UNKNOW | CONN_RESOLVING_DEVICE | CONN_CONNECTING | CONN_INPROGRESS | CONN_CONNECTED
  | CONN_BROKEN | CONN_DELETE | CONN_AUTH_PENDING | CONN_AUTH_OK | CONN_AUTH_FAILED

datatype run_status = WAITING | SEND | RETURNING

datatype conn_out =
    Wire string
  | OtherCommandReturn command int
  | OtherStateChanged server_state
  | CommandOK nat command
  | CommandFailed nat command
  | StatusWait nat
  | DeviceReady
  | DeviceIdle
  | AddressLost

record conn =
  cid :: nat
  cname :: string
  ctype :: conn_type_t
  cstate :: conn_state_t
  ckey :: int
  centrald_num :: int
  centrald_id :: int
  sock_open :: bool
  serverState :: server_state
  bopState :: server_state
  commandQue :: "command list"
  runningCommand :: "command option"
  runningCommandStatus :: run_status
  has_other :: bool
  can_delete :: bool
  send_all :: bool
  authPendingSince :: int
  authPendingWarned :: bool
  authRetries :: nat
  authSent :: bool
  lastGoodSend :: int
  lastData :: int
  lastSendReady :: int
  connectionTimeout :: int
  clock :: int
  writes :: "bool list"
  outs :: "conn_out list"

definition emit :: "conn_out \<Rightarrow> 'a conn_scheme \<Rightarrow> 'a conn_scheme" where
  "emit e c = c\<lparr>outs := outs c @ [e]\<rparr>"

definition getState :: "'a conn_scheme \<Rightarrow> u32" where
  "getState c = ss_value (serverState c)"

definition isGoodWeather :: "'a conn_scheme \<Rightarrow> bool" where
  "isGoodWeather c \<longleftrightarrow> getState c AND WEATHER_MASK = GOOD_WEATHER"

definition canMove :: "'a conn_scheme \<Rightarrow> bool" where
  "canMove c \<longleftrightarrow> getState c AND STOP_MASK = CAN_MOVE"

definition getBopState :: "'a conn_scheme \<Rightarrow> u32" where
  "getBopState c = getState c AND BOP_MASK"

definition getFullBopState :: "'a conn_scheme \<Rightarrow> u32" where
  "getFullBopState c = ss_value (bopState c)"

definition setKey :: "int \<Rightarrow> 'a conn_scheme \<Rightarrow> 'a conn_scheme" where
  "setKey k c = (if ckey c = 0 then c\<lparr>ckey := k\<rparr> else c)"

subsection \<open>Sending and losing the link\<close>

definition connectionError :: "'a conn_scheme \<Rightarrow> 'a conn_scheme" where
  "connectionError c =
     (let was_open = (cstate c \<noteq> CONN_DELETE \<and> cstate c \<noteq> CONN_BROKEN);
          c1 = c\<lparr>cstate := (if can_delete c then CONN_DELETE else CONN_BROKEN), sock_open := False\<rparr>
      in if was_open \<and> cname c \<noteq> [] then emit AddressLost c1 else c1)"

definition dropConnection :: "'a conn_scheme \<Rightarrow> 'a conn_scheme" where
  "dropConnection c = connectionError c"

definition sendMsg :: "string \<Rightarrow> 'a conn_scheme \<Rightarrow> int \<times> 'a conn_scheme" where
  "sendMsg msg c =
     (if \<not> sock_open c then (-1, c)
      else if cstate c = CONN_INPROGRESS then (-1, c)
      else let c1 = c\<lparr>writes := tl (writes c)\<rparr> in
        if writes c \<noteq> [] \<and> \<not> hd (writes c) then (-1, dropConnection c1)
        else (0, emit (Wire msg) c1\<lparr>lastGoodSend := clock c\<rparr>))"

definition send_command :: "command \<Rightarrow> 'a conn_scheme \<Rightarrow> 'a conn_scheme" where
  "send_command cmd c = snd (sendMsg (send_text cmd) c)"

subsection \<open>The queue\<close>

definition sendCommand :: "'a conn_scheme \<Rightarrow> 'a conn_scheme" where
  "sendCommand c =
     (case runningCommand c of None \<Rightarrow> c | Some cmd \<Rightarrow>
       if cbop cmd \<noteq> 0 then
         if cbop cmd AND BOP_WHILE_STATE \<noteq> 0 then
           if getFullBopState c AND cbop cmd AND BOP_MASK \<noteq> 0 then
             if progress cmd = CIP_WAIT then c\<lparr>runningCommandStatus := WAITING\<rparr>
             else (send_command cmd c)\<lparr>runningCommandStatus := SEND,
                    runningCommand := Some (set_progress CIP_WAIT cmd)\<rparr>
           else c\<lparr>runningCommand := Some (set_progress CIP_RUN cmd)\<rparr>
         else if progress cmd = CIP_NOT_CALLED then
           let st = set_progress CIP_RETURN (commandDeviceStatus (Some (cid c)));
               c1 = send_command st c
           in c1\<lparr>commandQue := set_progress CIP_WAIT cmd # commandQue c1,
                 runningCommand := Some st, runningCommandStatus := SEND\<rparr>
         else if progress cmd = CIP_RETURN then c
         else
           let cmd1 = set_progress CIP_RUN cmd in
           if getFullBopState c AND cbop cmd1 AND BOP_MASK \<noteq> 0
           then c\<lparr>runningCommand := Some cmd1, runningCommandStatus := WAITING\<rparr>
           else (send_command cmd1 c)\<lparr>runningCommandStatus := SEND,
                  runningCommand := Some (set_progress CIP_RETURN cmd1)\<rparr>
       else (send_command cmd c)\<lparr>runningCommandStatus := SEND\<rparr>)"

definition sendNextCommand :: "'a conn_scheme \<Rightarrow> 'a conn_scheme" where
  "sendNextCommand c =
     (case commandQue c of
        [] \<Rightarrow> c\<lparr>runningCommand := None\<rparr>
      | cmd # q \<Rightarrow> sendCommand (c\<lparr>runningCommand := Some cmd, commandQue := q\<rparr>))"

definition setConnState :: "conn_state_t \<Rightarrow> 'a conn_scheme \<Rightarrow> 'a conn_scheme" where
  "setConnState new c =
     (let c1 = (if new = CONN_AUTH_PENDING \<and> cstate c \<noteq> CONN_AUTH_PENDING
                then c\<lparr>authPendingSince := clock c, authPendingWarned := False\<rparr> else c);
          c2 = (if new = CONN_AUTH_OK then c1\<lparr>authRetries := 0\<rparr> else c1);
          c3 = (if (new = CONN_AUTH_OK \<or> new = CONN_CONNECTED) \<and> runningCommand c2 = None
                then sendNextCommand c2 else c2);
          c4 = c3\<lparr>cstate := new\<rparr>
      in if new = CONN_AUTH_FAILED then dropConnection c4 else c4)"

definition queCommand :: "command \<Rightarrow> 'a conn_scheme \<Rightarrow> int \<times> 'a conn_scheme" where
  "queCommand cmd c =
     (if runningCommand c \<noteq> None \<or> (cstate c \<noteq> CONN_AUTH_OK \<and> cstate c \<noteq> CONN_CONNECTED)
      then (1, c\<lparr>commandQue := commandQue c @ [cmd]\<rparr>)
      else let c1 = sendCommand (c\<lparr>runningCommand := Some cmd\<rparr>)
           in (if runningCommandStatus c1 = SEND then 0 else 1, c1))"

definition queCommand_bop :: "command \<Rightarrow> u32 \<Rightarrow> nat option \<Rightarrow> 'a conn_scheme \<Rightarrow> int \<times> 'a conn_scheme"
  where "queCommand_bop cmd notBop originator c = queCommand (cmd\<lparr>cbop := notBop, corig := originator\<rparr>) c"

definition queSend :: "command \<Rightarrow> 'a conn_scheme \<Rightarrow> 'a conn_scheme" where
  "queSend cmd c =
     (if cstate c = CONN_CONNECTING \<or> cstate c = CONN_INPROGRESS \<or> cstate c = CONN_UNKNOW
      then c\<lparr>commandQue := cmd # commandQue c\<rparr>
      else case runningCommand c of
        Some run \<Rightarrow>
          if runningCommandStatus c = SEND \<or> runningCommandStatus c = RETURNING
          then c\<lparr>commandQue := cmd # commandQue c\<rparr>
          else sendCommand (c\<lparr>commandQue := run # commandQue c, runningCommand := Some cmd\<rparr>)
      | None \<Rightarrow> sendCommand (c\<lparr>runningCommand := Some cmd\<rparr>))"

subsection \<open>Replies\<close>

definition updateStatusWait :: "'a conn_scheme \<Rightarrow> 'a conn_scheme" where
  "updateStatusWait c =
     (case runningCommand c of
        Some cmd \<Rightarrow> if progress cmd = CIP_WAIT then sendCommand c else c
      | None \<Rightarrow> c)"

definition masterStateChanged :: "'a conn_scheme \<Rightarrow> 'a conn_scheme" where
  "masterStateChanged c =
     (case runningCommand c of
        Some cmd \<Rightarrow> if progress cmd = CIP_RUN then sendCommand c else c
      | None \<Rightarrow> c)"

definition setBopState :: "u32 \<Rightarrow> 'a conn_scheme \<Rightarrow> 'a conn_scheme" where
  "setBopState v c = masterStateChanged (c\<lparr>bopState := ss_setValue v (bopState c)\<rparr>)"

definition notify_orig :: "(nat \<Rightarrow> command \<Rightarrow> conn_out) \<Rightarrow> command \<Rightarrow> 'a conn_scheme \<Rightarrow> 'a conn_scheme" where
  "notify_orig ev cmd c = (case corig cmd of None \<Rightarrow> c | Some i \<Rightarrow> emit (ev i cmd) c)"

definition control_wait :: "nat option \<Rightarrow> 'a conn_scheme \<Rightarrow> 'a conn_scheme" where
  "control_wait control c = (case control of
     None \<Rightarrow> c
   | Some i \<Rightarrow> if i = cid c then updateStatusWait c else emit (StatusWait i) c)"

definition commandReturnOK :: "command \<Rightarrow> 'a conn_scheme \<Rightarrow> 'a conn_scheme" where
  "commandReturnOK cmd c = (case ckind cmd of
     SendKey _ _ _ \<Rightarrow> setConnState CONN_AUTH_OK c
   | StatusInfo control \<Rightarrow> notify_orig CommandOK cmd (control_wait control c)
   | DeviceStatus control \<Rightarrow> notify_orig CommandOK cmd (control_wait control c)
   | _ \<Rightarrow> notify_orig CommandOK cmd c)"

definition commandReturnQued :: "command \<Rightarrow> 'a conn_scheme \<Rightarrow> 'a conn_scheme" where
  "commandReturnQued cmd c = commandReturnOK cmd (notify_orig CommandOK cmd c)"

definition commandReturnFailed :: "command \<Rightarrow> int \<Rightarrow> 'a conn_scheme \<Rightarrow> 'a conn_scheme" where
  "commandReturnFailed cmd status c = (case ckind cmd of
     SendKey _ _ _ \<Rightarrow> setConnState CONN_AUTH_FAILED c
   | Authorize _ \<Rightarrow> c
   | StatusInfo control \<Rightarrow> notify_orig CommandOK cmd (control_wait control c)
   | DeviceStatus control \<Rightarrow> notify_orig CommandOK cmd (control_wait control c)
   | PlainCommand \<Rightarrow> notify_orig CommandFailed cmd c)"

definition cmd_commandReturn :: "command \<Rightarrow> int \<Rightarrow> 'a conn_scheme \<Rightarrow> 'a conn_scheme" where
  "cmd_commandReturn cmd status c =
     (if status = 0 then commandReturnOK cmd c
      else if status = 1 then commandReturnQued cmd c
      else commandReturnFailed cmd status c)"

definition other_commandReturn :: "command \<Rightarrow> int \<Rightarrow> 'a conn_scheme \<Rightarrow> 'a conn_scheme" where
  "other_commandReturn cmd status c =
     (if has_other c then emit (OtherCommandReturn cmd status) c else c)"

text \<open>All return handlers modelled return -1, so the command is deleted and the next is sent.\<close>

definition commandReturn :: "int \<Rightarrow> 'a conn_scheme \<Rightarrow> 'a conn_scheme" where
  "commandReturn stat c =
     (case runningCommand c of
        None \<Rightarrow> c
      | Some cmd \<Rightarrow>
          sendNextCommand (cmd_commandReturn cmd stat
            (other_commandReturn cmd stat (c\<lparr>runningCommandStatus := RETURNING\<rparr>))))"

subsection \<open>The rest of the queue's operations\<close>

definition queEmptyForOriginator :: "nat option \<Rightarrow> 'a conn_scheme \<Rightarrow> bool" where
  "queEmptyForOriginator orig c \<longleftrightarrow>
     \<not> (\<exists>cmd. runningCommand c = Some cmd \<and> runningCommandStatus c \<noteq> RETURNING \<and> corig cmd = orig)
     \<and> (\<forall>cmd\<in>set (commandQue c). corig cmd \<noteq> orig)"

lemma queEmptyForOriginator_code [code]:
  "queEmptyForOriginator orig c \<longleftrightarrow>
     (case runningCommand c of None \<Rightarrow> True | Some cmd \<Rightarrow> runningCommandStatus c = RETURNING \<or> corig cmd \<noteq> orig)
     \<and> (\<forall>cmd\<in>set (commandQue c). corig cmd \<noteq> orig)"
  by (auto simp: queEmptyForOriginator_def split: option.split)

definition queEmpty :: "'a conn_scheme \<Rightarrow> bool" where
  "queEmpty c \<longleftrightarrow> \<not> (runningCommandStatus c \<noteq> RETURNING \<and> runningCommand c \<noteq> None)
     \<and> commandQue c = []"

definition queClear :: "bool \<Rightarrow> 'a conn_scheme \<Rightarrow> 'a conn_scheme" where
  "queClear clear_running c =
     (if runningCommand c \<noteq> None \<and> (clear_running \<or> runningCommandStatus c \<noteq> SEND)
      then c\<lparr>runningCommand := None, commandQue := []\<rparr>
      else c\<lparr>commandQue := []\<rparr>)"

definition deleteConnection :: "nat \<Rightarrow> 'a conn_scheme \<Rightarrow> 'a conn_scheme" where
  "deleteConnection i c =
     c\<lparr>runningCommand := map_option (cmd_deleteConnection i) (runningCommand c),
       commandQue := map (cmd_deleteConnection i) (commandQue c)\<rparr>"

definition failSentCommand :: "'a conn_scheme \<Rightarrow> 'a conn_scheme" where
  "failSentCommand c =
     (case runningCommand c of
        None \<Rightarrow> c
      | Some cmd \<Rightarrow>
          if runningCommandStatus c \<noteq> SEND then c
          else cmd_commandReturn cmd DEVDEM_E_SYSTEM
                 (other_commandReturn cmd DEVDEM_E_SYSTEM (c\<lparr>runningCommand := None\<rparr>)))"

definition markAuthSent :: "'a conn_scheme \<Rightarrow> bool \<times> 'a conn_scheme" where
  "markAuthSent c = (if authSent c then (False, c) else (True, c\<lparr>authSent := True\<rparr>))"

text \<open>\<open>AUTH_RETRY_FIRST_SEC\<close> doubled with each retry, at most \<open>AUTH_RETRY_MAX_SEC\<close>.\<close>

definition authRetryDelay :: "'a conn_scheme \<Rightarrow> int" where
  "authRetryDelay c = min (push_bit (min (authRetries c) 4) 30) 300"

text \<open>
  The reconnect of a handshake retry. \<open>init\<close> is the virtual function that opens the new
  socket; a non-zero result is a failure.
\<close>

definition reconnectSocket :: "('a conn_scheme \<Rightarrow> int \<times> 'a conn_scheme) \<Rightarrow> 'a conn_scheme \<Rightarrow> 'a conn_scheme"
  where
  "reconnectSocket init c =
     (let c1 = c\<lparr>sock_open := False, authSent := False\<rparr>;
          c2 = (case runningCommand c1 of
                  None \<Rightarrow> c1
                | Some cmd \<Rightarrow>
                    (case ckind cmd of
                       SendKey _ _ _ \<Rightarrow> c1\<lparr>runningCommand := None\<rparr>
                     | _ \<Rightarrow> c1\<lparr>commandQue := cmd # commandQue c1, runningCommand := None\<rparr>));
          (ret, c3) = init (setConnState CONN_CONNECTING c2)
      in if ret \<noteq> 0 then dropConnection c3 else c3)"

definition setState :: "u32 \<Rightarrow> 'a conn_scheme \<Rightarrow> 'a conn_scheme" where
  "setState v c =
     (let ss = ss_setValue v (serverState c);
          c1 = c\<lparr>serverState := ss\<rparr>;
          c2 = (if has_other c1 then emit (OtherStateChanged ss) c1 else c1)
      in if maskValueChanged DEVICE_NOT_READY ss then
           if ss_value ss AND DEVICE_NOT_READY = 0 then emit DeviceReady c2 else c2
         else if maskValueChanged DEVICE_STATUS_MASK ss
              \<and> ss_value ss AND DEVICE_STATUS_MASK = DEVICE_IDLE
         then emit DeviceIdle c2 else c2)"

text \<open>
  \<open>Connection::idle\<close> of a connection that cannot restart the handshake itself (the base
  class's \<open>retryAuthorization\<close>): the warning flag, the keep-alive and the timeout.
\<close>

definition idle_auth :: "'a conn_scheme \<Rightarrow> 'a conn_scheme" where
  "idle_auth c =
     (if cstate c = CONN_AUTH_PENDING \<and> authPendingSince c > 0
         \<and> \<not> authPendingWarned c \<and> clock c - authPendingSince c > 60
      then c\<lparr>authPendingWarned := True\<rparr> else c)"

definition idle_alive :: "'a conn_scheme \<Rightarrow> 'a conn_scheme" where
  "idle_alive c =
     (if clock c > lastData c + connectionTimeout c
         \<and> clock c > lastSendReady c + connectionTimeout c div 4
      then (snd (sendMsg ''T ready'' c))\<lparr>lastSendReady := clock c\<rparr> else c)"

definition conn_idle :: "'a conn_scheme \<Rightarrow> 'a conn_scheme" where
  "conn_idle c =
     (let c1 = idle_auth c in
      if connectionTimeout c1 > 0 then
        let c2 = idle_alive c1 in
        if clock c2 > lastData c2 + connectionTimeout c2 * 2 then dropConnection c2 else c2
      else c1)"

text \<open>
  The reply a peer sends at the end of a command: the code with its sign, then the text.
\<close>

definition command_end_text :: "int \<Rightarrow> string \<Rightarrow> string" where
  "command_end_text num msg =
     (if num = 0 then ''+0'' else if num > 0 then CHR ''+'' # show_int num else show_int num)
     @ '' '' @ msg"

definition sendCommandEnd :: "int \<Rightarrow> string \<Rightarrow> 'a conn_scheme \<Rightarrow> 'a conn_scheme" where
  "sendCommandEnd num msg c = snd (sendMsg (command_end_text num msg) c)"

subsection \<open>What sending leaves alone\<close>

lemma word_put_get: "((w AND NOT m) OR (p AND m)) AND m = (p :: u32) AND m"
  by (rule bit_word_eqI) (auto simp: bit_simps)

lemma word_put_put:
  "((((w AND NOT m) OR (q AND m)) AND NOT m) OR (p AND m)) = ((w :: u32) AND NOT m) OR (p AND m)"
  by (rule bit_word_eqI) (auto simp: bit_simps)

lemma word_put_other: "m AND k = 0 \<Longrightarrow> ((w AND NOT m) OR (p AND m)) AND k = (w :: u32) AND k"
  by (rule and_or_not_disjoint) (simp_all add: and.assoc)

lemma progress_set [simp]: "progress (set_progress p cmd) = p AND BOP_CIP_MASK"
  unfolding progress_def set_progress_def by (cases cmd) (simp only: command.simps word_put_get)

lemma set_progress_sel [simp]:
  "ctext (set_progress p cmd) = ctext cmd" "corig (set_progress p cmd) = corig cmd"
  "ckind (set_progress p cmd) = ckind cmd"
  by (simp_all add: set_progress_def)

lemma set_progress_twice [simp]: "set_progress p (set_progress q cmd) = set_progress p cmd"
  unfolding set_progress_def by (cases cmd) (simp only: command.simps word_put_put)

lemma cbop_set_progress: "BOP_CIP_MASK AND k = 0 \<Longrightarrow> cbop (set_progress p cmd) AND k = cbop cmd AND k"
  unfolding set_progress_def by (cases cmd) (simp only: command.simps word_put_other)

lemma cbop_set_progress_simps [simp]:
  "cbop (set_progress p cmd) AND BOP_MASK = cbop cmd AND BOP_MASK"
  "cbop (set_progress p cmd) AND BOP_WHILE_STATE = cbop cmd AND BOP_WHILE_STATE"
  by (rule cbop_set_progress, simp)+

lemma send_text_set_progress [simp]: "send_text (set_progress p cmd) = send_text cmd"
  by (simp add: send_text_def split: cmd_kind.splits)

lemma emit_sel [simp]:
  "runningCommand (emit e c) = runningCommand c" "commandQue (emit e c) = commandQue c"
  "runningCommandStatus (emit e c) = runningCommandStatus c" "cid (emit e c) = cid c"
  "bopState (emit e c) = bopState c" "cstate (emit e c) = cstate c"
  "sock_open (emit e c) = sock_open c" "outs (emit e c) = outs c @ [e]"
  "serverState (emit e c) = serverState c" "writes (emit e c) = writes c"
  "has_other (emit e c) = has_other c" "conn.more (emit e c) = conn.more c"
  by (simp_all add: emit_def)

lemma connectionError_sel [simp]:
  "runningCommand (connectionError c) = runningCommand c"
  "commandQue (connectionError c) = commandQue c"
  "runningCommandStatus (connectionError c) = runningCommandStatus c"
  "cid (connectionError c) = cid c" "bopState (connectionError c) = bopState c"
  "serverState (connectionError c) = serverState c" "sock_open (connectionError c) = False"
  "has_other (connectionError c) = has_other c" "conn.more (connectionError c) = conn.more c"
  by (simp_all add: connectionError_def Let_def)

lemma sendMsg_sel [simp]:
  "runningCommand (snd (sendMsg m c)) = runningCommand c"
  "commandQue (snd (sendMsg m c)) = commandQue c"
  "runningCommandStatus (snd (sendMsg m c)) = runningCommandStatus c"
  "cid (snd (sendMsg m c)) = cid c" "bopState (snd (sendMsg m c)) = bopState c"
  "serverState (snd (sendMsg m c)) = serverState c"
  "has_other (snd (sendMsg m c)) = has_other c" "conn.more (snd (sendMsg m c)) = conn.more c"
  by (simp_all add: sendMsg_def dropConnection_def Let_def)

lemma send_command_sel [simp]:
  "runningCommand (send_command cmd c) = runningCommand c"
  "commandQue (send_command cmd c) = commandQue c"
  "runningCommandStatus (send_command cmd c) = runningCommandStatus c"
  "cid (send_command cmd c) = cid c" "bopState (send_command cmd c) = bopState c"
  "serverState (send_command cmd c) = serverState c"
  "has_other (send_command cmd c) = has_other c" "conn.more (send_command cmd c) = conn.more c"
  by (simp_all add: send_command_def)

lemma sendCommand_frame [simp]:
  "cid (sendCommand c) = cid c" "bopState (sendCommand c) = bopState c"
  "serverState (sendCommand c) = serverState c" "has_other (sendCommand c) = has_other c"
  "conn.more (sendCommand c) = conn.more c"
  by (simp_all add: sendCommand_def Let_def split: option.splits)

lemma sendNextCommand_frame [simp]:
  "cid (sendNextCommand c) = cid c" "bopState (sendNextCommand c) = bopState c"
  "serverState (sendNextCommand c) = serverState c" "has_other (sendNextCommand c) = has_other c"
  "conn.more (sendNextCommand c) = conn.more c"
  by (simp_all add: sendNextCommand_def split: list.splits)

lemma setConnState_frame [simp]:
  "cid (setConnState n c) = cid c" "bopState (setConnState n c) = bopState c"
  "serverState (setConnState n c) = serverState c" "conn.more (setConnState n c) = conn.more c"
  by (simp_all add: setConnState_def dropConnection_def Let_def)

text \<open>\<open>connectionError\<close> sets a closed state directly: there \<open>setConnState\<close> is an assignment.\<close>

lemma setConnState_closed:
  "st \<in> {CONN_DELETE, CONN_BROKEN, CONN_CONNECTING, CONN_INPROGRESS} \<Longrightarrow> setConnState st c = c\<lparr>cstate := st\<rparr>"
  by (cases st) (simp_all add: setConnState_def Let_def)

end
