(* ===== verification/Runs.thy ===== *)
theory Runs
  imports Rts2Prelude
begin

section \<open>Runs of a component\<close>

text \<open>
  A component's model is a step function on its state, one step per event; a run is a list of
  events. The locale \<open>invariant_system\<close> is the contract every component of the development
  provides: a state predicate that every admissible event preserves. \<open>fifo_service\<close> extends it
  with the contract of a server that answers in order. Each is interpreted in the theory of the
  component that provides it.
\<close>

fun run_steps :: "('e \<Rightarrow> 's \<Rightarrow> 's) \<Rightarrow> 'e list \<Rightarrow> 's \<Rightarrow> 's" where
  "run_steps step [] s = s"
| "run_steps step (e # es) s = run_steps step es (step e s)"

fun run_done :: "('e \<Rightarrow> 's \<Rightarrow> 's) \<Rightarrow> ('e \<Rightarrow> 's \<Rightarrow> 'm list) \<Rightarrow> 'e list \<Rightarrow> 's \<Rightarrow> 'm list" where
  "run_done step dn [] s = []"
| "run_done step dn (e # es) s = dn e s @ run_done step dn es (step e s)"

lemma run_steps_append: "run_steps step (xs @ ys) s = run_steps step ys (run_steps step xs s)"
  by (induction xs arbitrary: s) simp_all

lemma fold_inv: "P s \<Longrightarrow> (\<And>x s. x \<in> set xs \<Longrightarrow> P s \<Longrightarrow> P (f x s)) \<Longrightarrow> P (fold f xs s)"
  by (induction xs arbitrary: s) simp_all

locale invariant_system =
  fixes inv :: "'s \<Rightarrow> bool" and ok_event :: "'e \<Rightarrow> 's \<Rightarrow> bool" and step :: "'e \<Rightarrow> 's \<Rightarrow> 's"
  assumes inv_step: "inv s \<Longrightarrow> ok_event e s \<Longrightarrow> inv (step e s)"
    and ok_step: "ok_event f s \<Longrightarrow> ok_event f (step e s)"
begin

lemma inv_run: "inv s \<Longrightarrow> (\<forall>e\<in>set es. ok_event e s) \<Longrightarrow> inv (run_steps step es s)"
proof (induction es arbitrary: s)
  case (Cons e es)
  then show ?case using inv_step ok_step by simp
qed simp

end

locale fifo_service = invariant_system inv ok_event step
  for inv :: "'s \<Rightarrow> bool" and ok_event :: "'e \<Rightarrow> 's \<Rightarrow> bool" and step :: "'e \<Rightarrow> 's \<Rightarrow> 's" +
  fixes pend :: "'s \<Rightarrow> 'm list"
    and added :: "'e \<Rightarrow> 'm list"
    and answered :: "'e \<Rightarrow> 's \<Rightarrow> 'm list"
  assumes fifo_step: "inv s \<Longrightarrow> ok_event e s \<Longrightarrow> answered e s @ pend (step e s) = pend s @ added e"
begin

lemma fifo_run:
  "inv s \<Longrightarrow> (\<forall>e\<in>set es. ok_event e s) \<Longrightarrow>
   run_done step answered es s @ pend (run_steps step es s) = pend s @ concat (map added es)"
proof (induction es arbitrary: s)
  case Nil
  then show ?case by simp
next
  case (Cons e es)
  have "run_done step answered es (step e s) @ pend (run_steps step es (step e s))
      = pend (step e s) @ concat (map added es)"
    using Cons.prems by (intro Cons.IH) (auto intro: inv_step ok_step)
  then have "run_done step answered (e # es) s @ pend (run_steps step (e # es) s)
      = (answered e s @ pend (step e s)) @ concat (map added es)" by simp
  then show ?case using fifo_step [of s e] Cons.prems by simp
qed

end

end
