(* ===== verification/ConnQueue.thy ===== *)
theory ConnQueue
  imports Connection Runs
begin

section \<open>The command queue: order, block operations, the lost reply\<close>

text \<open>
  Properties of the queue of \<open>Connection\<close>. \<open>pending\<close> is what a user of the connection
  sees of it: the commands not answered yet, in order, without the \<open>device_status\<close> queries
  the connection sends on its own and without the progress bits. The connection is a
  \<open>fifo_service\<close>, with the events of \<open>conn_step\<close>, under the invariant \<open>queue_inv\<close>.
\<close>

subsection \<open>Pending commands\<close>

definition is_status :: "command \<Rightarrow> bool" where
  "is_status cmd = (case ckind cmd of DeviceStatus _ \<Rightarrow> True | _ \<Rightarrow> False)"

definition strip :: "command \<Rightarrow> command list" where
  "strip cmd = (if is_status cmd then [] else [set_progress CIP_NOT_CALLED cmd])"

definition user_cmds :: "command list \<Rightarrow> command list" where
  "user_cmds cs = concat (map strip cs)"

definition all_cmds :: "'a conn_scheme \<Rightarrow> command list" where
  "all_cmds c = (case runningCommand c of None \<Rightarrow> [] | Some r \<Rightarrow> [r]) @ commandQue c"

definition pending :: "'a conn_scheme \<Rightarrow> command list" where
  "pending c = user_cmds (all_cmds c)"

lemma is_status_set_progress [simp]: "is_status (set_progress p cmd) = is_status cmd"
  by (simp add: is_status_def)

lemma is_status_DeviceStatus [simp]: "is_status (commandDeviceStatus x)"
  by (simp add: is_status_def commandDeviceStatus_def new_command_def)

lemma user_cmds_simps [simp]:
  "user_cmds [] = []"
  "user_cmds (c # cs) = strip c @ user_cmds cs"
  "user_cmds (xs @ ys) = user_cmds xs @ user_cmds ys"
  by (simp_all add: user_cmds_def)

lemma strip_simps [simp]:
  "strip (set_progress p cmd) = strip cmd" "strip (commandDeviceStatus x) = []"
  by (simp_all add: strip_def)

lemma pending_sendCommand [simp]: "pending (sendCommand c) = pending c"
  by (cases "runningCommand c")
    (simp_all add: sendCommand_def pending_def all_cmds_def Let_def)

lemma pending_sendNextCommand: "pending (sendNextCommand c) = user_cmds (commandQue c)"
  by (simp add: sendNextCommand_def pending_def [of "c\<lparr>runningCommand := None\<rparr>"] all_cmds_def
      split: list.splits)
    (simp add: pending_def all_cmds_def)

subsection \<open>The invariant\<close>

text \<open>
  A status query of the connection's own has nothing but \<open>CIP_RETURN\<close> in its mask, and no
  status query of another component names this connection as its controller.
\<close>

definition cmd_wf :: "nat \<Rightarrow> command \<Rightarrow> bool" where
  "cmd_wf i cmd \<longleftrightarrow> (is_status cmd \<longrightarrow> cbop cmd = CIP_RETURN) \<and> ckind cmd \<noteq> StatusInfo (Some i)"

definition conn_wf :: "'a conn_scheme \<Rightarrow> bool" where
  "conn_wf c \<longleftrightarrow> (\<forall>cmd\<in>set (all_cmds c). cmd_wf (cid c) cmd)"

lemma cmd_wf_set_progress: "\<not> is_status cmd \<Longrightarrow> cmd_wf i (set_progress p cmd) = cmd_wf i cmd"
  by (simp add: cmd_wf_def)

lemma cmd_wf_own_status: "cmd_wf i (set_progress CIP_RETURN (commandDeviceStatus x))"
  by (simp add: cmd_wf_def set_progress_def commandDeviceStatus_def new_command_def)

lemma sendCommand_status:
  assumes "runningCommand c = Some cmd" "is_status cmd" "cmd_wf i cmd"
  shows "sendCommand c = c"
  using assms by (simp add: sendCommand_def cmd_wf_def progress_def)

lemma conn_wf_sendCommand: "conn_wf c \<Longrightarrow> conn_wf (sendCommand c)"
proof (cases "runningCommand c")
  case None
  then show "conn_wf c \<Longrightarrow> ?thesis" by (simp add: sendCommand_def)
next
  case (Some cmd)
  assume wf: "conn_wf c"
  then have cmd: "cmd_wf (cid c) cmd" using Some by (simp add: conn_wf_def all_cmds_def)
  show ?thesis
  proof (cases "is_status cmd")
    case True
    then show ?thesis using wf sendCommand_status [OF Some True cmd] by simp
  next
    case False
    then show ?thesis
      using wf Some cmd cmd_wf_own_status [of "cid c" "Some (cid c)"]
      by (auto simp: sendCommand_def conn_wf_def all_cmds_def Let_def cmd_wf_set_progress)
  qed
qed

lemma conn_wf_sendNextCommand:
  assumes "\<forall>cmd\<in>set (commandQue c). cmd_wf (cid c) cmd"
  shows "conn_wf (sendNextCommand c)"
proof (cases "commandQue c")
  case Nil
  then show ?thesis by (simp add: sendNextCommand_def conn_wf_def all_cmds_def)
next
  case (Cons x xs)
  then have "conn_wf (c\<lparr>runningCommand := Some x, commandQue := xs\<rparr>)"
    using assms by (simp add: conn_wf_def all_cmds_def)
  then show ?thesis using Cons conn_wf_sendCommand by (simp add: sendNextCommand_def)
qed

subsection \<open>Events\<close>

text \<open>
  What can happen to a connection whose handshake is over or under way: a command is queued,
  a reply comes, the peer's full BOP state or state changes, the master's state changes, the
  connection's own state changes, another message is sent on it, or it idles. The environment
  may set the clock and the results of the coming writes before any event.
\<close>

datatype conn_event =
    EvQue command
  | EvReply int
  | EvBop u32
  | EvState u32
  | EvMaster
  | EvStatusWait
  | EvConnState conn_state_t
  | EvMsg string
  | EvIdle
  | EvEnv int "bool list"

fun conn_step :: "conn_event \<Rightarrow> 'a conn_scheme \<Rightarrow> 'a conn_scheme" where
  "conn_step (EvQue cmd) c = snd (queCommand cmd c)"
| "conn_step (EvReply st) c = commandReturn st c"
| "conn_step (EvBop v) c = setBopState v c"
| "conn_step (EvState v) c = setState v c"
| "conn_step EvMaster c = masterStateChanged c"
| "conn_step EvStatusWait c = updateStatusWait c"
| "conn_step (EvConnState st) c = setConnState st c"
| "conn_step (EvMsg m) c = snd (sendMsg m c)"
| "conn_step EvIdle c = conn_idle c"
| "conn_step (EvEnv t ws) c = c\<lparr>clock := t, writes := ws\<rparr>"

fun ev_ok :: "conn_event \<Rightarrow> 'a conn_scheme \<Rightarrow> bool" where
  "ev_ok (EvQue cmd) c \<longleftrightarrow> \<not> is_status cmd \<and> cmd_wf (cid c) cmd"
| "ev_ok _ c \<longleftrightarrow> True"

fun ev_added :: "conn_event \<Rightarrow> command list" where
  "ev_added (EvQue cmd) = user_cmds [cmd]"
| "ev_added _ = []"

fun ev_answered :: "conn_event \<Rightarrow> 'a conn_scheme \<Rightarrow> command list" where
  "ev_answered (EvReply st) c =
     (case runningCommand c of None \<Rightarrow> [] | Some cmd \<Rightarrow> user_cmds [cmd])"
| "ev_answered _ c = []"

lemma conn_wf_upd:
  "runningCommand c' = runningCommand c \<Longrightarrow> commandQue c' = commandQue c \<Longrightarrow> cid c' = cid c \<Longrightarrow>
   conn_wf c' = conn_wf c"
  by (simp add: conn_wf_def all_cmds_def)

lemma pending_upd:
  "runningCommand c' = runningCommand c \<Longrightarrow> commandQue c' = commandQue c \<Longrightarrow>
   pending c' = pending c"
  by (simp add: pending_def all_cmds_def)

lemma setConnState_cases:
  obtains c' where "runningCommand c' = runningCommand c" "commandQue c' = commandQue c" "cid c' = cid c"
    "runningCommand (setConnState st c) = runningCommand (if (st = CONN_AUTH_OK \<or> st = CONN_CONNECTED)
        \<and> runningCommand c = None then sendNextCommand c' else c)"
    "commandQue (setConnState st c) = commandQue (if (st = CONN_AUTH_OK \<or> st = CONN_CONNECTED)
        \<and> runningCommand c = None then sendNextCommand c' else c)"
proof (rule that)
  let ?c = "(let c1 = (if st = CONN_AUTH_PENDING \<and> cstate c \<noteq> CONN_AUTH_PENDING
                then c\<lparr>authPendingSince := clock c, authPendingWarned := False\<rparr> else c)
      in (if st = CONN_AUTH_OK then c1\<lparr>authRetries := 0\<rparr> else c1))"
  show "runningCommand ?c = runningCommand c" "commandQue ?c = commandQue c" "cid ?c = cid c"
    by (simp_all add: Let_def)
  show "runningCommand (setConnState st c) = runningCommand (if (st = CONN_AUTH_OK \<or> st = CONN_CONNECTED)
        \<and> runningCommand c = None then sendNextCommand ?c else c)"
    "commandQue (setConnState st c) = commandQue (if (st = CONN_AUTH_OK \<or> st = CONN_CONNECTED)
        \<and> runningCommand c = None then sendNextCommand ?c else c)"
    by (cases st; simp add: setConnState_def dropConnection_def Let_def)+
qed

lemma setConnState_pending: "pending (setConnState st c) = pending c"
proof -
  obtain c' where c': "runningCommand c' = runningCommand c" "commandQue c' = commandQue c"
    "runningCommand (setConnState st c) = runningCommand (if (st = CONN_AUTH_OK \<or> st = CONN_CONNECTED)
        \<and> runningCommand c = None then sendNextCommand c' else c)"
    "commandQue (setConnState st c) = commandQue (if (st = CONN_AUTH_OK \<or> st = CONN_CONNECTED)
        \<and> runningCommand c = None then sendNextCommand c' else c)"
    by (rule setConnState_cases)
  show ?thesis
    using pending_upd [OF c'(3,4)] pending_sendNextCommand [of c'] c'(1,2)
    by (auto simp: pending_def all_cmds_def split: if_splits)
qed

lemma setConnState_wf: "conn_wf c \<Longrightarrow> conn_wf (setConnState st c)"
proof -
  assume wf: "conn_wf c"
  obtain c' where c': "runningCommand c' = runningCommand c" "commandQue c' = commandQue c" "cid c' = cid c"
    "runningCommand (setConnState st c) = runningCommand (if (st = CONN_AUTH_OK \<or> st = CONN_CONNECTED)
        \<and> runningCommand c = None then sendNextCommand c' else c)"
    "commandQue (setConnState st c) = commandQue (if (st = CONN_AUTH_OK \<or> st = CONN_CONNECTED)
        \<and> runningCommand c = None then sendNextCommand c' else c)"
    by (rule setConnState_cases)
  have "conn_wf (sendNextCommand c')"
    using wf c' by (intro conn_wf_sendNextCommand) (auto simp: conn_wf_def all_cmds_def)
  then show ?thesis
    using wf c' by (subst conn_wf_upd [OF c'(4,5)]) auto
qed

lemma setConnState_running:
  "runningCommand c \<noteq> None \<Longrightarrow> runningCommand (setConnState st c) = runningCommand c
     \<and> commandQue (setConnState st c) = commandQue c"
  by (rule setConnState_cases [of c st]) (auto split: if_splits)

lemma notify_orig_sel [simp]:
  "runningCommand (notify_orig ev cmd c) = runningCommand c"
  "commandQue (notify_orig ev cmd c) = commandQue c" "cid (notify_orig ev cmd c) = cid c"
  by (simp_all add: notify_orig_def split: option.splits)

lemma other_commandReturn_sel [simp]:
  "runningCommand (other_commandReturn cmd st c) = runningCommand c"
  "commandQue (other_commandReturn cmd st c) = commandQue c"
  "cid (other_commandReturn cmd st c) = cid c"
  by (simp_all add: other_commandReturn_def)

text \<open>A return handler touches neither the running command nor the queue.\<close>

lemma control_wait_keeps:
  assumes "runningCommand c = Some cmd" "cmd_wf (cid c) cmd"
    "ckind cmd = StatusInfo k \<or> ckind cmd = DeviceStatus k"
  shows "runningCommand (control_wait k c) = Some cmd" "commandQue (control_wait k c) = commandQue c"
    "cid (control_wait k c) = cid c"
  using assms
  by (auto simp: control_wait_def updateStatusWait_def cmd_wf_def is_status_def progress_def
      split: option.splits if_splits)

lemma cmd_commandReturn_keeps:
  assumes "runningCommand c = Some cmd" "cmd_wf (cid c) cmd"
  shows "runningCommand (cmd_commandReturn cmd st c) = Some cmd"
    "commandQue (cmd_commandReturn cmd st c) = commandQue c"
    "cid (cmd_commandReturn cmd st c) = cid c"
  using assms control_wait_keeps [of c cmd] control_wait_keeps [of "notify_orig CommandOK cmd c" cmd]
    setConnState_running [of c] setConnState_running [of "notify_orig CommandOK cmd c"]
  by (auto simp: cmd_commandReturn_def commandReturnOK_def commandReturnQued_def
      commandReturnFailed_def split: cmd_kind.splits)

lemma commandReturn_next:
  assumes "runningCommand c = Some cmd" "cmd_wf (cid c) cmd"
  obtains c' where "commandReturn st c = sendNextCommand c'" "commandQue c' = commandQue c" "cid c' = cid c"
proof (rule that)
  let ?c = "other_commandReturn cmd st (c\<lparr>runningCommandStatus := RETURNING\<rparr>)"
  show "commandReturn st c = sendNextCommand (cmd_commandReturn cmd st ?c)"
    using assms by (simp add: commandReturn_def)
  show "commandQue (cmd_commandReturn cmd st ?c) = commandQue c" "cid (cmd_commandReturn cmd st ?c) = cid c"
    using assms cmd_commandReturn_keeps [of ?c cmd st] by simp_all
qed

lemma commandReturn_pending:
  assumes "conn_wf c" "runningCommand c = Some cmd"
  shows "user_cmds [cmd] @ pending (commandReturn st c) = pending c" "conn_wf (commandReturn st c)"
proof -
  have wf: "cmd_wf (cid c) cmd" using assms by (simp add: conn_wf_def all_cmds_def)
  obtain c' where c': "commandReturn st c = sendNextCommand c'" "commandQue c' = commandQue c" "cid c' = cid c"
    by (rule commandReturn_next [OF assms(2) wf])
  show "user_cmds [cmd] @ pending (commandReturn st c) = pending c"
    using c' assms(2) by (simp add: pending_sendNextCommand) (simp add: pending_def all_cmds_def)
  show "conn_wf (commandReturn st c)"
    unfolding c' (1)
    by (rule conn_wf_sendNextCommand) (use assms c' in \<open>simp add: conn_wf_def all_cmds_def\<close>)
qed

lemma commandReturn_none: "runningCommand c = None \<Longrightarrow> commandReturn st c = c"
  by (simp add: commandReturn_def)

text \<open>
  A connection that serves commands has none waiting without a running one; otherwise a
  command queued then would overtake them.
\<close>

definition conn_busy :: "'a conn_scheme \<Rightarrow> bool" where
  "conn_busy c \<longleftrightarrow> (cstate c = CONN_AUTH_OK \<or> cstate c = CONN_CONNECTED) \<longrightarrow>
     runningCommand c = None \<longrightarrow> commandQue c = []"

lemma queCommand_busy:
  "conn_busy c \<Longrightarrow> pending (snd (queCommand cmd c)) = pending c @ user_cmds [cmd]"
  by (auto simp: queCommand_def Let_def conn_busy_def)
    (auto simp: pending_def all_cmds_def)

lemma sendCommand_running: "runningCommand c \<noteq> None \<Longrightarrow> runningCommand (sendCommand c) \<noteq> None"
  by (auto simp: sendCommand_def Let_def)

lemma sendNextCommand_busy: "runningCommand (sendNextCommand c) = None \<Longrightarrow> commandQue (sendNextCommand c) = []"
proof (cases "commandQue c")
  case (Cons x xs)
  assume "runningCommand (sendNextCommand c) = None"
  moreover have "runningCommand (sendNextCommand c) \<noteq> None"
    unfolding sendNextCommand_def using Cons
    by (simp del: not_None_eq add: sendCommand_running)
  ultimately show ?thesis by simp
qed (simp add: sendNextCommand_def)

lemma busy_keep:
  "conn_busy c \<Longrightarrow> runningCommand c' = runningCommand c \<Longrightarrow> commandQue c' = commandQue c \<Longrightarrow>
   cstate c' = cstate c \<or> (cstate c' \<noteq> CONN_AUTH_OK \<and> cstate c' \<noteq> CONN_CONNECTED) \<Longrightarrow> conn_busy c'"
  by (auto simp: conn_busy_def)

lemma busy_running: "runningCommand c \<noteq> None \<Longrightarrow> conn_busy c"
  by (auto simp: conn_busy_def)

lemma sendMsg_cstate:
  "cstate (snd (sendMsg m c)) = cstate c
     \<or> (cstate (snd (sendMsg m c)) \<noteq> CONN_AUTH_OK \<and> cstate (snd (sendMsg m c)) \<noteq> CONN_CONNECTED)"
  by (simp add: sendMsg_def dropConnection_def connectionError_def Let_def)

lemma busy_setConnState: "conn_busy c \<Longrightarrow> conn_busy (setConnState st c)"
proof (rule setConnState_cases [of c st])
  fix c'
  assume c': "runningCommand c' = runningCommand c" "commandQue c' = commandQue c"
    "runningCommand (setConnState st c) = runningCommand (if (st = CONN_AUTH_OK \<or> st = CONN_CONNECTED)
        \<and> runningCommand c = None then sendNextCommand c' else c)"
    "commandQue (setConnState st c) = commandQue (if (st = CONN_AUTH_OK \<or> st = CONN_CONNECTED)
        \<and> runningCommand c = None then sendNextCommand c' else c)"
  have fin: "cstate (setConnState st c) = st \<or> st = CONN_AUTH_FAILED"
    by (simp add: setConnState_def Let_def)
  have fail: "st = CONN_AUTH_FAILED \<Longrightarrow> cstate (setConnState st c) \<in> {CONN_DELETE, CONN_BROKEN}"
    by (simp add: setConnState_def Let_def dropConnection_def connectionError_def)
  show "conn_busy (setConnState st c)"
    using c'(3,4) fin fail sendNextCommand_busy [of c']
    by (auto simp: conn_busy_def split: if_splits)
qed

lemma conn_idle_sel [simp]:
  "runningCommand (conn_idle c) = runningCommand c" "commandQue (conn_idle c) = commandQue c"
  "cid (conn_idle c) = cid c"
  by (simp_all add: conn_idle_def idle_auth_def idle_alive_def dropConnection_def Let_def)

lemma conn_idle_cstate:
  "cstate (conn_idle c) = cstate c
     \<or> (cstate (conn_idle c) \<noteq> CONN_AUTH_OK \<and> cstate (conn_idle c) \<noteq> CONN_CONNECTED)"
proof -
  let ?ok = "\<lambda>d. cstate d = cstate c \<or> cstate d \<in> {CONN_DELETE, CONN_BROKEN}"
  have msg: "?ok d \<Longrightarrow> ?ok (snd (sendMsg m d))" for d m
    by (auto simp: sendMsg_def dropConnection_def connectionError_def Let_def)
  have "?ok (idle_auth c)" by (simp add: idle_auth_def)
  moreover have "?ok d \<Longrightarrow> ?ok (idle_alive d)" for d
    using msg [of d "''T ready''"] by (auto simp: idle_alive_def)
  ultimately have "?ok (conn_idle c)"
    by (auto simp: conn_idle_def Let_def dropConnection_def connectionError_def)
  then show ?thesis by auto
qed

lemma busy_msg: "conn_busy c \<Longrightarrow> conn_busy (snd (sendMsg m c))" "conn_busy c \<Longrightarrow> conn_busy (conn_idle c)"
  by (rule busy_keep; use sendMsg_cstate [of m c] conn_idle_cstate [of c] in simp)+

lemma updateStatusWait_pending [simp]: "pending (updateStatusWait c) = pending c"
  by (simp add: updateStatusWait_def split: option.splits)

lemma masterStateChanged_pending [simp]: "pending (masterStateChanged c) = pending c"
  by (simp add: masterStateChanged_def split: option.splits)

lemma status_running:
  "conn_busy c \<Longrightarrow> conn_busy (updateStatusWait c)" "conn_busy c \<Longrightarrow> conn_busy (masterStateChanged c)"
  using sendCommand_running [of c]
  by (auto simp: updateStatusWait_def masterStateChanged_def intro: busy_running split: option.splits)

lemma status_wf:
  "conn_wf c \<Longrightarrow> conn_wf (updateStatusWait c)" "conn_wf c \<Longrightarrow> conn_wf (masterStateChanged c)"
  by (auto simp: updateStatusWait_def masterStateChanged_def intro: conn_wf_sendCommand split: option.splits)

lemma setState_sel [simp]:
  "runningCommand (setState v c) = runningCommand c" "commandQue (setState v c) = commandQue c"
  "cid (setState v c) = cid c" "cstate (setState v c) = cstate c"
  by (simp_all add: setState_def Let_def)

definition queue_inv :: "'a conn_scheme \<Rightarrow> bool" where
  "queue_inv c \<longleftrightarrow> conn_wf c \<and> conn_busy c"

lemma queCommand_inv:
  assumes "queue_inv c" "\<not> is_status cmd" "cmd_wf (cid c) cmd"
  shows "queue_inv (snd (queCommand cmd c))"
proof (cases "runningCommand c \<noteq> None \<or> (cstate c \<noteq> CONN_AUTH_OK \<and> cstate c \<noteq> CONN_CONNECTED)")
  case True
  then show ?thesis
    using assms by (auto simp: queCommand_def queue_inv_def conn_wf_def all_cmds_def conn_busy_def)
next
  case False
  let ?c = "c\<lparr>runningCommand := Some cmd\<rparr>"
  have "conn_wf ?c" using assms by (auto simp: queue_inv_def conn_wf_def all_cmds_def)
  moreover have "runningCommand (sendCommand ?c) \<noteq> None" by (rule sendCommand_running) simp
  ultimately show ?thesis
    using False
    by (auto simp: queCommand_def queue_inv_def Let_def intro: conn_wf_sendCommand busy_running)
qed

lemma conn_step_inv: "queue_inv c \<Longrightarrow> ev_ok e c \<Longrightarrow> queue_inv (conn_step e c)"
proof (cases e)
  case (EvReply st)
  assume inv: "queue_inv c"
  show ?thesis
  proof (cases "runningCommand c")
    case (Some cmd)
    then have wf: "cmd_wf (cid c) cmd" "conn_wf c"
      using inv by (auto simp: queue_inv_def conn_wf_def all_cmds_def)
    obtain c' where "commandReturn st c = sendNextCommand c'"
      by (rule commandReturn_next [OF Some wf(1)])
    then have "conn_busy (commandReturn st c)"
      using sendNextCommand_busy [of c'] by (simp add: conn_busy_def)
    then show ?thesis
      using EvReply commandReturn_pending (2) [OF wf(2) Some] by (simp add: queue_inv_def)
  qed (use EvReply inv in \<open>simp add: commandReturn_none\<close>)
next
  case (EvBop v)
  assume "queue_inv c"
  then have "queue_inv (c\<lparr>bopState := ss_setValue v (bopState c)\<rparr>)"
    by (simp add: queue_inv_def conn_busy_def conn_wf_def all_cmds_def)
  then show ?thesis
    using EvBop by (simp add: setBopState_def queue_inv_def status_running(2) status_wf(2))
next
  case (EvEnv t ws)
  assume "queue_inv c"
  then show ?thesis
    using EvEnv by (simp add: queue_inv_def conn_busy_def conn_wf_def all_cmds_def)
qed (auto simp: queue_inv_def queCommand_inv [unfolded queue_inv_def] setConnState_wf busy_setConnState
      status_running status_wf busy_msg
      intro: conn_wf_upd [THEN iffD2] busy_keep sendMsg_cstate conn_idle_cstate)

lemma conn_step_fifo:
  assumes "queue_inv c" "ev_ok e c"
  shows "ev_answered e c @ pending (conn_step e c) = pending c @ ev_added e"
proof (cases e)
  case (EvReply st)
  then show ?thesis
    using assms commandReturn_pending (1) [of c]
    by (auto simp: commandReturn_none queue_inv_def split: option.splits)
next
  case (EvBop v)
  then show ?thesis
    by (simp add: setBopState_def pending_upd [of "c\<lparr>bopState := ss_setValue v (bopState c)\<rparr>" c])
qed (use assms queCommand_busy in \<open>auto simp: queue_inv_def setConnState_pending intro: pending_upd\<close>)

lemma commandReturn_cid: "cid (commandReturn st c) = cid c"
  by (cases "runningCommand c")
    (simp_all add: commandReturn_def cmd_commandReturn_def commandReturnOK_def commandReturnQued_def
      commandReturnFailed_def control_wait_def updateStatusWait_def notify_orig_def
      other_commandReturn_def split: cmd_kind.splits option.splits)

lemma conn_step_cid: "cid (conn_step e c) = cid c"
  by (cases e)
    (simp_all add: queCommand_def commandReturn_cid setBopState_def masterStateChanged_def
      updateStatusWait_def Let_def split: option.splits)

lemma ev_ok_step: "ev_ok f c \<Longrightarrow> ev_ok f (conn_step e c)"
  by (cases f) (simp_all add: conn_step_cid)

interpretation conn_fifo: fifo_service queue_inv ev_ok conn_step pending ev_added ev_answered
  by unfold_locales (simp_all add: conn_step_inv ev_ok_step conn_step_fifo)

subsection \<open>What is sent, and when\<close>

text \<open>
  A command may go out now: it asks for no BOP check, or it waits for a state and has it, or
  none of its bits is set in the peer's full BOP state.
\<close>

definition wire_ok :: "u32 \<Rightarrow> command \<Rightarrow> bool" where
  "wire_ok full cmd \<longleftrightarrow>
     cbop cmd = 0
     \<or> (cbop cmd AND BOP_WHILE_STATE \<noteq> 0 \<and> full AND (cbop cmd AND BOP_MASK) \<noteq> 0)
     \<or> (cbop cmd AND BOP_WHILE_STATE = 0 \<and> full AND (cbop cmd AND BOP_MASK) = 0)"

definition sent_by :: "command list \<Rightarrow> u32 \<Rightarrow> conn_out list \<Rightarrow> bool" where
  "sent_by cs full new \<longleftrightarrow>
     (\<forall>t. Wire t \<in> set new \<longrightarrow> t = ''device_status'' \<or> (\<exists>cmd\<in>set cs. t = send_text cmd \<and> wire_ok full cmd))"

lemma sent_by_Nil [simp]: "sent_by cs full []"
  by (simp add: sent_by_def)

lemma sent_by_mono: "sent_by cs full new \<Longrightarrow> set cs \<subseteq> set ds \<Longrightarrow> sent_by ds full new"
  unfolding sent_by_def by blast

lemma sent_by_append: "sent_by cs full (xs @ ys) = (sent_by cs full xs \<and> sent_by cs full ys)"
  unfolding sent_by_def by auto

lemma connectionError_outs: "\<exists>new. outs (connectionError c) = outs c @ new \<and> set new \<subseteq> {AddressLost}"
  by (simp add: connectionError_def Let_def)

lemma sendMsg_outs:
  "\<exists>new. outs (snd (sendMsg m c)) = outs c @ new \<and> set new \<subseteq> {AddressLost, Wire m}"
  using connectionError_outs [of "c\<lparr>writes := tl (writes c)\<rparr>"]
  by (auto simp: sendMsg_def dropConnection_def Let_def)

lemma sendCommand_outs:
  assumes "runningCommand c = Some cmd"
  shows "\<exists>new. outs (sendCommand c) = outs c @ new \<and> sent_by [cmd] (getFullBopState c) new"
proof -
  have ok: "\<exists>new. outs (send_command k c) = outs c @ new \<and> sent_by [cmd] (getFullBopState c) new"
    if "send_text k = ''device_status'' \<or> (send_text k = send_text cmd \<and> wire_ok (getFullBopState c) cmd)"
    for k
    using sendMsg_outs [of "send_text k" c] that by (fastforce simp: send_command_def sent_by_def)
  have st: "send_text (set_progress p (commandDeviceStatus x)) = ''device_status''" for p x
    by (simp add: send_text_def commandDeviceStatus_def new_command_def)
  show ?thesis
    using assms ok [of cmd] ok [of "set_progress CIP_RETURN (commandDeviceStatus (Some (cid c)))"]
      ok [of "set_progress CIP_RUN cmd"] st
    by (auto simp: sendCommand_def Let_def wire_ok_def and.assoc)
qed

lemma sendNextCommand_outs:
  "\<exists>new. outs (sendNextCommand c) = outs c @ new \<and> sent_by (commandQue c) (getFullBopState c) new"
proof (cases "commandQue c")
  case (Cons x xs)
  obtain new where "outs (sendNextCommand c) = outs c @ new" "sent_by [x] (getFullBopState c) new"
    using sendCommand_outs [of "c\<lparr>runningCommand := Some x, commandQue := xs\<rparr>" x] Cons
    by (auto simp: sendNextCommand_def getFullBopState_def)
  then show ?thesis
    using sent_by_mono [of "[x]" "getFullBopState c" new "commandQue c"] Cons by auto
qed (simp add: sendNextCommand_def)

text \<open>
  A full BOP state that has a bit of the running command's mask keeps the command back,
  whatever its progress: at most the status query goes out.
\<close>

lemma blocked_command_not_sent:
  assumes "runningCommand c = Some cmd" "cbop cmd AND BOP_WHILE_STATE = 0"
    "getFullBopState c AND (cbop cmd AND BOP_MASK) \<noteq> 0" "Wire t \<in> set (outs (sendCommand c))"
  shows "Wire t \<in> set (outs c) \<or> t = ''device_status''"
proof -
  obtain new where new: "outs (sendCommand c) = outs c @ new" "sent_by [cmd] (getFullBopState c) new"
    using sendCommand_outs [OF assms(1)] by blast
  have "cbop cmd \<noteq> 0" using assms(3) by auto
  then have "\<not> wire_ok (getFullBopState c) cmd"
    using assms(2,3) by (auto simp: wire_ok_def)
  then show ?thesis using assms(4) new by (auto simp: sent_by_def)
qed

lemma sent_by_status:
  "sent_by cs full new \<Longrightarrow> Wire t \<in> set new \<Longrightarrow>
   t = ''device_status'' \<or> (\<exists>cmd\<in>set cs. t = send_text cmd \<and> wire_ok full cmd)"
  by (simp add: sent_by_def)

end
