(* ===== verification/ConnBop.thy ===== *)
theory ConnBop
  imports ConnQueue
begin

section \<open>Block operations: what may be sent, and when\<close>

text \<open>
  The properties of the queue of \<open>Connection\<close>. \<open>sends c c' cs\<close> says that the step from \<open>c\<close>
  to \<open>c'\<close> wrote only status queries and commands of \<open>cs\<close> whose block-operation check
  passes; it composes along the code's calls, which gives the safety of every event. The
  second half follows one command through the whole handshake.
\<close>

subsection \<open>Steps that send nothing they should not\<close>

definition sends :: "'a conn_scheme \<Rightarrow> 'b conn_scheme \<Rightarrow> command list \<Rightarrow> bool" where
  "sends c c' cs \<longleftrightarrow> (\<exists>new. outs c' = outs c @ new \<and> sent_by cs (getFullBopState c) new)"

lemma sends_refl: "outs c' = outs c \<Longrightarrow> sends c c' cs"
  by (simp add: sends_def)

lemma sends_note: "outs c' = outs c @ [e] \<Longrightarrow> (\<And>t. e \<noteq> Wire t) \<Longrightarrow> sends c c' cs"
  unfolding sends_def sent_by_def by (metis empty_iff list.set(1) set_ConsD)

lemma sends_trans:
  assumes "sends c c1 as" "bopState c1 = bopState c" "sends c1 c2 bs" "set as \<union> set bs \<subseteq> set cs"
  shows "sends c c2 cs"
  using assms unfolding sends_def
  by (auto simp: getFullBopState_def sent_by_append intro: sent_by_mono)

lemma sends_sendCommand: "runningCommand c = Some cmd \<Longrightarrow> sends c (sendCommand c) [cmd]"
  unfolding sends_def by (rule sendCommand_outs)

lemma sends_sendNextCommand: "sends c (sendNextCommand c) (commandQue c)"
  unfolding sends_def by (rule sendNextCommand_outs)

lemma sends_error: "sends c (connectionError c) cs"
  using connectionError_outs [of c] by (fastforce simp: sends_def sent_by_def)

lemma sends_setConnState:
  assumes "runningCommand c = None \<Longrightarrow> set (commandQue c) \<subseteq> set cs"
  shows "sends c (setConnState st c) cs"
proof -
  define c1 where "c1 = (if st = CONN_AUTH_PENDING \<and> cstate c \<noteq> CONN_AUTH_PENDING
    then c\<lparr>authPendingSince := clock c, authPendingWarned := False\<rparr> else c)"
  define c2 where "c2 = (if st = CONN_AUTH_OK then c1\<lparr>authRetries := 0\<rparr> else c1)"
  define c3 where "c3 = (if (st = CONN_AUTH_OK \<or> st = CONN_CONNECTED) \<and> runningCommand c2 = None
    then sendNextCommand c2 else c2)"
  have c2: "outs c2 = outs c" "bopState c2 = bopState c" "runningCommand c2 = runningCommand c"
    "commandQue c2 = commandQue c"
    by (simp_all add: c1_def c2_def)
  have a: "sends c c2 []" using c2 by (intro sends_refl) simp
  have b: "sends c2 c3 cs"
  proof (cases "(st = CONN_AUTH_OK \<or> st = CONN_CONNECTED) \<and> runningCommand c2 = None")
    case True
    then show ?thesis
      using sends_sendNextCommand [of c2] assms c2
      by (auto simp: c3_def sends_def intro: sent_by_mono)
  qed (auto simp: c3_def intro: sends_refl)
  have c3: "sends c c3 cs" by (rule sends_trans [OF a c2(2) b]) simp
  have bop3: "bopState c3 = bopState c" by (simp add: c3_def c2)
  have d: "sends c3 (c3\<lparr>cstate := st\<rparr>) []" by (rule sends_refl) simp
  have c4: "sends c (c3\<lparr>cstate := st\<rparr>) cs" by (rule sends_trans [OF c3 bop3 d]) simp
  have e: "sends c (connectionError (c3\<lparr>cstate := st\<rparr>)) cs"
    by (rule sends_trans [OF c4 _ sends_error [where cs = "[]"]]) (simp_all add: bop3)
  have "setConnState st c = (if st = CONN_AUTH_FAILED then connectionError (c3\<lparr>cstate := st\<rparr>)
      else c3\<lparr>cstate := st\<rparr>)"
    unfolding setConnState_def dropConnection_def Let_def c3_def c2_def c1_def ..
  then show ?thesis using c4 e by (cases "st = CONN_AUTH_FAILED") simp_all
qed

lemma notify_orig_frame [simp]:
  "bopState (notify_orig ev cmd c) = bopState c" "cstate (notify_orig ev cmd c) = cstate c"
  by (simp_all add: notify_orig_def split: option.splits)

lemma sends_notify: "(\<And>i k t. ev i k \<noteq> Wire t) \<Longrightarrow> sends c (notify_orig ev cmd c) cs"
  by (auto simp: notify_orig_def intro: sends_refl sends_note split: option.splits)

lemma other_commandReturn_frame [simp]:
  "bopState (other_commandReturn cmd st c) = bopState c"
  by (simp add: other_commandReturn_def)

lemma sends_other_return: "sends c (other_commandReturn cmd st c) cs"
  by (auto simp: other_commandReturn_def intro: sends_refl sends_note)

lemma control_wait_bop [simp]: "bopState (control_wait k c) = bopState c"
  by (simp add: control_wait_def updateStatusWait_def split: option.splits)

lemma sends_control_wait:
  assumes "runningCommand c = Some cmd" "cmd_wf (cid c) cmd"
    "ckind cmd = StatusInfo k \<or> ckind cmd = DeviceStatus k"
  shows "sends c (control_wait k c) cs"
  using assms
  by (auto simp: control_wait_def updateStatusWait_def cmd_wf_def is_status_def progress_def
      intro: sends_refl sends_note split: option.splits if_splits)

lemma cmd_commandReturn_bop [simp]: "bopState (cmd_commandReturn cmd st c) = bopState c"
  by (simp add: cmd_commandReturn_def commandReturnOK_def commandReturnQued_def
      commandReturnFailed_def split: cmd_kind.splits)

lemma sends_wait_notify:
  assumes "runningCommand c = Some cmd" "cmd_wf (cid c) cmd"
    "ckind cmd = StatusInfo k \<or> ckind cmd = DeviceStatus k"
  shows "sends c (notify_orig CommandOK cmd (control_wait k c)) cs"
  by (rule sends_trans [OF sends_control_wait [OF assms, of cs] _ sends_notify [where cs = cs]]) simp_all

lemma sends_commandReturnOK:
  assumes "runningCommand c = Some cmd" "cmd_wf (cid c) cmd"
  shows "sends c (commandReturnOK cmd c) cs"
  using assms sends_wait_notify [OF assms]
  by (auto simp: commandReturnOK_def intro: sends_notify sends_setConnState split: cmd_kind.splits)

lemma sends_cmd_commandReturn:
  assumes "runningCommand c = Some cmd" "cmd_wf (cid c) cmd"
  shows "sends c (cmd_commandReturn cmd st c) cs"
proof -
  have "sends c (commandReturnQued cmd c) cs"
    unfolding commandReturnQued_def
    by (rule sends_trans [OF sends_notify [where cs = cs] _ sends_commandReturnOK [where cs = cs]])
      (use assms in simp_all)
  moreover have "sends c (commandReturnFailed cmd st c) cs"
    using assms sends_wait_notify [OF assms]
    by (auto simp: commandReturnFailed_def intro: sends_notify sends_setConnState sends_refl
        split: cmd_kind.splits)
  ultimately show ?thesis
    using sends_commandReturnOK [OF assms] by (simp add: cmd_commandReturn_def)
qed

lemma sends_commandReturn:
  assumes "conn_wf c"
  shows "sends c (commandReturn st c) (all_cmds c)"
proof (cases "runningCommand c")
  case None
  then show ?thesis by (simp add: commandReturn_none sends_refl)
next
  case (Some cmd)
  let ?c0 = "c\<lparr>runningCommandStatus := RETURNING\<rparr>"
  let ?c1 = "other_commandReturn cmd st ?c0"
  let ?c2 = "cmd_commandReturn cmd st ?c1"
  have wf: "cmd_wf (cid c) cmd" using assms Some by (simp add: conn_wf_def all_cmds_def)
  have q: "commandQue ?c2 = commandQue c"
    using cmd_commandReturn_keeps [of ?c1 cmd st] Some wf by simp
  have a0: "sends c ?c0 []" by (rule sends_refl) simp
  have a1: "sends c ?c1 []"
    by (rule sends_trans [OF a0 _ sends_other_return [where cs = "[]"]]) simp_all
  have a2: "sends c ?c2 []"
    by (rule sends_trans [OF a1 _ sends_cmd_commandReturn [where cs = "[]"]]) (use Some wf in simp_all)
  have "sends c (sendNextCommand ?c2) (all_cmds c)"
    by (rule sends_trans [OF a2 _ sends_sendNextCommand]) (use q Some in \<open>auto simp: all_cmds_def\<close>)
  then show ?thesis using Some by (simp add: commandReturn_def)
qed

lemma sends_running:
  assumes "runningCommand c = Some cmd"
  shows "sends c (sendCommand c) (all_cmds c)"
  by (rule sends_trans [OF sends_refl [where cs = "[]"] _ sends_sendCommand [OF assms]])
    (use assms in \<open>simp_all add: all_cmds_def\<close>)

lemma sends_wait:
  "sends c (updateStatusWait c) (all_cmds c)" "sends c (masterStateChanged c) (all_cmds c)"
  by (auto simp: updateStatusWait_def masterStateChanged_def intro: sends_refl sends_running
      split: option.splits)

lemma sends_queCommand: "sends c (snd (queCommand cmd c)) (all_cmds c @ [cmd])"
proof (cases "runningCommand c \<noteq> None \<or> (cstate c \<noteq> CONN_AUTH_OK \<and> cstate c \<noteq> CONN_CONNECTED)")
  case True
  then show ?thesis by (auto simp: queCommand_def intro: sends_refl)
next
  case False
  let ?c = "c\<lparr>runningCommand := Some cmd\<rparr>"
  have "sends c (sendCommand ?c) (all_cmds c @ [cmd])"
    by (rule sends_trans [OF sends_refl [where cs = "[]"] _ sends_sendCommand [of ?c cmd]]) simp_all
  then show ?thesis using False by (auto simp: queCommand_def Let_def)
qed

lemma sends_emit: "sends c c1 cs \<Longrightarrow> (\<And>t. e \<noteq> Wire t) \<Longrightarrow> sends c (emit e c1) cs"
  unfolding sends_def
  by (auto simp: sent_by_append) (metis (no_types, lifting) append.assoc sent_by_append sent_by_def
    empty_iff list.set(1) set_ConsD)

lemma sends_setState: "sends c (setState v c) cs"
proof -
  define ss where "ss = ss_setValue v (serverState c)"
  define c2 where "c2 = (if has_other c then emit (OtherStateChanged ss) (c\<lparr>serverState := ss\<rparr>)
    else c\<lparr>serverState := ss\<rparr>)"
  have a: "sends c c2 cs" by (simp add: c2_def sends_emit [OF sends_refl] sends_refl)
  have "setState v c = c2 \<or> setState v c = emit DeviceReady c2 \<or> setState v c = emit DeviceIdle c2"
    unfolding setState_def Let_def ss_def c2_def by simp
  moreover have "sends c (emit DeviceReady c2) cs" "sends c (emit DeviceIdle c2) cs"
    using a by (auto intro: sends_emit)
  ultimately show ?thesis using a by auto
qed

lemma commandReturn_bop [simp]: "bopState (commandReturn st c) = bopState c"
  by (simp add: commandReturn_def split: option.splits)

lemma wait_bop [simp]:
  "bopState (masterStateChanged c) = bopState c" "bopState (updateStatusWait c) = bopState c"
  by (simp_all add: masterStateChanged_def updateStatusWait_def split: option.splits)

lemma que_state_bop [simp]:
  "bopState (snd (queCommand cmd c)) = bopState c" "bopState (setState v c) = bopState c"
  by (simp_all add: queCommand_def setState_def Let_def)

lemma queue_in_all: "set (commandQue c) \<subseteq> set (all_cmds c)"
  by (auto simp: all_cmds_def)

text \<open>The texts a step may write besides those of commands: a message handed to it, the keep-alive.\<close>

fun ev_text :: "conn_event \<Rightarrow> string list" where
  "ev_text (EvMsg m) = [m]"
| "ev_text EvIdle = [''T ready'']"
| "ev_text _ = []"

fun ev_command :: "conn_event \<Rightarrow> command list" where
  "ev_command (EvQue cmd) = [cmd]"
| "ev_command _ = []"

lemma conn_idle_outs: "\<exists>new. outs (conn_idle c) = outs c @ new \<and> set new \<subseteq> {AddressLost, Wire ''T ready''}"
proof -
  have ext: "\<exists>new. outs b = outs a @ new \<and> set new \<subseteq> A \<Longrightarrow> \<exists>new. outs d = outs b @ new \<and> set new \<subseteq> A \<Longrightarrow>
      \<exists>new. outs d = outs a @ new \<and> set new \<subseteq> A" for a b d :: "'a conn_scheme" and A
    by auto
  let ?A = "{AddressLost, Wire ''T ready''}"
  let ?ex = "\<lambda>(a :: 'a conn_scheme) b. \<exists>new. outs b = outs a @ new \<and> set new \<subseteq> ?A"
  have auth: "?ex c (idle_auth c)" by (simp add: idle_auth_def)
  have alive: "?ex d (idle_alive d)" for d
    using sendMsg_outs [of "''T ready''" d] by (auto simp: idle_alive_def)
  have drop: "?ex d (dropConnection d)" for d
    using connectionError_outs [of d] by (auto simp: dropConnection_def)
  show ?thesis
    using ext [OF auth alive] ext [OF ext [OF auth alive] drop] auth
    by (simp add: conn_idle_def Let_def)
qed

lemma conn_step_sends:
  assumes "queue_inv c" "Wire t \<in> set (outs (conn_step e c))"
  shows "Wire t \<in> set (outs c) \<or> t = ''device_status'' \<or> t \<in> set (ev_text e)
    \<or> (\<exists>cmd\<in>set (all_cmds c @ ev_command e).
         t = send_text cmd \<and> wire_ok (getFullBopState (conn_step e c)) cmd)"
proof -
  have S: "Wire t \<in> set (outs c) \<or> t = ''device_status'' \<or>
      (\<exists>cmd\<in>set cs. t = send_text cmd \<and> wire_ok (getFullBopState d) cmd)"
    if "sends d (conn_step e c) cs" "outs d = outs c" for cs and d :: "'a conn_scheme"
    using that assms(2) by (auto simp: sends_def dest!: sent_by_status)
  show ?thesis
  proof (cases e)
    case (EvReply st)
    then show ?thesis
      using assms(1) S [of c "all_cmds c"] sends_commandReturn [of c st]
      by (auto simp: queue_inv_def getFullBopState_def)
  next
    case (EvBop v)
    let ?d = "c\<lparr>bopState := ss_setValue v (bopState c)\<rparr>"
    show ?thesis
      using EvBop S [of ?d "all_cmds ?d"] sends_wait (2) [of ?d]
      by (auto simp: setBopState_def all_cmds_def getFullBopState_def)
  next
    case (EvMsg m)
    then show ?thesis using assms(2) sendMsg_outs [of m c] by auto
  next
    case EvIdle
    then show ?thesis using assms(2) conn_idle_outs [of c] by auto
  next
    case (EvQue cmd)
    then show ?thesis
      using S [of c "all_cmds c @ [cmd]"] sends_queCommand [of c cmd] by (simp add: getFullBopState_def)
  next
    case (EvConnState st)
    then show ?thesis
      using S [of c "all_cmds c"] sends_setConnState [of c "all_cmds c" st] queue_in_all [of c]
      by (simp add: getFullBopState_def)
  qed (use S [of c "all_cmds c"] sends_wait [of c] sends_setState [of c _ "all_cmds c"] assms(2) in
        \<open>simp_all add: getFullBopState_def\<close>)
qed

subsection \<open>Properties of the queue\<close>

text \<open>A connection after its handshake, with an empty queue; witnesses start from it.\<close>

definition idle_conn :: "nat \<Rightarrow> conn" where
  "idle_conn i = \<lparr>cid = i, cname = ''C0'', ctype = DEVICE_DEVICE, cstate = CONN_AUTH_OK, ckey = 0,
     centrald_num = 0, centrald_id = 1, sock_open = True, serverState = new_server_state,
     bopState = \<lparr>ss_value = 0, ss_old = 0\<rparr>, commandQue = [], runningCommand = None,
     runningCommandStatus = WAITING, has_other = False, can_delete = False, send_all = False,
     authPendingSince = 0, authPendingWarned = False, authRetries = 0, authSent = False,
     lastGoodSend = 0, lastData = 0, lastSendReady = 0, connectionTimeout = 40, clock = 0,
     writes = [], outs = []\<rparr>"

definition bop_command :: "string \<Rightarrow> u32 \<Rightarrow> command" where
  "bop_command t bop = (new_command PlainCommand t)\<lparr>cbop := bop\<rparr>"

lemma idle_conn_inv: "queue_inv (idle_conn i)"
  by (simp add: idle_conn_def queue_inv_def conn_wf_def all_cmds_def conn_busy_def)

lemma bop_command_ok: "\<not> is_status (bop_command t b)" "cmd_wf i (bop_command t b)"
  by (simp_all add: bop_command_def new_command_def is_status_def cmd_wf_def)

text \<open>
  C15: commands are answered in the order they were queued. Whatever the interleaving of
  queueing, replies, state and block-operation updates, link failures, handshake changes and
  time, the commands answered so far followed by those still pending are exactly the commands
  pending at the start followed by those queued since: none is lost, doubled or overtaken.
\<close>

theorem queue_fifo:
  assumes "queue_inv c" "\<forall>e\<in>set es. ev_ok e c"
  shows "run_done conn_step ev_answered es c @ pending (run_steps conn_step es c)
    = pending c @ concat (map ev_added es)"
  using assms by (rule conn_fifo.fifo_run)

lemma queue_fifo_witness:
  "run_done conn_step ev_answered [EvQue (bop_command ''expose'' BOP_EXPOSURE), EvQue (bop_command ''info'' 0),
      EvReply 0, EvReply 0] (idle_conn 7)
   @ pending (run_steps conn_step [EvQue (bop_command ''expose'' BOP_EXPOSURE), EvQue (bop_command ''info'' 0),
      EvReply 0, EvReply 0] (idle_conn 7))
   = [bop_command ''expose'' BOP_EXPOSURE, bop_command ''info'' 0]"
  using queue_fifo [of "idle_conn 7" "[EvQue (bop_command ''expose'' BOP_EXPOSURE),
      EvQue (bop_command ''info'' 0), EvReply 0, EvReply 0]"]
    idle_conn_inv bop_command_ok
  by (simp add: idle_conn_def)
    (simp add: pending_def all_cmds_def strip_def bop_command_def new_command_def is_status_def
      set_progress_def)

text \<open>
  C35: the queue never stalls behind nothing. Over any run of events a connection that serves
  commands (handshake over) has no command waiting while none is running, and its status
  queries keep the shape the return handlers rely on.
\<close>

theorem queue_never_stalls:
  assumes "queue_inv c" "\<forall>e\<in>set es. ev_ok e c"
  shows "queue_inv (run_steps conn_step es c)"
  using assms by (rule conn_fifo.inv_run)

lemma queue_never_stalls_witness:
  "queue_inv (run_steps conn_step [EvQue (bop_command ''expose'' BOP_EXPOSURE), EvEnv 5 [False],
     EvReply 0, EvConnState CONN_CONNECTING, EvConnState CONN_AUTH_OK] (idle_conn 7))"
  by (rule queue_never_stalls) (simp_all add: idle_conn_inv bop_command_ok)

text \<open>
  C14: block-operation safety. Every line a connection writes in a step is a status query, the
  text the step itself was asked to send, the keep-alive, or a command of the queue whose
  block-operation check passes in the peer's full BOP state at that moment: no mask, none of
  the mask's bits set, or (for commands that wait for a state) one of them set.
\<close>

theorem bop_safety:
  assumes "queue_inv c" "Wire t \<in> set (outs (conn_step e c))"
  shows "Wire t \<in> set (outs c) \<or> t = ''device_status'' \<or> t \<in> set (ev_text e)
    \<or> (\<exists>cmd\<in>set (all_cmds c @ ev_command e).
         t = send_text cmd \<and> wire_ok (getFullBopState (conn_step e c)) cmd)"
  using assms by (rule conn_step_sends)

lemma bop_safety_witness:
  "wire_ok (getFullBopState (conn_step (EvQue (bop_command ''info'' 0)) (idle_conn 7))) (bop_command ''info'' 0)"
proof -
  have w: "Wire ''info'' \<in> set (outs (conn_step (EvQue (bop_command ''info'' 0)) (idle_conn 7)))"
    by (simp add: idle_conn_def queCommand_def Let_def sendCommand_def bop_command_def new_command_def
        send_command_def sendMsg_def send_text_def)
  show ?thesis
    using bop_safety [OF idle_conn_inv w]
    by (simp add: idle_conn_def all_cmds_def)
qed

text \<open>
  A blocked command is released. When the running command waits for its mask to clear and
  the peer's full BOP state arrives without the bits of the mask, the command is written at
  once and its reply is awaited.
\<close>

theorem bop_release:
  assumes "runningCommand c = Some cmd" "progress cmd = CIP_RUN" "cbop cmd AND BOP_WHILE_STATE = 0"
    "v AND (cbop cmd AND BOP_MASK) = 0" "sock_open c" "cstate c \<noteq> CONN_INPROGRESS" "writes c = []"
  shows "outs (setBopState v c) = outs c @ [Wire (send_text cmd)]
    \<and> runningCommand (setBopState v c) = Some (set_progress CIP_RETURN cmd)
    \<and> runningCommandStatus (setBopState v c) = SEND"
proof -
  have "cbop cmd \<noteq> 0" using assms(2) by (auto simp: progress_def)
  then show ?thesis
    using assms
    by (simp add: setBopState_def masterStateChanged_def sendCommand_def getFullBopState_def
        send_command_def sendMsg_def Let_def and.assoc)
qed

lemma bop_release_witness:
  "let c = (idle_conn 7)\<lparr>runningCommand := Some (set_progress CIP_RUN (bop_command ''expose'' BOP_EXPOSURE)),
              runningCommandStatus := WAITING, bopState := \<lparr>ss_value = BOP_EXPOSURE, ss_old = 0\<rparr>\<rparr>
   in outs (setBopState BOP_READOUT c) = [Wire ''expose'']"
  using bop_release [of "(idle_conn 7)\<lparr>runningCommand := Some (set_progress CIP_RUN (bop_command ''expose'' BOP_EXPOSURE)),
              runningCommandStatus := WAITING, bopState := \<lparr>ss_value = BOP_EXPOSURE, ss_old = 0\<rparr>\<rparr>"
      "set_progress CIP_RUN (bop_command ''expose'' BOP_EXPOSURE)" BOP_READOUT]
  by (simp add: idle_conn_def bop_command_def new_command_def send_text_def)

text \<open>
  The block-operation handshake. On an idle open link a command with a mask does not go out
  itself: a status query does, and the command waits behind it. After the query's reply the
  command is written and awaits its reply exactly when no bit of its mask is set in the peer's
  full BOP state; otherwise it is the running command, waiting for the state to change.
\<close>

theorem bop_handshake:
  assumes "cstate c = CONN_AUTH_OK" "runningCommand c = None" "commandQue c = []" "sock_open c"
    "writes c = []" "\<not> has_other c" "progress cmd = CIP_NOT_CALLED" "cbop cmd AND BOP_WHILE_STATE = 0"
    "cbop cmd AND BOP_MASK \<noteq> 0"
  shows "let c1 = snd (queCommand cmd c); c2 = commandReturn 0 c1;
             clear = (getFullBopState c AND (cbop cmd AND BOP_MASK) = 0)
    in outs c1 = outs c @ [Wire ''device_status''] \<and> commandQue c1 = [set_progress CIP_WAIT cmd]
       \<and> outs c2 = outs c1 @ (if clear then [Wire (send_text cmd)] else [])
       \<and> runningCommand c2 = Some (set_progress (if clear then CIP_RETURN else CIP_RUN) cmd)
       \<and> runningCommandStatus c2 = (if clear then SEND else WAITING) \<and> commandQue c2 = []"
proof -
  define st where "st = set_progress CIP_RETURN (commandDeviceStatus (Some (cid c)))"
  define c1 where "c1 = snd (queCommand cmd c)"
  have st: "send_text st = ''device_status''" "ckind st = DeviceStatus (Some (cid c))" "corig st = None"
    "progress st = CIP_RETURN"
    by (simp_all add: st_def) (simp_all add: commandDeviceStatus_def new_command_def send_text_def)
  have ne: "cbop cmd \<noteq> 0" using assms(9) by auto
  have c1: "c1 = emit (Wire ''device_status'') (c\<lparr>runningCommand := Some cmd, writes := []\<rparr>)
      \<lparr>lastGoodSend := clock c, commandQue := [set_progress CIP_WAIT cmd],
       runningCommand := Some st, runningCommandStatus := SEND\<rparr>"
    using assms ne st (1)
    by (simp add: c1_def queCommand_def sendCommand_def Let_def send_command_def sendMsg_def emit_def
        st_def [symmetric])
  have wne: "cbop (set_progress p cmd) \<noteq> 0" for p
    using assms(9) cbop_set_progress_simps (1) [of p cmd] by (metis and_zero_eq bit.conj_zero_left)
  define d where "d = c1\<lparr>runningCommandStatus := RETURNING\<rparr>"
  have d: "runningCommand d = Some st" "commandQue d = [set_progress CIP_WAIT cmd]" "sock_open d"
    "writes d = []" "cstate d = CONN_AUTH_OK" "bopState d = bopState c" "outs d = outs c1" "cid d = cid c"
    "has_other d = False"
    using assms by (simp_all add: d_def c1 emit_def)
  have r: "commandReturn 0 c1 = sendNextCommand d"
    using assms st d
    by (simp add: commandReturn_def c1 cmd_commandReturn_def commandReturnOK_def control_wait_def
        updateStatusWait_def notify_orig_def other_commandReturn_def emit_def d_def)
  have n: "sendNextCommand d = sendCommand (d\<lparr>runningCommand := Some (set_progress CIP_WAIT cmd), commandQue := []\<rparr>)"
    by (simp add: sendNextCommand_def d)
  let ?cl = "getFullBopState c AND (cbop cmd AND BOP_MASK) = 0"
  have "outs (sendNextCommand d) = outs c1 @ (if ?cl then [Wire (send_text cmd)] else [])"
    "runningCommand (sendNextCommand d) = Some (set_progress (if ?cl then CIP_RETURN else CIP_RUN) cmd)"
    "runningCommandStatus (sendNextCommand d) = (if ?cl then SEND else WAITING)"
    "commandQue (sendNextCommand d) = []"
    using assms(8) d wne
    by (simp_all add: n sendCommand_def getFullBopState_def send_command_def sendMsg_def Let_def and.assoc)
  moreover have "outs c1 = outs c @ [Wire ''device_status'']" "commandQue c1 = [set_progress CIP_WAIT cmd]"
    by (simp_all add: c1 emit_def)
  ultimately show ?thesis
    by (simp add: c1_def [symmetric] r Let_def)
qed

lemma bop_handshake_witness:
  "outs (commandReturn 0 (snd (queCommand (bop_command ''expose'' BOP_EXPOSURE) (idle_conn 7))))
   = [Wire ''device_status'', Wire ''expose'']"
  using bop_handshake [of "idle_conn 7" "bop_command ''expose'' BOP_EXPOSURE"]
  by (simp add: idle_conn_def bop_command_def new_command_def progress_def send_text_def
      getFullBopState_def Let_def)

text \<open>
  An idle link is dropped exactly when nothing has been received for more than twice the
  connection's timeout (or the keep-alive of the same step fails to be written), and it stays
  usable otherwise.
\<close>

theorem idle_drops_silent_link:
  assumes "connectionTimeout c > 0" "sock_open c" "writes c = []" "cstate c \<noteq> CONN_INPROGRESS"
  shows "sock_open (conn_idle c) \<longleftrightarrow> clock c \<le> lastData c + connectionTimeout c * 2"
  using assms
  by (simp add: conn_idle_def idle_auth_def idle_alive_def sendMsg_def dropConnection_def emit_def Let_def
      not_less)

lemma idle_drops_silent_link_witness:
  "\<not> sock_open (conn_idle ((idle_conn 7)\<lparr>clock := 81\<rparr>)) \<and> sock_open (conn_idle ((idle_conn 7)\<lparr>clock := 80\<rparr>))"
  using idle_drops_silent_link [of "(idle_conn 7)\<lparr>clock := 81\<rparr>"]
    idle_drops_silent_link [of "(idle_conn 7)\<lparr>clock := 80\<rparr>"]
  by (simp add: idle_conn_def)

subsection \<open>A command put back by a reconnect\<close>

definition no_reply :: "conn_event \<Rightarrow> bool" where
  "no_reply e = (case e of EvReply _ \<Rightarrow> False | _ \<Rightarrow> True)"

definition awaiting :: "command \<Rightarrow> 'a conn_scheme \<Rightarrow> bool" where
  "awaiting cmd c \<longleftrightarrow> runningCommand c = Some cmd \<and> progress cmd = CIP_RETURN
     \<and> cbop cmd AND BOP_WHILE_STATE = 0"

definition writes_only :: "string set \<Rightarrow> 'a conn_scheme \<Rightarrow> 'b conn_scheme \<Rightarrow> bool" where
  "writes_only T c c' \<longleftrightarrow> (\<exists>new. outs c' = outs c @ new \<and> (\<forall>t. Wire t \<in> set new \<longrightarrow> t \<in> T))"

lemma writes_only_refl: "outs c' = outs c \<Longrightarrow> writes_only T c c'"
  by (simp add: writes_only_def)

lemma writes_only_trans:
  assumes "writes_only S a b" "writes_only T b d" "S \<subseteq> U" "T \<subseteq> U"
  shows "writes_only U a d"
proof -
  obtain x y where "outs b = outs a @ x" "\<forall>t. Wire t \<in> set x \<longrightarrow> t \<in> S"
    "outs d = outs b @ y" "\<forall>t. Wire t \<in> set y \<longrightarrow> t \<in> T"
    using assms unfolding writes_only_def by blast
  then have "outs d = outs a @ (x @ y)" "\<forall>t. Wire t \<in> set (x @ y) \<longrightarrow> t \<in> U"
    using assms(3,4) by auto
  then show ?thesis unfolding writes_only_def by blast
qed

lemma writes_only_error: "writes_only T c (connectionError c)"
  using connectionError_outs [of c] by (fastforce simp: writes_only_def)

lemma sendCommand_awaiting: "awaiting cmd c \<Longrightarrow> sendCommand c = c"
  by (auto simp: awaiting_def sendCommand_def progress_def)

lemma writes_only_emit:
  assumes "\<And>t. e \<noteq> Wire t" "writes_only T c d"
  shows "writes_only T c (emit e d)"
proof (rule writes_only_trans [OF assms(2)])
  have "\<forall>t. Wire t \<in> set [e] \<longrightarrow> t \<in> T" using assms(1) by (metis empty_iff list.set(1) set_ConsD)
  then show "writes_only T d (emit e d)" unfolding writes_only_def by (metis emit_sel(8))
qed simp_all

lemma writes_only_setState: "writes_only T c (setState v c)"
proof -
  define ss where "ss = ss_setValue v (serverState c)"
  define c2 where "c2 = (if has_other c then emit (OtherStateChanged ss) (c\<lparr>serverState := ss\<rparr>)
    else c\<lparr>serverState := ss\<rparr>)"
  have a: "writes_only T c c2"
    by (simp add: c2_def writes_only_emit [OF _ writes_only_refl] writes_only_refl)
  have "setState v c = c2 \<or> setState v c = emit DeviceReady c2 \<or> setState v c = emit DeviceIdle c2"
    unfolding setState_def Let_def ss_def c2_def by simp
  then show ?thesis using a by (auto intro: writes_only_emit)
qed

lemma awaiting_step:
  assumes "awaiting cmd c" "no_reply e"
  shows "awaiting cmd (conn_step e c)" "writes_only (set (ev_text e)) c (conn_step e c)"
proof -
  have run: "runningCommand c = Some cmd" using assms(1) by (simp add: awaiting_def)
  have wait: "updateStatusWait c = c" "masterStateChanged c = c"
    using assms(1) by (simp_all add: updateStatusWait_def masterStateChanged_def awaiting_def)
  have bop: "masterStateChanged (c\<lparr>bopState := b\<rparr>) = c\<lparr>bopState := b\<rparr>" for b
    using assms(1) by (simp add: masterStateChanged_def awaiting_def)
  show "awaiting cmd (conn_step e c)"
    using assms run wait bop setConnState_running [of c]
    by (cases e) (simp_all add: awaiting_def no_reply_def queCommand_def setBopState_def)
  have idle: "writes_only (set (ev_text EvIdle)) c (conn_idle c)"
    using conn_idle_outs [of c] by (auto simp: writes_only_def)
  have msg: "writes_only {m} c (snd (sendMsg m c))" for m
    using sendMsg_outs [of m c] by (auto simp: writes_only_def)
  have cs: "writes_only {} c (setConnState st c)" for st
    using run connectionError_outs
    by (fastforce simp: writes_only_def setConnState_def dropConnection_def Let_def
        connectionError_def)
  show "writes_only (set (ev_text e)) c (conn_step e c)"
    using assms(2) run wait bop idle msg cs
    by (cases e) (simp_all add: no_reply_def queCommand_def setBopState_def writes_only_setState
        writes_only_refl)
qed

lemma awaiting_run:
  "awaiting cmd c \<Longrightarrow> (\<forall>e\<in>set es. no_reply e) \<Longrightarrow>
   awaiting cmd (run_steps conn_step es c)
   \<and> writes_only (\<Union>e\<in>set es. set (ev_text e)) c (run_steps conn_step es c)"
proof (induction es arbitrary: c)
  case Nil
  then show ?case by (simp add: writes_only_refl)
next
  case (Cons e es)
  then have "awaiting cmd (conn_step e c)" "writes_only (set (ev_text e)) c (conn_step e c)"
    using awaiting_step by auto
  then show ?case
    using Cons.IH [of "conn_step e c"] Cons.prems
    by (auto intro: writes_only_trans)
qed

text \<open>
  A command with a block-operation mask that was on the wire when a handshake retry
  replaced the socket is not sent again. \<open>reconnectSocket\<close> puts it back in front of the queue
  with the progress bits of a command that awaits its reply, so after the new handshake it
  becomes the running command without being written, and from then on no event but a reply
  moves it: the connection writes nothing but keep-alives and unrelated messages. (The comment
  in \<open>reconnectSocket\<close> says the command goes again.)
\<close>

theorem reconnect_loses_bop_command:
  assumes "runningCommand c = Some cmd" "ckind cmd = PlainCommand" "progress cmd = CIP_RETURN"
    "cbop cmd AND BOP_WHILE_STATE = 0"
    "\<And>d. fst (init d) = 0 \<and> runningCommand (snd (init d)) = runningCommand d
       \<and> commandQue (snd (init d)) = commandQue d \<and> outs (snd (init d)) = outs d"
    "\<forall>e\<in>set es. no_reply e"
  shows "let c' = run_steps conn_step (EvConnState CONN_AUTH_OK # es) (reconnectSocket init c)
    in runningCommand c' = Some cmd
       \<and> (\<exists>new. outs c' = outs c @ new \<and> (\<forall>t. Wire t \<in> set new \<longrightarrow> (\<exists>e\<in>set es. t \<in> set (ev_text e))))"
proof -
  define c1 where "c1 = reconnectSocket init c"
  define c2 where "c2 = setConnState CONN_AUTH_OK c1"
  define d where "d = setConnState CONN_CONNECTING (c\<lparr>sock_open := False, authSent := False,
    commandQue := cmd # commandQue c, runningCommand := None\<rparr>)"
  obtain b where b: "init d = (0, b)" using assms(5) [of d] by (cases "init d") simp
  have "c1 = snd (init d)"
    using assms(1,2) b by (simp add: c1_def reconnectSocket_def Let_def d_def)
  moreover have "runningCommand d = None" "commandQue d = cmd # commandQue c" "outs d = outs c"
    by (simp_all add: d_def setConnState_closed)
  ultimately have c1: "runningCommand c1 = None" "commandQue c1 = cmd # commandQue c" "outs c1 = outs c"
    using assms(5) [of d] by simp_all
  have nx: "sendNextCommand (c1\<lparr>authRetries := 0\<rparr>)
      = c1\<lparr>authRetries := 0, runningCommand := Some cmd, commandQue := commandQue c\<rparr>"
    unfolding sendNextCommand_def using c1
    by (simp add: sendCommand_awaiting [of cmd] awaiting_def assms(3,4))
  have c2: "awaiting cmd c2" "outs c2 = outs c"
    using c1 nx assms(3,4) by (simp_all add: c2_def setConnState_def Let_def awaiting_def)
  show ?thesis
    using awaiting_run [OF c2 (1) assms(6)]
    by (simp add: c1_def [symmetric] c2_def [symmetric] c2 (2) Let_def awaiting_def writes_only_def)
qed

lemma reconnect_loses_bop_command_witness:
  "runningCommand (run_steps conn_step (EvConnState CONN_AUTH_OK # [EvBop 0, EvStatusWait])
     (reconnectSocket (\<lambda>d. (0, d\<lparr>sock_open := True, cstate := CONN_INPROGRESS\<rparr>)) ((idle_conn 7)\<lparr>runningCommand :=
        Some (set_progress CIP_RETURN (bop_command ''expose'' BOP_EXPOSURE))\<rparr>)))
   = Some (set_progress CIP_RETURN (bop_command ''expose'' BOP_EXPOSURE))"
proof (rule reconnect_loses_bop_command [unfolded Let_def, THEN conjunct1])
  show "runningCommand ((idle_conn 7)\<lparr>runningCommand :=
        Some (set_progress CIP_RETURN (bop_command ''expose'' BOP_EXPOSURE))\<rparr>)
     = Some (set_progress CIP_RETURN (bop_command ''expose'' BOP_EXPOSURE))" by simp
qed (simp_all add: bop_command_def new_command_def no_reply_def)

end
