(* ===== verification/ConnProtocol.thy ===== *)
theory ConnProtocol
  imports ConnBop
begin

section \<open>The line protocol of a connection\<close>

text \<open>
  What \<open>Connection::processLine\<close> (\<open>connection.cpp\<close>) makes of a line: the one-letter
  messages of \<open>proto.h\<close>, replies to our commands, and the requests of
  \<open>Connection::command\<close>. The messages that change the connection itself (state, block
  operations, keep-alive, reply) are carried out on the \<open>conn\<close> record. Those that are calls
  of the owner (\<open>Block\<close>) or of the value table become a \<open>master_call\<close>, whose effect and
  return value are given by the handler \<open>m\<close>, as the virtual functions of the code are. The
  binary transfer messages (\<open>C\<close>, \<open>D\<close>, \<open>H\<close>, \<open>I\<close>, \<open>J\<close>, \<open>K\<close>, \<open>fits\<close>) and the two messages with
  floating point progress (\<open>R\<close>, \<open>P\<close>) are calls with their unread parameters.

  The printers are the functions of the daemons that write such lines
  (\<open>Daemon::sendStatusMessage\<close>, \<open>Block::sendBopMessage\<close>, \<open>Message::toConn\<close>,
  \<open>ConnCentrald::sendConnectedInfo\<close>), and the round trips say that what they print is what
  the other side reads.
\<close>

subsection \<open>Parameters of the messages\<close>

text \<open>\<open>!(paramEnd () || (paramNextString (&msg) == 0 && paramEnd ()))\<close>: an optional last string.\<close>

definition opt_string :: "string option param" where
  "opt_string s = (if fst (paramEnd s) then (Some None, snd (paramEnd s))
     else pbind (paramNextString None) (\<lambda>m. pend (Some m)) (snd (paramEnd s)))"

definition status_params :: "(int \<times> string option) param" where
  "status_params = pbind paramNextLongLong (\<lambda>v. pbind opt_string (\<lambda>m. preturn (v, m)))"

definition bopStatus_params :: "(int \<times> int) param" where
  "bopStatus_params = pbind paramNextLongLong (\<lambda>st. pbind paramNextLongLong (\<lambda>bop. pend (st, bop)))"

definition message_params :: "(int \<times> int \<times> string \<times> int \<times> string) param" where
  "message_params =
     pbind paramNextTimeval (\<lambda>tv. pbind (paramNextString None) (\<lambda>name. pbind paramNextInteger (\<lambda>typ s.
       (Some (fst tv, snd tv, name, typ, paramNextWholeString s), paramNextWholeString s))))"

definition device_params :: "(int \<times> int \<times> string \<times> string \<times> int \<times> int) param" where
  "device_params =
     pbind paramNextInteger (\<lambda>num. pbind paramNextInteger (\<lambda>i.
     pbind (paramNextString None) (\<lambda>name. pbind (paramNextString None) (\<lambda>host.
     pbind paramNextInteger (\<lambda>port. pbind paramNextInteger (\<lambda>typ. pend (num, i, name, host, port, typ)))))))"

definition delete_device_params :: "(int \<times> string) param" where
  "delete_device_params = pbind paramNextInteger (\<lambda>i. pbind (paramNextString None) (\<lambda>name. pend (i, name)))"

definition client_params :: "(int \<times> string \<times> string) param" where
  "client_params = pbind paramNextInteger (\<lambda>i. pbind (paramNextString None) (\<lambda>login.
     pbind (paramNextString None) (\<lambda>name. pend (i, login, name))))"

definition int_param :: "int param" where
  "int_param = pbind paramNextInteger pend"

definition string_param :: "string param" where
  "string_param = pbind (paramNextString None) pend"

definition metainfo_params :: "(int \<times> string \<times> string) param" where
  "metainfo_params = pbind paramNextInteger (\<lambda>typ. pbind (paramNextString None) (\<lambda>name.
     pbind (paramNextString None) (\<lambda>descr. pend (typ, name, descr))))"

text \<open>\<open>F name\<close> clears a selection, \<open>F name text\<close> adds a text to it.\<close>

definition selmeta_params :: "(string \<times> string option) param" where
  "selmeta_params = pbind (paramNextString None) (\<lambda>name s.
     if fst (paramEnd s) then (Some (name, None), snd (paramEnd s))
     else pbind (paramNextString None) (\<lambda>sel. pend (name, Some sel)) (snd (paramEnd s)))"

subsection \<open>Calls of the owner\<close>

datatype master_call =
    AddAddress int int int string string int int
  | DeleteAddress int int string
  | AddClient int string string
  | DeleteClient int
  | StatusInfoCall
  | GotMessage int int string int string
  | MetaInfo int string string
  | DeleteValue string
  | SelMetaClear string
  | SelMetaInfo string string
  | CommandValue string string
  | SetValue string
  | DataMessage string string
  | ProgressMessage string string

type_synonym 'a master = "master_call \<Rightarrow> 'a conn_scheme \<Rightarrow> int \<times> 'a conn_scheme"

definition with_params :: "'b param \<Rightarrow> string \<Rightarrow> ('b \<Rightarrow> 'a conn_scheme \<Rightarrow> int \<times> 'a conn_scheme)
    \<Rightarrow> 'a conn_scheme \<Rightarrow> int \<times> 'a conn_scheme" where
  "with_params p args f c = (case fst (p args) of None \<Rightarrow> (-2, c) | Some x \<Rightarrow> f x c)"

subsection \<open>Connection::command\<close>

definition conn_command :: "'a master \<Rightarrow> string \<Rightarrow> string \<Rightarrow> 'a conn_scheme \<Rightarrow> int \<times> 'a conn_scheme" where
  "conn_command m cmd args c =
     (if cmd = ''device'' then
        with_params device_params args (\<lambda>(num, i, name, host, port, typ) c.
          (-1, snd (m (AddAddress (centrald_num c) num i name host port typ) c))) c
      else if cmd = ''delete_device'' then
        with_params delete_device_params args (\<lambda>(i, name) c.
          (-1, snd (m (DeleteAddress (centrald_num c) i name) c))) c
      else if cmd = ''client'' then
        with_params client_params args (\<lambda>(i, login, name) c. (-1, snd (m (AddClient i login name) c))) c
      else if cmd = ''delete_client'' then
        with_params int_param args (\<lambda>i c. (-1, snd (m (DeleteClient i) c))) c
      else if cmd = ''status_info'' then
        (if fst (paramEnd args) then m StatusInfoCall c else (-2, c))
      else if cmd = ''P'' then m (ProgressMessage cmd args) c
      else if cmd = ''V'' then (-1, c)
      else (-4, sendCommandEnd DEVDEM_E_COMMAND (''unknow command '' @ cmd) c))"

subsection \<open>The messages that change the connection\<close>

definition status :: "string \<Rightarrow> 'a conn_scheme \<Rightarrow> int \<times> 'a conn_scheme" where
  "status args = with_params status_params args (\<lambda>(v, msg) c. (-1, setState (word_of_int v) c))"

definition bopStatus :: "string \<Rightarrow> 'a conn_scheme \<Rightarrow> int \<times> 'a conn_scheme" where
  "bopStatus args = with_params bopStatus_params args (\<lambda>(st, bop) c.
     (-1, setState (word_of_int st) (setBopState (word_of_int bop) c)))"

definition message :: "'a master \<Rightarrow> string \<Rightarrow> 'a conn_scheme \<Rightarrow> int \<times> 'a conn_scheme" where
  "message m args = with_params message_params args (\<lambda>(sec, usec, name, typ, txt) c.
     (-1, snd (m (GotMessage sec usec name typ txt) c)))"

definition technical :: "string \<Rightarrow> 'a conn_scheme \<Rightarrow> int \<times> 'a conn_scheme" where
  "technical args = with_params string_param args (\<lambda>msg c.
     if msg = ''ready'' then (-1, snd (sendMsg ''T OK'' c))
     else if msg = ''OK'' then (-1, c)
     else (-2, c))"

text \<open>\<open>atoi\<close> of the reply code.\<close>

definition atoi :: "string \<Rightarrow> int" where
  "atoi s = to_int32 (fst (strtol10 s))"

definition commandReturn_line :: "string \<Rightarrow> 'a conn_scheme \<Rightarrow> int \<times> 'a conn_scheme" where
  "commandReturn_line cmd c = (-1, commandReturn (atoi cmd) c)"

text \<open>
  The dispatch of \<open>processLine\<close>, without its epilogue. \<open>cmdf\<close> is the virtual \<open>command\<close> of
  the connection's class.
\<close>

definition dispatch_line :: "(string \<Rightarrow> string \<Rightarrow> 'a conn_scheme \<Rightarrow> int \<times> 'a conn_scheme) \<Rightarrow> 'a master
    \<Rightarrow> string \<Rightarrow> string \<Rightarrow> 'a conn_scheme \<Rightarrow> int \<times> 'a conn_scheme" where
  "dispatch_line cmdf m cmd args c =
     (if cmd = ''R'' then m (ProgressMessage cmd args) c
      else if cmd = ''S'' then status args c
      else if cmd = ''B'' then bopStatus args c
      else if cmd = ''M'' then message m args c
      else if cmd = ''T'' then technical args c
      else if cmd = ''E'' then with_params metainfo_params args (\<lambda>(typ, name, descr). m (MetaInfo typ name descr)) c
      else if cmd = ''Z'' then with_params string_param args (\<lambda>name. m (DeleteValue name)) c
      else if cmd = ''V'' then
        (case paramNextString None args of
           (None, _) \<Rightarrow> (-1, c)
         | (Some name, r) \<Rightarrow> (-1, snd (m (CommandValue name r) c)))
      else if cmd = ''F'' then
        with_params selmeta_params args (\<lambda>(name, sel).
          case sel of None \<Rightarrow> m (SelMetaClear name) | Some t \<Rightarrow> m (SelMetaInfo name t)) c
      else if cmd = ''X'' then m (SetValue args) c
      else if cmd \<in> {''C'', ''D'', ''H'', ''I'', ''J'', ''K'', ''fits''} then m (DataMessage cmd args) c
      else if isCommandReturn cmd then commandReturn_line cmd c
      else cmdf cmd args c)"

definition end_text :: "int \<Rightarrow> string \<Rightarrow> string" where
  "end_text ret line =
     (if ret = DEVDEM_OK then ''OK''
      else if ret = DEVDEM_E_PARAMSNUM
      then ''invalid parameters/invalid number of parameters - '' @ line
      else ''invalid parameter values for command '' @ line)"

definition reply_to :: "int \<Rightarrow> string \<Rightarrow> 'a conn_scheme \<Rightarrow> 'a conn_scheme" where
  "reply_to ret line c =
     (if ret = DEVDEM_OK \<or> ret = DEVDEM_E_PARAMSNUM \<or> ret = DEVDEM_E_PARAMSVAL
      then sendCommandEnd ret (end_text ret line) c else c)"

definition processLine :: "(string \<Rightarrow> string \<Rightarrow> 'a conn_scheme \<Rightarrow> int \<times> 'a conn_scheme) \<Rightarrow> 'a master
    \<Rightarrow> string \<Rightarrow> 'a conn_scheme \<Rightarrow> 'a conn_scheme" where
  "processLine cmdf m line c =
     (let (ret, c1) = dispatch_line cmdf m (fst (split_command line)) (snd (split_command line)) c
      in reply_to ret line c1)"

text \<open>Every line of a buffer in turn (no binary transfer is started).\<close>

definition process_lines :: "(string \<Rightarrow> string \<Rightarrow> 'a conn_scheme \<Rightarrow> int \<times> 'a conn_scheme) \<Rightarrow> 'a master
    \<Rightarrow> string list \<Rightarrow> 'a conn_scheme \<Rightarrow> 'a conn_scheme" where
  "process_lines cmdf m ls c = fold (processLine cmdf m) ls c"

subsection \<open>What the other side prints\<close>

text \<open>\<open>Daemon::sendStatusMessage\<close> and \<open>sendStatusMessageConn\<close> without progress.\<close>

definition status_text :: "u32 \<Rightarrow> string option \<Rightarrow> string" where
  "status_text st msg = ''S '' @ show_u32 st
     @ (case msg of None \<Rightarrow> [] | Some m \<Rightarrow> '' '' @ quoted m)"

definition bop_text :: "u32 \<Rightarrow> u32 \<Rightarrow> string" where
  "bop_text st bop = ''B '' @ show_u32 st @ '' '' @ show_u32 bop"

definition device_text :: "int \<Rightarrow> int \<Rightarrow> string \<Rightarrow> string \<Rightarrow> int \<Rightarrow> int \<Rightarrow> string" where
  "device_text num i name host port typ =
     ''device '' @ show_int num @ '' '' @ show_int i @ '' '' @ name @ '' '' @ host @ '' ''
     @ show_int port @ '' '' @ show_int typ"

definition client_text :: "int \<Rightarrow> string \<Rightarrow> string \<Rightarrow> string" where
  "client_text i login name = ''client '' @ show_int i @ '' '' @ login @ '' '' @ name"

definition delete_device_text :: "int \<Rightarrow> string \<Rightarrow> string" where
  "delete_device_text i name = ''delete_device '' @ show_int i @ '' '' @ name"

definition delete_client_text :: "int \<Rightarrow> string" where
  "delete_client_text i = ''delete_client '' @ show_int i"

text \<open>
  \<open>Message::toConn\<close>. The three replacement loops look for a character of a C string; the first
  one's, \<open>"\0"\<close>, is the empty string, so it replaces nothing.
\<close>

fun escape_char :: "char \<Rightarrow> string \<Rightarrow> string \<Rightarrow> string" where
  "escape_char ch t [] = []"
| "escape_char ch t (c # s) = (if c = ch then t else [c]) @ escape_char ch t s"

definition toConn :: "int \<Rightarrow> int \<Rightarrow> string \<Rightarrow> int \<Rightarrow> string \<Rightarrow> string" where
  "toConn sec usec name typ txt =
     ''M '' @ show_int sec @ '' '' @ show_int usec @ '' '' @ name @ '' '' @ show_int typ @ '' ''
     @ escape_char LF [CHR 0x5C, CHR ''n''] (escape_char CR [CHR 0x5C, CHR ''r''] txt)"

subsection \<open>Round trips\<close>

lemma split_command_word:
  "\<forall>c\<in>set w. \<not> is_space c \<Longrightarrow> split_command (w @ CHR '' '' # r) = (w, r)"
  "\<forall>c\<in>set w. \<not> is_space c \<Longrightarrow> split_command w = (w, [])"
  using takeWhile_word (1,2) [where w = w and stop = is_space]
    takeWhile_word (3,4) [where w = w and stop = is_space and d = "CHR '' ''" and r = r]
  by (simp_all add: split_command_def)

lemma skips_opt_string [simp, intro]: "skips opt_string"
  by (simp add: skips_def opt_string_def)

lemma opt_string_simps [simp]:
  "opt_string [] = (Some None, [])"
  "quotable m \<Longrightarrow> opt_string (quoted m) = (Some (Some m), [])"
proof -
  show "opt_string [] = (Some None, [])" by (simp add: opt_string_def paramEnd_def)
  assume q: "quotable m"
  have "skip_space (quoted m) = quoted m" by (simp add: quoted_def skip_space_Cons)
  moreover have "pbind (paramNextString None) (\<lambda>m. pend (Some m)) (quoted m) = (Some (Some m), [])"
    using token_quoted [OF q, of None "[]"] by (simp add: pbind_def pend_def paramEnd_def)
  ultimately show "opt_string (quoted m) = (Some (Some m), [])"
    by (simp add: opt_string_def paramEnd_def quoted_def)
qed

lemma status_params_text:
  "status_params (show_u32 st) = (Some (uint st, None), [])"
  "quotable m \<Longrightarrow> status_params (show_u32 st @ CHR '' '' # quoted m) = (Some (uint st, Some m), [])"
proof -
  have sk: "skips (\<lambda>s. pbind opt_string (\<lambda>m. preturn (v, m)) s)" for v :: int
    by (rule skips_pbind) simp
  show "status_params (show_u32 st) = (Some (uint st, None), [])"
    using long_item.bind_last [OF u32_in_long sk]
    by (simp add: status_params_def show_u32_int) (simp add: pbind_def preturn_def)
  assume "quotable m"
  then show "status_params (show_u32 st @ CHR '' '' # quoted m) = (Some (uint st, Some m), [])"
    using long_item.bind_sep' [OF u32_in_long sk]
    by (simp add: status_params_def show_u32_int) (simp add: pbind_def preturn_def)
qed

subsection \<open>Delivery of lines\<close>

text \<open>A message \<open>sendMsg\<close> can put on the wire as one line.\<close>

definition wire_line :: "string \<Rightarrow> bool" where
  "wire_line l \<longleftrightarrow> l \<noteq> [] \<and> \<not> is_space (hd l) \<and> (\<forall>c\<in>set l. line_char c \<and> c \<noteq> NUL)"

definition wire_bytes :: "string list \<Rightarrow> string" where
  "wire_bytes ls = concat (map (\<lambda>l. l @ [LF]) ls)"

lemma scan_lines_line:
  assumes "wire_line l"
  shows "scan_lines (l @ LF # s) = (l # fst (scan_lines s), snd (scan_lines s))"
proof -
  have sk: "skip_space (l @ LF # s) = l @ LF # s"
    using assms by (cases l) (auto simp: wire_line_def skip_space_Cons)
  have all: "\<forall>c\<in>set l. line_char c" using assms by (simp add: wire_line_def)
  have tw: "takeWhile line_char (l @ LF # s) = l" "dropWhile line_char (l @ LF # s) = LF # s"
    using all by (simp_all add: takeWhile_append2 dropWhile_append2 line_char_def)
  show ?thesis
    by (subst scan_lines.simps) (simp add: sk tw Let_def split: prod.splits)
qed

lemma scan_lines_wire_bytes:
  "\<forall>l\<in>set ls. wire_line l \<Longrightarrow> scan_lines (wire_bytes ls) = (ls, [])"
proof (induction ls)
  case (Cons l ls)
  then show ?case
    using scan_lines_line [of l "wire_bytes ls"] by (simp add: wire_bytes_def)
qed (simp add: wire_bytes_def)

lemma wire_bytes_no_NUL: "\<forall>l\<in>set ls. wire_line l \<Longrightarrow> NUL \<notin> set (wire_bytes ls)"
  by (auto simp: wire_bytes_def wire_line_def)

text \<open>
  C36: delivery. The lines a peer sends arrive complete, in order and unchanged, and nothing is
  left in the buffer, however the byte stream is cut into reads.
\<close>

theorem lines_delivered:
  assumes "\<forall>l\<in>set ls. wire_line l" "concat chunks = wire_bytes ls"
  shows "receive_chunks [] chunks = (ls, [])"
proof -
  have "\<forall>c\<in>set chunks. NUL \<notin> set c"
    using wire_bytes_no_NUL [OF assms(1)] unfolding assms(2) [symmetric] by auto
  then have "receive_chunks [] chunks = scan_lines ([] @ concat chunks)"
    by (intro receive_chunks_scan) simp_all
  then show ?thesis using assms scan_lines_wire_bytes by simp
qed

lemma lines_delivered_witness:
  "receive_chunks [] [''S 2'', ''62144'' @ [LF] @ ''T '', ''ready'', [LF]] = ([''S 262144'', ''T ready''], [])"
  by (rule lines_delivered) (simp_all add: wire_line_def wire_bytes_def is_space_def line_char_def)

text \<open>
  Chunking does not matter for any byte stream without NUL, well formed or not: what is delivered
  and what is kept depends on the bytes only, not on how reads cut them.
\<close>

lemma chunking_invariance:
  assumes "concat xs = concat ys" "NUL \<notin> set (concat xs)"
  shows "receive_chunks [] xs = receive_chunks [] ys"
proof -
  have r: "receive_chunks [] zs = scan_lines (concat zs)" if "NUL \<notin> set (concat zs)" for zs
    using that receive_chunks_scan [of "[]" zs] by auto
  show ?thesis using r [of xs] r [of ys] assms by metis
qed

subsection \<open>Messages as received\<close>

lemma processLine_word:
  assumes "\<forall>c\<in>set w. \<not> is_space c"
  shows "processLine cmdf m (w @ CHR '' '' # r) c
    = (case dispatch_line cmdf m w r c of (ret, c1) \<Rightarrow> reply_to ret (w @ CHR '' '' # r) c1)"
  using split_command_word (1) [OF assms, of r] by (simp add: processLine_def)

lemma status_line:
  assumes "\<And>t. msg = Some t \<Longrightarrow> quotable t"
  shows "processLine cmdf m (status_text st msg) c = setState st c"
proof -
  have "fst (status_params (show_u32 st @ (case msg of None \<Rightarrow> [] | Some t \<Rightarrow> '' '' @ quoted t)))
      = Some (uint st, msg)"
    using status_params_text assms by (cases msg) simp_all
  then show ?thesis
    using processLine_word [of "''S''" cmdf m _ c]
    by (simp add: status_text_def is_space_def dispatch_line_def status_def with_params_def reply_to_def)
qed

text \<open>
  State broadcasts arrive. Processing the line a daemon prints for its state (with or
  without an explanation) sets the peer's state to that 32-bit value, and answers nothing.
\<close>

theorem status_roundtrip:
  assumes "\<And>t. msg = Some t \<Longrightarrow> quotable t"
  shows "processLine cmdf m (status_text st msg) c = setState st c"
  using assms by (rule status_line)

lemma status_roundtrip_witness:
  "getState (processLine (\<lambda>_ _ c. (-4, c)) (\<lambda>_ c. (0, c)) (status_text BAD_WEATHER (Some ''rain'')) (idle_conn 7))
   = BAD_WEATHER"
  using status_roundtrip [of "Some ''rain''" "\<lambda>_ _ c. (-4, c)" "\<lambda>_ c. (0, c)" BAD_WEATHER "idle_conn 7"]
  by (simp add: quotable_def setState_def Let_def getState_def emit_sel)

text \<open>
  Block-operation broadcasts arrive. The line centrald sends to a device carries both its
  state and the full BOP state, and processing it stores both, in the order of the code, so
  commands waiting for the BOP state go out before the new state is announced.
\<close>

theorem bop_roundtrip:
  "processLine cmdf m (bop_text st bop) c = setState st (setBopState bop c)"
proof -
  have "bopStatus_params (show_u32 st @ CHR '' '' # show_u32 bop) = (Some (uint st, uint bop), [])"
    unfolding bopStatus_params_def show_u32_int
    by (subst long_item.bind_sep' [OF u32_in_long], rule skips_pbind, simp,
        subst long_item.bind_last [OF u32_in_long], simp)
      (simp add: pend_def paramEnd_def)
  then show ?thesis
    using processLine_word [of "''B''" cmdf m _ c]
    by (simp add: bop_text_def is_space_def dispatch_line_def bopStatus_def with_params_def reply_to_def)
qed

lemma wire_word_params:
  "plain_word w \<Longrightarrow> skips (f w) \<Longrightarrow> pbind (paramNextString None) f (w @ CHR '' '' # r) = f w r"
  "plain_word w \<Longrightarrow> skips (f w) \<Longrightarrow> pbind (paramNextString None) f w = f w []"
  by (rule word_item.bind_sep' word_item.bind_last; assumption)+

lemma wire_int_params:
  "int32_range i \<Longrightarrow> skips (f i) \<Longrightarrow> pbind paramNextInteger f (show_int i @ CHR '' '' # r) = f i r"
  "int32_range i \<Longrightarrow> skips (f i) \<Longrightarrow> pbind paramNextInteger f (show_int i) = f i []"
  by (rule int_item.bind_sep' int_item.bind_last; assumption)+

lemma pend_Nil [simp]: "pend x [] = (Some x, [])"
  by (simp add: pend_def paramEnd_def)

text \<open>
  Announcements of devices arrive. The line centrald prints for a registered device makes
  the receiver call \<open>addAddress\<close> with exactly that device's numbers, name, host, port and type
  (names and host names without blanks, numbers in the range of \<open>int\<close>), under the receiver's
  number of that centrald.
\<close>

theorem device_roundtrip:
  assumes "int32_range num" "int32_range i" "plain_word name" "plain_word host" "int32_range port"
    "int32_range typ"
  shows "processLine (conn_command m) m (device_text num i name host port typ) c
    = snd (m (AddAddress (centrald_num c) num i name host port typ) c)"
proof -
  have "device_params (show_int num @ '' '' @ show_int i @ '' '' @ name @ '' '' @ host @ '' ''
      @ show_int port @ '' '' @ show_int typ) = (Some (num, i, name, host, port, typ), [])"
    using assms by (simp add: device_params_def wire_int_params wire_word_params skips_pbind)
  moreover have "\<forall>c\<in>set ''device''. \<not> is_space c" by (simp add: is_space_def)
  ultimately show ?thesis
    using processLine_word [of "''device''" "conn_command m" m _ c]
    by (simp add: device_text_def dispatch_line_def conn_command_def with_params_def isCommandReturn_def
        reply_to_def)
qed

lemma device_roundtrip_witness:
  "cname (processLine (conn_command (\<lambda>a c. (0, case a of AddAddress _ _ _ n _ _ _ \<Rightarrow> c\<lparr>cname := n\<rparr> | _ \<Rightarrow> c)))
     (\<lambda>a c. (0, case a of AddAddress _ _ _ n _ _ _ \<Rightarrow> c\<lparr>cname := n\<rparr> | _ \<Rightarrow> c))
     (device_text 0 3 ''DOME'' ''lascaux'' 5550 4) (idle_conn 7)) = ''DOME''"
  using device_roundtrip [of 0 3 "''DOME''" "''lascaux''" 5550 4
      "\<lambda>a c. (0, case a of AddAddress _ _ _ n _ _ _ \<Rightarrow> c\<lparr>cname := n\<rparr> | _ \<Rightarrow> c)" "idle_conn 7"]
  by (simp add: int32_range_def plain_word_def is_space_def)

subsection \<open>Log messages\<close>

lemma wire_long_params:
  assumes "long_min \<le> i" "i \<le> long_max" "skips (f (to_int32 i))"
  shows "pbind paramNextInteger f (show_int i @ CHR '' '' # r) = f (to_int32 i) r"
  using assms(3) by (simp add: pbind_def paramNextInteger_def read_strtol_show_int [OF assms(1,2)])

lemma int32_long: "int32_range i \<Longrightarrow> long_min \<le> i \<and> i \<le> long_max"
  by (simp add: int32_range_def long_min_def long_max_def)

definition escaped :: "string \<Rightarrow> string" where
  "escaped txt = escape_char LF [CHR 0x5C, CHR ''n''] (escape_char CR [CHR 0x5C, CHR ''r''] txt)"

lemma escape_char_set:
  "set (escape_char ch t s) \<subseteq> (set s - {ch}) \<union> (if ch \<in> set s then set t else {})"
  by (induction s) (auto split: if_splits)

lemma escaped_no_ends: "LF \<notin> set (escaped txt)" "CR \<notin> set (escaped txt)"
proof -
  have a: "set (escape_char CR [CHR 0x5C, CHR ''r''] txt) \<subseteq> (set txt - {CR}) \<union> {CHR 0x5C, CHR ''r''}"
    using escape_char_set [of CR "[CHR 0x5C, CHR ''r'']" "txt"] by (auto split: if_splits)
  have b: "set (escaped txt) \<subseteq> (set (escape_char CR [CHR 0x5C, CHR ''r''] txt) - {LF}) \<union> {CHR 0x5C, CHR ''n''}"
    using escape_char_set [of LF "[CHR 0x5C, CHR ''n'']" "escape_char CR [CHR 0x5C, CHR ''r''] txt"]
    by (auto simp: escaped_def split: if_splits)
  show "LF \<notin> set (escaped txt)" "CR \<notin> set (escaped txt)" using a b by auto
qed

lemma message_params_text:
  assumes "long_min \<le> sec" "sec \<le> long_max" "int32_range usec" "int32_range typ" "plain_word name"
  shows "fst (message_params (show_int sec @ '' '' @ show_int usec @ '' '' @ name @ '' '' @ show_int typ
      @ '' '' @ txt)) = Some (to_int32 sec, usec, name, typ, skip_space txt)"
proof -
  let ?f = "\<lambda>tv name typ s. (Some (fst tv, snd tv, name, typ, paramNextWholeString s), paramNextWholeString s)"
  have f: "skips (?f tv n t)" for tv :: "int \<times> int" and n :: string and t :: int
    by (simp add: skips_def paramNextWholeString_def)
  have tv: "pbind paramNextTimeval g (show_int sec @ CHR '' '' # show_int usec @ CHR '' '' # r)
      = g (to_int32 sec, usec) r"
    if "skips (g (to_int32 sec, usec))" for g :: "int \<times> int \<Rightarrow> 'b param" and r
  proof -
    have "pbind paramNextTimeval g x = pbind paramNextInteger (\<lambda>a. pbind paramNextInteger (\<lambda>b. g (a, b))) x" for x
      by (simp add: paramNextTimeval_def pbind_def preturn_def split: prod.splits option.splits)
    then show ?thesis
      using wire_long_params [OF assms(1,2), where f = "\<lambda>a. pbind paramNextInteger (\<lambda>b. g (a, b))"]
        wire_int_params (1) [OF assms(3), where f = "\<lambda>b. g (to_int32 sec, b)"] that
      by (simp add: skips_pbind)
  qed
  have "message_params (show_int sec @ '' '' @ show_int usec @ '' '' @ name @ '' '' @ show_int typ
      @ '' '' @ txt) = ?f (to_int32 sec, usec) name typ txt"
    using assms(4,5) wire_int_params (1) [OF assms(4), where f = "?f (to_int32 sec, usec) name", OF f]
    by (simp add: message_params_def tv wire_word_params skips_pbind)
  then show ?thesis by (simp add: paramNextWholeString_def)
qed

text \<open>
  C40: log messages arrive. The line of a message is received as a message with the same
  microseconds, origin, type and text, with line ends escaped and blanks in front of the text
  dropped; the seconds are read back as a 32-bit integer.
\<close>

theorem message_roundtrip:
  assumes "long_min \<le> sec" "sec \<le> long_max" "int32_range usec" "int32_range typ" "plain_word name"
  shows "processLine cmdf m (toConn sec usec name typ txt) c
    = snd (m (GotMessage (to_int32 sec) usec name typ (skip_space (escaped txt))) c)"
  using message_params_text [OF assms, of "escaped txt"]
    processLine_word [of "''M''" cmdf m "show_int sec @ '' '' @ show_int usec @ '' '' @ name @ '' ''
      @ show_int typ @ '' '' @ escaped txt" c]
  by (simp add: toConn_def escaped_def is_space_def dispatch_line_def message_def with_params_def reply_to_def)

definition keep_time :: "unit master" where
  "keep_time a c = (0, case a of GotMessage sec _ _ _ _ \<Rightarrow> c\<lparr>clock := sec\<rparr> | _ \<Rightarrow> c)"

lemma message_roundtrip_witness:
  "clock (processLine (\<lambda>_ _ c. (-4, c)) keep_time (toConn 1700000000 250 ''centrald'' 4 (''day started'' @ [LF]))
     (idle_conn 7)) = 1700000000"
  using message_roundtrip [of 1700000000 250 4 "''centrald''" "\<lambda>_ _ c. (-4, c)" keep_time
      "''day started'' @ [LF]" "idle_conn 7"]
  by (simp add: int32_range_def plain_word_def is_space_def keep_time_def long_min_def long_max_def)

text \<open>
  The seconds of a message wrap in 2038. A message stamped at or after 2^31 seconds is
  received with a time 2^32 seconds earlier, because the receiver reads the seconds of the
  64-bit time with the reader of an \<open>int\<close>.
\<close>

theorem message_time_wraps:
  assumes "2 ^ 31 \<le> sec" "sec < 2 ^ 32" "int32_range usec" "int32_range typ" "plain_word name"
  shows "processLine cmdf m (toConn sec usec name typ txt) c
    = snd (m (GotMessage (sec - 2 ^ 32) usec name typ (skip_space (escaped txt))) c)"
proof -
  have "to_int32 sec = to_int32 (sec - 2 ^ 32)"
    using signed_take_bit_add [of 31 "sec - 2 ^ 32" "2 ^ 32"] unfolding to_int32_def
    by (simp add: signed_take_bit_eq_if_positive signed_take_bit_int_eq_self_iff take_bit_int_eq_self)
  also have "\<dots> = sec - 2 ^ 32" using assms(1,2) by (intro to_int32_id) (simp add: int32_range_def)
  finally have w: "to_int32 sec = sec - 2 ^ 32" .
  have r: "long_min \<le> sec" "sec \<le> long_max" using assms(1,2) by (simp_all add: long_min_def long_max_def)
  have p: "fst (message_params (show_int sec @ '' '' @ show_int usec @ '' '' @ name @ '' '' @ show_int typ
      @ '' '' @ escaped txt)) = Some (sec - 2 ^ 32, usec, name, typ, skip_space (escaped txt))"
    unfolding w [symmetric] by (rule message_params_text [OF r assms(3-5)])
  show ?thesis
    using p processLine_word [of "''M''" cmdf m "show_int sec @ '' '' @ show_int usec @ '' '' @ name @ '' ''
      @ show_int typ @ '' '' @ escaped txt" c]
    by (simp add: toConn_def escaped_def is_space_def dispatch_line_def message_def with_params_def reply_to_def)
qed

lemma message_time_wraps_witness:
  "clock (processLine (\<lambda>_ _ c. (-4, c)) keep_time (toConn 2147483648 250 ''centrald'' 4 ''night started'')
     (idle_conn 7)) = - 2147483648"
  using message_time_wraps [of 2147483648 250 4 "''centrald''" "\<lambda>_ _ c. (-4, c)" keep_time
      "''night started''" "idle_conn 7"]
  by (simp add: int32_range_def plain_word_def is_space_def keep_time_def)

end
