(* ===== verification/Ini.thy ===== *)
theory Ini
  imports Rts2Prelude
begin

section \<open>Configuration files\<close>

text \<open>
  \<open>IniParser\<close> (\<open>base/kernel/src/iniparser.cpp\<close>, \<open>iniparser.h\<close>): sections of named values,
  the line parser, and the accessors the daemons use, among them \<open>blockDevice\<close>, which decides
  which devices can block which. The line parser works with positions in the line, as the
  iterators \<open>top\<close> and \<open>es\<close> do; reading past the end of the line, undefined in the code, is
  \<open>None\<close>. Log output (the lists of missing values and sections) is left out.
\<close>

subsection \<open>Values and sections\<close>

record ini_value =
  valueName :: string
  valueSuffix :: string
  ivalue :: string
  comment :: string

definition isValue :: "string \<Rightarrow> ini_value \<Rightarrow> bool" where
  "isValue nm v \<longleftrightarrow> valueName v = nm \<and> valueSuffix v = []"

record ini_section =
  sectName :: string
  sectValues :: "ini_value list"
  blockedBy :: "string list option"

type_synonym ini = "ini_section list"

definition new_section :: "string \<Rightarrow> ini_section" where
  "new_section nm = \<lparr>sectName = nm, sectValues = [], blockedBy = None\<rparr>"

definition section_getValue :: "string \<Rightarrow> ini_section \<Rightarrow> ini_value option" where
  "section_getValue nm sect = find (isValue nm) (sectValues sect)"

text \<open>The words of a \<open>blocked_by\<close> entry; the accumulator is \<open>deviceName\<close>.\<close>

fun blocked_words :: "string option \<Rightarrow> string \<Rightarrow> string list" where
  "blocked_words None [] = []"
| "blocked_words (Some w) [] = [w]"
| "blocked_words dev (c # s) =
     (if c = CHR '' '' then (case dev of None \<Rightarrow> [] | Some w \<Rightarrow> [w]) @ blocked_words None s
      else blocked_words (Some ((case dev of None \<Rightarrow> [] | Some w \<Rightarrow> w) @ [c])) s)"

definition createBlockedBy :: "string \<Rightarrow> ini_section \<Rightarrow> ini_section" where
  "createBlockedBy val sect =
     sect\<lparr>blockedBy := (let ws = blocked_words None val in if ws = [] then None else Some ws)\<rparr>"

definition containedInBlockedBy :: "string \<Rightarrow> ini_section \<Rightarrow> bool" where
  "containedInBlockedBy dev sect = (case blockedBy sect of None \<Rightarrow> True | Some ws \<Rightarrow> dev \<in> set ws)"

definition getSection :: "string \<Rightarrow> ini \<Rightarrow> ini_section option" where
  "getSection nm i = find (\<lambda>s. sectName s = nm) i"

definition ini_getValue :: "string \<Rightarrow> string \<Rightarrow> ini \<Rightarrow> ini_value option" where
  "ini_getValue sect nm i =
     (case getSection sect i of None \<Rightarrow> None | Some s \<Rightarrow> section_getValue nm s)"

definition blockDevice :: "string \<Rightarrow> string \<Rightarrow> ini \<Rightarrow> bool" where
  "blockDevice dev querying i =
     (case getSection dev i of None \<Rightarrow> True | Some s \<Rightarrow> containedInBlockedBy querying s)"

definition getStringValue :: "string \<Rightarrow> string \<Rightarrow> ini \<Rightarrow> string option" where
  "getStringValue sect nm i = map_option ivalue (ini_getValue sect nm i)"

definition getStringDefault :: "string \<Rightarrow> string \<Rightarrow> string \<Rightarrow> ini \<Rightarrow> string" where
  "getStringDefault sect nm def i = (case getStringValue sect nm i of None \<Rightarrow> def | Some v \<Rightarrow> v)"

definition getBoolean :: "string \<Rightarrow> string \<Rightarrow> bool \<Rightarrow> ini \<Rightarrow> bool" where
  "getBoolean sect nm def i = (case getStringValue sect nm i of
     None \<Rightarrow> def
   | Some v \<Rightarrow> if v \<in> {''y'', ''yes'', ''true''} then True
              else if v \<in> {''n'', ''no'', ''false''} then False
              else def)"

subsection \<open>Integers: strtol with base 0\<close>

definition hex_val :: "char \<Rightarrow> nat option" where
  "hex_val c = (let n = (of_char c :: nat) in
     if 48 \<le> n \<and> n \<le> 57 then Some (n - 48)
     else if 97 \<le> n \<and> n \<le> 102 then Some (n - 87)
     else if 65 \<le> n \<and> n \<le> 70 then Some (n - 55)
     else None)"

fun read_base :: "nat \<Rightarrow> nat \<Rightarrow> string \<Rightarrow> nat \<times> string" where
  "read_base b acc [] = (acc, [])"
| "read_base b acc (c # s) =
     (case hex_val c of
        None \<Rightarrow> (acc, c # s)
      | Some d \<Rightarrow> if d < b then read_base b (b * acc + d) s else (acc, c # s))"

definition is_hex_start :: "string \<Rightarrow> bool" where
  "is_hex_start s = (case s of
     a # x # d # r \<Rightarrow> a = CHR ''0'' \<and> (x = CHR ''x'' \<or> x = CHR ''X'') \<and> hex_val d \<noteq> None
   | _ \<Rightarrow> False)"

definition strtol0 :: "string \<Rightarrow> int \<times> string" where
  "strtol0 s =
     (let s1 = skip_space s;
          neg = (s1 \<noteq> [] \<and> hd s1 = CHR ''-'');
          s2 = (if s1 \<noteq> [] \<and> (hd s1 = CHR ''-'' \<or> hd s1 = CHR ''+'') then tl s1 else s1)
      in if s2 = [] \<or> \<not> is_digit (hd s2) then (0, s)
         else let (n, r) = (if is_hex_start s2 then read_base 16 0 (drop 2 s2)
                            else if hd s2 = CHR ''0'' then read_base 8 0 s2
                            else read_base 10 0 s2);
                  v = (if neg then - int n else int n)
              in (max long_min (min long_max v), r))"

definition getInteger :: "string \<Rightarrow> string \<Rightarrow> ini \<Rightarrow> int option" where
  "getInteger sect nm i = (case getStringValue sect nm i of
     None \<Rightarrow> None
   | Some v \<Rightarrow> if snd (strtol0 v) = [] then Some (to_int32 (fst (strtol0 v))) else None)"

definition getIntegerDefault :: "string \<Rightarrow> string \<Rightarrow> int \<Rightarrow> ini \<Rightarrow> int" where
  "getIntegerDefault sect nm def i = (case getInteger sect nm i of None \<Rightarrow> def | Some v \<Rightarrow> v)"

subsection \<open>Lines\<close>

datatype ini_pstate = NAME | SUFF | VAL | VAL_QUT | VAL_END | LINE_END

record line_st =
  pstate :: ini_pstate
  pEs :: nat
  pTop :: nat
  pName :: string
  pSuffix :: string
  pVal :: string
  pComment :: string

text \<open>\<open>line.substr (a, b - a)\<close> and the character an iterator points to (NUL at the end).\<close>

definition sub_string :: "string \<Rightarrow> nat \<Rightarrow> nat \<Rightarrow> string" where
  "sub_string line a b = take (b - a) (drop a line)"

definition char_at :: "string \<Rightarrow> nat \<Rightarrow> char" where
  "char_at line i = (if i < length line then line ! i else NUL)"

definition skip_to :: "(char \<Rightarrow> bool) \<Rightarrow> string \<Rightarrow> nat \<Rightarrow> nat" where
  "skip_to P line i = i + length (takeWhile (\<lambda>c. \<not> P c) (drop i line))"

text \<open>
  One pass of the \<open>for\<close> loop over the line, the increment included. \<open>full\<close> is
  \<open>parseFullLine\<close>: the value then ends with the line (the loop meant to drop blanks before the
  end looks at the terminating NUL and drops nothing).
\<close>

definition name_end :: "string \<Rightarrow> line_st \<Rightarrow> line_st option" where
  "name_end line st =
     (let str = sub_string line (pTop st) (pEs st);
          st1 = (if pstate st = SUFF then st\<lparr>pSuffix := str\<rparr> else st\<lparr>pName := str\<rparr>);
          eq = skip_to (\<lambda>c. c = CHR ''='') line (pEs st)
      in if eq \<ge> length line then None
         else let v = skip_to (\<lambda>c. \<not> is_space c) line (Suc eq)
              in if char_at line v = DQ
                 then Some (st1\<lparr>pstate := VAL_QUT, pEs := v, pTop := Suc v\<rparr>)
                 else Some (st1\<lparr>pstate := VAL, pEs := v, pTop := v\<rparr>))"

definition line_act :: "bool \<Rightarrow> string \<Rightarrow> line_st \<Rightarrow> line_st option" where
  "line_act full line st =
     (let c = char_at line (pEs st) in
      case pstate st of
        LINE_END \<Rightarrow> Some st
      | VAL_END \<Rightarrow>
          if c = CHR '';'' \<or> c = CHR ''#'' then
            let e = skip_to (\<lambda>c. \<not> is_space c) line (Suc (pEs st))
            in Some (st\<lparr>pstate := LINE_END, pEs := length line,
                        pComment := (if e \<noteq> length line then drop e line else pComment st)\<rparr>)
          else Some st
      | VAL_QUT \<Rightarrow>
          if c = DQ then Some (st\<lparr>pstate := VAL_END, pVal := sub_string line (pTop st) (pEs st)\<rparr>)
          else Some st
      | VAL \<Rightarrow>
          if is_space c then
            let e = (if full then length line else pEs st)
            in Some (st\<lparr>pstate := VAL_END, pEs := e, pVal := sub_string line (pTop st) e\<rparr>)
          else Some st
      | _ \<Rightarrow>
          if c = CHR ''.'' then
            Some (st\<lparr>pName := (if pstate st = SUFF then pName st @ ''.'' else pName st)
                               @ sub_string line (pTop st) (pEs st),
                     pstate := SUFF, pTop := Suc (pEs st)\<rparr>)
          else if c = CHR ''='' \<or> is_space c then name_end line st
          else Some st)"

definition line_inc :: "string \<Rightarrow> line_st \<Rightarrow> line_st" where
  "line_inc line st = (if pEs st \<noteq> length line then st\<lparr>pEs := Suc (pEs st)\<rparr> else st)"

lemma skip_to_le: "i \<le> skip_to P line i" "i \<le> length line \<Longrightarrow> skip_to P line i \<le> length line"
proof -
  show "i \<le> skip_to P line i" by (simp add: skip_to_def)
  assume "i \<le> length line"
  moreover have "length (takeWhile (\<lambda>c. \<not> P c) (drop i line)) \<le> length line - i"
    using length_takeWhile_le [of "\<lambda>c. \<not> P c" "drop i line"] by simp
  ultimately show "skip_to P line i \<le> length line" by (simp add: skip_to_def)
qed

lemma name_end_es:
  assumes "name_end line st = Some st'"
  shows "pEs st \<le> pEs st'" "pEs st' \<le> length line"
proof -
  let ?eq = "skip_to (\<lambda>c. c = CHR ''='') line (pEs st)"
  let ?v = "skip_to (\<lambda>c. \<not> is_space c) line (Suc ?eq)"
  have lt: "?eq < length line" and e: "pEs st' = ?v"
    using assms by (auto simp: name_end_def Let_def split: if_splits)
  show "pEs st \<le> pEs st'"
    using e skip_to_le (1) [of "pEs st" "\<lambda>c. c = CHR ''=''" line]
      skip_to_le (1) [of "Suc ?eq" "\<lambda>c. \<not> is_space c" line] by simp
  show "pEs st' \<le> length line" using e lt skip_to_le (2) [of "Suc ?eq" line] by simp
qed

lemma line_act_es:
  assumes "line_act full line st = Some st'" "pEs st < length line"
  shows "pEs st \<le> pEs st'" "pEs st' \<le> length line"
  using assms name_end_es [of line st st']
  by (auto simp: line_act_def Let_def split: ini_pstate.splits if_splits)

function line_loop :: "bool \<Rightarrow> string \<Rightarrow> line_st \<Rightarrow> line_st option" where
  "line_loop full line st =
     (if pEs st < length line \<and> pstate st \<noteq> LINE_END then
        (case line_act full line st of
           None \<Rightarrow> None
         | Some st' \<Rightarrow> line_loop full line (line_inc line st'))
      else Some st)"
  by pat_completeness auto
termination
  by (relation "measure (\<lambda>(full, line, st). length line - pEs st)")
    (auto simp: line_inc_def dest: line_act_es)

declare line_loop.simps [simp del]

datatype line_result =
    Blank
  | SectionStart string
  | BadSection
  | ValueLine ini_value
  | BadLine

definition line_start :: "string \<Rightarrow> nat" where
  "line_start line = skip_to (\<lambda>c. \<not> is_space c) line 0"

definition value_line :: "bool \<Rightarrow> string \<Rightarrow> line_result option" where
  "value_line full line =
     (case line_loop full line \<lparr>pstate = NAME, pEs = line_start line, pTop = line_start line, pName = [],
        pSuffix = [], pVal = [], pComment = []\<rparr> of
        None \<Rightarrow> None
      | Some st \<Rightarrow>
          if pstate st = VAL_QUT then Some BadLine
          else if pstate st = VAL
          then Some (ValueLine \<lparr>valueName = pName st, valueSuffix = pSuffix st,
                      ivalue = sub_string line (pTop st) (pEs st), comment = pComment st\<rparr>)
          else if pstate st = VAL_END \<or> pstate st = LINE_END
          then Some (ValueLine \<lparr>valueName = pName st, valueSuffix = pSuffix st, ivalue = pVal st,
                      comment = pComment st\<rparr>)
          else Some BadLine)"

text \<open>
  The section name is \<open>line.substr (top + 1, el - 1)\<close> up to the first NUL, with \<open>el\<close> the position
  of the first \<open>]\<close> in the whole line.
\<close>

definition parse_line :: "bool \<Rightarrow> string \<Rightarrow> line_result option" where
  "parse_line full line =
     (let i = line_start line; c = char_at line i in
      if i = length line \<or> c = CHR '';'' \<or> c = CHR ''#'' then Some Blank
      else if c = CHR ''['' then
        let el = skip_to (\<lambda>c. c = CHR '']'') line 0
        in if el = length line then Some BadSection
           else Some (SectionStart (takeWhile (\<lambda>c. c \<noteq> NUL) (take (el - 1) (drop (Suc i) line))))
      else value_line full line)"

subsection \<open>Files\<close>

text \<open>\<open>getline\<close>: the lines of the file; a last line without its end counts when it is not empty.\<close>

fun file_lines :: "string \<Rightarrow> string \<Rightarrow> string list" where
  "file_lines acc [] = (if acc = [] then [] else [acc])"
| "file_lines acc (c # s) = (if c = LF then acc # file_lines [] s else file_lines (acc @ [c]) s)"

definition add_value :: "ini_value \<Rightarrow> ini_section \<Rightarrow> ini_section" where
  "add_value v sect =
     (let s1 = sect\<lparr>sectValues := sectValues sect @ [v]\<rparr>
      in if valueName v = ''blocked_by'' then createBlockedBy (ivalue v) s1 else s1)"

definition close_section :: "ini_section option \<Rightarrow> ini \<Rightarrow> ini" where
  "close_section sect i = (case sect of None \<Rightarrow> i | Some s \<Rightarrow> i @ [s])"

text \<open>
  \<open>parseConfigFile\<close>: the return code with the sections read; on an error the section that is
  open is not added. \<open>None\<close> is undefined behaviour.
\<close>

definition starts_value :: "string \<Rightarrow> bool" where
  "starts_value line \<longleftrightarrow> line_start line < length line
     \<and> char_at line (line_start line) \<notin> {CHR '';'', CHR ''#'', CHR ''[''}"

fun parse_lines :: "bool \<Rightarrow> bool \<Rightarrow> ini_section option \<Rightarrow> ini \<Rightarrow> string list \<Rightarrow> (int \<times> ini) option" where
  "parse_lines full defsect sect i [] = Some (0, close_section sect i)"
| "parse_lines full defsect sect i (l # ls) =
     (if sect = None \<and> \<not> defsect \<and> starts_value l then Some (-1, i)
      else case parse_line full l of
        None \<Rightarrow> None
      | Some Blank \<Rightarrow> parse_lines full defsect sect i ls
      | Some (SectionStart nm) \<Rightarrow> parse_lines full defsect (Some (new_section nm)) (close_section sect i) ls
      | Some BadSection \<Rightarrow> Some (-1, i)
      | Some BadLine \<Rightarrow> Some (-1, i)
      | Some (ValueLine v) \<Rightarrow>
          parse_lines full defsect
            (Some (add_value v (case sect of Some s \<Rightarrow> s | None \<Rightarrow> new_section []))) i ls)"

definition parseConfigFile :: "bool \<Rightarrow> bool \<Rightarrow> string \<Rightarrow> (int \<times> ini) option" where
  "parseConfigFile full defsect file = parse_lines full defsect None [] (file_lines [] file)"

subsection \<open>Running the line parser\<close>

text \<open>Characters a state of the parser passes over.\<close>

definition passes :: "ini_pstate \<Rightarrow> char \<Rightarrow> bool" where
  "passes ps c = (case ps of
     LINE_END \<Rightarrow> False
   | VAL_END \<Rightarrow> c \<noteq> CHR '';'' \<and> c \<noteq> CHR ''#''
   | VAL_QUT \<Rightarrow> c \<noteq> DQ
   | VAL \<Rightarrow> \<not> is_space c
   | _ \<Rightarrow> c \<noteq> CHR ''.'' \<and> c \<noteq> CHR ''='' \<and> \<not> is_space c)"

lemma line_loop_pass:
  assumes "pEs st < length line" "passes (pstate st) (line ! pEs st)"
  shows "line_loop full line st = line_loop full line (st\<lparr>pEs := Suc (pEs st)\<rparr>)"
proof -
  have "line_act full line st = Some st"
    using assms by (cases "pstate st") (simp_all add: line_act_def passes_def char_at_def)
  moreover have "pstate st \<noteq> LINE_END" using assms(2) by (auto simp: passes_def)
  ultimately show ?thesis
    using assms(1) by (subst line_loop.simps) (simp add: line_inc_def)
qed

lemma line_loop_skip:
  assumes "pEs st \<le> j" "j \<le> length line" "\<forall>k. pEs st \<le> k \<and> k < j \<longrightarrow> passes (pstate st) (line ! k)"
  shows "line_loop full line st = line_loop full line (st\<lparr>pEs := j\<rparr>)"
  using assms
proof (induction "j - pEs st" arbitrary: st)
  case 0
  then show ?case by simp
next
  case (Suc n)
  then have "line_loop full line st = line_loop full line (st\<lparr>pEs := Suc (pEs st)\<rparr>)"
    by (intro line_loop_pass) auto
  also have "\<dots> = line_loop full line (st\<lparr>pEs := Suc (pEs st)\<rparr>\<lparr>pEs := j\<rparr>)"
    using Suc.prems Suc.hyps(2) by (intro Suc.hyps(1)) auto
  finally show ?case by simp
qed

text \<open>A stretch of the line given as a list of characters.\<close>

lemma line_loop_word:
  assumes "line = a @ w @ r" "pEs st = length a" "\<forall>c\<in>set w. passes (pstate st) c"
  shows "line_loop full line st = line_loop full line (st\<lparr>pEs := length a + length w\<rparr>)"
  using assms by (intro line_loop_skip) (auto simp: nth_append)

lemma skip_to_append:
  "\<forall>c\<in>set w. \<not> P c \<Longrightarrow> i = length a \<Longrightarrow> r = [] \<or> P (hd r) \<Longrightarrow> skip_to P (a @ w @ r) i = length a + length w"
  by (cases r) (simp_all add: skip_to_def takeWhile_append2 takeWhile_eq_all_conv [THEN iffD2])

lemma char_at_append: "i = length a \<Longrightarrow> char_at (a @ c # r) i = c"
  by (simp add: char_at_def)

definition name_char :: "char \<Rightarrow> bool" where
  "name_char c \<longleftrightarrow> c \<noteq> CHR ''.'' \<and> c \<noteq> CHR ''='' \<and> \<not> is_space c"

definition ini_name :: "string \<Rightarrow> bool" where
  "ini_name w \<longleftrightarrow> w \<noteq> [] \<and> (\<forall>c\<in>set w. name_char c) \<and> hd w \<notin> {CHR '';'', CHR ''#'', CHR ''[''}"

lemma passes_name: "name_char c \<Longrightarrow> passes NAME c" "name_char c \<Longrightarrow> passes SUFF c"
  by (simp_all add: passes_def name_char_def)

lemma line_start_name:
  assumes "ini_name w"
  shows "line_start (w @ r) = 0" "char_at (w @ r) 0 = hd w" "0 < length (w @ r)"
  using assms by (cases w; simp add: ini_name_def name_char_def line_start_def skip_to_def char_at_def)+

lemma parse_line_value:
  assumes "ini_name w"
  shows "parse_line full (w @ r) = value_line full (w @ r)"
  using assms line_start_name [OF assms, of r] by (auto simp: parse_line_def Let_def ini_name_def)

text \<open>
  A name followed by a blank and no equals sign is undefined behaviour. The parser steps
  one past the end of the line looking for the sign and reads on from there, where it should
  reject the line.
\<close>

theorem name_without_value_undefined:
  assumes "ini_name w" "is_space b" "CHR ''='' \<notin> set r"
  shows "parse_line full (w @ b # r) = None"
proof -
  let ?l = "w @ b # r"
  let ?at = "\<lambda>i. \<lparr>pstate = NAME, pEs = i, pTop = 0, pName = [], pSuffix = [], pVal = [], pComment = []\<rparr>"
  let ?st = "?at 0"
  have pass: "\<forall>c\<in>set w. passes (pstate ?st) c"
    using assms(1) by (simp add: ini_name_def passes_name)
  have "line_loop full ?l ?st = line_loop full ?l (?st\<lparr>pEs := length w\<rparr>)"
    using line_loop_word [of ?l "[]" w "b # r" ?st, OF _ _ pass] by simp
  moreover have "skip_to (\<lambda>c. c = CHR ''='') ?l (length w) = length ?l"
    using skip_to_append [of "b # r" "\<lambda>c. c = CHR ''=''" "length w" w "[]"] assms(2,3)
    by (auto simp: is_space_def)
  moreover have "b \<noteq> CHR ''.''" using assms(2) by (auto simp: is_space_def)
  ultimately have "line_loop full ?l ?st = None"
    using assms(2) by (simp add: line_loop.simps [of full ?l "?at (length w)"] line_act_def name_end_def
        char_at_append)
  then show ?thesis
    using parse_line_value [OF assms(1)] line_start_name(1) [OF assms(1)] by (simp add: value_line_def)
qed

lemma name_without_value_undefined_witness: "parse_line False ''required_devices '' = None"
  using name_without_value_undefined [of "''required_devices''" "CHR '' ''" "[]" False]
  by (simp add: ini_name_def name_char_def is_space_def)

subsection \<open>Printed values are read back\<close>

text \<open>\<open>operator <<\<close> of \<open>IniValue\<close>.\<close>

definition show_ini_value :: "ini_value \<Rightarrow> string" where
  "show_ini_value v = valueName v @ (if valueSuffix v \<noteq> [] then CHR ''.'' # valueSuffix v else [])
     @ '' = '' @ ivalue v"

lemma name_end_assign:
  assumes "line = a @ '' = '' @ v" "pEs st = length a" "v = [] \<or> hd v \<noteq> DQ \<and> \<not> is_space (hd v)"
  shows "name_end line st = Some
     (let str = sub_string line (pTop st) (pEs st);
          st1 = (if pstate st = SUFF then st\<lparr>pSuffix := str\<rparr> else st\<lparr>pName := str\<rparr>)
      in st1\<lparr>pstate := VAL, pEs := length a + 3, pTop := length a + 3\<rparr>)"
proof -
  have eq: "skip_to (\<lambda>c. c = CHR ''='') line (pEs st) = Suc (length a)"
    using assms(1,2) skip_to_append [of "'' ''" "\<lambda>c. c = CHR ''=''" "length a" a "''= '' @ v"] by simp
  have sk: "skip_to (\<lambda>c. \<not> is_space c) line (Suc (Suc (length a))) = length a + 3"
    using assms(1,3) skip_to_append [of "'' ''" "\<lambda>c. \<not> is_space c" "length a + 2" "a @ '' =''" v]
    by (auto simp: eval_nat_numeral)
  have "char_at line (length a + 3) \<noteq> DQ"
    using assms(1,3) by (cases v) (simp_all add: char_at_def nth_append)
  then show ?thesis
    using eq sk assms(1) by (simp add: name_end_def Let_def)
qed

lemma sub_string_rest: "line = a @ v \<Longrightarrow> n = length a \<Longrightarrow> sub_string line n (length line) = v"
  by (simp add: sub_string_def)

lemma value_line_from:
  assumes "line = a @ '' = '' @ v" "pEs st = length a" "\<forall>c\<in>set v. \<not> is_space c" "v = [] \<or> hd v \<noteq> DQ"
    "pstate st = NAME \<or> pstate st = SUFF"
  shows "line_loop full line st = Some
     (let str = sub_string line (pTop st) (pEs st);
          st1 = (if pstate st = SUFF then st\<lparr>pSuffix := str\<rparr> else st\<lparr>pName := str\<rparr>)
      in st1\<lparr>pstate := VAL, pEs := length line, pTop := length a + 3\<rparr>)"
proof -
  define st2 where "st2 = (let str = sub_string line (pTop st) (pEs st);
      st1 = (if pstate st = SUFF then st\<lparr>pSuffix := str\<rparr> else st\<lparr>pName := str\<rparr>)
      in st1\<lparr>pstate := VAL, pEs := length a + 3, pTop := length a + 3\<rparr>)"
  have v: "v = [] \<or> hd v \<noteq> DQ \<and> \<not> is_space (hd v)" using assms(3,4) by (cases v) auto
  have lt: "pEs st < length line" "char_at line (pEs st) = CHR '' ''" using assms(1,2)
    by (simp_all add: char_at_def nth_append)
  have act: "line_act full line st = Some st2"
    using assms(5) name_end_assign [OF assms(1,2) v] lt(2)
    by (auto simp: line_act_def st2_def)
  have st2: "pEs st2 = length a + 3" "pstate st2 = VAL" "pTop st2 = length a + 3"
    by (simp_all add: st2_def Let_def)
  have step: "line_loop full line st = line_loop full line (line_inc line st2)"
    using lt(1) act assms(5) by (subst line_loop.simps) auto
  have rest: "line_loop full line (st2\<lparr>pEs := length line\<rparr>) = Some (st2\<lparr>pEs := length line\<rparr>)"
    by (simp add: line_loop.simps)
  have fin: "line_loop full line st2 = Some (st2\<lparr>pEs := length line\<rparr>)"
    using line_loop_word [of line "a @ '' = ''" v "[]" st2 full] assms(1,3) st2(1,2) rest
    by (simp add: passes_def)
  have "line_loop full line (line_inc line st2) = line_loop full line st2"
  proof (cases v)
    case Nil
    then show ?thesis using assms(1) st2(1) by (simp add: line_inc_def)
  next
    case (Cons c t)
    then have "passes (pstate st2) (line ! pEs st2)" "pEs st2 < length line"
      using assms(1,3) st2 by (simp_all add: passes_def nth_append)
    then show ?thesis using line_loop_pass [of st2 line full] by (simp add: line_inc_def)
  qed
  then show ?thesis using step fin by (simp add: st2_def Let_def)
qed

definition ini_value_ok :: "ini_value \<Rightarrow> bool" where
  "ini_value_ok v \<longleftrightarrow> ini_name (valueName v) \<and> (\<forall>c\<in>set (valueSuffix v). name_char c)
     \<and> (\<forall>c\<in>set (ivalue v). \<not> is_space c) \<and> (ivalue v = [] \<or> hd (ivalue v) \<noteq> DQ) \<and> comment v = []"

text \<open>
  A configuration value that is printed is read back: the parser returns the same name,
  suffix and value for every value with a plain name and suffix and no blanks in the value.
\<close>

theorem ini_value_roundtrip:
  assumes "ini_value_ok v"
  shows "parse_line full (show_ini_value v) = Some (ValueLine v)"
proof -
  let ?n = "valueName v" and ?s = "valueSuffix v" and ?v = "ivalue v"
  let ?l = "show_ini_value v"
  let ?st0 = "\<lparr>pstate = NAME, pEs = 0, pTop = 0, pName = [], pSuffix = [], pVal = [], pComment = []\<rparr>"
  have ok: "ini_name ?n" "\<forall>c\<in>set ?s. name_char c" "\<forall>c\<in>set ?v. \<not> is_space c" "?v = [] \<or> hd ?v \<noteq> DQ"
    "comment v = []"
    using assms by (simp_all add: ini_value_ok_def)
  have nm: "\<forall>c\<in>set ?n. passes NAME c" using ok(1) by (simp add: ini_name_def passes_name)
  have pl: "parse_line full ?l = value_line full ?l"
    unfolding show_ini_value_def by (rule parse_line_value [OF ok(1)])
  have ls: "line_start ?l = 0"
    unfolding show_ini_value_def by (rule line_start_name(1) [OF ok(1)])
  have skip: "line_loop full ?l ?st0 = line_loop full ?l (?st0\<lparr>pEs := length ?n\<rparr>)"
    using line_loop_word [of ?l "[]" ?n _ ?st0 full] nm by (simp add: show_ini_value_def)
  show ?thesis
  proof (cases "?s = []")
    case True
    then have l: "?l = ?n @ '' = '' @ ?v" by (simp add: show_ini_value_def)
    have "line_loop full ?l ?st0 = Some (?st0\<lparr>pName := ?n, pstate := VAL, pEs := length ?l, pTop := length ?n + 3\<rparr>)"
      using skip value_line_from [OF l, of "?st0\<lparr>pEs := length ?n\<rparr>" full] ok(3,4) l
      by (simp add: sub_string_def)
    moreover have "sub_string ?l (length ?n + 3) (length ?l) = ?v"
      by (rule sub_string_rest [of _ "?n @ '' = ''"]) (simp_all add: l)
    ultimately show ?thesis
      using pl ls True ok(5) by (cases v) (simp add: value_line_def)
  next
    case False
    let ?a = "?n @ CHR ''.'' # ?s"
    let ?st1 = "?st0\<lparr>pName := ?n, pstate := SUFF, pTop := Suc (length ?n), pEs := Suc (length ?n)\<rparr>"
    have l: "?l = ?a @ '' = '' @ ?v" using False by (simp add: show_ini_value_def)
    have "line_act full ?l (?st0\<lparr>pEs := length ?n\<rparr>) = Some (?st1\<lparr>pEs := length ?n\<rparr>)"
      using l by (simp add: line_act_def char_at_def nth_append sub_string_def)
    then have "line_loop full ?l (?st0\<lparr>pEs := length ?n\<rparr>) = line_loop full ?l ?st1"
      using l by (subst line_loop.simps) (simp add: line_inc_def)
    also have "\<dots> = line_loop full ?l (?st1\<lparr>pEs := length ?a\<rparr>)"
      using line_loop_word [of ?l "?n @ ''.''" ?s _ ?st1 full] ok(2) l by (simp add: passes_name)
    also have "\<dots> = Some (?st1\<lparr>pSuffix := ?s, pstate := VAL, pEs := length ?l, pTop := length ?a + 3\<rparr>)"
      using value_line_from [OF l, of "?st1\<lparr>pEs := length ?a\<rparr>" full] ok(3,4) l
      by (simp add: sub_string_def)
    finally have "line_loop full ?l ?st0 = Some (?st1\<lparr>pSuffix := ?s, pstate := VAL, pEs := length ?l, pTop := length ?a + 3\<rparr>)"
      using skip by simp
    moreover have "sub_string ?l (length ?a + 3) (length ?l) = ?v"
      by (rule sub_string_rest [of _ "?a @ '' = ''"]) (simp_all add: l)
    ultimately show ?thesis
      using pl ls ok(5) by (cases v) (simp add: value_line_def)
  qed
qed

lemma ini_value_roundtrip_witness:
  "parse_line False ''evening_time = 7200''
   = Some (ValueLine \<lparr>valueName = ''evening_time'', valueSuffix = [], ivalue = ''7200'', comment = []\<rparr>)"
  using ini_value_roundtrip [of "\<lparr>valueName = ''evening_time'', valueSuffix = [], ivalue = ''7200'', comment = []\<rparr>" False]
  by (simp add: ini_value_ok_def ini_name_def name_char_def is_space_def show_ini_value_def)

text \<open>
  The name of an indented section keeps its closing bracket. With blanks before the
  opening bracket the parser cuts the name too long, so the section is called \<open>name]\<close> and no
  lookup of \<open>name\<close> finds it.
\<close>

theorem indented_section_name:
  assumes "b \<noteq> []" "\<forall>c\<in>set b. is_space c" "CHR '']'' \<notin> set nm" "NUL \<notin> set nm"
  shows "parse_line full (b @ CHR ''['' # nm @ '']'') = Some (SectionStart (nm @ '']''))"
proof -
  let ?l = "b @ CHR ''['' # nm @ '']''"
  have br: "\<not> is_space (CHR ''['')" "\<not> is_space (CHR '']'')" by (simp_all add: is_space_def)
  have st: "line_start ?l = length b"
    using assms(2) skip_to_append [of b "\<lambda>c. \<not> is_space c" 0 "[]" "CHR ''['' # nm @ '']''"]
    by (simp add: line_start_def br)
  have "CHR '']'' \<notin> set b" using assms(2) br by blast
  then have "\<forall>c\<in>set (b @ CHR ''['' # nm). \<not> c = CHR '']''" using assms(3) by auto
  then have el: "skip_to (\<lambda>c. c = CHR '']'') ?l 0 = length b + Suc (length nm)"
    using skip_to_append [of "b @ CHR ''['' # nm" "\<lambda>c. c = CHR '']''" 0 "[]" "'']''"] by simp
  have len: "length (nm @ '']'') \<le> length b + length nm" using assms(1) by (cases b) simp_all
  have tk: "take (length b + length nm) (nm @ '']'') = nm @ '']''" using len by (simp only: take_all)
  have "takeWhile (\<lambda>c. c \<noteq> NUL) (nm @ '']'') = nm @ '']''"
    using assms(4) by (intro takeWhile_eq_all_conv [THEN iffD2]) auto
  then show ?thesis
    using st el tk by (simp add: parse_line_def Let_def char_at_append)
qed

lemma indented_section_name_witness:
  "parse_line False ''  [observatory]'' = Some (SectionStart ''observatory]'')"
  using indented_section_name [of "''  ''" "''observatory''" False] by (simp add: is_space_def)

subsection \<open>Lines with an equals sign are always parsed\<close>

definition eq_ahead :: "string \<Rightarrow> line_st \<Rightarrow> bool" where
  "eq_ahead line st \<longleftrightarrow> (pstate st = NAME \<or> pstate st = SUFF) \<longrightarrow> CHR ''='' \<in> set (drop (pEs st) line)"

lemma name_end_defined:
  assumes "CHR ''='' \<in> set (drop (pEs st) line)"
  shows "\<exists>st'. name_end line st = Some st' \<and> pstate st' \<in> {VAL, VAL_QUT}"
proof -
  have "length (takeWhile (\<lambda>c. c \<noteq> CHR ''='') (drop (pEs st) line)) < length (drop (pEs st) line)"
    using assms takeWhile_eq_all_conv [of "\<lambda>c. c \<noteq> CHR ''=''" "drop (pEs st) line"]
      length_takeWhile_le [of "\<lambda>c. c \<noteq> CHR ''=''" "drop (pEs st) line"]
    by (metis (full_types) le_neq_implies_less takeWhile_eq_take take_all_iff order_refl)
  then have "skip_to (\<lambda>c. c = CHR ''='') line (pEs st) < length line"
    by (simp add: skip_to_def)
  then show ?thesis by (simp add: name_end_def Let_def)
qed

lemma eq_ahead_step:
  assumes "eq_ahead line st" "pEs st < length line" "line_act full line st = Some st'"
  shows "eq_ahead line (line_inc line st')"
proof (cases "pstate st = NAME \<or> pstate st = SUFF")
  case True
  then have "CHR ''='' \<in> set (drop (pEs st) line)" using assms(1) by (simp add: eq_ahead_def)
  moreover have "drop (pEs st) line = line ! pEs st # drop (Suc (pEs st)) line"
    using assms(2) by (rule Cons_nth_drop_Suc [symmetric])
  ultimately show ?thesis
    using True assms(2,3) name_end_defined [of st line]
    by (auto simp: line_act_def Let_def eq_ahead_def line_inc_def char_at_def split: if_splits)
next
  case False
  then show ?thesis
    using assms(3) by (auto simp: line_act_def Let_def eq_ahead_def line_inc_def split: ini_pstate.splits if_splits)
qed

lemma line_loop_defined: "eq_ahead line st \<Longrightarrow> line_loop full line st \<noteq> None"
proof (induction full line st rule: line_loop.induct)
  case (1 full line st)
  show ?case
  proof (cases "pEs st < length line \<and> pstate st \<noteq> LINE_END")
    case True
    have "line_act full line st \<noteq> None"
      using "1.prems" name_end_defined [of st line]
      by (auto simp: line_act_def Let_def eq_ahead_def split: ini_pstate.splits)
    then obtain st' where st': "line_act full line st = Some st'" by blast
    then have "line_loop full line (line_inc line st') \<noteq> None"
      using "1.IH" [OF True st'] eq_ahead_step [OF "1.prems" _ st'] True by blast
    then show ?thesis using True st' by (subst line_loop.simps) simp
  next
    case False
    then show ?thesis by (subst line_loop.simps) auto
  qed
qed

text \<open>
  Every line with an equals sign after its first character that is not blank is parsed
  within its bounds: the parser returns a section, a value or an error, and never reads past
  the end of the line.
\<close>

theorem parse_line_defined:
  assumes "CHR ''='' \<in> set (drop (line_start line) line)"
  shows "parse_line full line \<noteq> None"
proof -
  have "value_line full line \<noteq> None"
    using assms line_loop_defined [where full = full and line = line]
    by (auto simp: value_line_def eq_ahead_def split: option.splits)
  then show ?thesis by (simp add: parse_line_def Let_def)
qed

lemma parse_line_defined_witness: "parse_line True ''a.b c = \"'' \<noteq> None"
  by (rule parse_line_defined) (simp add: line_start_def skip_to_def is_space_def)

subsection \<open>Who blocks whom\<close>

fun join_blank :: "string list \<Rightarrow> string" where
  "join_blank [] = []"
| "join_blank [w] = w"
| "join_blank (w # ws) = w @ CHR '' '' # join_blank ws"

lemma find_app: "find P (xs @ ys) = (case find P xs of None \<Rightarrow> find P ys | Some x \<Rightarrow> Some x)"
  by (induction xs) auto

lemma blocked_words_word:
  "CHR '' '' \<notin> set w \<Longrightarrow> w \<noteq> [] \<or> dev \<noteq> None \<Longrightarrow>
   blocked_words dev (w @ s) = blocked_words (Some ((case dev of None \<Rightarrow> [] | Some d \<Rightarrow> d) @ w)) s"
  by (induction w arbitrary: dev) (auto split: option.splits)

lemma blocked_words_join:
  "\<forall>w\<in>set ws. w \<noteq> [] \<and> CHR '' '' \<notin> set w \<Longrightarrow> blocked_words None (join_blank ws) = ws"
proof (induction ws rule: join_blank.induct)
  case (2 w)
  then show ?case using blocked_words_word [of w None "[]"] by simp
next
  case (3 w v vs)
  then show ?case using blocked_words_word [of w None "CHR '' '' # join_blank (v # vs)"] by simp
qed simp

text \<open>
  A \<open>blocked_by\<close> entry means what it lists. After the entry with the blank-separated names
  \<open>ws\<close> is added to the section of a device, exactly those devices can block it; a device
  without a section, or with none of these entries, can be blocked by every other.
\<close>

theorem blocked_by_lists:
  assumes "\<forall>w\<in>set ws. w \<noteq> [] \<and> CHR '' '' \<notin> set w" "ws \<noteq> []" "getSection dev i = None"
    "valueName v = ''blocked_by''" "ivalue v = join_blank ws"
  shows "blockDevice dev other (i @ [add_value v (new_section dev)]) \<longleftrightarrow> other \<in> set ws"
proof -
  have "getSection dev (i @ [add_value v (new_section dev)]) = Some (add_value v (new_section dev))"
    using assms(3,4) by (simp add: getSection_def find_app add_value_def createBlockedBy_def new_section_def)
  then show ?thesis
    using assms by (simp add: blockDevice_def add_value_def createBlockedBy_def containedInBlockedBy_def
        blocked_words_join Let_def)
qed

lemma blocked_by_lists_witness:
  "blockDevice ''T0'' ''C0'' [add_value \<lparr>valueName = ''blocked_by'', valueSuffix = [],
     ivalue = ''C0 C1'', comment = []\<rparr> (new_section ''T0'')]"
  using blocked_by_lists [of "[''C0'', ''C1'']" "''T0''" "[]" "\<lparr>valueName = ''blocked_by'', valueSuffix = [],
     ivalue = ''C0 C1'', comment = []\<rparr>" "''C0''"]
  by (simp add: getSection_def)

end
