(* ===== verification/Centrald.thy ===== *)
theory Centrald
  imports ConnProtocol Ini
begin

section \<open>The central server\<close>

text \<open>
  \<open>Centrald\<close> (\<open>base/centrald/src/centrald.cpp\<close>, \<open>centrald.h\<close>) with the parts of \<open>Daemon\<close>
  and \<open>Block\<close> it runs on: the state word, the connections of the devices and clients, weather
  and stop collection, block-operation state, the opening and closing sequence, and the
  status query that waits for every device. The record \<open>centrald\<close> has the fields of the class;
  connections are \<open>conn\<close> records extended by those of \<open>ConnCentrald\<close>, known by their number
  \<open>cid\<close>. Times are microseconds (\<open>now\<close> is what \<open>getNow\<close> returns). \<open>timers\<close> are the due times
  of the \<open>EVENT_CLOSE_TIMEOUT\<close> timers. A value broadcast (\<open>sendValueAll\<close>) is recorded in
  \<open>couts\<close>, its text is not modelled, and so is each command queued on a connection, with the
  state word at that time; log output is left out. The times of the night that
  \<open>libnova\<close> computes enter as arguments of \<open>idle\<close>.
\<close>

subsection \<open>State\<close>

record cconn = conn +
  authorized :: bool
  login :: string
  hostname :: string
  cport :: int
  device_type :: int
  statusCommandRunning :: int
  messageMask :: int

datatype cent_out =
    ValueAll string
  | CommandFor nat string u32
  | CloseTimer int
  | InfoTo nat

record centrald =
  conns :: "cconn list"
  state :: u32
  requiredDevices :: "string list"
  badWeatherDevices :: "string list"
  badWeatherReason :: string
  badWeatherDevice :: string
  openClose :: int
  openCloseTimeout :: "int option"
  openCloseLast :: string
  failedClose :: "string list"
  openSequence :: "string list"
  switchedStandby :: "int list"
  lastOn :: "int option"
  morning_off :: bool
  morning_standby :: bool
  next_event_type :: u32
  next_event_time :: int
  nextStateChange :: int
  nextState :: u32
  timers :: "int list"
  now :: int
  randoms :: "int list"
  config :: ini
  couts :: "cent_out list"

definition cent_emit :: "cent_out \<Rightarrow> centrald \<Rightarrow> centrald" where
  "cent_emit e s = s\<lparr>couts := couts s @ [e]\<rparr>"

definition sendValueAll :: "string \<Rightarrow> centrald \<Rightarrow> centrald" where
  "sendValueAll v s = cent_emit (ValueAll v) s"

definition getConn :: "nat \<Rightarrow> centrald \<Rightarrow> cconn option" where
  "getConn i s = find (\<lambda>c. cid c = i) (conns s)"

definition upd_conn :: "nat \<Rightarrow> (cconn \<Rightarrow> cconn) \<Rightarrow> centrald \<Rightarrow> centrald" where
  "upd_conn i f s = s\<lparr>conns := map (\<lambda>c. if cid c = i then f c else c) (conns s)\<rparr>"

definition getOpenConnection :: "string \<Rightarrow> centrald \<Rightarrow> cconn option" where
  "getOpenConnection nm s = find (\<lambda>c. cname c = nm) (conns s)"

definition findName :: "string \<Rightarrow> centrald \<Rightarrow> cconn option" where
  "findName nm s = find (\<lambda>c. cname c = nm) (conns s)"

definition getConnection :: "int \<Rightarrow> centrald \<Rightarrow> cconn option" where
  "getConnection num s = find (\<lambda>c. centrald_id c = num) (conns s)"

definition sendAll :: "string \<Rightarrow> centrald \<Rightarrow> centrald" where
  "sendAll msg s = s\<lparr>conns := map (\<lambda>c. snd (sendMsg msg c)) (conns s)\<rparr>"

definition sendTo :: "nat \<Rightarrow> string \<Rightarrow> centrald \<Rightarrow> centrald" where
  "sendTo i msg s = upd_conn i (\<lambda>c. snd (sendMsg msg c)) s"

definition sendStatusMessage :: "u32 \<Rightarrow> string option \<Rightarrow> centrald \<Rightarrow> centrald" where
  "sendStatusMessage st msg s = sendAll (status_text st msg) s"

definition sendBopMessage :: "u32 \<Rightarrow> u32 \<Rightarrow> nat \<Rightarrow> centrald \<Rightarrow> centrald" where
  "sendBopMessage st bop i s = sendTo i (bop_text st bop) s"

definition queCommand_on :: "nat \<Rightarrow> command \<Rightarrow> centrald \<Rightarrow> centrald" where
  "queCommand_on i cmd s = cent_emit (CommandFor i (ctext cmd) (state s)) (upd_conn i (\<lambda>c. snd (queCommand cmd c)) s)"

subsection \<open>Opening and closing\<close>

definition CLOSE_WAIT :: int where "CLOSE_WAIT = 180000000"

definition updateOpenClose :: "bool \<Rightarrow> centrald \<Rightarrow> centrald" where
  "updateOpenClose clear s =
     (let s1 = (if clear then s\<lparr>openClose := 0, openCloseLast := [], openCloseTimeout := None\<rparr> else s)
      in sendValueAll ''open_close_timeout'' (sendValueAll ''open_close_last'' (sendValueAll ''open_close'' s1)))"

definition note_last :: "cconn \<Rightarrow> string \<Rightarrow> centrald \<Rightarrow> centrald" where
  "note_last d nm s = updateOpenClose False (s\<lparr>openCloseTimeout := Some (now s + CLOSE_WAIT), openCloseLast := cname d\<rparr>)"

fun doOpen_seq :: "string list \<Rightarrow> centrald \<Rightarrow> int \<times> centrald" where
  "doOpen_seq [] s = (-1, updateOpenClose True s)"
| "doOpen_seq (nm # ns) s =
     (case getOpenConnection nm s of
        None \<Rightarrow> (-1, updateOpenClose False (s\<lparr>openClose := 0\<rparr>))
      | Some d \<Rightarrow>
          if getState d AND DEVICE_BLOCK_OPEN \<noteq> 0 then
            let s1 = queCommand_on (cid d) (new_command PlainCommand ''open'') s
            in (0, if nm \<noteq> openCloseLast s1 then note_last d nm s1 else s1)
          else doOpen_seq ns s)"

definition doOpen :: "centrald \<Rightarrow> int \<times> centrald" where
  "doOpen s = doOpen_seq (openSequence s) s"

definition addCloseTimer :: "centrald \<Rightarrow> centrald" where
  "addCloseTimer s = cent_emit (CloseTimer (now s + CLOSE_WAIT))
     (s\<lparr>timers := insort_insert (now s + CLOSE_WAIT) (timers s)\<rparr>)"

fun doClose_seq :: "string list \<Rightarrow> centrald \<Rightarrow> int \<times> centrald" where
  "doClose_seq [] s = (-1, sendValueAll ''close_failed'' ((updateOpenClose True s)\<lparr>failedClose := []\<rparr>))"
| "doClose_seq (nm # ns) s =
     (case getOpenConnection nm s of
        None \<Rightarrow> doClose_seq ns s
      | Some d \<Rightarrow>
          if nm \<notin> set (failedClose s) \<and> getState d AND DEVICE_BLOCK_CLOSE \<noteq> 0 then
            let s1 = queCommand_on (cid d) (new_command PlainCommand ''close'') s
            in (0, if nm \<noteq> openCloseLast s1 then addCloseTimer (note_last d nm s1) else s1)
          else doClose_seq ns s)"

definition doClose :: "centrald \<Rightarrow> int \<times> centrald" where
  "doClose s = (if openSequence s = [] then (0, s) else doClose_seq (rev (openSequence s)) s)"

definition startOpen :: "centrald \<Rightarrow> int \<times> centrald" where
  "startOpen s = doOpen (s\<lparr>openClose := 1\<rparr>)"

definition startClose :: "centrald \<Rightarrow> int \<times> centrald" where
  "startClose s = doClose (s\<lparr>openClose := 2\<rparr>)"

definition openCloseChanged :: "centrald \<Rightarrow> centrald" where
  "openCloseChanged s =
     (if openClose s = 1 then snd (doOpen s)
      else if openClose s = 2 then snd (doClose s)
      else s)"

text \<open>\<open>postEvent\<close> of \<open>EVENT_CLOSE_TIMEOUT\<close>.\<close>

definition closeTimeout :: "centrald \<Rightarrow> centrald" where
  "closeTimeout s =
     (if openClose s = 2
      then snd (doClose (sendValueAll ''close_failed'' (s\<lparr>failedClose := failedClose s @ [openCloseLast s]\<rparr>)))
      else s)"

subsection \<open>The state word\<close>

text \<open>The states in which the observatory opens: good weather, switched on, dusk to dawn.\<close>

definition open_period :: "u32 \<Rightarrow> bool" where
  "open_period st \<longleftrightarrow> st AND SERVERD_STATUS_MASK \<in> {SERVERD_DUSK, SERVERD_NIGHT, SERVERD_DAWN}"

definition may_open :: "u32 \<Rightarrow> bool" where
  "may_open st \<longleftrightarrow> st AND WEATHER_MASK = GOOD_WEATHER \<and> st AND SERVERD_ONOFF_MASK = SERVERD_ON \<and> open_period st"

definition stateChanged :: "u32 \<Rightarrow> u32 \<Rightarrow> string \<Rightarrow> centrald \<Rightarrow> centrald" where
  "stateChanged new old descr s =
     (let s1 = s\<lparr>state := new\<rparr>;
          s2 = (if state s1 AND NOT BOP_MASK \<noteq> old AND NOT BOP_MASK
                then sendStatusMessage (state s1) (Some descr) s1 else s1)
      in if new AND WEATHER_MASK = GOOD_WEATHER \<and> new AND SERVERD_ONOFF_MASK = SERVERD_ON then
           if open_period new then snd (startOpen s2) else snd (startClose s2)
         else snd (startClose s2))"

definition cent_setState :: "u32 \<Rightarrow> string \<Rightarrow> centrald \<Rightarrow> centrald" where
  "cent_setState new descr s = (if state s = new then s else stateChanged new (state s) descr s)"

definition maskState :: "u32 \<Rightarrow> u32 \<Rightarrow> string \<Rightarrow> centrald \<Rightarrow> centrald" where
  "maskState m new descr s = cent_setState (mask_word m new (state s)) descr s"

definition setWeatherState :: "bool \<Rightarrow> string \<Rightarrow> centrald \<Rightarrow> centrald" where
  "setWeatherState good msg s = maskState WEATHER_MASK (if good then GOOD_WEATHER else BAD_WEATHER) msg s"

definition setStopState :: "bool \<Rightarrow> string \<Rightarrow> centrald \<Rightarrow> centrald" where
  "setStopState stop msg s = maskState STOP_MASK (if stop then STOP_EVERYTHING else CAN_MOVE) msg s"

definition note_standby :: "centrald \<Rightarrow> centrald" where
  "note_standby s =
     (if state s AND SERVERD_STANDBY = 0 \<and> open_period (state s)
      then sendValueAll ''switched_standby'' (s\<lparr>switchedStandby := switchedStandby s @ [now s]\<rparr>)
      else s)"

definition maskCentralState :: "u32 \<Rightarrow> u32 \<Rightarrow> string \<Rightarrow> centrald \<Rightarrow> centrald" where
  "maskCentralState m new descr s =
     (let s1 = maskState m new descr (note_standby s) in
      if m AND SERVERD_STATUS_MASK \<noteq> 0 then
        sendValueAll ''last_night_on''
          (s1\<lparr>lastOn := (if new AND SERVERD_STATUS_MASK = SERVERD_NIGHT \<and> new AND SERVERD_STANDBY = 0
                       then Some (now s1) else None)\<rparr>)
      else s1)"

definition changeState :: "u32 \<Rightarrow> string \<Rightarrow> centrald \<Rightarrow> int \<times> centrald" where
  "changeState new user s = (0, maskCentralState (SERVERD_ONOFF_MASK OR SERVERD_STATUS_MASK) new user s)"

text \<open>The period before the next one: \<open>(next_event_type + 5) % 6\<close>.\<close>

definition current_period :: "centrald \<Rightarrow> u32" where
  "current_period s = (next_event_type s + 5) mod 6"

definition changeStateOn :: "string \<Rightarrow> centrald \<Rightarrow> int \<times> centrald" where
  "changeStateOn user s = changeState (current_period s) user s"

definition changeStateStandby :: "string \<Rightarrow> centrald \<Rightarrow> int \<times> centrald" where
  "changeStateStandby user s = changeState (SERVERD_STANDBY OR current_period s) user s"

definition changeStateHardOff :: "string \<Rightarrow> centrald \<Rightarrow> int \<times> centrald" where
  "changeStateHardOff user s = changeState (SERVERD_HARD_OFF OR current_period s) user s"

definition changeStateSoftOff :: "string \<Rightarrow> centrald \<Rightarrow> int \<times> centrald" where
  "changeStateSoftOff user s = changeState (SERVERD_SOFT_OFF OR current_period s) user s"

definition changeStatePeriod :: "u32 \<Rightarrow> centrald \<Rightarrow> int \<times> centrald" where
  "changeStatePeriod p s = (0, maskCentralState SERVERD_STATUS_MASK p ''by client'' s)"

subsection \<open>Weather and stop\<close>

text \<open>
  One connection's part in the scan of \<open>weatherChanged\<close> and \<open>stopChanged\<close>: a required device
  leaves the list when it is good and connected, a device that is not required enters it when
  it is not good.
\<close>

definition scan_conn :: "(cconn \<Rightarrow> bool) \<Rightarrow> cconn \<Rightarrow> string list \<Rightarrow> string list" where
  "scan_conn good c failed =
     (if cname c \<in> set failed
      then (if good c \<and> cstate c = CONN_CONNECTED then remove1 (cname c) failed else failed)
      else if \<not> good c then failed @ [cname c] else failed)"

definition failedArr :: "(cconn \<Rightarrow> bool) \<Rightarrow> cconn list \<Rightarrow> string list \<Rightarrow> string list" where
  "failedArr good cs req = fold (scan_conn good) cs req"

definition note_reason :: "string \<Rightarrow> string option \<Rightarrow> cconn \<Rightarrow> centrald \<Rightarrow> centrald" where
  "note_reason device msg c s =
     (if cname c = device \<and> \<not> isGoodWeather c \<and> badWeatherReason s = []
      then s\<lparr>badWeatherReason := (case msg of None \<Rightarrow> ''NULL'' | Some m \<Rightarrow> m), badWeatherDevice := device\<rparr>
      else s)"

definition weatherChanged :: "string \<Rightarrow> string option \<Rightarrow> centrald \<Rightarrow> centrald" where
  "weatherChanged device msg s =
     (let failed = failedArr isGoodWeather (conns s) (requiredDevices s);
          s1 = fold (note_reason device msg) (conns s) s;
          s2 = sendValueAll ''bad_weather_devices'' (s1\<lparr>badWeatherDevices := failed\<rparr>);
          s3 = setWeatherState (failed = []) ''weather state update from weatherChanged'' s2;
          s4 = (if failed \<noteq> [] then s3 else s3\<lparr>badWeatherReason := [], badWeatherDevice := []\<rparr>)
      in sendValueAll ''bad_weather_device'' (sendValueAll ''bad_weather_reason'' s4))"

definition stopChanged :: "centrald \<Rightarrow> centrald" where
  "stopChanged s = setStopState (failedArr canMove (conns s) (requiredDevices s) \<noteq> [])
     ''stop state update from stopChanged'' s"

definition weatherUpdate :: "string \<Rightarrow> centrald \<Rightarrow> int \<times> centrald" where
  "weatherUpdate args s =
     (case fst (pbind (paramNextString None) (\<lambda>d. pbind (paramNextString None) (\<lambda>u. pend (d, u))) args) of
        None \<Rightarrow> (-2, s)
      | Some (d, u) \<Rightarrow>
          (0, if d = badWeatherDevice s
              then sendValueAll ''bad_weather_reason'' (s\<lparr>badWeatherReason := u\<rparr>) else s))"

subsection \<open>Block operations\<close>

definition getStateForConnection :: "cconn \<Rightarrow> centrald \<Rightarrow> u32" where
  "getStateForConnection c s =
     (if ctype c \<noteq> DEVICE_SERVER then state s
      else fold (\<lambda>t sta. if blockDevice (cname c) (cname t) (config s) then sta OR getBopState t else sta)
             (conns s) (state s AND (NOT BOP_MASK AND NOT DEVICE_ERROR_MASK)))"

definition bop_to :: "nat \<Rightarrow> centrald \<Rightarrow> centrald" where
  "bop_to i s = (case getConn i s of
     Some c \<Rightarrow> if ctype c = DEVICE_SERVER then sendBopMessage (state s) (getStateForConnection c s) i s else s
   | None \<Rightarrow> s)"

text \<open>
  \<open>bopMaskChanged\<close>: the mask is written before the loop that collects it, with its initial
  value 0.
\<close>

definition bopMaskChanged :: "centrald \<Rightarrow> centrald" where
  "bopMaskChanged s =
     (let s1 = maskState BOP_MASK 0 ''changed BOP state'' s;
          s2 = fold bop_to (map cid (conns s1)) s1
      in sendStatusMessage (state s2) None s2)"

subsection \<open>Events of a connection\<close>

definition deviceReady :: "string \<Rightarrow> centrald \<Rightarrow> centrald" where
  "deviceReady nm s = stopChanged (weatherChanged nm (Some ''device ready'') s)"

text \<open>\<open>ConnCentrald::setState\<close>: the state a device reports, and what centrald makes of it.\<close>

definition conn_setState :: "nat \<Rightarrow> u32 \<Rightarrow> string option \<Rightarrow> centrald \<Rightarrow> centrald" where
  "conn_setState i v msg s =
     (case getConn i s of None \<Rightarrow> s | Some c \<Rightarrow>
       let ss = ss_setValue v (serverState c);
           nm = cname c;
           s1 = upd_conn i (\<lambda>c. setState v c) s;
           s2 = (if maskValueChanged DEVICE_NOT_READY ss \<and> v AND DEVICE_NOT_READY = 0
                 then deviceReady nm s1 else s1);
           s3 = (if maskValueChanged WEATHER_MASK ss then weatherChanged nm msg s2 else s2);
           s4 = (if maskValueChanged STOP_MASK ss then stopChanged s3 else s3);
           s5 = (if maskValueChanged BOP_MASK ss then bopMaskChanged s4 else s4)
       in if maskValueChanged DEVICE_BLOCK_OPEN ss \<or> maskValueChanged DEVICE_BLOCK_CLOSE ss
          then openCloseChanged s5 else s5)"

text \<open>
  \<open>commandOriginatorPending\<close>: a command with this originator waits or runs on another
  connection. \<open>queEmptyForOriginator\<close> of \<open>Connection\<close> decides for one connection.
\<close>

definition originator_pending :: "nat \<Rightarrow> nat option \<Rightarrow> centrald \<Rightarrow> bool" where
  "originator_pending i excl s \<longleftrightarrow>
     (\<exists>c\<in>set (conns s). Some (cid c) \<noteq> excl \<and> \<not> queEmptyForOriginator (Some i) c)"

definition status_answer :: "nat \<Rightarrow> centrald \<Rightarrow> centrald" where
  "status_answer i s = (case getConn i s of None \<Rightarrow> s | Some c \<Rightarrow>
     upd_conn i (\<lambda>c. (sendCommandEnd DEVDEM_OK ''OK'' c)\<lparr>statusCommandRunning := statusCommandRunning c - 1\<rparr>)
       (sendBopMessage (state s) (getStateForConnection c s) i s))"

definition updateStatusWait_c :: "nat \<Rightarrow> nat option \<Rightarrow> centrald \<Rightarrow> centrald" where
  "updateStatusWait_c i by s =
     (case getConn i s of None \<Rightarrow> s | Some c \<Rightarrow>
       (case by of
          Some j \<Rightarrow> if originator_pending i (Some j) s then s else status_answer i s
        | None \<Rightarrow> if statusCommandRunning c = 0 then s
                  else if originator_pending i None s then s else status_answer i s))"

definition wants_status :: "cconn \<Rightarrow> cconn \<Rightarrow> ini \<Rightarrow> bool" where
  "wants_status c t i \<longleftrightarrow> cid t \<noteq> cid c \<and> ctype t \<noteq> CLIENT_SERVER
     \<and> (ctype c = DEVICE_SERVER \<longrightarrow> blockDevice (cname c) (cname t) i)"

definition statusInfo :: "nat \<Rightarrow> centrald \<Rightarrow> int \<times> centrald" where
  "statusInfo i s = (case getConn i s of None \<Rightarrow> (0, s) | Some c \<Rightarrow>
     let ts = filter (\<lambda>t. wants_status c t (config s)) (conns s);
         cmd = (commandStatusInfo (Some i))\<lparr>corig := Some i\<rparr>;
         s1 = fold (\<lambda>t. queCommand_on (cid t) cmd) ts s
     in if ts = [] then (0, s)
        else (-1, upd_conn i (\<lambda>c. c\<lparr>statusCommandRunning := statusCommandRunning c + 1\<rparr>) s1))"

text \<open>
  A reply on connection \<open>j\<close>: \<open>Connection::commandReturn\<close>, and for a status query the call of
  the controlling connection, which the connection's model only records.
\<close>

definition status_waits :: "conn_out list \<Rightarrow> nat list" where
  "status_waits es = concat (map (\<lambda>e. case e of StatusWait i \<Rightarrow> [i] | _ \<Rightarrow> []) es)"

definition conn_reply :: "nat \<Rightarrow> int \<Rightarrow> centrald \<Rightarrow> centrald" where
  "conn_reply j st s = (case getConn j s of None \<Rightarrow> s | Some c \<Rightarrow>
     let c1 = commandReturn st c
     in fold (\<lambda>i. updateStatusWait_c i (Some j)) (status_waits (drop (length (outs c)) (outs c1)))
          (upd_conn j (\<lambda>_. c1) s))"

text \<open>\<open>Block::pollSuccess\<close> has erased the connection before \<open>connectionRemoved\<close> is called.\<close>

definition delete_text :: "cconn \<Rightarrow> string option" where
  "delete_text c = (case ctype c of
     CLIENT_SERVER \<Rightarrow> Some (delete_client_text (centrald_id c))
   | DEVICE_SERVER \<Rightarrow> Some (delete_device_text (centrald_id c) (cname c))
   | _ \<Rightarrow> None)"

definition connectionRemoved :: "cconn \<Rightarrow> centrald \<Rightarrow> centrald" where
  "connectionRemoved c s =
     (let s1 = weatherChanged (cname c) (Some ''connection removed'') s;
          s2 = stopChanged s1;
          s3 = bopMaskChanged s2
      in fold (\<lambda>i s. let s' = updateStatusWait_c i None s
                      in (case delete_text c of None \<Rightarrow> s' | Some t \<Rightarrow> sendTo i t s'))
           (map cid (conns s3)) s3)"

definition removeConn :: "nat \<Rightarrow> centrald \<Rightarrow> centrald" where
  "removeConn i s = (case getConn i s of None \<Rightarrow> s | Some c \<Rightarrow>
     if cstate c = CONN_DELETE then
       connectionRemoved c (s\<lparr>conns := map (deleteConnection i) (filter (\<lambda>d. cid d \<noteq> i) (conns s))\<rparr>)
     else s)"

subsection \<open>Time\<close>

text \<open>
  \<open>Centrald::idle\<close>. The arguments are what \<open>next_event\<close> computes: the present period, the
  next one, and the time it begins (seconds).
\<close>

definition idle_state :: "u32 \<Rightarrow> centrald \<Rightarrow> centrald" where
  "idle_state call s =
     (let s1 = (if state s AND SERVERD_STATUS_MASK = SERVERD_MORNING \<and> call AND SERVERD_STATUS_MASK = SERVERD_DAY
                then if morning_off s
                     then maskCentralState SERVERD_ONOFF_MASK SERVERD_HARD_OFF ''switched off on day by idle routine'' s
                     else if morning_standby s \<and> \<not> (state s AND SERVERD_ONOFF_MASK = SERVERD_HARD_OFF
                               \<or> state s AND SERVERD_ONOFF_MASK = SERVERD_SOFT_OFF)
                     then maskCentralState SERVERD_ONOFF_MASK SERVERD_STANDBY ''switched to standby on day by idle routine'' s
                     else s
                else s)
      in maskCentralState SERVERD_STATUS_MASK call ''by idle routine'' s1)"

definition cent_idle :: "u32 \<Rightarrow> u32 \<Rightarrow> int \<Rightarrow> centrald \<Rightarrow> centrald" where
  "cent_idle call nxt nxt_time s =
     (if now s div 1000000 < next_event_time s then s
      else let s1 = s\<lparr>next_event_type := nxt, next_event_time := nxt_time\<rparr> in
        if state s1 \<noteq> call then
          let s2 = s1\<lparr>nextStateChange := nxt_time, nextState := nxt\<rparr>;
              s3 = (if nxt = SERVERD_DUSK
                    then sendValueAll ''switched_standby'' (s2\<lparr>switchedStandby := []\<rparr>) else s2)
          in idle_state call s3
        else s1)"

text \<open>
  The timers of \<open>Block::idle\<close>: those that are due, in the order of their times. A timer added
  by a handler is due later than now, so it does not fire in the same round.
\<close>

definition fire_timers :: "centrald \<Rightarrow> centrald" where
  "fire_timers s =
     (let due = filter (\<lambda>t. t < now s) (timers s);
          s1 = fold (\<lambda>_. closeTimeout) due s
      in s1\<lparr>timers := filter (\<lambda>t. t \<notin> set due) (timers s1)\<rparr>)"

definition conns_idle :: "centrald \<Rightarrow> centrald" where
  "conns_idle s = s\<lparr>conns := map conn_idle (conns s)\<rparr>"

end
