(* ===== verification/CentraldConn.thy ===== *)
theory CentraldConn
  imports Centrald
begin

section \<open>Commands of the devices and clients of centrald\<close>

text \<open>
  \<open>ConnCentrald::command\<close> with \<open>commandDevice\<close> and \<open>commandClient\<close>: login and registration, the
  authorization of a client at a device by a key, the switching of the system state, and the
  opening and closing by hand. A handler gets the number \<open>i\<close> of its connection and returns the
  return code of the code with the new state; \<open>cent_line\<close> adds the reply. \<open>random\<close> takes its
  numbers from \<open>randoms\<close>; the pause after a wrong password is left out. A failed \<open>register\<close>
  leaves the device type and port as they were (in the code they may be overwritten, but they
  are read only after a successful one).
\<close>

subsection \<open>Announcements\<close>

definition sendAValue :: "nat \<Rightarrow> string \<Rightarrow> int \<Rightarrow> centrald \<Rightarrow> centrald" where
  "sendAValue i nm v s = sendTo i (''A '' @ nm @ '' '' @ show_int v) s"

definition cent_end :: "nat \<Rightarrow> int \<Rightarrow> string \<Rightarrow> centrald \<Rightarrow> centrald" where
  "cent_end i num msg s = upd_conn i (sendCommandEnd num msg) s"

definition sendStatusInfo :: "nat \<Rightarrow> centrald \<Rightarrow> centrald" where
  "sendStatusInfo i s = sendTo i (''S '' @ show_u32 (state s)) s"

definition connected_text :: "cconn \<Rightarrow> string option" where
  "connected_text c = (case ctype c of
     CLIENT_SERVER \<Rightarrow> Some (client_text (centrald_id c) (login c) (cname c))
   | DEVICE_SERVER \<Rightarrow> Some (device_text (centrald_num c) (centrald_id c) (cname c) (hostname c) (cport c) (device_type c))
   | _ \<Rightarrow> None)"

text \<open>\<open>sendConnectedInfo\<close> of connection \<open>j\<close> to connection \<open>i\<close>.\<close>

definition sendConnectedInfo :: "nat \<Rightarrow> nat \<Rightarrow> centrald \<Rightarrow> centrald" where
  "sendConnectedInfo j i s = (case getConn j s of None \<Rightarrow> s | Some c \<Rightarrow>
     (case connected_text c of None \<Rightarrow> s | Some t \<Rightarrow> sendTo i t s))"

definition connAdded :: "nat \<Rightarrow> centrald \<Rightarrow> centrald" where
  "connAdded j s = fold (sendConnectedInfo j) (map cid (conns s)) s"

definition sendInfo :: "nat \<Rightarrow> string \<Rightarrow> centrald \<Rightarrow> int \<times> centrald" where
  "sendInfo i args s =
     (if fst (paramEnd args)
      then (0, cent_emit (InfoTo i) (fold (\<lambda>j. sendConnectedInfo j i) (map cid (conns s)) s))
      else (-2, s))"

subsection \<open>Authorization\<close>

definition authorize_params :: "(int \<times> int) param" where
  "authorize_params = pbind paramNextInteger (\<lambda>cl. pbind paramNextInteger (\<lambda>key. pend (cl, key)))"

definition cmd_authorize :: "nat \<Rightarrow> string \<Rightarrow> centrald \<Rightarrow> int \<times> centrald" where
  "cmd_authorize i args s =
     (case fst (authorize_params args) of
        None \<Rightarrow> (-2, s)
      | Some (client, key) \<Rightarrow>
          if client < 0 then (-2, s)
          else case getConnection client s of
            None \<Rightarrow> (-1, cent_end i DEVDEM_E_SYSTEM ''client vanished during auth sequence'' s)
          | Some c \<Rightarrow>
              if ckey c = 0 then
                (-1, cent_end i DEVDEM_E_SYSTEM ''client didn't ask for authorization''
                       (sendAValue i ''authorization_failed'' client s))
              else if ckey c \<noteq> key then
                (-1, cent_end i DEVDEM_E_SYSTEM ''invalid authorization key''
                       (sendAValue i ''authorization_failed'' client s))
              else (0, snd (sendInfo i [] (sendAValue i ''authorization_ok'' client s))))"

definition next_random :: "centrald \<Rightarrow> int \<times> centrald" where
  "next_random s = (case randoms s of [] \<Rightarrow> (1, s) | r # rs \<Rightarrow> (to_int32 r, s\<lparr>randoms := rs\<rparr>))"

definition sendDeviceKey :: "nat \<Rightarrow> string \<Rightarrow> centrald \<Rightarrow> int \<times> centrald" where
  "sendDeviceKey i args s =
     (let (r, s1) = next_random s;
          dev_key = (if r = 0 then 1 else r)
      in case fst (string_param args) of
           None \<Rightarrow> (-2, s1)
         | Some dev \<Rightarrow>
             (case findName dev s1 of
                None \<Rightarrow> (-1, cent_end i DEVDEM_E_SYSTEM ''cannot find device with name'' s1)
              | Some _ \<Rightarrow>
                  let s2 = upd_conn i (setKey dev_key) s1;
                      key = (case getConn i s2 of Some c \<Rightarrow> ckey c | None \<Rightarrow> dev_key)
                  in (0, sendTo i (''authorization_key '' @ dev @ '' '' @ show_int key) s2)))"

subsection \<open>Commands\<close>

definition cent_default :: "nat \<Rightarrow> string \<Rightarrow> string \<Rightarrow> centrald \<Rightarrow> int \<times> centrald" where
  "cent_default i cmd args s =
     (if cmd = ''status_info'' then if fst (paramEnd args) then statusInfo i s else (-2, s)
      else case getConn i s of None \<Rightarrow> (-1, s) | Some c \<Rightarrow>
        let (ret, c') = conn_command (\<lambda>_ c. (0, c)) cmd args c in (ret, upd_conn i (\<lambda>_. c') s))"

definition switch_command :: "nat \<Rightarrow> string \<Rightarrow> string \<Rightarrow> centrald \<Rightarrow> (int \<times> centrald) option" where
  "switch_command i cmd user s =
     (if cmd = ''on'' then Some (changeStateOn user s)
      else if cmd = ''standby'' then Some (changeStateStandby user s)
      else if cmd = ''off'' then Some (changeStateHardOff user s)
      else if cmd = ''soft_off'' then Some (changeStateSoftOff user s)
      else None)"

definition commandDevice :: "nat \<Rightarrow> string \<Rightarrow> string \<Rightarrow> cconn \<Rightarrow> centrald \<Rightarrow> int \<times> centrald" where
  "commandDevice i cmd args c s =
     (if cmd = ''authorize'' then cmd_authorize i args s
      else if cmd = ''key'' then sendDeviceKey i args s
      else if cmd = ''info'' then sendInfo i args s
      else case switch_command i cmd (cname c) s of
        Some r \<Rightarrow> r
      | None \<Rightarrow> if cmd = ''weather_update'' then weatherUpdate args s else cent_default i cmd args s)"

definition period_command :: "string \<Rightarrow> u32 option" where
  "period_command cmd =
     (if cmd = ''day'' then Some SERVERD_DAY
      else if cmd = ''evening'' then Some SERVERD_EVENING
      else if cmd = ''dusk'' then Some SERVERD_DUSK
      else if cmd = ''night'' then Some SERVERD_NIGHT
      else if cmd = ''dawn'' then Some SERVERD_DAWN
      else if cmd = ''morning'' then Some SERVERD_MORNING
      else None)"

definition ok_or_val :: "int \<times> centrald \<Rightarrow> int \<times> centrald" where
  "ok_or_val r = ((if fst r \<noteq> 0 then DEVDEM_E_PARAMSVAL else DEVDEM_OK), snd r)"

definition authorized_command :: "nat \<Rightarrow> string \<Rightarrow> string \<Rightarrow> cconn \<Rightarrow> centrald \<Rightarrow> int \<times> centrald" where
  "authorized_command i cmd args c s =
     (if cmd = ''info'' then sendInfo i args s
      else if cmd = ''key'' then sendDeviceKey i args s
      else case switch_command i cmd (login c) s of
        Some r \<Rightarrow> r
      | None \<Rightarrow>
         (case period_command cmd of
            Some p \<Rightarrow> changeStatePeriod p s
          | None \<Rightarrow>
              if cmd = ''open'' then
                if fst (paramEnd args) then ok_or_val (startOpen s) else (-2, s)
              else if cmd = ''close'' then
                if fst (paramEnd args) then ok_or_val (startClose s) else (-2, s)
              else cent_default i cmd args s))"

definition cmd_password :: "nat \<Rightarrow> string \<Rightarrow> cconn \<Rightarrow> centrald \<Rightarrow> int \<times> centrald" where
  "cmd_password i args c s =
     (case fst (string_param args) of
        None \<Rightarrow> (-2, s)
      | Some pw \<Rightarrow>
          if login c = pw
          then (0, sendStatusInfo i (sendTo i (''logged_as '' @ show_int (centrald_id c))
                     (upd_conn i (\<lambda>c. c\<lparr>authorized := True\<rparr>) s)))
          else (-1, cent_end i DEVDEM_E_SYSTEM ''invalid login or password'' s))"

definition commandClient :: "nat \<Rightarrow> string \<Rightarrow> string \<Rightarrow> cconn \<Rightarrow> centrald \<Rightarrow> int \<times> centrald" where
  "commandClient i cmd args c s =
     (if cmd = ''password'' then cmd_password i args c s
      else if authorized c then authorized_command i cmd args c s
      else cent_default i cmd args s)"

definition login_params :: "(string \<times> string) param" where
  "login_params = pbind (paramNextString None) (\<lambda>l. pbind (paramNextString None) (\<lambda>n. pend (l, n)))"

definition cmd_login :: "nat \<Rightarrow> string \<Rightarrow> cconn \<Rightarrow> centrald \<Rightarrow> int \<times> centrald" where
  "cmd_login i args c s =
     (if ctype c = NOT_DEFINED_SERVER then
        (case fst (login_params args) of
           None \<Rightarrow> (-2, s)
         | Some (l, n) \<Rightarrow>
             (0, connAdded i (upd_conn i (\<lambda>c. c\<lparr>login := l, cname := n, centrald_num := centrald_id c,
                    ctype := CLIENT_SERVER\<rparr>) s)))
      else (-1, cent_end i DEVDEM_E_COMMAND ''cannot switch server type to CLIENT_SERVER'' s))"

definition register_params :: "(int \<times> string \<times> int \<times> string \<times> int) param" where
  "register_params = pbind paramNextInteger (\<lambda>num. pbind (paramNextString None) (\<lambda>dev.
     pbind paramNextInteger (\<lambda>typ. pbind (paramNextString None) (\<lambda>host.
     pbind paramNextInteger (\<lambda>port. pend (num, dev, typ, host, port))))))"

text \<open>\<open>hostname\<close> is an array of \<open>HOST_NAME_MAX\<close> (64) characters with its NUL.\<close>

definition cmd_register :: "nat \<Rightarrow> string \<Rightarrow> cconn \<Rightarrow> centrald \<Rightarrow> int \<times> centrald" where
  "cmd_register i args c s =
     (if ctype c = NOT_DEFINED_SERVER then
        (case fst (register_params args) of
           None \<Rightarrow> (-2, s)
         | Some (num, dev, typ, host, port) \<Rightarrow>
             (case findName dev s of
                Some d \<Rightarrow> (-1, cent_end i DEVDEM_E_SYSTEM
                   (''name '' @ dev @ '' already registered with id '' @ show_int (centrald_id d)) s)
              | None \<Rightarrow>
                  let s1 = upd_conn i (\<lambda>c. c\<lparr>centrald_num := num, cname := dev, hostname := take 63 host,
                             device_type := typ, cport := port, ctype := DEVICE_SERVER\<rparr>) s;
                      s2 = sendAValue i ''registered_as'' (centrald_id c) (sendStatusInfo i s1)
                  in (0, snd (sendInfo i [] (connAdded i s2)))))
      else (-1, cent_end i DEVDEM_E_COMMAND ''cannot switch server type to DEVICE_SERVER'' s))"

definition cmd_message_mask :: "nat \<Rightarrow> string \<Rightarrow> centrald \<Rightarrow> int \<times> centrald" where
  "cmd_message_mask i args s = (case fst (int_param args) of
     None \<Rightarrow> (-2, s)
   | Some m \<Rightarrow> (0, upd_conn i (\<lambda>c. c\<lparr>messageMask := m\<rparr>) s))"

definition cent_command :: "nat \<Rightarrow> string \<Rightarrow> string \<Rightarrow> centrald \<Rightarrow> int \<times> centrald" where
  "cent_command i cmd args s =
     (case getConn i s of None \<Rightarrow> (-1, s) | Some c \<Rightarrow>
       if cmd = ''login'' then cmd_login i args c s
       else if cmd = ''register'' then cmd_register i args c s
       else if cmd = ''message_mask'' then cmd_message_mask i args s
       else if ctype c = DEVICE_SERVER then commandDevice i cmd args c s
       else if ctype c = CLIENT_SERVER then commandClient i cmd args c s
       else cent_default i cmd args s)"

subsection \<open>Lines\<close>

text \<open>\<open>Centrald::message\<close>: a message goes on to every connection whose mask lets it pass.\<close>

definition sendMessageAll :: "int \<Rightarrow> int \<Rightarrow> string \<Rightarrow> int \<Rightarrow> string \<Rightarrow> centrald \<Rightarrow> centrald" where
  "sendMessageAll sec usec nm typ txt s =
     s\<lparr>conns := map (\<lambda>c. if (word_of_int typ :: u32) AND word_of_int (messageMask c) \<noteq> 0
                       then snd (sendMsg (toConn sec usec nm typ txt) c) else c) (conns s)\<rparr>"

text \<open>
  A line received on connection \<open>i\<close>. Messages about values and binary data are left to the
  parameter \<open>vals\<close>.
\<close>

definition cent_dispatch :: "(string \<Rightarrow> string \<Rightarrow> nat \<Rightarrow> centrald \<Rightarrow> int \<times> centrald)
    \<Rightarrow> nat \<Rightarrow> string \<Rightarrow> string \<Rightarrow> centrald \<Rightarrow> int \<times> centrald" where
  "cent_dispatch vals i cmd args s =
     (if cmd = ''S'' then
        (case fst (status_params args) of None \<Rightarrow> (-2, s)
         | Some (v, msg) \<Rightarrow> (-1, conn_setState i (word_of_int v) msg s))
      else if cmd = ''B'' then
        (case fst (bopStatus_params args) of None \<Rightarrow> (-2, s)
         | Some (st, bop) \<Rightarrow>
             (-1, conn_setState i (word_of_int st) None (upd_conn i (setBopState (word_of_int bop)) s)))
      else if cmd = ''M'' then
        (case fst (message_params args) of None \<Rightarrow> (-2, s)
         | Some (sec, usec, nm, typ, txt) \<Rightarrow> (-1, sendMessageAll sec usec nm typ txt s))
      else if cmd = ''T'' then
        (case getConn i s of None \<Rightarrow> (-1, s) | Some c \<Rightarrow>
          let (ret, c') = technical args c in (ret, upd_conn i (\<lambda>_. c') s))
      else if cmd \<in> {''R'', ''E'', ''Z'', ''V'', ''F'', ''X'', ''C'', ''D'', ''H'', ''I'', ''J'', ''K'', ''fits''}
      then vals cmd args i s
      else if isCommandReturn cmd then (-1, conn_reply i (atoi cmd) s)
      else cent_command i cmd args s)"

definition cent_line :: "(string \<Rightarrow> string \<Rightarrow> nat \<Rightarrow> centrald \<Rightarrow> int \<times> centrald)
    \<Rightarrow> nat \<Rightarrow> string \<Rightarrow> centrald \<Rightarrow> centrald" where
  "cent_line vals i line s =
     (let (ret, s1) = cent_dispatch vals i (fst (split_command line)) (snd (split_command line)) s
      in upd_conn i (reply_to ret line) s1)"

subsection \<open>Runs\<close>

text \<open>
  \<open>createConnection\<close>, and the connection is added to the list. The constructor leaves \<open>authorized\<close>
  unset; here it is \<open>False\<close>, what the code relies on.
\<close>

definition new_cconn :: "nat \<Rightarrow> int \<Rightarrow> cconn" where
  "new_cconn i t = \<lparr>cid = i, cname = [], ctype = NOT_DEFINED_SERVER, cstate = CONN_CONNECTED, ckey = 0,
     centrald_num = -1, centrald_id = int i, sock_open = True, serverState = new_server_state,
     bopState = new_server_state, commandQue = [], runningCommand = None,
     runningCommandStatus = RETURNING, has_other = False, can_delete = True, send_all = True,
     authPendingSince = 0, authPendingWarned = False, authRetries = 0, authSent = False,
     lastGoodSend = t, lastData = t, lastSendReady = t - 300, connectionTimeout = 300, clock = t,
     writes = [], outs = [], authorized = False, login = [], hostname = [], cport = 0, device_type = 0,
     statusCommandRunning = 0, messageMask = 0\<rparr>"

datatype cent_event =
    Line nat string
  | Accept nat
  | Remove nat
  | Idle u32 u32 int
  | Timers
  | ConnsIdle
  | Clock int
  | LinkEnv nat int "bool list"

fun cent_step :: "(string \<Rightarrow> string \<Rightarrow> nat \<Rightarrow> centrald \<Rightarrow> int \<times> centrald) \<Rightarrow> cent_event \<Rightarrow> centrald \<Rightarrow> centrald" where
  "cent_step vals (Line i l) s = cent_line vals i l s"
| "cent_step vals (Accept i) s = (if getConn i s = None then s\<lparr>conns := conns s @ [new_cconn i (now s div 1000000)]\<rparr> else s)"
| "cent_step vals (Remove i) s = removeConn i s"
| "cent_step vals (Idle call nxt t) s = cent_idle call nxt t s"
| "cent_step vals Timers s = fire_timers s"
| "cent_step vals ConnsIdle s = conns_idle s"
| "cent_step vals (Clock t) s = s\<lparr>now := t\<rparr>"
| "cent_step vals (LinkEnv i t ws) s = upd_conn i (\<lambda>c. c\<lparr>clock := t, writes := ws\<rparr>) s"

end
