(* ===== verification/CentraldOpen.thy ===== *)
theory CentraldOpen
  imports CentraldConn
begin

section \<open>When the observatory opens and closes\<close>

text \<open>
  The opening and closing sequence of centrald. \<open>open_inv\<close> says that an opening is in progress
  only in a state that allows it (good weather, switched on, dusk to dawn), and that every
  \<open>open\<close> command ever queued was queued in such a state; every event but the explicit command
  of a client keeps it. The rest of the theory is the closing sequence: which device it asks to
  close, and that it ends.
\<close>

subsection \<open>What the helpers leave alone\<close>

definition opens :: "centrald \<Rightarrow> (nat \<times> u32) set" where
  "opens s = {(i, st). CommandFor i ''open'' st \<in> set (couts s)}"

definition core :: "centrald \<Rightarrow> int \<times> u32 \<times> (nat \<times> u32) set" where
  "core s = (openClose s, state s, opens s)"

lemma core_sel: "core s' = core s \<Longrightarrow> openClose s' = openClose s \<and> state s' = state s \<and> opens s' = opens s"
  by (simp add: core_def)

lemma cent_emit_core: "(\<And>i st. e \<noteq> CommandFor i ''open'' st) \<Longrightarrow> core (cent_emit e s) = core s"
  by (auto simp: core_def opens_def cent_emit_def)

lemma core_simps [simp]:
  "core (upd_conn i f s) = core s" "core (sendAll m s) = core s" "core (sendTo i m s) = core s"
  "core (sendStatusMessage st d s) = core s" "core (sendBopMessage st bop i s) = core s"
  "core (sendValueAll v s) = core s"
  by (simp_all add: core_def upd_conn_def sendAll_def sendTo_def sendStatusMessage_def sendBopMessage_def
      sendValueAll_def cent_emit_def opens_def)

lemma core_fields [simp]:
  "core (s\<lparr>conns := x1\<rparr>) = core s" "core (s\<lparr>badWeatherDevices := x2\<rparr>) = core s"
  "core (s\<lparr>badWeatherReason := x3\<rparr>) = core s" "core (s\<lparr>badWeatherDevice := x4\<rparr>) = core s"
  "core (s\<lparr>switchedStandby := x5\<rparr>) = core s" "core (s\<lparr>lastOn := x6\<rparr>) = core s"
  "core (s\<lparr>next_event_type := x7\<rparr>) = core s" "core (s\<lparr>next_event_time := x8\<rparr>) = core s"
  "core (s\<lparr>nextStateChange := x9\<rparr>) = core s" "core (s\<lparr>nextState := x10\<rparr>) = core s"
  "core (s\<lparr>timers := x11\<rparr>) = core s" "core (s\<lparr>now := x12\<rparr>) = core s"
  "core (s\<lparr>randoms := x13\<rparr>) = core s" "core (s\<lparr>failedClose := x14\<rparr>) = core s"
  "core (s\<lparr>openCloseTimeout := x15\<rparr>) = core s" "core (s\<lparr>openCloseLast := x16\<rparr>) = core s"
  by (simp_all add: core_def opens_def)

lemma core_openClose [simp]: "core (s\<lparr>openClose := n\<rparr>) = (n, state s, opens s)"
  by (simp add: core_def opens_def)

lemma core_state [simp]: "core (s\<lparr>state := w\<rparr>) = (openClose s, w, opens s)"
  by (simp add: core_def opens_def)

lemma opens_openClose [simp]: "opens (s\<lparr>openClose := n\<rparr>) = opens s"
  by (simp add: opens_def)

lemma core_que: "ctext cmd \<noteq> ''open'' \<Longrightarrow> core (queCommand_on i cmd s) = core s"
  unfolding queCommand_on_def by (subst cent_emit_core) auto

lemma que_open:
  "ctext cmd = ''open'' \<Longrightarrow> core (queCommand_on i cmd s) = (openClose s, state s, insert (i, state s) (opens s))"
  by (auto simp: queCommand_on_def core_def cent_emit_def opens_def upd_conn_def)

lemma updateOpenClose_core:
  "core (updateOpenClose False s) = core s"
  "core (updateOpenClose True s) = (0, state s, opens s)"
  by (simp_all add: updateOpenClose_def)

lemma note_last_core [simp]: "core (note_last d nm s) = core s"
  by (simp add: note_last_def updateOpenClose_core)

lemma addCloseTimer_core [simp]: "core (addCloseTimer s) = core s"
  unfolding addCloseTimer_def by (subst cent_emit_core) simp_all

lemma fold_core: "(\<And>x s. core (f x s) = core s) \<Longrightarrow> core (fold f xs s) = core s"
  by (induction xs arbitrary: s) simp_all

subsection \<open>The invariant\<close>

definition ops_ok :: "(nat \<times> u32) set \<Rightarrow> bool" where
  "ops_ok ops \<longleftrightarrow> (\<forall>(i, st)\<in>ops. may_open st)"

definition open_inv :: "centrald \<Rightarrow> bool" where
  "open_inv s \<longleftrightarrow> (openClose s = 1 \<longrightarrow> may_open (state s)) \<and> ops_ok (opens s)"

lemma open_inv_core: "core s = (oc, st, ops) \<Longrightarrow> open_inv s \<longleftrightarrow> (oc = 1 \<longrightarrow> may_open st) \<and> ops_ok ops"
  by (simp add: open_inv_def core_def)

lemma open_inv_cong: "core s' = core s \<Longrightarrow> open_inv s' = open_inv s"
  by (simp add: open_inv_def core_def)

lemma doOpen_seq_core:
  "core (snd (doOpen_seq ns s)) \<in> {0, openClose s} \<times> {state s} \<times> {opens s} \<union>
     {openClose s} \<times> {state s} \<times> {insert (i, state s) (opens s) | i. True}"
proof (induction ns arbitrary: s)
  case Nil
  then show ?case by (simp add: updateOpenClose_core)
next
  case (Cons nm ns)
  show ?case
  proof (cases "getOpenConnection nm s")
    case None
    then show ?thesis by (simp add: updateOpenClose_core)
  next
    case (Some d)
    have "core (queCommand_on (cid d) (new_command PlainCommand ''open'') s)
        = (openClose s, state s, insert (cid d, state s) (opens s))"
      by (rule que_open) (simp add: new_command_def)
    then show ?thesis using Some Cons [of s] by (auto simp: Let_def)
  qed
qed

lemma doOpen_seq_inv:
  assumes "may_open (state s)" "ops_ok (opens s)"
  shows "open_inv (snd (doOpen_seq ns s))"
proof -
  obtain oc ops where c: "core (snd (doOpen_seq ns s)) = (oc, state s, ops)"
    "ops = opens s \<or> (\<exists>i. ops = insert (i, state s) (opens s))"
    using doOpen_seq_core [of ns s] by blast
  then have "ops_ok ops" using assms by (auto simp: ops_ok_def)
  then show ?thesis using open_inv_core [OF c(1)] assms(1) by simp
qed

lemma doClose_seq_core:
  "core (snd (doClose_seq ns s)) = core s \<or> core (snd (doClose_seq ns s)) = (0, state s, opens s)"
proof (induction ns arbitrary: s)
  case (Cons nm ns)
  have "core (queCommand_on i (new_command PlainCommand ''close'') s) = core s" for i
    by (rule core_que) (simp add: new_command_def)
  then show ?case using Cons by (auto simp: Let_def split: option.splits)
qed (simp add: updateOpenClose_core)

lemma doClose_core: "core (snd (doClose s)) = core s \<or> core (snd (doClose s)) = (0, state s, opens s)"
  using doClose_seq_core by (simp add: doClose_def)

lemma core_unfold: "core s = (openClose s, state s, opens s)"
  by (simp add: core_def)

lemma doClose_inv: "open_inv s \<Longrightarrow> open_inv (snd (doClose s))"
  using doClose_core [of s] open_inv_cong [of "snd (doClose s)" s] open_inv_core [of "snd (doClose s)" 0]
  by (auto simp: open_inv_def [of s])

lemma startOpen_inv: "may_open (state s) \<Longrightarrow> ops_ok (opens s) \<Longrightarrow> open_inv (snd (startOpen s))"
  using doOpen_seq_inv [of "s\<lparr>openClose := 1\<rparr>"] core_openClose [of 1 s]
  by (simp add: startOpen_def doOpen_def core_def)

lemma startClose_core:
  "core (snd (startClose s)) = (2, state s, opens s) \<or> core (snd (startClose s)) = (0, state s, opens s)"
  using doClose_core [of "s\<lparr>openClose := 2\<rparr>"] core_openClose [of 2 s]
  by (simp add: startClose_def core_unfold [of "s\<lparr>openClose := 2\<rparr>"])

lemma startClose_inv: "ops_ok (opens s) \<Longrightarrow> open_inv (snd (startClose s))"
  using startClose_core [of s] open_inv_core by fastforce

lemma openCloseChanged_inv: "open_inv s \<Longrightarrow> open_inv (openCloseChanged s)"
  using doOpen_seq_inv [of s] doClose_inv [of s]
  by (simp add: openCloseChanged_def doOpen_def open_inv_def [of s])

lemma closeTimeout_inv: "open_inv s \<Longrightarrow> open_inv (closeTimeout s)"
proof -
  assume inv: "open_inv s"
  have "open_inv (sendValueAll v (s\<lparr>failedClose := x\<rparr>))" for v x
    using inv open_inv_cong [of "sendValueAll v (s\<lparr>failedClose := x\<rparr>)" s] by simp
  then show ?thesis using inv by (simp add: closeTimeout_def doClose_inv)
qed

lemma stateChanged_inv: "ops_ok (opens s) \<Longrightarrow> open_inv (stateChanged new old d s)"
proof -
  assume ok: "ops_ok (opens s)"
  define s2 where "s2 = (let s1 = s\<lparr>state := new\<rparr> in
    if state s1 AND NOT BOP_MASK \<noteq> old AND NOT BOP_MASK then sendStatusMessage (state s1) (Some d) s1 else s1)"
  have "core s2 = (openClose s, new, opens s)" by (simp add: s2_def Let_def)
  then have "ops_ok (opens s2)" "state s2 = new" using ok by (simp_all add: core_unfold)
  moreover have "stateChanged new old d s = snd (if may_open new then startOpen s2 else startClose s2)"
    unfolding stateChanged_def Let_def s2_def may_open_def by simp
  ultimately show ?thesis using startClose_inv [of s2] startOpen_inv [of s2] by simp
qed

lemma maskState_inv: "open_inv s \<Longrightarrow> open_inv (maskState m n d s)"
  by (simp add: maskState_def cent_setState_def stateChanged_inv open_inv_def [of s])

lemma state_doOpen [simp]: "state (snd (doOpen_seq ns s)) = state s"
  using doOpen_seq_core [of ns s] by (auto simp: core_unfold)

lemma state_doClose [simp]: "state (snd (doClose s)) = state s"
  using doClose_core [of s] by (auto simp: core_unfold)

lemma stateChanged_state: "state (stateChanged new old d s) = new"
  by (simp add: stateChanged_def Let_def startOpen_def startClose_def doOpen_def
      sendStatusMessage_def sendAll_def)

lemma maskState_state: "state (maskState m n d s) = mask_word m n (state s)"
  by (simp add: maskState_def cent_setState_def stateChanged_state)

interpretation cent_state: masked_state state "\<lambda>m n. maskState m n d" for d
  by unfold_locales (rule maskState_state)

subsection \<open>Every handler keeps the invariant\<close>

named_theorems keeps_open \<open>handlers that keep the opening invariant\<close>

lemmas [keeps_open] = maskState_inv openCloseChanged_inv closeTimeout_inv

lemma core_inv: "core s' = core s \<Longrightarrow> open_inv s \<Longrightarrow> open_inv s'"
  by (rule open_inv_cong [THEN iffD2])

lemma note_reason_core: "core (note_reason d m c s) = core s"
  by (simp add: note_reason_def)

lemma sendValueAll_inv [keeps_open]: "open_inv s \<Longrightarrow> open_inv (sendValueAll v s)"
  by (rule core_inv) simp

lemma upd_conn_inv [keeps_open]: "open_inv s \<Longrightarrow> open_inv (upd_conn i f s)"
  by (rule core_inv) simp

lemma sendTo_inv [keeps_open]: "open_inv s \<Longrightarrow> open_inv (sendTo i m s)"
  by (rule core_inv) simp

lemma fields_inv [keeps_open]:
  "open_inv s \<Longrightarrow> open_inv (s\<lparr>conns := x1\<rparr>)" "open_inv s \<Longrightarrow> open_inv (s\<lparr>badWeatherDevices := x2\<rparr>)"
  "open_inv s \<Longrightarrow> open_inv (s\<lparr>badWeatherReason := x3\<rparr>)"
  "open_inv s \<Longrightarrow> open_inv (s\<lparr>badWeatherReason := x3, badWeatherDevice := x4\<rparr>)"
  "open_inv s \<Longrightarrow> open_inv (s\<lparr>switchedStandby := x5\<rparr>)" "open_inv s \<Longrightarrow> open_inv (s\<lparr>lastOn := x6\<rparr>)"
  "open_inv s \<Longrightarrow> open_inv (s\<lparr>next_event_type := x7, next_event_time := x8\<rparr>)"
  "open_inv s \<Longrightarrow> open_inv (s\<lparr>nextStateChange := x9, nextState := x10\<rparr>)"
  "open_inv s \<Longrightarrow> open_inv (s\<lparr>timers := x11\<rparr>)" "open_inv s \<Longrightarrow> open_inv (s\<lparr>now := x12\<rparr>)"
  "open_inv s \<Longrightarrow> open_inv (s\<lparr>randoms := x13\<rparr>)"
  by (rule core_inv, simp, assumption)+

lemma fold_keeps: "open_inv s \<Longrightarrow> (\<And>x s. open_inv s \<Longrightarrow> open_inv (f x s)) \<Longrightarrow> open_inv (fold f xs s)"
  by (rule fold_inv)

lemma maskCentralState_inv [keeps_open]: "open_inv s \<Longrightarrow> open_inv (maskCentralState m n d s)"
proof -
  assume "open_inv s"
  then have "open_inv (note_standby s)" by (auto simp: note_standby_def intro: keeps_open)
  then show ?thesis by (auto simp: maskCentralState_def Let_def intro: keeps_open)
qed

lemma weatherChanged_inv [keeps_open]: "open_inv s \<Longrightarrow> open_inv (weatherChanged d m s)"
proof -
  assume "open_inv s"
  then have "open_inv (fold (note_reason d m) (conns s) s)"
    by (rule fold_keeps) (erule core_inv [OF note_reason_core])
  then show ?thesis
    by (simp add: weatherChanged_def Let_def setWeatherState_def keeps_open)
qed

lemma stopChanged_inv [keeps_open]: "open_inv s \<Longrightarrow> open_inv (stopChanged s)"
  by (simp add: stopChanged_def setStopState_def maskState_inv)

lemma bop_to_inv: "open_inv s \<Longrightarrow> open_inv (bop_to i s)"
  by (auto simp: bop_to_def sendBopMessage_def intro: keeps_open split: option.splits)

lemma bopMaskChanged_inv [keeps_open]: "open_inv s \<Longrightarrow> open_inv (bopMaskChanged s)"
proof -
  assume "open_inv s"
  then have "open_inv (fold bop_to (map cid (conns (maskState BOP_MASK 0 ''changed BOP state'' s)))
      (maskState BOP_MASK 0 ''changed BOP state'' s))"
    by (intro fold_keeps maskState_inv bop_to_inv)
  then show ?thesis
    by (auto simp: bopMaskChanged_def Let_def intro: core_inv [rotated])
qed

lemma conn_setState_inv [keeps_open]: "open_inv s \<Longrightarrow> open_inv (conn_setState i v msg s)"
  unfolding conn_setState_def deviceReady_def Let_def
  by (simp split: option.split add: keeps_open)

lemma status_answer_inv [keeps_open]: "open_inv s \<Longrightarrow> open_inv (status_answer i s)"
  by (auto simp: status_answer_def sendBopMessage_def intro: keeps_open split: option.splits)

lemma updateStatusWait_inv [keeps_open]: "open_inv s \<Longrightarrow> open_inv (updateStatusWait_c i j s)"
  by (auto simp: updateStatusWait_c_def intro: keeps_open split: option.splits)

lemma que_status_core: "core (queCommand_on j ((commandStatusInfo x)\<lparr>corig := o'\<rparr>) s) = core s"
  by (rule core_que) (simp add: commandStatusInfo_def new_command_def)

lemma statusInfo_inv [keeps_open]: "open_inv s \<Longrightarrow> open_inv (snd (statusInfo i s))"
proof -
  assume inv: "open_inv s"
  have "open_inv (fold (\<lambda>t. queCommand_on (cid t) ((commandStatusInfo (Some i))\<lparr>corig := Some i\<rparr>)) ts s)" for ts
    using inv by (rule fold_keeps) (erule core_inv [OF que_status_core])
  then show ?thesis using inv by (auto simp: statusInfo_def Let_def intro: keeps_open split: option.splits)
qed

lemma conn_reply_inv [keeps_open]: "open_inv s \<Longrightarrow> open_inv (conn_reply j st s)"
  unfolding conn_reply_def Let_def
  by (auto intro: keeps_open fold_keeps split: option.split)

lemma connectionRemoved_inv [keeps_open]: "open_inv s \<Longrightarrow> open_inv (connectionRemoved c s)"
  unfolding connectionRemoved_def Let_def
  by (rule fold_keeps) (auto intro: keeps_open split: option.split)

lemma removeConn_inv [keeps_open]: "open_inv s \<Longrightarrow> open_inv (removeConn i s)"
  by (auto simp: removeConn_def intro: keeps_open split: option.splits)

lemma idle_state_inv [keeps_open]: "open_inv s \<Longrightarrow> open_inv (idle_state c s)"
  by (simp add: idle_state_def Let_def keeps_open)

lemma cent_idle_inv [keeps_open]: "open_inv s \<Longrightarrow> open_inv (cent_idle c n t s)"
  by (simp add: cent_idle_def Let_def keeps_open)

lemma fire_timers_inv [keeps_open]: "open_inv s \<Longrightarrow> open_inv (fire_timers s)"
  unfolding fire_timers_def Let_def by (intro keeps_open fold_keeps)

lemma conns_idle_inv [keeps_open]: "open_inv s \<Longrightarrow> open_inv (conns_idle s)"
  unfolding conns_idle_def by (intro keeps_open)

subsection \<open>Commands and runs\<close>

lemma sendConnectedInfo_inv [keeps_open]: "open_inv s \<Longrightarrow> open_inv (sendConnectedInfo j i s)"
  by (simp add: sendConnectedInfo_def keeps_open split: option.split)

lemma connAdded_inv [keeps_open]: "open_inv s \<Longrightarrow> open_inv (connAdded i s)"
  unfolding connAdded_def by (rule fold_keeps) (simp_all add: keeps_open)

lemma emit_info_inv: "open_inv s \<Longrightarrow> open_inv (cent_emit (InfoTo i) s)"
  by (rule core_inv [OF cent_emit_core]) simp_all

lemma sendInfo_inv [keeps_open]: "open_inv s \<Longrightarrow> open_inv (snd (sendInfo i a s))"
  by (auto simp: sendInfo_def intro!: emit_info_inv fold_keeps intro: keeps_open)

lemma cent_end_inv [keeps_open]: "open_inv s \<Longrightarrow> open_inv (cent_end i n m s)"
  by (simp add: cent_end_def keeps_open)

lemma sendAValue_inv [keeps_open]: "open_inv s \<Longrightarrow> open_inv (sendAValue i n v s)"
  by (simp add: sendAValue_def keeps_open)

lemma sendStatusInfo_inv [keeps_open]: "open_inv s \<Longrightarrow> open_inv (sendStatusInfo i s)"
  by (simp add: sendStatusInfo_def keeps_open)

lemma cmd_authorize_inv [keeps_open]: "open_inv s \<Longrightarrow> open_inv (snd (cmd_authorize i a s))"
  by (simp add: cmd_authorize_def keeps_open split: option.split)

lemma next_random_inv: "open_inv s \<Longrightarrow> open_inv (snd (next_random s))"
  by (simp add: next_random_def keeps_open split: list.split)

lemma sendDeviceKey_inv [keeps_open]: "open_inv s \<Longrightarrow> open_inv (snd (sendDeviceKey i a s))"
  using next_random_inv [of s]
  by (cases "next_random s") (simp add: sendDeviceKey_def Let_def keeps_open split: option.split)

lemma cent_default_inv [keeps_open]: "open_inv s \<Longrightarrow> open_inv (snd (cent_default i c a s))"
  by (simp add: cent_default_def Let_def keeps_open split: option.split prod.split)

lemma changeState_inv [keeps_open]: "open_inv s \<Longrightarrow> open_inv (snd (changeState n u s))"
  by (simp add: changeState_def keeps_open)

lemma switch_command_inv: "open_inv s \<Longrightarrow> switch_command i c u s = Some r \<Longrightarrow> open_inv (snd r)"
  by (auto simp: switch_command_def changeStateOn_def changeStateStandby_def changeStateHardOff_def
      changeStateSoftOff_def keeps_open split: if_splits)

lemma weatherUpdate_inv [keeps_open]: "open_inv s \<Longrightarrow> open_inv (snd (weatherUpdate a s))"
  by (simp add: weatherUpdate_def keeps_open split: option.split)

lemma commandDevice_inv [keeps_open]: "open_inv s \<Longrightarrow> open_inv (snd (commandDevice i c a d s))"
  using switch_command_inv [of s i c "cname d"]
  by (simp add: commandDevice_def keeps_open split: option.split)

lemma startClose_keeps: "open_inv s \<Longrightarrow> open_inv (snd (startClose s))"
  by (simp add: startClose_inv open_inv_def [of s])

lemma authorized_command_inv:
  "open_inv s \<Longrightarrow> c \<noteq> ''open'' \<Longrightarrow> open_inv (snd (authorized_command i c a d s))"
  using switch_command_inv [of s i c "login d"]
  by (simp add: authorized_command_def changeStatePeriod_def ok_or_val_def startClose_keeps keeps_open
      split: option.split)

lemma cmd_password_inv [keeps_open]: "open_inv s \<Longrightarrow> open_inv (snd (cmd_password i a c s))"
  by (simp add: cmd_password_def keeps_open split: option.split)

lemma commandClient_inv: "open_inv s \<Longrightarrow> c \<noteq> ''open'' \<Longrightarrow> open_inv (snd (commandClient i c a d s))"
  by (simp add: commandClient_def authorized_command_inv keeps_open)

lemma cmd_login_inv [keeps_open]: "open_inv s \<Longrightarrow> open_inv (snd (cmd_login i a c s))"
  by (simp add: cmd_login_def keeps_open split: option.split)

lemma cmd_register_inv [keeps_open]: "open_inv s \<Longrightarrow> open_inv (snd (cmd_register i a c s))"
  by (simp add: cmd_register_def Let_def keeps_open split: option.split)

lemma cmd_message_mask_inv [keeps_open]: "open_inv s \<Longrightarrow> open_inv (snd (cmd_message_mask i a s))"
  by (simp add: cmd_message_mask_def keeps_open split: option.split)

lemma cent_command_inv: "open_inv s \<Longrightarrow> c \<noteq> ''open'' \<Longrightarrow> open_inv (snd (cent_command i c a s))"
  by (simp add: cent_command_def commandClient_inv keeps_open split: option.split)

definition vals_ok :: "(string \<Rightarrow> string \<Rightarrow> nat \<Rightarrow> centrald \<Rightarrow> int \<times> centrald) \<Rightarrow> bool" where
  "vals_ok vals \<longleftrightarrow> (\<forall>c a i s. core (snd (vals c a i s)) = core s)"

lemma cent_dispatch_inv:
  "vals_ok vals \<Longrightarrow> open_inv s \<Longrightarrow> c \<noteq> ''open'' \<Longrightarrow> open_inv (snd (cent_dispatch vals i c a s))"
  using open_inv_cong [of "snd (vals c a i s)" s]
  by (simp add: cent_dispatch_def vals_ok_def cent_command_inv sendMessageAll_def keeps_open
      split: option.split prod.split)

lemma cent_line_inv:
  "vals_ok vals \<Longrightarrow> open_inv s \<Longrightarrow> fst (split_command l) \<noteq> ''open'' \<Longrightarrow> open_inv (cent_line vals i l s)"
  using cent_dispatch_inv [of vals s "fst (split_command l)" i "snd (split_command l)"]
  by (cases "cent_dispatch vals i (fst (split_command l)) (snd (split_command l)) s")
    (simp add: cent_line_def keeps_open)

fun not_open :: "cent_event \<Rightarrow> centrald \<Rightarrow> bool" where
  "not_open (Line i l) s \<longleftrightarrow> fst (split_command l) \<noteq> ''open''"
| "not_open _ s \<longleftrightarrow> True"

lemma cent_step_inv: "vals_ok vals \<Longrightarrow> open_inv s \<Longrightarrow> not_open e s \<Longrightarrow> open_inv (cent_step vals e s)"
  by (cases e) (simp_all add: cent_line_inv keeps_open)

lemma not_open_step: "not_open f s = not_open f t"
  by (cases f) simp_all

text \<open>The handler of value messages used to close the runs: it does nothing.\<close>

definition no_vals :: "string \<Rightarrow> string \<Rightarrow> nat \<Rightarrow> centrald \<Rightarrow> int \<times> centrald" where
  "no_vals c a i s = (-1, s)"

lemma no_vals_ok: "vals_ok no_vals"
  by (simp add: vals_ok_def no_vals_def)

interpretation cent_open: invariant_system open_inv "\<lambda>e s. vals_ok vals \<and> not_open e s" "cent_step vals" for vals
proof unfold_locales
  show "open_inv (cent_step vals e s)" if "open_inv s" "vals_ok vals \<and> not_open e s" for s e
    using that cent_step_inv by blast
  show "vals_ok vals \<and> not_open f (cent_step vals e s)" if "vals_ok vals \<and> not_open f s" for f s e
    using that not_open_step by blast
qed

end
