(* ===== verification/CentraldProps.thy ===== *)
theory CentraldProps
  imports CentraldOpen
begin

section \<open>Properties of the central server\<close>

text \<open>
  When the observatory opens, how the weather and the stop state follow from what the devices report, and
  the closing sequence: its order, its timers and its end. Two computed cases show a client that hides bad
  weather and a closing without a timer.
\<close>

subsection \<open>Opening\<close>

text \<open>The state after the constructor and \<open>reloadConfig\<close>.\<close>

definition new_centrald :: "string list \<Rightarrow> string list \<Rightarrow> ini \<Rightarrow> centrald" where
  "new_centrald req sequ cfg = \<lparr>conns = [], state = SERVERD_HARD_OFF OR BAD_WEATHER, requiredDevices = req,
     badWeatherDevices = [], badWeatherReason = [], badWeatherDevice = [], openClose = 0,
     openCloseTimeout = None, openCloseLast = [], failedClose = [], openSequence = sequ,
     switchedStandby = [], lastOn = None, morning_off = True, morning_standby = True,
     next_event_type = 0, next_event_time = 0, nextStateChange = 0, nextState = 0, timers = [], now = 0,
     randoms = [], config = cfg, couts = []\<rparr>"

lemma new_centrald_inv: "open_inv (new_centrald req sequ cfg)"
  by (simp add: new_centrald_def open_inv_def ops_ok_def opens_def)

text \<open>
  C1: the observatory opens only in good weather, switched on, between dusk and dawn. In every
  run of the server without an explicit \<open>open\<close> command of a client, whatever the devices and
  clients send, however connections fail, and whenever timers fire, each \<open>open\<close> command queued
  for a device was queued in a state word with good weather, \<open>ON\<close>, and dusk, night or dawn; and
  an opening is in progress only in such a state.
\<close>

theorem opens_only_when_allowed:
  assumes "vals_ok vals" "\<forall>e\<in>set es. not_open e (new_centrald req sequ cfg)"
  shows "let s = run_steps (cent_step vals) es (new_centrald req sequ cfg)
    in (openClose s = 1 \<longrightarrow> may_open (state s))
       \<and> (\<forall>i st. CommandFor i ''open'' st \<in> set (couts s) \<longrightarrow> may_open st)"
proof -
  have "open_inv (run_steps (cent_step vals) es (new_centrald req sequ cfg))"
    using assms by (intro cent_open.inv_run new_centrald_inv) auto
  then show ?thesis by (auto simp: open_inv_def ops_ok_def opens_def Let_def)
qed

lemma opens_only_when_allowed_witness:
  "let s = run_steps (cent_step no_vals) [Accept 1, Line 1 ''login x y'', Line 1 ''password x'', Line 1 ''night'']
       (new_centrald [] [''DOME''] [])
   in openClose s = 1 \<longrightarrow> may_open (state s)"
  using opens_only_when_allowed [OF no_vals_ok, of "[Accept 1, Line 1 ''login x y'', Line 1 ''password x'', Line 1 ''night'']"
      "[]" "[''DOME'']" "[]"]
  by (simp add: split_command_def is_space_def Let_def)

subsection \<open>Weather\<close>

lemma distinct_remove1_set: "distinct xs \<Longrightarrow> set (remove1 x xs) = set xs - {x}"
  by simp

lemma scan_conn_distinct: "distinct f \<Longrightarrow> distinct (scan_conn good c f)"
  by (simp add: scan_conn_def)

lemma scan_conn_set:
  "distinct f \<Longrightarrow> set (scan_conn good c f) =
     (set f - (if good c \<and> cstate c = CONN_CONNECTED then {cname c} else {}))
     \<union> (if good c then {} else {cname c})"
  by (auto simp: scan_conn_def)

text \<open>No connection that is not good is followed by one of the same name.\<close>

fun bad_last :: "(cconn \<Rightarrow> bool) \<Rightarrow> cconn list \<Rightarrow> bool" where
  "bad_last good [] = True"
| "bad_last good (c # cs) \<longleftrightarrow> (good c \<or> cname c \<notin> set (map cname cs)) \<and> bad_last good cs"

lemma bad_last_distinct: "distinct (map cname cs) \<Longrightarrow> bad_last good cs"
  by (induction cs) simp_all

lemma failedArr_set:
  "bad_last good cs \<Longrightarrow> distinct f \<Longrightarrow>
   set (failedArr good cs f) =
     {r \<in> set f. \<not> (\<exists>c\<in>set cs. cname c = r \<and> good c \<and> cstate c = CONN_CONNECTED)}
     \<union> {cname c | c. c \<in> set cs \<and> \<not> good c}"
proof (induction cs arbitrary: f)
  case Nil
  then show ?case by (simp add: failedArr_def)
next
  case (Cons c cs)
  have "set (failedArr good (c # cs) f) = set (failedArr good cs (scan_conn good c f))"
    by (simp add: failedArr_def)
  also have "\<dots> = {r \<in> set (scan_conn good c f). \<not> (\<exists>d\<in>set cs. cname d = r \<and> good d \<and> cstate d = CONN_CONNECTED)}
     \<union> {cname d | d. d \<in> set cs \<and> \<not> good d}"
    using Cons by (intro Cons.IH scan_conn_distinct) simp_all
  finally have eq: "set (failedArr good (c # cs) f) =
      {r \<in> set (scan_conn good c f). \<not> (\<exists>d\<in>set cs. cname d = r \<and> good d \<and> cstate d = CONN_CONNECTED)}
      \<union> {cname d | d. d \<in> set cs \<and> \<not> good d}" .
  have "\<forall>d\<in>set cs. cname d \<noteq> cname c" if "\<not> good c" 
    using that Cons.prems(1) by (metis bad_last.simps(2) imageI image_set)
  then show ?case
    unfolding eq scan_conn_set [OF Cons.prems(2)] by (auto split: if_splits)
qed

lemma failedArr_empty:
  assumes "bad_last good cs" "distinct req"
  shows "failedArr good cs req = [] \<longleftrightarrow>
    (\<forall>c\<in>set cs. good c) \<and> (\<forall>r\<in>set req. \<exists>c\<in>set cs. cname c = r \<and> cstate c = CONN_CONNECTED)"
proof -
  have "failedArr good cs req = [] \<longleftrightarrow> set (failedArr good cs req) = {}" by simp
  then show ?thesis unfolding failedArr_set [OF assms] by blast
qed

lemma core_fold_reason: "core (fold (note_reason d m) cs s) = core s"
  by (rule fold_core) (rule note_reason_core)

lemma state_weatherChanged:
  "state (weatherChanged d m s) = mask_word WEATHER_MASK
     (if failedArr isGoodWeather (conns s) (requiredDevices s) = [] then GOOD_WEATHER else BAD_WEATHER) (state s)"
proof -
  have "state (fold (note_reason d m) (conns s) s) = state s"
    using core_fold_reason [of d m "conns s" s] by (simp add: core_def)
  then show ?thesis
    by (simp add: weatherChanged_def Let_def setWeatherState_def maskState_state sendValueAll_def cent_emit_def)
qed

text \<open>
  C16: the weather is good exactly when every device agrees. After \<open>weatherChanged\<close> the system
  weather bit is clear if and only if no connection reports bad weather and every required
  device is connected. This needs that no connection that reports bad weather is followed in the
  list of connections by one of the same name, and that no device is required twice. The on/off state, the period and the stop bit stay as they were.
\<close>

theorem weather_is_conjunction:
  assumes "bad_last isGoodWeather (conns s)" "distinct (requiredDevices s)"
  shows "(state (weatherChanged dev msg s) AND WEATHER_MASK = GOOD_WEATHER \<longleftrightarrow>
      (\<forall>c\<in>set (conns s). isGoodWeather c)
      \<and> (\<forall>r\<in>set (requiredDevices s). \<exists>c\<in>set (conns s). cname c = r \<and> cstate c = CONN_CONNECTED))
    \<and> state (weatherChanged dev msg s) AND (SERVERD_ONOFF_MASK OR SERVERD_STATUS_MASK OR STOP_MASK)
      = state s AND (SERVERD_ONOFF_MASK OR SERVERD_STATUS_MASK OR STOP_MASK)"
proof -
  let ?n = "if failedArr isGoodWeather (conns s) (requiredDevices s) = [] then GOOD_WEATHER else BAD_WEATHER"
  have "mask_word WEATHER_MASK ?n (state s) AND WEATHER_MASK = ?n AND WEATHER_MASK"
    by (rule mask_word_field) simp
  moreover have "mask_word WEATHER_MASK ?n (state s) AND (SERVERD_ONOFF_MASK OR SERVERD_STATUS_MASK OR STOP_MASK)
      = state s AND (SERVERD_ONOFF_MASK OR SERVERD_STATUS_MASK OR STOP_MASK)"
    by (rule mask_word_other) simp_all
  ultimately show ?thesis
    using failedArr_empty [OF assms]
    by (simp add: state_weatherChanged)
qed

definition demo_conn :: "nat \<Rightarrow> string \<Rightarrow> u32 \<Rightarrow> cconn" where
  "demo_conn i nm st = (new_cconn i 0)\<lparr>cname := nm, ctype := DEVICE_SERVER,
     serverState := \<lparr>ss_value = st, ss_old = st\<rparr>\<rparr>"

lemma weather_is_conjunction_witness:
  "state (weatherChanged ''METEO'' (Some ''rain'') ((new_centrald [''DOME''] [] [])
     \<lparr>conns := [demo_conn 1 ''DOME'' 0, demo_conn 2 ''METEO'' 0]\<rparr>)) AND WEATHER_MASK = GOOD_WEATHER"
  using weather_is_conjunction [of "(new_centrald [''DOME''] [] [])
     \<lparr>conns := [demo_conn 1 ''DOME'' 0, demo_conn 2 ''METEO'' 0]\<rparr>" "''METEO''" "Some ''rain''"]
  by (simp add: new_centrald_def demo_conn_def new_cconn_def isGoodWeather_def getState_def)

text \<open>
  A client that takes the name of a device hides its weather. METEO reports bad weather; a
  client logs in under the name METEO; when the next device becomes ready the weather is
  collected again and is good, although METEO still reports bad weather.
\<close>

definition two_meteos :: centrald where
  "two_meteos = snd (cent_command 2 ''login'' ''bob METEO'' ((new_centrald [] [] [])
     \<lparr>conns := [demo_conn 1 ''METEO'' BAD_WEATHER, new_cconn 2 0, demo_conn 3 ''CAM'' 0]\<rparr>))"

lemma client_hides_weather:
  "state (deviceReady ''CAM'' two_meteos) AND WEATHER_MASK = GOOD_WEATHER
   \<and> map isGoodWeather (conns two_meteos) = [False, True, True]
   \<and> map cname (conns two_meteos) = [''METEO'', ''METEO'', ''CAM'']"
  by code_simp

text \<open>
  Everything is stopped exactly when some device asks for it. After \<open>stopChanged\<close> the stop
  bit is clear if and only if every connection lets the telescope move and every required
  device is connected.
\<close>

theorem stop_is_disjunction:
  assumes "bad_last canMove (conns s)" "distinct (requiredDevices s)"
  shows "state (stopChanged s) AND STOP_MASK = CAN_MOVE \<longleftrightarrow>
      (\<forall>c\<in>set (conns s). canMove c)
      \<and> (\<forall>r\<in>set (requiredDevices s). \<exists>c\<in>set (conns s). cname c = r \<and> cstate c = CONN_CONNECTED)"
proof -
  let ?n = "if failedArr canMove (conns s) (requiredDevices s) \<noteq> [] then STOP_EVERYTHING else CAN_MOVE"
  have "state (stopChanged s) AND STOP_MASK = ?n AND STOP_MASK"
    unfolding stopChanged_def setStopState_def by (rule cent_state.field_written) simp
  then show ?thesis using failedArr_empty [OF assms] by simp
qed

lemma stop_is_disjunction_witness:
  "state (stopChanged ((new_centrald [] [] [])\<lparr>conns := [demo_conn 1 ''T0'' STOP_EVERYTHING]\<rparr>)) AND STOP_MASK
   \<noteq> CAN_MOVE"
  using stop_is_disjunction [of "(new_centrald [] [] [])\<lparr>conns := [demo_conn 1 ''T0'' STOP_EVERYTHING]\<rparr>"]
  by (simp add: new_centrald_def demo_conn_def new_cconn_def canMove_def getState_def)

subsection \<open>Closing\<close>

text \<open>The test of the loop of \<open>doClose\<close>: the device is connected, has not failed to close, and reports it has to be closed.\<close>

definition needs_close :: "centrald \<Rightarrow> string \<Rightarrow> bool" where
  "needs_close s nm \<longleftrightarrow> nm \<notin> set (failedClose s)
     \<and> (case getOpenConnection nm s of None \<Rightarrow> False | Some d \<Rightarrow> getState d AND DEVICE_BLOCK_CLOSE \<noteq> 0)"

definition ask_close :: "string \<Rightarrow> centrald \<Rightarrow> centrald" where
  "ask_close nm s = (case getOpenConnection nm s of None \<Rightarrow> s | Some d \<Rightarrow>
     let s1 = queCommand_on (cid d) (new_command PlainCommand ''close'') s
     in if nm \<noteq> openCloseLast s1 then addCloseTimer (note_last d nm s1) else s1)"

definition close_done :: "centrald \<Rightarrow> centrald" where
  "close_done s = sendValueAll ''close_failed'' ((updateOpenClose True s)\<lparr>failedClose := []\<rparr>)"

lemma doClose_seq_find:
  "doClose_seq ns s = (case find (needs_close s) ns of None \<Rightarrow> (-1, close_done s) | Some nm \<Rightarrow> (0, ask_close nm s))"
proof (induction ns)
  case (Cons nm ns)
  then show ?case
    by (cases "getOpenConnection nm s") (auto simp: needs_close_def ask_close_def Let_def)
qed (simp add: close_done_def)

lemma que_sel [simp]:
  "openCloseLast (queCommand_on i cmd s) = openCloseLast s" "failedClose (queCommand_on i cmd s) = failedClose s"
  "openSequence (queCommand_on i cmd s) = openSequence s" "openClose (queCommand_on i cmd s) = openClose s"
  "now (queCommand_on i cmd s) = now s" "state (queCommand_on i cmd s) = state s"
  "couts (queCommand_on i cmd s) = couts s @ [CommandFor i (ctext cmd) (state s)]"
  by (simp_all add: queCommand_on_def cent_emit_def upd_conn_def)

text \<open>The \<open>close\<close> commands queued so far, with the connection and the state word.\<close>

definition closes :: "centrald \<Rightarrow> (nat \<times> u32) list" where
  "closes s = [(i, st). CommandFor i txt st \<leftarrow> couts s, txt = ''close'']"

lemma closes_emit [simp]:
  "closes (cent_emit e s) = closes s @ (case e of CommandFor i txt st \<Rightarrow> if txt = ''close'' then [(i, st)] else [] | _ \<Rightarrow> [])"
  by (simp add: closes_def cent_emit_def split: cent_out.split)

lemma closes_upd [simp]:
  "closes (upd_conn i f s) = closes s" "closes (s\<lparr>timers := x1\<rparr>) = closes s"
  "closes (s\<lparr>openClose := x2\<rparr>) = closes s" "closes (s\<lparr>openCloseTimeout := x3, openCloseLast := x4\<rparr>) = closes s"
  "closes (s\<lparr>state := x5\<rparr>) = closes s" "closes (s\<lparr>badWeatherDevices := x6\<rparr>) = closes s"
  "closes (s\<lparr>badWeatherReason := x7, badWeatherDevice := x8\<rparr>) = closes s" "closes (s\<lparr>conns := x9\<rparr>) = closes s"
  by (simp_all add: closes_def upd_conn_def)

lemma closes_ops [simp]:
  "closes (sendValueAll v s) = closes s" "closes (sendStatusMessage st d s) = closes s"
  "closes (note_last c nm s) = closes s" "closes (addCloseTimer s) = closes s"
  "closes (queCommand_on i cmd s) = closes s @ (if ctext cmd = ''close'' then [(i, state s)] else [])"
  by (simp_all add: sendValueAll_def sendStatusMessage_def sendAll_def note_last_def updateOpenClose_def
      addCloseTimer_def queCommand_on_def upd_conn_def cent_emit_def closes_def)

lemma note_last_sel [simp]:
  "openCloseLast (note_last d nm s) = cname d" "failedClose (note_last d nm s) = failedClose s"
  "openSequence (note_last d nm s) = openSequence s" "openClose (note_last d nm s) = openClose s"
  "state (note_last d nm s) = state s" "now (note_last d nm s) = now s"
  "set (couts s) \<subseteq> set (couts (note_last d nm s))"
  by (auto simp: note_last_def updateOpenClose_def sendValueAll_def cent_emit_def)

lemma addCloseTimer_sel [simp]:
  "openCloseLast (addCloseTimer s) = openCloseLast s" "failedClose (addCloseTimer s) = failedClose s"
  "openSequence (addCloseTimer s) = openSequence s" "openClose (addCloseTimer s) = openClose s"
  "state (addCloseTimer s) = state s" "set (couts s) \<subseteq> set (couts (addCloseTimer s))"
  "now (addCloseTimer s) = now s" "set (timers (addCloseTimer s)) = insert (now s + CLOSE_WAIT) (set (timers s))"
  by (auto simp: addCloseTimer_def cent_emit_def set_insort_insert)

lemma getOpenConnection_name: "getOpenConnection nm s = Some d \<Longrightarrow> cname d = nm"
  by (auto simp: getOpenConnection_def find_Some_iff)

lemma ask_close_sel:
  assumes "needs_close s nm"
  shows "openCloseLast (ask_close nm s) = nm" "failedClose (ask_close nm s) = failedClose s"
    "openSequence (ask_close nm s) = openSequence s" "openClose (ask_close nm s) = openClose s"
    "\<exists>d. getOpenConnection nm s = Some d \<and> closes (ask_close nm s) = closes s @ [(cid d, state s)]"
    "now (ask_close nm s) = now s"
    "nm \<noteq> openCloseLast s \<Longrightarrow> now s + CLOSE_WAIT \<in> set (timers (ask_close nm s))"
proof -
  obtain d where d: "getOpenConnection nm s = Some d"
    using assms by (auto simp: needs_close_def split: option.splits)
  show "openCloseLast (ask_close nm s) = nm" "failedClose (ask_close nm s) = failedClose s"
    "openSequence (ask_close nm s) = openSequence s" "openClose (ask_close nm s) = openClose s"
    "now (ask_close nm s) = now s"
    "nm \<noteq> openCloseLast s \<Longrightarrow> now s + CLOSE_WAIT \<in> set (timers (ask_close nm s))"
    using d getOpenConnection_name [OF d] by (simp_all add: ask_close_def Let_def)
  show "\<exists>d. getOpenConnection nm s = Some d \<and> closes (ask_close nm s) = closes s @ [(cid d, state s)]"
    using d by (simp add: ask_close_def Let_def new_command_def)
qed

text \<open>
  The closing sequence. A closing step with a non-empty sequence goes through it in reverse
  order: the first device that reports it has to be closed and has not failed gets a \<open>close\<close>
  command and becomes the device the sequence waits for; when there is none the sequence is
  over and the list of failed devices is cleared. Missing devices are passed over.
\<close>

theorem close_sequence_order:
  assumes "openSequence s \<noteq> []"
  shows "case find (needs_close s) (rev (openSequence s)) of
      None \<Rightarrow> fst (doClose s) = -1 \<and> openClose (snd (doClose s)) = 0 \<and> failedClose (snd (doClose s)) = []
    | Some nm \<Rightarrow> fst (doClose s) = 0 \<and> openCloseLast (snd (doClose s)) = nm
        \<and> (\<exists>d. getOpenConnection nm s = Some d \<and> closes (snd (doClose s)) = closes s @ [(cid d, state s)])"
proof (cases "find (needs_close s) (rev (openSequence s))")
  case None
  then show ?thesis
    using assms by (simp add: doClose_def doClose_seq_find close_done_def sendValueAll_def cent_emit_def
        updateOpenClose_def)
next
  case (Some nm)
  then have "needs_close s nm" by (auto simp: find_Some_iff)
  then show ?thesis using Some assms ask_close_sel [of s nm] by (simp add: doClose_def doClose_seq_find)
qed

lemma close_sequence_order_witness:
  "openCloseLast (snd (doClose ((new_centrald [] [''ROOF'', ''DOME''] [])
     \<lparr>conns := [demo_conn 1 ''ROOF'' DEVICE_BLOCK_CLOSE, demo_conn 2 ''DOME'' DEVICE_BLOCK_CLOSE]\<rparr>))) = ''DOME''"
  using close_sequence_order [of "(new_centrald [] [''ROOF'', ''DOME''] [])
     \<lparr>conns := [demo_conn 1 ''ROOF'' DEVICE_BLOCK_CLOSE, demo_conn 2 ''DOME'' DEVICE_BLOCK_CLOSE]\<rparr>"]
  by (simp add: new_centrald_def needs_close_def getOpenConnection_def demo_conn_def new_cconn_def getState_def)

text \<open>The devices of the sequence a closing can still wait for.\<close>

definition not_failed :: "centrald \<Rightarrow> string set" where
  "not_failed s = set (openSequence s) - set (failedClose s)"

text \<open>A closing that goes on waits for such a device and has a timer that is due within the time a device has.\<close>

definition armed :: "centrald \<Rightarrow> bool" where
  "armed s \<longleftrightarrow> openClose s = 2 \<and> openCloseLast s \<in> not_failed s \<and> (\<exists>t\<in>set (timers s). t \<le> now s + CLOSE_WAIT)"

lemma doClose_armed:
  assumes "openSequence s \<noteq> []" "openClose s = 2" "find (needs_close s) (rev (openSequence s)) \<noteq> Some (openCloseLast s)"
  shows "now (snd (doClose s)) = now s \<and> openSequence (snd (doClose s)) = openSequence s
    \<and> (openClose (snd (doClose s)) = 0
       \<or> armed (snd (doClose s)) \<and> failedClose (snd (doClose s)) = failedClose s
         \<and> now s + CLOSE_WAIT \<in> set (timers (snd (doClose s))))"
proof (cases "find (needs_close s) (rev (openSequence s))")
  case None
  then show ?thesis
    using assms(1) by (simp add: doClose_def doClose_seq_find close_done_def sendValueAll_def cent_emit_def updateOpenClose_def)
next
  case (Some nm)
  then have nc: "needs_close s nm" and mem: "nm \<in> set (openSequence s)"
    by (auto simp: find_Some_iff) (metis length_rev nth_mem set_rev)
  have eq: "snd (doClose s) = ask_close nm s" using Some assms(1) by (simp add: doClose_def doClose_seq_find)
  have "nm \<noteq> openCloseLast s" "nm \<notin> set (failedClose s)" using Some assms(3) nc by (auto simp: needs_close_def)
  then show ?thesis
    using ask_close_sel (1-4,6,7) [OF nc] mem assms(2) unfolding eq armed_def not_failed_def by force
qed

lemma closeTimeout_step:
  assumes "openSequence s \<noteq> []" "openClose s = 2"
  shows "now (closeTimeout s) = now s" "openSequence (closeTimeout s) = openSequence s"
    "openClose (closeTimeout s) = 0
     \<or> armed (closeTimeout s) \<and> not_failed (closeTimeout s) = not_failed s - {openCloseLast s}
       \<and> now s + CLOSE_WAIT \<in> set (timers (closeTimeout s))"
proof -
  let ?s1 = "sendValueAll ''close_failed'' (s\<lparr>failedClose := failedClose s @ [openCloseLast s]\<rparr>)"
  have s1: "openSequence ?s1 = openSequence s" "failedClose ?s1 = failedClose s @ [openCloseLast s]"
    "openClose ?s1 = 2" "openCloseLast ?s1 = openCloseLast s" "now ?s1 = now s"
    using assms(2) by (simp_all add: sendValueAll_def cent_emit_def)
  have ct: "closeTimeout s = snd (doClose ?s1)" using assms(2) by (simp add: closeTimeout_def)
  have "\<not> needs_close ?s1 (openCloseLast s)" using s1(2) by (simp add: needs_close_def)
  then have "find (needs_close ?s1) (rev (openSequence ?s1)) \<noteq> Some (openCloseLast ?s1)"
    unfolding s1(4) by (auto simp: find_Some_iff)
  note d = doClose_armed [of ?s1, unfolded s1, OF assms(1) refl this [unfolded s1]]
  then show "now (closeTimeout s) = now s" "openSequence (closeTimeout s) = openSequence s"
    "openClose (closeTimeout s) = 0
     \<or> armed (closeTimeout s) \<and> not_failed (closeTimeout s) = not_failed s - {openCloseLast s}
       \<and> now s + CLOSE_WAIT \<in> set (timers (closeTimeout s))"
    unfolding ct not_failed_def by auto
qed

lemma closeTimeouts_step:
  "due \<noteq> [] \<Longrightarrow> openSequence s \<noteq> [] \<Longrightarrow> openClose s = 2 \<Longrightarrow> openCloseLast s \<in> not_failed s \<Longrightarrow>
   (let s' = fold (\<lambda>_. closeTimeout) due s in
     openSequence s' = openSequence s \<and> now s' = now s
     \<and> (openClose s' = 0 \<or> armed s' \<and> card (not_failed s') < card (not_failed s) \<and> now s + CLOSE_WAIT \<in> set (timers s')))"
proof (induction due arbitrary: s)
  case (Cons t due)
  let ?s1 = "closeTimeout s"
  note st = closeTimeout_step [OF Cons.prems(2,3)]
  have idle: "fold (\<lambda>_. closeTimeout) due s1 = s1" if "openClose s1 = 0" for s1
    using that by (induction due) (simp_all add: closeTimeout_def)
  have lt: "card (not_failed s - {openCloseLast s}) < card (not_failed s)"
    using Cons.prems(4) by (intro card_Diff1_less) (simp_all add: not_failed_def)
  consider "openClose ?s1 = 0" | "due = []" "openClose ?s1 \<noteq> 0" | "due \<noteq> []" "armed ?s1" using st(3) by blast
  then show ?case
  proof cases
    case 1
    then show ?thesis using st(1,2) idle [of ?s1] by (simp add: Let_def)
  next
    case 2
    then show ?thesis using st lt by (auto simp: Let_def)
  next
    case 3
    then have p: "openSequence ?s1 \<noteq> []" "openClose ?s1 = 2" "openCloseLast ?s1 \<in> not_failed ?s1"
      using st(2) Cons.prems(2) by (simp_all add: armed_def)
    then have "card (not_failed ?s1) < card (not_failed s)" using st(3) lt by simp
    then show ?thesis
      using Cons.IH [OF 3(1) p] st(1,2) unfolding Let_def by (simp only: fold.simps comp_def) (meson less_trans)
  qed
qed simp

text \<open>The clock goes on by \<open>d\<close> microseconds and the timers that are due fire, once, as in a pass of \<open>Block::idle\<close>.\<close>

definition wait_round :: "int \<Rightarrow> centrald \<Rightarrow> centrald" where
  "wait_round d s = fire_timers (s\<lparr>now := now s + d\<rparr>)"

lemma wait_round_step:
  assumes "openSequence s \<noteq> []" "armed s" "CLOSE_WAIT < d"
  shows "openSequence (wait_round d s) = openSequence s
    \<and> (openClose (wait_round d s) = 0 \<or> armed (wait_round d s) \<and> card (not_failed (wait_round d s)) < card (not_failed s))"
proof -
  let ?s = "s\<lparr>now := now s + d\<rparr>"
  define due where "due = filter (\<lambda>t. t < now ?s) (timers ?s)"
  have "due \<noteq> []" using assms(2,3) by (fastforce simp: due_def armed_def filter_empty_conv)
  then have f: "let s' = fold (\<lambda>_. closeTimeout) due ?s in
     openSequence s' = openSequence ?s \<and> now s' = now ?s
     \<and> (openClose s' = 0 \<or> armed s' \<and> card (not_failed s') < card (not_failed ?s) \<and> now ?s + CLOSE_WAIT \<in> set (timers s'))"
    using assms(1,2) by (intro closeTimeouts_step) (simp_all add: armed_def not_failed_def)
  have nf: "not_failed ?s = not_failed s" "not_failed (s'\<lparr>timers := ts\<rparr>) = not_failed s'" for s' ts
    by (simp_all add: not_failed_def)
  have "now ?s + CLOSE_WAIT \<notin> set due" by (simp add: due_def CLOSE_WAIT_def)
  then have "armed (s'\<lparr>timers := filter (\<lambda>t. t \<notin> set due) (timers s')\<rparr>)"
    if "armed s'" "now s' = now ?s" "now ?s + CLOSE_WAIT \<in> set (timers s')" for s'
    using that by (auto simp: armed_def nf(2))
  moreover have "wait_round d s = (let s' = fold (\<lambda>_. closeTimeout) due ?s in s'\<lparr>timers := filter (\<lambda>t. t \<notin> set due) (timers s')\<rparr>)"
    by (simp add: wait_round_def fire_timers_def Let_def due_def)
  ultimately show ?thesis using f by (auto simp: Let_def nf)
qed

lemma wait_round_over: "openClose s = 0 \<Longrightarrow> openClose (wait_round d s) = 0"
proof -
  assume o: "openClose s = 0"
  have "fold (\<lambda>_. closeTimeout) due s1 = s1" if "openClose s1 = 0" for due :: "int list" and s1
    using that by (induction due) (simp_all add: closeTimeout_def)
  then show ?thesis using o by (simp add: wait_round_def fire_timers_def Let_def)
qed

lemma wait_rounds_over: "openClose s = 0 \<Longrightarrow> openClose (fold wait_round ds s) = 0"
  by (induction ds arbitrary: s) (simp_all add: wait_round_over)

lemma armed_closing_ends:
  "openSequence s \<noteq> [] \<Longrightarrow> armed s \<Longrightarrow> \<forall>d\<in>set ds. CLOSE_WAIT < d \<Longrightarrow> card (not_failed s) \<le> length ds \<Longrightarrow>
   openClose (fold wait_round ds s) = 0"
proof (induction ds arbitrary: s)
  case Nil
  then show ?case by (auto simp: armed_def not_failed_def)
next
  case (Cons d ds)
  have "openSequence (wait_round d s) = openSequence s
    \<and> (openClose (wait_round d s) = 0 \<or> armed (wait_round d s) \<and> card (not_failed (wait_round d s)) < card (not_failed s))"
    using Cons.prems by (intro wait_round_step) simp_all
  then show ?case using Cons wait_rounds_over [of "wait_round d s" ds] by auto
qed

text \<open>
  C22: closing ends although no device answers. After \<open>startClose\<close> with a non-empty sequence, when
  the device asked first is not already the one the sequence waits for, let the clock go on, and
  the timers that are due fire, as many times as the sequence has devices, each time by more than the
  three minutes a device has: then the closing is over, even if no device reports anything. Every
  device asked arms a timer of its own, and a device whose timer struck is not asked again.
\<close>

theorem closing_terminates:
  assumes "openSequence s \<noteq> []"
    and "find (needs_close s) (rev (openSequence s)) \<noteq> Some (openCloseLast s)"
    and "\<forall>d\<in>set ds. CLOSE_WAIT < d" "length (openSequence s) \<le> length ds"
  shows "openClose (fold wait_round ds (snd (startClose s))) = 0"
proof -
  let ?s = "s\<lparr>openClose := 2\<rparr>" and ?t = "snd (startClose s)"
  have "needs_close ?s = needs_close s" by (rule ext) (simp add: needs_close_def getOpenConnection_def)
  then have d: "openSequence ?t = openSequence s \<and> (openClose ?t = 0 \<or> armed ?t)"
    using doClose_armed [of ?s] assms(1,2) by (auto simp: startClose_def)
  have "card (not_failed ?t) \<le> card (set (openSequence ?t))" unfolding not_failed_def by (rule card_mono) auto
  then have "card (not_failed ?t) \<le> length ds" using card_length [of "openSequence s"] d assms(4) by simp
  then show ?thesis using d assms(1,3) armed_closing_ends [of ?t ds] wait_rounds_over [of ?t ds] by auto
qed

lemma closing_terminates_witness:
  "openClose (fold wait_round [180000001, 180000001] (snd (startClose ((new_centrald [] [''ROOF'', ''DOME''] [])
     \<lparr>conns := [demo_conn 1 ''ROOF'' DEVICE_BLOCK_CLOSE, demo_conn 2 ''DOME'' DEVICE_BLOCK_CLOSE]\<rparr>)))) = 0"
  using closing_terminates [of "(new_centrald [] [''ROOF'', ''DOME''] [])
     \<lparr>conns := [demo_conn 1 ''ROOF'' DEVICE_BLOCK_CLOSE, demo_conn 2 ''DOME'' DEVICE_BLOCK_CLOSE]\<rparr>" "[180000001, 180000001]"]
  by (simp add: new_centrald_def needs_close_def getOpenConnection_def demo_conn_def new_cconn_def getState_def CLOSE_WAIT_def)

text \<open>
  A closing without a timer. The roof is being opened, so it is the device the sequence waits
  for, when the weather turns bad: it is asked to close, but as the name has not changed no
  timer is armed, and however long it does not answer the closing is not over.
\<close>

definition opening_roof :: centrald where
  "opening_roof = (new_centrald [] [''ROOF''] [])\<lparr>conns := [demo_conn 1 ''ROOF'' DEVICE_BLOCK_CLOSE],
     openClose := 1, openCloseLast := ''ROOF'', openCloseTimeout := Some CLOSE_WAIT\<rparr>"

lemma closing_without_timer:
  "closes (snd (startClose opening_roof)) = [(1, SERVERD_HARD_OFF OR BAD_WEATHER)]
   \<and> timers (snd (startClose opening_roof)) = []
   \<and> openClose (fold wait_round [600000000, 600000000] (snd (startClose opening_roof))) = 2"
  by code_simp

end
