(* ===== verification/CentraldMore.thy ===== *)
theory CentraldMore
  imports CentraldProps
begin

section \<open>Weather, clients and block operations\<close>

text \<open>
  What the system does when the weather turns bad, what a client may do before it has given
  its password, how a device checks a client's key, and the block-operation word each device is
  sent. The last part is a run of the closing sequence in which a timer of one device
  strikes another.
\<close>

subsection \<open>Bad weather\<close>

text \<open>What the opening and closing sequence reads of a connection.\<close>

definition face :: "cconn \<Rightarrow> nat \<times> string \<times> u32" where
  "face c = (cid c, cname c, getState c)"

lemma sendMsg_face [simp]: "face (snd (sendMsg m c)) = face c"
  by (simp add: face_def getState_def sendMsg_def dropConnection_def connectionError_def emit_def Let_def)

lemma find_face: "map_option face (find (\<lambda>c. cname c = nm) cs) = find (\<lambda>(i, n, st). n = nm) (map face cs)"
  by (induction cs) (simp_all add: face_def)

definition same_view :: "centrald \<Rightarrow> centrald \<Rightarrow> bool" where
  "same_view s' s \<longleftrightarrow> map face (conns s') = map face (conns s) \<and> failedClose s' = failedClose s
     \<and> openSequence s' = openSequence s"

lemma same_view_trans: "same_view s2 s1 \<Longrightarrow> same_view s1 s \<Longrightarrow> same_view s2 s"
  by (simp add: same_view_def)

lemma needs_close_face:
  "needs_close s nm \<longleftrightarrow> nm \<notin> set (failedClose s)
     \<and> (case map_option face (getOpenConnection nm s) of None \<Rightarrow> False
        | Some (i, n, st) \<Rightarrow> st AND DEVICE_BLOCK_CLOSE \<noteq> 0)"
  by (auto simp: needs_close_def face_def split: option.split)

lemma needs_close_view: "same_view s' s \<Longrightarrow> needs_close s' = needs_close s"
  by (rule ext) (simp add: needs_close_face getOpenConnection_def find_face same_view_def)

lemma same_view_sends [simp]:
  "same_view (sendStatusMessage st d s) s" "same_view (sendValueAll v s) s" "same_view (s\<lparr>state := w\<rparr>) s"
  "same_view (s\<lparr>openClose := x1\<rparr>) s" "same_view (s\<lparr>badWeatherDevices := x2\<rparr>) s"
  "same_view (s\<lparr>badWeatherReason := x3, badWeatherDevice := x4\<rparr>) s" "same_view s s"
  by (simp_all add: same_view_def sendStatusMessage_def sendAll_def sendValueAll_def cent_emit_def comp_def)

lemma same_view_reason: "same_view (fold (note_reason d m) cs s) s"
proof (induction cs arbitrary: s)
  case (Cons c cs)
  have "same_view (note_reason d m c s) s" by (simp add: note_reason_def)
  then show ?case using same_view_trans [OF Cons.IH [of "note_reason d m c s"]] by simp
qed simp

lemma startClose_asks:
  assumes "find (needs_close s) (rev (openSequence s)) = Some nm"
  shows "openClose (snd (startClose s)) = 2 \<and> openCloseLast (snd (startClose s)) = nm
    \<and> (\<exists>d. getOpenConnection nm s = Some d \<and> closes (snd (startClose s)) = closes s @ [(cid d, state s)])"
proof -
  let ?s = "s\<lparr>openClose := 2\<rparr>"
  have f: "find (needs_close ?s) (rev (openSequence ?s)) = Some nm"
    using assms needs_close_view [of ?s s] by simp
  then have "needs_close ?s nm" by (auto simp: find_Some_iff)
  moreover have "openSequence s \<noteq> []" using assms by auto
  ultimately show ?thesis
    using f ask_close_sel [of ?s nm] by (auto simp: startClose_def doClose_def doClose_seq_find getOpenConnection_def)
qed

lemma same_view_device:
  assumes "same_view s' s" "getOpenConnection nm s' = Some d'"
  shows "\<exists>d. getOpenConnection nm s = Some d \<and> cid d = cid d'"
proof -
  have "map_option face (getOpenConnection nm s) = Some (face d')"
    using assms find_face [of nm "conns s"] find_face [of nm "conns s'"]
    by (simp add: getOpenConnection_def same_view_def)
  then show ?thesis by (auto simp: face_def)
qed

lemma stateChanged_closes:
  assumes "\<not> may_open new" "find (needs_close s) (rev (openSequence s)) = Some nm"
  shows "openClose (stateChanged new old d s) = 2 \<and> openCloseLast (stateChanged new old d s) = nm
    \<and> (\<exists>e. getOpenConnection nm s = Some e \<and> closes (stateChanged new old d s) = closes s @ [(cid e, new)])"
proof -
  define s2 where "s2 = (let s1 = s\<lparr>state := new\<rparr> in
    if state s1 AND NOT BOP_MASK \<noteq> old AND NOT BOP_MASK then sendStatusMessage (state s1) (Some d) s1 else s1)"
  have v: "same_view s2 s"
    unfolding s2_def Let_def using same_view_trans [OF same_view_sends(1) same_view_sends(3)] by simp
  then have "find (needs_close s2) (rev (openSequence s2)) = Some nm"
    using v assms(2) needs_close_view [of s2 s] by (simp add: same_view_def)
  moreover have "state s2 = new" by (simp add: s2_def Let_def sendStatusMessage_def sendAll_def)
  moreover have "closes s2 = closes s" by (simp add: s2_def Let_def)
  moreover have "stateChanged new old d s = snd (startClose s2)"
    using assms(1) unfolding stateChanged_def Let_def s2_def may_open_def by simp
  ultimately show ?thesis using startClose_asks [of s2 nm] same_view_device [OF v, of nm] by auto
qed

lemma bad_word: "mask_word WEATHER_MASK BAD_WEATHER w AND WEATHER_MASK = BAD_WEATHER"
  by (simp add: mask_word_field)

text \<open>
  C3: bad weather closes. When the weather was good and some connection reports bad weather,
  or a required device is missing, \<open>weatherChanged\<close> sets the bad weather bit, starts the closing
  sequence, and queues exactly one \<open>close\<close> command, with the bad weather bit already set, on the
  connection of the first device of the reversed sequence that is connected, has not failed to
  close, and reports it has to be closed.
\<close>

theorem bad_weather_closes:
  assumes "state s AND WEATHER_MASK = GOOD_WEATHER"
    and "failedArr isGoodWeather (conns s) (requiredDevices s) \<noteq> []"
    and "find (needs_close s) (rev (openSequence s)) = Some nm"
  shows "let s' = weatherChanged dev msg s in
    state s' AND WEATHER_MASK = BAD_WEATHER \<and> openClose s' = 2 \<and> openCloseLast s' = nm
    \<and> (\<exists>d. getOpenConnection nm s = Some d \<and> closes s' = closes s @ [(cid d, state s')])"
proof -
  let ?w = "mask_word WEATHER_MASK BAD_WEATHER (state s)"
  define s1 where "s1 = sendValueAll ''bad_weather_devices''
    ((fold (note_reason dev msg) (conns s) s)\<lparr>badWeatherDevices := failedArr isGoodWeather (conns s) (requiredDevices s)\<rparr>)"
  have v: "same_view s1 s"
    unfolding s1_def
    using same_view_trans [OF same_view_trans [OF same_view_sends(2) same_view_sends(5)] same_view_reason] .
  have st: "state s1 = state s"
    using core_fold_reason [of dev msg "conns s" s] by (simp add: s1_def core_def sendValueAll_def cent_emit_def)
  have ne: "?w \<noteq> state s" using bad_word [of "state s"] assms(1) by auto
  have "\<not> may_open ?w" using bad_word [of "state s"] by (simp add: may_open_def)
  moreover have "find (needs_close s1) (rev (openSequence s1)) = Some nm"
    using assms(3) needs_close_view [OF v] v by (simp add: same_view_def)
  ultimately have cl: "openClose (stateChanged ?w (state s) d s1) = 2 \<and> openCloseLast (stateChanged ?w (state s) d s1) = nm
    \<and> (\<exists>e. getOpenConnection nm s1 = Some e \<and> closes (stateChanged ?w (state s) d s1) = closes s1 @ [(cid e, ?w)])" for d
    by (rule stateChanged_closes)
  have "closes (fold (note_reason dev msg) cs s0) = closes s0" for cs s0
    by (induction cs arbitrary: s0) (simp_all add: note_reason_def)
  then have c1: "closes s1 = closes s" by (simp add: s1_def)
  have eq: "weatherChanged dev msg s = sendValueAll ''bad_weather_device'' (sendValueAll ''bad_weather_reason''
      (stateChanged ?w (state s) ''weather state update from weatherChanged'' s1))"
    using assms(2) ne st
    by (simp add: weatherChanged_def Let_def setWeatherState_def maskState_def cent_setState_def flip: s1_def)
  have keep: "state (sendValueAll v t) = state t" "openClose (sendValueAll v t) = openClose t"
    "openCloseLast (sendValueAll v t) = openCloseLast t" for v t
    by (simp_all add: sendValueAll_def cent_emit_def)
  show ?thesis
    using cl [of "''weather state update from weatherChanged''"] same_view_device [OF v, of nm] bad_word [of "state s"] c1
    unfolding eq Let_def by (auto simp: keep stateChanged_state)
qed

lemma bad_weather_closes_witness:
  "map fst (closes (weatherChanged ''METEO'' None ((new_centrald [] [''DOME''] [])
     \<lparr>state := SERVERD_NIGHT, conns := [demo_conn 1 ''DOME'' DEVICE_BLOCK_CLOSE, demo_conn 2 ''METEO'' BAD_WEATHER]\<rparr>)))
   = [1]"
proof -
  let ?s = "(new_centrald [] [''DOME''] [])\<lparr>state := SERVERD_NIGHT,
      conns := [demo_conn 1 ''DOME'' DEVICE_BLOCK_CLOSE, demo_conn 2 ''METEO'' BAD_WEATHER]\<rparr>"
  have "closes ?s = []" by (simp add: closes_def new_centrald_def)
  moreover have "find (needs_close ?s) (rev (openSequence ?s)) = Some ''DOME''"
    "getOpenConnection ''DOME'' ?s = Some (demo_conn 1 ''DOME'' DEVICE_BLOCK_CLOSE)"
    "failedArr isGoodWeather (conns ?s) (requiredDevices ?s) \<noteq> []" "state ?s AND WEATHER_MASK = GOOD_WEATHER"
    by code_simp+
  ultimately show ?thesis
    using bad_weather_closes [of ?s "''DOME''" "''METEO''" None] by (auto simp: Let_def demo_conn_def new_cconn_def)
qed

subsection \<open>Block-operation words\<close>

lemma bop_fold_bit:
  "bit (fold (\<lambda>t sta. if P t then sta OR f t else sta) cs (w::u32)) n
    \<longleftrightarrow> bit w n \<or> (\<exists>t\<in>set cs. P t \<and> bit (f t) n)"
  by (induction cs arbitrary: w) (auto simp: bit_or_iff)

text \<open>
  The block-operation word a device is sent. Bit by bit, \<open>getStateForConnection\<close> of a
  device is the system state without its block-operation and error bits, joined with the
  block-operation bits reported by exactly those connections the configuration lets block it.
\<close>

theorem blocked_state_collects:
  assumes "ctype c = DEVICE_SERVER"
  shows "bit (getStateForConnection c s) n \<longleftrightarrow>
     bit (state s AND NOT (BOP_MASK OR DEVICE_ERROR_MASK)) n
     \<or> (\<exists>t\<in>set (conns s). blockDevice (cname c) (cname t) (config s) \<and> bit (getBopState t) n)"
proof -
  have "NOT (BOP_MASK OR DEVICE_ERROR_MASK) = (NOT BOP_MASK AND NOT DEVICE_ERROR_MASK :: u32)"
    by (simp only: or_eq_not_not_and bit.double_compl)
  then show ?thesis using assms by (simp only: getStateForConnection_def bop_fold_bit simp_thms if_False not_not)
qed

lemma blocked_state_collects_witness:
  "bit (getStateForConnection (demo_conn 1 ''DOME'' 0) ((new_centrald [] [] [])
      \<lparr>conns := [demo_conn 2 ''T0'' BOP_EXPOSURE]\<rparr>)) 24
   \<longleftrightarrow> blockDevice ''DOME'' ''T0'' []"
proof -
  have b: "bit (BOP_EXPOSURE :: u32) 24" "\<not> bit ((SERVERD_HARD_OFF OR BAD_WEATHER) AND NOT (BOP_MASK OR DEVICE_ERROR_MASK) :: u32) 24"
    "bit (BOP_EXPOSURE AND BOP_MASK :: u32) 24"
    by code_simp+
  show ?thesis
    by (subst blocked_state_collects) (use b in \<open>simp_all add: new_centrald_def demo_conn_def new_cconn_def getBopState_def getState_def\<close>)
qed

lemma core_fold_bop: "core (fold bop_to is s) = core s"
  by (rule fold_core) (simp add: bop_to_def split: option.split)

text \<open>
  The system's own block-operation bits are always cleared. \<open>bopMaskChanged\<close> writes the mask
  before it has collected anything, so whatever the devices block, afterwards the system
  state has none of the block-operation bits, and the rest of it but the error bits is as it was.
\<close>

theorem own_bop_bits_cleared:
  "state (bopMaskChanged s) AND BOP_MASK = 0
   \<and> state (bopMaskChanged s) AND NOT (BOP_MASK OR DEVICE_ERROR_MASK) = state s AND NOT (BOP_MASK OR DEVICE_ERROR_MASK)"
proof -
  define s1 where "s1 = maskState BOP_MASK 0 ''changed BOP state'' s"
  have "core (bopMaskChanged s) = core s1"
    by (simp add: bopMaskChanged_def Let_def core_fold_bop flip: s1_def)
  then have "state (bopMaskChanged s) = mask_word BOP_MASK 0 (state s)"
    by (simp add: core_def s1_def maskState_state)
  then show ?thesis
    by (simp add: mask_word_field mask_word_other)
qed

subsection \<open>Switching\<close>

lemma maskCentralState_state: "state (maskCentralState m n d s) = mask_word m n (state s)"
  by (simp add: maskCentralState_def note_standby_def maskState_state Let_def sendValueAll_def cent_emit_def)

lemma status_keeps_onoff:
  "mask_word SERVERD_STATUS_MASK n w AND SERVERD_ONOFF_MASK = w AND SERVERD_ONOFF_MASK"
  if "n AND SERVERD_ONOFF_MASK = 0"
  using that by (simp add: mask_word_other)

definition morning_switch :: "u32 \<Rightarrow> centrald \<Rightarrow> u32" where
  "morning_switch call s =
     (if state s AND SERVERD_STATUS_MASK = SERVERD_MORNING \<and> call AND SERVERD_STATUS_MASK = SERVERD_DAY
      then if morning_off s then SERVERD_HARD_OFF
           else if morning_standby s \<and> state s AND SERVERD_ONOFF_MASK \<noteq> SERVERD_HARD_OFF
                   \<and> state s AND SERVERD_ONOFF_MASK \<noteq> SERVERD_SOFT_OFF then SERVERD_STANDBY
           else state s AND SERVERD_ONOFF_MASK
      else state s AND SERVERD_ONOFF_MASK)"

lemma idle_state_onoff:
  assumes "call AND SERVERD_ONOFF_MASK = 0"
  shows "state (idle_state call s) AND SERVERD_ONOFF_MASK = morning_switch call s"
proof -
  have f: "mask_word SERVERD_ONOFF_MASK n w AND SERVERD_ONOFF_MASK = n AND SERVERD_ONOFF_MASK" for n w
    by (rule mask_word_field) simp
  show ?thesis
    unfolding idle_state_def Let_def maskCentralState_state status_keeps_onoff [OF assms]
    by (simp add: maskCentralState_state f morning_switch_def)
qed

text \<open>
  Day and night never switch the observatory on. Whatever the clock and \<open>next_event\<close> say,
  \<open>idle\<close> leaves a system that is not switched on in a state that is not switched on; the change
  from morning to day switches a system with \<open>morning_off\<close> off.
\<close>

theorem idle_never_switches_on:
  assumes "call AND SERVERD_ONOFF_MASK = 0"
  shows "(state (cent_idle call nxt t s) AND SERVERD_ONOFF_MASK = SERVERD_ON
          \<longrightarrow> state s AND SERVERD_ONOFF_MASK = SERVERD_ON)
   \<and> (state s AND SERVERD_STATUS_MASK = SERVERD_MORNING \<and> call = SERVERD_DAY \<and> morning_off s
       \<and> next_event_time s \<le> now s div 1000000
      \<longrightarrow> state (cent_idle call nxt t s) AND SERVERD_ONOFF_MASK = SERVERD_HARD_OFF)"
proof -
  let ?s1 = "s\<lparr>next_event_type := nxt, next_event_time := t\<rparr>"
  let ?s2 = "?s1\<lparr>nextStateChange := t, nextState := nxt\<rparr>"
  define s3 where "s3 = (if nxt = SERVERD_DUSK
      then sendValueAll ''switched_standby'' (?s2\<lparr>switchedStandby := []\<rparr>) else ?s2)"
  have s3: "state s3 = state s" "morning_off s3 = morning_off s" "morning_standby s3 = morning_standby s"
    by (simp_all add: s3_def sendValueAll_def cent_emit_def)
  have idle: "cent_idle call nxt t s = (if now s div 1000000 < next_event_time s then s
      else if state s \<noteq> call then idle_state call s3 else ?s1)"
    by (simp add: cent_idle_def Let_def s3_def)
  have m: "morning_switch call s3 = morning_switch call s" using s3 by (simp add: morning_switch_def)
  have on: "morning_switch call s = SERVERD_ON \<Longrightarrow> state s AND SERVERD_ONOFF_MASK = SERVERD_ON"
    by (simp add: morning_switch_def split: if_splits)
  have off: "morning_switch call s = SERVERD_HARD_OFF \<and> state s \<noteq> call"
    if "state s AND SERVERD_STATUS_MASK = SERVERD_MORNING" "call = SERVERD_DAY" "morning_off s"
    using that by (auto simp: morning_switch_def)
  consider (early) "now s div 1000000 < next_event_time s" | (same) "state s = call" "\<not> now s div 1000000 < next_event_time s"
    | (new) "state s \<noteq> call" "\<not> now s div 1000000 < next_event_time s" by blast
  then show ?thesis
  proof cases
    case early
    then show ?thesis unfolding idle by simp
  next
    case same
    have "cent_idle call nxt t s = ?s1" using same by (simp only: idle if_False simp_thms)
    then have "state (cent_idle call nxt t s) = state s" by simp
    then show ?thesis using off same(1) by metis
  next
    case new
    have "cent_idle call nxt t s = idle_state call s3" using new by (simp only: idle if_False if_True simp_thms)
    then have "state (cent_idle call nxt t s) AND SERVERD_ONOFF_MASK = morning_switch call s"
      using idle_state_onoff [OF assms, of s3] m by simp
    then show ?thesis using on off by metis
  qed
qed

lemma idle_never_switches_on_witness:
  "state (cent_idle SERVERD_DAY SERVERD_EVENING 100 ((new_centrald [] [] [])\<lparr>state := SERVERD_MORNING, now := 1\<rparr>))
     AND SERVERD_ONOFF_MASK = SERVERD_HARD_OFF"
  using idle_never_switches_on [of SERVERD_DAY SERVERD_EVENING 100 "(new_centrald [] [] [])\<lparr>state := SERVERD_MORNING, now := 1\<rparr>"]
  by (simp add: new_centrald_def)

subsection \<open>Clients without a password\<close>

lemma statusInfo_core: "core (snd (statusInfo i s)) = core s"
proof -
  have "core (fold (\<lambda>t. queCommand_on (cid t) ((commandStatusInfo (Some i))\<lparr>corig := Some i\<rparr>)) ts s) = core s" for ts
    by (rule fold_core) (rule que_status_core)
  then show ?thesis by (auto simp: statusInfo_def Let_def split: option.splits)
qed

lemma cent_default_core: "core (snd (cent_default i cmd args s)) = core s"
  by (simp add: cent_default_def Let_def statusInfo_core split: option.split prod.split)

lemma sendStatusInfo_core [simp]: "core (sendStatusInfo i s) = core s"
  by (simp add: sendStatusInfo_def)

lemma cent_end_core [simp]: "core (cent_end i n m s) = core s"
  by (simp add: cent_end_def)

text \<open>
  A client that has not given its password commands nothing. Whatever it sends as a
  command, neither the state word nor the opening or closing in progress changes, and no \<open>open\<close>
  command is queued for a device.
\<close>

theorem unauthorized_commands_nothing:
  assumes "getConn i s = Some c" "ctype c = CLIENT_SERVER" "\<not> authorized c"
  shows "let s' = snd (cent_command i cmd args s) in
    state s' = state s \<and> openClose s' = openClose s
    \<and> (\<forall>j st. CommandFor j ''open'' st \<in> set (couts s') \<longleftrightarrow> CommandFor j ''open'' st \<in> set (couts s))"
proof -
  have "core (snd (cent_command i cmd args s)) = core s"
    using assms
    by (auto simp: cent_command_def cmd_login_def cmd_register_def cmd_message_mask_def commandClient_def
        cmd_password_def cent_default_core split: option.split)
  then show ?thesis by (auto simp: core_def opens_def Let_def)
qed

lemma unauthorized_commands_nothing_witness:
  "state (snd (cent_command 1 ''off'' [] ((new_centrald [] [] [])
      \<lparr>conns := [(demo_conn 1 ''bob'' 0)\<lparr>ctype := CLIENT_SERVER\<rparr>]\<rparr>))) = SERVERD_HARD_OFF OR BAD_WEATHER"
  using unauthorized_commands_nothing [of 1 "(new_centrald [] [] [])
      \<lparr>conns := [(demo_conn 1 ''bob'' 0)\<lparr>ctype := CLIENT_SERVER\<rparr>]\<rparr>" "(demo_conn 1 ''bob'' 0)\<lparr>ctype := CLIENT_SERVER\<rparr>" "''off''" "[]"]
  by (simp add: new_centrald_def getConn_def demo_conn_def new_cconn_def Let_def)

subsection \<open>Keys\<close>

lemma find_upd_unique:
  assumes "find P cs = Some c" "\<And>d. d \<in> set cs \<Longrightarrow> P d \<Longrightarrow> d = c"
    "find Q cs = Some c" "\<And>d. Q (if P d then f d else d) \<longleftrightarrow> Q d"
  shows "find Q (map (\<lambda>d. if P d then f d else d) cs) = Some (f c)"
  using assms
proof (induction cs)
  case (Cons d cs)
  show ?case
  proof (cases "Q d")
    case True
    then have "d = c" "P c" using Cons.prems(1,3) by (auto simp: find_Some_iff split: if_splits)
    then show ?thesis using Cons.prems(4) [of d] True by simp
  next
    case False
    then have "find Q cs = Some c" using Cons.prems(3) by simp
    then have "Q c" by (auto simp: find_Some_iff)
    then have "\<not> P d" using False Cons.prems(2) by auto
    then show ?thesis using Cons False by (auto split: if_splits)
  qed
qed simp

lemma find_distinct:
  "distinct (map f cs) \<Longrightarrow> c \<in> set cs \<Longrightarrow> find (\<lambda>d. f d = f c) cs = Some c"
proof (induction cs)
  case (Cons a cs)
  show ?case
  proof (cases "f a = f c")
    case True
    then have "a = c" using Cons.prems by (auto simp: image_iff)
    then show ?thesis by simp
  next
    case False
    then show ?thesis using Cons by auto
  qed
qed simp

lemma getConnection_upd:
  assumes "getConn i s = Some c" "distinct (map cid (conns s))" "distinct (map centrald_id (conns s))"
    "\<And>d. centrald_id (f d) = centrald_id d"
  shows "getConnection (centrald_id c) (upd_conn i f s) = Some (f c)"
proof -
  have c: "c \<in> set (conns s)" "cid c = i" using assms(1) by (auto simp: getConn_def find_Some_iff)
  have "find (\<lambda>d. centrald_id d = centrald_id c) (conns s) = Some c" by (rule find_distinct [OF assms(3) c(1)])
  moreover have "d = c" if "d \<in> set (conns s)" "cid d = i" for d
    using that c assms(2) by (metis distinct_map inj_onD)
  ultimately show ?thesis
    using assms(1,4) unfolding getConnection_def upd_conn_def getConn_def by (simp add: find_upd_unique)
qed

lemma upd_conn_twice: "(\<And>d. cid (g d) = cid d) \<Longrightarrow> upd_conn i f (upd_conn i g s) = upd_conn i (\<lambda>d. f (g d)) s"
  by (simp add: upd_conn_def comp_def if_distrib cong: if_cong)

lemma setKey_sel [simp]:
  "cid (setKey k c) = cid c" "centrald_id (setKey k c) = centrald_id c" "cname (setKey k c) = cname c"
  "ckey (setKey k c) = (if ckey c = 0 then k else ckey c)"
  by (simp_all add: setKey_def)

lemma sendMsg_ids [simp]:
  "centrald_id (snd (sendMsg m c)) = centrald_id c" "ckey (snd (sendMsg m c)) = ckey c"
  by (simp_all add: sendMsg_def dropConnection_def connectionError_def emit_def Let_def)

lemma authorize_params_show:
  "int32_range a \<Longrightarrow> int32_range b \<Longrightarrow> fst (authorize_params (show_int a @ CHR '' '' # show_int b)) = Some (a, b)"
  by (simp add: authorize_params_def wire_int_params skips_pbind)

lemma sendDeviceKey_key:
  assumes "getConn i s = Some c" "distinct (map cid (conns s))" "distinct (map centrald_id (conns s))"
    "int32_range (ckey c)" "fst (string_param args) = Some dev" "findName dev s \<noteq> None"
  shows "\<exists>k c1. k \<noteq> 0 \<and> int32_range k \<and> ckey c1 = k \<and> fst (sendDeviceKey i args s) = 0
    \<and> getConnection (centrald_id c) (snd (sendDeviceKey i args s)) = Some c1"
proof -
  obtain r s1 where r: "next_random s = (r, s1)" by fastforce
  have s1: "conns s1 = conns s" "int32_range r"
    using r to_int32_range by (auto simp: next_random_def int32_range_def split: list.splits)
  define d where "d = (if r = 0 then 1 else r)"
  define k where "k = (if ckey c = 0 then d else ckey c)"
  have k: "k \<noteq> 0" "int32_range k" using s1(2) assms(4) by (auto simp: k_def d_def int32_range_def)
  obtain e where e: "findName dev s1 = Some e" using assms(6) s1(1) by (auto simp: findName_def)
  have g1: "getConn i s1 = Some c" using assms(1) s1(1) by (simp add: getConn_def)
  obtain t where "snd (sendDeviceKey i args s) = sendTo i t (upd_conn i (setKey d) s1) \<and> fst (sendDeviceKey i args s) = 0"
    using r e assms(5) by (simp add: sendDeviceKey_def Let_def d_def)
  moreover have "sendTo i t (upd_conn i (setKey d) s1) = upd_conn i (\<lambda>x. snd (sendMsg t (setKey d x))) s1"
    by (simp add: sendTo_def upd_conn_twice)
  moreover have "getConnection (centrald_id c) (upd_conn i (\<lambda>x. snd (sendMsg t (setKey d x))) s1)
      = Some (snd (sendMsg t (setKey d c)))"
    using assms(2,3) s1(1) by (intro getConnection_upd [OF g1]) simp_all
  moreover have "ckey (snd (sendMsg t (setKey d c))) = k" by (simp add: k_def)
  ultimately show ?thesis using k by metis
qed

text \<open>
  C21: a key opens exactly one door. After a client has asked for a key of an existing device
  there is exactly one non-zero key such that the device's \<open>authorize\<close> with the client's number
  and a key is accepted: the one the client was given. Every other key is refused.
\<close>

theorem authorization_by_key:
  assumes "getConn i s = Some c" "distinct (map cid (conns s))" "distinct (map centrald_id (conns s))"
    "int32_range (ckey c)" "int32_range (centrald_id c)" "0 \<le> centrald_id c"
    "fst (string_param args) = Some dev" "findName dev s \<noteq> None"
  shows "let (ret, s') = sendDeviceKey i args s in ret = 0 \<and>
    (\<exists>k. k \<noteq> 0 \<and> (\<forall>j k'. int32_range k' \<longrightarrow>
       (fst (cmd_authorize j (show_int (centrald_id c) @ CHR '' '' # show_int k') s') = 0 \<longleftrightarrow> k' = k)))"
proof -
  obtain k c1 where k: "k \<noteq> 0" "ckey c1 = k" "fst (sendDeviceKey i args s) = 0"
    "getConnection (centrald_id c) (snd (sendDeviceKey i args s)) = Some c1"
    using sendDeviceKey_key [OF assms(1-4,7,8)] by blast
  have "fst (cmd_authorize j (show_int (centrald_id c) @ CHR '' '' # show_int k') (snd (sendDeviceKey i args s))) = 0
      \<longleftrightarrow> k' = k" if "int32_range k'" for j k'
    using that k assms(5,6) authorize_params_show [OF assms(5) that] by (auto simp: cmd_authorize_def)
  then show ?thesis using k(1,3) by (auto simp: case_prod_beta)
qed

lemma authorization_by_key_witness:
  "fst (sendDeviceKey 1 ''CAM'' ((new_centrald [] [] [])\<lparr>conns := [demo_conn 1 ''bob'' 0, demo_conn 2 ''CAM'' 0]\<rparr>)) = 0"
proof -
  let ?s = "(new_centrald [] [] [])\<lparr>conns := [demo_conn 1 ''bob'' 0, demo_conn 2 ''CAM'' 0]\<rparr>"
  have p: "fst (string_param ''CAM'') = Some ''CAM''" by code_simp
  show ?thesis
    using authorization_by_key [of 1 ?s "demo_conn 1 ''bob'' 0", OF _ _ _ _ _ _ p]
    by (simp add: new_centrald_def getConn_def findName_def demo_conn_def new_cconn_def int32_range_def case_prod_beta)
qed

subsection \<open>A timer left behind\<close>

text \<open>
  Two devices to close. The second of the sequence is asked first and reports after 170 s that
  it has closed; then the first is asked. The timer of the second is still in the list.
\<close>

definition closing_start :: centrald where
  "closing_start = snd (startClose ((new_centrald [] [''ROOF'', ''DOME''] [])
     \<lparr>conns := [demo_conn 1 ''ROOF'' DEVICE_BLOCK_CLOSE, demo_conn 2 ''DOME'' DEVICE_BLOCK_CLOSE]\<rparr>))"

definition closing_roof :: centrald where
  "closing_roof = conn_setState 2 0 None (closing_start\<lparr>now := 170000000\<rparr>)"

definition closing_late :: centrald where
  "closing_late = fire_timers (closing_roof\<lparr>now := 181000000\<rparr>)"

text \<open>
  The timer of one device strikes the next. The roof is asked to close at 170 s and is given
  until 350 s; at 181 s the timer of the dome, which closed in time, counts the roof as failed and the
  closing sequence ends, with the roof still reporting that it is to be closed.
\<close>

theorem stale_close_timer:
  "openCloseLast closing_roof = ''ROOF'' \<and> openCloseTimeout closing_roof = Some 350000000
   \<and> openClose closing_late = 0 \<and> needs_close closing_late ''ROOF'' \<and> now closing_late = 181000000"
  by code_simp

end
