(* ===== verification/Dome.thy ===== *)
theory Dome
  imports ConnProtocol
begin

section \<open>Domes\<close>

text \<open>
  \<open>Dome\<close> (\<open>base/dome/src/dome.cpp\<close>, \<open>dome.h\<close>): the skeleton every roof driver is derived from,
  with the parts of \<open>Device\<close>, \<open>Daemon\<close> and \<open>Block\<close> it runs on. The virtual functions of the class
  are the fields of a record \<open>driver\<close>; they get and return the whole state, and the driver's own
  fields are its component \<open>hw\<close>. The overridden \<open>observing\<close>, \<open>standby\<close> and \<open>off\<close> of a driver
  call the ones of \<open>Dome\<close> after or before work of their own; that work is \<open>preObserving\<close>,
  \<open>postStandby\<close> and \<open>postOff\<close>. Times are microseconds (\<open>dnow\<close> is what \<open>getNow\<close> returns).
  \<open>dtimers\<close> are the due times of the \<open>EVENT_DOMECLOSE_RETRY\<close> timers. The state word sent to the
  clients, the calls of the driver's \<open>startOpen\<close> (with the verdict of \<open>isGoodWeather\<close> at that
  moment) and \<open>startClose\<close>, and reports with \<open>MESSAGE_CRITICAL\<close> are recorded in \<open>douts\<close>;
  other log output is left out, and so are the queued value changes of \<open>Device\<close>.
\<close>

subsection \<open>State\<close>

abbreviation DOME_DOME_MASK :: u32 where "DOME_DOME_MASK \<equiv> 0x01f"
abbreviation DOME_UNKNOW :: u32 where "DOME_UNKNOW \<equiv> 0x000"
abbreviation DOME_CLOSED :: u32 where "DOME_CLOSED \<equiv> 0x001"
abbreviation DOME_OPENING :: u32 where "DOME_OPENING \<equiv> 0x002"
abbreviation DOME_OPENED :: u32 where "DOME_OPENED \<equiv> 0x004"
abbreviation DOME_CLOSING :: u32 where "DOME_CLOSING \<equiv> 0x008"
abbreviation DOME_WAIT_CLOSING :: u32 where "DOME_WAIT_CLOSING \<equiv> 0x010"
abbreviation DOME_STOPPED_MASK :: u32 where "DOME_STOPPED_MASK \<equiv> 0x020"
abbreviation DOME_STOPPED :: u32 where "DOME_STOPPED \<equiv> 0x020"
abbreviation DOME_CUP_MASK_MOVE :: u32 where "DOME_CUP_MASK_MOVE \<equiv> 0x040"
abbreviation DOME_CUP_NOT_MOVE :: u32 where "DOME_CUP_NOT_MOVE \<equiv> 0x000"
abbreviation SERVERD_UNKNOW :: u32 where "SERVERD_UNKNOW \<equiv> 13"

text \<open>Seconds, in microseconds, and the other numbers of \<open>dome.h\<close>.\<close>

abbreviation USEC_SEC :: int where "USEC_SEC \<equiv> 1000000"
abbreviation DEF_CENTRALD_CONTACT_TIMEOUT :: int where "DEF_CENTRALD_CONTACT_TIMEOUT \<equiv> 10"
abbreviation DOME_CLOSE_MAX_RETRIES :: int where "DOME_CLOSE_MAX_RETRIES \<equiv> 3"
abbreviation DOME_CLOSE_FAIL_REPEAT :: int where "DOME_CLOSE_FAIL_REPEAT \<equiv> 300"
abbreviation DOME_CLOSE_FAIL_RETRY :: int where "DOME_CLOSE_FAIL_RETRY \<equiv> 30"

text \<open>The masks \<open>dome.cpp\<close> writes: the state with its blocks, and the blocks alone.\<close>

abbreviation DOME_BLOCKS :: u32 where
  "DOME_BLOCKS \<equiv> BOP_EXPOSURE OR BOP_TEL_MOVE OR DEVICE_BLOCK_OPEN OR DEVICE_BLOCK_CLOSE"

datatype dome_out =
    StateOut u32
  | StartOpen bool
  | StartClose
  | Critical
  | InfoAll

record 'h dome =
  hw :: 'h
  dstate :: u32
  masterState :: u32
  centralds :: "conn list"
  stateMasterConn :: "nat option"
  dnow :: int
  ignoreTimeout :: int
  nextGoodWeather :: int
  centraldLastContactTime :: int
  initialSettleTime :: int
  weatherOpensDome :: bool
  domeAutoClose :: "bool option"
  closeFailReported :: int
  closeRetries :: int
  quietClose :: bool
  weatherCloseLogged :: bool
  closeRepeatTime :: int
  dtimers :: "int list"
  idle_timeout :: int
  last_weathermsg :: "string option"
  device_name :: string
  douts :: "dome_out list"

record 'h driver =
  startOpen_d :: "'h dome \<Rightarrow> int \<times> 'h dome"
  isOpened_d :: "'h dome \<Rightarrow> int \<times> 'h dome"
  endOpen_d :: "'h dome \<Rightarrow> int \<times> 'h dome"
  startClose_d :: "'h dome \<Rightarrow> int \<times> 'h dome"
  isClosed_d :: "'h dome \<Rightarrow> int \<times> 'h dome"
  endClose_d :: "'h dome \<Rightarrow> int \<times> 'h dome"
  stop_d :: "'h dome \<Rightarrow> int \<times> 'h dome"
  preObserving :: "'h dome \<Rightarrow> 'h dome"
  postStandby :: "'h dome \<Rightarrow> 'h dome"
  postOff :: "'h dome \<Rightarrow> 'h dome"

definition demit :: "dome_out \<Rightarrow> 'h dome \<Rightarrow> 'h dome" where
  "demit e s = s\<lparr>douts := douts s @ [e]\<rparr>"

definition dome_setState :: "u32 \<Rightarrow> 'h dome \<Rightarrow> 'h dome" where
  "dome_setState new s = (if dstate s = new then s else demit (StateOut new) (s\<lparr>dstate := new\<rparr>))"

definition dome_maskState :: "u32 \<Rightarrow> u32 \<Rightarrow> 'h dome \<Rightarrow> 'h dome" where
  "dome_maskState m n s = dome_setState (mask_word m n (dstate s)) s"

definition setTimeout :: "int \<Rightarrow> 'h dome \<Rightarrow> 'h dome" where
  "setTimeout t s = s\<lparr>idle_timeout := t\<rparr>"

definition addRetryTimer :: "int \<Rightarrow> 'h dome \<Rightarrow> 'h dome" where
  "addRetryTimer t s = s\<lparr>dtimers := insort_insert (dnow s + t) (dtimers s)\<rparr>"

definition deleteRetryTimers :: "'h dome \<Rightarrow> 'h dome" where
  "deleteRetryTimers s = s\<lparr>dtimers := []\<rparr>"

subsection \<open>Centrald and the weather\<close>

definition running :: "conn \<Rightarrow> bool" where
  "running c \<longleftrightarrow> cstate c = CONN_CONNECTED \<or> cstate c = CONN_AUTH_OK"

definition allCentraldRunning :: "'h dome \<Rightarrow> bool" where
  "allCentraldRunning s \<longleftrightarrow> centralds s \<noteq> [] \<and> list_all running (centralds s)"

text \<open>\<open>Block::isGoodWeather\<close>: every centrald is there and says so.\<close>

definition centralds_good :: "'h dome \<Rightarrow> bool" where
  "centralds_good s \<longleftrightarrow> centralds s \<noteq> [] \<and> list_all (\<lambda>c. running c \<and> isGoodWeather c) (centralds s)"

definition getIgnoreMeteo :: "'h dome \<Rightarrow> bool" where
  "getIgnoreMeteo s \<longleftrightarrow> dnow s < ignoreTimeout s"

definition dome_goodWeather :: "'h dome \<Rightarrow> bool" where
  "dome_goodWeather s \<longleftrightarrow> getIgnoreMeteo s \<or> (centralds_good s \<and> \<not> dnow s < nextGoodWeather s)"

definition getMasterState :: "'h dome \<Rightarrow> u32" where
  "getMasterState s = masterState s AND (SERVERD_STATUS_MASK OR SERVERD_ONOFF_MASK)"

definition que_masters :: "string \<Rightarrow> 'h dome \<Rightarrow> 'h dome" where
  "que_masters msg s = s\<lparr>centralds := map (\<lambda>c. snd (queCommand (new_command PlainCommand msg) c)) (centralds s)\<rparr>"

definition sendMasters :: "string \<Rightarrow> 'h dome \<Rightarrow> int \<times> 'h dome" where
  "sendMasters msg s = (0, que_masters msg s)"

definition setMasterStandby :: "'h dome \<Rightarrow> int \<times> 'h dome" where
  "setMasterStandby s =
     (if getMasterState s AND SERVERD_ONOFF_MASK = 0 \<and> getMasterState s AND SERVERD_STATUS_MASK \<noteq> SERVERD_UNKNOW
      then sendMasters ''standby'' s else (0, s))"

definition setMasterOn :: "'h dome \<Rightarrow> int \<times> 'h dome" where
  "setMasterOn s =
     (if getMasterState s AND SERVERD_ONOFF_MASK = SERVERD_STANDBY then sendMasters ''on'' s else (0, s))"

definition weather_text :: "string \<Rightarrow> string \<Rightarrow> string" where
  "weather_text nm msg = ''weather_update '' @ [DQ] @ nm @ [DQ] @ '' '' @ [DQ] @ msg @ [DQ]"

definition dome_setWeatherState :: "bool \<Rightarrow> string \<Rightarrow> 'h dome \<Rightarrow> 'h dome" where
  "dome_setWeatherState good msg s =
     (let s1 = dome_maskState WEATHER_MASK (if good then GOOD_WEATHER else BAD_WEATHER) s
      in if \<not> good \<and> dstate s1 AND BAD_WEATHER \<noteq> 0 \<and> last_weathermsg s1 \<noteq> Some msg
         then que_masters (weather_text (device_name s1) msg) (s1\<lparr>last_weathermsg := Some msg\<rparr>)
         else s1)"

subsection \<open>Opening and closing\<close>

definition domeOpenStart :: "'h driver \<Rightarrow> 'h dome \<Rightarrow> int \<times> 'h dome" where
  "domeOpenStart d s =
     (let (r, s1) = isOpened_d d (deleteRetryTimers s) in
      if r = -2 then (0, dome_maskState (DOME_DOME_MASK OR DOME_BLOCKS) (DOME_OPENED OR DEVICE_BLOCK_CLOSE) s1)
      else if \<not> dome_goodWeather s1 then (-1, s1)
      else let (r2, s2) = startOpen_d d (demit (StartOpen (dome_goodWeather s1)) s1) in
        if r2 \<noteq> 0 then (-1, s2)
        else (0, dome_maskState (DOME_DOME_MASK OR DOME_BLOCKS) (DOME_OPENING OR DOME_BLOCKS)
                   (s2\<lparr>closeFailReported := 0, closeRetries := 0\<rparr>)))"

text \<open>A close that cannot start is reported at once and then every five minutes.\<close>

definition report_close_fail :: "'h dome \<Rightarrow> 'h dome" where
  "report_close_fail s =
     (if closeFailReported s = 0 \<or> dnow s - closeFailReported s \<ge> DOME_CLOSE_FAIL_REPEAT * USEC_SEC
      then (demit Critical s)\<lparr>closeFailReported := dnow s\<rparr> else s)"

definition domeCloseStart :: "'h driver \<Rightarrow> bool \<Rightarrow> 'h dome \<Rightarrow> int \<times> 'h dome" where
  "domeCloseStart d quiet s =
     (let (r, s1) = isClosed_d d ((deleteRetryTimers s)\<lparr>quietClose := quiet\<rparr>) in
      if r = -2
      then (0, (dome_maskState (DOME_DOME_MASK OR DOME_BLOCKS) (DOME_CLOSED OR DEVICE_BLOCK_OPEN) s1)\<lparr>closeRetries := 0\<rparr>)
      else let (r2, s2) = startClose_d d (demit StartClose s1) in
        if r2 < 0 then (-1, addRetryTimer (DOME_CLOSE_FAIL_RETRY * USEC_SEC) (report_close_fail s2))
        else if r2 > 0
        then (0, addRetryTimer (closeRepeatTime s2)
                   (dome_maskState (DOME_DOME_MASK OR BOP_EXPOSURE OR BOP_TEL_MOVE) DOME_WAIT_CLOSING s2))
        else (0, dome_maskState (DOME_DOME_MASK OR DOME_BLOCKS) (DOME_CLOSING OR DEVICE_BLOCK_OPEN OR DEVICE_BLOCK_CLOSE)
                   (s2\<lparr>closeFailReported := 0\<rparr>)))"

definition closeFailed :: "'h dome \<Rightarrow> 'h dome" where
  "closeFailed s =
     (if closeRetries s < DOME_CLOSE_MAX_RETRIES
      then addRetryTimer (closeRepeatTime s) (s\<lparr>closeRetries := closeRetries s + 1\<rparr>)
      else demit Critical s)"

definition domeStop :: "'h driver \<Rightarrow> 'h dome \<Rightarrow> int \<times> 'h dome" where
  "domeStop d s =
     (let (r, s1) = stop_d d (deleteRetryTimers s) in
      if r < 0 then (-1, s1)
      else (0, dome_maskState (DOME_STOPPED_MASK OR BOP_EXPOSURE OR BOP_TEL_MOVE) DOME_STOPPED s1))"

text \<open>\<open>checkOpening\<close>: \<open>None\<close> stands for the early returns while the roof still moves.\<close>

definition opening_pass :: "'h driver \<Rightarrow> 'h dome \<Rightarrow> bool \<times> 'h dome" where
  "opening_pass d s =
     (let (r, s1) = isOpened_d d s in
      if r \<ge> 0 then (False, setTimeout r s1)
      else if r = -1 then
        let s2 = demit InfoAll (snd (endOpen_d d (setTimeout (2 * USEC_SEC) s1)))
        in (True, dome_maskState (DOME_DOME_MASK OR DOME_BLOCKS) (DOME_OPENED OR DEVICE_BLOCK_CLOSE) (demit Critical s2))
      else if r = -2 then
        let (e, s2) = endOpen_d d (setTimeout (2 * USEC_SEC) s1);
            s3 = demit InfoAll s2
        in (True, dome_maskState (DOME_DOME_MASK OR DOME_BLOCKS) (DOME_OPENED OR DEVICE_BLOCK_CLOSE)
                    (if e \<noteq> 0 then demit Critical s3 else s3))
      else (True, s1))"

definition closing_pass :: "'h driver \<Rightarrow> 'h dome \<Rightarrow> bool \<times> 'h dome" where
  "closing_pass d s =
     (let (r, s1) = isClosed_d d s in
      if r \<ge> 0 then (False, setTimeout r s1)
      else if r = -1 then
        let s2 = demit InfoAll (snd (endClose_d d (setTimeout (10 * USEC_SEC) s1)));
            s3 = dome_maskState (DOME_DOME_MASK OR DEVICE_BLOCK_OPEN OR DEVICE_BLOCK_CLOSE) (DOME_CLOSED OR DEVICE_BLOCK_OPEN) s2
        in (True, if quietClose s3 then s3\<lparr>quietClose := False\<rparr> else closeFailed (demit Critical s3))
      else if r = -2 then
        let (e, s2) = endClose_d d (setTimeout (5 * USEC_SEC) s1);
            s3 = demit InfoAll s2;
            s4 = dome_maskState (DOME_DOME_MASK OR DEVICE_BLOCK_OPEN OR DEVICE_BLOCK_CLOSE) (DOME_CLOSED OR DEVICE_BLOCK_OPEN)
                   (if e \<noteq> 0 then demit Critical s3 else s3)
        in (True, if e \<noteq> 0 then closeFailed s4 else s4\<lparr>closeRetries := 0\<rparr>)
      else (True, s1))"

definition checkOpening :: "'h driver \<Rightarrow> 'h dome \<Rightarrow> 'h dome" where
  "checkOpening d s =
     (let (fin, s1) =
        (if dstate s AND DOME_DOME_MASK = DOME_OPENING then opening_pass d s
         else if dstate s AND DOME_DOME_MASK = DOME_CLOSING then closing_pass d s
         else (True, s))
      in if fin \<and> dstate s1 AND DOME_CUP_MASK_MOVE = DOME_CUP_NOT_MOVE
         then setTimeout (10 * USEC_SEC) s1 else s1)"

definition auto_close :: "'h dome \<Rightarrow> bool" where
  "auto_close s \<longleftrightarrow> domeAutoClose s = None \<or> domeAutoClose s = Some True"

definition closeDomeWeather :: "'h driver \<Rightarrow> 'h dome \<Rightarrow> int \<times> 'h dome" where
  "closeDomeWeather d s =
     (if getIgnoreMeteo s then (0, s)
      else let (ret, s1) = (if auto_close s then domeCloseStart d False (s\<lparr>weatherCloseLogged := True\<rparr>) else (0, s))
           in (ret, snd (setMasterStandby s1)))"

definition observing :: "'h driver \<Rightarrow> 'h dome \<Rightarrow> int \<times> 'h dome" where
  "observing d s = (if auto_close s then domeOpenStart d s else (0, s))"

definition standby :: "'h driver \<Rightarrow> 'h dome \<Rightarrow> int \<times> 'h dome" where
  "standby d s =
     (let s1 = s\<lparr>ignoreTimeout := dnow s - USEC_SEC\<rparr>
      in if auto_close s1 then domeCloseStart d False s1 else (0, s1))"

definition off :: "'h driver \<Rightarrow> 'h dome \<Rightarrow> int \<times> 'h dome" where
  "off d s =
     (let s1 = s\<lparr>ignoreTimeout := dnow s - USEC_SEC\<rparr>
      in if auto_close s1 then domeCloseStart d False s1 else (0, s1))"

definition do_observing :: "'h driver \<Rightarrow> 'h dome \<Rightarrow> 'h dome" where
  "do_observing d s = snd (observing d (preObserving d s))"

definition do_standby :: "'h driver \<Rightarrow> 'h dome \<Rightarrow> 'h dome" where
  "do_standby d s = postStandby d (snd (standby d s))"

definition do_off :: "'h driver \<Rightarrow> 'h dome \<Rightarrow> 'h dome" where
  "do_off d s = postOff d (snd (off d s))"

subsection \<open>The state of the master\<close>

definition masters_changed :: "'h dome \<Rightarrow> 'h dome" where
  "masters_changed s = s\<lparr>centralds := map masterStateChanged (centralds s)\<rparr>"

definition changeMasterState :: "'h driver \<Rightarrow> u32 \<Rightarrow> u32 \<Rightarrow> 'h dome \<Rightarrow> 'h dome" where
  "changeMasterState d old new s =
     masters_changed
       (let p = new AND SERVERD_STATUS_MASK in
        if old AND WEATHER_MASK = GOOD_WEATHER \<and> new AND WEATHER_MASK = BAD_WEATHER \<and> getIgnoreMeteo s then s
        else if new AND SERVERD_ONOFF_MASK = SERVERD_STANDBY then
          if p \<in> {SERVERD_EVENING, SERVERD_DUSK, SERVERD_NIGHT, SERVERD_DAWN} then do_standby d s else do_off d s
        else if new AND SERVERD_ONOFF_MASK \<noteq> 0 then do_off d s
        else if p \<in> {SERVERD_DUSK, SERVERD_NIGHT, SERVERD_DAWN} then do_observing d s
        else if p \<in> {SERVERD_EVENING, SERVERD_MORNING} then do_standby d s
        else do_off d s)"

text \<open>\<open>Block::setMasterState\<close>: \<open>i\<close> is the connection the state came from.\<close>

definition wrong_master :: "nat \<Rightarrow> u32 \<Rightarrow> 'h dome \<Rightarrow> bool" where
  "wrong_master i new s \<longleftrightarrow> stateMasterConn s \<noteq> None \<and> stateMasterConn s \<noteq> Some i \<and>
     ((new AND SERVERD_ONOFF_MASK \<noteq> SERVERD_HARD_OFF \<and> new AND WEATHER_MASK \<noteq> BAD_WEATHER
       \<and> new AND SERVERD_ONOFF_MASK \<noteq> SERVERD_STANDBY)
      \<or> (masterState s AND SERVERD_ONOFF_MASK = SERVERD_HARD_OFF \<and> new AND SERVERD_ONOFF_MASK = SERVERD_STANDBY))"

definition setMasterState :: "'h driver \<Rightarrow> nat \<Rightarrow> u32 \<Rightarrow> 'h dome \<Rightarrow> 'h dome" where
  "setMasterState d i new s =
     (if wrong_master i new s then s
      else let old = masterState s;
               s1 = s\<lparr>masterState := new\<rparr>;
               s2 = (if old AND NOT BOP_MASK \<noteq> new AND NOT BOP_MASK then changeMasterState d old new s1 else s1)
           in if old AND BOP_MASK \<noteq> new AND BOP_MASK then masters_changed s2 else s2)"

text \<open>\<open>DevConnectionMaster::setState\<close>.\<close>

definition master_status :: "'h driver \<Rightarrow> nat \<Rightarrow> u32 \<Rightarrow> 'h dome \<Rightarrow> 'h dome" where
  "master_status d i v s =
     setMasterState d i v (s\<lparr>centralds := map (\<lambda>c. if cid c = i then setState v c else c) (centralds s)\<rparr>)"

subsection \<open>Time and commands\<close>

definition dome_event_retry :: "'h driver \<Rightarrow> 'h dome \<Rightarrow> 'h dome" where
  "dome_event_retry d s = snd (domeCloseStart d False s)"

text \<open>
  The timers of \<open>Block::idle\<close>: those that are due, in the order of their times, unless an earlier
  one has deleted them. Timers added on the way are due later.
\<close>

definition dome_timers :: "'h driver \<Rightarrow> 'h dome \<Rightarrow> 'h dome" where
  "dome_timers d s =
     fold (\<lambda>t s. if t \<in> set (dtimers s) then dome_event_retry d (s\<lparr>dtimers := remove1 t (dtimers s)\<rparr>) else s)
       (filter (\<lambda>t. t < dnow s) (dtimers s)) s"

definition own_weather :: "'h dome \<Rightarrow> 'h dome" where
  "own_weather s =
     (let allCen = allCentraldRunning s;
          s1 = (if allCen then s\<lparr>centraldLastContactTime := dnow s\<rparr> else s)
      in if (allCen \<or> dnow s1 < centraldLastContactTime s1 + DEF_CENTRALD_CONTACT_TIMEOUT * USEC_SEC)
              \<and> nextGoodWeather s1 < dnow s1
         then dome_setWeatherState True ''can open dome'' s1
         else if allCen then dome_setWeatherState False ''waiting for next_open'' s1
         else dome_setWeatherState False ''some centrald are not connected'' s1)"

definition dome_weather :: "'h driver \<Rightarrow> 'h dome \<Rightarrow> 'h dome" where
  "dome_weather d s =
     (if dome_goodWeather s
      then let s1 = s\<lparr>weatherCloseLogged := False\<rparr>
           in if weatherOpensDome s1 \<and> getMasterState s1 AND SERVERD_ONOFF_MASK = SERVERD_STANDBY
              then snd (setMasterOn s1) else s1
      else let (ret, s1) = closeDomeWeather d s
           in if ret = -1 then setTimeout (10 * USEC_SEC) s1 else s1)"

definition dome_idle :: "'h driver \<Rightarrow> 'h dome \<Rightarrow> 'h dome" where
  "dome_idle d s =
     dome_timers d (if dnow s < initialSettleTime s then s else own_weather (dome_weather d (checkOpening d s)))"

definition setWeatherTimeout :: "int \<Rightarrow> string \<Rightarrow> 'h dome \<Rightarrow> 'h dome" where
  "setWeatherTimeout wait msg s =
     (let nxt = dnow s div USEC_SEC + wait
      in if nxt > nextGoodWeather s div USEC_SEC
         then (dome_setWeatherState False msg s)\<lparr>nextGoodWeather := nxt * USEC_SEC\<rparr> else s)"

datatype dome_command =
    Open
  | Close
  | Stop
  | CloseFor int
  | ResetNext

definition ok_or_num :: "int \<times> 'h dome \<Rightarrow> int \<times> 'h dome" where
  "ok_or_num r = ((if fst r = 0 then 0 else -2), snd r)"

fun commandAuthorized :: "'h driver \<Rightarrow> dome_command \<Rightarrow> 'h dome \<Rightarrow> int \<times> 'h dome" where
  "commandAuthorized d Open s = ok_or_num (domeOpenStart d s)"
| "commandAuthorized d Close s = ok_or_num (domeCloseStart d False s)"
| "commandAuthorized d Stop s = ok_or_num (domeStop d s)"
| "commandAuthorized d (CloseFor t) s =
     (if t < 0 then (-2, s) else ok_or_num (domeCloseStart d False (s\<lparr>nextGoodWeather := dnow s + t\<rparr>)))"
| "commandAuthorized d ResetNext s = (0, s\<lparr>nextGoodWeather := dnow s - USEC_SEC\<rparr>)"

text \<open>
  What can happen to a dome: its idle loop, a state from a centrald, a command, time passing (with
  what the links to the centralds did meanwhile and writes of the values), and a weather timeout
  set by the driver.
\<close>

datatype dome_event =
    DIdle
  | DStatus nat u32
  | DCommand dome_command
  | DTime int "conn list"
  | DValues int bool "bool option" int
  | DWeather int string

fun dome_step :: "'h driver \<Rightarrow> dome_event \<Rightarrow> 'h dome \<Rightarrow> 'h dome" where
  "dome_step d DIdle s = dome_idle d s"
| "dome_step d (DStatus i v) s = master_status d i v s"
| "dome_step d (DCommand c) s = snd (commandAuthorized d c s)"
| "dome_step d (DTime t cs) s = s\<lparr>dnow := t, centralds := cs\<rparr>"
| "dome_step d (DValues ign wo ac rep) s =
     s\<lparr>ignoreTimeout := ign, weatherOpensDome := wo, domeAutoClose := ac, closeRepeatTime := rep\<rparr>"
| "dome_step d (DWeather w m) s = setWeatherTimeout w m s"

end
