(* ===== verification/DomeProps.thy ===== *)
theory DomeProps
  imports Dome Runs
begin

section \<open>Properties of domes\<close>

text \<open>
  What holds for every roof driver that touches only its own fields and the idle timeout
  (\<open>dome_driver\<close>): the state of the dome and its blocks go together once it has left the phase \<open>init\<close> found, the roof is opened only in
  weather the dome finds good, a close that failed is retried a bounded number of times, and
  bad weather closes.
\<close>

subsection \<open>The state word\<close>

abbreviation DOME_FIELD :: u32 where "DOME_FIELD \<equiv> 0x0500601f"

definition dome_field :: "u32 \<Rightarrow> u32" where
  "dome_field st = st AND DOME_FIELD"

lemma dome_field_mask: "dome_field (mask_word m n st) = (dome_field st AND NOT m) OR (n AND DOME_FIELD)"
proof (rule bit_word_eqI)
  fix k :: nat
  have "\<not> bit (DOME_FIELD AND DEVICE_ERROR_MASK) k" by simp
  then have d: "\<not> (bit DOME_FIELD k \<and> bit DEVICE_ERROR_MASK k)" by (simp only: bit_and_iff simp_thms)
  show "bit (dome_field (mask_word m n st)) k = bit ((dome_field st AND NOT m) OR (n AND DOME_FIELD)) k"
    unfolding dome_field_def mask_word_def bit_and_iff bit_or_iff bit_not_iff using d by blast
qed

lemma dome_field_all: "DOME_FIELD AND m = DOME_FIELD \<Longrightarrow> dome_field st AND NOT m = 0"
proof (rule bit_word_eqI)
  fix k :: nat
  assume "DOME_FIELD AND m = DOME_FIELD"
  then have "bit DOME_FIELD k \<longrightarrow> bit m k" by (metis bit_and_iff)
  then show "bit (dome_field st AND NOT m) k = bit (0::u32) k" by (auto simp: dome_field_def bit_simps)
qed

text \<open>
  What the \<open>init\<close> of a driver finds. It writes the phase of the roof alone, without the blocks (BART
  and D50 a closed or an opened roof, Zelio a moving one as well), or nothing.
\<close>

datatype found =
    FoundNothing
  | FoundClosed
  | FoundOpened
  | FoundOpening
  | FoundClosing

fun found_phase :: "found \<Rightarrow> u32" where
  "found_phase FoundNothing = DOME_UNKNOW"
| "found_phase FoundClosed = DOME_CLOSED"
| "found_phase FoundOpened = DOME_OPENED"
| "found_phase FoundOpening = DOME_OPENING"
| "found_phase FoundClosing = DOME_CLOSING"

text \<open>The combinations of dome state and blocks that occur, after the one \<open>init\<close> has left.\<close>

definition field_list :: "u32 list" where
  "field_list = [ DOME_CLOSED OR DEVICE_BLOCK_OPEN, DOME_OPENING OR DOME_BLOCKS,
     DOME_OPENING OR DEVICE_BLOCK_OPEN OR DEVICE_BLOCK_CLOSE, DOME_OPENED OR DEVICE_BLOCK_CLOSE,
     DOME_CLOSING OR DEVICE_BLOCK_OPEN OR DEVICE_BLOCK_CLOSE, DOME_WAIT_CLOSING,
     DOME_WAIT_CLOSING OR DEVICE_BLOCK_OPEN, DOME_WAIT_CLOSING OR DEVICE_BLOCK_CLOSE,
     DOME_WAIT_CLOSING OR DEVICE_BLOCK_OPEN OR DEVICE_BLOCK_CLOSE]"

definition field_ok :: "found \<Rightarrow> u32 \<Rightarrow> bool" where
  "field_ok p f \<longleftrightarrow> f = found_phase p \<or> f \<in> set field_list"

lemma field_ok_step:
  "field_ok p ((found_phase p AND NOT m) OR (n AND DOME_FIELD)) \<Longrightarrow>
   list_all (\<lambda>f. ((f AND NOT m) OR (n AND DOME_FIELD)) \<in> set field_list) field_list \<Longrightarrow>
   field_ok p (dome_field st) \<Longrightarrow> field_ok p (dome_field (mask_word m n st))"
  unfolding dome_field_mask field_ok_def list_all_iff by metis

lemma field_write:
  "dome_field (mask_word (DOME_DOME_MASK OR DOME_BLOCKS) n st) = n AND DOME_FIELD"
  by (subst dome_field_mask, subst dome_field_all) simp_all

lemma field_weather: "dome_field (mask_word WEATHER_MASK (if g then GOOD_WEATHER else BAD_WEATHER) st) = dome_field st"
  unfolding dome_field_def by (rule mask_word_other) simp_all

lemma stop_found:
  "field_ok p ((found_phase p AND NOT (DOME_STOPPED_MASK OR BOP_EXPOSURE OR BOP_TEL_MOVE)) OR (DOME_STOPPED AND DOME_FIELD))"
  by (induction p) code_simp+

lemma wait_found:
  "field_ok p ((found_phase p AND NOT (DOME_DOME_MASK OR BOP_EXPOSURE OR BOP_TEL_MOVE)) OR (DOME_WAIT_CLOSING AND DOME_FIELD))"
  by (induction p) code_simp+

lemma field_stop:
  "field_ok p (dome_field st) \<Longrightarrow>
   field_ok p (dome_field (mask_word (DOME_STOPPED_MASK OR BOP_EXPOSURE OR BOP_TEL_MOVE) DOME_STOPPED st))"
  by (rule field_ok_step [OF stop_found]) code_simp

lemma field_wait:
  "field_ok p (dome_field st) \<Longrightarrow>
   field_ok p (dome_field (mask_word (DOME_DOME_MASK OR BOP_EXPOSURE OR BOP_TEL_MOVE) DOME_WAIT_CLOSING st))"
  by (rule field_ok_step [OF wait_found]) code_simp

lemma field_sub: "DOME_FIELD AND k = k \<Longrightarrow> st AND k = dome_field st AND k"
  unfolding dome_field_def by (simp only: and.assoc)

lemma field_dome: "st AND DOME_DOME_MASK = dome_field st AND DOME_DOME_MASK"
  by (rule field_sub) simp

lemma field_list_closing:
  "f \<in> set field_list \<Longrightarrow> f AND DOME_DOME_MASK = DOME_CLOSING \<Longrightarrow>
   f = DOME_CLOSING OR DEVICE_BLOCK_OPEN OR DEVICE_BLOCK_CLOSE"
proof -
  have "list_all (\<lambda>f. f AND DOME_DOME_MASK = DOME_CLOSING \<longrightarrow>
     f = DOME_CLOSING OR DEVICE_BLOCK_OPEN OR DEVICE_BLOCK_CLOSE) field_list"
    by code_simp
  then show "f \<in> set field_list \<Longrightarrow> f AND DOME_DOME_MASK = DOME_CLOSING \<Longrightarrow> ?thesis"
    unfolding list_all_iff by blast
qed

lemma field_closed:
  assumes "field_ok p (dome_field st)" "st AND DOME_DOME_MASK = DOME_CLOSING"
  shows "dome_field (mask_word (DOME_DOME_MASK OR DEVICE_BLOCK_OPEN OR DEVICE_BLOCK_CLOSE)
     (DOME_CLOSED OR DEVICE_BLOCK_OPEN) st) = DOME_CLOSED OR DEVICE_BLOCK_OPEN"
proof -
  have "found_phase p AND DOME_DOME_MASK = DOME_CLOSING \<Longrightarrow> found_phase p = DOME_CLOSING" by (cases p) simp_all
  then consider "dome_field st = DOME_CLOSING" | "dome_field st = DOME_CLOSING OR DEVICE_BLOCK_OPEN OR DEVICE_BLOCK_CLOSE"
    using assms field_list_closing unfolding field_dome [of st] field_ok_def by metis
  then show ?thesis by cases (simp_all only: dome_field_mask, code_simp+)
qed

subsection \<open>The invariant\<close>

definition dome_inv :: "found \<Rightarrow> 'h dome \<Rightarrow> bool" where
  "dome_inv p s \<longleftrightarrow> StartOpen False \<notin> set (douts s) \<and> field_ok p (dome_field (dstate s))
     \<and> 0 \<le> closeRetries s \<and> closeRetries s \<le> DOME_CLOSE_MAX_RETRIES"

named_theorems keeps_dome \<open>operations that keep the invariant of a dome\<close>

lemma demit_inv [keeps_dome]: "dome_inv p s \<Longrightarrow> e \<noteq> StartOpen False \<Longrightarrow> dome_inv p (demit e s)"
  by (simp add: dome_inv_def demit_def)

lemma field_updates_inv [keeps_dome]:
  "dome_inv p s \<Longrightarrow> dome_inv p (s\<lparr>masterState := x1\<rparr>)" "dome_inv p s \<Longrightarrow> dome_inv p (s\<lparr>centralds := x2\<rparr>)"
  "dome_inv p s \<Longrightarrow> dome_inv p (s\<lparr>ignoreTimeout := x3\<rparr>)" "dome_inv p s \<Longrightarrow> dome_inv p (s\<lparr>nextGoodWeather := x4\<rparr>)"
  "dome_inv p s \<Longrightarrow> dome_inv p (s\<lparr>centraldLastContactTime := x5\<rparr>)" "dome_inv p s \<Longrightarrow> dome_inv p (s\<lparr>closeFailReported := x6\<rparr>)"
  "dome_inv p s \<Longrightarrow> dome_inv p (s\<lparr>closeRetries := 0\<rparr>)" "dome_inv p s \<Longrightarrow> dome_inv p (s\<lparr>quietClose := x7\<rparr>)"
  "dome_inv p s \<Longrightarrow> dome_inv p (s\<lparr>weatherCloseLogged := x8\<rparr>)" "dome_inv p s \<Longrightarrow> dome_inv p (s\<lparr>dtimers := x9\<rparr>)"
  "dome_inv p s \<Longrightarrow> dome_inv p (s\<lparr>last_weathermsg := x10\<rparr>)" "dome_inv p s \<Longrightarrow> dome_inv p (s\<lparr>idle_timeout := x11\<rparr>)"
  "dome_inv p s \<Longrightarrow> dome_inv p (s\<lparr>closeFailReported := x6, closeRetries := 0\<rparr>)"
  "dome_inv p s \<Longrightarrow> dome_inv p (s\<lparr>dnow := x12, centralds := x2\<rparr>)"
  "dome_inv p s \<Longrightarrow> dome_inv p (s\<lparr>hw := x13, idle_timeout := x11\<rparr>)"
  "dome_inv p s \<Longrightarrow> dome_inv p (s\<lparr>ignoreTimeout := x3, weatherOpensDome := x14, domeAutoClose := x15, closeRepeatTime := x16\<rparr>)"
  by (simp_all add: dome_inv_def)

lemma timers_inv [keeps_dome]:
  "dome_inv p s \<Longrightarrow> dome_inv p (setTimeout t s)" "dome_inv p s \<Longrightarrow> dome_inv p (addRetryTimer t s)"
  "dome_inv p s \<Longrightarrow> dome_inv p (deleteRetryTimers s)"
  by (simp_all add: setTimeout_def addRetryTimer_def deleteRetryTimers_def keeps_dome)

lemma maskState_inv_dome:
  "dome_inv p s \<Longrightarrow> field_ok p (dome_field (mask_word m n (dstate s))) \<Longrightarrow> dome_inv p (dome_maskState m n s)"
  by (simp add: dome_maskState_def dome_setState_def dome_inv_def demit_def)

lemma full_write_inv:
  "dome_inv p s \<Longrightarrow> field_ok p (n AND DOME_FIELD) \<Longrightarrow> dome_inv p (dome_maskState (DOME_DOME_MASK OR DOME_BLOCKS) n s)"
  by (rule maskState_inv_dome) (simp_all only: field_write)

lemma state_writes_inv:
  "dome_inv p s \<Longrightarrow> dome_inv p (dome_maskState (DOME_DOME_MASK OR DOME_BLOCKS) (DOME_OPENED OR DEVICE_BLOCK_CLOSE) s)"
  "dome_inv p s \<Longrightarrow> dome_inv p (dome_maskState (DOME_DOME_MASK OR DOME_BLOCKS) (DOME_CLOSED OR DEVICE_BLOCK_OPEN) s)"
  "dome_inv p s \<Longrightarrow> dome_inv p (dome_maskState (DOME_DOME_MASK OR DOME_BLOCKS) (DOME_OPENING OR DOME_BLOCKS) s)"
  "dome_inv p s \<Longrightarrow> dome_inv p (dome_maskState (DOME_DOME_MASK OR DOME_BLOCKS)
      (DOME_CLOSING OR DEVICE_BLOCK_OPEN OR DEVICE_BLOCK_CLOSE) s)"
  by (rule full_write_inv, assumption, simp add: field_ok_def field_list_def)+

lemma other_writes_inv:
  "dome_inv p s \<Longrightarrow> dome_inv p (dome_maskState (DOME_STOPPED_MASK OR BOP_EXPOSURE OR BOP_TEL_MOVE) DOME_STOPPED s)"
  "dome_inv p s \<Longrightarrow> dome_inv p (dome_maskState (DOME_DOME_MASK OR BOP_EXPOSURE OR BOP_TEL_MOVE) DOME_WAIT_CLOSING s)"
  "dome_inv p s \<Longrightarrow> dome_inv p (dome_maskState WEATHER_MASK (if g then GOOD_WEATHER else BAD_WEATHER) s)"
  using field_stop [of p "dstate s"] field_wait [of p "dstate s"] field_weather [of g "dstate s"]
  by (intro maskState_inv_dome; metis dome_inv_def)+

lemmas [keeps_dome] = state_writes_inv [simplified] other_writes_inv [simplified]

lemma closed_write_inv:
  "dome_inv p s \<Longrightarrow> dstate s AND DOME_DOME_MASK = DOME_CLOSING \<Longrightarrow>
   dome_inv p (dome_maskState (DOME_DOME_MASK OR DEVICE_BLOCK_OPEN OR DEVICE_BLOCK_CLOSE) (DOME_CLOSED OR DEVICE_BLOCK_OPEN) s)"
proof (rule maskState_inv_dome)
  assume "dome_inv p s" "dstate s AND DOME_DOME_MASK = DOME_CLOSING"
  then have "dome_field (mask_word (DOME_DOME_MASK OR DEVICE_BLOCK_OPEN OR DEVICE_BLOCK_CLOSE)
      (DOME_CLOSED OR DEVICE_BLOCK_OPEN) (dstate s)) = DOME_CLOSED OR DEVICE_BLOCK_OPEN"
    using field_closed [of p "dstate s"] by (simp only: dome_inv_def simp_thms)
  moreover have "field_ok p (DOME_CLOSED OR DEVICE_BLOCK_OPEN)" by (simp add: field_ok_def field_list_def)
  ultimately show "field_ok p (dome_field (mask_word (DOME_DOME_MASK OR DEVICE_BLOCK_OPEN OR DEVICE_BLOCK_CLOSE)
      (DOME_CLOSED OR DEVICE_BLOCK_OPEN) (dstate s)))" by metis
qed assumption

lemma closeFailed_inv [keeps_dome]: "dome_inv p s \<Longrightarrow> dome_inv p (closeFailed s)"
  by (simp add: closeFailed_def addRetryTimer_def dome_inv_def demit_def)

lemma masters_inv [keeps_dome]:
  "dome_inv p s \<Longrightarrow> dome_inv p (que_masters m s)" "dome_inv p s \<Longrightarrow> dome_inv p (masters_changed s)"
  "dome_inv p s \<Longrightarrow> dome_inv p (snd (setMasterOn s))" "dome_inv p s \<Longrightarrow> dome_inv p (snd (setMasterStandby s))"
  by (simp_all add: que_masters_def masters_changed_def setMasterOn_def setMasterStandby_def sendMasters_def keeps_dome)

lemma setWeatherState_inv [keeps_dome]: "dome_inv p s \<Longrightarrow> dome_inv p (dome_setWeatherState g m s)"
  by (simp only: dome_setWeatherState_def Let_def keeps_dome split: if_split) (simp add: keeps_dome)

lemma own_weather_inv [keeps_dome]: "dome_inv p s \<Longrightarrow> dome_inv p (own_weather s)"
  by (simp add: own_weather_def Let_def keeps_dome)

lemma report_inv [keeps_dome]: "dome_inv p s \<Longrightarrow> dome_inv p (report_close_fail s)"
  by (simp add: report_close_fail_def keeps_dome)

subsection \<open>Drivers\<close>

text \<open>What a driver's function may touch.\<close>

definition own_fields :: "('h dome \<Rightarrow> 'h dome) \<Rightarrow> bool" where
  "own_fields f \<longleftrightarrow> (\<forall>s. \<exists>h t. f s = s\<lparr>hw := h, idle_timeout := t\<rparr>)"

lemma own_fields_inv: "own_fields f \<Longrightarrow> dome_inv p s \<Longrightarrow> dome_inv p (f s)"
  using field_updates_inv(15) unfolding own_fields_def by metis

lemma own_fields_sel:
  assumes "own_fields f"
  shows "dstate (f s) = dstate s \<and> dnow (f s) = dnow s \<and> dtimers (f s) = dtimers s
    \<and> closeRetries (f s) = closeRetries s \<and> quietClose (f s) = quietClose s \<and> douts (f s) = douts s
    \<and> closeRepeatTime (f s) = closeRepeatTime s \<and> closeFailReported (f s) = closeFailReported s
    \<and> ignoreTimeout (f s) = ignoreTimeout s \<and> domeAutoClose (f s) = domeAutoClose s
    \<and> centralds (f s) = centralds s \<and> nextGoodWeather (f s) = nextGoodWeather s
    \<and> masterState (f s) = masterState s"
proof -
  obtain h t where "f s = s\<lparr>hw := h, idle_timeout := t\<rparr>" using assms unfolding own_fields_def by blast
  then show ?thesis by simp
qed

locale dome_driver =
  fixes d :: "'h driver"
  assumes startOpen_own: "own_fields (\<lambda>s. snd (startOpen_d d s))"
    and isOpened_own: "own_fields (\<lambda>s. snd (isOpened_d d s))"
    and endOpen_own: "own_fields (\<lambda>s. snd (endOpen_d d s))"
    and startClose_own: "own_fields (\<lambda>s. snd (startClose_d d s))"
    and isClosed_own: "own_fields (\<lambda>s. snd (isClosed_d d s))"
    and endClose_own: "own_fields (\<lambda>s. snd (endClose_d d s))"
    and stop_own: "own_fields (\<lambda>s. snd (stop_d d s))"
    and hooks_own: "own_fields (preObserving d)" "own_fields (postStandby d)" "own_fields (postOff d)"
begin

lemma driver_inv [keeps_dome]:
  "dome_inv p s \<Longrightarrow> dome_inv p (snd (startOpen_d d s))" "dome_inv p s \<Longrightarrow> dome_inv p (snd (isOpened_d d s))"
  "dome_inv p s \<Longrightarrow> dome_inv p (snd (endOpen_d d s))" "dome_inv p s \<Longrightarrow> dome_inv p (snd (startClose_d d s))"
  "dome_inv p s \<Longrightarrow> dome_inv p (snd (isClosed_d d s))" "dome_inv p s \<Longrightarrow> dome_inv p (snd (endClose_d d s))"
  "dome_inv p s \<Longrightarrow> dome_inv p (snd (stop_d d s))"
  "dome_inv p s \<Longrightarrow> dome_inv p (preObserving d s)" "dome_inv p s \<Longrightarrow> dome_inv p (postStandby d s)"
  "dome_inv p s \<Longrightarrow> dome_inv p (postOff d s)"
  using startOpen_own isOpened_own endOpen_own startClose_own isClosed_own endClose_own stop_own hooks_own
    own_fields_inv by fastforce+

lemma openStart_inv [keeps_dome]: "dome_inv p s \<Longrightarrow> dome_inv p (snd (domeOpenStart d s))"
  by (simp add: domeOpenStart_def case_prod_beta Let_def keeps_dome)

lemma closeStart_inv [keeps_dome]: "dome_inv p s \<Longrightarrow> dome_inv p (snd (domeCloseStart d q s))"
  by (simp add: domeCloseStart_def case_prod_beta Let_def keeps_dome)

lemma stop_inv [keeps_dome]: "dome_inv p s \<Longrightarrow> dome_inv p (snd (domeStop d s))"
  by (simp add: domeStop_def case_prod_beta Let_def keeps_dome)

lemma opening_pass_inv [keeps_dome]: "dome_inv p s \<Longrightarrow> dome_inv p (snd (opening_pass d s))"
  by (simp add: opening_pass_def case_prod_beta Let_def keeps_dome)

lemma closing_state:
  "dstate (snd (isClosed_d d s)) = dstate s" "dstate (snd (endClose_d d s)) = dstate s"
  using own_fields_sel [OF isClosed_own] own_fields_sel [OF endClose_own] by simp_all

lemma closing_pass_inv [keeps_dome]:
  assumes "dome_inv p s" "dstate s AND DOME_DOME_MASK = DOME_CLOSING"
  shows "dome_inv p (snd (closing_pass d s))"
proof -
  have w: "dome_inv p t \<Longrightarrow> dstate t = dstate s \<Longrightarrow>
      dome_inv p (dome_maskState (DOME_DOME_MASK OR DEVICE_BLOCK_OPEN OR DEVICE_BLOCK_CLOSE) (DOME_CLOSED OR DEVICE_BLOCK_OPEN) t)" for t
    using assms(2) by (intro closed_write_inv) simp_all
  have e: "dstate (demit x t) = dstate t" "dstate (setTimeout n t) = dstate t" for x t n
    by (simp_all add: demit_def setTimeout_def)
  show ?thesis
    using assms(1) by (simp add: closing_pass_def case_prod_beta Let_def keeps_dome w [simplified] e closing_state)
qed

lemma checkOpening_inv [keeps_dome]: "dome_inv p s \<Longrightarrow> dome_inv p (checkOpening d s)"
  by (simp add: checkOpening_def case_prod_beta Let_def keeps_dome)

lemma closeDomeWeather_inv [keeps_dome]: "dome_inv p s \<Longrightarrow> dome_inv p (snd (closeDomeWeather d s))"
  by (simp add: closeDomeWeather_def case_prod_beta Let_def keeps_dome)

lemma virtual_inv [keeps_dome]:
  "dome_inv p s \<Longrightarrow> dome_inv p (do_observing d s)" "dome_inv p s \<Longrightarrow> dome_inv p (do_standby d s)"
  "dome_inv p s \<Longrightarrow> dome_inv p (do_off d s)"
  by (simp_all add: do_observing_def do_standby_def do_off_def observing_def standby_def off_def Let_def keeps_dome)

lemma changeMasterState_inv [keeps_dome]: "dome_inv p s \<Longrightarrow> dome_inv p (changeMasterState d old new s)"
  by (simp only: changeMasterState_def Let_def keeps_dome split: if_split) simp

lemma setMasterState_inv [keeps_dome]: "dome_inv p s \<Longrightarrow> dome_inv p (setMasterState d i v s)"
  by (simp add: setMasterState_def Let_def keeps_dome)

lemma timers_fire_inv [keeps_dome]: "dome_inv p s \<Longrightarrow> dome_inv p (dome_timers d s)"
  unfolding dome_timers_def by (rule fold_inv) (simp_all add: dome_event_retry_def keeps_dome)

lemma weather_inv [keeps_dome]: "dome_inv p s \<Longrightarrow> dome_inv p (dome_weather d s)"
  by (simp add: dome_weather_def case_prod_beta Let_def keeps_dome)

lemma idle_inv [keeps_dome]: "dome_inv p s \<Longrightarrow> dome_inv p (dome_idle d s)"
  by (simp add: dome_idle_def keeps_dome)

lemma command_inv [keeps_dome]: "dome_inv p s \<Longrightarrow> dome_inv p (snd (commandAuthorized d c s))"
  by (cases c) (simp_all add: ok_or_num_def keeps_dome)

lemma step_inv: "dome_inv p s \<Longrightarrow> dome_inv p (dome_step d e s)"
  by (cases e) (simp_all add: master_status_def setWeatherTimeout_def Let_def keeps_dome)

end

sublocale dome_driver \<subseteq> dome_run: invariant_system "dome_inv p" "\<lambda>e s. True" "dome_step d" for p
  by unfold_locales (simp_all add: step_inv)

context dome_driver
begin

lemma dome_run_inv: "dome_inv p s \<Longrightarrow> dome_inv p (run_steps (dome_step d) es s)"
  using dome_run.inv_run [of p s es] by simp

end

subsection \<open>What a state word says\<close>

definition blocks_match :: "u32 \<Rightarrow> bool" where
  "blocks_match st \<longleftrightarrow>
     (st AND DOME_DOME_MASK = DOME_CLOSED \<longrightarrow> st AND DOME_BLOCKS = DEVICE_BLOCK_OPEN)
    \<and> (st AND DOME_DOME_MASK = DOME_OPENED \<longrightarrow> st AND DOME_BLOCKS = DEVICE_BLOCK_CLOSE)
    \<and> (st AND DOME_DOME_MASK = DOME_CLOSING \<longrightarrow> st AND DOME_BLOCKS = DEVICE_BLOCK_OPEN OR DEVICE_BLOCK_CLOSE)
    \<and> (st AND DOME_DOME_MASK = DOME_OPENING \<longrightarrow>
         st AND (DEVICE_BLOCK_OPEN OR DEVICE_BLOCK_CLOSE) = DEVICE_BLOCK_OPEN OR DEVICE_BLOCK_CLOSE)"

lemma blocks_match_field: "blocks_match (dome_field st) = blocks_match st"
proof -
  have "st AND DOME_BLOCKS = dome_field st AND DOME_BLOCKS"
    "st AND (DEVICE_BLOCK_OPEN OR DEVICE_BLOCK_CLOSE) = dome_field st AND (DEVICE_BLOCK_OPEN OR DEVICE_BLOCK_CLOSE)"
    by (rule field_sub, simp)+
  then show ?thesis by (simp only: blocks_match_def field_dome [of st])
qed

lemma field_says:
  assumes "field_ok p (dome_field st)"
  shows "dome_field st = found_phase p \<or> blocks_match st"
proof -
  have "list_all blocks_match field_list" by code_simp
  then have "dome_field st = found_phase p \<or> blocks_match (dome_field st)"
    using assms unfolding field_ok_def list_all_iff by blast
  then show ?thesis by (simp only: blocks_match_field)
qed

lemma found_match: "blocks_match DOME_UNKNOW"
  by (simp add: blocks_match_def)

lemma blocks_close:
  assumes m: "blocks_match st"
    and p: "st AND DOME_DOME_MASK \<in> {DOME_CLOSED, DOME_OPENING, DOME_OPENED, DOME_CLOSING}"
  shows "st AND DEVICE_BLOCK_CLOSE \<noteq> 0 \<longleftrightarrow> st AND DOME_DOME_MASK \<noteq> DOME_CLOSED"
proof -
  have b: "st AND DEVICE_BLOCK_CLOSE = (st AND DOME_BLOCKS) AND DEVICE_BLOCK_CLOSE"
    "st AND DEVICE_BLOCK_CLOSE = (st AND (DEVICE_BLOCK_OPEN OR DEVICE_BLOCK_CLOSE)) AND DEVICE_BLOCK_CLOSE"
    by (simp_all add: and.assoc)
  consider "st AND DOME_DOME_MASK = DOME_CLOSED" | "st AND DOME_DOME_MASK = DOME_OPENING"
    | "st AND DOME_DOME_MASK = DOME_OPENED" | "st AND DOME_DOME_MASK = DOME_CLOSING" using p by blast
  then show ?thesis
  proof cases
    case 1
    then have "st AND DOME_BLOCKS = DEVICE_BLOCK_OPEN" using m unfolding blocks_match_def by blast
    then show ?thesis using 1 unfolding b(1) by simp
  next
    case 2
    then have "st AND (DEVICE_BLOCK_OPEN OR DEVICE_BLOCK_CLOSE) = DEVICE_BLOCK_OPEN OR DEVICE_BLOCK_CLOSE"
      using m unfolding blocks_match_def by blast
    then show ?thesis using 2 unfolding b(2) by simp
  next
    case 3
    then have "st AND DOME_BLOCKS = DEVICE_BLOCK_CLOSE" using m unfolding blocks_match_def by blast
    then show ?thesis using 3 unfolding b(1) by simp
  next
    case 4
    then have "st AND DOME_BLOCKS = DEVICE_BLOCK_OPEN OR DEVICE_BLOCK_CLOSE" using m unfolding blocks_match_def by blast
    then show ?thesis using 4 unfolding b(1) by simp
  qed
qed

end
