(* ===== verification/Ford.thy ===== *)
theory Ford
  imports Rts2Prelude
begin

section \<open>The relay board\<close>

text \<open>
  \<open>FordConn\<close> (\<open>base/dome/src/connford.cpp\<close>): reading the two ports of the relay board and
  switching single pins. The board is on a serial line and not part of the program: the record
  \<open>ford\<close> holds, beside the two port states the class keeps, the bytes waiting on the line
  (\<open>rx\<close>), for each query of a port what comes back (\<open>replies\<close>, \<open>None\<close> when the query cannot be
  written), the results of the writes of a pin change (\<open>wok\<close>), and as output the port bytes
  written (\<open>pin_writes\<close>). When \<open>replies\<close> runs out queries fail, when \<open>wok\<close> does writes succeed.
\<close>

type_synonym u8 = "8 word"

record ford =
  stav_a :: u8
  stav_b :: u8
  rx :: "u8 list"
  replies :: "u8 list option list"
  wok :: "bool list"
  pin_writes :: "(nat \<times> u8) list"

abbreviation PORT_A :: nat where "PORT_A \<equiv> 0"
abbreviation PORT_B :: nat where "PORT_B \<equiv> 1"
abbreviation CTENI_PORTU :: u8 where "CTENI_PORTU \<equiv> 0"
abbreviation ZAPIS_NA_PORT :: u8 where "ZAPIS_NA_PORT \<equiv> 4"
abbreviation STAV_PORTU :: u8 where "STAV_PORTU \<equiv> 0"

definition stav :: "nat \<Rightarrow> 'a ford_scheme \<Rightarrow> u8" where
  "stav p f = (if p = PORT_A then stav_a f else stav_b f)"

definition next_byte :: "'a ford_scheme \<Rightarrow> u8 option \<times> 'a ford_scheme" where
  "next_byte f = (case rx f of [] \<Rightarrow> (None, f) | b # bs \<Rightarrow> (Some b, f\<lparr>rx := bs\<rparr>))"

definition ask :: "'a ford_scheme \<Rightarrow> bool \<times> 'a ford_scheme" where
  "ask f = (case replies f of
     [] \<Rightarrow> (False, f)
   | None # rs \<Rightarrow> (False, f\<lparr>replies := rs\<rparr>)
   | Some bs # rs \<Rightarrow> (True, f\<lparr>replies := rs, rx := rx f @ bs\<rparr>))"

definition readPortState :: "nat \<Rightarrow> 'a ford_scheme \<Rightarrow> u8 option \<times> 'a ford_scheme" where
  "readPortState p f =
     (let cmd = STAV_PORTU OR of_nat p; (sent, f1) = ask f in
      if \<not> sent then (None, f1)
      else case next_byte f1 of
        (None, f2) \<Rightarrow> (None, f2)
      | (Some echo, f2) \<Rightarrow>
          (case next_byte f2 of
             (None, f3) \<Rightarrow> (None, f3)
           | (Some st, f3) \<Rightarrow> (if echo \<noteq> cmd then None else Some st, f3)))"

definition flush :: "'a ford_scheme \<Rightarrow> 'a ford_scheme" where
  "flush f = f\<lparr>rx := []\<rparr>"

definition zjisti_stav_portu :: "'a ford_scheme \<Rightarrow> int \<times> 'a ford_scheme" where
  "zjisti_stav_portu f =
     (case readPortState PORT_A (flush f) of
        (None, f1) \<Rightarrow> (-1, flush f1)
      | (Some ca, f1) \<Rightarrow>
          (case readPortState PORT_B f1 of
             (None, f2) \<Rightarrow> (-1, flush f2)
           | (Some cb, f2) \<Rightarrow>
               if rx f2 \<noteq> [] then (-1, flush f2) else (0, f2\<lparr>stav_a := ca, stav_b := cb\<rparr>)))"

definition readStablePort :: "nat \<Rightarrow> 'a ford_scheme \<Rightarrow> int \<times> 'a ford_scheme" where
  "readStablePort p f =
     (let (r1, f1) = zjisti_stav_portu f in
      if r1 \<noteq> 0 then (-1, f1)
      else let (r2, f2) = zjisti_stav_portu f1 in
        if r2 \<noteq> 0 then (-1, f2)
        else (if stav p f2 \<noteq> stav p f1 then -1 else 0, f2))"

definition writePort :: "'a ford_scheme \<Rightarrow> bool \<times> 'a ford_scheme" where
  "writePort f = (case wok f of [] \<Rightarrow> (True, f) | b # bs \<Rightarrow> (b, f\<lparr>wok := bs\<rparr>))"

text \<open>The second half of \<open>zapni_pin\<close> and \<open>vypni_pin\<close>: the write command, then the port byte.\<close>

definition write_pin :: "nat \<Rightarrow> u8 \<Rightarrow> 'a ford_scheme \<Rightarrow> int \<times> 'a ford_scheme" where
  "write_pin p v f =
     (let (ok1, f1) = writePort f in
      if \<not> ok1 then (-1, f1)
      else let (ok2, f2) = writePort f1 in
        if \<not> ok2 then (-1, f2) else (0, f2\<lparr>pin_writes := pin_writes f2 @ [(p, v)]\<rparr>))"

definition zapni_pin :: "nat \<Rightarrow> u8 \<Rightarrow> 'a ford_scheme \<Rightarrow> int \<times> 'a ford_scheme" where
  "zapni_pin p pin f =
     (let (r, f1) = readStablePort p f in if r \<noteq> 0 then (-1, f1) else write_pin p (stav p f1 OR pin) f1)"

definition vypni_pin :: "nat \<Rightarrow> u8 \<Rightarrow> 'a ford_scheme \<Rightarrow> int \<times> 'a ford_scheme" where
  "vypni_pin p pin f =
     (let (r, f1) = readStablePort p f in if r \<noteq> 0 then (-1, f1) else write_pin p (stav p f1 AND NOT pin) f1)"

definition adresa :: "(nat \<times> u8) list" where
  "adresa = [(PORT_B, 1), (PORT_B, 2), (PORT_B, 4), (PORT_B, 8), (PORT_B, 16), (PORT_B, 32), (PORT_B, 64), (PORT_B, 128),
     (PORT_A, 1), (PORT_A, 2), (PORT_A, 4), (PORT_A, 8), (PORT_A, 16), (PORT_A, 32), (PORT_A, 64), (PORT_A, 128)]"

definition ZAP :: "nat \<Rightarrow> 'a ford_scheme \<Rightarrow> int \<times> 'a ford_scheme" where
  "ZAP i f = zapni_pin (fst (adresa ! i)) (snd (adresa ! i)) f"

definition VYP :: "nat \<Rightarrow> 'a ford_scheme \<Rightarrow> int \<times> 'a ford_scheme" where
  "VYP i f = vypni_pin (fst (adresa ! i)) (snd (adresa ! i)) f"

definition getPortState :: "nat \<Rightarrow> 'a ford_scheme \<Rightarrow> bool" where
  "getPortState i f \<longleftrightarrow> stav (fst (adresa ! i)) f AND snd (adresa ! i) \<noteq> 0"

definition isOn :: "nat \<Rightarrow> 'a ford_scheme \<Rightarrow> int \<times> 'a ford_scheme" where
  "isOn i f =
     (let (r, f1) = zjisti_stav_portu f in
      if r \<noteq> 0 then (-1, f1) else (if getPortState i f1 then 0 else 1, f1))"

text \<open>\<open>switchOffPins\<close>: several pins of one port in one write.\<close>

definition switchOffPins :: "nat list \<Rightarrow> 'a ford_scheme \<Rightarrow> int \<times> 'a ford_scheme" where
  "switchOffPins is f =
     (case is of
        [] \<Rightarrow> (-1, f)
      | i # js \<Rightarrow>
          if \<exists>j\<in>set js. fst (adresa ! j) \<noteq> fst (adresa ! i) then (-1, f)
          else vypni_pin (fst (adresa ! i)) (fold (\<lambda>j m. m OR snd (adresa ! j)) js (snd (adresa ! i))) f)"

subsection \<open>Reading\<close>

text \<open>
  The reply of a board that answers the two queries with its state; each reply is the echo of
  the query and the port byte.
\<close>

definition good_reply :: "u8 \<Rightarrow> u8 \<Rightarrow> u8 list option list" where
  "good_reply a b = [Some [0, a], Some [1, b]]"

text \<open>
  Stray bytes on the line do not shift the replies. Whatever bytes were waiting, when the board
  answers both queries the ports are read as they are, and nothing is left on the line.
\<close>

theorem replies_resynchronised:
  assumes "replies f = good_reply a b @ rs"
  shows "fst (zjisti_stav_portu f) = 0
    \<and> (let f' = snd (zjisti_stav_portu f) in stav PORT_A f' = a \<and> stav PORT_B f' = b \<and> rx f' = [] \<and> replies f' = rs
         \<and> pin_writes f' = pin_writes f)"
  using assms
  by (simp add: zjisti_stav_portu_def readPortState_def ask_def next_byte_def flush_def good_reply_def stav_def Let_def)

definition new_ford :: "u8 list option list \<Rightarrow> ford" where
  "new_ford rs = \<lparr>stav_a = 0, stav_b = 0, rx = [], replies = rs, wok = [], pin_writes = []\<rparr>"

lemma replies_resynchronised_witness:
  "stav PORT_B (snd (zjisti_stav_portu ((new_ford (good_reply 5 64))\<lparr>rx := [7, 7, 7]\<rparr>))) = 64"
  using replies_resynchronised [of "(new_ford (good_reply 5 64))\<lparr>rx := [7, 7, 7]\<rparr>" 5 64 "[]"]
  by (simp add: new_ford_def Let_def)

lemma zjisti_writes [simp]: "pin_writes (snd (zjisti_stav_portu f)) = pin_writes f"
  by (auto simp: zjisti_stav_portu_def readPortState_def ask_def next_byte_def flush_def Let_def
      split: list.split option.split prod.split)

subsection \<open>Switching pins\<close>

lemma stable_reads:
  assumes "readStablePort p f = (0, f1)"
  shows "stav p f1 = stav p (snd (zjisti_stav_portu f)) \<and> fst (zjisti_stav_portu f) = 0
    \<and> f1 = snd (zjisti_stav_portu (snd (zjisti_stav_portu f)))"
  using assms by (auto simp: readStablePort_def Let_def split: prod.splits if_splits)

lemma readStable_writes [simp]: "pin_writes (snd (readStablePort p f)) = pin_writes f"
  by (simp add: readStablePort_def Let_def case_prod_beta)

lemma write_pin_writes:
  "fst (write_pin p v f) = 0 \<Longrightarrow> pin_writes (snd (write_pin p v f)) = pin_writes f @ [(p, v)]"
  "fst (write_pin p v f) \<noteq> 0 \<Longrightarrow> pin_writes (snd (write_pin p v f)) = pin_writes f"
  by (auto simp: write_pin_def writePort_def Let_def split: list.splits prod.splits if_splits)

text \<open>A switched pin: two reads that agree, then one write.\<close>

definition switched :: "nat \<Rightarrow> (u8 \<Rightarrow> u8) \<Rightarrow> 'a ford_scheme \<Rightarrow> int \<times> 'a ford_scheme \<Rightarrow> bool" where
  "switched p h f res \<longleftrightarrow>
     (if fst res = 0
      then let f1 = snd (zjisti_stav_portu f); f2 = snd (zjisti_stav_portu f1) in
        stav p f1 = stav p f2 \<and> pin_writes (snd res) = pin_writes f @ [(p, h (stav p f2))]
      else pin_writes (snd res) = pin_writes f)"

lemma switched_pin:
  "switched p h f (let (r, f1) = readStablePort p f in if r \<noteq> 0 then (-1, f1) else write_pin p (h (stav p f1)) f1)"
proof -
  obtain r f1 where rs: "readStablePort p f = (r, f1)" by fastforce
  have w: "pin_writes f1 = pin_writes f" using readStable_writes [of p f] rs by simp
  show ?thesis
  proof (cases "r = 0")
    case False
    then show ?thesis using rs w by (simp add: switched_def)
  next
    case True
    have a: "stav p (snd (zjisti_stav_portu f)) = stav p f1"
      and c: "snd (zjisti_stav_portu (snd (zjisti_stav_portu f))) = f1"
      using stable_reads [OF rs [unfolded True]] by metis+
    note wr = write_pin_writes [of p "h (stav p f1)" f1]
    show ?thesis
    proof (cases "fst (write_pin p (h (stav p f1)) f1) = 0")
      case ok: True
      then show ?thesis using rs True a c wr(1) [OF ok] w by (simp add: switched_def Let_def)
    next
      case bad: False
      then show ?thesis using rs True wr(2) [OF bad] w by (simp add: switched_def)
    qed
  qed
qed

text \<open>
  A pin is switched alone. When \<open>ZAP\<close> or \<open>VYP\<close> reports success, the board was read twice in a row
  with the same byte of that port, and the byte written differs from it in the pin asked at most;
  when it reports an error no port byte has been accepted by the board.
\<close>

theorem pin_written_alone:
  "switched p (\<lambda>v. v AND NOT pin) f (vypni_pin p pin f) \<and> switched p (\<lambda>v. v OR pin) f (zapni_pin p pin f)"
  using switched_pin [of p "\<lambda>v. v AND NOT pin" f] switched_pin [of p "\<lambda>v. v OR pin" f]
  by (simp add: vypni_pin_def zapni_pin_def)

end
