(* ===== verification/Bart.thy ===== *)
theory Bart
  imports DomeProps Ford
begin

section \<open>The roof of BART\<close>

text \<open>
  The driver \<open>Bart\<close> (\<open>base/dome/bart/bart.cpp\<close>) on the relay board: the virtual functions of
  \<open>Dome\<close> and its own \<open>idle\<close>. Its fields extend those of the board. \<open>time (NULL)\<close> is
  \<open>dnow\<close> in whole seconds; the pauses between the commands to the board are left out, so time
  stands still within a call. The displayed values and the wall sockets' values are left out.
\<close>

subsection \<open>Fields and pins\<close>

record bart = ford +
  openTimeout :: int
  closeTimeout :: int
  roofFoundOpen :: bool
  lastRoofCheck :: int
  nextQuietClose :: int

abbreviation MOTOR :: nat where "MOTOR \<equiv> 6"
abbreviation SMER :: nat where "SMER \<equiv> 7"
abbreviation KONCAK_ZAVRENI_JIH :: nat where "KONCAK_ZAVRENI_JIH \<equiv> 9"
abbreviation KONCAK_OTEVRENI_JIH :: nat where "KONCAK_OTEVRENI_JIH \<equiv> 10"
abbreviation CAS_NA_OTEVRENI :: int where "CAS_NA_OTEVRENI \<equiv> 20"
abbreviation ROOF_CHECK_INTERVAL :: int where "ROOF_CHECK_INTERVAL \<equiv> 10"
abbreviation ROOF_RECLOSE_INTERVAL :: int where "ROOF_RECLOSE_INTERVAL \<equiv> 120"

definition now_s :: "'h dome \<Rightarrow> int" where
  "now_s s = dnow s div USEC_SEC"

definition on_hw :: "('h \<Rightarrow> int \<times> 'h) \<Rightarrow> 'h dome \<Rightarrow> int \<times> 'h dome" where
  "on_hw f s = (let (r, h) = f (hw s) in (r, s\<lparr>hw := h\<rparr>))"

text \<open>\<open>stopMotor\<close>: up to three attempts to switch the motor off and see it off.\<close>

fun stop_motor :: "nat \<Rightarrow> 'a ford_scheme \<Rightarrow> int \<times> 'a ford_scheme" where
  "stop_motor 0 f = (-1, f)"
| "stop_motor (Suc n) f =
     (let (r, f1) = VYP MOTOR f in
      if r \<noteq> 0 then stop_motor n f1
      else let (m, f2) = isOn MOTOR f1 in if m = 1 then (0, f2) else stop_motor n f2)"

definition stopMotor :: "'a ford_scheme \<Rightarrow> int \<times> 'a ford_scheme" where
  "stopMotor f = stop_motor 3 f"

definition motorRunning :: "bool \<Rightarrow> 'a ford_scheme \<Rightarrow> bool \<times> 'a ford_scheme" where
  "motorRunning closing f =
     (let (r, f1) = zjisti_stav_portu f in
      if r \<noteq> 0 then (False, f1) else (getPortState MOTOR f1 \<and> getPortState SMER f1 = closing, f1))"

subsection \<open>Opening\<close>

definition bart_endOpen :: "bart dome \<Rightarrow> int \<times> bart dome" where
  "bart_endOpen s =
     (let (r, h) = stopMotor (hw s)
      in (r, setTimeout USEC_SEC (s\<lparr>hw := (snd (zjisti_stav_portu h))\<lparr>openTimeout := 0\<rparr>\<rparr>)))"

text \<open>The part of \<open>startOpen\<close> and \<open>startClose\<close> that turns the motor on and looks at it.\<close>

definition run_motor :: "bool \<Rightarrow> 'a ford_scheme \<Rightarrow> int \<times> 'a ford_scheme" where
  "run_motor closing f =
     (let (r, f1) = ZAP MOTOR f;
          (ok, f2) = (if r \<noteq> 0 then (False, f1) else motorRunning closing f1)
      in if \<not> ok then (-1, snd (stopMotor f2)) else (0, f2))"

definition start_opening :: "int \<Rightarrow> bart \<Rightarrow> int \<times> bart" where
  "start_opening t f =
     (let (r1, f1) = stopMotor f in
      if r1 \<noteq> 0 then (-1, f1)
      else let (r2, f2) = VYP SMER f1;
               (m, f3) = (if r2 \<noteq> 0 then (-1, f2) else isOn SMER f2)
           in if m \<noteq> 1 then (-1, f3)
              else let (r, f4) = run_motor False f3 in
                if r \<noteq> 0 then (-1, f4)
                else (0, f4\<lparr>closeTimeout := 0, openTimeout := t + CAS_NA_OTEVRENI\<rparr>))"

definition bart_startOpen :: "bart dome \<Rightarrow> int \<times> bart dome" where
  "bart_startOpen s =
     (let (notOpened, s1) = on_hw (isOn KONCAK_OTEVRENI_JIH) s in
      if notOpened < 0 then (-1, s1)
      else if notOpened = 0 then bart_endOpen s1
      else on_hw (start_opening (now_s s1)) s1)"

definition bart_isOpened :: "bart dome \<Rightarrow> int \<times> bart dome" where
  "bart_isOpened s =
     (let (r, s1) = on_hw zjisti_stav_portu s in
      (if r = 0 \<and> getPortState KONCAK_OTEVRENI_JIH (hw s1) then -2
       else if openTimeout (hw s1) \<noteq> 0 \<and> openTimeout (hw s1) < now_s s1 then -2
       else USEC_SEC, s1))"

subsection \<open>Closing\<close>

definition bart_endClose :: "bart dome \<Rightarrow> int \<times> bart dome" where
  "bart_endClose s =
     (let (r, h) = stopMotor ((hw s)\<lparr>closeTimeout := 0\<rparr>);
          h1 = snd (VYP SMER h)
      in (r, s\<lparr>hw := snd (zjisti_stav_portu h1)\<rparr>))"

definition start_closing :: "int \<Rightarrow> bart \<Rightarrow> int \<times> bart" where
  "start_closing t f =
     (let (motor, f1) = isOn MOTOR f; (smer, f2) = isOn SMER f1 in
      if motor = -1 \<or> smer = -1 then (-1, f2)
      else if motor = 0 then
        if smer = 0
        then (0, if closeTimeout f2 = 0 then f2\<lparr>closeTimeout := t + CAS_NA_OTEVRENI\<rparr> else f2)
        else (-1, f2)
      else let (r2, f3) = ZAP SMER f2;
               (m, f4) = (if r2 \<noteq> 0 then (-1, f3) else isOn SMER f3)
           in if m \<noteq> 0 then (-1, f4)
              else let (r, f5) = run_motor True f4 in
                if r \<noteq> 0 then (-1, f5)
                else (0, f5\<lparr>openTimeout := 0, closeTimeout := t + CAS_NA_OTEVRENI\<rparr>))"

definition bart_startClose :: "bart dome \<Rightarrow> int \<times> bart dome" where
  "bart_startClose s =
     (let (notClosed, s1) = on_hw (isOn KONCAK_ZAVRENI_JIH) s in
      if notClosed < 0 then (-1, s1)
      else if notClosed = 0 then bart_endClose s1
      else on_hw (start_closing (now_s s1)) s1)"

definition bart_isClosed :: "bart dome \<Rightarrow> int \<times> bart dome" where
  "bart_isClosed s =
     (let (r, s1) = on_hw zjisti_stav_portu s in
      if r = 0 \<and> getPortState KONCAK_ZAVRENI_JIH (hw s1)
      then (-2, s1\<lparr>hw := (hw s1)\<lparr>roofFoundOpen := False\<rparr>\<rparr>)
      else if closeTimeout (hw s1) \<noteq> 0 \<and> closeTimeout (hw s1) < now_s s1 then (-1, s1)
      else (USEC_SEC, s1))"

subsection \<open>The wall sockets\<close>

text \<open>\<open>handle_zasuvky\<close>: every socket is on but the sixth, which is on while observing.\<close>

definition zasuvky_stavy :: "nat \<Rightarrow> bool list" where
  "zasuvky_stavy zas = [True, True, True, True, True, zas = 2]"

definition handle_zasuvky :: "nat \<Rightarrow> 'a ford_scheme \<Rightarrow> 'a ford_scheme" where
  "handle_zasuvky zas f =
     fold (\<lambda>i f. snd (if zasuvky_stavy zas ! i then VYP i f else ZAP i f)) [0..<6] f"

definition sockets :: "nat \<Rightarrow> bart dome \<Rightarrow> bart dome" where
  "sockets zas s = s\<lparr>hw := handle_zasuvky zas (hw s)\<rparr>"

subsection \<open>The driver\<close>

definition bart_driver :: "bart driver" where
  "bart_driver = \<lparr>startOpen_d = bart_startOpen, isOpened_d = bart_isOpened, endOpen_d = bart_endOpen,
     startClose_d = bart_startClose, isClosed_d = bart_isClosed, endClose_d = bart_endClose,
     stop_d = (\<lambda>s. (-1, s)), preObserving = sockets 2, postStandby = sockets 1, postOff = sockets 0\<rparr>"

definition closeFailing :: "'h dome \<Rightarrow> bool" where
  "closeFailing s \<longleftrightarrow> closeRetries s > 0 \<or> closeFailReported s \<noteq> 0"

text \<open>\<open>Bart::idle\<close>: a roof found open while it should be closed is closed quietly.\<close>

definition check_roof :: "bart dome \<Rightarrow> bart dome" where
  "check_roof s =
     (let s1 = s\<lparr>hw := (hw s)\<lparr>lastRoofCheck := dnow s\<rparr>\<rparr>;
          (r, s2) = on_hw zjisti_stav_portu s1
      in if r \<noteq> 0 then s2
         else if getPortState KONCAK_ZAVRENI_JIH (hw s2) then s2\<lparr>hw := (hw s2)\<lparr>roofFoundOpen := False\<rparr>\<rparr>
         else if \<not> getPortState MOTOR (hw s2) \<and> nextQuietClose (hw s2) < dnow s2
         then snd (domeCloseStart bart_driver True
                (s2\<lparr>hw := (hw s2)\<lparr>roofFoundOpen := True, nextQuietClose := dnow s2 + ROOF_RECLOSE_INTERVAL * USEC_SEC\<rparr>\<rparr>))
         else s2)"

definition bart_idle :: "bart dome \<Rightarrow> bart dome" where
  "bart_idle s =
     dome_idle bart_driver
       (if dstate s AND DOME_DOME_MASK = DOME_CLOSED \<and> auto_close s \<and> \<not> closeFailing s
           \<and> lastRoofCheck (hw s) + ROOF_CHECK_INTERVAL * USEC_SEC < dnow s \<and> dome_goodWeather s
        then check_roof s else s)"

text \<open>
  \<open>Bart::init\<close> after the port of the board is open: the roof is closed when only its closed switch is
  made, opened when only the other one is. The phase is written alone, without the blocks.
\<close>

definition bart_init :: "bart dome \<Rightarrow> int \<times> bart dome" where
  "bart_init s =
     (let (r, s1) = on_hw zjisti_stav_portu s;
          opened = getPortState KONCAK_OTEVRENI_JIH (hw s1);
          closed = getPortState KONCAK_ZAVRENI_JIH (hw s1)
      in if r \<noteq> 0 then (-1, s1)
         else (0, if closed \<and> \<not> opened then dome_maskState DOME_DOME_MASK DOME_CLOSED s1
                  else if opened \<and> \<not> closed then dome_maskState DOME_DOME_MASK DOME_OPENED s1 else s1))"

subsection \<open>It is a dome driver\<close>

definition touches :: "'h dome \<Rightarrow> 'h dome \<Rightarrow> bool" where
  "touches s s' \<longleftrightarrow> (\<exists>h t. s' = s\<lparr>hw := h, idle_timeout := t\<rparr>)"

lemma touches_hw: "touches s (s\<lparr>hw := h\<rparr>)"
  unfolding touches_def by (intro exI [of _ h] exI [of _ "idle_timeout s"]) simp

lemma touches_trans: "touches s s1 \<Longrightarrow> touches s1 s2 \<Longrightarrow> touches s s2"
  unfolding touches_def by fastforce

lemma touches_on_hw: "touches s (snd (on_hw f s))"
  by (simp add: on_hw_def case_prod_beta touches_hw)

lemma touches_ends: "touches s (snd (bart_endOpen s))" "touches s (snd (bart_endClose s))"
  by (auto simp: bart_endOpen_def bart_endClose_def case_prod_beta setTimeout_def touches_hw) (auto simp: touches_def)

lemma touches_starts: "touches s (snd (bart_startOpen s))" "touches s (snd (bart_startClose s))"
  by (auto simp: bart_startOpen_def bart_startClose_def case_prod_beta Let_def
      intro: touches_on_hw touches_trans [OF touches_on_hw touches_ends(1)]
        touches_trans [OF touches_on_hw touches_ends(2)] touches_trans [OF touches_on_hw touches_on_hw])

lemma touches_checks: "touches s (snd (bart_isOpened s))" "touches s (snd (bart_isClosed s))"
  by (auto simp: bart_isOpened_def bart_isClosed_def case_prod_beta Let_def
      intro: touches_on_hw touches_trans [OF touches_on_hw touches_hw])

lemma touches_refl: "touches s s"
  using touches_hw [of s "hw s"] by simp

lemma own_fields_touches: "(\<And>s. touches s (f s)) \<Longrightarrow> own_fields f"
  by (simp add: own_fields_def touches_def)

interpretation bart_dome: dome_driver bart_driver
  by unfold_locales (rule own_fields_touches,
      simp add: bart_driver_def touches_starts touches_checks touches_ends touches_refl touches_hw sockets_def)+

subsection \<open>The motor\<close>

lemma stop_motor_off: "fst (stop_motor n f) = 0 \<Longrightarrow> \<not> getPortState MOTOR (snd (stop_motor n f))"
  by (induction n arbitrary: f) (auto simp: Let_def isOn_def split: prod.splits if_splits)

lemma run_motor_runs:
  "fst (run_motor c f) = 0 \<Longrightarrow>
   getPortState MOTOR (snd (run_motor c f)) \<and> getPortState SMER (snd (run_motor c f)) = c"
  by (auto simp: run_motor_def motorRunning_def Let_def split: prod.splits if_splits)

lemma run_motor_fails:
  assumes "fst (run_motor c f) \<noteq> 0"
  shows "\<exists>g. snd (run_motor c f) = snd (stopMotor g)"
proof -
  obtain r f1 where z: "ZAP MOTOR f = (r, f1)" by fastforce
  obtain ok f2 where m: "(if r \<noteq> 0 then (False, f1) else motorRunning c f1) = (ok, f2)" by fastforce
  have "run_motor c f = (if \<not> ok then (-1, snd (stopMotor f2)) else (0, f2))"
    unfolding run_motor_def z Let_def prod.case m by (simp only: prod.case)
  then show ?thesis using assms by (auto split: if_splits)
qed

lemma timeouts_port [simp]:
  "getPortState i (f\<lparr>openTimeout := y\<rparr>) = getPortState i f"
  "getPortState i (f\<lparr>closeTimeout := x\<rparr>) = getPortState i f"
  by (simp_all add: getPortState_def stav_def)

lemma isOn_reads:
  "fst (isOn i f) = 0 \<Longrightarrow> getPortState i (snd (isOn i f))"
  "fst (isOn i f) = 1 \<Longrightarrow> \<not> getPortState i (snd (isOn i f))"
  by (auto simp: isOn_def Let_def split: prod.splits if_splits)

lemma start_opening_runs:
  assumes "fst (start_opening t f) = 0"
  shows "\<exists>g. fst (run_motor False g) = 0
    \<and> snd (start_opening t f) = (snd (run_motor False g))\<lparr>closeTimeout := 0, openTimeout := t + CAS_NA_OTEVRENI\<rparr>"
  using assms by (auto simp: start_opening_def Let_def split: prod.splits if_splits) (metis fst_conv snd_conv)+

lemma start_closing_runs:
  assumes "fst (start_closing t f) = 0"
  shows "(\<exists>g. fst (run_motor True g) = 0
      \<and> snd (start_closing t f) = (snd (run_motor True g))\<lparr>openTimeout := 0, closeTimeout := t + CAS_NA_OTEVRENI\<rparr>)
    \<or> (fst (isOn MOTOR f) = 0 \<and> getPortState SMER (snd (start_closing t f)))"
proof -
  obtain m f1 where m: "isOn MOTOR f = (m, f1)" by fastforce
  obtain sm f2 where sm: "isOn SMER f1 = (sm, f2)" by fastforce
  show ?thesis
  proof (cases "m = 0")
    case True
    then show ?thesis using assms m sm isOn_reads(1) [of SMER f1] by (auto simp: start_closing_def split: if_splits)
  next
    case False
    obtain r2 f3 where r2: "ZAP SMER f2 = (r2, f3)" by fastforce
    obtain k f4 where k: "(if r2 \<noteq> 0 then (-1, f3) else isOn SMER f3) = (k, f4)" by fastforce
    obtain r f5 where r: "run_motor True f4 = (r, f5)" by fastforce
    have "start_closing t f = (if m = -1 \<or> sm = -1 then (-1, f2) else if k \<noteq> 0 then (-1, f4)
        else if r \<noteq> 0 then (-1, f5) else (0, f5\<lparr>openTimeout := 0, closeTimeout := t + CAS_NA_OTEVRENI\<rparr>))"
      unfolding start_closing_def m sm r2 Let_def prod.case k r using False by simp
    then have "r = 0 \<and> snd (start_closing t f) = f5\<lparr>openTimeout := 0, closeTimeout := t + CAS_NA_OTEVRENI\<rparr>"
      using assms by (simp split: if_splits)
    then show ?thesis using r by (metis fst_conv snd_conv)
  qed
qed

text \<open>
  The roof motor runs the right way or the start has failed. When the opening of the roof is
  reported as started, the last reading of the board shows the motor on and its direction opening;
  when the closing is, the direction is closing, and the motor is on in the last reading or it was
  already in the first one.
\<close>

theorem motor_direction:
  "(fst (start_opening t f) = 0 \<longrightarrow>
      getPortState MOTOR (snd (start_opening t f)) \<and> \<not> getPortState SMER (snd (start_opening t f)))
   \<and> (fst (start_closing t f) = 0 \<longrightarrow> getPortState SMER (snd (start_closing t f))
      \<and> (getPortState MOTOR (snd (start_closing t f)) \<or> fst (isOn MOTOR f) = 0))"
  using start_opening_runs [of t f] start_closing_runs [of t f] run_motor_runs by fastforce

text \<open>A board that answers every query with the same ports.\<close>

definition still_board :: "nat \<Rightarrow> u8 \<Rightarrow> u8 \<Rightarrow> u8 list option list" where
  "still_board n a b = concat (replicate n (good_reply a b))"

definition new_bart :: "u8 list option list \<Rightarrow> bart" where
  "new_bart rs = \<lparr>stav_a = 0, stav_b = 0, rx = [], replies = rs, wok = [], pin_writes = [], openTimeout = 0,
     closeTimeout = 0, roofFoundOpen = False, lastRoofCheck = 0, nextQuietClose = 0\<rparr>"

lemma motor_direction_witness:
  "getPortState SMER (snd (start_closing 100 (new_bart (still_board 9 0 192))))"
proof -
  have "fst (start_closing 100 (new_bart (still_board 9 0 192))) = 0" by code_simp
  then show ?thesis using motor_direction [of 100 "new_bart (still_board 9 0 192)"] by blast
qed

end
