(* ===== verification/DomeSafety.thy ===== *)
theory DomeSafety
  imports Bart
begin

section \<open>What domes do\<close>

text \<open>
  The properties of \<open>Dome\<close> for every driver that touches only its own fields (\<open>dome_driver\<close>), in runs of the
  events of \<open>dome_event\<close> from the state its \<open>init\<close> leaves (\<open>start_dome\<close>), and the one of BART's roof that its
  closed state comes from the closed switch. The witnesses are BART's driver on a board that answers.
\<close>

text \<open>The state after the constructor and \<open>Dome::init\<close>, at time 0.\<close>

definition new_dome :: "'h \<Rightarrow> conn list \<Rightarrow> 'h dome" where
  "new_dome h cs = \<lparr>hw = h, dstate = DOME_UNKNOW, masterState = SERVERD_HARD_OFF, centralds = cs, stateMasterConn = None,
     dnow = 0, ignoreTimeout = 0, nextGoodWeather = 10 * USEC_SEC, centraldLastContactTime = 0,
     initialSettleTime = 12 * USEC_SEC, weatherOpensDome = False, domeAutoClose = None, closeFailReported = 0,
     closeRetries = 0, quietClose = False, weatherCloseLogged = False, closeRepeatTime = 3 * USEC_SEC, dtimers = [],
     idle_timeout = 5 * USEC_SEC, last_weathermsg = None, device_name = ''DOME'', douts = []\<rparr>"

text \<open>The state in which the events begin: \<open>init\<close> has written the phase it found, if any.\<close>

definition start_dome :: "found \<Rightarrow> 'h \<Rightarrow> conn list \<Rightarrow> 'h dome" where
  "start_dome p h cs =
     (if p = FoundNothing then new_dome h cs else dome_maskState DOME_DOME_MASK (found_phase p) (new_dome h cs))"

lemma found_write: "dome_field (mask_word DOME_DOME_MASK (found_phase p) DOME_UNKNOW) = found_phase p"
  unfolding dome_field_mask by (induction p) code_simp+

lemma start_dome_inv: "dome_inv p (start_dome p h cs)"
proof -
  have "field_ok p (dome_field (mask_word DOME_DOME_MASK (found_phase p) DOME_UNKNOW))"
    unfolding found_write by (simp add: field_ok_def)
  moreover have "field_ok FoundNothing (dome_field DOME_UNKNOW)" by code_simp
  ultimately show ?thesis
    by (simp add: start_dome_def dome_inv_def new_dome_def dome_maskState_def dome_setState_def demit_def) metis
qed

lemma run_dome_inv: "dome_driver d \<Longrightarrow> dome_inv p (run_steps (dome_step d) es (start_dome p h cs))"
  by (rule dome_driver.dome_run_inv [OF _ start_dome_inv])

text \<open>BART's \<open>init\<close> is one of these starts.\<close>

lemma bart_init_found:
  "\<exists>p h'. p \<in> {FoundNothing, FoundClosed, FoundOpened} \<and> snd (bart_init (new_dome h cs)) = start_dome p h' cs"
proof -
  have hw: "(new_dome h cs)\<lparr>hw := h'\<rparr> = new_dome h' cs" for h' :: bart by (simp add: new_dome_def)
  obtain r h' where z: "zjisti_stav_portu h = (r, h')" by fastforce
  then have on: "on_hw zjisti_stav_portu (new_dome h cs) = (r, new_dome h' cs)"
    by (simp add: on_hw_def hw) (simp add: new_dome_def)
  have "snd (bart_init (new_dome h cs)) \<in> {start_dome FoundNothing h' cs, start_dome FoundClosed h' cs, start_dome FoundOpened h' cs}"
    unfolding bart_init_def on by (simp add: start_dome_def Let_def)
  then show ?thesis by blast
qed

text \<open>BART's daemon: its events are those of a dome, with the \<open>idle\<close> of its own.\<close>

definition bart_step :: "dome_event \<Rightarrow> bart dome \<Rightarrow> bart dome" where
  "bart_step e s = (if e = DIdle then bart_idle s else dome_step bart_driver e s)"

lemma bart_idle_inv: "dome_inv p s \<Longrightarrow> dome_inv p (bart_idle s)"
proof -
  assume s: "dome_inv p s"
  have h: "dome_inv p (u\<lparr>hw := h\<rparr>) = dome_inv p u" for u :: "bart dome" and h by (simp add: dome_inv_def)
  obtain r s2 where o: "on_hw zjisti_stav_portu (s\<lparr>hw := (hw s)\<lparr>lastRoofCheck := dnow s\<rparr>\<rparr>) = (r, s2)" by fastforce
  then have "dome_inv p s2" using s by (auto simp: on_hw_def case_prod_beta h)
  then have "dome_inv p (check_roof s)"
    by (simp add: check_roof_def o h bart_dome.closeStart_inv)
  then show ?thesis using s by (simp add: bart_idle_def bart_dome.idle_inv)
qed

interpretation bart_daemon: invariant_system "dome_inv p" "\<lambda>e s. True" bart_step for p
  by unfold_locales (simp_all add: bart_step_def bart_idle_inv bart_dome.step_inv)

lemma bart_daemon_safe:
  "StartOpen False \<notin> set (douts (run_steps bart_step es (start_dome p h cs)))"
  "dome_field (dstate (run_steps bart_step es (start_dome p h cs))) = found_phase p
   \<or> blocks_match (dstate (run_steps bart_step es (start_dome p h cs)))"
proof -
  have "dome_inv p (run_steps bart_step es (start_dome p h cs))"
    using bart_daemon.inv_run [OF start_dome_inv, of es p] by simp
  then show "StartOpen False \<notin> set (douts (run_steps bart_step es (start_dome p h cs)))"
    "dome_field (dstate (run_steps bart_step es (start_dome p h cs))) = found_phase p
     \<or> blocks_match (dstate (run_steps bart_step es (start_dome p h cs)))"
    using field_says by (simp_all add: dome_inv_def)
qed

text \<open>A connection to a centrald that reports a state, and a closed roof before that centrald.\<close>

definition centrald_conn :: "nat \<Rightarrow> u32 \<Rightarrow> conn" where
  "centrald_conn i st = (idle_conn i)\<lparr>cstate := CONN_CONNECTED, serverState := \<lparr>ss_value = st, ss_old = st\<rparr>\<rparr>"

subsection \<open>Opening\<close>

text \<open>
  C2: the roof is opened only in weather the dome finds good. In every run, from every phase the
  driver's \<open>init\<close> may have found, whatever the centralds send and the clients command, each time
  the driver is told to start opening, the dome ignores the weather by order, or every centrald is
  connected and reports good weather and the time of the next opening has come.
\<close>

theorem roof_opens_in_good_weather:
  assumes "dome_driver d"
  shows "StartOpen False \<notin> set (douts (run_steps (dome_step d) es (start_dome p h cs)))"
  using run_dome_inv [OF assms, of p es h cs] by (simp add: dome_inv_def)

lemma roof_opens_in_good_weather_witness:
  "let s = run_steps (dome_step bart_driver) [DTime (20 * USEC_SEC) [centrald_conn 1 0], DCommand Open]
       (start_dome FoundClosed (new_bart (still_board 20 2 0)) [])
   in StartOpen True \<in> set (douts s) \<and> StartOpen False \<notin> set (douts s)"
proof -
  let ?s = "run_steps (dome_step bart_driver) [DTime (20 * USEC_SEC) [centrald_conn 1 0], DCommand Open]
       (start_dome FoundClosed (new_bart (still_board 20 2 0)) [])"
  have "StartOpen True \<in> set (douts ?s)" by code_simp
  moreover have "StartOpen False \<notin> set (douts ?s)"
    by (rule roof_opens_in_good_weather [OF bart_dome.dome_driver_axioms])
  ultimately show ?thesis by (simp only: Let_def simp_thms)
qed

lemma dome_field_eq: "dome_field st = st AND (DOME_DOME_MASK OR DOME_BLOCKS)"
  by (simp add: dome_field_def)

text \<open>
  C20: the blocks of a dome tell its state. In every run of a driver that touches only its own fields, a
  closed dome blocks opening (it has to be opened) and nothing else, an open one blocks closing and
  nothing else, a closing one both and no exposure or move, and an opening one both; the only exception
  is a dome that is still in the phase its driver's \<open>init\<close> has found, with none of these blocks
  set. Once it has left this phase without blocks it does not come back to it.
\<close>

theorem blocks_tell_state:
  assumes "dome_driver d"
  shows "let unset = (\<lambda>s. p \<noteq> FoundNothing \<and> dstate s AND (DOME_DOME_MASK OR DOME_BLOCKS) = found_phase p);
             s = run_steps (dome_step d) es (start_dome p h cs)
    in (blocks_match (dstate s) \<or> unset s) \<and> (\<not> unset s \<longrightarrow> \<not> unset (run_steps (dome_step d) es' s))"
proof -
  let ?s = "run_steps (dome_step d) es (start_dome p h cs)" and ?u = "\<lambda>s. p \<noteq> FoundNothing \<and> dome_field (dstate s) = found_phase p"
  have inv: "dome_inv p ?s" by (rule run_dome_inv [OF assms])
  then have says: "dome_field (dstate ?s) = found_phase p \<or> blocks_match (dstate ?s)"
    using field_says [of p "dstate ?s"] by (simp add: dome_inv_def)
  have "blocks_match (dstate ?s) \<or> ?u ?s"
  proof (cases "p = FoundNothing \<and> dome_field (dstate ?s) = found_phase p")
    case True
    then have "dome_field (dstate ?s) = DOME_UNKNOW" by (metis found_phase.simps(1))
    then have "blocks_match (dome_field (dstate ?s))" using found_match by (simp only:)
    then show ?thesis by (simp only: blocks_match_field simp_thms)
  next
    case False
    then show ?thesis using says by blast
  qed
  moreover have "\<not> ?u (run_steps (dome_step d) es' ?s)" if n: "\<not> ?u ?s"
  proof
    assume u: "?u (run_steps (dome_step d) es' ?s)"
    then have "dome_field (dstate ?s) \<noteq> found_phase p" using n by blast
    then have "dome_inv FoundNothing ?s" using inv by (simp add: dome_inv_def field_ok_def)
    then have "dome_inv FoundNothing (run_steps (dome_step d) es' ?s)" by (rule dome_driver.dome_run_inv [OF assms])
    then have "field_ok FoundNothing (found_phase p)" using u by (simp add: dome_inv_def)
    moreover have "p \<noteq> FoundNothing \<Longrightarrow> \<not> field_ok FoundNothing (found_phase p)" by (induction p) (simp, code_simp+)
    ultimately show False using u by blast
  qed
  ultimately show ?thesis unfolding Let_def dome_field_eq by blast
qed

lemma blocks_tell_state_witness:
  "blocks_match (dstate (run_steps (dome_step bart_driver) [DCommand Close] (start_dome FoundNothing (new_bart (still_board 20 2 0)) [])))"
  using blocks_tell_state [OF bart_dome.dome_driver_axioms, of FoundNothing "[DCommand Close]" "new_bart (still_board 20 2 0)" "[]" "[]"]
  by (simp only: Let_def simp_thms)

text \<open>
  A roof found open at the start asks for nothing. With only the opened switch made, BART's \<open>init\<close> leaves
  an opened dome that does not block closing, so a centrald does not ask it to close.
\<close>

lemma found_open_blocks_nothing:
  "let s = snd (bart_init (new_dome (new_bart (still_board 20 4 0)) []))
   in dstate s AND DOME_DOME_MASK = DOME_OPENED \<and> dstate s AND DOME_BLOCKS = 0 \<and> \<not> blocks_match (dstate s)"
  by code_simp

subsection \<open>Closing\<close>

text \<open>What a close leaves: the closed state, a roof that moves or waits to, or a retry to come.\<close>

definition closing_goes_on :: "'h dome \<Rightarrow> bool" where
  "closing_goes_on s \<longleftrightarrow>
     dstate s AND DOME_DOME_MASK \<in> {DOME_CLOSED, DOME_CLOSING, DOME_WAIT_CLOSING}
     \<or> dnow s + DOME_CLOSE_FAIL_RETRY * USEC_SEC \<in> set (dtimers s)"

lemma mask_dome:
  "dstate (dome_maskState m n s) = mask_word m n (dstate s)" "dtimers (dome_maskState m n s) = dtimers s"
  "dnow (dome_maskState m n s) = dnow s"
  by (simp_all add: dome_maskState_def dome_setState_def demit_def)

interpretation dome_word: masked_state dstate dome_maskState
  by unfold_locales (rule mask_dome(1))

lemma field_of_write:
  "DOME_DOME_MASK AND m = DOME_DOME_MASK \<Longrightarrow> dstate (dome_maskState m n s) AND DOME_DOME_MASK = n AND DOME_DOME_MASK"
  by (rule dome_word.field_written)

lemma closeStart_goes_on:
  assumes "dome_driver d"
  shows "closing_goes_on (snd (domeCloseStart d q s))"
proof -
  let ?s1 = "snd (isClosed_d d ((deleteRetryTimers s)\<lparr>quietClose := q\<rparr>))"
  let ?s2 = "snd (startClose_d d (demit StartClose ?s1))"
  have "closing_goes_on ((dome_maskState (DOME_DOME_MASK OR DOME_BLOCKS) (DOME_CLOSED OR DEVICE_BLOCK_OPEN) ?s1)\<lparr>closeRetries := 0\<rparr>)"
    using field_of_write [of "DOME_DOME_MASK OR DOME_BLOCKS" "DOME_CLOSED OR DEVICE_BLOCK_OPEN" ?s1]
    by (simp add: closing_goes_on_def)
  moreover have "closing_goes_on (addRetryTimer (DOME_CLOSE_FAIL_RETRY * USEC_SEC) (report_close_fail ?s2))"
    by (simp add: closing_goes_on_def addRetryTimer_def report_close_fail_def demit_def set_insort_insert)
  moreover have "closing_goes_on (addRetryTimer t
      (dome_maskState (DOME_DOME_MASK OR BOP_EXPOSURE OR BOP_TEL_MOVE) DOME_WAIT_CLOSING ?s2))" for t
    using field_of_write [of "DOME_DOME_MASK OR BOP_EXPOSURE OR BOP_TEL_MOVE" DOME_WAIT_CLOSING ?s2]
    by (simp add: closing_goes_on_def addRetryTimer_def)
  moreover have "closing_goes_on (dome_maskState (DOME_DOME_MASK OR DOME_BLOCKS)
      (DOME_CLOSING OR DEVICE_BLOCK_OPEN OR DEVICE_BLOCK_CLOSE) (?s2\<lparr>closeFailReported := 0\<rparr>))"
    using field_of_write [of "DOME_DOME_MASK OR DOME_BLOCKS" "DOME_CLOSING OR DEVICE_BLOCK_OPEN OR DEVICE_BLOCK_CLOSE"
        "?s2\<lparr>closeFailReported := 0\<rparr>"]
    by (simp add: closing_goes_on_def)
  ultimately show ?thesis
    by (simp add: domeCloseStart_def case_prod_beta Let_def)
qed

text \<open>What the verdict on the weather depends on.\<close>

definition weather_view :: "'h dome \<Rightarrow> int \<times> int \<times> conn list \<times> int \<times> bool option" where
  "weather_view s = (dnow s, ignoreTimeout s, centralds s, nextGoodWeather s, domeAutoClose s)"

lemma weather_view_cong:
  "weather_view s' = weather_view s \<Longrightarrow>
   dome_goodWeather s' = dome_goodWeather s \<and> getIgnoreMeteo s' = getIgnoreMeteo s \<and> auto_close s' = auto_close s"
  by (simp add: weather_view_def dome_goodWeather_def getIgnoreMeteo_def centralds_good_def auto_close_def)

lemma weather_view_simps [simp]:
  "weather_view (dome_maskState m n s) = weather_view s" "weather_view (setTimeout t s) = weather_view s"
  "weather_view (demit e s) = weather_view s" "weather_view (closeFailed s) = weather_view s"
  "weather_view (s\<lparr>quietClose := b\<rparr>) = weather_view s" "weather_view (s\<lparr>closeRetries := r\<rparr>) = weather_view s"
  "weather_view (s\<lparr>weatherCloseLogged := b\<rparr>) = weather_view s"
  by (simp_all add: weather_view_def dome_maskState_def dome_setState_def setTimeout_def demit_def closeFailed_def
      addRetryTimer_def)

lemma weather_view_driver:
  assumes "dome_driver d"
  shows "weather_view (snd (isOpened_d d s)) = weather_view s" "weather_view (snd (isClosed_d d s)) = weather_view s"
    "weather_view (snd (endOpen_d d s)) = weather_view s" "weather_view (snd (endClose_d d s)) = weather_view s"
  using own_fields_sel [OF dome_driver.isOpened_own [OF assms], of s] own_fields_sel [OF dome_driver.isClosed_own [OF assms], of s]
    own_fields_sel [OF dome_driver.endOpen_own [OF assms], of s] own_fields_sel [OF dome_driver.endClose_own [OF assms], of s]
  by (simp_all add: weather_view_def)

lemma checkOpening_view: "dome_driver d \<Longrightarrow> weather_view (checkOpening d s) = weather_view s"
  by (simp add: checkOpening_def opening_pass_def closing_pass_def case_prod_beta Let_def weather_view_driver)

lemma goes_on_simps:
  "closing_goes_on (setTimeout t s) = closing_goes_on s" "closing_goes_on (snd (setMasterStandby s)) = closing_goes_on s"
  "closing_goes_on (s\<lparr>centraldLastContactTime := x\<rparr>) = closing_goes_on s"
  by (simp_all add: closing_goes_on_def setTimeout_def setMasterStandby_def sendMasters_def que_masters_def)

lemma weather_bit_keeps:
  "dstate (dome_maskState WEATHER_MASK (if g then GOOD_WEATHER else BAD_WEATHER) s) AND DOME_DOME_MASK
    = dstate s AND DOME_DOME_MASK"
  by (rule dome_word.field_kept) simp_all

lemma goes_on_weather: "closing_goes_on (dome_setWeatherState g m s) = closing_goes_on s"
proof (cases g)
  case True
  then show ?thesis
    using weather_bit_keeps [of True s] by (simp add: dome_setWeatherState_def Let_def closing_goes_on_def mask_dome(2,3))
next
  case False
  then show ?thesis
    using weather_bit_keeps [of False s]
    by (simp add: dome_setWeatherState_def Let_def closing_goes_on_def que_masters_def mask_dome(2,3))
qed

lemma goes_on_own: "closing_goes_on (own_weather s) = closing_goes_on s"
  by (simp add: own_weather_def Let_def goes_on_weather goes_on_simps)

lemma goes_on_timers:
  assumes "dome_driver d" "closing_goes_on s"
  shows "closing_goes_on (dome_timers d s)"
  unfolding dome_timers_def
  using assms(2) by (rule fold_inv) (simp add: dome_event_retry_def closeStart_goes_on [OF assms(1)])

text \<open>
  C4: bad weather closes the roof. Once the initial settle time is over, and unless the dome is configured
  not to close by itself (\<open>auto_close\<close>), a pass of the idle loop in weather the dome does not find good
  leaves the roof closed, closing or waiting to close, or, when
  the close cannot start, with another attempt after half a minute.
\<close>

theorem bad_weather_closes_roof:
  assumes "dome_driver d" "\<not> dome_goodWeather s" "auto_close s" "initialSettleTime s \<le> dnow s"
  shows "closing_goes_on (dome_idle d s)"
proof -
  let ?s1 = "checkOpening d s"
  note cg = weather_view_cong [OF checkOpening_view [OF assms(1), of s]]
  have g: "\<not> dome_goodWeather ?s1" "auto_close ?s1" "\<not> getIgnoreMeteo ?s1"
    using cg assms(2,3) by (auto simp: dome_goodWeather_def)
  have a: "auto_close (?s1\<lparr>weatherCloseLogged := True\<rparr>)" using g(2) by (simp add: auto_close_def)
  have "closing_goes_on (snd (closeDomeWeather d ?s1))"
    using g by (simp add: closeDomeWeather_def case_prod_beta goes_on_simps closeStart_goes_on [OF assms(1)])
  then have "closing_goes_on (dome_weather d ?s1)"
    using g by (simp add: dome_weather_def case_prod_beta goes_on_simps)
  then show ?thesis
    using assms(4) goes_on_timers [OF assms(1)] by (simp add: dome_idle_def goes_on_own)
qed

lemma bad_weather_closes_roof_witness:
  "closing_goes_on (dome_idle bart_driver ((new_dome (new_bart (still_board 20 0 0)) [])\<lparr>dnow := 20 * USEC_SEC\<rparr>))"
  by (rule bad_weather_closes_roof [OF bart_dome.dome_driver_axioms])
    (simp_all add: new_dome_def dome_goodWeather_def getIgnoreMeteo_def centralds_good_def auto_close_def)

text \<open>
  C23: a close that fails is reported as closed and tried again. When a closing roof does not reach
  its closed switch, and the close is not a quiet one (of \<open>Bart::idle\<close>), the state sent to the centralds is
  \<open>DOME_CLOSED\<close> without the bit that asks for a close; the failure is reported as critical; while fewer
  than three retries have been counted another one is due after \<open>close_repeat_time\<close> and is counted, and
  after three none is added.
\<close>

theorem failed_close_reports_closed:
  assumes "dome_driver d" "dstate s AND DOME_DOME_MASK = DOME_CLOSING" "fst (isClosed_d d s) = -1"
    "\<not> quietClose s"
  shows "let s' = checkOpening d s in
    dstate s' AND DOME_DOME_MASK = DOME_CLOSED \<and> dstate s' AND DEVICE_BLOCK_CLOSE = 0 \<and> Critical \<in> set (douts s')
    \<and> (closeRetries s < DOME_CLOSE_MAX_RETRIES \<longrightarrow>
         closeRetries s' = closeRetries s + 1 \<and> dnow s + closeRepeatTime s \<in> set (dtimers s'))
    \<and> (DOME_CLOSE_MAX_RETRIES \<le> closeRetries s \<longrightarrow> closeRetries s' = closeRetries s \<and> dtimers s' = dtimers s)"
proof -
  let ?m = "DOME_DOME_MASK OR DEVICE_BLOCK_OPEN OR DEVICE_BLOCK_CLOSE"
  let ?n = "DOME_CLOSED OR DEVICE_BLOCK_OPEN"
  define s2 where "s2 = demit InfoAll (snd (endClose_d d (setTimeout (10 * USEC_SEC) (snd (isClosed_d d s)))))"
  have s2: "dnow s2 = dnow s" "closeRetries s2 = closeRetries s" "quietClose s2 = quietClose s"
    "closeRepeatTime s2 = closeRepeatTime s" "dstate s2 = dstate s" "dtimers s2 = dtimers s"
    using own_fields_sel [OF dome_driver.isClosed_own [OF assms(1)]] own_fields_sel [OF dome_driver.endClose_own [OF assms(1)]]
    by (simp_all add: s2_def demit_def setTimeout_def)
  define s3 where "s3 = dome_maskState ?m ?n s2"
  have s3: "dnow s3 = dnow s" "closeRetries s3 = closeRetries s" "quietClose s3 = quietClose s"
    "closeRepeatTime s3 = closeRepeatTime s" "dtimers s3 = dtimers s"
    using s2 by (simp_all add: s3_def dome_maskState_def dome_setState_def demit_def)
  have w: "dstate s3 AND DOME_DOME_MASK = DOME_CLOSED" "dstate s3 AND DEVICE_BLOCK_CLOSE = 0"
    using dome_word.field_written [of DOME_DOME_MASK ?m ?n s2] dome_word.field_written [of DEVICE_BLOCK_CLOSE ?m ?n s2]
    by (simp_all add: s3_def)
  define s4 where "s4 = closeFailed (demit Critical s3)"
  have s4: "dstate s4 = dstate s3" "Critical \<in> set (douts s4)"
    "closeRetries s < DOME_CLOSE_MAX_RETRIES \<longrightarrow> closeRetries s4 = closeRetries s + 1
       \<and> dnow s + closeRepeatTime s \<in> set (dtimers s4)"
    "DOME_CLOSE_MAX_RETRIES \<le> closeRetries s \<longrightarrow> closeRetries s4 = closeRetries s \<and> dtimers s4 = dtimers s"
    using s3 by (simp_all add: s4_def closeFailed_def demit_def addRetryTimer_def set_insort_insert)
  have "closing_pass d s = (True, s4)"
    using assms(3,4) s3(3) by (simp add: closing_pass_def case_prod_beta Let_def s4_def s3_def s2_def)
  then have "checkOpening d s = s4 \<or> (\<exists>t. checkOpening d s = setTimeout t s4)"
    using assms(2) by (auto simp: checkOpening_def)
  then show ?thesis using w s4 by (auto simp: setTimeout_def Let_def)
qed

lemma failed_close_reports_closed_witness:
  "let s' = checkOpening bart_driver ((new_dome ((new_bart [])\<lparr>closeTimeout := 1\<rparr>) [])\<lparr>dnow := 30 * USEC_SEC,
       dstate := DOME_CLOSING OR DEVICE_BLOCK_OPEN OR DEVICE_BLOCK_CLOSE\<rparr>)
   in dstate s' AND DOME_DOME_MASK = DOME_CLOSED \<and> dstate s' AND DEVICE_BLOCK_CLOSE = 0"
proof -
  let ?s = "(new_dome ((new_bart [])\<lparr>closeTimeout := 1\<rparr>) [])\<lparr>dnow := 30 * USEC_SEC,
     dstate := DOME_CLOSING OR DEVICE_BLOCK_OPEN OR DEVICE_BLOCK_CLOSE\<rparr>"
  have "dstate ?s AND DOME_DOME_MASK = DOME_CLOSING" "fst (isClosed_d bart_driver ?s) = -1" "\<not> quietClose ?s"
    by code_simp+
  then show ?thesis
    using failed_close_reports_closed [OF bart_dome.dome_driver_axioms, of ?s] unfolding Let_def by blast
qed

subsection \<open>BART's switch\<close>

text \<open>
  BART's roof is called closed when its switch says so. When the start of a close puts a dome
  that was not closed into the closed state, the board has just been read and the closed switch of the
  roof was made.
\<close>

theorem closed_by_switch:
  assumes "dstate s AND DOME_DOME_MASK \<noteq> DOME_CLOSED"
    and "dstate (snd (domeCloseStart bart_driver q s)) AND DOME_DOME_MASK = DOME_CLOSED"
  shows "fst (zjisti_stav_portu (hw s)) = 0 \<and> getPortState KONCAK_ZAVRENI_JIH (snd (zjisti_stav_portu (hw s)))"
proof -
  let ?s0 = "(deleteRetryTimers s)\<lparr>quietClose := q\<rparr>"
  have hw0: "hw ?s0 = hw s" "dstate ?s0 = dstate s" by (simp_all add: deleteRetryTimers_def)
  have "fst (bart_isClosed ?s0) = -2"
  proof (rule ccontr)
    assume n: "fst (bart_isClosed ?s0) \<noteq> -2"
    let ?s2 = "snd (bart_startClose (demit StartClose (snd (bart_isClosed ?s0))))"
    have st: "dstate ?s2 = dstate s"
      using own_fields_sel [OF bart_dome.startClose_own] own_fields_sel [OF bart_dome.isClosed_own] hw0
      by (simp add: bart_driver_def demit_def)
    have "dstate (report_close_fail ?s2) = dstate s" using st by (simp add: report_close_fail_def demit_def)
    moreover have "dstate (dome_maskState (DOME_DOME_MASK OR BOP_EXPOSURE OR BOP_TEL_MOVE) DOME_WAIT_CLOSING ?s2)
        AND DOME_DOME_MASK = DOME_WAIT_CLOSING"
      using field_of_write [of "DOME_DOME_MASK OR BOP_EXPOSURE OR BOP_TEL_MOVE" DOME_WAIT_CLOSING ?s2] by simp
    moreover have "dstate (dome_maskState (DOME_DOME_MASK OR DOME_BLOCKS)
        (DOME_CLOSING OR DEVICE_BLOCK_OPEN OR DEVICE_BLOCK_CLOSE) (?s2\<lparr>closeFailReported := 0\<rparr>)) AND DOME_DOME_MASK = DOME_CLOSING"
      using field_of_write [of "DOME_DOME_MASK OR DOME_BLOCKS" "DOME_CLOSING OR DEVICE_BLOCK_OPEN OR DEVICE_BLOCK_CLOSE"
          "?s2\<lparr>closeFailReported := 0\<rparr>"] by simp
    ultimately show False
      using assms n
      by (simp add: domeCloseStart_def case_prod_beta Let_def bart_driver_def addRetryTimer_def split: if_splits)
  qed
  then show ?thesis
    using hw0 by (auto simp: bart_isClosed_def on_hw_def case_prod_beta Let_def split: if_splits)
qed

lemma closed_by_switch_witness:
  "getPortState KONCAK_ZAVRENI_JIH (snd (zjisti_stav_portu (new_bart (still_board 20 2 0))))"
proof -
  have "dstate (snd (domeCloseStart bart_driver False (new_dome (new_bart (still_board 20 2 0)) []))) AND DOME_DOME_MASK = DOME_CLOSED"
    by code_simp
  then show ?thesis
    using closed_by_switch [of "new_dome (new_bart (still_board 20 2 0)) []" False] by (simp add: new_dome_def)
qed

subsection \<open>Several centralds\<close>

lemma master_kept:
  assumes "dome_driver d"
  shows "masterState (snd (domeOpenStart d s)) = masterState s" "masterState (snd (domeCloseStart d q s)) = masterState s"
    "masterState (preObserving d s) = masterState s" "masterState (postStandby d s) = masterState s"
    "masterState (postOff d s) = masterState s"
proof -
  have o: "masterState (dome_maskState m n t) = masterState t" "masterState (demit e t) = masterState t"
    "masterState (deleteRetryTimers t) = masterState t" "masterState (addRetryTimer x t) = masterState t"
    "masterState (report_close_fail t) = masterState t" for m n t e x
    by (simp_all add: dome_maskState_def dome_setState_def demit_def deleteRetryTimers_def addRetryTimer_def report_close_fail_def)
  have d: "masterState (snd (isOpened_d d t)) = masterState t" "masterState (snd (isClosed_d d t)) = masterState t"
    "masterState (snd (startOpen_d d t)) = masterState t" "masterState (snd (startClose_d d t)) = masterState t" for t
    using own_fields_sel [OF dome_driver.isOpened_own [OF assms]] own_fields_sel [OF dome_driver.isClosed_own [OF assms]]
      own_fields_sel [OF dome_driver.startOpen_own [OF assms]] own_fields_sel [OF dome_driver.startClose_own [OF assms]]
    by simp_all
  show "masterState (snd (domeOpenStart d s)) = masterState s"
    by (simp add: domeOpenStart_def case_prod_beta Let_def o d)
  show "masterState (snd (domeCloseStart d q s)) = masterState s"
    by (simp add: domeCloseStart_def case_prod_beta Let_def o d)
  show "masterState (preObserving d s) = masterState s" "masterState (postStandby d s) = masterState s"
    "masterState (postOff d s) = masterState s"
    using own_fields_sel [OF dome_driver.hooks_own(1) [OF assms]] own_fields_sel [OF dome_driver.hooks_own(2) [OF assms]]
      own_fields_sel [OF dome_driver.hooks_own(3) [OF assms]] by simp_all
qed

lemma master_changed:
  assumes "dome_driver d"
  shows "masterState (changeMasterState d old new s) = masterState s"
  using master_kept [OF assms]
  by (simp add: changeMasterState_def Let_def masters_changed_def do_observing_def do_standby_def do_off_def
      observing_def standby_def off_def)

text \<open>
  Which centrald governs. A state from another centrald than the master becomes the master
  state exactly when it says hard off or standby or bad weather, and not when it would take
  a system that is hard off to standby. With bad weather it is taken as it is, on and off included:
  a system its master has switched off then counts as switched on.
\<close>

theorem other_centrald_overrides:
  assumes "dome_driver d" "stateMasterConn s = Some m" "i \<noteq> m" "new \<noteq> masterState s"
  shows "masterState (setMasterState d i new s) = new \<longleftrightarrow>
    (new AND SERVERD_ONOFF_MASK = SERVERD_HARD_OFF \<or> new AND WEATHER_MASK = BAD_WEATHER
       \<or> new AND SERVERD_ONOFF_MASK = SERVERD_STANDBY)
    \<and> \<not> (masterState s AND SERVERD_ONOFF_MASK = SERVERD_HARD_OFF \<and> new AND SERVERD_ONOFF_MASK = SERVERD_STANDBY)"
proof -
  have "masterState (setMasterState d i new s) = (if wrong_master i new s then masterState s else new)"
    using master_changed [OF assms(1)] by (simp add: setMasterState_def Let_def masters_changed_def)
  then show ?thesis using assms(2-4) by (auto simp: wrong_master_def)
qed

lemma other_centrald_overrides_witness:
  "masterState (setMasterState bart_driver 2 (SERVERD_NIGHT OR BAD_WEATHER)
     ((new_dome (new_bart (still_board 20 2 0)) [])\<lparr>stateMasterConn := Some 1\<rparr>)) = SERVERD_NIGHT OR BAD_WEATHER"
  using other_centrald_overrides [OF bart_dome.dome_driver_axioms,
      of "(new_dome (new_bart (still_board 20 2 0)) [])\<lparr>stateMasterConn := Some 1\<rparr>" 1 2 "SERVERD_NIGHT OR BAD_WEATHER"]
  by (simp add: new_dome_def)

end
