(* ===== verification/Camera.thy ===== *)
theory Camera
  imports Runs Status
begin

section \<open>Cameras\<close>

text \<open>
  \<open>Camera\<close> (\<open>base/camd/src/camd.cpp\<close>, \<open>camd.h\<close>): the exposure cycle every camera driver is derived
  from, with the queue of value changes of \<open>Device\<close> and \<open>Daemon\<close> it runs on. The driver's part of
  the virtual functions are the fields of a record \<open>cam_driver\<close>: they read the whole state and
  return a code and the driver's own fields \<open>chw\<close>. What the data connections and the filter
  wheels and focuser answer are fields too. The connections are numbers, \<open>exposureConn\<close> is the
  pointer of that name; a call through it when it is null is the output \<open>NullConn\<close>. Values are
  integers (times in microseconds); \<open>cnow\<close> is what \<open>getNow\<close> returns. Image data, statistics,
  windows, binning, cooling, the \<open>acquireTime\<close> of some drivers and log output are left out.

  A state change wakes up queued value changes, and those recompute the blocks of the device,
  which may start an exposure that waits for them, which changes the state. This recursion is tied
  in \<open>setFullBopState\<close>: the definitions named \<open>_with\<close> get the function to call at the deeper level.
\<close>

subsection \<open>State\<close>

abbreviation CAM_MASK_CHIP :: u32 where "CAM_MASK_CHIP \<equiv> 0x0ff"
abbreviation CAM_MASK_EXPOSE :: u32 where "CAM_MASK_EXPOSE \<equiv> 0x011"
abbreviation CAM_MASK_SHIFTING :: u32 where "CAM_MASK_SHIFTING \<equiv> 0x020"
abbreviation CAM_NOEXPOSURE :: u32 where "CAM_NOEXPOSURE \<equiv> 0x000"
abbreviation CAM_EXPOSING :: u32 where "CAM_EXPOSING \<equiv> 0x001"
abbreviation CAM_EXPOSING_NOIM :: u32 where "CAM_EXPOSING_NOIM \<equiv> 0x010"
abbreviation CAM_SHIFT :: u32 where "CAM_SHIFT \<equiv> 0x020"
abbreviation CAM_MASK_READING :: u32 where "CAM_MASK_READING \<equiv> 0x002"
abbreviation CAM_NOTREADING :: u32 where "CAM_NOTREADING \<equiv> 0x000"
abbreviation CAM_READING :: u32 where "CAM_READING \<equiv> 0x002"
abbreviation CAM_MASK_FT :: u32 where "CAM_MASK_FT \<equiv> 0x004"
abbreviation CAM_FT :: u32 where "CAM_FT \<equiv> 0x004"
abbreviation CAM_NOFT :: u32 where "CAM_NOFT \<equiv> 0x000"
abbreviation CAM_MASK_HAS_IMAGE :: u32 where "CAM_MASK_HAS_IMAGE \<equiv> 0x008"
abbreviation CAM_HAS_IMAGE :: u32 where "CAM_HAS_IMAGE \<equiv> 0x008"
abbreviation CAM_WORKING :: u32 where "CAM_WORKING \<equiv> 0x013"

datatype transfer = TCPIP | SHARED | FITS

datatype cam_out =
    CStatus u32
  | CBopOut u32 u32
  | CEnd nat int
  | NullConn
  | StartExposure u32 u32 bool
  | StatusInfo
  | FilterCommand string int
  | FocuserCommand string int
  | ExitLoop

text \<open>
  A filter wheel of the camera (\<open>FilterVal\<close>, an entry of \<open>wheelDevices\<close>): no device name is the
  camera's own wheel. \<open>wconnected\<close>: there is a client connection to the device.
\<close>

record wheel =
  wdev :: "string option"
  wconnected :: bool
  wmoving :: bool
  woffsets :: "int list"

text \<open>A queued change of a value (\<open>ValueQue\<close>).\<close>

record vchange =
  vname :: string
  vop :: char
  vnum :: int

record 'h cam =
  chw :: 'h
  camState :: u32
  fullBopState :: u32
  masterBopState :: u32
  camMaster :: u32
  cvals :: "string \<Rightarrow> int"
  queValues :: "vchange list"
  hasExpType :: bool
  quedExpNumber :: int
  waitingForNotBop :: bool
  waitingForEmptyQue :: bool
  exposureConn :: "nat option"
  sendOkInExposure :: bool
  lastCareBlock :: bool
  exposureNumber :: int
  scriptExposureNum :: int
  exposureEnd :: int
  wheels :: "wheel list"
  camFilterOffsets :: "int list"
  useFilterOffsets :: bool
  hasFocuser :: bool
  focClient :: "(int \<times> int) option"
  focuserMoving :: bool
  currentImageData :: int
  currentImageTransfer :: transfer
  statisticOnly :: bool
  realTimeCount :: int
  hasShiftStore :: bool
  cnow :: int
  ctimeout :: int
  exitPending :: bool
  exitDeadline :: "int option"
  couts :: "cam_out list"

record 'h cam_driver =
  startExposure_d :: "'h cam \<Rightarrow> int \<times> 'h"
  isExposing_d :: "'h cam \<Rightarrow> int \<times> 'h"
  stopExposure_d :: "'h cam \<Rightarrow> int \<times> 'h"
  doReadout_d :: "'h cam \<Rightarrow> int \<times> 'h"
  setValue_d :: "string \<Rightarrow> int \<Rightarrow> 'h cam \<Rightarrow> int \<times> 'h"
  setCamFilterNum_d :: "int \<Rightarrow> 'h cam \<Rightarrow> int \<times> 'h"
  condition_d :: "string \<Rightarrow> u32"
  frameTransfer_d :: bool
  imageData_d :: "'h cam \<Rightarrow> transfer \<times> int"
  sendFirstLine_d :: "'h cam \<Rightarrow> int"

definition cemit :: "cam_out \<Rightarrow> 'h cam \<Rightarrow> 'h cam" where
  "cemit e s = s\<lparr>couts := couts s @ [e]\<rparr>"

definition cam_setTimeout :: "int \<Rightarrow> 'h cam \<Rightarrow> 'h cam" where
  "cam_setTimeout t s = s\<lparr>ctimeout := t\<rparr>"

definition getStateChip :: "'h cam \<Rightarrow> u32" where
  "getStateChip s = camState s AND CAM_MASK_CHIP"

definition exposing :: "u32 \<Rightarrow> bool" where
  "exposing w \<longleftrightarrow> w AND (CAM_EXPOSING OR CAM_EXPOSING_NOIM) \<noteq> 0"

definition filt_name :: "nat \<Rightarrow> string" where
  "filt_name i = ''FILT'' @ [char_of (65 + i)]"

text \<open>The state condition each value was created with.\<close>

definition stateCondition :: "'h cam_driver \<Rightarrow> string \<Rightarrow> u32" where
  "stateCondition d n =
     (if n = ''SHUTTER'' then 0
      else if n = ''exposure'' then CAM_WORKING
      else if n = ''focpos'' \<or> n = ''filter'' \<or> take 4 n = ''FILT'' then CAM_EXPOSING
      else condition_d d n)"

definition queValueChange :: "'h cam_driver \<Rightarrow> string \<Rightarrow> u32 \<Rightarrow> bool" where
  "queValueChange d n w \<longleftrightarrow> stateCondition d n AND w \<noteq> 0"

text \<open>A shutter there is, and it stays closed.\<close>

definition dark_type :: "'h cam \<Rightarrow> bool" where
  "dark_type s \<longleftrightarrow> hasExpType s \<and> cvals s ''SHUTTER'' \<noteq> 0"

subsection \<open>Filters and focuser\<close>

definition filterMoving :: "'h cam \<Rightarrow> bool" where
  "filterMoving s \<longleftrightarrow> list_ex wmoving (wheels s)"

text \<open>\<open>ClientFilterCamera::postEvent\<close>, \<open>EVENT_FILTER_START_MOVE\<close>: the first wheel of that name takes it.\<close>

fun start_move :: "string \<Rightarrow> wheel list \<Rightarrow> wheel list option" where
  "start_move nm [] = None"
| "start_move nm (w # ws) =
     (if wdev w = Some nm \<and> wconnected w then Some (w\<lparr>wmoving := True\<rparr> # ws)
      else map_option (Cons w) (start_move nm ws))"

definition setFilterNum :: "'h cam_driver \<Rightarrow> int \<Rightarrow> string option \<Rightarrow> 'h cam \<Rightarrow> int \<times> 'h cam" where
  "setFilterNum d n fn s =
     (if wheels s = [] then (-1, s)
      else case (if fn = None then wdev (hd (wheels s)) else fn) of
        None \<Rightarrow> let (r, h) = setCamFilterNum_d d n s in (r, s\<lparr>chw := h\<rparr>)
      | Some nm \<Rightarrow>
          (case (if n \<ge> 0 then start_move nm (wheels s) else None) of
             None \<Rightarrow> ((if n = -1 then 0 else -1), s)
           | Some ws \<Rightarrow> (0, cemit (FilterCommand nm n) (s\<lparr>wheels := ws\<rparr>))))"

text \<open>\<open>ClientFocusCamera::postEvent\<close>: a target the focuser has already is not taken.\<close>

definition setFocuser :: "int \<Rightarrow> 'h cam \<Rightarrow> int \<times> 'h cam" where
  "setFocuser n s =
     (if \<not> hasFocuser s then (-1, s)
      else case focClient s of
        None \<Rightarrow> (-1, s)
      | Some (tar, off) \<Rightarrow>
          if tar = n then (-1, s)
          else (0, (cemit (FocuserCommand ''FOC_TAR'' n) s)\<lparr>focuserMoving := True\<rparr>))"

definition filter_offset :: "int \<Rightarrow> 'h cam \<Rightarrow> 'h cam" where
  "filter_offset v s =
     (case focClient s of
        None \<Rightarrow> s
      | Some (tar, off) \<Rightarrow>
          if off = v then s
          else (cemit (FocuserCommand ''FOC_FILTEROFF'' v) s)\<lparr>focuserMoving := True\<rparr>)"

definition offsetForFilter :: "int \<Rightarrow> int list \<Rightarrow> 'h cam \<Rightarrow> 'h cam" where
  "offsetForFilter n offs s =
     (if \<not> hasFocuser s \<or> \<not> useFilterOffsets s then s
      else if n < 0 \<or> n \<ge> int (length offs) then s
      else filter_offset (offs ! nat n) s)"

definition set_filter :: "'h cam_driver \<Rightarrow> int \<Rightarrow> string option \<Rightarrow> int list \<Rightarrow> 'h cam \<Rightarrow> int \<times> 'h cam" where
  "set_filter d n fn offs s =
     (let (r, s1) = setFilterNum d n fn s
      in if r = 0 then (0, offsetForFilter n offs s1) else (-2, s1))"

text \<open>The wheel a value \<open>FILTA\<close>, \<open>FILTB\<close>, ... belongs to.\<close>

fun wheel_of :: "string \<Rightarrow> nat \<Rightarrow> wheel list \<Rightarrow> wheel option" where
  "wheel_of n i [] = None"
| "wheel_of n i (w # ws) = (if n = filt_name i then Some w else wheel_of n (Suc i) ws)"

definition cam_setValue :: "'h cam_driver \<Rightarrow> string \<Rightarrow> int \<Rightarrow> 'h cam \<Rightarrow> int \<times> 'h cam" where
  "cam_setValue d n v s =
     (if n = ''focpos'' then (let (r, s1) = setFocuser v s in ((if r = 0 then 0 else -2), s1))
      else if n = ''filter'' then
        set_filter d v (if wheels s = [] then None else wdev (hd (wheels s))) (camFilterOffsets s) s
      else case wheel_of n 0 (wheels s) of
        Some w \<Rightarrow>
          (case wdev w of
             None \<Rightarrow> let (r, h) = setCamFilterNum_d d v s; s1 = s\<lparr>chw := h\<rparr>
                     in if r = 0 then (0, offsetForFilter v (woffsets w) s1) else (-2, s1)
           | Some nm \<Rightarrow> set_filter d v (Some nm) (woffsets w) s)
      | None \<Rightarrow>
          if n = ''exposure'' then (0, s)
          else let (r, h) = setValue_d d n v s in (r, s\<lparr>chw := h\<rparr>))"

subsection \<open>Value changes\<close>

definition opValue :: "char \<Rightarrow> int \<Rightarrow> int \<Rightarrow> int option" where
  "opValue op old v =
     (if op = CHR ''='' then Some v else if op = CHR ''+'' then Some (old + v)
      else if op = CHR ''-'' then Some (old - v) else None)"

definition doSetValue :: "'h cam_driver \<Rightarrow> vchange \<Rightarrow> 'h cam \<Rightarrow> int \<times> 'h cam" where
  "doSetValue d c s =
     (case opValue (vop c) (cvals s (vname c)) (vnum c) of
        None \<Rightarrow> (-2, s)
      | Some v \<Rightarrow>
          let (r, s1) = cam_setValue d (vname c) v s
          in if r < 0 then (r, s1)
             else if r = 0 then (0, s1\<lparr>cvals := (cvals s1)(vname c := v)\<rparr>)
             else (0, s1))"

definition setCondValue :: "'h cam_driver \<Rightarrow> vchange \<Rightarrow> 'h cam \<Rightarrow> int \<times> 'h cam" where
  "setCondValue d c s =
     (if (vop c \<noteq> CHR ''='' \<or> cvals s (vname c) \<noteq> vnum c \<or> queValues s \<noteq> [])
          \<and> queValueChange d (vname c) (camState s)
      then (-1, s\<lparr>queValues := queValues s @ [c]\<rparr>)
      else if vop c = CHR ''='' \<and> cvals s (vname c) = vnum c then (0, s)
      else doSetValue d c s)"

text \<open>
  The loop of \<open>Device::checkQueChanges\<close>: what the state \<open>fake\<close> does not block is performed, in
  order. The first component are the changes that stay in the queue.
\<close>

fun free_queued :: "'h cam_driver \<Rightarrow> u32 \<Rightarrow> vchange list \<Rightarrow> 'h cam \<Rightarrow> vchange list \<times> 'h cam" where
  "free_queued d fake [] s = ([], s)"
| "free_queued d fake (c # cs) s =
     (if queValueChange d (vname c) fake
      then let (k, s1) = free_queued d fake cs s in (c # k, s1)
      else free_queued d fake cs (snd (doSetValue d c s)))"

definition dev_checkQueChanges_with ::
    "(u32 \<Rightarrow> 'h cam \<Rightarrow> 'h cam) \<Rightarrow> 'h cam_driver \<Rightarrow> u32 \<Rightarrow> 'h cam \<Rightarrow> 'h cam" where
  "dev_checkQueChanges_with full d fake s =
     (let (k, s1) = free_queued d fake (queValues s) s; s2 = s1\<lparr>queValues := k\<rparr>
      in if length k < length (queValues s) then full (masterBopState s2) s2 else s2)"

text \<open>The last part of \<open>Camera::checkQueChanges\<close>: an exposure that waited for the queue.\<close>

definition queue_emptied :: "'h cam \<Rightarrow> 'h cam" where
  "queue_emptied s =
     (if queValues s = [] \<and> waitingForEmptyQue s then
        let s1 = s\<lparr>waitingForEmptyQue := False, sendOkInExposure := True\<rparr>
        in if exposureConn s1 \<noteq> None
           then cemit StatusInfo (s1\<lparr>quedExpNumber := quedExpNumber s1 + 1, waitingForNotBop := True\<rparr>)
           else s1
      else s)"

definition checkQueChanges_with ::
    "(u32 \<Rightarrow> 'h cam \<Rightarrow> 'h cam) \<Rightarrow> 'h cam_driver \<Rightarrow> u32 \<Rightarrow> 'h cam \<Rightarrow> 'h cam" where
  "checkQueChanges_with full d fake s =
     (if quedExpNumber s > 0 \<and> fake AND (CAM_EXPOSING OR CAM_READING) \<noteq> 0 then s
      else queue_emptied
             (dev_checkQueChanges_with full d (fake OR (fullBopState s AND BOP_TRIG_EXPOSE)) s))"

subsection \<open>The state word and the blocks\<close>

definition cam_setState_with ::
    "(u32 \<Rightarrow> 'h cam \<Rightarrow> 'h cam) \<Rightarrow> 'h cam_driver \<Rightarrow> u32 \<Rightarrow> 'h cam \<Rightarrow> 'h cam" where
  "cam_setState_with full d new s =
     (if camState s = new then s
      else let s1 = checkQueChanges_with full d new (s\<lparr>camState := new\<rparr>)
           in cemit (CStatus (camState s1)) s1)"

definition cam_maskState_with ::
    "(u32 \<Rightarrow> 'h cam \<Rightarrow> 'h cam) \<Rightarrow> 'h cam_driver \<Rightarrow> u32 \<Rightarrow> u32 \<Rightarrow> 'h cam \<Rightarrow> 'h cam" where
  "cam_maskState_with full d m n s = cam_setState_with full d (mask_word m n (camState s)) s"

text \<open>
  \<open>camStartExposureWithoutCheck\<close>. The output \<open>StartExposure\<close> records the state word and the blocks
  of the centrald at the driver's \<open>startExposure\<close>, and whether the blocks matter: the client asked
  for them and the shutter opens.
\<close>

definition started :: "'h cam_driver \<Rightarrow> 'h cam \<Rightarrow> 'h cam" where
  "started d s =
     (let (t, h) = isExposing_d d s;
          s1 = s\<lparr>chw := h\<rparr>;
          s2 = (if t \<ge> 0 then cam_setTimeout t s1 else s1)
      in case exposureConn s2 of
           Some c \<Rightarrow> if sendOkInExposure s2 then cemit (CEnd c DEVDEM_OK) (s2\<lparr>sendOkInExposure := False\<rparr>) else s2
         | None \<Rightarrow> s2)"

definition camStartExposureWithoutCheck_with ::
    "(u32 \<Rightarrow> 'h cam \<Rightarrow> 'h cam) \<Rightarrow> 'h cam_driver \<Rightarrow> 'h cam \<Rightarrow> int \<times> 'h cam" where
  "camStartExposureWithoutCheck_with full d s =
     (let telBlock = (if lastCareBlock s then BOP_TEL_MOVE else 0);
          s1 = cam_maskState_with full d BOP_TEL_MOVE telBlock
                 (s\<lparr>exposureNumber := exposureNumber s + 1, scriptExposureNum := scriptExposureNum s + 1\<rparr>);
          (ret, h) = startExposure_d d s1;
          s2 = cemit (StartExposure (camState s1) (masterBopState s1) (lastCareBlock s1 \<and> \<not> dark_type s1)) (s1\<lparr>chw := h\<rparr>)
      in if \<not> (ret = 0 \<or> ret = 1) then (ret, cam_maskState_with full d BOP_TEL_MOVE 0 s2)
         else let s3 = s2\<lparr>exposureEnd := cnow s2 + cvals s2 ''exposure''\<rparr>;
                  s4 = cam_maskState_with full d (CAM_MASK_EXPOSE OR BOP_TEL_MOVE OR BOP_WILL_EXPOSE OR CAM_MASK_HAS_IMAGE)
                         ((if ret = 0 then CAM_EXPOSING else CAM_EXPOSING OR CAM_EXPOSING_NOIM) OR telBlock) s3
              in (0, started d s4))"

definition maskQueValueBopState :: "u32 \<Rightarrow> u32 \<Rightarrow> u32" where
  "maskQueValueBopState new cond =
     (let w = (if cond AND CAM_EXPOSING \<noteq> 0 then new OR BOP_EXPOSURE else new)
      in if cond AND CAM_READING \<noteq> 0 then w OR BOP_READOUT else w)"

definition dev_setFullBopState :: "'h cam_driver \<Rightarrow> u32 \<Rightarrow> 'h cam \<Rightarrow> 'h cam" where
  "dev_setFullBopState d new s =
     (let w = fold (\<lambda>c w. maskQueValueBopState w (stateCondition d (vname c))) (queValues s) new
      in cemit (CBopOut (camState s) w) (s\<lparr>masterBopState := new, fullBopState := w\<rparr>))"

definition setFullBopState_with ::
    "(u32 \<Rightarrow> 'h cam \<Rightarrow> 'h cam) \<Rightarrow> 'h cam_driver \<Rightarrow> u32 \<Rightarrow> 'h cam \<Rightarrow> 'h cam" where
  "setFullBopState_with full d new s0 =
     (let s = dev_setFullBopState d new s0 in
      if new AND BOP_EXPOSURE = 0 \<and> quedExpNumber s > 0 \<and> waitingForNotBop s then
        if new AND BOP_TRIG_EXPOSE \<noteq> 0 \<and> camState s AND BOP_WILL_EXPOSE = 0
        then cam_maskState_with full d BOP_WILL_EXPOSE BOP_WILL_EXPOSE s
        else if getStateChip s AND CAM_EXPOSING \<noteq> 0
                \<or> (\<not> frameTransfer_d d \<and> getStateChip s AND CAM_READING \<noteq> 0) then s
        else snd (camStartExposureWithoutCheck_with full d
                    (s\<lparr>waitingForNotBop := False, quedExpNumber := quedExpNumber s - 1\<rparr>))
      else s)"

text \<open>
  The recursion: each level performs at least one queued change before it goes deeper, so that
  the length of the queue bounds its depth.
\<close>

primrec full_level :: "'h cam_driver \<Rightarrow> nat \<Rightarrow> u32 \<Rightarrow> 'h cam \<Rightarrow> 'h cam" where
  "full_level d 0 = (\<lambda>new s. s)"
| "full_level d (Suc n) = setFullBopState_with (full_level d n) d"

definition setFullBopState :: "'h cam_driver \<Rightarrow> u32 \<Rightarrow> 'h cam \<Rightarrow> 'h cam" where
  "setFullBopState d new s = full_level d (Suc (length (queValues s))) new s"

definition cam_maskState :: "'h cam_driver \<Rightarrow> u32 \<Rightarrow> u32 \<Rightarrow> 'h cam \<Rightarrow> 'h cam" where
  "cam_maskState d = cam_maskState_with (setFullBopState d) d"

definition checkQueChanges :: "'h cam_driver \<Rightarrow> u32 \<Rightarrow> 'h cam \<Rightarrow> 'h cam" where
  "checkQueChanges d = checkQueChanges_with (setFullBopState d) d"

definition camStartExposureWithoutCheck :: "'h cam_driver \<Rightarrow> 'h cam \<Rightarrow> int \<times> 'h cam" where
  "camStartExposureWithoutCheck d = camStartExposureWithoutCheck_with (setFullBopState d) d"

end
