(* ===== verification/CameraOps.thy ===== *)
theory CameraOps
  imports Camera
begin

section \<open>The operations of a camera\<close>

text \<open>
  The commands, the idle loop and the events of \<open>Camera\<close> (\<open>camd.cpp\<close>) on the state of theory
  \<open>Camera\<close>: starting an exposure, its end, the readout, aborting, the end of a script, a client that
  leaves, and the end of the daemon.
\<close>

subsection \<open>Exposures\<close>

definition blocked :: "'h cam \<Rightarrow> bool" where
  "blocked s \<longleftrightarrow>
     \<not> dark_type s \<and>
     (fullBopState s AND BOP_EXPOSURE \<noteq> 0 \<or> camMaster s AND BOP_EXPOSURE \<noteq> 0
      \<or> fullBopState s AND BOP_TRIG_EXPOSE \<noteq> 0 \<or> camMaster s AND BOP_TRIG_EXPOSE \<noteq> 0
      \<or> filterMoving s \<or> focuserMoving s)"

definition trigger_blocks :: "'h cam \<Rightarrow> bool" where
  "trigger_blocks s \<longleftrightarrow> fullBopState s AND BOP_TRIG_EXPOSE \<noteq> 0 \<or> camMaster s AND BOP_TRIG_EXPOSE \<noteq> 0"

definition exposure_blocks :: "'h cam \<Rightarrow> bool" where
  "exposure_blocks s \<longleftrightarrow> fullBopState s AND BOP_EXPOSURE \<noteq> 0 \<or> camMaster s AND BOP_EXPOSURE \<noteq> 0"

definition camStartExposure :: "'h cam_driver \<Rightarrow> bool \<Rightarrow> 'h cam \<Rightarrow> int \<times> 'h cam" where
  "camStartExposure d careBlock s =
     (if careBlock \<and> blocked s then
        let s1 = s\<lparr>quedExpNumber := quedExpNumber s + 1, waitingForNotBop := True\<rparr>
        in (0, if \<not> exposure_blocks s1 \<and> trigger_blocks s1
               then cam_maskState d BOP_WILL_EXPOSE BOP_WILL_EXPOSE s1 else s1)
      else camStartExposureWithoutCheck d
             (if dark_type s \<and> trigger_blocks s
              then cam_maskState d BOP_WILL_EXPOSE BOP_WILL_EXPOSE s else s))"

definition cannot_start :: "'h cam_driver \<Rightarrow> u32 \<Rightarrow> bool \<Rightarrow> 'h cam \<Rightarrow> bool" where
  "cannot_start d chipState fromQue s \<longleftrightarrow>
     chipState AND CAM_EXPOSING \<noteq> 0 \<or> chipState AND CAM_EXPOSING_NOIM \<noteq> 0
     \<or> (chipState AND CAM_READING \<noteq> 0 \<and> \<not> frameTransfer_d d)
     \<or> (queValues s \<noteq> [] \<and> \<not> fromQue)"

definition reply :: "nat option \<Rightarrow> int \<Rightarrow> 'h cam \<Rightarrow> 'h cam" where
  "reply conn code s = (case conn of Some c \<Rightarrow> cemit (CEnd c code) s | None \<Rightarrow> cemit NullConn s)"

definition camExpose ::
    "'h cam_driver \<Rightarrow> nat option \<Rightarrow> u32 \<Rightarrow> bool \<Rightarrow> bool \<Rightarrow> 'h cam \<Rightarrow> int \<times> 'h cam" where
  "camExpose d conn chipState fromQue careBlock s =
     (if exitPending s then (-1, if conn = None then s else reply conn DEVDEM_E_HW s)
      else if cannot_start d chipState fromQue s then
        if \<not> fromQue \<and> queValues s = [] then (0, s\<lparr>quedExpNumber := quedExpNumber s + 1\<rparr>)
        else (-1, s\<lparr>waitingForEmptyQue := True\<rparr>)
      else
        let s1 = (if quedExpNumber s > 0 then s\<lparr>quedExpNumber := quedExpNumber s - 1\<rparr> else s);
            (ret, s2) = camStartExposure d careBlock (s1\<lparr>exposureConn := conn\<rparr>)
        in (ret, if ret \<noteq> 0 then reply conn DEVDEM_E_HW s2 else s2))"

definition checkQueuedExposures :: "'h cam_driver \<Rightarrow> 'h cam \<Rightarrow> 'h cam" where
  "checkQueuedExposures d s =
     (if quedExpNumber s > 0
      then snd (camExpose d (exposureConn s) (getStateChip s) False (lastCareBlock s)
                  (s\<lparr>quedExpNumber := quedExpNumber s - 1\<rparr>))
      else s)"

subsection \<open>End of exposure and readout\<close>

definition cam_isExposing :: "'h cam \<Rightarrow> int" where
  "cam_isExposing s = (if cnow s \<ge> exposureEnd s then -2 else exposureEnd s - cnow s)"

text \<open>The driver's part, then \<open>Camera::stopExposure\<close>, which the drivers call when theirs succeeded.\<close>

definition stopExposure :: "'h cam_driver \<Rightarrow> 'h cam \<Rightarrow> int \<times> 'h cam" where
  "stopExposure d s =
     (let (r, h) = stopExposure_d d s; s1 = s\<lparr>chw := h\<rparr>
      in if r \<noteq> 0 then (r, s1) else (0, s1\<lparr>quedExpNumber := 0\<rparr>))"

definition startImageData :: "'h cam_driver \<Rightarrow> nat \<Rightarrow> 'h cam \<Rightarrow> 'h cam" where
  "startImageData d conn s =
     (if currentImageTransfer s = FITS then s
      else let (t, n) = imageData_d d s
           in s\<lparr>currentImageTransfer := t, currentImageData := n, exposureConn := Some conn\<rparr>)"

definition open_data :: "'h cam_driver \<Rightarrow> nat \<Rightarrow> 'h cam \<Rightarrow> 'h cam" where
  "open_data d conn s =
     (if statisticOnly s then s\<lparr>currentImageData := -1\<rparr>
      else if realTimeCount s < 0 then startImageData d conn s else s)"

definition camReadout :: "'h cam_driver \<Rightarrow> nat \<Rightarrow> 'h cam \<Rightarrow> int \<times> 'h cam" where
  "camReadout d conn s =
     (let s1 =
        (if quedExpNumber s > 0 \<and> exposureConn s \<noteq> None \<and> frameTransfer_d d then
           let a = checkQueChanges d (getStateChip s AND NOT (CAM_EXPOSING OR CAM_EXPOSING_NOIM)) s;
               b = open_data d conn (cam_maskState d (CAM_MASK_READING OR CAM_MASK_FT) (CAM_READING OR CAM_FT) a)
           in if queValues b = []
              then snd (camExpose d (exposureConn b) (getStateChip b AND NOT CAM_MASK_EXPOSE) True (lastCareBlock b) b)
              else b
         else open_data d conn
                (cam_maskState d (CAM_MASK_EXPOSE OR CAM_MASK_READING OR BOP_TEL_MOVE) (CAM_NOEXPOSURE OR CAM_READING) s))
      in if realTimeCount s1 \<ge> 0 then (0, s1\<lparr>realTimeCount := realTimeCount s1 + 1\<rparr>)
         else if currentImageData s1 \<noteq> -1 \<or> currentImageTransfer s1 = FITS \<or> statisticOnly s1
         then (sendFirstLine_d d s1, s1)
         else (-1, cemit (CEnd conn DEVDEM_E_HW)
                 (cam_maskState d (DEVICE_ERROR_MASK OR CAM_MASK_SHIFTING OR CAM_MASK_READING) (DEVICE_ERROR_HW OR CAM_NOTREADING) s1)))"

definition no_exposure :: "'h cam_driver \<Rightarrow> 'h cam \<Rightarrow> 'h cam" where
  "no_exposure d s =
     cam_maskState d (CAM_MASK_EXPOSE OR CAM_MASK_SHIFTING OR CAM_MASK_READING OR CAM_MASK_FT OR BOP_TEL_MOVE OR BOP_WILL_EXPOSE)
       (CAM_NOEXPOSURE OR CAM_NOTREADING OR CAM_NOFT) s"

definition endExposure :: "'h cam_driver \<Rightarrow> int \<Rightarrow> 'h cam \<Rightarrow> int \<times> 'h cam" where
  "endExposure d ret s =
     (case exposureConn s of
        Some c \<Rightarrow> camReadout d c s
      | None \<Rightarrow>
          let working = (getStateChip s AND (CAM_EXPOSING OR CAM_EXPOSING_NOIM OR CAM_SHIFT) \<noteq> 0) in
          if working \<and> ret = -5 then (0, s)
          else let s1 = (if working \<and> ret \<noteq> -4 then snd (stopExposure d s) else s)
               in (0, no_exposure d (s1\<lparr>quedExpNumber := 0\<rparr>)))"

definition exposure_finished :: "'h cam_driver \<Rightarrow> 'h cam \<Rightarrow> 'h cam" where
  "exposure_finished d s = cam_maskState d (CAM_MASK_EXPOSE OR CAM_MASK_FT OR BOP_TEL_MOVE) (CAM_NOEXPOSURE OR CAM_NOFT) s"

definition expose_queued :: "'h cam_driver \<Rightarrow> 'h cam \<Rightarrow> 'h cam" where
  "expose_queued d s =
     (if quedExpNumber s > 0
      then snd (camExpose d (exposureConn s) (getStateChip s AND NOT CAM_MASK_EXPOSE) True (lastCareBlock s) s) else s)"

definition exposure_over :: "'h cam_driver \<Rightarrow> int \<Rightarrow> 'h cam \<Rightarrow> 'h cam" where
  "exposure_over d ret s =
     (if ret = -5 then exposure_finished d (snd (endExposure d ret s))
      else if ret = -4 then expose_queued d (exposure_finished d (snd (endExposure d ret (s\<lparr>exposureConn := None\<rparr>))))
      else if ret = -3 then snd (endExposure d ret (s\<lparr>exposureConn := None\<rparr>))
      else if ret = -2 then
        let s1 = snd (endExposure d ret s)
        in if exposureNumber s = exposureNumber s1 then exposure_finished d s1
           else cam_maskState d CAM_MASK_FT CAM_NOFT s1
      else if ret = -1 then
        expose_queued d (snd (stopExposure d
          (cam_maskState d (DEVICE_ERROR_MASK OR CAM_MASK_EXPOSE OR CAM_MASK_SHIFTING OR CAM_MASK_READING OR BOP_TEL_MOVE)
             (DEVICE_ERROR_HW OR CAM_NOEXPOSURE OR CAM_NOTREADING) s)))
      else s)"

definition checkExposures :: "'h cam_driver \<Rightarrow> 'h cam \<Rightarrow> 'h cam" where
  "checkExposures d s =
     (if exposing (getStateChip s)
      then let (ret, h) = isExposing_d d s; s1 = s\<lparr>chw := h\<rparr>
           in if ret \<ge> 0 then cam_setTimeout ret s1 else exposure_over d ret s1
      else s)"

definition endReadout :: "'h cam_driver \<Rightarrow> 'h cam \<Rightarrow> 'h cam" where
  "endReadout d s =
     (let s1 = (if currentImageTransfer s = SHARED \<and> exposureConn s \<noteq> None \<and> currentImageData s \<ge> 0
                then s\<lparr>currentImageData := -1\<rparr> else s)
      in if quedExpNumber s1 > 0 \<and> exposureConn s1 \<noteq> None
         then snd (camExpose d (exposureConn s1) (getStateChip s1 AND CAM_MASK_EXPOSE) True (lastCareBlock s1) s1)
         else s1)"

definition afterReadout :: "'h cam \<Rightarrow> 'h cam" where
  "afterReadout s = cam_setTimeout 1000000 s"

definition checkReadouts :: "'h cam_driver \<Rightarrow> 'h cam \<Rightarrow> 'h cam" where
  "checkReadouts d s =
     (if getStateChip s AND CAM_MASK_READING \<noteq> CAM_READING then s
      else let (ret, h) = doReadout_d d s; s1 = s\<lparr>chw := h\<rparr>
           in if ret \<ge> 0 then cam_setTimeout ret s1
              else let s2 = afterReadout (endReadout d s1)
                   in if ret = -2
                      then cam_maskState d (CAM_MASK_SHIFTING OR CAM_MASK_READING OR CAM_MASK_HAS_IMAGE) (CAM_NOTREADING OR CAM_HAS_IMAGE) s2
                      else cam_maskState d (DEVICE_ERROR_MASK OR CAM_MASK_SHIFTING OR CAM_MASK_READING) (DEVICE_ERROR_HW OR CAM_NOTREADING) s2)"

subsection \<open>Aborting\<close>

definition cam_scriptEnds :: "'h cam_driver \<Rightarrow> 'h cam \<Rightarrow> int \<times> 'h cam" where
  "cam_scriptEnds d s = (0, cam_maskState d DEVICE_ERROR_KILL 0 (s\<lparr>quedExpNumber := 0, scriptExposureNum := 0\<rparr>))"

text \<open>\<open>Device::killAll\<close>.\<close>

definition dev_killAll :: "'h cam_driver \<Rightarrow> bool \<Rightarrow> 'h cam \<Rightarrow> int \<times> 'h cam" where
  "dev_killAll d callScriptEnds s =
     (let s1 = s\<lparr>queValues := []\<rparr>;
          (ret, s2) = (if callScriptEnds then cam_scriptEnds d s1 else (0, s1))
      in (ret, cam_maskState d (DEVICE_ERROR_KILL OR DEVICE_ERROR_HW OR DEVICE_NOT_READY) DEVICE_ERROR_KILL s2))"

definition end_data :: "'h cam \<Rightarrow> 'h cam" where
  "end_data s =
     (if exposureConn s \<noteq> None \<and> currentImageData s \<ge> 0
      then s\<lparr>currentImageTransfer := TCPIP, currentImageData := -1\<rparr> else s)"

definition cam_killAll :: "'h cam_driver \<Rightarrow> bool \<Rightarrow> 'h cam \<Rightarrow> int \<times> 'h cam" where
  "cam_killAll d callScriptEnds s =
     dev_killAll d callScriptEnds
       (cam_maskState d (CAM_MASK_EXPOSE OR CAM_MASK_SHIFTING OR CAM_MASK_READING OR CAM_MASK_FT OR BOP_TEL_MOVE OR BOP_WILL_EXPOSE OR DEVICE_ERROR_KILL)
          (CAM_NOEXPOSURE OR CAM_NOTREADING OR CAM_NOFT OR DEVICE_ERROR_KILL)
          (snd (stopExposure d
             (end_data (s\<lparr>waitingForNotBop := False, waitingForEmptyQue := False,
                wheels := map (\<lambda>w. w\<lparr>wmoving := False\<rparr>) (wheels s)\<rparr>)))))"

definition stopexpo :: "'h cam_driver \<Rightarrow> 'h cam \<Rightarrow> int \<times> 'h cam" where
  "stopexpo d s =
     (let (ret, s1) = stopExposure d s in
      if ret \<noteq> 0
      then (DEVDEM_E_HW, cam_maskState d (CAM_MASK_EXPOSE OR CAM_MASK_SHIFTING OR CAM_MASK_READING OR CAM_MASK_FT OR BOP_TEL_MOVE
               OR BOP_WILL_EXPOSE OR DEVICE_ERROR_KILL OR DEVICE_ERROR_HW)
             (CAM_NOEXPOSURE OR CAM_NOTREADING OR CAM_NOFT OR DEVICE_ERROR_KILL OR DEVICE_ERROR_HW) s1)
      else (0, cam_maskState d (CAM_MASK_EXPOSE OR CAM_MASK_SHIFTING OR CAM_MASK_READING OR CAM_MASK_FT OR BOP_TEL_MOVE
               OR BOP_WILL_EXPOSE OR DEVICE_ERROR_KILL)
             (CAM_NOEXPOSURE OR CAM_NOTREADING OR CAM_NOFT OR DEVICE_ERROR_KILL) s1))"

definition cam_deleteConnection :: "nat \<Rightarrow> 'h cam \<Rightarrow> 'h cam" where
  "cam_deleteConnection conn s =
     (if exposureConn s = Some conn then
        let s1 = s\<lparr>exposureConn := None\<rparr>
        in if exposing (getStateChip s1) \<and> exposureEnd s1 > cnow s1 then s1\<lparr>exposureEnd := cnow s1\<rparr> else s1
      else s)"

subsection \<open>Shift and store\<close>

definition shiftStoreStart :: "'h cam_driver \<Rightarrow> 'h cam \<Rightarrow> int \<times> 'h cam" where
  "shiftStoreStart d s =
     (0, cam_maskState d (DEVICE_ERROR_MASK OR CAM_MASK_EXPOSE OR CAM_MASK_SHIFTING) (CAM_EXPOSING OR CAM_SHIFT) s)"

definition shiftStoreShift :: "'h cam_driver \<Rightarrow> 'h cam \<Rightarrow> int \<times> 'h cam" where
  "shiftStoreShift d s = (0, cam_maskState d (DEVICE_ERROR_MASK OR CAM_MASK_EXPOSE) CAM_EXPOSING s)"

definition shiftStoreEnd :: "'h cam_driver \<Rightarrow> nat \<Rightarrow> 'h cam \<Rightarrow> int \<times> 'h cam" where
  "shiftStoreEnd d conn s =
     (0, cam_maskState d (DEVICE_ERROR_MASK OR CAM_MASK_EXPOSE OR CAM_MASK_READING) CAM_READING
        (s\<lparr>exposureConn := Some conn\<rparr>))"

subsection \<open>The idle loop and the end of the daemon\<close>

abbreviation CAM_BUSY :: u32 where "CAM_BUSY \<equiv> CAM_EXPOSING OR CAM_EXPOSING_NOIM OR CAM_READING"

definition stopping_pass :: "'h cam_driver \<Rightarrow> 'h cam \<Rightarrow> 'h cam" where
  "stopping_pass d s =
     (let s1 = (if exitDeadline s = None then
                  let a = s\<lparr>exitDeadline := Some (cnow s + 15000000), quedExpNumber := 0\<rparr>
                  in if exposing (getStateChip a) then snd (cam_killAll d False a) else a
                else s)
      in if getStateChip s1 AND CAM_BUSY = 0 \<or> cnow s1 > the (exitDeadline s1) then cemit ExitLoop s1 else s1)"

definition cam_idle :: "'h cam_driver \<Rightarrow> 'h cam \<Rightarrow> 'h cam" where
  "cam_idle d s =
     (let s1 = checkReadouts d (checkExposures d s)
      in if exitPending s1 then stopping_pass d s1 else s1)"

definition cam_endRunLoop :: "'h cam \<Rightarrow> 'h cam" where
  "cam_endRunLoop s =
     (if \<not> exitPending s \<and> getStateChip s AND CAM_BUSY \<noteq> 0 then s\<lparr>exitPending := True\<rparr> else cemit ExitLoop s)"

subsection \<open>Events\<close>

definition filter_move_end :: "'h cam_driver \<Rightarrow> nat \<Rightarrow> 'h cam \<Rightarrow> 'h cam" where
  "filter_move_end d i s =
     (let s1 = s\<lparr>wheels := (if i < length (wheels s) then (wheels s)[i := (wheels s ! i)\<lparr>wmoving := False\<rparr>] else wheels s)\<rparr>
      in if filterMoving s1 then s1 else checkQueuedExposures d s1)"

definition focuser_end_move :: "'h cam_driver \<Rightarrow> 'h cam \<Rightarrow> 'h cam" where
  "focuser_end_move d s =
     (if focuserMoving s then checkQueuedExposures d (s\<lparr>focuserMoving := False\<rparr>) else s)"

datatype shift_command = ShiftStart | ShiftShift | ShiftEnd

datatype cam_command =
    Expose
  | ExposeNoChecks
  | StopExpo
  | KillAll bool
  | ScriptEnds
  | ShiftStore shift_command
  | SetValue string char int

text \<open>\<open>commandAuthorized\<close> and the value command, from the connection \<open>c\<close>.\<close>

fun cam_commandAuthorized :: "'h cam_driver \<Rightarrow> nat \<Rightarrow> cam_command \<Rightarrow> 'h cam \<Rightarrow> int \<times> 'h cam" where
  "cam_commandAuthorized d c Expose s =
     (let s1 = s\<lparr>lastCareBlock := True\<rparr> in camExpose d (Some c) (getStateChip s1) False True s1)"
| "cam_commandAuthorized d c ExposeNoChecks s =
     (let s1 = s\<lparr>lastCareBlock := False\<rparr> in camExpose d (Some c) (getStateChip s1) False False s1)"
| "cam_commandAuthorized d c StopExpo s = stopexpo d s"
| "cam_commandAuthorized d c (KillAll b) s = cam_killAll d b s"
| "cam_commandAuthorized d c ScriptEnds s = cam_scriptEnds d s"
| "cam_commandAuthorized d c (ShiftStore k) s =
     (if \<not> hasShiftStore s then (-2, s)
      else case k of ShiftStart \<Rightarrow> shiftStoreStart d s | ShiftShift \<Rightarrow> shiftStoreShift d s
        | ShiftEnd \<Rightarrow> shiftStoreEnd d c s)"
| "cam_commandAuthorized d c (SetValue n op v) s =
     (let (r, s1) = setCondValue d \<lparr>vname = n, vop = op, vnum = v\<rparr> s
      in (r, if r = -1 then cemit (CEnd c DEVDEM_I_QUED) s1 else s1))"

text \<open>
  What can happen to a camera: a command, the blocks or the state of the centrald, a client that
  leaves, the end of a filter or focuser move, a pass of the idle loop, a signal to stop, time
  passing, and news from the wheels and the focuser.
\<close>

datatype cam_event =
    CCommand nat cam_command
  | CBop u32
  | CMaster u32
  | CLeave nat
  | CFilterEnd nat
  | CFocuserEnd
  | CIdle
  | CSignal
  | CTime int
  | CDevices "bool list" "(int \<times> int) option"

fun cam_step :: "'h cam_driver \<Rightarrow> cam_event \<Rightarrow> 'h cam \<Rightarrow> 'h cam" where
  "cam_step d (CCommand c x) s = snd (cam_commandAuthorized d c x s)"
| "cam_step d (CBop w) s = setFullBopState d w s"
| "cam_step d (CMaster w) s = s\<lparr>camMaster := w\<rparr>"
| "cam_step d (CLeave c) s = cam_deleteConnection c s"
| "cam_step d (CFilterEnd i) s = filter_move_end d i s"
| "cam_step d CFocuserEnd s = focuser_end_move d s"
| "cam_step d CIdle s = cam_idle d s"
| "cam_step d CSignal s = cam_endRunLoop s"
| "cam_step d (CTime t) s = s\<lparr>cnow := t\<rparr>"
| "cam_step d (CDevices bs f) s =
     s\<lparr>wheels := map2 (\<lambda>w b. w\<lparr>wconnected := b\<rparr>) (wheels s) (bs @ replicate (length (wheels s)) False), focClient := f\<rparr>"

definition new_cam :: "'h \<Rightarrow> bool \<Rightarrow> wheel list \<Rightarrow> bool \<Rightarrow> bool \<Rightarrow> 'h cam" where
  "new_cam h exptype ws focuser shiftstore =
     \<lparr>chw = h, camState = 0, fullBopState = 0, masterBopState = 0, camMaster = 0,
      cvals = (\<lambda>_. 0)(''exposure'' := 1000000), queValues = [], hasExpType = exptype,
      quedExpNumber = 0, waitingForNotBop = False, waitingForEmptyQue = False, exposureConn = None,
      sendOkInExposure = False, lastCareBlock = True, exposureNumber = 0, scriptExposureNum = 0, exposureEnd = 0,
      wheels = ws, camFilterOffsets = [], useFilterOffsets = True, hasFocuser = focuser, focClient = None,
      focuserMoving = False, currentImageData = -1, currentImageTransfer = TCPIP, statisticOnly = False,
      realTimeCount = -1, hasShiftStore = shiftstore, cnow = 0, ctimeout = 0, exitPending = False,
      exitDeadline = None, couts = []\<rparr>"

end
