(* ===== verification/CameraProps.thy ===== *)
theory CameraProps
  imports CameraOps
begin

section \<open>Properties of cameras\<close>

text \<open>
  The recursion through \<open>setFullBopState\<close> is the one of the source and ends, what the operations
  leave alone, and the lemmas by which a predicate on states is carried through the recursion.
\<close>

subsection \<open>What value changes leave alone\<close>

definition is_start :: "cam_out \<Rightarrow> bool" where
  "is_start e \<longleftrightarrow> (case e of StartExposure w m b \<Rightarrow> True | _ \<Rightarrow> False)"

definition starts :: "'h cam \<Rightarrow> cam_out list" where
  "starts s = filter is_start (couts s)"

text \<open>The state without what a value change may touch.\<close>

definition cam_core :: "'h cam \<Rightarrow> 'h cam" where
  "cam_core s = s\<lparr>chw := undefined, wheels := [], focuserMoving := False, cvals := undefined, couts := starts s\<rparr>"

lemma is_start_simps [simp]:
  "\<not> is_start (CStatus w)" "\<not> is_start (CBopOut a w)" "\<not> is_start (CEnd c i)" "\<not> is_start NullConn"
  "is_start (StartExposure w m b)" "\<not> is_start StatusInfo" "\<not> is_start (FilterCommand n i)"
  "\<not> is_start (FocuserCommand n i)" "\<not> is_start ExitLoop"
  by (simp_all add: is_start_def)

lemma starts_emit: "starts (cemit e s) = starts s @ (if is_start e then [e] else [])"
  by (simp add: starts_def cemit_def)

lemma core_updates [simp]:
  "cam_core (s\<lparr>chw := h\<rparr>) = cam_core s" "cam_core (s\<lparr>wheels := ws\<rparr>) = cam_core s" "cam_core (s\<lparr>focuserMoving := b\<rparr>) = cam_core s"
  "cam_core (s\<lparr>cvals := v\<rparr>) = cam_core s"
  by (simp_all add: cam_core_def starts_def)

lemma core_emit [simp]: "\<not> is_start e \<Longrightarrow> cam_core (cemit e s) = cam_core s"
  by (simp add: cam_core_def starts_def cemit_def)

lemma core_eq:
  assumes "cam_core a = cam_core b"
  shows "camState a = camState b" "fullBopState a = fullBopState b" "masterBopState a = masterBopState b"
    "queValues a = queValues b" "quedExpNumber a = quedExpNumber b" "waitingForNotBop a = waitingForNotBop b"
    "waitingForEmptyQue a = waitingForEmptyQue b" "exposureConn a = exposureConn b" "lastCareBlock a = lastCareBlock b"
    "hasExpType a = hasExpType b" "exposureNumber a = exposureNumber b" "starts a = starts b"
    "exitPending a = exitPending b" "sendOkInExposure a = sendOkInExposure b" "hasShiftStore a = hasShiftStore b"
    "cnow a = cnow b" "exitDeadline a = exitDeadline b" "camMaster a = camMaster b"
proof -
  have "camState (cam_core a) = camState (cam_core b)" "fullBopState (cam_core a) = fullBopState (cam_core b)"
    "masterBopState (cam_core a) = masterBopState (cam_core b)" "queValues (cam_core a) = queValues (cam_core b)"
    "quedExpNumber (cam_core a) = quedExpNumber (cam_core b)" "waitingForNotBop (cam_core a) = waitingForNotBop (cam_core b)"
    "waitingForEmptyQue (cam_core a) = waitingForEmptyQue (cam_core b)" "exposureConn (cam_core a) = exposureConn (cam_core b)"
    "lastCareBlock (cam_core a) = lastCareBlock (cam_core b)" "hasExpType (cam_core a) = hasExpType (cam_core b)"
    "exposureNumber (cam_core a) = exposureNumber (cam_core b)" "couts (cam_core a) = couts (cam_core b)"
    "exitPending (cam_core a) = exitPending (cam_core b)" "sendOkInExposure (cam_core a) = sendOkInExposure (cam_core b)"
    "hasShiftStore (cam_core a) = hasShiftStore (cam_core b)" "cnow (cam_core a) = cnow (cam_core b)"
    "exitDeadline (cam_core a) = exitDeadline (cam_core b)" "camMaster (cam_core a) = camMaster (cam_core b)"
    using assms by simp_all
  then show "camState a = camState b" "fullBopState a = fullBopState b" "masterBopState a = masterBopState b"
    "queValues a = queValues b" "quedExpNumber a = quedExpNumber b" "waitingForNotBop a = waitingForNotBop b"
    "waitingForEmptyQue a = waitingForEmptyQue b" "exposureConn a = exposureConn b" "lastCareBlock a = lastCareBlock b"
    "hasExpType a = hasExpType b" "exposureNumber a = exposureNumber b" "starts a = starts b"
    "exitPending a = exitPending b" "sendOkInExposure a = sendOkInExposure b" "hasShiftStore a = hasShiftStore b"
    "cnow a = cnow b" "exitDeadline a = exitDeadline b" "camMaster a = camMaster b"
    by (simp_all add: cam_core_def)
qed

lemma setFilterNum_core: "cam_core (snd (setFilterNum d n fn s)) = cam_core s"
  by (simp add: setFilterNum_def case_prod_beta Let_def split: option.split)

lemma setFocuser_core: "cam_core (snd (setFocuser n s)) = cam_core s"
  by (simp add: setFocuser_def split: option.split)

lemma offset_core: "cam_core (offsetForFilter n offs s) = cam_core s"
  by (simp add: offsetForFilter_def filter_offset_def split: option.split)

lemma set_filter_core: "cam_core (snd (set_filter d n fn offs s)) = cam_core s"
  by (simp add: set_filter_def case_prod_beta Let_def offset_core setFilterNum_core)

lemma cam_setValue_core: "cam_core (snd (cam_setValue d n v s)) = cam_core s"
  by (simp add: cam_setValue_def case_prod_beta Let_def set_filter_core setFocuser_core offset_core split: option.split)

lemma doSetValue_core: "cam_core (snd (doSetValue d c s)) = cam_core s"
  by (simp add: doSetValue_def case_prod_beta Let_def cam_setValue_core split: option.split)

lemma free_queued_core: "cam_core (snd (free_queued d fake cs s)) = cam_core s"
  by (induction cs arbitrary: s) (simp_all add: case_prod_beta doSetValue_core)

lemmas doSetValue_sel = core_eq [OF doSetValue_core]

lemmas free_queued_sel = core_eq [OF free_queued_core]

lemma free_queued_length: "length (fst (free_queued d fake cs s)) \<le> length cs"
  by (induction cs arbitrary: s) (simp_all add: case_prod_beta le_SucI)

lemma free_queued_subset: "set (fst (free_queued d fake cs s)) \<subseteq> set cs"
  by (induction cs arbitrary: s) (auto simp: case_prod_beta)

text \<open>What stays queued is what the state blocks, in its order.\<close>

lemma free_queued_stay: "fst (free_queued d fake cs s) = filter (\<lambda>c. queValueChange d (vname c) fake) cs"
  by (induction cs arbitrary: s) (simp_all add: case_prod_beta)

subsection \<open>The recursion ends\<close>

definition shrinks :: "(u32 \<Rightarrow> 'h cam \<Rightarrow> 'h cam) \<Rightarrow> bool" where
  "shrinks f \<longleftrightarrow> (\<forall>new s. length (queValues (f new s)) \<le> length (queValues s))"

definition agree :: "nat \<Rightarrow> (u32 \<Rightarrow> 'h cam \<Rightarrow> 'h cam) \<Rightarrow> (u32 \<Rightarrow> 'h cam \<Rightarrow> 'h cam) \<Rightarrow> bool" where
  "agree n f g \<longleftrightarrow> (\<forall>new s. length (queValues s) < n \<longrightarrow> f new s = g new s)"

lemma cemit_sel [simp]:
  "queValues (cemit e s) = queValues s" "camState (cemit e s) = camState s" "masterBopState (cemit e s) = masterBopState s"
  "fullBopState (cemit e s) = fullBopState s" "quedExpNumber (cemit e s) = quedExpNumber s"
  "waitingForNotBop (cemit e s) = waitingForNotBop s" "lastCareBlock (cemit e s) = lastCareBlock s"
  "hasExpType (cemit e s) = hasExpType s" "cvals (cemit e s) = cvals s" "exposureConn (cemit e s) = exposureConn s"
  "exitPending (cemit e s) = exitPending s" "waitingForEmptyQue (cemit e s) = waitingForEmptyQue s"
  "hasShiftStore (cemit e s) = hasShiftStore s" "couts (cemit e s) = couts s @ [e]" "cnow (cemit e s) = cnow s"
  "exitDeadline (cemit e s) = exitDeadline s" "camMaster (cemit e s) = camMaster s" "wheels (cemit e s) = wheels s"
  "focuserMoving (cemit e s) = focuserMoving s" "exposureNumber (cemit e s) = exposureNumber s"
  by (simp_all add: cemit_def)

lemma queue_emptied_sel [simp]:
  "queValues (queue_emptied s) = queValues s" "camState (queue_emptied s) = camState s"
  "masterBopState (queue_emptied s) = masterBopState s" "fullBopState (queue_emptied s) = fullBopState s"
  "lastCareBlock (queue_emptied s) = lastCareBlock s" "hasExpType (queue_emptied s) = hasExpType s"
  "cvals (queue_emptied s) = cvals s" "starts (queue_emptied s) = starts s"
  "exposureConn (queue_emptied s) = exposureConn s" "hasShiftStore (queue_emptied s) = hasShiftStore s"
  by (simp_all add: queue_emptied_def Let_def starts_def)

lemma dev_full_sel [simp]:
  "queValues (dev_setFullBopState d w s) = queValues s" "camState (dev_setFullBopState d w s) = camState s"
  "masterBopState (dev_setFullBopState d w s) = w" "quedExpNumber (dev_setFullBopState d w s) = quedExpNumber s"
  "waitingForNotBop (dev_setFullBopState d w s) = waitingForNotBop s" "lastCareBlock (dev_setFullBopState d w s) = lastCareBlock s"
  "hasExpType (dev_setFullBopState d w s) = hasExpType s" "cvals (dev_setFullBopState d w s) = cvals s"
  "starts (dev_setFullBopState d w s) = starts s" "exposureConn (dev_setFullBopState d w s) = exposureConn s"
  "waitingForEmptyQue (dev_setFullBopState d w s) = waitingForEmptyQue s"
  "hasShiftStore (dev_setFullBopState d w s) = hasShiftStore s"
  by (simp_all add: dev_setFullBopState_def Let_def starts_def)

lemma shrinksD: "shrinks f \<Longrightarrow> length (queValues s) \<le> n \<Longrightarrow> length (queValues (f new s)) \<le> n"
  unfolding shrinks_def using order_trans by blast

lemma checkQue_shrinks:
  assumes "shrinks full"
  shows "length (queValues (checkQueChanges_with full d fake s)) \<le> length (queValues s)"
proof -
  have "length (queValues (dev_checkQueChanges_with full d w s)) \<le> length (queValues s)" for w
    by (simp add: dev_checkQueChanges_with_def case_prod_beta Let_def shrinksD [OF assms] free_queued_length)
  then show ?thesis by (simp add: checkQueChanges_with_def)
qed

lemma maskState_shrinks:
  "shrinks full \<Longrightarrow> length (queValues (cam_maskState_with full d m n s)) \<le> length (queValues s)"
  using checkQue_shrinks [of full d "mask_word m n (camState s)" "s\<lparr>camState := mask_word m n (camState s)\<rparr>"]
  by (simp add: cam_maskState_with_def cam_setState_with_def Let_def)

lemma started_sel [simp]:
  "queValues (started d s) = queValues s" "camState (started d s) = camState s" "starts (started d s) = starts s"
  "masterBopState (started d s) = masterBopState s" "fullBopState (started d s) = fullBopState s"
  "lastCareBlock (started d s) = lastCareBlock s" "hasExpType (started d s) = hasExpType s" "cvals (started d s) = cvals s"
  "quedExpNumber (started d s) = quedExpNumber s" "exposureConn (started d s) = exposureConn s"
  "hasShiftStore (started d s) = hasShiftStore s"
  by (simp_all add: started_def case_prod_beta Let_def cam_setTimeout_def starts_def split: option.split)

lemma start_shrinks:
  assumes "shrinks full"
  shows "length (queValues (snd (camStartExposureWithoutCheck_with full d s))) \<le> length (queValues s)"
  using assms
  by (auto simp: camStartExposureWithoutCheck_with_def case_prod_beta Let_def
      intro!: maskState_shrinks [THEN order_trans])

lemma setFull_shrinks: "shrinks full \<Longrightarrow> shrinks (setFullBopState_with full d)"
  unfolding shrinks_def [of "setFullBopState_with full d"]
  by (auto simp: setFullBopState_with_def Let_def intro: maskState_shrinks [THEN order_trans] start_shrinks [THEN order_trans])

lemma full_level_shrinks: "shrinks (full_level d n)"
  by (induction n) (simp_all add: setFull_shrinks, simp add: shrinks_def)

lemma setFull_shrinks': "shrinks (setFullBopState d)"
  using full_level_shrinks unfolding shrinks_def setFullBopState_def by blast

lemma checkQue_agree:
  assumes "agree (length (queValues s)) f g"
  shows "checkQueChanges_with f d fake s = checkQueChanges_with g d fake s"
  using assms by (simp add: checkQueChanges_with_def dev_checkQueChanges_with_def case_prod_beta Let_def agree_def)

lemma maskState_agree:
  assumes "agree (length (queValues s)) f g"
  shows "cam_maskState_with f d m n s = cam_maskState_with g d m n s"
  using checkQue_agree [of "s\<lparr>camState := mask_word m n (camState s)\<rparr>" f g d "mask_word m n (camState s)"] assms
  by (simp add: cam_maskState_with_def cam_setState_with_def Let_def)

lemma agree_le: "agree n f g \<Longrightarrow> m \<le> n \<Longrightarrow> agree m f g"
  by (auto simp: agree_def)

lemma start_agree:
  assumes "agree (length (queValues s)) f g" "shrinks f"
  shows "camStartExposureWithoutCheck_with f d s = camStartExposureWithoutCheck_with g d s"
proof -
  let ?s0 = "s\<lparr>exposureNumber := exposureNumber s + 1, scriptExposureNum := scriptExposureNum s + 1\<rparr>"
  let ?tel = "if lastCareBlock s then BOP_TEL_MOVE else 0"
  have a: "cam_maskState_with f d BOP_TEL_MOVE ?tel ?s0 = cam_maskState_with g d BOP_TEL_MOVE ?tel ?s0"
    by (rule maskState_agree) (simp add: assms)
  have l: "length (queValues (cam_maskState_with f d BOP_TEL_MOVE ?tel ?s0)) \<le> length (queValues s)"
    using maskState_shrinks [OF assms(2), of d BOP_TEL_MOVE ?tel ?s0] by simp
  have b: "queValues t = queValues (cam_maskState_with f d BOP_TEL_MOVE ?tel ?s0) \<Longrightarrow>
      cam_maskState_with f d m n t = cam_maskState_with g d m n t" for t m n
    by (rule maskState_agree, rule agree_le [OF assms(1)]) (use l in simp)
  define s1 where "s1 = cam_maskState_with f d BOP_TEL_MOVE ?tel ?s0"
  have c: "queValues t = queValues s1 \<Longrightarrow> cam_maskState_with g d m n t = cam_maskState_with f d m n t" for t m n
    using b unfolding s1_def by simp
  have e: "queValues (cemit x (s1\<lparr>chw := h\<rparr>)) = queValues s1"
    "queValues ((cemit x (s1\<lparr>chw := h\<rparr>))\<lparr>exposureEnd := y\<rparr>) = queValues s1" for x h y by simp_all
  show ?thesis
    unfolding camStartExposureWithoutCheck_with_def Let_def a [symmetric] s1_def [symmetric]
    unfolding case_prod_beta c [OF e(1)] c [OF e(2)] by (rule refl)
qed

lemma setFull_agree:
  assumes "agree (length (queValues s)) f g" "shrinks f"
  shows "setFullBopState_with f d new s = setFullBopState_with g d new s"
  using maskState_agree [of "dev_setFullBopState d new s" f g d BOP_WILL_EXPOSE BOP_WILL_EXPOSE]
    start_agree [of "(dev_setFullBopState d new s)\<lparr>waitingForNotBop := False,
      quedExpNumber := quedExpNumber s - 1\<rparr>" f g d] assms
  by (simp add: setFullBopState_with_def Let_def)

lemma full_level_enough:
  "length (queValues s) < n \<Longrightarrow> length (queValues s) < m \<Longrightarrow> full_level d n new s = full_level d m new s"
proof (induction n arbitrary: m new s)
  case (Suc n)
  then obtain k where m: "m = Suc k" "length (queValues s) \<le> k" by (cases m) simp_all
  have "agree (length (queValues s)) (full_level d n) (full_level d k)"
    unfolding agree_def
  proof (intro allI impI)
    fix w and t :: "'a cam"
    assume "length (queValues t) < length (queValues s)"
    then show "full_level d n w t = full_level d k w t" using Suc.prems(1) m(2) by (intro Suc.IH) linarith+
  qed
  then show ?case unfolding m(1) full_level.simps by (rule setFull_agree) (rule full_level_shrinks)
qed simp

lemma setFullBopState_rec: "setFullBopState d new s = setFullBopState_with (setFullBopState d) d new s"
proof -
  have "agree (length (queValues s)) (full_level d (length (queValues s))) (setFullBopState d)"
    by (auto simp: agree_def setFullBopState_def simp del: full_level.simps intro: full_level_enough)
  then have "setFullBopState_with (full_level d (length (queValues s))) d new s
      = setFullBopState_with (setFullBopState d) d new s"
    by (rule setFull_agree) (rule full_level_shrinks)
  then show ?thesis by (simp add: setFullBopState_def)
qed

subsection \<open>Predicates carried through the recursion\<close>

locale carried =
  fixes d :: "'h cam_driver" and P :: "'h cam \<Rightarrow> bool"
  assumes through: "(\<And>w s. P s \<Longrightarrow> P (full w s)) \<Longrightarrow> P s \<Longrightarrow> P (setFullBopState_with full d w s)"
begin

lemma level: "P s \<Longrightarrow> P (full_level d n w s)"
proof (induction n arbitrary: w s)
  case (Suc n)
  then show ?case using through by simp
qed simp

lemma carried_full: "P s \<Longrightarrow> P (setFullBopState d w s)"
  unfolding setFullBopState_def by (rule level)

end

end
