(* ===== verification/CameraKeeps.thy ===== *)
theory CameraKeeps
  imports CameraProps
begin

section \<open>What every operation of a camera keeps\<close>

text \<open>
  The locale \<open>cam_keeps\<close> carries a predicate through all operations of a camera: the predicate
  holds after each write of the state word the operations make and after a start of an exposure,
  and does not look at the other fields. It is interpreted on the predicates of the theories
  that follow.
\<close>

text \<open>The masks and values the operations write.\<close>

definition cam_writes :: "(u32 \<times> u32) list" where
  "cam_writes =
     [(BOP_WILL_EXPOSE, BOP_WILL_EXPOSE),
      (CAM_MASK_READING OR CAM_MASK_FT, CAM_READING OR CAM_FT),
      (CAM_MASK_EXPOSE OR CAM_MASK_READING OR BOP_TEL_MOVE, CAM_NOEXPOSURE OR CAM_READING),
      (DEVICE_ERROR_MASK OR CAM_MASK_SHIFTING OR CAM_MASK_READING, DEVICE_ERROR_HW OR CAM_NOTREADING),
      (CAM_MASK_EXPOSE OR CAM_MASK_SHIFTING OR CAM_MASK_READING OR CAM_MASK_FT OR BOP_TEL_MOVE OR BOP_WILL_EXPOSE,
        CAM_NOEXPOSURE OR CAM_NOTREADING OR CAM_NOFT),
      (CAM_MASK_EXPOSE OR CAM_MASK_FT OR BOP_TEL_MOVE, CAM_NOEXPOSURE OR CAM_NOFT),
      (CAM_MASK_FT, CAM_NOFT),
      (DEVICE_ERROR_MASK OR CAM_MASK_EXPOSE OR CAM_MASK_SHIFTING OR CAM_MASK_READING OR BOP_TEL_MOVE,
        DEVICE_ERROR_HW OR CAM_NOEXPOSURE OR CAM_NOTREADING),
      (CAM_MASK_SHIFTING OR CAM_MASK_READING OR CAM_MASK_HAS_IMAGE, CAM_NOTREADING OR CAM_HAS_IMAGE),
      (DEVICE_ERROR_KILL, 0),
      (DEVICE_ERROR_KILL OR DEVICE_ERROR_HW OR DEVICE_NOT_READY, DEVICE_ERROR_KILL),
      (CAM_MASK_EXPOSE OR CAM_MASK_SHIFTING OR CAM_MASK_READING OR CAM_MASK_FT OR BOP_TEL_MOVE OR BOP_WILL_EXPOSE OR DEVICE_ERROR_KILL,
        CAM_NOEXPOSURE OR CAM_NOTREADING OR CAM_NOFT OR DEVICE_ERROR_KILL),
      (CAM_MASK_EXPOSE OR CAM_MASK_SHIFTING OR CAM_MASK_READING OR CAM_MASK_FT OR BOP_TEL_MOVE OR BOP_WILL_EXPOSE OR DEVICE_ERROR_KILL OR DEVICE_ERROR_HW,
        CAM_NOEXPOSURE OR CAM_NOTREADING OR CAM_NOFT OR DEVICE_ERROR_KILL OR DEVICE_ERROR_HW),
      (DEVICE_ERROR_MASK OR CAM_MASK_EXPOSE OR CAM_MASK_SHIFTING, CAM_EXPOSING OR CAM_SHIFT),
      (DEVICE_ERROR_MASK OR CAM_MASK_EXPOSE, CAM_EXPOSING)]"

locale cam_keeps =
  fixes d :: "'h cam_driver" and P :: "'h cam \<Rightarrow> bool"
  assumes full_keeps: "P s \<Longrightarrow> P (setFullBopState d w s)"
    and write_keeps: "P s \<Longrightarrow> list_ex (\<lambda>x. x = (m, n)) cam_writes \<Longrightarrow> P (cam_maskState d m n s)"
    and start_keeps: "P s \<Longrightarrow> P (snd (camStartExposureWithoutCheck d s))"
    and que_keeps: "P s \<Longrightarrow> P (checkQueChanges d w s)"
    and queued_keeps: "P s \<Longrightarrow> 0 \<le> i \<Longrightarrow> P (s\<lparr>quedExpNumber := i\<rparr>)"
    and queued_up_keeps: "P s \<Longrightarrow> P (s\<lparr>quedExpNumber := quedExpNumber s + 1\<rparr>)"
    and emit_keeps: "P (cemit e s) = P s"
    and fields_keep: "P (s\<lparr>chw := h\<rparr>) = P s" "P (s\<lparr>waitingForNotBop := b\<rparr>) = P s" "P (s\<lparr>waitingForEmptyQue := b\<rparr>) = P s"
      "P (s\<lparr>exposureConn := co\<rparr>) = P s" "P (s\<lparr>realTimeCount := i\<rparr>) = P s" "P (s\<lparr>currentImageData := i\<rparr>) = P s"
      "P (s\<lparr>currentImageTransfer := t\<rparr>) = P s" "P (s\<lparr>ctimeout := i\<rparr>) = P s" "P (s\<lparr>wheels := ws\<rparr>) = P s"
      "P (s\<lparr>queValues := k\<rparr>) = P s" "P (s\<lparr>scriptExposureNum := i\<rparr>) = P s"
      "P (s\<lparr>focuserMoving := b\<rparr>) = P s" "P (s\<lparr>cvals := v\<rparr>) = P s" "P (s\<lparr>exposureEnd := i\<rparr>) = P s"
begin

lemma writes:
  "P s \<Longrightarrow> P (cam_maskState d BOP_WILL_EXPOSE BOP_WILL_EXPOSE s)" "P s \<Longrightarrow> P (cam_maskState d 6 6 s)"
  "P s \<Longrightarrow> P (cam_maskState d 0x4000013 2 s)" "P s \<Longrightarrow> P (cam_maskState d 0xf0022 0x20000 s)"
  "P s \<Longrightarrow> P (cam_maskState d 0xc000037 0 s)" "P s \<Longrightarrow> P (cam_maskState d 0x4000015 0 s)"
  "P s \<Longrightarrow> P (cam_maskState d 4 0 s)" "P s \<Longrightarrow> P (cam_maskState d 0x40f0033 0x20000 s)"
  "P s \<Longrightarrow> P (cam_maskState d 0x2a 8 s)" "P s \<Longrightarrow> P (cam_maskState d 0x10000 0 s)"
  "P s \<Longrightarrow> P (cam_maskState d 0x70000 0x10000 s)" "P s \<Longrightarrow> P (cam_maskState d 0xc010037 0x10000 s)"
  "P s \<Longrightarrow> P (cam_maskState d 0xc030037 0x30000 s)" "P s \<Longrightarrow> P (cam_maskState d 0xf0031 0x21 s)"
  "P s \<Longrightarrow> P (cam_maskState d 0xf0011 1 s)"
  by (rule write_keeps; (assumption | code_simp))+

lemmas keeps = full_keeps writes start_keeps que_keeps queued_keeps queued_up_keeps emit_keeps fields_keep

lemma startExposure: "P s \<Longrightarrow> P (snd (camStartExposure d b s))"
proof -
  assume s: "P s"
  then have "P (s\<lparr>quedExpNumber := quedExpNumber s + 1, waitingForNotBop := True\<rparr>)" by (simp only: keeps)
  then show ?thesis using s by (simp add: camStartExposure_def Let_def keeps)
qed

lemma reply: "P (reply c i s) = P s"
  by (simp add: reply_def emit_keeps split: option.split)

lemma expose: "P s \<Longrightarrow> P (snd (camExpose d c w f b s))"
proof -
  assume s: "P s"
  have "P (s\<lparr>quedExpNumber := quedExpNumber s - 1, exposureConn := c\<rparr>)" if "quedExpNumber s > 0"
    using s that by (simp add: fields_keep queued_keeps)
  then show ?thesis using s by (simp add: camExpose_def case_prod_beta Let_def reply startExposure keeps)
qed

lemma queuedExposures: "P s \<Longrightarrow> P (checkQueuedExposures d s)"
  by (simp add: checkQueuedExposures_def expose queued_keeps)

lemma stopping: "P s \<Longrightarrow> P (snd (stopExposure d s))"
  by (simp add: stopExposure_def case_prod_beta Let_def keeps)

lemma data: "P (open_data d c s) = P s" "P (end_data s) = P s"
  by (simp_all add: open_data_def startImageData_def end_data_def case_prod_beta Let_def fields_keep)

lemma readout: "P s \<Longrightarrow> P (snd (camReadout d c s))"
  by (simp add: camReadout_def case_prod_beta Let_def keeps data expose)

lemma ending: "P s \<Longrightarrow> P (snd (endExposure d r s))"
proof -
  assume s: "P s"
  have "P (no_exposure d (x\<lparr>quedExpNumber := 0\<rparr>))" if "P x" for x using that by (simp add: no_exposure_def keeps)
  then show ?thesis using s by (cases "exposureConn s") (simp_all add: endExposure_def Let_def readout stopping)
qed

lemma exposure_over: "P s \<Longrightarrow> P (exposure_over d r s)"
  by (simp add: exposure_over_def exposure_finished_def expose_queued_def Let_def keeps ending expose stopping)

lemma checks: "P s \<Longrightarrow> P (checkExposures d s)" "P s \<Longrightarrow> P (checkReadouts d s)"
  by (simp_all add: checkExposures_def checkReadouts_def endReadout_def afterReadout_def cam_setTimeout_def
      case_prod_beta Let_def keeps exposure_over expose)

lemma aborts: "P s \<Longrightarrow> P (snd (cam_scriptEnds d s))" "P s \<Longrightarrow> P (snd (cam_killAll d b s))" "P s \<Longrightarrow> P (snd (stopexpo d s))"
  by (simp_all add: cam_scriptEnds_def cam_killAll_def dev_killAll_def stopexpo_def case_prod_beta Let_def keeps stopping data)

end

end
