(* ===== verification/CameraTel.thy ===== *)
theory CameraTel
  imports CameraKeeps
begin

section \<open>A camera blocks the telescope only while it exposes\<close>

text \<open>
  The block of telescope moves in a camera's state word: every operation of \<open>camd.cpp\<close> that sets it sets an exposure with it,
  and every one that ends the exposure clears it, so that the block is never left behind.
\<close>

subsection \<open>The block in the state word\<close>

definition tel_ok :: "u32 \<Rightarrow> bool" where
  "tel_ok w \<longleftrightarrow> (w AND BOP_TEL_MOVE \<noteq> 0 \<longrightarrow> w AND CAM_MASK_EXPOSE \<noteq> 0)"

lemma tel_clear: "BOP_TEL_MOVE AND m = BOP_TEL_MOVE \<Longrightarrow> n AND BOP_TEL_MOVE = 0 \<Longrightarrow> tel_ok (mask_word m n w)"
  unfolding tel_ok_def by (simp only: mask_word_field simp_thms)

lemma tel_set: "CAM_MASK_EXPOSE AND m = CAM_MASK_EXPOSE \<Longrightarrow> n AND CAM_MASK_EXPOSE \<noteq> 0 \<Longrightarrow> tel_ok (mask_word m n w)"
  unfolding tel_ok_def by (simp only: mask_word_field simp_thms)

lemma tel_same:
  assumes "m AND (BOP_TEL_MOVE OR CAM_MASK_EXPOSE) = 0" "n AND (BOP_TEL_MOVE OR CAM_MASK_EXPOSE) = 0" "tel_ok w"
  shows "tel_ok (mask_word m n w)"
proof -
  have "(BOP_TEL_MOVE OR CAM_MASK_EXPOSE) AND DEVICE_ERROR_MASK = 0" by simp
  then have e: "mask_word m n w AND (BOP_TEL_MOVE OR CAM_MASK_EXPOSE) = w AND (BOP_TEL_MOVE OR CAM_MASK_EXPOSE)"
    using assms(1,2) by (intro mask_word_other) (simp_all only: bit.conj_disj_distrib2 and.commute or.right_neutral)
  have "mask_word m n w AND BOP_TEL_MOVE = (mask_word m n w AND (BOP_TEL_MOVE OR CAM_MASK_EXPOSE)) AND BOP_TEL_MOVE"
    "mask_word m n w AND CAM_MASK_EXPOSE = (mask_word m n w AND (BOP_TEL_MOVE OR CAM_MASK_EXPOSE)) AND CAM_MASK_EXPOSE"
    "w AND BOP_TEL_MOVE = (w AND (BOP_TEL_MOVE OR CAM_MASK_EXPOSE)) AND BOP_TEL_MOVE"
    "w AND CAM_MASK_EXPOSE = (w AND (BOP_TEL_MOVE OR CAM_MASK_EXPOSE)) AND CAM_MASK_EXPOSE"
    by (simp_all add: and.assoc)
  then show ?thesis using assms(3) unfolding tel_ok_def e by metis
qed

subsection \<open>The operations\<close>

named_theorems keeps_tel \<open>operations that leave no block behind\<close>

lemma free_queued_state: "camState (snd (free_queued d fake cs s)) = camState s"
  by (rule free_queued_sel)

lemma checkQue_tel:
  assumes "\<And>w s. tel_ok (camState s) \<Longrightarrow> tel_ok (camState (full w s))" "tel_ok (camState s)"
  shows "tel_ok (camState (checkQueChanges_with full d fake s))"
  using assms by (simp add: checkQueChanges_with_def dev_checkQueChanges_with_def case_prod_beta Let_def free_queued_state)

lemma maskState_tel:
  assumes "\<And>w s. tel_ok (camState s) \<Longrightarrow> tel_ok (camState (full w s))" "tel_ok (mask_word m n (camState s))"
  shows "tel_ok (camState (cam_maskState_with full d m n s))"
proof (cases "camState s = mask_word m n (camState s)")
  case True
  then have "tel_ok (camState s)" using assms(2) by simp
  then show ?thesis using True by (simp add: cam_maskState_with_def cam_setState_with_def Let_def)
next
  case False
  then show ?thesis using assms(2) checkQue_tel [OF assms(1)]
    by (simp add: cam_maskState_with_def cam_setState_with_def Let_def)
qed

lemma start_tel:
  assumes "\<And>w s. tel_ok (camState s) \<Longrightarrow> tel_ok (camState (full w s))"
  shows "tel_ok (camState (snd (camStartExposureWithoutCheck_with full d s)))"
proof -
  have f: "tel_ok (camState (cam_maskState_with full d BOP_TEL_MOVE 0 t))" for t
    by (rule maskState_tel [OF assms]) (auto intro: tel_clear)
  have e: "tel_ok (camState (cam_maskState_with full d
      (CAM_MASK_EXPOSE OR BOP_TEL_MOVE OR BOP_WILL_EXPOSE OR CAM_MASK_HAS_IMAGE) n t))"
    if "n AND CAM_MASK_EXPOSE \<noteq> 0" for n t
    by (rule maskState_tel [OF assms]) (use that in \<open>auto intro: tel_set\<close>)
  show ?thesis
    unfolding camStartExposureWithoutCheck_with_def Let_def case_prod_beta
    by (simp add: f e [simplified])
qed

interpretation tel: carried d "\<lambda>s. tel_ok (camState s)" for d
proof
  fix full :: "u32 \<Rightarrow> 'a cam \<Rightarrow> 'a cam" and w and s :: "'a cam"
  assume full: "\<And>w s. tel_ok (camState s) \<Longrightarrow> tel_ok (camState (full w s))" and s: "tel_ok (camState s)"
  have "tel_ok (camState (cam_maskState_with full d BOP_WILL_EXPOSE BOP_WILL_EXPOSE (dev_setFullBopState d w s)))"
    by (rule maskState_tel [OF full]) (use s in \<open>auto intro: tel_same\<close>)
  then show "tel_ok (camState (setFullBopState_with full d w s))"
    using start_tel [OF full] s by (simp add: setFullBopState_with_def Let_def)
qed

lemmas setFull_tel [keeps_tel] = tel.carried_full

lemma mask_tel: "tel_ok (mask_word m n (camState s)) \<Longrightarrow> tel_ok (camState (cam_maskState d m n s))"
  unfolding cam_maskState_def by (rule maskState_tel [OF setFull_tel])

lemma que_tel [keeps_tel]: "tel_ok (camState s) \<Longrightarrow> tel_ok (camState (checkQueChanges d w s))"
  unfolding checkQueChanges_def by (rule checkQue_tel [OF setFull_tel])

lemma begin_tel [keeps_tel]: "tel_ok (camState (snd (camStartExposureWithoutCheck d s)))"
  unfolding camStartExposureWithoutCheck_def by (rule start_tel [OF setFull_tel])

text \<open>The three ways a write keeps the block in order.\<close>

definition tel_write :: "u32 \<Rightarrow> u32 \<Rightarrow> bool" where
  "tel_write m n \<longleftrightarrow> (BOP_TEL_MOVE AND m = BOP_TEL_MOVE \<and> n AND BOP_TEL_MOVE = 0)
     \<or> (CAM_MASK_EXPOSE AND m = CAM_MASK_EXPOSE \<and> n AND CAM_MASK_EXPOSE \<noteq> 0)
     \<or> (m AND (BOP_TEL_MOVE OR CAM_MASK_EXPOSE) = 0 \<and> n AND (BOP_TEL_MOVE OR CAM_MASK_EXPOSE) = 0)"

lemma write_tel:
  assumes "tel_ok (camState s)" "list_ex (\<lambda>x. x = (m, n)) cam_writes"
  shows "tel_ok (camState (cam_maskState d m n s))"
proof (rule mask_tel)
  have "list_all (\<lambda>(m, n). tel_write m n) cam_writes" by code_simp
  then have "tel_write m n" using assms(2) by (auto simp: list_all_iff list_ex_iff)
  then show "tel_ok (mask_word m n (camState s))"
    using tel_clear tel_set tel_same [OF _ _ assms(1)] unfolding tel_write_def by blast
qed

interpretation tel_ops: cam_keeps d "\<lambda>s. tel_ok (camState s)" for d
  by unfold_locales (simp_all add: setFull_tel write_tel begin_tel que_tel)

lemmas [keeps_tel] = tel_ops.expose tel_ops.queuedExposures tel_ops.checks tel_ops.aborts tel_ops.keeps

lemma stop_state [simp]:
  "camState (snd (stopExposure d s)) = camState s" "starts (snd (stopExposure d s)) = starts s"
  "hasShiftStore (snd (stopExposure d s)) = hasShiftStore s" "exposureConn (snd (stopExposure d s)) = exposureConn s"
  "queValues (snd (stopExposure d s)) = queValues s" "masterBopState (snd (stopExposure d s)) = masterBopState s"
  "fullBopState (snd (stopExposure d s)) = fullBopState s"
  by (simp_all add: stopExposure_def case_prod_beta Let_def starts_def)

lemma data_state [simp]:
  "camState (open_data d c s) = camState s" "camState (end_data s) = camState s"
  "queValues (open_data d c s) = queValues s" "queValues (end_data s) = queValues s"
  "starts (open_data d c s) = starts s" "starts (end_data s) = starts s"
  "masterBopState (open_data d c s) = masterBopState s" "masterBopState (end_data s) = masterBopState s"
  "fullBopState (open_data d c s) = fullBopState s" "fullBopState (end_data s) = fullBopState s"
  by (simp_all add: open_data_def startImageData_def end_data_def case_prod_beta Let_def starts_def)

lemma setCondValue_state: "camState (snd (setCondValue d c s)) = camState s"
  by (simp add: setCondValue_def doSetValue_sel)

lemma command_tel [keeps_tel]:
  assumes "tel_ok (camState s)" "x = ShiftStore ShiftEnd \<Longrightarrow> \<not> hasShiftStore s"
  shows "tel_ok (camState (snd (cam_commandAuthorized d c x s)))"
proof (cases x)
  case (ShiftStore k)
  then show ?thesis using assms
    by (cases k) (simp_all add: shiftStoreStart_def shiftStoreShift_def keeps_tel)
qed (use assms in \<open>simp_all add: Let_def case_prod_beta setCondValue_state keeps_tel\<close>)

lemma step_tel:
  assumes "tel_ok (camState s)" "\<And>c. e = CCommand c (ShiftStore ShiftEnd) \<Longrightarrow> \<not> hasShiftStore s"
  shows "tel_ok (camState (cam_step d e s))"
proof (cases e)
  case (CCommand c x)
  then show ?thesis using assms by (auto intro: command_tel)
qed (use assms(1) in \<open>simp_all add: cam_deleteConnection_def filter_move_end_def focuser_end_move_def cam_idle_def
      stopping_pass_def cam_endRunLoop_def Let_def keeps_tel\<close>)

end
