(* ===== verification/CameraTypes.thy ===== *)
theory CameraTypes
  imports CameraTel
begin

section \<open>The values a camera's state takes\<close>

text \<open>
  The well-formedness of the state: the state word has only bits of a camera, an exposure without
  image is an exposure, and the number of queued exposures is not negative. Every operation keeps it.
\<close>

abbreviation CAM_STATE :: u32 where
  "CAM_STATE \<equiv> 0x0c0f003f"

text \<open>The combinations of the bits \<open>CAM_EXPOSING\<close> and \<open>CAM_EXPOSING_NOIM\<close> that occur.\<close>

definition word_wf :: "u32 \<Rightarrow> bool" where
  "word_wf w \<longleftrightarrow> w AND NOT CAM_STATE = 0
     \<and> w AND CAM_MASK_EXPOSE \<in> {CAM_NOEXPOSURE, CAM_EXPOSING, CAM_EXPOSING OR CAM_EXPOSING_NOIM}"

definition cam_wf :: "'h cam \<Rightarrow> bool" where
  "cam_wf s \<longleftrightarrow> word_wf (camState s) \<and> 0 \<le> quedExpNumber s"

text \<open>A write that keeps a word well-formed: within the bits, and either all of the exposure or none of it.\<close>

definition wf_write :: "u32 \<Rightarrow> u32 \<Rightarrow> bool" where
  "wf_write m n \<longleftrightarrow> n AND NOT CAM_STATE = 0
     \<and> ((CAM_MASK_EXPOSE AND m = CAM_MASK_EXPOSE
          \<and> n AND CAM_MASK_EXPOSE \<in> {CAM_NOEXPOSURE, CAM_EXPOSING, CAM_EXPOSING OR CAM_EXPOSING_NOIM})
        \<or> (m AND CAM_MASK_EXPOSE = 0 \<and> n AND CAM_MASK_EXPOSE = 0))"

lemma mask_word_within:
  assumes "w AND NOT k = 0" "n AND NOT k = 0"
  shows "mask_word m n w AND NOT k = 0"
proof (rule bit_word_eqI)
  fix i :: nat
  assume i: "i < LENGTH(32)"
  have "bit (w AND NOT k) i = bit (0::u32) i" "bit (n AND NOT k) i = bit (0::u32) i" using assms by simp_all
  then show "bit (mask_word m n w AND NOT k) i = bit (0::u32) i"
    using i by (auto simp: mask_word_def bit_simps)
qed

lemma word_wf_mask:
  assumes "word_wf w" "wf_write m n"
  shows "word_wf (mask_word m n w)"
proof -
  have k: "mask_word m n w AND NOT CAM_STATE = 0"
    using assms unfolding word_wf_def wf_write_def by (blast intro: mask_word_within)
  have "mask_word m n w AND CAM_MASK_EXPOSE \<in> {CAM_NOEXPOSURE, CAM_EXPOSING, CAM_EXPOSING OR CAM_EXPOSING_NOIM}"
  proof (cases "CAM_MASK_EXPOSE AND m = CAM_MASK_EXPOSE \<and>
      n AND CAM_MASK_EXPOSE \<in> {CAM_NOEXPOSURE, CAM_EXPOSING, CAM_EXPOSING OR CAM_EXPOSING_NOIM}")
    case True
    then have "mask_word m n w AND CAM_MASK_EXPOSE = n AND CAM_MASK_EXPOSE" by (intro mask_word_field) blast
    then show ?thesis using True by simp
  next
    case False
    then have z: "m AND CAM_MASK_EXPOSE = 0" "n AND CAM_MASK_EXPOSE = 0"
      using assms(2) unfolding wf_write_def by blast+
    have "(DEVICE_ERROR_MASK OR m) AND CAM_MASK_EXPOSE = (DEVICE_ERROR_MASK AND CAM_MASK_EXPOSE) OR (m AND CAM_MASK_EXPOSE)"
      by (rule bit.conj_disj_distrib2)
    then have "(DEVICE_ERROR_MASK OR m) AND CAM_MASK_EXPOSE = 0" using z(1) by simp
    then have "mask_word m n w AND CAM_MASK_EXPOSE = w AND CAM_MASK_EXPOSE" using z(2) by (rule mask_word_other)
    then show ?thesis using assms(1) unfolding word_wf_def by metis
  qed
  with k show ?thesis unfolding word_wf_def by blast
qed

subsection \<open>The recursion\<close>

lemma wf_updates [simp]:
  "cam_wf (cemit e s) = cam_wf s" "cam_wf (s\<lparr>chw := h\<rparr>) = cam_wf s" "cam_wf (s\<lparr>queValues := k\<rparr>) = cam_wf s"
  "cam_wf (s\<lparr>waitingForNotBop := b\<rparr>) = cam_wf s" "cam_wf (s\<lparr>waitingForEmptyQue := b\<rparr>) = cam_wf s"
  "cam_wf (s\<lparr>exposureConn := co\<rparr>) = cam_wf s" "cam_wf (s\<lparr>realTimeCount := i\<rparr>) = cam_wf s"
  "cam_wf (s\<lparr>currentImageData := i\<rparr>) = cam_wf s" "cam_wf (s\<lparr>currentImageTransfer := t\<rparr>) = cam_wf s"
  "cam_wf (s\<lparr>ctimeout := i\<rparr>) = cam_wf s" "cam_wf (s\<lparr>wheels := ws\<rparr>) = cam_wf s"
  "cam_wf (s\<lparr>scriptExposureNum := i\<rparr>) = cam_wf s" "cam_wf (s\<lparr>lastCareBlock := b\<rparr>) = cam_wf s"
  "cam_wf (s\<lparr>focuserMoving := b\<rparr>) = cam_wf s" "cam_wf (s\<lparr>cvals := v\<rparr>) = cam_wf s"
  "cam_wf (s\<lparr>exposureEnd := i\<rparr>) = cam_wf s" "cam_wf (s\<lparr>exposureNumber := i\<rparr>) = cam_wf s"
  "cam_wf (s\<lparr>exitPending := b\<rparr>) = cam_wf s" "cam_wf (s\<lparr>exitDeadline := dl\<rparr>) = cam_wf s"
  "cam_wf (s\<lparr>cnow := i\<rparr>) = cam_wf s" "cam_wf (s\<lparr>camMaster := w\<rparr>) = cam_wf s" "cam_wf (s\<lparr>focClient := f\<rparr>) = cam_wf s"
  "cam_wf (dev_setFullBopState d w s) = cam_wf s" "cam_wf (started d s) = cam_wf s"
  "cam_wf (snd (free_queued d f' cs s)) = cam_wf s"
  by (simp_all add: cam_wf_def free_queued_sel)

lemma wf_queue_emptied: "cam_wf s \<Longrightarrow> cam_wf (queue_emptied s)"
  by (simp add: cam_wf_def queue_emptied_def Let_def)

lemma wf_checkQue:
  assumes "\<And>w s. cam_wf s \<Longrightarrow> cam_wf (full w s)" "cam_wf s"
  shows "cam_wf (checkQueChanges_with full d fake s)"
  using assms by (simp add: checkQueChanges_with_def dev_checkQueChanges_with_def case_prod_beta Let_def wf_queue_emptied)

lemma wf_maskState:
  assumes "\<And>w s. cam_wf s \<Longrightarrow> cam_wf (full w s)" "cam_wf s" "wf_write m n"
  shows "cam_wf (cam_maskState_with full d m n s)"
proof -
  have "cam_wf (s\<lparr>camState := mask_word m n (camState s)\<rparr>)"
    using assms(2,3) word_wf_mask by (simp add: cam_wf_def)
  then show ?thesis using assms(2) wf_checkQue [OF assms(1)]
    by (simp add: cam_maskState_with_def cam_setState_with_def Let_def)
qed

lemma wf_start:
  assumes "\<And>w s. cam_wf s \<Longrightarrow> cam_wf (full w s)" "cam_wf s"
  shows "cam_wf (snd (camStartExposureWithoutCheck_with full d s))"
proof -
  have t: "cam_wf (cam_maskState_with full d BOP_TEL_MOVE n t)" if "cam_wf t" "n \<in> {0, BOP_TEL_MOVE}" for n t
  proof (rule wf_maskState [OF assms(1) that(1)])
    have "wf_write BOP_TEL_MOVE 0" "wf_write BOP_TEL_MOVE BOP_TEL_MOVE" by code_simp+
    then show "wf_write BOP_TEL_MOVE n" using that(2) by auto
  qed
  have e: "cam_wf (cam_maskState_with full d 0xc000019 n t)"
    if "cam_wf t" "n \<in> {0x4000001, 1, 0x4000011, 0x11}" for n t
  proof (rule wf_maskState [OF assms(1) that(1)])
    have "wf_write 0xc000019 0x4000001" "wf_write 0xc000019 1" "wf_write 0xc000019 0x4000011" "wf_write 0xc000019 0x11"
      by code_simp+
    then show "wf_write 0xc000019 n" using that(2) by auto
  qed
  show ?thesis
    unfolding camStartExposureWithoutCheck_with_def Let_def case_prod_beta using assms(2) by (simp add: t e)
qed

interpretation wf: carried d cam_wf for d
proof
  fix full :: "u32 \<Rightarrow> 'a cam \<Rightarrow> 'a cam" and w and s :: "'a cam"
  assume full: "\<And>w s. cam_wf s \<Longrightarrow> cam_wf (full w s)" and s: "cam_wf s"
  have "wf_write BOP_WILL_EXPOSE BOP_WILL_EXPOSE" by code_simp
  then have m: "cam_wf (cam_maskState_with full d BOP_WILL_EXPOSE BOP_WILL_EXPOSE (dev_setFullBopState d w s))"
    by (intro wf_maskState [OF full]) (simp_all add: s)
  have "cam_wf (snd (camStartExposureWithoutCheck_with full d ((dev_setFullBopState d w s)
      \<lparr>waitingForNotBop := False, quedExpNumber := quedExpNumber s - 1\<rparr>)))" if "quedExpNumber s > 0"
    by (rule wf_start [OF full]) (use s that in \<open>simp_all add: cam_wf_def\<close>)
  then show "cam_wf (setFullBopState_with full d w s)"
    using s m by (simp add: setFullBopState_with_def Let_def)
qed

lemma wf_writes: "list_ex (\<lambda>x. x = (m, n)) cam_writes \<Longrightarrow> wf_write m n"
proof -
  have "list_all (\<lambda>(m, n). wf_write m n) cam_writes" by code_simp
  then show "list_ex (\<lambda>x. x = (m, n)) cam_writes \<Longrightarrow> ?thesis" by (auto simp: list_all_iff list_ex_iff)
qed

interpretation wf_ops: cam_keeps d cam_wf for d
proof unfold_locales
  fix s :: "'a cam" and m n
  show "cam_wf s \<Longrightarrow> list_ex (\<lambda>x. x = (m, n)) cam_writes \<Longrightarrow> cam_wf (cam_maskState d m n s)"
    unfolding cam_maskState_def by (rule wf_maskState [OF wf.carried_full _ wf_writes])
qed (simp_all add: wf.carried_full camStartExposureWithoutCheck_def wf_start checkQueChanges_def wf_checkQue,
     simp_all add: cam_wf_def)

lemma wf_write_end: "wf_write (DEVICE_ERROR_MASK OR CAM_MASK_EXPOSE OR CAM_MASK_READING) CAM_READING"
  by code_simp

lemma step_wf: "cam_wf s \<Longrightarrow> cam_wf (cam_step d e s)"
proof (cases e)
  case (CCommand c x)
  have q: "cam_wf (s\<lparr>lastCareBlock := b\<rparr>) = cam_wf s" for b by simp
  have v: "cam_wf s \<Longrightarrow> cam_wf (snd (setCondValue d v s))" for v
    by (simp add: setCondValue_def cam_wf_def doSetValue_sel)
  have e: "cam_wf s \<Longrightarrow> cam_wf (snd (shiftStoreEnd d c s))"
    using wf_maskState [OF wf.carried_full _ wf_write_end, where s = "s\<lparr>exposureConn := Some c\<rparr>"]
    by (simp add: shiftStoreEnd_def cam_maskState_def)
  show "cam_wf s \<Longrightarrow> ?thesis"
  proof (cases x)
    case (ShiftStore k)
    then show "cam_wf s \<Longrightarrow> ?thesis" using e
      by (cases k) (simp_all add: CCommand shiftStoreStart_def shiftStoreShift_def wf_ops.keeps)
  qed (simp_all add: CCommand Let_def case_prod_beta wf_ops.expose wf_ops.aborts v)
qed (simp_all add: cam_deleteConnection_def filter_move_end_def focuser_end_move_def cam_idle_def stopping_pass_def
      cam_endRunLoop_def Let_def wf_ops.keeps wf_ops.checks wf_ops.queuedExposures wf_ops.aborts)

end
