(* ===== verification/CameraSafety.thy ===== *)
theory CameraSafety
  imports CameraTel
begin

section \<open>When a camera starts an exposure\<close>

text \<open>
  Exposures do not overlap, and an exposure that must respect the blocks is started only when
  centrald's last block state for the camera has no \<open>BOP_EXPOSURE\<close>.
\<close>

subsection \<open>Nothing starts from inside\<close>

text \<open>No exposure waits for the blocks: the recursion then changes neither the state nor starts.\<close>

definition calm :: "'h cam \<Rightarrow> bool" where
  "calm s \<longleftrightarrow> \<not> (quedExpNumber s > 0 \<and> waitingForNotBop s)"

lemma starts_update [simp]:
  "starts (s\<lparr>camState := x1\<rparr>) = starts s" "starts (s\<lparr>queValues := x2\<rparr>) = starts s"
  "starts (s\<lparr>quedExpNumber := x3\<rparr>) = starts s" "starts (s\<lparr>waitingForNotBop := x4\<rparr>) = starts s"
  "starts (s\<lparr>chw := x5\<rparr>) = starts s" "starts (s\<lparr>exposureEnd := x6\<rparr>) = starts s"
  "starts (s\<lparr>exposureConn := x7\<rparr>) = starts s" "starts (s\<lparr>lastCareBlock := x8\<rparr>) = starts s"
  "starts (s\<lparr>waitingForEmptyQue := x9\<rparr>) = starts s" "starts (s\<lparr>wheels := x10\<rparr>) = starts s"
  "starts (s\<lparr>focuserMoving := x11\<rparr>) = starts s" "starts (s\<lparr>camMaster := x12\<rparr>) = starts s"
  "starts (s\<lparr>cnow := x13\<rparr>) = starts s" "starts (s\<lparr>ctimeout := x14\<rparr>) = starts s"
  "starts (s\<lparr>exitPending := x15\<rparr>) = starts s" "starts (s\<lparr>exitDeadline := x16\<rparr>) = starts s"
  "starts (s\<lparr>currentImageData := x17\<rparr>) = starts s" "starts (s\<lparr>realTimeCount := x18\<rparr>) = starts s"
  "starts (s\<lparr>exposureNumber := x19\<rparr>) = starts s" "starts (s\<lparr>scriptExposureNum := x20\<rparr>) = starts s"
  "starts (s\<lparr>focClient := x21\<rparr>) = starts s" "starts (s\<lparr>cvals := x22\<rparr>) = starts s"
  by (simp_all add: starts_def)

definition cam_same :: "'h cam \<Rightarrow> 'h cam \<Rightarrow> bool" where
  "cam_same a b \<longleftrightarrow> camState a = camState b \<and> starts a = starts b \<and> exposureConn a = exposureConn b
     \<and> quedExpNumber a = quedExpNumber b \<and> waitingForNotBop a = waitingForNotBop b
     \<and> waitingForEmptyQue a = waitingForEmptyQue b"

lemma calm_with: "calm s \<Longrightarrow> setFullBopState_with full d w s = dev_setFullBopState d w s"
  unfolding setFullBopState_with_def Let_def calm_def by (subst if_not_P) auto

lemma calm_full: "calm s \<Longrightarrow> cam_same (full_level d n w s) s"
  by (cases n) (simp_all add: cam_same_def calm_with)

lemma calm_setFull: "calm s \<Longrightarrow> cam_same (setFullBopState d w s) s"
  unfolding setFullBopState_def by (rule calm_full)

text \<open>The functions the recursion may be tied with.\<close>

definition quiet :: "(u32 \<Rightarrow> 'h cam \<Rightarrow> 'h cam) \<Rightarrow> bool" where
  "quiet full \<longleftrightarrow> (\<forall>w s. calm s \<longrightarrow> cam_same (full w s) s)"

lemma quiet_level: "quiet (full_level d n)" and quiet_setFull: "quiet (setFullBopState d)"
  by (simp_all add: quiet_def calm_full calm_setFull)

text \<open>A state in which a change of the state word starts nothing.\<close>

definition inert :: "u32 \<Rightarrow> 'h cam \<Rightarrow> bool" where
  "inert new s \<longleftrightarrow> queValues s = [] \<or> new AND CAM_READING \<noteq> 0 \<or> calm s"

lemma free_queued_Nil [simp]: "free_queued d fake [] s = ([], s)"
  by simp

lemma inert_checkQue:
  assumes "quiet full" "inert fake s"
  shows "camState (checkQueChanges_with full d fake s) = camState s"
    "starts (checkQueChanges_with full d fake s) = starts s"
proof -
  have "queValues s = [] \<or> calm s \<or> (quedExpNumber s > 0 \<and> fake AND (CAM_EXPOSING OR CAM_READING) \<noteq> 0)"
  proof -
    have "fake AND CAM_READING = (fake AND (CAM_EXPOSING OR CAM_READING)) AND CAM_READING" by (simp add: and.assoc)
    then have "fake AND CAM_READING \<noteq> 0 \<longrightarrow> fake AND (CAM_EXPOSING OR CAM_READING) \<noteq> 0" by auto
    then show ?thesis using assms(2) unfolding inert_def calm_def by blast
  qed
  then consider "queValues s = []" | "calm s" | "quedExpNumber s > 0 \<and> fake AND (CAM_EXPOSING OR CAM_READING) \<noteq> 0"
    by blast
  then have "camState (checkQueChanges_with full d fake s) = camState s
      \<and> starts (checkQueChanges_with full d fake s) = starts s"
  proof cases
    case 1
    then show ?thesis by (simp add: checkQueChanges_with_def dev_checkQueChanges_with_def)
  next
    case 2
    have "calm (snd (free_queued d w (queValues s) s)\<lparr>queValues := k\<rparr>)" for w k
      using 2 by (simp add: calm_def free_queued_sel)
    then have "cam_same (full x (snd (free_queued d w (queValues s) s)\<lparr>queValues := k\<rparr>))
        (snd (free_queued d w (queValues s) s)\<lparr>queValues := k\<rparr>)" for x w k
      using assms(1) unfolding quiet_def by blast
    then have "camState (full x (snd (free_queued d w (queValues s) s)\<lparr>queValues := k\<rparr>)) = camState s
        \<and> starts (full x (snd (free_queued d w (queValues s) s)\<lparr>queValues := k\<rparr>)) = starts s" for x w k
      using free_queued_sel(1,12) [of d w "queValues s" s] by (simp add: cam_same_def starts_def)
    then show ?thesis
      using free_queued_sel(1,12) [of d "fake OR (fullBopState s AND BOP_TRIG_EXPOSE)" "queValues s" s]
      by (simp add: checkQueChanges_with_def dev_checkQueChanges_with_def case_prod_beta Let_def)
  next
    case 3
    then show ?thesis by (simp add: checkQueChanges_with_def)
  qed
  then show "camState (checkQueChanges_with full d fake s) = camState s"
    "starts (checkQueChanges_with full d fake s) = starts s" by blast+
qed

lemma inert_maskState:
  assumes "quiet full" "inert (mask_word m n (camState s)) s"
  shows "camState (cam_maskState_with full d m n s) = mask_word m n (camState s)"
    "starts (cam_maskState_with full d m n s) = starts s"
proof -
  let ?t = "s\<lparr>camState := mask_word m n (camState s)\<rparr>"
  have "inert (mask_word m n (camState s)) ?t" using assms(2) by (simp add: inert_def calm_def)
  note c = inert_checkQue [OF assms(1) this, of d]
  show "camState (cam_maskState_with full d m n s) = mask_word m n (camState s)"
    "starts (cam_maskState_with full d m n s) = starts s"
    using c by (simp_all add: cam_maskState_with_def cam_setState_with_def Let_def starts_emit)
qed

subsection \<open>Exposures do not overlap\<close>

definition free_start :: "cam_out \<Rightarrow> bool" where
  "free_start e \<longleftrightarrow> (case e of StartExposure w m b \<Rightarrow> w AND CAM_EXPOSING = 0 | _ \<Rightarrow> True)"

definition no_overlap :: "'h cam \<Rightarrow> bool" where
  "no_overlap s \<longleftrightarrow> list_all free_start (starts s)"

named_theorems keeps_apart \<open>operations that start no second exposure\<close>

lemma no_overlap_cong: "starts a = starts b \<Longrightarrow> no_overlap a = no_overlap b"
  by (simp add: no_overlap_def)

lemma no_overlap_emit [simp]: "no_overlap (cemit e s) = (no_overlap s \<and> (is_start e \<longrightarrow> free_start e))"
  by (simp add: no_overlap_def starts_emit)

lemma no_overlap_update [simp]:
  "no_overlap (s\<lparr>camState := x1\<rparr>) = no_overlap s" "no_overlap (s\<lparr>queValues := x2\<rparr>) = no_overlap s"
  "no_overlap (s\<lparr>quedExpNumber := x3\<rparr>) = no_overlap s" "no_overlap (s\<lparr>waitingForNotBop := x4\<rparr>) = no_overlap s"
  "no_overlap (s\<lparr>chw := x5\<rparr>) = no_overlap s" "no_overlap (s\<lparr>exposureEnd := x6\<rparr>) = no_overlap s"
  "no_overlap (s\<lparr>exposureConn := x7\<rparr>) = no_overlap s" "no_overlap (s\<lparr>lastCareBlock := x8\<rparr>) = no_overlap s"
  "no_overlap (s\<lparr>waitingForEmptyQue := x9\<rparr>) = no_overlap s" "no_overlap (s\<lparr>wheels := x10\<rparr>) = no_overlap s"
  "no_overlap (s\<lparr>focuserMoving := x11\<rparr>) = no_overlap s" "no_overlap (s\<lparr>camMaster := x12\<rparr>) = no_overlap s"
  "no_overlap (s\<lparr>cnow := x13\<rparr>) = no_overlap s" "no_overlap (s\<lparr>ctimeout := x14\<rparr>) = no_overlap s"
  "no_overlap (s\<lparr>exitPending := x15\<rparr>) = no_overlap s" "no_overlap (s\<lparr>exitDeadline := x16\<rparr>) = no_overlap s"
  "no_overlap (s\<lparr>currentImageData := x17\<rparr>) = no_overlap s" "no_overlap (s\<lparr>realTimeCount := x18\<rparr>) = no_overlap s"
  "no_overlap (s\<lparr>exposureNumber := x19\<rparr>) = no_overlap s" "no_overlap (s\<lparr>scriptExposureNum := x20\<rparr>) = no_overlap s"
  "no_overlap (s\<lparr>focClient := x21\<rparr>) = no_overlap s"
  by (simp_all add: no_overlap_def)

lemma no_overlap_ops [simp]:
  "no_overlap (queue_emptied s) = no_overlap s" "no_overlap (started d s) = no_overlap s"
  "no_overlap (dev_setFullBopState d w s) = no_overlap s" "no_overlap (snd (stopExposure d s)) = no_overlap s"
  "no_overlap (open_data d c s) = no_overlap s" "no_overlap (end_data s) = no_overlap s"
  "no_overlap (snd (free_queued d f cs s)) = no_overlap s" "no_overlap (snd (doSetValue d v s)) = no_overlap s"
  by (rule no_overlap_cong, simp add: free_queued_sel doSetValue_sel)+

lemma checkQue_apart:
  assumes "\<And>w s. no_overlap s \<Longrightarrow> no_overlap (full w s)" "no_overlap s"
  shows "no_overlap (checkQueChanges_with full d fake s)"
  using assms by (simp add: checkQueChanges_with_def dev_checkQueChanges_with_def case_prod_beta Let_def)

lemma maskState_apart:
  assumes "\<And>w s. no_overlap s \<Longrightarrow> no_overlap (full w s)" "no_overlap s"
  shows "no_overlap (cam_maskState_with full d m n s)"
  using assms checkQue_apart [OF assms(1)] by (simp add: cam_maskState_with_def cam_setState_with_def Let_def)

lemma tel_mask_exposing:
  "n = BOP_TEL_MOVE \<or> n = 0 \<Longrightarrow> mask_word BOP_TEL_MOVE n w AND CAM_EXPOSING = w AND CAM_EXPOSING"
  "n = BOP_TEL_MOVE \<or> n = 0 \<Longrightarrow> mask_word BOP_TEL_MOVE n w AND CAM_READING = w AND CAM_READING"
  by (rule mask_word_other; auto)+

lemma start_apart:
  assumes full: "\<And>w s. no_overlap s \<Longrightarrow> no_overlap (full w s)" "quiet full"
    and s: "no_overlap s" "camState s AND CAM_EXPOSING = 0" "inert (camState s) s"
  shows "no_overlap (snd (camStartExposureWithoutCheck_with full d s))"
proof -
  let ?tel = "if lastCareBlock s then BOP_TEL_MOVE else 0"
  let ?s0 = "s\<lparr>exposureNumber := exposureNumber s + 1, scriptExposureNum := scriptExposureNum s + 1\<rparr>"
  define s1 where "s1 = cam_maskState_with full d BOP_TEL_MOVE ?tel ?s0"
  have t: "?tel = BOP_TEL_MOVE \<or> ?tel = 0" by simp
  have "inert (mask_word BOP_TEL_MOVE ?tel (camState ?s0)) ?s0"
    using s(3) tel_mask_exposing(2) [OF t, of "camState s"] by (auto simp: inert_def calm_def)
  note m = inert_maskState [OF full(2) this, of d, folded s1_def]
  have n1: "no_overlap s1" using m(2) s(1) by (simp add: no_overlap_def starts_def)
  have f: "camState s1 AND CAM_EXPOSING = 0" using m(1) tel_mask_exposing(1) [OF t, of "camState s"] s(2) by simp
  show ?thesis
    unfolding camStartExposureWithoutCheck_with_def Let_def case_prod_beta s1_def [symmetric]
    by (simp add: maskState_apart [OF full(1)] n1 free_start_def f)
qed

lemma level_apart:
  "no_overlap s \<Longrightarrow> no_overlap (full_level d n w s)"
proof (induction n arbitrary: w s)
  case (Suc n)
  have q: "quiet (full_level d n)" by (rule quiet_level)
  let ?s = "dev_setFullBopState d w s"
  have m: "no_overlap (cam_maskState_with (full_level d n) d BOP_WILL_EXPOSE BOP_WILL_EXPOSE ?s)"
    by (rule maskState_apart) (simp_all add: Suc)
  have "no_overlap (snd (camStartExposureWithoutCheck_with (full_level d n) d
      (?s\<lparr>waitingForNotBop := False, quedExpNumber := quedExpNumber s - 1\<rparr>)))"
    if "getStateChip ?s AND CAM_EXPOSING = 0"
  proof (rule start_apart [OF _ q])
    have "camState s AND CAM_EXPOSING = getStateChip ?s AND CAM_EXPOSING"
      by (simp add: getStateChip_def and.assoc)
    then show "camState (?s\<lparr>waitingForNotBop := False, quedExpNumber := quedExpNumber s - 1\<rparr>) AND CAM_EXPOSING = 0"
      using that by simp
  qed (simp_all add: Suc inert_def calm_def)
  then show ?case using m Suc.prems by (simp add: setFullBopState_with_def Let_def)
qed simp

lemma setFull_apart [keeps_apart]: "no_overlap s \<Longrightarrow> no_overlap (setFullBopState d w s)"
  unfolding setFullBopState_def by (rule level_apart)

lemma mask_apart [keeps_apart]: "no_overlap s \<Longrightarrow> no_overlap (cam_maskState d m n s)"
  unfolding cam_maskState_def by (rule maskState_apart [OF setFull_apart])

lemma que_apart [keeps_apart]: "no_overlap s \<Longrightarrow> no_overlap (checkQueChanges d w s)"
  unfolding checkQueChanges_def by (rule checkQue_apart [OF setFull_apart])

lemma begin_apart:
  "no_overlap s \<Longrightarrow> camState s AND CAM_EXPOSING = 0 \<Longrightarrow> inert (camState s) s \<Longrightarrow>
   no_overlap (snd (camStartExposureWithoutCheck d s))"
  unfolding camStartExposureWithoutCheck_def by (rule start_apart [OF setFull_apart quiet_setFull])

text \<open>A change of the state word leaves an inert camera inert.\<close>

lemma mask_queue: "queValues s = [] \<Longrightarrow> queValues (cam_maskState d m n s) = []"
  using maskState_shrinks [OF setFull_shrinks', of d d m n s] unfolding cam_maskState_def by simp

lemma mask_inert:
  assumes "inert (camState s) s" "queValues s = [] \<or> camState s AND CAM_READING \<noteq> 0"
    "(DEVICE_ERROR_MASK OR m) AND CAM_READING = 0" "n AND CAM_READING = 0"
  shows "inert (camState (cam_maskState d m n s)) (cam_maskState d m n s)"
proof (cases "queValues s = []")
  case True
  then show ?thesis by (simp add: inert_def mask_queue)
next
  case False
  then have r: "camState s AND CAM_READING \<noteq> 0" using assms(2) by blast
  have k: "mask_word m n (camState s) AND CAM_READING = camState s AND CAM_READING"
    by (rule mask_word_other) (fact assms)+
  then have "inert (mask_word m n (camState s)) s" using r by (simp add: inert_def)
  then have "camState (cam_maskState d m n s) = mask_word m n (camState s)"
    unfolding cam_maskState_def by (rule inert_maskState [OF quiet_setFull])
  then show ?thesis using k r by (simp add: inert_def)
qed

definition startable :: "'h cam \<Rightarrow> bool" where
  "startable s \<longleftrightarrow> camState s AND CAM_EXPOSING = 0 \<and> (queValues s = [] \<or> camState s AND CAM_READING \<noteq> 0)"

lemma startable_inert: "startable s \<Longrightarrow> inert (camState s) s"
  by (auto simp: startable_def inert_def)

lemma startable_mask:
  assumes "startable s"
  shows "startable (cam_maskState d BOP_WILL_EXPOSE BOP_WILL_EXPOSE s)"
proof -
  have k: "mask_word BOP_WILL_EXPOSE BOP_WILL_EXPOSE (camState s) AND CAM_READING = camState s AND CAM_READING"
    "mask_word BOP_WILL_EXPOSE BOP_WILL_EXPOSE (camState s) AND CAM_EXPOSING = camState s AND CAM_EXPOSING"
    by (rule mask_word_other; simp)+
  have "inert (mask_word BOP_WILL_EXPOSE BOP_WILL_EXPOSE (camState s)) s"
    using startable_inert [OF assms] k by (simp add: inert_def)
  then have "camState (cam_maskState d BOP_WILL_EXPOSE BOP_WILL_EXPOSE s) = mask_word BOP_WILL_EXPOSE BOP_WILL_EXPOSE (camState s)"
    unfolding cam_maskState_def by (rule inert_maskState [OF quiet_setFull])
  then show ?thesis using assms k by (auto simp: startable_def mask_queue)
qed

lemma startExposure_apart: "no_overlap s \<Longrightarrow> startable s \<Longrightarrow> no_overlap (snd (camStartExposure d b s))"
  using begin_apart [of "cam_maskState d BOP_WILL_EXPOSE BOP_WILL_EXPOSE s" d] begin_apart [of s d]
    startable_mask [of s d] startable_inert [of s]
    startable_inert [of "cam_maskState d BOP_WILL_EXPOSE BOP_WILL_EXPOSE s"]
  by (simp add: camStartExposure_def Let_def keeps_apart) (simp add: startable_def)

lemma reply_apart [keeps_apart]: "no_overlap (reply c n s) = no_overlap s"
  by (simp add: reply_def split: option.split)

lemma expose_apart:
  assumes "no_overlap s" "\<not> cannot_start d w f s \<Longrightarrow> startable s"
  shows "no_overlap (snd (camExpose d c w f b s))"
proof -
  have st: "no_overlap (snd (camStartExposure d b (s\<lparr>quedExpNumber := n, exposureConn := c\<rparr>)))"
    "no_overlap (snd (camStartExposure d b (s\<lparr>exposureConn := c\<rparr>)))" if "startable s" for n
    using that assms(1) by (simp_all add: startExposure_apart startable_def)
  show ?thesis
  proof (cases "exitPending s \<or> cannot_start d w f s")
    case True
    then show ?thesis using assms(1) by (auto simp: camExpose_def keeps_apart)
  next
    case False
    then show ?thesis using assms(2) by (simp add: camExpose_def case_prod_beta Let_def keeps_apart st)
  qed
qed

lemma chip_bit: "CAM_MASK_CHIP AND k = k \<Longrightarrow> getStateChip s AND k = camState s AND k"
  by (simp add: getStateChip_def and.assoc)

lemma expose_command_apart:
  "no_overlap s \<Longrightarrow> w = getStateChip s \<Longrightarrow> no_overlap (snd (camExpose d c w False b s))"
  using chip_bit [of CAM_EXPOSING s] by (intro expose_apart) (simp_all add: cannot_start_def startable_def)

lemma queued_apart [keeps_apart]: "no_overlap s \<Longrightarrow> no_overlap (checkQueuedExposures d s)"
  by (simp add: checkQueuedExposures_def) (intro impI expose_command_apart, simp_all add: getStateChip_def)

lemma idle_mask:
  assumes "exposureConn s = None" "quedExpNumber s = 0"
  shows "exposureConn (cam_maskState d m n s) = None \<and> quedExpNumber (cam_maskState d m n s) = 0"
proof -
  have "exposureConn (checkQueChanges_with (setFullBopState d) d w t) = None
      \<and> quedExpNumber (checkQueChanges_with (setFullBopState d) d w t) = 0"
    if t: "exposureConn t = None" "quedExpNumber t = 0" for w t
  proof -
    have "calm (snd (free_queued d x (queValues t) t)\<lparr>queValues := k\<rparr>)" for x k
      using t by (simp add: calm_def free_queued_sel)
    from calm_setFull [OF this] show ?thesis
      using t by (simp add: checkQueChanges_with_def dev_checkQueChanges_with_def case_prod_beta Let_def
          queue_emptied_def cam_same_def free_queued_sel)
  qed
  then show ?thesis
    using assms by (simp add: cam_maskState_def cam_maskState_with_def cam_setState_with_def Let_def)
qed

text \<open>A write of the state word on a camera without queued changes, or where nothing waits.\<close>

lemma mask_plain:
  assumes "queValues s = []" "\<not> waitingForEmptyQue s"
  shows "cam_maskState d m n s =
    (let w = mask_word m n (camState s) in if camState s = w then s else cemit (CStatus w) (s\<lparr>camState := w\<rparr>))"
proof -
  have "t\<lparr>queValues := []\<rparr> = t" if "queValues t = []" for t :: "'a cam" using that by (cases t) simp
  then have "checkQueChanges_with (setFullBopState d) d w t = t" if "queValues t = []" "\<not> waitingForEmptyQue t" for w t
    using that by (simp add: checkQueChanges_with_def dev_checkQueChanges_with_def queue_emptied_def)
  then show ?thesis using assms by (simp add: cam_maskState_def cam_maskState_with_def cam_setState_with_def Let_def)
qed

lemma calm_mask:
  assumes "calm s" "\<not> waitingForEmptyQue s"
  shows "cam_same (cam_maskState d m n s) (s\<lparr>camState := mask_word m n (camState s)\<rparr>)"
proof -
  have "cam_same (checkQueChanges_with (setFullBopState d) d w t) t" if t: "calm t" "\<not> waitingForEmptyQue t" for w t
  proof -
    have "calm (snd (free_queued d x (queValues t) t)\<lparr>queValues := k\<rparr>)" for x k
      using t by (simp add: calm_def free_queued_sel)
    from calm_setFull [OF this] show ?thesis
      using t by (simp add: checkQueChanges_with_def dev_checkQueChanges_with_def case_prod_beta Let_def
          queue_emptied_def cam_same_def free_queued_sel)
  qed
  then show ?thesis
    using assms by (simp add: cam_maskState_def cam_maskState_with_def cam_setState_with_def Let_def cam_same_def
        calm_def starts_emit)
qed

lemma readout_apart [keeps_apart]:
  "\<not> frameTransfer_d d \<Longrightarrow> no_overlap s \<Longrightarrow> no_overlap (snd (camReadout d c s))"
  by (simp add: camReadout_def case_prod_beta Let_def keeps_apart)

lemma endExposure_apart [keeps_apart]:
  "\<not> frameTransfer_d d \<Longrightarrow> no_overlap s \<Longrightarrow> no_overlap (snd (endExposure d r s))"
  by (simp add: endExposure_def no_exposure_def Let_def keeps_apart split: option.split)

lemma endExposure_none:
  "exposureConn s = None \<Longrightarrow> exposureConn (snd (endExposure d (-4) s)) = None
     \<and> quedExpNumber (snd (endExposure d (-4) s)) = 0"
  by (simp add: endExposure_def no_exposure_def idle_mask)

definition stop_succeeds :: "'h cam_driver \<Rightarrow> bool" where
  "stop_succeeds d \<longleftrightarrow> (\<forall>s. fst (stopExposure_d d s) = 0)"

lemma exposure_over_apart [keeps_apart]:
  assumes "\<not> frameTransfer_d d" "stop_succeeds d" "no_overlap s"
  shows "no_overlap (exposure_over d r s)"
proof -
  have q: "quedExpNumber (snd (stopExposure d t)) = 0" for t
    using assms(2) by (simp add: stop_succeeds_def stopExposure_def case_prod_beta Let_def)
  have "quedExpNumber (exposure_finished d (snd (endExposure d (-4) (s\<lparr>exposureConn := None\<rparr>)))) = 0"
    using endExposure_none [of "s\<lparr>exposureConn := None\<rparr>" d] by (simp add: exposure_finished_def idle_mask)
  then show ?thesis
    using assms q by (simp add: exposure_over_def expose_queued_def exposure_finished_def Let_def keeps_apart)
qed

lemma endReadout_apart:
  assumes "no_overlap s" "getStateChip s AND CAM_MASK_READING = CAM_READING"
  shows "no_overlap (endReadout d s)"
proof -
  define s1 where "s1 = (if currentImageTransfer s = SHARED \<and> exposureConn s \<noteq> None \<and> currentImageData s \<ge> 0
      then s\<lparr>currentImageData := -1\<rparr> else s)"
  have s1: "no_overlap s1" "camState s1 = camState s" using assms(1) by (simp_all add: s1_def)
  have r: "camState s AND CAM_READING \<noteq> 0" using assms(2) chip_bit [of CAM_READING s] by simp
  have c: "(getStateChip s1 AND CAM_MASK_EXPOSE) AND CAM_EXPOSING = camState s AND CAM_EXPOSING"
    using s1(2) by (simp add: getStateChip_def and.assoc)
  have "no_overlap (snd (camExpose d c (getStateChip s1 AND CAM_MASK_EXPOSE) True b s1))" for c b
  proof (rule expose_apart [OF s1(1)])
    assume "\<not> cannot_start d (getStateChip s1 AND CAM_MASK_EXPOSE) True s1"
    then have "camState s AND CAM_EXPOSING = 0" unfolding cannot_start_def c by blast
    then show "startable s1" using r by (simp add: startable_def s1(2))
  qed
  then show ?thesis using s1(1) unfolding endReadout_def Let_def s1_def [symmetric] by simp
qed

lemma checks_apart [keeps_apart]:
  assumes "\<not> frameTransfer_d d" "stop_succeeds d" "no_overlap s"
  shows "no_overlap (checkExposures d s)" "no_overlap (checkReadouts d s)"
proof -
  show "no_overlap (checkExposures d s)"
    using assms by (simp add: checkExposures_def case_prod_beta Let_def cam_setTimeout_def keeps_apart)
  have "no_overlap (endReadout d (s\<lparr>chw := h\<rparr>))" if "getStateChip s AND CAM_MASK_READING = CAM_READING" for h
    by (rule endReadout_apart) (use assms(3) that in \<open>simp_all add: getStateChip_def\<close>)
  then show "no_overlap (checkReadouts d s)"
    using assms(3) by (simp add: checkReadouts_def case_prod_beta Let_def cam_setTimeout_def afterReadout_def keeps_apart)
qed

lemma abort_apart [keeps_apart]:
  "no_overlap s \<Longrightarrow> no_overlap (snd (cam_scriptEnds d s))" "no_overlap s \<Longrightarrow> no_overlap (snd (cam_killAll d b s))"
  "no_overlap s \<Longrightarrow> no_overlap (snd (stopexpo d s))"
  by (simp_all add: cam_scriptEnds_def cam_killAll_def dev_killAll_def stopexpo_def case_prod_beta Let_def keeps_apart)

lemma command_apart [keeps_apart]: "no_overlap s \<Longrightarrow> no_overlap (snd (cam_commandAuthorized d c x s))"
proof (cases x)
  case (ShiftStore k)
  then show "no_overlap s \<Longrightarrow> ?thesis"
    by (cases k) (simp_all add: shiftStoreStart_def shiftStoreShift_def shiftStoreEnd_def keeps_apart)
qed (simp_all add: Let_def case_prod_beta keeps_apart setCondValue_def expose_command_apart getStateChip_def)

lemma step_apart:
  "\<not> frameTransfer_d d \<Longrightarrow> stop_succeeds d \<Longrightarrow> no_overlap s \<Longrightarrow> no_overlap (cam_step d e s)"
  by (cases e) (simp_all add: cam_deleteConnection_def filter_move_end_def focuser_end_move_def cam_idle_def
      stopping_pass_def cam_endRunLoop_def Let_def keeps_apart)

end
