(* ===== verification/CameraBlocks.thy ===== *)
theory CameraBlocks
  imports CameraSafety
begin

section \<open>A camera respects the blocks of the centrald\<close>

text \<open>
  An exposure with an open shutter, for a client that did not ask to skip the checks, is started
  only while the last block state centrald has sent for the camera has no \<open>BOP_EXPOSURE\<close>.
\<close>

definition heeds :: "cam_out \<Rightarrow> bool" where
  "heeds e \<longleftrightarrow> (case e of StartExposure w m b \<Rightarrow> (b \<longrightarrow> m AND BOP_EXPOSURE = 0) | _ \<Rightarrow> True)"

definition bop_inv :: "'h cam \<Rightarrow> bool" where
  "bop_inv s \<longleftrightarrow> list_all heeds (starts s)
     \<and> (masterBopState s AND BOP_EXPOSURE \<noteq> 0 \<longrightarrow> fullBopState s AND BOP_EXPOSURE \<noteq> 0)
     \<and> ''SHUTTER'' \<notin> vname ` set (queValues s)"

text \<open>What decides whether the blocks matter.\<close>

definition care :: "'h cam \<Rightarrow> bool \<times> bool \<times> int" where
  "care s = (lastCareBlock s, hasExpType s, cvals s ''SHUTTER'')"

lemma care_dark: "care a = care b \<Longrightarrow> dark_type a = dark_type b \<and> lastCareBlock a = lastCareBlock b"
  by (simp add: care_def dark_type_def)

named_theorems keeps_bop \<open>operations that respect the blocks\<close>

lemma bop_inv_cong:
  "starts a = starts b \<Longrightarrow> masterBopState a = masterBopState b \<Longrightarrow> fullBopState a = fullBopState b \<Longrightarrow>
   queValues a = queValues b \<Longrightarrow> bop_inv a = bop_inv b"
  by (simp add: bop_inv_def)

lemma bop_inv_emit [simp]: "bop_inv (cemit e s) = (bop_inv s \<and> (is_start e \<longrightarrow> heeds e))"
  by (auto simp: bop_inv_def starts_emit)

lemma bop_inv_update [simp]:
  "bop_inv (s\<lparr>camState := x1\<rparr>) = bop_inv s" "bop_inv (s\<lparr>cvals := x2\<rparr>) = bop_inv s"
  "bop_inv (s\<lparr>quedExpNumber := x3\<rparr>) = bop_inv s" "bop_inv (s\<lparr>waitingForNotBop := x4\<rparr>) = bop_inv s"
  "bop_inv (s\<lparr>chw := x5\<rparr>) = bop_inv s" "bop_inv (s\<lparr>exposureEnd := x6\<rparr>) = bop_inv s"
  "bop_inv (s\<lparr>exposureConn := x7\<rparr>) = bop_inv s" "bop_inv (s\<lparr>lastCareBlock := x8\<rparr>) = bop_inv s"
  "bop_inv (s\<lparr>waitingForEmptyQue := x9\<rparr>) = bop_inv s" "bop_inv (s\<lparr>wheels := x10\<rparr>) = bop_inv s"
  "bop_inv (s\<lparr>focuserMoving := x11\<rparr>) = bop_inv s" "bop_inv (s\<lparr>camMaster := x12\<rparr>) = bop_inv s"
  "bop_inv (s\<lparr>cnow := x13\<rparr>) = bop_inv s" "bop_inv (s\<lparr>ctimeout := x14\<rparr>) = bop_inv s"
  "bop_inv (s\<lparr>exitPending := x15\<rparr>) = bop_inv s" "bop_inv (s\<lparr>exitDeadline := x16\<rparr>) = bop_inv s"
  "bop_inv (s\<lparr>currentImageData := x17\<rparr>) = bop_inv s" "bop_inv (s\<lparr>realTimeCount := x18\<rparr>) = bop_inv s"
  "bop_inv (s\<lparr>exposureNumber := x19\<rparr>) = bop_inv s" "bop_inv (s\<lparr>scriptExposureNum := x20\<rparr>) = bop_inv s"
  "bop_inv (s\<lparr>focClient := x21\<rparr>) = bop_inv s"
  by (simp_all add: bop_inv_def)

lemma bop_inv_ops [simp]:
  "bop_inv (queue_emptied s) = bop_inv s" "bop_inv (started d s) = bop_inv s"
  "bop_inv (snd (stopExposure d s)) = bop_inv s" "bop_inv (open_data d c s) = bop_inv s"
  "bop_inv (end_data s) = bop_inv s" "bop_inv (snd (free_queued d f cs s)) = bop_inv s"
  "bop_inv (snd (doSetValue d v s)) = bop_inv s"
  by (rule bop_inv_cong, simp_all add: free_queued_sel doSetValue_sel)+

lemma bop_inv_queue: "bop_inv s \<Longrightarrow> set k \<subseteq> set (queValues s) \<Longrightarrow> bop_inv (s\<lparr>queValues := k\<rparr>)"
  by (auto simp: bop_inv_def)

subsection \<open>The shutter value is never queued\<close>

lemma filter_vals: "cvals (snd (setFilterNum d n fn s)) = cvals s" "cvals (offsetForFilter n offs s) = cvals s"
  "cvals (snd (set_filter d n fn offs s)) = cvals s"
proof -
  show a: "cvals (snd (setFilterNum d n fn s)) = cvals s" for s
    by (simp add: setFilterNum_def case_prod_beta Let_def split: option.split)
  show b: "cvals (offsetForFilter n offs s) = cvals s" for s
    by (simp add: offsetForFilter_def filter_offset_def split: option.split)
  show "cvals (snd (set_filter d n fn offs s)) = cvals s"
    by (simp add: set_filter_def case_prod_beta Let_def a b)
qed

lemma cam_setValue_vals: "cvals (snd (cam_setValue d n v s)) = cvals s"
  by (simp add: cam_setValue_def setFocuser_def case_prod_beta Let_def filter_vals split: option.split)

lemma free_queued_care: "''SHUTTER'' \<notin> vname ` set cs \<Longrightarrow> care (snd (free_queued d f cs s)) = care s"
proof (induction cs arbitrary: s)
  case (Cons c cs)
  have "vname c \<noteq> ''SHUTTER''" using Cons.prems by auto
  then have "care (snd (doSetValue d c s)) = care s"
    using doSetValue_sel(9,10) [of d c s]
    by (simp add: care_def doSetValue_def case_prod_beta Let_def cam_setValue_vals split: option.split)
  then show ?case using Cons by (simp add: case_prod_beta)
qed (simp add: case_prod_beta)

lemma care_simps [simp]:
  "care (cemit e s) = care s" "care (queue_emptied s) = care s" "care (started d s) = care s"
  "care (dev_setFullBopState d w s) = care s" "care (s\<lparr>queValues := k\<rparr>) = care s" "care (s\<lparr>camState := w\<rparr>) = care s"
  "care (s\<lparr>exposureNumber := i, scriptExposureNum := j\<rparr>) = care s" "care (s\<lparr>chw := h\<rparr>) = care s"
  "care (s\<lparr>exposureEnd := i\<rparr>) = care s" "care (s\<lparr>waitingForNotBop := b, quedExpNumber := i\<rparr>) = care s"
  by (simp_all add: care_def)

subsection \<open>Through the recursion\<close>

definition tame :: "(u32 \<Rightarrow> 'h cam \<Rightarrow> 'h cam) \<Rightarrow> bool" where
  "tame full \<longleftrightarrow> (\<forall>s. bop_inv s \<longrightarrow> bop_inv (full (masterBopState s) s) \<and> care (full (masterBopState s) s) = care s
     \<and> masterBopState (full (masterBopState s) s) = masterBopState s)"

definition kept :: "'h cam \<Rightarrow> 'h cam \<Rightarrow> bool" where
  "kept a b \<longleftrightarrow> bop_inv a \<and> care a = care b \<and> masterBopState a = masterBopState b"

lemma checkQue_tame:
  assumes "tame full" "bop_inv s"
  shows "kept (checkQueChanges_with full d fake s) s"
proof -
  have q: "''SHUTTER'' \<notin> vname ` set (queValues s)" using assms(2) by (simp add: bop_inv_def)
  have b: "kept (full (masterBopState s) t) s \<and> kept t s"
    if t: "t = snd (free_queued d w (queValues s) s)\<lparr>queValues := fst (free_queued d w (queValues s) s)\<rparr>" for w t
  proof -
    have "bop_inv t" unfolding t using assms(2) by (intro bop_inv_queue) (simp_all add: free_queued_sel free_queued_subset)
    moreover have "care t = care s" "masterBopState t = masterBopState s"
      unfolding t by (simp_all add: free_queued_care [OF q] free_queued_sel)
    ultimately show ?thesis using assms(1) unfolding tame_def kept_def by metis
  qed
  have "kept s s" using assms(2) by (simp add: kept_def)
  moreover have "kept (dev_checkQueChanges_with full d w s) s" for w
    using b [OF refl, of w] by (simp add: dev_checkQueChanges_with_def case_prod_beta Let_def free_queued_sel)
  then have "kept (queue_emptied (dev_checkQueChanges_with full d w s)) s" for w by (simp add: kept_def)
  ultimately show ?thesis by (simp add: checkQueChanges_with_def)
qed

lemma maskState_tame:
  assumes "tame full" "bop_inv s"
  shows "kept (cam_maskState_with full d m n s) s"
  using assms checkQue_tame [OF assms(1), of "s\<lparr>camState := mask_word m n (camState s)\<rparr>" d "mask_word m n (camState s)"]
  by (simp add: cam_maskState_with_def cam_setState_with_def Let_def kept_def)

lemma start_tame:
  assumes "tame full" "bop_inv s" "lastCareBlock s \<and> \<not> dark_type s \<longrightarrow> masterBopState s AND BOP_EXPOSURE = 0"
  shows "kept (snd (camStartExposureWithoutCheck_with full d s)) s"
proof -
  let ?s0 = "s\<lparr>exposureNumber := exposureNumber s + 1, scriptExposureNum := scriptExposureNum s + 1\<rparr>"
  define s1 where "s1 = cam_maskState_with full d BOP_TEL_MOVE (if lastCareBlock s then BOP_TEL_MOVE else 0) ?s0"
  have k: "kept s1 ?s0" unfolding s1_def by (rule maskState_tame [OF assms(1)]) (use assms(2) in simp)
  then have s1: "bop_inv s1" "care s1 = care s" "masterBopState s1 = masterBopState s" by (simp_all add: kept_def)
  then have r: "heeds (StartExposure w (masterBopState s1) (lastCareBlock s1 \<and> \<not> dark_type s1))" for w
    using assms(3) care_dark [OF s1(2)] by (simp add: heeds_def)
  have m: "kept (cam_maskState_with full d m n t) s" if "bop_inv t" "care t = care s" "masterBopState t = masterBopState s" for m n t
    using maskState_tame [OF assms(1) that(1), of d m n] that by (simp add: kept_def)
  have m1: "bop_inv (cam_maskState_with full d m n t)" "care (cam_maskState_with full d m n t) = care s"
    "masterBopState (cam_maskState_with full d m n t) = masterBopState s"
    if "bop_inv t" "care t = care s" "masterBopState t = masterBopState s" for m n t
    using m [OF that] by (simp_all add: kept_def)
  show ?thesis
    unfolding camStartExposureWithoutCheck_with_def Let_def case_prod_beta s1_def [symmetric] kept_def
    by (simp add: m1 s1 r [unfolded s1(3)])
qed

lemma masks_grow: "w AND BOP_EXPOSURE \<noteq> 0 \<Longrightarrow> fold (\<lambda>c w. maskQueValueBopState w (g c)) cs w AND BOP_EXPOSURE \<noteq> 0"
proof (induction cs arbitrary: w)
  case (Cons c cs)
  have "(w OR k) AND BOP_EXPOSURE \<noteq> 0" if "w AND BOP_EXPOSURE \<noteq> 0" for w k :: u32
  proof
    assume "(w OR k) AND BOP_EXPOSURE = 0"
    then have "w AND BOP_EXPOSURE = 0" by (simp only: bit.conj_disj_distrib2 or_eq_0_iff)
    with that show False by simp
  qed
  then have "maskQueValueBopState w (g c) AND BOP_EXPOSURE \<noteq> 0"
    using Cons.prems by (simp add: maskQueValueBopState_def Let_def)
  then show ?case using Cons.IH by simp
qed simp

lemma dev_full_inv: "bop_inv s \<Longrightarrow> bop_inv (dev_setFullBopState d w s)"
  using masks_grow [of w "\<lambda>c. stateCondition d (vname c)" "queValues s"]
  by (auto simp: bop_inv_def dev_setFullBopState_def Let_def starts_def)

lemma setFull_with_tame:
  assumes "tame full" "bop_inv s"
  shows "bop_inv (setFullBopState_with full d w s)" "care (setFullBopState_with full d w s) = care s"
    "masterBopState (setFullBopState_with full d w s) = w"
proof -
  let ?s = "dev_setFullBopState d w s"
  have i: "bop_inv ?s" using assms(2) by (rule dev_full_inv)
  have m: "kept (cam_maskState_with full d BOP_WILL_EXPOSE BOP_WILL_EXPOSE ?s) ?s"
    by (rule maskState_tame [OF assms(1) i])
  have t: "kept (snd (camStartExposureWithoutCheck_with full d (?s\<lparr>waitingForNotBop := False, quedExpNumber := n\<rparr>)))
      (?s\<lparr>waitingForNotBop := False, quedExpNumber := n\<rparr>)" if "w AND BOP_EXPOSURE = 0" for n
    by (rule start_tame [OF assms(1)]) (use i that in simp_all)
  show "bop_inv (setFullBopState_with full d w s)" "care (setFullBopState_with full d w s) = care s"
    "masterBopState (setFullBopState_with full d w s) = w"
    using i m t by (simp_all add: setFullBopState_with_def Let_def kept_def)
qed

lemma tame_level: "tame (full_level d n)"
proof (induction n)
  case (Suc n)
  show ?case unfolding tame_def full_level.simps using setFull_with_tame [OF Suc] by blast
qed (simp add: tame_def)

lemma setFull_bop [keeps_bop]: "bop_inv s \<Longrightarrow> bop_inv (setFullBopState d w s)"
  unfolding setFullBopState_def full_level.simps by (rule setFull_with_tame [OF tame_level])

lemma tame_setFull: "tame (setFullBopState d)"
  unfolding tame_def setFullBopState_def full_level.simps using setFull_with_tame [OF tame_level] by blast

lemma mask_kept: "bop_inv s \<Longrightarrow> kept (cam_maskState d m n s) s"
  unfolding cam_maskState_def by (rule maskState_tame [OF tame_setFull])

lemma mask_bop [keeps_bop]: "bop_inv s \<Longrightarrow> bop_inv (cam_maskState d m n s)"
  using mask_kept by (auto simp: kept_def)

lemma que_bop [keeps_bop]: "bop_inv s \<Longrightarrow> bop_inv (checkQueChanges d w s)"
  using checkQue_tame [OF tame_setFull, of s] unfolding checkQueChanges_def kept_def by blast

lemma begin_bop:
  "bop_inv s \<Longrightarrow> (lastCareBlock s \<Longrightarrow> \<not> dark_type s \<Longrightarrow> masterBopState s AND BOP_EXPOSURE = 0) \<Longrightarrow>
   bop_inv (snd (camStartExposureWithoutCheck d s))"
  using start_tame [OF tame_setFull, of s] unfolding camStartExposureWithoutCheck_def kept_def by blast

subsection \<open>The operations\<close>

lemma startExposure_bop:
  assumes "bop_inv s" "b = lastCareBlock s"
  shows "bop_inv (snd (camStartExposure d b s))"
proof (cases "b \<and> blocked s")
  case True
  then show ?thesis using assms(1) by (simp add: camStartExposure_def Let_def keeps_bop)
next
  case False
  have nb: "\<not> dark_type s \<Longrightarrow> lastCareBlock s \<Longrightarrow> masterBopState s AND BOP_EXPOSURE = 0"
    using False assms by (auto simp: blocked_def bop_inv_def)
  have k: "kept (cam_maskState d BOP_WILL_EXPOSE BOP_WILL_EXPOSE s) s" by (rule mask_kept) (rule assms)
  then have "dark_type (cam_maskState d BOP_WILL_EXPOSE BOP_WILL_EXPOSE s) = dark_type s"
    using care_dark unfolding kept_def by blast
  then have "bop_inv (snd (camStartExposureWithoutCheck d (if dark_type s \<and> trigger_blocks s
      then cam_maskState d BOP_WILL_EXPOSE BOP_WILL_EXPOSE s else s)))"
    using k nb assms(1) by (intro begin_bop) (auto simp: kept_def)
  then show ?thesis unfolding camStartExposure_def if_not_P [OF False] .
qed

lemma reply_bop [keeps_bop]: "bop_inv (reply c n s) = bop_inv s"
  by (simp add: reply_def split: option.split)

lemma expose_bop [keeps_bop]:
  assumes "bop_inv s" "b = lastCareBlock s"
  shows "bop_inv (snd (camExpose d c w f b s))"
proof -
  have st: "bop_inv (snd (camStartExposure d b (s\<lparr>quedExpNumber := n, exposureConn := c\<rparr>)))"
    "bop_inv (snd (camStartExposure d b (s\<lparr>exposureConn := c\<rparr>)))" for n
    using assms by (simp_all add: startExposure_bop)
  show ?thesis
  proof (cases "exitPending s \<or> cannot_start d w f s")
    case True
    then show ?thesis using assms(1) by (auto simp: camExpose_def keeps_bop)
  next
    case False
    then show ?thesis by (simp add: camExpose_def case_prod_beta Let_def keeps_bop st)
  qed
qed

lemma queued_bop [keeps_bop]: "bop_inv s \<Longrightarrow> bop_inv (checkQueuedExposures d s)"
  by (simp add: checkQueuedExposures_def keeps_bop)

lemma readout_bop [keeps_bop]: "bop_inv s \<Longrightarrow> bop_inv (snd (camReadout d c s))"
  by (simp add: camReadout_def case_prod_beta Let_def keeps_bop)

lemma endExposure_bop [keeps_bop]: "bop_inv s \<Longrightarrow> bop_inv (snd (endExposure d r s))"
  by (simp add: endExposure_def no_exposure_def Let_def keeps_bop split: option.split)

lemma exposure_over_bop [keeps_bop]: "bop_inv s \<Longrightarrow> bop_inv (exposure_over d r s)"
  by (simp add: exposure_over_def expose_queued_def exposure_finished_def Let_def keeps_bop)

lemma checks_bop [keeps_bop]:
  "bop_inv s \<Longrightarrow> bop_inv (checkExposures d s)" "bop_inv s \<Longrightarrow> bop_inv (checkReadouts d s)"
  by (simp_all add: checkExposures_def checkReadouts_def endReadout_def afterReadout_def cam_setTimeout_def
      case_prod_beta Let_def keeps_bop)

lemma empty_queue_bop [keeps_bop]: "bop_inv s \<Longrightarrow> bop_inv (s\<lparr>queValues := []\<rparr>)"
  by (rule bop_inv_queue) simp_all

lemma abort_bop [keeps_bop]:
  "bop_inv s \<Longrightarrow> bop_inv (snd (cam_scriptEnds d s))" "bop_inv s \<Longrightarrow> bop_inv (snd (cam_killAll d b s))"
  "bop_inv s \<Longrightarrow> bop_inv (snd (stopexpo d s))"
  by (simp_all add: cam_scriptEnds_def cam_killAll_def dev_killAll_def stopexpo_def case_prod_beta Let_def keeps_bop)

lemma setCondValue_bop [keeps_bop]: "bop_inv s \<Longrightarrow> bop_inv (snd (setCondValue d c s))"
  by (auto simp: setCondValue_def bop_inv_def queValueChange_def stateCondition_def doSetValue_sel)

lemma command_bop [keeps_bop]: "bop_inv s \<Longrightarrow> bop_inv (snd (cam_commandAuthorized d c x s))"
proof (cases x)
  case (ShiftStore k)
  then show "bop_inv s \<Longrightarrow> ?thesis"
    by (cases k) (simp_all add: shiftStoreStart_def shiftStoreShift_def shiftStoreEnd_def keeps_bop)
qed (simp_all add: Let_def case_prod_beta keeps_bop)

lemma step_bop: "bop_inv s \<Longrightarrow> bop_inv (cam_step d e s)"
  by (cases e) (simp_all add: cam_deleteConnection_def filter_move_end_def focuser_end_move_def cam_idle_def
      stopping_pass_def cam_endRunLoop_def Let_def keeps_bop)

end
