(* ===== verification/CameraValues.thy ===== *)
theory CameraValues
  imports CameraTypes CameraBlocks
begin

section \<open>Queued value changes\<close>

text \<open>
  The queue of value changes of \<open>Device\<close> and \<open>Daemon\<close> refines a machine that applies each change when it is
  asked for. The abstraction of a state is the values it promises: those it has, with the queued
  changes applied in their order. Asking for a change applies it to the promised values, and
  performing what the state no longer blocks leaves them alone.
\<close>

subsection \<open>The abstract machine\<close>

type_synonym valuation = "string \<Rightarrow> int"

definition perform :: "vchange \<Rightarrow> valuation \<Rightarrow> valuation" where
  "perform c f = (case opValue (vop c) (f (vname c)) (vnum c) of Some v \<Rightarrow> f(vname c := v) | None \<Rightarrow> f)"

definition promised :: "'h cam \<Rightarrow> valuation" where
  "promised s = fold perform (queValues s) (cvals s)"

text \<open>A value whose changes the camera and its driver never refuse.\<close>

definition accepts :: "'h cam_driver \<Rightarrow> string \<Rightarrow> bool" where
  "accepts d n \<longleftrightarrow> (\<forall>v s. fst (cam_setValue d n v s) = 0)"

text \<open>The queue holds only changes the state blocks (a state of \<open>Device\<close> after \<open>checkQueChanges\<close>).\<close>

definition settled :: "'h cam_driver \<Rightarrow> 'h cam \<Rightarrow> bool" where
  "settled d s \<longleftrightarrow> (\<forall>c\<in>set (queValues s). queValueChange d (vname c) (camState s))"

subsection \<open>Refinement\<close>

lemma perform_other: "vname c \<noteq> n \<Longrightarrow> perform c f n = f n"
  by (simp add: perform_def split: option.split)

lemma perform_commute: "vname a \<noteq> vname b \<Longrightarrow> perform a (perform b f) = perform b (perform a f)"
  by (auto simp: perform_def fun_upd_twist split: option.split)

lemma fold_perform_commute:
  "\<forall>b\<in>set cs. vname b \<noteq> vname a \<Longrightarrow> fold perform cs (perform a f) = perform a (fold perform cs f)"
proof (induction cs arbitrary: f)
  case (Cons b cs)
  then have "perform b (perform a f) = perform a (perform b f)" by (intro perform_commute) simp
  then show ?case using Cons by simp
qed simp

lemma doSetValue_performs: "accepts d (vname c) \<Longrightarrow> cvals (snd (doSetValue d c s)) = perform c (cvals s)"
  by (simp add: doSetValue_def perform_def accepts_def case_prod_beta Let_def cam_setValue_vals split: option.split)

lemma free_queued_vals:
  "\<forall>c\<in>set cs. accepts d (vname c) \<Longrightarrow>
   cvals (snd (free_queued d fake cs s)) = fold perform (filter (\<lambda>c. \<not> queValueChange d (vname c) fake) cs) (cvals s)"
  by (induction cs arbitrary: s) (simp_all add: case_prod_beta doSetValue_performs)

text \<open>Changes of values the state does not block overtake those it blocks without harm.\<close>

lemma overtake:
  "fold perform (filter (\<lambda>c. P (vname c)) cs) (fold perform (filter (\<lambda>c. \<not> P (vname c)) cs) f) = fold perform cs f"
proof (induction cs arbitrary: f)
  case (Cons c cs)
  show ?case
  proof (cases "P (vname c)")
    case True
    then have "\<forall>b\<in>set (filter (\<lambda>c. \<not> P (vname c)) cs). vname b \<noteq> vname c" by auto
    from fold_perform_commute [OF this] show ?thesis using True Cons [of "perform c f"] by simp
  qed (simp add: Cons)
qed simp

lemma free_queued_promise:
  "\<forall>c\<in>set cs. accepts d (vname c) \<Longrightarrow>
   fold perform (fst (free_queued d fake cs s)) (cvals (snd (free_queued d fake cs s))) = fold perform cs (cvals s)"
  unfolding free_queued_stay using overtake [of "\<lambda>n. queValueChange d n fake"] by (simp add: free_queued_vals)

lemma fold_other: "\<forall>b\<in>set cs. vname b \<noteq> n \<Longrightarrow> fold perform cs f n = f n"
  by (induction cs arbitrary: f) (simp_all add: perform_other)

lemma setCondValue_promise:
  assumes "settled d s" "accepts d (vname c)"
  shows "promised (snd (setCondValue d c s)) = perform c (promised s)"
proof (cases "queValueChange d (vname c) (camState s)")
  case True
  show ?thesis
  proof (cases "vop c = CHR ''='' \<and> cvals s (vname c) = vnum c \<and> queValues s = []")
    case True
    then show ?thesis by (auto simp: setCondValue_def promised_def perform_def opValue_def)
  qed (use True in \<open>auto simp: setCondValue_def promised_def\<close>)
next
  case False
  then have o: "\<forall>b\<in>set (queValues s). vname b \<noteq> vname c" using assms(1) by (auto simp: settled_def)
  show ?thesis
  proof (cases "vop c = CHR ''='' \<and> cvals s (vname c) = vnum c")
    case True
    have "promised s (vname c) = cvals s (vname c)" unfolding promised_def by (rule fold_other [OF o])
    then have "perform c (promised s) = promised s"
      using True fun_upd_triv [of "promised s" "vname c"] by (simp add: perform_def opValue_def)
    moreover have "setCondValue d c s = (0, s)" using True False by (simp add: setCondValue_def)
    ultimately show ?thesis by simp
  next
    case n: False
    have "setCondValue d c s = doSetValue d c s" unfolding setCondValue_def using False n by auto
    then show ?thesis
      by (simp add: promised_def doSetValue_sel doSetValue_performs [OF assms(2)] fold_perform_commute [OF o])
  qed
qed

lemma accepts_exposure: "accepts d ''exposure''"
proof -
  have "wheel_of ''exposure'' i ws = None" for i ws
    by (induction ws arbitrary: i) (simp_all add: filt_name_def)
  then show ?thesis by (simp add: accepts_def cam_setValue_def)
qed

end
