(* ===== verification/CameraDrivers.thy ===== *)
theory CameraDrivers
  imports CameraOps
begin

section \<open>Camera drivers\<close>

text \<open>
  Two of the drivers of \<open>base/camd\<close>: the simulated camera (\<open>dummy/dummy.cpp\<close>, one channel) and the
  cameras of FLI (\<open>fli/fli.cpp\<close>). The library of the latter (\<open>libfli\<close>, not part of the drivers) is
  the record \<open>fli_lib\<close>: each call reads and changes the camera's own state and returns a code; the
  arguments, which the driver takes from its values, are part of the functions.
\<close>

subsection \<open>The simulated camera\<close>

text \<open>
  \<open>written\<close> is the number of bytes sent of the image, -1 before it is generated; \<open>size\<close> the bytes of
  an image. Sending never fails here.
\<close>

record dummy_hw =
  written :: int
  imageSize :: int

definition dummy_callReadout :: "'h cam \<Rightarrow> bool" where
  "dummy_callReadout s \<longleftrightarrow> cvals s ''call_readout'' = 1"

definition dummy_startExposure :: "dummy_hw cam \<Rightarrow> int \<times> dummy_hw" where
  "dummy_startExposure s = ((if dummy_callReadout s then 0 else 1), (chw s)\<lparr>written := -1\<rparr>)"

definition dummy_isExposing :: "dummy_hw cam \<Rightarrow> int \<times> dummy_hw" where
  "dummy_isExposing s =
     (let ret = cam_isExposing s
      in ((if ret = -2 then (if dummy_callReadout s then -2 else -4) else ret), chw s))"

definition dummy_doReadout :: "dummy_hw cam \<Rightarrow> int \<times> dummy_hw" where
  "dummy_doReadout s =
     (let h = chw s;
          w = (if written h = -1 then 0 else written h);
          w2 = (if w < imageSize h then w + min (imageSize h - w) (cvals s ''readout_size'') else w)
      in ((if w2 = imageSize h then -2 else 0), h\<lparr>written := w2\<rparr>))"

definition dummy_driver :: "bool \<Rightarrow> dummy_hw cam_driver" where
  "dummy_driver ft =
     \<lparr>startExposure_d = dummy_startExposure, isExposing_d = dummy_isExposing, stopExposure_d = (\<lambda>s. (0, chw s)),
      doReadout_d = dummy_doReadout, setValue_d = (\<lambda>n v s. (0, chw s)), setCamFilterNum_d = (\<lambda>n s. (-1, chw s)),
      condition_d = (\<lambda>n. if n = ''call_readout'' \<or> n = ''readout'' then CAM_WORKING else 0),
      frameTransfer_d = ft, imageData_d = (\<lambda>s. (TCPIP, 0)), sendFirstLine_d = (\<lambda>s. 0)\<rparr>"

definition new_dummy :: "bool \<Rightarrow> wheel list \<Rightarrow> dummy_hw cam" where
  "new_dummy exptype ws =
     (new_cam \<lparr>written = -1, imageSize = 100\<rparr> exptype ws False False)
       \<lparr>cvals := (\<lambda>n. 0)(''exposure'' := 1000000, ''call_readout'' := 1, ''readout_size'' := 100000)\<rparr>"

subsection \<open>The FLI cameras\<close>

record 'x fli_lib =
  FLISetVBin :: "'x \<Rightarrow> int \<times> 'x"
  FLISetHBin :: "'x \<Rightarrow> int \<times> 'x"
  FLISetImageArea :: "'x \<Rightarrow> int \<times> 'x"
  FLISetExposureTime :: "int \<Rightarrow> 'x \<Rightarrow> int \<times> 'x"
  FLISetFrameType :: "bool \<Rightarrow> 'x \<Rightarrow> int \<times> 'x"
  FLIExposeFrame :: "'x \<Rightarrow> int \<times> 'x"
  FLIGetExposureStatus :: "'x \<Rightarrow> int \<times> int"
  FLICancelExposure :: "'x \<Rightarrow> int \<times> 'x"
  FLIFlushRow :: "'x \<Rightarrow> int \<times> 'x"
  FLIGrabRows :: "'x \<Rightarrow> int \<times> 'x"

text \<open>Calls in a row, up to the first that fails.\<close>

fun fli_calls :: "('x \<Rightarrow> int \<times> 'x) list \<Rightarrow> 'x \<Rightarrow> int \<times> 'x" where
  "fli_calls [] x = (0, x)"
| "fli_calls (f # fs) x = (let (r, y) = f x in if r \<noteq> 0 then (-1, y) else fli_calls fs y)"

definition fli_startExposure :: "'x fli_lib \<Rightarrow> 'x cam \<Rightarrow> int \<times> 'x" where
  "fli_startExposure l s =
     fli_calls [FLISetVBin l, FLISetHBin l, FLISetImageArea l,
       FLISetExposureTime l (cvals s ''exposure'' div 1000),
       FLISetFrameType l (cvals s ''SHUTTER'' = 0), FLIExposeFrame l] (chw s)"

definition fli_isExposing :: "'x fli_lib \<Rightarrow> 'x cam \<Rightarrow> int \<times> 'x" where
  "fli_isExposing l s =
     (let (r, tl) = FLIGetExposureStatus l (chw s)
      in ((if r \<noteq> 0 then -1 else if tl \<le> 0 then -2 else tl * 1000), chw s))"

definition fli_stopExposure :: "'x fli_lib \<Rightarrow> 'x cam \<Rightarrow> int \<times> 'x" where
  "fli_stopExposure l s =
     (let (r, timer) = FLIGetExposureStatus l (chw s)
      in if r = 0 \<and> timer > 0 then
           let (r1, x) = FLICancelExposure l (chw s)
           in if r1 \<noteq> 0 then (r1, x) else FLIFlushRow l x
         else (0, chw s))"

definition fli_doReadout :: "'x fli_lib \<Rightarrow> 'x cam \<Rightarrow> int \<times> 'x" where
  "fli_doReadout l s = (let (r, x) = FLIGrabRows l (chw s) in ((if r \<noteq> 0 then -1 else -2), x))"

definition fli_driver :: "'x fli_lib \<Rightarrow> ('x cam \<Rightarrow> transfer \<times> int) \<Rightarrow> 'x cam_driver" where
  "fli_driver l conns =
     \<lparr>startExposure_d = fli_startExposure l, isExposing_d = fli_isExposing l, stopExposure_d = fli_stopExposure l,
      doReadout_d = fli_doReadout l, setValue_d = (\<lambda>n v s. (0, chw s)), setCamFilterNum_d = (\<lambda>n s. (-1, chw s)),
      condition_d = (\<lambda>n. if n = ''nflush'' then CAM_WORKING else 0),
      frameTransfer_d = False, imageData_d = conns, sendFirstLine_d = (\<lambda>s. 0)\<rparr>"

end
