(* ===== verification/CameraRuns.thy ===== *)
theory CameraRuns
  imports CameraValues CameraDrivers
begin

section \<open>What cameras do\<close>

text \<open>The properties of cameras in runs of the events of \<open>cam_event\<close>, and of single operations.\<close>

abbreviation cam_run :: "'h cam_driver \<Rightarrow> cam_event list \<Rightarrow> 'h cam \<Rightarrow> 'h cam" where
  "cam_run d \<equiv> run_steps (cam_step d)"

lemma fli_stop:
  "(\<And>x. fst (FLICancelExposure l x) = 0) \<Longrightarrow> (\<And>x. fst (FLIFlushRow l x) = 0) \<Longrightarrow> stop_succeeds (fli_driver l c)"
  by (simp add: stop_succeeds_def fli_driver_def fli_stopExposure_def case_prod_beta Let_def)

interpretation apart: invariant_system no_overlap
    "\<lambda>e s. \<not> frameTransfer_d d \<and> stop_succeeds d" "cam_step d" for d
  by unfold_locales (simp_all add: step_apart)

interpretation blocks: invariant_system bop_inv "\<lambda>e s. True" "cam_step d" for d
  by unfold_locales (simp_all add: step_bop)

interpretation tel_block: invariant_system "\<lambda>s. tel_ok (camState s)"
    "\<lambda>e s. \<forall>c. e \<noteq> CCommand c (ShiftStore ShiftEnd)" "cam_step d" for d
  by unfold_locales (rule step_tel, auto)

lemma new_cam_sel [simp]:
  "camState (new_cam h x ws f b) = 0" "starts (new_cam h x ws f b) = []" "queValues (new_cam h x ws f b) = []"
  "masterBopState (new_cam h x ws f b) = 0"
  by (simp_all add: new_cam_def starts_def)

lemma new_cam_inv: "no_overlap (new_cam h x ws f b)" "bop_inv (new_cam h x ws f b)" "tel_ok (camState (new_cam h x ws f b))"
  by (simp_all add: no_overlap_def bop_inv_def tel_ok_def)

lemma start_in: "StartExposure w m b \<in> set (couts s) \<longleftrightarrow> StartExposure w m b \<in> set (starts s)"
  by (simp add: starts_def)

text \<open>
  C6: exposures do not overlap. On a camera without frame transfer whose driver's \<open>stopExposure\<close> never
  reports a failure (\<open>stop_succeeds\<close>), in every run, whatever the clients command and the blocks, filters and hardware do,
  the driver is told to start an exposure only while the state does not say it is exposing.
\<close>

theorem exposures_do_not_overlap:
  assumes "\<not> frameTransfer_d d" "stop_succeeds d"
    and "StartExposure w m b \<in> set (couts (cam_run d es (new_cam h x ws f sh)))"
  shows "w AND CAM_EXPOSING = 0"
proof -
  have "no_overlap (cam_run d es (new_cam h x ws f sh))"
    by (rule apart.inv_run) (use assms(1,2) in \<open>simp_all add: new_cam_inv\<close>)
  then have "free_start (StartExposure w m b)"
    using assms(3) unfolding start_in no_overlap_def list_all_iff by blast
  then show ?thesis by (simp add: free_start_def)
qed

text \<open>An FLI library that always succeeds, its state the milliseconds left of the exposure.\<close>

definition good_fli :: "int fli_lib" where
  "good_fli = \<lparr>FLISetVBin = Pair 0, FLISetHBin = Pair 0, FLISetImageArea = Pair 0, FLISetExposureTime = (\<lambda>t x. (0, t)),
     FLISetFrameType = (\<lambda>b. Pair 0), FLIExposeFrame = Pair 0, FLIGetExposureStatus = (\<lambda>x. (0, x)),
     FLICancelExposure = (\<lambda>x. (0, 0)), FLIFlushRow = Pair 0, FLIGrabRows = Pair 0\<rparr>"

lemma exposures_do_not_overlap_witness:
  "\<exists>w. StartExposure w 0 True \<in> set (couts (cam_run (fli_driver good_fli (\<lambda>s. (TCPIP, 0)))
     [CCommand 1 Expose, CCommand 1 Expose] (new_cam 0 True [] False False))) \<and> w AND CAM_EXPOSING = 0"
proof -
  let ?d = "fli_driver good_fli (\<lambda>s. (TCPIP, 0))"
  have st: "stop_succeeds ?d" by (rule fli_stop) (simp_all add: good_fli_def)
  have m: "StartExposure BOP_TEL_MOVE 0 True
      \<in> set (couts (cam_run ?d [CCommand 1 Expose, CCommand 1 Expose] (new_cam 0 True [] False False)))"
    by code_simp
  have ft: "\<not> frameTransfer_d ?d" by (simp add: fli_driver_def)
  show ?thesis using m exposures_do_not_overlap [OF ft st m] by blast
qed

text \<open>The flag of the last expose command: no operation but these commands writes it.\<close>

lemma cares_simps [simp]:
  "lastCareBlock (snd (free_queued d f' cs s)) = lastCareBlock s" "lastCareBlock (snd (doSetValue d v s)) = lastCareBlock s"
  by (simp_all add: free_queued_sel doSetValue_sel)

lemma cares_maskState:
  assumes "\<And>w s. lastCareBlock s \<Longrightarrow> lastCareBlock (full w s)" "lastCareBlock s"
  shows "lastCareBlock (cam_maskState_with full d m n s)"
  using assms by (simp add: cam_maskState_with_def cam_setState_with_def checkQueChanges_with_def
      dev_checkQueChanges_with_def case_prod_beta Let_def)

lemma cares_start:
  assumes "\<And>w s. lastCareBlock s \<Longrightarrow> lastCareBlock (full w s)" "lastCareBlock s"
  shows "lastCareBlock (snd (camStartExposureWithoutCheck_with full d s))"
  using assms cares_maskState [OF assms(1)]
  unfolding camStartExposureWithoutCheck_with_def Let_def case_prod_beta by simp

interpretation cares: carried d lastCareBlock for d
proof
  fix full :: "u32 \<Rightarrow> 'a cam \<Rightarrow> 'a cam" and w and s :: "'a cam"
  assume full: "\<And>w s. lastCareBlock s \<Longrightarrow> lastCareBlock (full w s)" and s: "lastCareBlock s"
  then show "lastCareBlock (setFullBopState_with full d w s)"
    using cares_maskState [OF full] cares_start [OF full] by (simp add: setFullBopState_with_def Let_def)
qed

interpretation cares_ops: cam_keeps d lastCareBlock for d
  by unfold_locales
    (simp_all add: cares.carried_full cam_maskState_def camStartExposureWithoutCheck_def checkQueChanges_def
      cares_maskState cares_start checkQueChanges_with_def dev_checkQueChanges_with_def case_prod_beta Let_def)

lemma step_cares: "lastCareBlock s \<Longrightarrow> \<forall>c. e \<noteq> CCommand c ExposeNoChecks \<Longrightarrow> lastCareBlock (cam_step d e s)"
proof (cases e)
  case (CCommand c x)
  have v: "lastCareBlock (snd (setCondValue d v s)) = lastCareBlock s" for v by (simp add: setCondValue_def)
  show "lastCareBlock s \<Longrightarrow> \<forall>c. e \<noteq> CCommand c ExposeNoChecks \<Longrightarrow> ?thesis"
  proof (cases x)
    case (ShiftStore k)
    then show "lastCareBlock s \<Longrightarrow> ?thesis"
      by (cases k) (simp_all add: CCommand shiftStoreStart_def shiftStoreShift_def shiftStoreEnd_def cam_maskState_def
          cares_maskState cares.carried_full)
  qed (simp_all add: CCommand Let_def case_prod_beta cares_ops.expose cares_ops.aborts v)
qed (simp_all add: cam_deleteConnection_def filter_move_end_def focuser_end_move_def cam_idle_def stopping_pass_def
      cam_endRunLoop_def Let_def cares_ops.keeps cares_ops.checks cares_ops.queuedExposures cares_ops.aborts)

interpretation careful: invariant_system lastCareBlock "\<lambda>e s. \<forall>c. e \<noteq> CCommand c ExposeNoChecks" "cam_step d" for d
  by unfold_locales (rule step_cares)

text \<open>
  C5: the blocks are respected. The camera keeps one flag for all clients, \<open>lastCareBlock\<close>, which
  says whether the last expose command asked for the checks. In every run, each exposure with an open shutter
  that is started while this flag is set is started while the last block state centrald has sent for the
  camera has no \<open>BOP_EXPOSURE\<close> - whether it starts at once, after a wait for the blocks, or after the
  exposure before it. In a run in which no client commands an exposure without the checks the flag is
  always set.
\<close>

theorem exposure_respects_blocks:
  shows "(StartExposure w m True \<in> set (couts (cam_run d es (new_cam h x ws f sh))) \<longrightarrow> m AND BOP_EXPOSURE = 0)
    \<and> ((\<forall>c. CCommand c ExposeNoChecks \<notin> set es) \<longrightarrow> lastCareBlock (cam_run d es (new_cam h x ws f sh)))"
proof -
  have "bop_inv (cam_run d es (new_cam h x ws f sh))"
    by (rule blocks.inv_run) (simp_all add: new_cam_inv)
  then have "StartExposure w m True \<in> set (couts (cam_run d es (new_cam h x ws f sh))) \<Longrightarrow> heeds (StartExposure w m True)"
    unfolding start_in bop_inv_def list_all_iff by blast
  moreover have "lastCareBlock (cam_run d es (new_cam h x ws f sh))" if "\<forall>c. CCommand c ExposeNoChecks \<notin> set es"
    by (rule careful.inv_run) (use that in \<open>auto simp: new_cam_def\<close>)
  ultimately show ?thesis by (simp add: heeds_def)
qed

lemma exposure_respects_blocks_witness:
  "let s = cam_run (dummy_driver False) [CBop BOP_EXPOSURE, CCommand 1 Expose, CBop BOP_TEL_MOVE]
       (new_cam \<lparr>written = -1, imageSize = 1\<rparr> True [] False False)
   in StartExposure BOP_TEL_MOVE BOP_TEL_MOVE True \<in> set (couts s) \<and> BOP_TEL_MOVE AND BOP_EXPOSURE = 0 \<and> lastCareBlock s"
proof -
  let ?es = "[CBop BOP_EXPOSURE, CCommand 1 Expose, CBop BOP_TEL_MOVE]"
  have "StartExposure BOP_TEL_MOVE BOP_TEL_MOVE True \<in> set (couts (cam_run (dummy_driver False) ?es
      (new_cam \<lparr>written = -1, imageSize = 1\<rparr> True [] False False)))"
    by code_simp
  moreover have "\<forall>c. CCommand c ExposeNoChecks \<notin> set ?es" by simp
  ultimately show ?thesis
    using exposure_respects_blocks [of BOP_TEL_MOVE BOP_TEL_MOVE "dummy_driver False" ?es
        "\<lparr>written = -1, imageSize = 1\<rparr>" True "[]" False False] unfolding Let_def by blast
qed

text \<open>
  C7: the telescope is released. In every run without a shift-and-store readout, a camera
  that blocks moves of the telescope is exposing: the block goes with the end of the exposure, an
  abort, a hardware error and a start that failed.
\<close>

theorem telescope_released:
  assumes "\<forall>c. CCommand c (ShiftStore ShiftEnd) \<notin> set es"
    and "camState (cam_run d es (new_cam h x ws f sh)) AND BOP_TEL_MOVE \<noteq> 0"
  shows "exposing (getStateChip (cam_run d es (new_cam h x ws f sh)))"
proof -
  let ?s = "cam_run d es (new_cam h x ws f sh)"
  have "tel_ok (camState ?s)"
    by (rule tel_block.inv_run [OF new_cam_inv(3)]) (use assms(1) in auto)
  then have "camState ?s AND CAM_MASK_EXPOSE \<noteq> 0" using assms(2) unfolding tel_ok_def by blast
  moreover have "getStateChip ?s AND (CAM_EXPOSING OR CAM_EXPOSING_NOIM) = camState ?s AND CAM_MASK_EXPOSE"
    by (simp add: getStateChip_def and.assoc)
  ultimately show ?thesis unfolding exposing_def by metis
qed

lemma telescope_released_witness:
  "exposing (getStateChip (cam_run (dummy_driver False) [CCommand 1 Expose]
     (new_cam \<lparr>written = -1, imageSize = 1\<rparr> True [] False False)))"
proof (rule telescope_released)
  show "camState (cam_run (dummy_driver False) [CCommand 1 Expose]
      (new_cam \<lparr>written = -1, imageSize = 1\<rparr> True [] False False)) AND BOP_TEL_MOVE \<noteq> 0" by code_simp
qed simp

subsection \<open>Waiting for the blocks\<close>

lemma blocked_start:
  assumes "blocked s"
  shows "fst (camStartExposure d True s) = 0"
    and "queValues s = [] \<Longrightarrow> \<not> waitingForEmptyQue s \<Longrightarrow> starts (snd (camStartExposure d True s)) = starts s
      \<and> waitingForNotBop (snd (camStartExposure d True s)) \<and> exposureConn (snd (camStartExposure d True s)) = exposureConn s
      \<and> quedExpNumber (snd (camStartExposure d True s)) = quedExpNumber s + 1"
  using assms mask_plain [of "s\<lparr>quedExpNumber := quedExpNumber s + 1, waitingForNotBop := True\<rparr>" d BOP_WILL_EXPOSE BOP_WILL_EXPOSE]
  by (simp_all add: camStartExposure_def Let_def starts_emit)

definition held_up :: "nat \<Rightarrow> 'h cam \<Rightarrow> int \<times> 'h cam \<Rightarrow> bool" where
  "held_up c s r \<longleftrightarrow> fst r = 0 \<and> starts (snd r) = starts s \<and> waitingForNotBop (snd r) \<and> exposureConn (snd r) = Some c
     \<and> quedExpNumber (snd r) = (if quedExpNumber s > 0 then quedExpNumber s else quedExpNumber s + 1)"

text \<open>
  An exposure that the blocks hold up waits. When the camera is free to take the command and
  something blocks the exposure, the command succeeds, nothing is started, and the camera waits for
  the blocks on behalf of this client, an exposure in its queue. The number of queued exposures is
  raised only when it was zero: a second command during the wait adds no exposure.
\<close>

theorem blocked_exposure_waits:
  assumes "\<not> cannot_start d (getStateChip s) False s" "blocked s" "\<not> exitPending s" "\<not> waitingForEmptyQue s"
  shows "held_up c s (camExpose d (Some c) (getStateChip s) False True s)"
proof -
  define u where "u = (if quedExpNumber s > 0 then s\<lparr>quedExpNumber := quedExpNumber s - 1\<rparr> else s)\<lparr>exposureConn := Some c\<rparr>"
  have u: "queValues u = []" "blocked u" "\<not> waitingForEmptyQue u" "starts u = starts s" "exposureConn u = Some c"
    "quedExpNumber u = (if quedExpNumber s > 0 then quedExpNumber s - 1 else quedExpNumber s)"
    using assms by (simp_all add: u_def cannot_start_def blocked_def dark_type_def filterMoving_def)
  have "camExpose d (Some c) (getStateChip s) False True s = camStartExposure d True u"
    using assms(1,3) blocked_start(1) [OF u(2), of d]
    unfolding camExpose_def Let_def u_def by (cases "quedExpNumber s > 0") (simp_all add: case_prod_beta prod_eq_iff)
  then show ?thesis using blocked_start [OF u(2), of d] u by (simp add: held_up_def)
qed

definition focusing_cam :: "dummy_hw cam" where
  "focusing_cam = (new_dummy True [])\<lparr>focuserMoving := True\<rparr>"

lemma blocked_exposure_waits_witness:
  "held_up 1 focusing_cam (camExpose (dummy_driver False) (Some 1) (getStateChip focusing_cam) False True focusing_cam)"
proof (rule blocked_exposure_waits)
  show "\<not> cannot_start (dummy_driver False) (getStateChip focusing_cam) False focusing_cam" "blocked focusing_cam"
    "\<not> exitPending focusing_cam" "\<not> waitingForEmptyQue focusing_cam" by code_simp+
qed

text \<open>What has been started stays recorded.\<close>

definition extends :: "cam_out list \<Rightarrow> 'h cam \<Rightarrow> bool" where
  "extends xs s \<longleftrightarrow> (\<exists>r. starts s = xs @ r)"

lemma extends_simps [simp]:
  "extends xs (queue_emptied s) = extends xs s" "extends xs (started d s) = extends xs s"
  "extends xs (dev_setFullBopState d w s) = extends xs s" "extends xs (snd (free_queued d f cs s)) = extends xs s"
  "extends xs (s\<lparr>queValues := k\<rparr>) = extends xs s" "extends xs (s\<lparr>camState := w\<rparr>) = extends xs s"
  "extends xs (s\<lparr>chw := h\<rparr>) = extends xs s" "extends xs (s\<lparr>exposureEnd := i\<rparr>) = extends xs s"
  "extends xs (s\<lparr>exposureNumber := i, scriptExposureNum := j\<rparr>) = extends xs s"
  "extends xs (s\<lparr>waitingForNotBop := b, quedExpNumber := i\<rparr>) = extends xs s"
  by (simp_all add: extends_def free_queued_sel)

lemma extends_emit: "extends xs s \<Longrightarrow> extends xs (cemit e s)"
  by (auto simp: extends_def starts_emit)

lemma mask_extends:
  assumes "\<And>w s. extends xs s \<Longrightarrow> extends xs (full w s)" "extends xs s"
  shows "extends xs (cam_maskState_with full d m n s)"
  using assms by (simp add: cam_maskState_with_def cam_setState_with_def checkQueChanges_with_def
      dev_checkQueChanges_with_def case_prod_beta Let_def extends_emit)

lemma start_extends:
  assumes "\<And>w s. extends xs s \<Longrightarrow> extends xs (full w s)" "extends xs s"
  shows "extends xs (snd (camStartExposureWithoutCheck_with full d s))"
  using assms by (simp add: camStartExposureWithoutCheck_with_def case_prod_beta Let_def extends_emit mask_extends)

interpretation grows: carried d "extends xs" for d xs
  by unfold_locales (simp add: setFullBopState_with_def Let_def mask_extends start_extends)

text \<open>
  A waiting exposure starts when the blocks go. When centrald sends a block state without
  \<open>BOP_EXPOSURE\<close> while an exposure waits for it, the camera is neither exposing nor (without frame
  transfer) reading out, and no trigger is to be waited for, the exposure is started at once.
\<close>

theorem waiting_exposure_starts:
  assumes "quedExpNumber s > 0" "waitingForNotBop s" "new AND BOP_EXPOSURE = 0"
    and "new AND BOP_TRIG_EXPOSE = 0 \<or> camState s AND BOP_WILL_EXPOSE \<noteq> 0"
    and "camState s AND CAM_EXPOSING = 0" "frameTransfer_d d \<or> camState s AND CAM_READING = 0"
  shows "\<exists>w m b r. starts (setFullBopState d new s) = starts s @ StartExposure w m b # r"
proof -
  define t where "t = (dev_setFullBopState d new s)\<lparr>waitingForNotBop := False, quedExpNumber := quedExpNumber s - 1\<rparr>"
  let ?full = "full_level d (length (queValues s))"
  define s1 where "s1 = cam_maskState_with ?full d BOP_TEL_MOVE (if lastCareBlock t then BOP_TEL_MOVE else 0)
     (t\<lparr>exposureNumber := exposureNumber t + 1, scriptExposureNum := scriptExposureNum t + 1\<rparr>)"
  let ?e = "StartExposure (camState s1) (masterBopState s1) (lastCareBlock s1 \<and> \<not> dark_type s1)"
  have g: "\<not> (getStateChip (dev_setFullBopState d new s) AND CAM_EXPOSING \<noteq> 0
      \<or> (\<not> frameTransfer_d d \<and> getStateChip (dev_setFullBopState d new s) AND CAM_READING \<noteq> 0))"
    using assms(5,6) chip_bit [of CAM_EXPOSING "dev_setFullBopState d new s"] chip_bit [of CAM_READING "dev_setFullBopState d new s"]
    by auto
  have st: "setFullBopState d new s = snd (camStartExposureWithoutCheck_with ?full d t)"
    using assms(1-4) g unfolding setFullBopState_def full_level.simps setFullBopState_with_def Let_def t_def by auto
  have "starts s1 = starts s"
    unfolding s1_def by (subst inert_maskState [OF quiet_level]) (simp_all add: inert_def calm_def t_def)
  then have x: "extends (starts s @ [?e]) (cemit ?e (s1\<lparr>chw := h\<rparr>))" for h
    by (simp add: extends_def starts_emit)
  have "extends (starts s @ [?e]) (snd (camStartExposureWithoutCheck_with ?full d t))"
    unfolding camStartExposureWithoutCheck_with_def Let_def case_prod_beta s1_def [symmetric]
    by (simp add: mask_extends [OF grows.level] x)
  then show ?thesis unfolding st extends_def by auto
qed

lemma waiting_exposure_starts_witness:
  "\<exists>w m b r. starts (setFullBopState (dummy_driver False) 0 (focusing_cam\<lparr>quedExpNumber := 1, waitingForNotBop := True\<rparr>))
     = starts (focusing_cam\<lparr>quedExpNumber := 1, waitingForNotBop := True\<rparr>) @ StartExposure w m b # r"
  by (rule waiting_exposure_starts) (simp_all add: focusing_cam_def new_dummy_def new_cam_def)

subsection \<open>Aborting\<close>

abbreviation CAM_CYCLE :: u32 where
  "CAM_CYCLE \<equiv> CAM_MASK_EXPOSE OR CAM_MASK_SHIFTING OR CAM_MASK_READING OR CAM_MASK_FT OR BOP_TEL_MOVE OR BOP_WILL_EXPOSE"

definition aborted :: "'h cam \<Rightarrow> 'h cam \<Rightarrow> bool" where
  "aborted s t \<longleftrightarrow> starts t = starts s \<and> quedExpNumber t = 0 \<and> \<not> waitingForNotBop t \<and> \<not> waitingForEmptyQue t
     \<and> camState t AND CAM_CYCLE = 0"

lemma aborted_mask:
  assumes "aborted s t" "queValues t = []" "(DEVICE_ERROR_MASK OR m) AND CAM_CYCLE = 0" "n AND CAM_CYCLE = 0"
  shows "aborted s (cam_maskState d m n t)"
proof -
  have "mask_word m n (camState t) AND CAM_CYCLE = camState t AND CAM_CYCLE"
    by (rule mask_word_other) (fact assms)+
  then show ?thesis using assms(1,2)
    by (simp add: aborted_def mask_plain Let_def starts_emit)
qed

lemma stop_aborts:
  "stop_succeeds d \<Longrightarrow> quedExpNumber (snd (stopExposure d s)) = 0"
  "waitingForNotBop (snd (stopExposure d s)) = waitingForNotBop s"
  "waitingForEmptyQue (snd (stopExposure d s)) = waitingForEmptyQue s"
  by (simp_all add: stop_succeeds_def stopExposure_def case_prod_beta Let_def)

lemma end_data_waits: "waitingForNotBop (end_data s) = waitingForNotBop s" "waitingForEmptyQue (end_data s) = waitingForEmptyQue s"
  by (simp_all add: end_data_def)

lemma abort_mask:
  assumes "quedExpNumber s = 0" "\<not> waitingForNotBop s" "\<not> waitingForEmptyQue s"
    and "CAM_CYCLE AND m = CAM_CYCLE" "n AND CAM_CYCLE = 0"
  shows "aborted s (cam_maskState d m n s)"
proof -
  have "cam_same (cam_maskState d m n s) (s\<lparr>camState := mask_word m n (camState s)\<rparr>)"
    by (rule calm_mask) (use assms in \<open>simp_all add: calm_def\<close>)
  moreover have "mask_word m n (camState s) AND CAM_CYCLE = 0" using mask_word_field [OF assms(4)] assms(5) by simp
  ultimately show ?thesis using assms by (simp add: cam_same_def aborted_def)
qed

text \<open>
  \<open>killall\<close> leaves an idle camera. When the driver can stop the exposure, nothing is started
  during the abort, no exposure is queued or waits for anything, no value change is queued, the
  chip is neither exposing, reading out nor shifting, and the camera blocks no move of the telescope.
\<close>

theorem killall_leaves_idle:
  assumes "stop_succeeds d"
  shows "aborted s (snd (cam_killAll d b s)) \<and> queValues (snd (cam_killAll d b s)) = []"
proof -
  define s0 where "s0 = snd (stopExposure d (end_data (s\<lparr>waitingForNotBop := False, waitingForEmptyQue := False,
      wheels := map (\<lambda>w. w\<lparr>wmoving := False\<rparr>) (wheels s)\<rparr>)))"
  define m where "m = CAM_CYCLE OR DEVICE_ERROR_KILL"
  define s1 where "s1 = (cam_maskState d m DEVICE_ERROR_KILL s0)\<lparr>queValues := []\<rparr>"
  have "aborted s0 (cam_maskState d m DEVICE_ERROR_KILL s0)"
    by (rule abort_mask) (simp_all add: s0_def m_def stop_aborts assms end_data_waits)
  moreover have "starts s0 = starts s" by (simp add: s0_def)
  ultimately have s1: "aborted s s1" by (simp add: s1_def aborted_def)
  have q: "queValues (cam_maskState d m' n' t) = []" if "queValues t = []" for m' n' t using that by (rule mask_queue)
  have k: "aborted s (cam_maskState d (DEVICE_ERROR_KILL OR DEVICE_ERROR_HW OR DEVICE_NOT_READY) DEVICE_ERROR_KILL t)"
    if "aborted s t" "queValues t = []" for t
    by (rule aborted_mask [OF that]) simp_all
  have e: "aborted s (cam_maskState d DEVICE_ERROR_KILL 0 t)" if "aborted s t" "queValues t = []" for t
    by (rule aborted_mask [OF that]) simp_all
  have z: "aborted s (s1\<lparr>quedExpNumber := 0, scriptExposureNum := 0\<rparr>)" "queValues s1 = []"
    using s1 by (simp_all add: aborted_def s1_def)
  have "snd (cam_killAll d b s) = cam_maskState d (DEVICE_ERROR_KILL OR DEVICE_ERROR_HW OR DEVICE_NOT_READY) DEVICE_ERROR_KILL
      (if b then cam_maskState d DEVICE_ERROR_KILL 0 (s1\<lparr>quedExpNumber := 0, scriptExposureNum := 0\<rparr>) else s1)"
    by (simp add: cam_killAll_def dev_killAll_def cam_scriptEnds_def Let_def case_prod_beta s1_def s0_def m_def)
  then show ?thesis using k e z q s1 by simp
qed

lemma killall_leaves_idle_witness:
  "aborted focusing_cam (snd (cam_killAll (dummy_driver False) True focusing_cam))"
  using killall_leaves_idle [of "dummy_driver False"] by (simp add: stop_succeeds_def dummy_driver_def)

subsection \<open>The end of the daemon\<close>

text \<open>What the operations of the idle loop leave alone.\<close>

definition leaving :: "int \<Rightarrow> int \<Rightarrow> 'h cam \<Rightarrow> bool" where
  "leaving t n s \<longleftrightarrow> exitPending s \<and> exitDeadline s = Some t \<and> cnow s = n"

lemma leaving_simps [simp]:
  "leaving t n (cemit e s) = leaving t n s" "leaving t n (queue_emptied s) = leaving t n s"
  "leaving t n (started d s) = leaving t n s" "leaving t n (dev_setFullBopState d w s) = leaving t n s"
  "leaving t n (snd (free_queued d f cs s)) = leaving t n s" "leaving t n (snd (stopExposure d s)) = leaving t n s"
  "leaving t n (open_data d c s) = leaving t n s" "leaving t n (s\<lparr>queValues := k\<rparr>) = leaving t n s"
  "leaving t n (s\<lparr>camState := w\<rparr>) = leaving t n s" "leaving t n (s\<lparr>chw := h\<rparr>) = leaving t n s"
  "leaving t n (s\<lparr>exposureEnd := i\<rparr>) = leaving t n s" "leaving t n (s\<lparr>quedExpNumber := i\<rparr>) = leaving t n s"
  "leaving t n (s\<lparr>exposureNumber := i, scriptExposureNum := j\<rparr>) = leaving t n s"
  "leaving t n (s\<lparr>waitingForNotBop := b\<rparr>) = leaving t n s" "leaving t n (s\<lparr>waitingForEmptyQue := b\<rparr>) = leaving t n s"
  "leaving t n (s\<lparr>exposureConn := co\<rparr>) = leaving t n s" "leaving t n (s\<lparr>realTimeCount := i\<rparr>) = leaving t n s"
  "leaving t n (s\<lparr>currentImageData := i\<rparr>) = leaving t n s" "leaving t n (s\<lparr>ctimeout := i\<rparr>) = leaving t n s"
  by (simp_all add: leaving_def free_queued_sel queue_emptied_def Let_def started_def cam_setTimeout_def case_prod_beta
      dev_setFullBopState_def stopExposure_def open_data_def startImageData_def split: option.split)

lemma leaving_keep:
  "leaving t n (s\<lparr>currentImageTransfer := tr\<rparr>) = leaving t n s" "leaving t n (s\<lparr>wheels := ws\<rparr>) = leaving t n s"
  "leaving t n (s\<lparr>scriptExposureNum := i\<rparr>) = leaving t n s" "leaving t n (s\<lparr>lastCareBlock := b\<rparr>) = leaving t n s"
  "leaving t n (s\<lparr>focuserMoving := b\<rparr>) = leaving t n s" "leaving t n (s\<lparr>cvals := v\<rparr>) = leaving t n s"
  by (simp_all add: leaving_def)

lemma mask_leaving:
  assumes "\<And>w s. leaving t n s \<Longrightarrow> leaving t n (full w s)" "leaving t n s"
  shows "leaving t n (cam_maskState_with full d m k s)"
  using assms by (simp add: cam_maskState_with_def cam_setState_with_def checkQueChanges_with_def
      dev_checkQueChanges_with_def case_prod_beta Let_def)

lemma start_leaving:
  assumes "\<And>w s. leaving t n s \<Longrightarrow> leaving t n (full w s)" "leaving t n s"
  shows "leaving t n (snd (camStartExposureWithoutCheck_with full d s))"
  using assms by (simp add: camStartExposureWithoutCheck_with_def case_prod_beta Let_def mask_leaving)

interpretation stays: carried d "leaving t n" for d t n
  by unfold_locales (simp add: setFullBopState_with_def Let_def mask_leaving start_leaving)

interpretation stays_ops: cam_keeps d "leaving t n" for d t n
  by unfold_locales (simp_all add: stays.carried_full cam_maskState_def camStartExposureWithoutCheck_def mask_leaving
      start_leaving checkQueChanges_def checkQueChanges_with_def dev_checkQueChanges_with_def case_prod_beta Let_def leaving_keep)

text \<open>
  The daemon ends. Once a stop has been asked for while the camera was busy and its deadline is set,
  the first pass of the idle loop after the deadline leaves the loop, whatever the hardware does.
\<close>

theorem stop_ends:
  assumes "exitPending s" "exitDeadline s = Some t" "cnow s > t"
  shows "ExitLoop \<in> set (couts (cam_idle d s))"
proof -
  have "leaving t (cnow s) s" using assms by (simp add: leaving_def)
  then have "leaving t (cnow s) (checkReadouts d (checkExposures d s))" by (intro stays_ops.checks)
  then show ?thesis using assms(3)
    by (simp add: leaving_def cam_idle_def stopping_pass_def Let_def cemit_def)
qed

lemma stop_ends_witness:
  "ExitLoop \<in> set (couts (cam_idle (dummy_driver False)
     (focusing_cam\<lparr>camState := CAM_READING, exitPending := True, exitDeadline := Some 15, cnow := 16\<rparr>)))"
  by (rule stop_ends [of _ 15]) simp_all

subsection \<open>Value changes and exposures\<close>

text \<open>
  C34: the recursion through the blocks ends. Recomputing the blocks, which performs queued value
  changes, starts waiting exposures and recomputes the blocks again, satisfies the recursive equation
  of the source; its depth is at most the length of the queue of value changes plus one.
\<close>

theorem block_recursion_ends:
  "setFullBopState d new s = setFullBopState_with (setFullBopState d) d new s
   \<and> (\<forall>n. length (queValues s) < n \<longrightarrow> full_level d n new s = setFullBopState d new s)"
  using setFullBopState_rec full_level_enough unfolding setFullBopState_def by blast

lemma block_recursion_ends_witness:
  "full_level (dummy_driver False) 5 0 focusing_cam = setFullBopState (dummy_driver False) 0 focusing_cam"
proof -
  have "length (queValues focusing_cam) < 5" by code_simp
  then show ?thesis using block_recursion_ends by blast
qed

text \<open>
  C32: value changes take effect in the order they were asked for. The promised values of the
  camera refine a machine that performs changes at once: for values the driver accepts, and with a settled queue
  (it holds only changes the present state still blocks; without it a later change can overtake an older one), a change that is
  asked for is performed on the promised values, whether it is performed, queued or already so;
  and performing the changes a new state does not block keeps the promised values, so that
  an empty queue leaves exactly them.
\<close>

theorem value_changes_in_order:
  assumes "settled d s" "accepts d (vname c)" "\<forall>b\<in>set (queValues s). accepts d (vname b)"
  shows "promised (snd (setCondValue d c s)) = perform c (promised s)
    \<and> promised ((snd (free_queued d w (queValues s) s))\<lparr>queValues := fst (free_queued d w (queValues s) s)\<rparr>) = promised s"
  using setCondValue_promise [OF assms(1,2)] free_queued_promise [OF assms(3)] by (simp add: promised_def)

text \<open>A camera that exposes, an exposure time queued.\<close>

definition queued_cam :: "dummy_hw cam" where
  "queued_cam = focusing_cam\<lparr>camState := CAM_EXPOSING, queValues := [\<lparr>vname = ''exposure'', vop = CHR ''='', vnum = 5\<rparr>]\<rparr>"

lemma value_changes_in_order_witness:
  "promised (snd (setCondValue (dummy_driver False) \<lparr>vname = ''exposure'', vop = CHR ''+'', vnum = 2\<rparr> queued_cam)) ''exposure'' = 7"
proof -
  let ?c = "\<lparr>vname = ''exposure'', vop = CHR ''+'', vnum = 2\<rparr>"
  have s: "settled (dummy_driver False) queued_cam" by code_simp
  have a: "accepts (dummy_driver False) (vname ?c)" by (simp add: accepts_exposure)
  have "\<forall>b\<in>set (queValues queued_cam). accepts (dummy_driver False) (vname b)"
    by (simp add: queued_cam_def accepts_exposure)
  then have "promised (snd (setCondValue (dummy_driver False) ?c queued_cam)) = perform ?c (promised queued_cam)"
    by (rule conjunct1 [OF value_changes_in_order [OF s a]])
  moreover have "perform ?c (promised queued_cam) ''exposure'' = 7" by code_simp
  ultimately show ?thesis by simp
qed

subsection \<open>The values of the state\<close>

interpretation typed: invariant_system cam_wf "\<lambda>e s. True" "cam_step d" for d
  by unfold_locales (simp_all add: step_wf)

text \<open>
  C33: the state of a camera is well-formed. In every run the state word has only the bits of a
  camera (its chip, the blocks of telescope moves and of an announced exposure, errors), an exposure
  without image is an exposure, and the number of queued exposures is not negative.
\<close>

theorem camera_well_formed: "cam_wf (cam_run d es (new_cam h x ws f sh))"
  by (rule typed.inv_run) (simp_all add: cam_wf_def word_wf_def, simp add: new_cam_def)

end
