(* ===== verification/CameraCases.thy ===== *)
theory CameraCases
  imports CameraRuns
begin

section \<open>Runs of a camera in which things go wrong\<close>

text \<open>
  Runs of the simulated camera with a filter wheel \<open>W0\<close> that show what the operations of \<open>camd.cpp\<close>
  do where their comments or the rest of the code intend something else.
\<close>

definition wheel_cam :: "dummy_hw cam" where
  "wheel_cam = new_dummy True [\<lparr>wdev = Some ''W0'', wconnected = True, wmoving = False, woffsets = []\<rparr>]"

definition set_filter_to :: "int \<Rightarrow> cam_event" where
  "set_filter_to n = CCommand 1 (SetValue ''filter'' (CHR ''='') n)"

text \<open>
  \<open>killall\<close> during an exposure writes the idle state before it empties the queue: the queued change
  of the filter is performed, which \<open>Device::killAll\<close> says it must not be.
\<close>

lemma killall_performs_queued:
  "couts (cam_run (dummy_driver False) [CCommand 1 Expose, set_filter_to 2] wheel_cam)
     = [CStatus 0x04000000, StartExposure 0x04000000 0 True, CStatus 0x04000001, CEnd 1 DEVDEM_I_QUED]
   \<and> FilterCommand ''W0'' 2 \<in> set (couts (cam_run (dummy_driver False)
       [CCommand 1 Expose, set_filter_to 2, CCommand 1 (KillAll True)] wheel_cam))"
  by code_simp

text \<open>
  A block state without \<open>BOP_EXPOSURE\<close> starts the waiting exposure although the filter is moving,
  which is what the exposure waited for.
\<close>

lemma exposure_while_filter_moves:
  "filterMoving (cam_run (dummy_driver False) [set_filter_to 2, CCommand 1 Expose, CBop 0] wheel_cam)
   \<and> starts (cam_run (dummy_driver False) [set_filter_to 2, CCommand 1 Expose] wheel_cam) = []
   \<and> starts (cam_run (dummy_driver False) [set_filter_to 2, CCommand 1 Expose, CBop 0] wheel_cam) \<noteq> []"
  by code_simp

text \<open>
  Two exposures are commanded, then a filter. The filter is changed as the second exposure is
  about to start: during that exposure the wheel moves.
\<close>

lemma filter_overtakes_exposure:
  "filter (\<lambda>e. is_start e \<or> e = FilterCommand ''W0'' 2) (couts (cam_run (dummy_driver False)
     [CCommand 1 Expose, CCommand 1 Expose, set_filter_to 2, CTime 2000000, CIdle, CIdle] wheel_cam))
   = [StartExposure 0x04000000 0 True, FilterCommand ''W0'' 2, StartExposure 0x04000002 0 True]"
  by code_simp

text \<open>Two exposures commanded while the blocks hold up the camera: one is taken.\<close>

lemma held_up_exposure_lost:
  "length (starts (cam_run (dummy_driver False)
     [CBop BOP_EXPOSURE, CCommand 1 Expose, CCommand 1 Expose, CBop 0, CTime 2000000, CIdle, CIdle, CIdle] wheel_cam)) = 1"
  by code_simp

text \<open>The client of a waiting exposure leaves, and the start fails: a call through the null pointer.\<close>

definition broken_camera :: "dummy_hw cam_driver" where
  "broken_camera = (dummy_driver False)\<lparr>startExposure_d := \<lambda>s. (-1, chw s)\<rparr>"

lemma null_exposure_connection:
  "NullConn \<in> set (couts (cam_run broken_camera [set_filter_to 2, CCommand 1 Expose, CLeave 1, CFilterEnd 0] wheel_cam))"
  by code_simp

text \<open>
  After a hardware error the queued exposures are gone when \<open>checkExposures\<close> asks for them: the
  stop has emptied the queue.
\<close>

lemma error_drops_queue:
  assumes "stop_succeeds d"
  shows "exposure_over d (-1) s = snd (stopExposure d
     (cam_maskState d (DEVICE_ERROR_MASK OR CAM_MASK_EXPOSE OR CAM_MASK_SHIFTING OR CAM_MASK_READING OR BOP_TEL_MOVE)
        (DEVICE_ERROR_HW OR CAM_NOEXPOSURE OR CAM_NOTREADING) s))"
  by (simp add: exposure_over_def expose_queued_def stop_aborts(1) [OF assms])

text \<open>
  During a readout with an exposure waiting, the queue keeps a filter change that the state no longer
  blocks. A later change is performed at once, the older one after it: the filter ends at the older.
\<close>

definition slow_readout :: "dummy_hw cam_driver" where
  "slow_readout = (dummy_driver False)\<lparr>doReadout_d := \<lambda>s. (if cnow s < 9000000 then 100 else -2, chw s)\<rparr>"

lemma older_change_wins:
  "filter (\<lambda>e. case e of FilterCommand n i \<Rightarrow> True | _ \<Rightarrow> False) (couts (cam_run slow_readout
     [CCommand 1 Expose, CCommand 1 Expose, set_filter_to 2, CTime 2000000, CIdle, set_filter_to 3, CTime 10000000, CIdle] wheel_cam))
   = [FilterCommand ''W0'' 3, FilterCommand ''W0'' 2]"
  by code_simp

text \<open>
  One flag for all clients. Three exposures are commanded with the checks, then another client commands one without
  them: the queued exposures of the first client start although the blocks forbid exposures; without the
  command of the other client none starts.
\<close>

lemma checks_of_another_client:
  "starts (cam_run (dummy_driver False) [CCommand 1 Expose, CCommand 1 Expose, CCommand 1 Expose, CCommand 2 ExposeNoChecks,
      CBop BOP_EXPOSURE, CTime 2000000, CIdle, CIdle] (new_dummy True []))
     = [StartExposure 0x04000000 0 True, StartExposure 2 BOP_EXPOSURE False]
   \<and> starts (cam_run (dummy_driver False) [CCommand 1 Expose, CCommand 1 Expose, CCommand 1 Expose,
      CBop BOP_EXPOSURE, CTime 2000000, CIdle, CIdle] (new_dummy True []))
     = [StartExposure 0x04000000 0 True]"
  by code_simp

text \<open>
  A driver that cannot stop the exposure. After a hardware error the end of the exposure frees a queued change and starts
  an exposure that waited for blocks; the stop fails, so the queue is not emptied, and the next
  exposure is started over the one just begun.
\<close>

definition failing_stop :: "dummy_hw cam_driver" where
  "failing_stop = (dummy_driver False)\<lparr>stopExposure_d := \<lambda>s. (-1, chw s),
     isExposing_d := \<lambda>s. (if cnow s < 1000000 then 100 else -1, chw s)\<rparr>"

lemma failed_stop_overlaps:
  "StartExposure (0x04000000 OR CAM_EXPOSING) 0 True \<in> set (starts (cam_run failing_stop
     [CBop BOP_EXPOSURE, CCommand 1 Expose, CCommand 2 ExposeNoChecks, CBop 0, CCommand 1 Expose, CCommand 1 Expose,
      CCommand 1 (SetValue ''exposure'' (CHR ''='') 5), CTime 2000000, CIdle] (new_dummy True [])))"
  by code_simp

end
