(* ===== verification/Telescope.thy ===== *)
theory Telescope
  imports Runs Status
begin

section \<open>Telescopes\<close>

text \<open>
  \<open>Telescope\<close> (\<open>base/teld/src/teld.cpp\<close>, \<open>teld.h\<close>): the base class of the mount drivers. This theory
  holds its values and the start of a move; theory \<open>TelescopeOps\<close> has the other operations. What a
  driver, the transformations of \<open>libnova\<close>, the horizon file and the MPEC library compute are
  the fields of a record \<open>mount\<close>: they read the whole state and return a value and the
  driver's own fields \<open>thw\<close>.

  Angles are integers in milliarcseconds, or \<open>NaN\<close>; the rounding of \<open>double\<close> is not modelled.
  Times are integers in microseconds. The pointing model, the statistics of the target distance,
  PANs, DUT1, the values shown only in the status of the telescope and log output are left out. The
  lines of a TLE target are always empty in this version of the program (\<open>moveTLE\<close> refuses every
  target), so the branches on them are left out too.
\<close>

subsection \<open>Angles\<close>

datatype angle = NaN | Angle int

instantiation angle :: "{zero, plus, minus, ord}"
begin

definition zero_angle :: angle where
  "zero_angle = Angle 0"

fun plus_angle :: "angle \<Rightarrow> angle \<Rightarrow> angle" where
  "plus_angle (Angle x) (Angle y) = Angle (x + y)"
| "plus_angle _ _ = NaN"

fun minus_angle :: "angle \<Rightarrow> angle \<Rightarrow> angle" where
  "minus_angle (Angle x) (Angle y) = Angle (x - y)"
| "minus_angle _ _ = NaN"

fun less_angle :: "angle \<Rightarrow> angle \<Rightarrow> bool" where
  "less_angle (Angle x) (Angle y) \<longleftrightarrow> x < y"
| "less_angle _ _ \<longleftrightarrow> False"

fun less_eq_angle :: "angle \<Rightarrow> angle \<Rightarrow> bool" where
  "less_eq_angle (Angle x) (Angle y) \<longleftrightarrow> x \<le> y"
| "less_eq_angle _ _ \<longleftrightarrow> False"

instance ..

end

text \<open>The C test \<open>a != b\<close>: a \<open>NaN\<close> differs from everything.\<close>

fun differs :: "angle \<Rightarrow> angle \<Rightarrow> bool" where
  "differs (Angle x) (Angle y) \<longleftrightarrow> x \<noteq> y"
| "differs _ _ \<longleftrightarrow> True"

abbreviation FULL_CIRCLE :: int where "FULL_CIRCLE \<equiv> 1296000000"

fun range_degrees :: "angle \<Rightarrow> angle" where
  "range_degrees NaN = NaN"
| "range_degrees (Angle x) = Angle (x mod FULL_CIRCLE)"

text \<open>The normalization of values with display type \<open>RTS2_DT_DEG_DIST_180\<close>.\<close>

fun dist180 :: "angle \<Rightarrow> angle" where
  "dist180 NaN = NaN"
| "dist180 (Angle x) =
     (let r = x mod FULL_CIRCLE in Angle (if r > FULL_CIRCLE div 2 then r - FULL_CIRCLE else r))"

text \<open>A value of two angles (\<open>ValueRaDec\<close>), with its flag \<open>RTS2_VALUE_CHANGED\<close>.\<close>

record radec =
  ra :: angle
  decl :: angle
  chg :: bool

type_synonym pos = "angle \<times> angle"

definition pos_of :: "radec \<Rightarrow> pos" where
  "pos_of v = (ra v, decl v)"

definition set_radec :: "pos \<Rightarrow> radec \<Rightarrow> radec" where
  "set_radec p v = v\<lparr>ra := fst p, decl := snd p, chg := chg v \<or> differs (ra v) (fst p) \<or> differs (decl v) (snd p)\<rparr>"

definition set_dist :: "pos \<Rightarrow> radec \<Rightarrow> radec" where
  "set_dist p v = set_radec (dist180 (fst p), dist180 (snd p)) v"

definition inc_dist :: "pos \<Rightarrow> radec \<Rightarrow> radec" where
  "inc_dist p v = set_dist (ra v + fst p, decl v + snd p) v"

definition resetValueChanged :: "radec \<Rightarrow> radec" where
  "resetValueChanged v = v\<lparr>chg := False\<rparr>"

definition zero_radec :: "radec \<Rightarrow> radec" where
  "zero_radec v = resetValueChanged (set_radec (0, 0) v)"

definition null_pos :: "pos \<Rightarrow> bool" where
  "null_pos p \<longleftrightarrow> fst p = NaN \<or> snd p = NaN"

subsection \<open>State\<close>

abbreviation TEL_MASK_MOVING :: u32 where "TEL_MASK_MOVING \<equiv> 0x007"
abbreviation TEL_OBSERVING :: u32 where "TEL_OBSERVING \<equiv> 0x000"
abbreviation TEL_MOVING :: u32 where "TEL_MOVING \<equiv> 0x001"
abbreviation TEL_PARKED :: u32 where "TEL_PARKED \<equiv> 0x002"
abbreviation TEL_PARKING :: u32 where "TEL_PARKING \<equiv> 0x004"
abbreviation TEL_MASK_TRACK :: u32 where "TEL_MASK_TRACK \<equiv> 0x020"
abbreviation TEL_NOTRACK :: u32 where "TEL_NOTRACK \<equiv> 0x000"
abbreviation TEL_TRACKING :: u32 where "TEL_TRACKING \<equiv> 0x020"
abbreviation TEL_MASK_CORRECTING :: u32 where "TEL_MASK_CORRECTING \<equiv> 0x040"
abbreviation TEL_NOT_CORRECTING :: u32 where "TEL_NOT_CORRECTING \<equiv> 0x000"
abbreviation TEL_CORRECTING :: u32 where "TEL_CORRECTING \<equiv> 0x040"
abbreviation TEL_MASK_NEED_STOP :: u32 where "TEL_MASK_NEED_STOP \<equiv> 0x080"
abbreviation TEL_MASK_OFFSETING :: u32 where "TEL_MASK_OFFSETING \<equiv> 0x200"
abbreviation TEL_NO_OFFSETING :: u32 where "TEL_NO_OFFSETING \<equiv> 0x000"
abbreviation TEL_OFFSETING :: u32 where "TEL_OFFSETING \<equiv> 0x200"
abbreviation TEL_MASK_UNSTABLE :: u32 where "TEL_MASK_UNSTABLE \<equiv> 0x400"
abbreviation TEL_STABLE :: u32 where "TEL_STABLE \<equiv> 0x000"
abbreviation DEVDEM_E_IGNORE :: int where "DEVDEM_E_IGNORE \<equiv> -8"

text \<open>
  What the telescope does to its environment. \<open>StartMove\<close> is a call of the driver's \<open>startResync\<close>,
  \<open>StartPark\<close> of its \<open>startPark\<close>; they record whether moves were blocked, and \<open>StartMove\<close> whether
  the target was above the hard horizon and in the limit of declination, and the state word.
\<close>

datatype tel_out =
    TStatus u32
  | TBopOut u32 u32
  | TEnd nat int
  | StopMove
  | StartMove bool bool u32
  | StartPark bool
  | SendInfo nat
  | CupolaSync angle angle
  | NullValue

text \<open>Differential tracking (\<open>DRATE\<close>, \<open>DSTART\<close>, \<open>DON\<close>, and their twins for alt-az).\<close>

record difftrack =
  drate :: radec
  dstart :: "int option"
  don :: bool

record 'h tel =
  thw :: 'h
  telState :: u32
  telBop :: u32
  telLatitude :: int
  oriRaDec :: radec
  oriEpoch :: int
  pmRaDec :: pos
  useOEpoch :: bool
  offsRaDec :: radec
  gOffsRaDec :: radec
  woffsRaDec :: radec
  corrRaDec :: radec
  wcorrRaDec :: radec
  total_offsets :: radec
  objRaDec :: radec
  tarRaDec :: radec
  telTargetRaDec :: radec
  modelRaDec :: radec
  telRaDec :: radec
  telAltAz :: pos
  tarAltAz :: pos
  offsAltAz :: "pos option"
  mpec :: string
  mpecChanged :: bool
  tle_freeze :: bool
  moveNum :: int
  moveCompleted :: bool
  corrImgId :: int
  corrObsId :: int
  wCorrImgId :: int
  wCorrObsId :: int
  posErr :: angle
  ignoreCorrection :: angle
  defIgnoreCorrection :: angle
  smallCorrection :: angle
  correctionLimit :: angle
  tracking :: "int option"
  defaultTracking :: int
  trackingTimer :: bool
  trackingNum :: int
  ignoreHorizon :: "bool option"
  horizonIgnored :: bool
  blockMove :: bool
  blockOnStandby :: bool
  standbyPark :: int
  parkingBlockMove :: bool
  useParkFlipping :: bool
  decUpperLimit :: angle
  diffTrack :: "difftrack option"
  diffTrackAltAz :: "difftrack option"
  calModel :: bool
  guidingTime :: "int option"
  lastGuideTime :: "int option"
  targetStarted :: "int option"
  targetReached :: "int option"
  failedMoveNum :: int
  lastFailedMove :: "int option"
  mountParkTime :: "int option"
  moveInfoCount :: int
  moveInfoMax :: int
  move_connection :: "nat option"
  refreshIdle :: int
  refreshSlew :: int
  idleInterval :: int
  telFlip :: int
  flip_move_start :: int
  nextCupSync :: int
  tnow :: int
  ttimeout :: int
  touts :: "tel_out list"

text \<open>
  The driver and the libraries. The functions with suffix \<open>_m\<close> are the driver's virtual
  functions of these names, \<open>endMove_m\<close>, \<open>setTracking_m\<close> the driver's own part before it
  calls the base class. \<open>readPos_m\<close> is what the driver sets as position in \<open>info\<close>: equatorial,
  horizontal, and the flip.
\<close>

record 'h mount =
  isMoving_m :: "'h tel \<Rightarrow> int \<times> 'h"
  isParking_m :: "'h tel \<Rightarrow> int \<times> 'h"
  isOffseting_m :: "'h tel \<Rightarrow> int \<times> 'h"
  startResync_m :: "'h tel \<Rightarrow> int \<times> 'h"
  stopMove_m :: "'h tel \<Rightarrow> int \<times> 'h"
  startPark_m :: "'h tel \<Rightarrow> int \<times> 'h"
  endPark_m :: "'h tel \<Rightarrow> int \<times> 'h"
  endMove_m :: "'h tel \<Rightarrow> int \<times> 'h"
  setTracking_m :: "int \<Rightarrow> 'h tel \<Rightarrow> int \<times> 'h"
  setTo_m :: "pos \<Rightarrow> 'h tel \<Rightarrow> int \<times> 'h"
  setToPark_m :: "'h tel \<Rightarrow> int \<times> 'h"
  resetMount_m :: "'h tel \<Rightarrow> int \<times> 'h"
  peek_m :: "pos \<Rightarrow> 'h tel \<Rightarrow> int"
  applyCorrectionsFixed_m :: "pos \<Rightarrow> 'h tel \<Rightarrow> int \<times> 'h"
  readPos_m :: "'h tel \<Rightarrow> pos \<times> pos \<times> int \<times> 'h"
  estimateTargetTime_m :: "'h tel \<Rightarrow> int"
  horizon_m :: "pos \<Rightarrow> bool"
  precess_m :: "int \<Rightarrow> pos \<Rightarrow> pos"
  applyCorrections_m :: "'h tel \<Rightarrow> pos \<Rightarrow> pos \<times> pos"
  separation_m :: "pos \<Rightarrow> pos \<Rightarrow> angle"
  equFromHrz_m :: "'h tel \<Rightarrow> pos \<Rightarrow> pos"
  sidereal_m :: "'h tel \<Rightarrow> angle"
  validMpec_m :: "string \<Rightarrow> bool"
  mpecPos_m :: "'h tel \<Rightarrow> pos"

definition temit :: "tel_out \<Rightarrow> 'h tel \<Rightarrow> 'h tel" where
  "temit e s = s\<lparr>touts := touts s @ [e]\<rparr>"

definition tel_setState :: "u32 \<Rightarrow> 'h tel \<Rightarrow> 'h tel" where
  "tel_setState w s = (if telState s = w then s else temit (TStatus w) (s\<lparr>telState := w\<rparr>))"

definition tel_maskState :: "u32 \<Rightarrow> u32 \<Rightarrow> 'h tel \<Rightarrow> 'h tel" where
  "tel_maskState m n s = tel_setState (mask_word m n (telState s)) s"

definition moving_field :: "'h tel \<Rightarrow> u32" where
  "moving_field s = telState s AND TEL_MASK_MOVING"

definition own :: "('h tel \<Rightarrow> int \<times> 'h) \<Rightarrow> 'h tel \<Rightarrow> int \<times> 'h tel" where
  "own f s = (let (r, h) = f s in (r, s\<lparr>thw := h\<rparr>))"

definition stopMove :: "'h mount \<Rightarrow> 'h tel \<Rightarrow> int \<times> 'h tel" where
  "stopMove d s = own (stopMove_m d) (temit StopMove s)"

definition tel_end :: "nat option \<Rightarrow> int \<Rightarrow> 'h tel \<Rightarrow> 'h tel" where
  "tel_end conn code s = (case conn of Some c \<Rightarrow> temit (TEnd c code) s | None \<Rightarrow> s)"

definition is_good :: "'h mount \<Rightarrow> 'h tel \<Rightarrow> pos \<Rightarrow> bool" where
  "is_good d s p \<longleftrightarrow> horizonIgnored s \<or> horizon_m d p"

definition setIgnoreHorizon :: "bool \<Rightarrow> 'h tel \<Rightarrow> 'h tel" where
  "setIgnoreHorizon b s =
     (case ignoreHorizon s of
        None \<Rightarrow> s\<lparr>horizonIgnored := b\<rparr>
      | Some v \<Rightarrow> if v \<noteq> b then s\<lparr>horizonIgnored := b, ignoreHorizon := Some b\<rparr> else s)"

definition setOri :: "pos \<Rightarrow> int \<Rightarrow> pos \<Rightarrow> 'h tel \<Rightarrow> 'h tel" where
  "setOri p epoch pm s = s\<lparr>oriRaDec := set_radec p (oriRaDec s), oriEpoch := epoch, pmRaDec := pm\<rparr>"

definition resetMpecTLE :: "'h tel \<Rightarrow> 'h tel" where
  "resetMpecTLE s = s\<lparr>mpec := [], mpecChanged := mpecChanged s \<or> mpec s \<noteq> []\<rparr>"

definition startCupolaSync :: "'h tel \<Rightarrow> 'h tel" where
  "startCupolaSync s =
     (if nextCupSync s > tnow s then s
      else temit (CupolaSync (ra (oriRaDec s)) (decl (oriRaDec s))) (s\<lparr>nextCupSync := tnow s + 2000000\<rparr>))"

definition runTracking :: "'h tel \<Rightarrow> 'h tel" where
  "runTracking s = (let s1 = startCupolaSync s in s1\<lparr>trackingNum := trackingNum s1 + 1\<rparr>)"

subsection \<open>Tracking\<close>

text \<open>\<open>setDiffTrack\<close> and \<open>setDiffTrackAltAz\<close>.\<close>

definition set_difftrack :: "pos \<Rightarrow> int \<Rightarrow> difftrack \<Rightarrow> difftrack" where
  "set_difftrack p now t =
     (if p = (0, 0) then t\<lparr>dstart := None, don := False\<rparr> else t\<lparr>dstart := Some now, don := True\<rparr>)"

definition setDiffTrack :: "pos \<Rightarrow> 'h tel \<Rightarrow> 'h tel" where
  "setDiffTrack p s =
     (case diffTrack s of None \<Rightarrow> temit NullValue s | Some t \<Rightarrow> s\<lparr>diffTrack := Some (set_difftrack p (tnow s) t)\<rparr>)"

definition setDiffTrackAltAz :: "pos \<Rightarrow> 'h tel \<Rightarrow> 'h tel" where
  "setDiffTrackAltAz p s =
     (case diffTrackAltAz s of
        None \<Rightarrow> temit NullValue s
      | Some t \<Rightarrow> s\<lparr>diffTrackAltAz := Some (set_difftrack p (tnow s) t)\<rparr>)"

definition setTracking :: "'h mount \<Rightarrow> int \<Rightarrow> bool \<Rightarrow> bool \<Rightarrow> 'h tel \<Rightarrow> int \<times> 'h tel" where
  "setTracking d track addTimer msg s0 =
     (let (r, s) = own (setTracking_m d track) s0 in
      if r \<noteq> 0 then (r, s)
      else if tracking s = None then (0, s)
      else
        let s1 = s\<lparr>tracking := Some track, trackingTimer := False\<rparr> in
        if track \<in> {1, 2, 3} then
          let s2 = tel_maskState TEL_MASK_TRACK TEL_TRACKING (setIgnoreHorizon False s1)
          in (0, if addTimer then (runTracking s2)\<lparr>trackingTimer := True\<rparr> else s2)
        else
          let s2 = snd (stopMove d s1)
          in (0, if msg then tel_maskState TEL_MASK_TRACK TEL_NOTRACK s2 else s2))"

definition startTracking :: "'h mount \<Rightarrow> bool \<Rightarrow> 'h tel \<Rightarrow> int \<times> 'h tel" where
  "startTracking d check s =
     (case tracking s of
        None \<Rightarrow> (0, s)
      | Some t \<Rightarrow>
          let t' = (if check \<and> t = 0 then defaultTracking s else t)
          in setTracking d t' True True (s\<lparr>tracking := Some t'\<rparr>))"

definition stopTracking :: "'h mount \<Rightarrow> bool \<Rightarrow> 'h tel \<Rightarrow> 'h tel" where
  "stopTracking d msg s = snd (setTracking d 0 False msg s)"

text \<open>\<open>EVENT_TRACKING_TIMER\<close>.\<close>

definition tracking_timer :: "'h tel \<Rightarrow> 'h tel" where
  "tracking_timer s =
     (if trackingTimer s then
        if telState s AND TEL_MASK_TRACK = TEL_TRACKING then runTracking s else s\<lparr>trackingTimer := False\<rparr>
      else s)"

subsection \<open>Information\<close>

definition abortMoveTracking :: "'h mount \<Rightarrow> 'h tel \<Rightarrow> 'h tel" where
  "abortMoveTracking d s = stopTracking d True (s\<lparr>targetReached := Some (tnow s)\<rparr>)"

definition tel_info :: "'h mount \<Rightarrow> 'h tel \<Rightarrow> 'h tel" where
  "tel_info d s =
     (let (p, hrz, flip, h) = readPos_m d s;
          s1 = s\<lparr>thw := h, telRaDec := set_radec p (telRaDec s), telAltAz := hrz, telFlip := flip\<rparr>
      in if is_good d s1 hrz then s1 else abortMoveTracking d s1)"

definition failedMove :: "'h tel \<Rightarrow> 'h tel" where
  "failedMove s = s\<lparr>targetReached := Some (tnow s), failedMoveNum := failedMoveNum s + 1, lastFailedMove := Some (tnow s)\<rparr>"

definition endMove :: "'h mount \<Rightarrow> 'h tel \<Rightarrow> int \<times> 'h tel" where
  "endMove d s =
     (let (r, s1) = own (endMove_m d) s in
      if r \<noteq> 0 then (r, s1)
      else (0, snd (startTracking d False (s1\<lparr>targetReached := Some (tnow s1)\<rparr>))))"

subsection \<open>Start of a move\<close>

definition reset_difftrack :: "'h tel \<Rightarrow> 'h tel" where
  "reset_difftrack s =
     (case diffTrack s of
        None \<Rightarrow> s
      | Some t \<Rightarrow> setDiffTrack (0, 0) (s\<lparr>diffTrack := Some (t\<lparr>drate := set_radec (0, 0) (drate t)\<rparr>)\<rparr>))"

definition reset_difftrackAltAz :: "'h tel \<Rightarrow> 'h tel" where
  "reset_difftrackAltAz s =
     (case diffTrackAltAz s of
        None \<Rightarrow> s
      | Some t \<Rightarrow>
          let s1 = (case diffTrack s of None \<Rightarrow> temit NullValue s | Some u \<Rightarrow> s\<lparr>diffTrack := Some (u\<lparr>dstart := None\<rparr>)\<rparr>)
          in setDiffTrackAltAz (0, 0) (s1\<lparr>diffTrackAltAz := Some (t\<lparr>drate := set_radec (0, 0) (drate t)\<rparr>)\<rparr>))"

definition incMoveNum :: "'h tel \<Rightarrow> 'h tel" where
  "incMoveNum s0 =
     (let s = reset_difftrackAltAz (reset_difftrack s0)
      in s\<lparr>tle_freeze := False,
           offsRaDec := zero_radec (offsRaDec s), gOffsRaDec := zero_radec (gOffsRaDec s),
           guidingTime := None, lastGuideTime := None,
           offsAltAz := map_option (\<lambda>_. (0, 0)) (offsAltAz s),
           woffsRaDec := zero_radec (woffsRaDec s), modelRaDec := zero_radec (modelRaDec s),
           corrRaDec := zero_radec (corrRaDec s), wcorrRaDec := zero_radec (wcorrRaDec s),
           moveNum := moveNum s + 1, ignoreCorrection := defIgnoreCorrection s,
           corrImgId := 0, corrObsId := 0, wCorrImgId := 0, wCorrObsId := 0, trackingNum := 0\<rparr>)"

text \<open>The target of the move: a MPEC object is where it is now.\<close>

definition resync_origin :: "'h mount \<Rightarrow> bool \<Rightarrow> 'h tel \<Rightarrow> 'h tel" where
  "resync_origin d ign s =
     (let s1 = setIgnoreHorizon ign (s\<lparr>moveCompleted := False, useOEpoch := True\<rparr>)
      in if mpec s1 \<noteq> [] then (setOri (mpecPos_m d s1) 2000000 (0, 0) s1)\<lparr>useOEpoch := False\<rparr> else s1)"

definition new_target :: "'h tel \<Rightarrow> bool" where
  "new_target s \<longleftrightarrow> (if mpec s \<noteq> [] then mpecChanged s else chg (oriRaDec s))"

text \<open>The correction that waits is added, and the one it was added to, with its image, is kept (\<open>CorrectionRollback\<close>).\<close>

definition apply_wcorr :: "'h tel \<Rightarrow> 'h tel" where
  "apply_wcorr s =
     (if chg (wcorrRaDec s)
      then s\<lparr>corrRaDec := inc_dist (pos_of (wcorrRaDec s)) (corrRaDec s), corrImgId := wCorrImgId s, corrObsId := wCorrObsId s\<rparr>
      else s)"

definition offsets_sum :: "radec \<Rightarrow> pos \<Rightarrow> pos" where
  "offsets_sum offs c = (ra offs - fst c, decl offs - snd c)"

definition rollback :: "'h tel \<Rightarrow> 'h tel \<Rightarrow> 'h tel" where
  "rollback kept s =
     (if chg (wcorrRaDec kept) then
        s\<lparr>corrRaDec := set_dist (pos_of (corrRaDec kept)) (corrRaDec s),
          corrImgId := corrImgId kept, corrObsId := corrObsId kept,
          wcorrRaDec := zero_radec (wcorrRaDec s),
          total_offsets := set_dist (offsets_sum (offsRaDec s) (pos_of (corrRaDec kept))) (total_offsets s)\<rparr>
      else s)"

definition applyOffsets :: "'h mount \<Rightarrow> 'h tel \<Rightarrow> pos \<Rightarrow> pos" where
  "applyOffsets d s p =
     (let (a, b) = (if useOEpoch s \<and> oriEpoch s \<noteq> 2000000 then precess_m d (oriEpoch s) p else p)
      in (a + (ra (offsRaDec s) + ra (gOffsRaDec s)), b + (decl (offsRaDec s) + decl (gOffsRaDec s))))"

fun beyond_pole :: "angle \<Rightarrow> bool" where
  "beyond_pole NaN = False"
| "beyond_pole (Angle x) = (\<bar>x\<bar> > 324000000)"

text \<open>\<open>applyCorrRaDec (pos, false, false)\<close>.\<close>

definition applyCorrRaDec :: "'h mount \<Rightarrow> 'h tel \<Rightarrow> pos \<Rightarrow> int \<times> pos" where
  "applyCorrRaDec d s p =
     (let c = corrRaDec s;
          p2 = (range_degrees (fst p + ra c), if beyond_pole (snd p) then snd p - decl c else snd p + decl c)
      in if correctionLimit s < separation_m d p2 p then (-1, p) else (0, p2))"

text \<open>The target's coordinates; the result are the horizontal ones and those the limits are tested on.\<close>

definition resync_target :: "'h mount \<Rightarrow> 'h tel \<Rightarrow> pos \<times> pos \<times> 'h tel" where
  "resync_target d s =
     (let s1 = (if chg (woffsRaDec s) then s\<lparr>offsRaDec := set_dist (pos_of (woffsRaDec s)) (offsRaDec s)\<rparr> else s);
          s2 = s1\<lparr>total_offsets := set_dist (offsets_sum (offsRaDec s1) (pos_of (corrRaDec s1))) (total_offsets s1)\<rparr>;
          p = applyOffsets d s2 (pos_of (oriRaDec s2));
          obj = (range_degrees (fst p), snd p);
          s3 = s2\<lparr>objRaDec := set_radec obj (objRaDec s2)\<rparr>;
          (tar, hrz) = applyCorrections_m d s3 obj;
          s4 = s3\<lparr>tarRaDec := set_radec tar (tarRaDec s3)\<rparr>;
          tp = snd (applyCorrRaDec d s4 tar)
      in (hrz, tp,
          s4\<lparr>telTargetRaDec := set_radec tp (telTargetRaDec s4), modelRaDec := set_radec (0, 0) (modelRaDec s4), moveInfoCount := 0\<rparr>))"

definition dec_limited :: "'h tel \<Rightarrow> pos \<Rightarrow> bool" where
  "dec_limited s p \<longleftrightarrow>
     (telLatitude s > 0 \<and> decUpperLimit s < snd p) \<or> (telLatitude s < 0 \<and> snd p < decUpperLimit s)"

text \<open>A target that cannot be reached: it is forgotten and the mount stopped.\<close>

definition cannot_perform :: "'h mount \<Rightarrow> 'h tel \<Rightarrow> 'h tel" where
  "cannot_perform d s =
     (let s1 = setOri (NaN, NaN) 2000000 (0, 0) (s\<lparr>useParkFlipping := False\<rparr>);
          s2 = s1\<lparr>objRaDec := set_radec (NaN, NaN) (objRaDec s1), tarRaDec := set_radec (NaN, NaN) (tarRaDec s1), tarAltAz := (NaN, NaN)\<rparr>
      in tel_maskState (TEL_MASK_CORRECTING OR TEL_MASK_MOVING OR BOP_EXPOSURE OR TEL_MASK_TRACK)
           (TEL_NOT_CORRECTING OR TEL_OBSERVING OR TEL_NOTRACK) (stopTracking d False (snd (stopMove d s2))))"

definition mask_start :: "int \<Rightarrow> 'h tel \<Rightarrow> 'h tel" where
  "mask_start correction s =
     (if correction \<noteq> 0 then
        tel_maskState (TEL_MASK_CORRECTING OR TEL_MASK_MOVING OR TEL_MASK_NEED_STOP OR BOP_EXPOSURE)
          (TEL_CORRECTING OR TEL_MOVING OR BOP_EXPOSURE) s
      else
        let s1 = (if telState s AND TEL_MASK_CORRECTING \<noteq> 0
                  then tel_maskState (TEL_MASK_MOVING OR TEL_MASK_CORRECTING) 0 s else s);
            s2 = tel_maskState (TEL_MASK_MOVING OR TEL_MASK_CORRECTING OR TEL_MASK_NEED_STOP OR TEL_MASK_TRACK OR BOP_EXPOSURE)
                   (TEL_MOVING OR BOP_EXPOSURE) s1
        in s2\<lparr>flip_move_start := telFlip s2\<rparr>)"

definition reset_flags :: "'h tel \<Rightarrow> 'h tel" where
  "reset_flags s =
     s\<lparr>tarRaDec := resetValueChanged (tarRaDec s), oriRaDec := resetValueChanged (oriRaDec s),
       offsRaDec := resetValueChanged (offsRaDec s), corrRaDec := resetValueChanged (corrRaDec s),
       telTargetRaDec := resetValueChanged (telTargetRaDec s), mpecChanged := False,
       woffsRaDec := resetValueChanged (woffsRaDec s),
       wcorrRaDec := (if chg (wcorrRaDec s) then resetValueChanged (set_dist (0, 0) (wcorrRaDec s)) else wcorrRaDec s)\<rparr>"

definition resync_mount :: "'h mount \<Rightarrow> nat option \<Rightarrow> int \<Rightarrow> pos \<Rightarrow> pos \<Rightarrow> 'h tel \<Rightarrow> int \<times> 'h tel" where
  "resync_mount d conn correction hrz tp s0 =
     (let s = mask_start correction s0;
          (r, s1) = own (startResync_m d)
                      (temit (StartMove (blockMove s) (is_good d s hrz \<and> \<not> dec_limited s tp) (telState s0)) s)
      in if r \<noteq> 0 then
           (-1, tel_end conn DEVDEM_E_HW
                  (tel_maskState (TEL_MASK_CORRECTING OR TEL_MASK_MOVING OR BOP_EXPOSURE OR TEL_MASK_TRACK)
                     (TEL_NOT_CORRECTING OR TEL_OBSERVING) (stopTracking d False (s1\<lparr>useParkFlipping := False\<rparr>))))
         else
           let s2 = s1\<lparr>targetStarted := Some (tnow s1), targetReached := Some (tnow s1 + estimateTargetTime_m d s1)\<rparr>;
               s3 = tel_info d s2;
               s4 = reset_flags (startCupolaSync (s3\<lparr>nextCupSync := 0\<rparr>))
           in (0, s4\<lparr>move_connection := conn, idleInterval := refreshSlew s4\<rparr>))"

text \<open>The checks before the move: blocked, parking, a move to stop, the limits of the target.\<close>

definition resync_move :: "'h mount \<Rightarrow> nat option \<Rightarrow> int \<Rightarrow> pos \<Rightarrow> pos \<Rightarrow> 'h tel \<Rightarrow> int \<times> 'h tel" where
  "resync_move d conn correction hrz tp s =
     (if blockMove s then (-1, tel_end conn DEVDEM_E_HW s)
      else if parkingBlockMove s \<and> moving_field s = TEL_PARKING then (-1, tel_end conn DEVDEM_E_HW s)
      else
        let (r, s1) = (if moving_field s = TEL_MOVING \<or> telState s AND TEL_MASK_CORRECTING = TEL_CORRECTING
                       then stopMove d s else (0, s))
        in if r \<noteq> 0 then (-1, tel_end conn DEVDEM_E_HW s1)
           else if \<not> is_good d s1 hrz \<or> dec_limited s1 tp
           then (-1, tel_end conn DEVDEM_E_HW (cannot_perform d s1))
           else resync_mount d conn correction hrz tp s1)"

definition startResyncMove :: "'h mount \<Rightarrow> nat option \<Rightarrow> int \<Rightarrow> bool \<Rightarrow> 'h tel \<Rightarrow> int \<times> 'h tel" where
  "startResyncMove d conn correction ign s =
     (let s1 = resync_origin d ign s in
      if null_pos (pos_of (oriRaDec s1)) then (-1, tel_end conn DEVDEM_E_HW s1)
      else
        let s2 = (if new_target s1 then incMoveNum s1 else s1);
            (hrz, tp, s3) = resync_target d (apply_wcorr s2);
            (r, s4) = resync_move d conn correction hrz tp s3
        in (r, if r \<noteq> 0 then rollback s2 s4 else s4))"

text \<open>The two ways through the checks.\<close>

definition must_stop :: "'h tel \<Rightarrow> bool" where
  "must_stop s \<longleftrightarrow> moving_field s = TEL_MOVING \<or> telState s AND TEL_MASK_CORRECTING = TEL_CORRECTING"

definition move_blocked :: "'h tel \<Rightarrow> bool" where
  "move_blocked s \<longleftrightarrow> blockMove s \<or> parkingBlockMove s \<and> moving_field s = TEL_PARKING"

lemma resync_move_blocked: "move_blocked s \<Longrightarrow> resync_move d conn c hrz tp s = (-1, tel_end conn DEVDEM_E_HW s)"
  unfolding move_blocked_def resync_move_def by (cases "blockMove s") simp_all

lemma resync_move_free:
  assumes "\<not> move_blocked s" "(if must_stop s then stopMove d s else (0, s)) = (r, s1)"
  shows "resync_move d conn c hrz tp s =
     (if r \<noteq> 0 then (-1, tel_end conn DEVDEM_E_HW s1)
      else if \<not> is_good d s1 hrz \<or> dec_limited s1 tp then (-1, tel_end conn DEVDEM_E_HW (cannot_perform d s1))
      else resync_mount d conn c hrz tp s1)"
proof -
  have "\<not> blockMove s" "\<not> (parkingBlockMove s \<and> moving_field s = TEL_PARKING)"
    using assms(1) by (simp_all add: move_blocked_def)
  then show ?thesis using assms(2) unfolding resync_move_def must_stop_def by (simp only: if_False) simp
qed

end
