(* ===== verification/TelescopeOps.thy ===== *)
theory TelescopeOps
  imports Telescope
begin

section \<open>The operations of a telescope\<close>

text \<open>
  The idle loop, parking, the values a client writes, the state of the central server and the
  commands of \<open>Telescope\<close> (\<open>teld.cpp\<close>) on the state of theory \<open>Telescope\<close>. Commands and writes
  come with their parameters parsed.
\<close>

subsection \<open>The idle loop\<close>

definition send_info :: "'h tel \<Rightarrow> 'h tel" where
  "send_info s = (case move_connection s of Some c \<Rightarrow> temit (SendInfo c) s | None \<Rightarrow> s)"

definition pending_mask :: "'h tel \<Rightarrow> int" where
  "pending_mask s = (if chg (woffsRaDec s) then 1 else 0) + (if chg (wcorrRaDec s) then 2 else 0)"

definition pending :: "'h tel \<Rightarrow> bool" where
  "pending s \<longleftrightarrow> chg (woffsRaDec s) \<or> chg (wcorrRaDec s)"

definition move_error :: "'h tel \<Rightarrow> 'h tel" where
  "move_error s =
     tel_maskState (DEVICE_ERROR_MASK OR TEL_MASK_CORRECTING OR TEL_MASK_MOVING OR BOP_EXPOSURE)
       (DEVICE_ERROR_HW OR TEL_NOT_CORRECTING OR TEL_OBSERVING) s"

definition still_moving :: "'h mount \<Rightarrow> int \<Rightarrow> 'h tel \<Rightarrow> 'h tel" where
  "still_moving d t s =
     (let s1 = s\<lparr>ttimeout := t\<rparr> in
      if moveInfoCount s1 = moveInfoMax s1 then (send_info (tel_info d s1))\<lparr>moveInfoCount := 0\<rparr>
      else s1\<lparr>moveInfoCount := moveInfoCount s1 + 1\<rparr>)"

definition move_reached :: "'h mount \<Rightarrow> 'h tel \<Rightarrow> 'h tel" where
  "move_reached d s =
     (let (r, s1) = endMove d (tel_info d s);
          s2 = (if r \<noteq> 0 then move_error (failedMove s1)
                else let s3 = s1\<lparr>moveCompleted := True\<rparr> in
                     if pending s3 then snd (startResyncMove d None (pending_mask s3) False s3)
                     else tel_maskState (TEL_MASK_CORRECTING OR TEL_MASK_MOVING OR BOP_EXPOSURE)
                            (TEL_NOT_CORRECTING OR TEL_OBSERVING) s3);
          s4 = send_info s2
      in s4\<lparr>move_connection := None, idleInterval := refreshIdle s4\<rparr>)"

definition check_moving :: "'h mount \<Rightarrow> 'h tel \<Rightarrow> 'h tel" where
  "check_moving d s0 =
     (let (r, s) = own (isMoving_m d) s0 in
      if r \<ge> 0 then still_moving d r s
      else if r = -1 then
        let s1 = move_error (send_info (failedMove s))
        in s1\<lparr>move_connection := None, idleInterval := refreshIdle s1\<rparr>
      else if r = -2 then move_reached d s
      else s)"

definition park_error :: "'h tel \<Rightarrow> 'h tel" where
  "park_error s =
     tel_maskState (DEVICE_ERROR_MASK OR TEL_MASK_MOVING OR BOP_EXPOSURE) (DEVICE_ERROR_HW OR TEL_PARKED) s"

definition check_parking :: "'h mount \<Rightarrow> 'h tel \<Rightarrow> 'h tel" where
  "check_parking d s0 =
     (let (r, s) = own (isParking_m d) s0 in
      if r \<ge> 0 then s\<lparr>ttimeout := r\<rparr>
      else if r = -1 then
        let s1 = park_error (tel_info d ((failedMove s)\<lparr>useParkFlipping := False\<rparr>))
        in s1\<lparr>idleInterval := refreshIdle s1\<rparr>
      else if r = -2 then
        let (q, s1) = own (endPark_m d) (tel_info d (s\<lparr>useParkFlipping := False\<rparr>));
            s2 = (if q \<noteq> 0 then park_error (failedMove s1)
                  else tel_maskState (TEL_MASK_MOVING OR BOP_EXPOSURE) TEL_PARKED s1);
            s3 = send_info s2
        in s3\<lparr>idleInterval := refreshIdle s3\<rparr>
      else s)"

definition check_offseting :: "'h mount \<Rightarrow> 'h tel \<Rightarrow> 'h tel" where
  "check_offseting d s0 =
     (if telState s0 AND TEL_MASK_OFFSETING = TEL_OFFSETING then
        let (r, s) = own (isOffseting_m d) s0
        in if r < 0 then tel_maskState TEL_MASK_OFFSETING TEL_NO_OFFSETING s else s
      else s0)"

definition checkMoves :: "'h mount \<Rightarrow> 'h tel \<Rightarrow> 'h tel" where
  "checkMoves d s =
     check_offseting d
       (if moving_field s = TEL_MOVING then check_moving d s
        else if moving_field s = TEL_PARKING then check_parking d s
        else s)"

subsection \<open>Parking\<close>

definition forget_target :: "'h tel \<Rightarrow> 'h tel" where
  "forget_target s =
     s\<lparr>tarRaDec := resetValueChanged (set_radec (NaN, NaN) (tarRaDec s)),
       telTargetRaDec := resetValueChanged (set_radec (NaN, NaN) (telTargetRaDec s)),
       oriRaDec := resetValueChanged (set_radec (NaN, NaN) (oriRaDec s)), tarAltAz := (NaN, NaN)\<rparr>"

definition park_mount :: "'h mount \<Rightarrow> nat option \<Rightarrow> 'h tel \<Rightarrow> int \<times> 'h tel" where
  "park_mount d conn s =
     (let s1 = (stopTracking d True (s\<lparr>useParkFlipping := True\<rparr>))\<lparr>moveCompleted := False\<rparr>;
          (r, s2) = own (startPark_m d) (temit (StartPark (blockMove s1)) s1)
      in if r < 0 then (-1, tel_end conn DEVDEM_E_HW (s2\<lparr>useParkFlipping := False\<rparr>))
         else
           let s3 = incMoveNum (if r = 0 then forget_target s2 else s2);
               s4 = tel_maskState (TEL_MASK_MOVING OR TEL_MASK_TRACK OR TEL_MASK_NEED_STOP) TEL_PARKING
                      (s3\<lparr>mountParkTime := Some (tnow s3)\<rparr>)
           in (0, s4\<lparr>idleInterval := refreshSlew s4\<rparr>))"

definition startPark :: "'h mount \<Rightarrow> nat option \<Rightarrow> 'h tel \<Rightarrow> int \<times> 'h tel" where
  "startPark d conn s =
     (if moving_field s = TEL_PARKING then (0, s)
      else if blockMove s then (-1, tel_end conn DEVDEM_E_HW s)
      else
        let s1 = tel_maskState (TEL_MASK_TRACK OR TEL_MASK_OFFSETING OR TEL_MASK_UNSTABLE)
                   (TEL_NOTRACK OR TEL_NO_OFFSETING OR TEL_STABLE) (resetMpecTLE s);
            (r, s2) = (if moving_field s1 = TEL_MOVING then stopMove d s1 else (0, s1))
        in if r \<noteq> 0 then (-1, tel_end conn DEVDEM_E_HW s2) else park_mount d conn s2)"

subsection \<open>Values\<close>

definition moveAltAz :: "'h mount \<Rightarrow> bool \<Rightarrow> 'h tel \<Rightarrow> int \<times> 'h tel" where
  "moveAltAz d ign s =
     (if null_pos (tarAltAz s) then (-1, s)
      else startResyncMove d None 0 ign (setOri (equFromHrz_m d s (tarAltAz s)) 2000000 (0, 0) s))"

datatype tel_write =
    WTracking int
  | WMpec string
  | WDiffTrack pos
  | WDiffTrackOn bool
  | WRefreshIdle int
  | WRefreshSlew int
  | WOffsAltAz pos
  | WGOffs pos
  | WWOffs pos
  | WOri pos
  | WOffs pos
  | WCorr pos
  | WWCorr pos
  | WTarAltAz pos
  | WBlockMove bool
  | WBlockOnStandby bool
  | WStandbyPark int
  | WDefaultTracking int
  | WIgnoreCorrection angle
  | WSmallCorrection angle

definition same_pos :: "pos \<Rightarrow> pos \<Rightarrow> bool" where
  "same_pos p q \<longleftrightarrow> \<not> differs (fst p) (fst q) \<and> \<not> differs (snd p) (snd q)"

definition dist_pos :: "pos \<Rightarrow> pos" where
  "dist_pos p = (dist180 (fst p), dist180 (snd p))"

text \<open>The value has this content already: \<open>setCondValue\<close> does nothing then.\<close>

fun write_same :: "tel_write \<Rightarrow> 'h tel \<Rightarrow> bool" where
  "write_same (WTracking v) s \<longleftrightarrow> tracking s = Some v"
| "write_same (WMpec v) s \<longleftrightarrow> mpec s = v"
| "write_same (WDiffTrack p) s \<longleftrightarrow> (\<exists>t \<in> set_option (diffTrack s). same_pos p (pos_of (drate t)))"
| "write_same (WDiffTrackOn b) s \<longleftrightarrow> (\<exists>t \<in> set_option (diffTrack s). don t = b)"
| "write_same (WRefreshIdle v) s \<longleftrightarrow> refreshIdle s = v"
| "write_same (WRefreshSlew v) s \<longleftrightarrow> refreshSlew s = v"
| "write_same (WOffsAltAz p) s \<longleftrightarrow> (\<exists>q \<in> set_option (offsAltAz s). same_pos p q)"
| "write_same (WGOffs p) s \<longleftrightarrow> same_pos (dist_pos p) (pos_of (gOffsRaDec s))"
| "write_same (WWOffs p) s \<longleftrightarrow> same_pos (dist_pos p) (pos_of (woffsRaDec s))"
| "write_same (WOri p) s \<longleftrightarrow> same_pos p (pos_of (oriRaDec s))"
| "write_same (WOffs p) s \<longleftrightarrow> same_pos (dist_pos p) (pos_of (offsRaDec s))"
| "write_same (WCorr p) s \<longleftrightarrow> same_pos (dist_pos p) (pos_of (corrRaDec s))"
| "write_same (WWCorr p) s \<longleftrightarrow> same_pos (dist_pos p) (pos_of (wcorrRaDec s))"
| "write_same (WTarAltAz p) s \<longleftrightarrow> same_pos p (tarAltAz s)"
| "write_same (WBlockMove b) s \<longleftrightarrow> blockMove s = b"
| "write_same (WBlockOnStandby b) s \<longleftrightarrow> blockOnStandby s = b"
| "write_same (WStandbyPark v) s \<longleftrightarrow> standbyPark s = v"
| "write_same (WDefaultTracking v) s \<longleftrightarrow> defaultTracking s = v"
| "write_same (WIgnoreCorrection a) s \<longleftrightarrow> \<not> differs a (ignoreCorrection s)"
| "write_same (WSmallCorrection a) s \<longleftrightarrow> \<not> differs a (smallCorrection s)"

definition is_parked_or_parking :: "'h tel \<Rightarrow> bool" where
  "is_parked_or_parking s \<longleftrightarrow> moving_field s = TEL_PARKING \<or> moving_field s = TEL_PARKED"

text \<open>\<open>Telescope::setValue\<close>: the code, and what it changes before the value is stored.\<close>

fun tel_setValue :: "'h mount \<Rightarrow> tel_write \<Rightarrow> 'h tel \<Rightarrow> int \<times> 'h tel" where
  "tel_setValue d (WTracking v) s =
     (if v \<noteq> 0 \<and> (blockMove s \<or> is_parked_or_parking s) then (-2, s)
      else let (r, s1) = setTracking d v True True s in (if r \<noteq> 0 then -2 else 0, s1))"
| "tel_setValue d (WMpec v) s = (if validMpec_m d v then 0 else -2, s)"
| "tel_setValue d (WDiffTrack p) s = (0, setDiffTrack p s)"
| "tel_setValue d (WDiffTrackOn b) s =
     (0, setDiffTrack (case diffTrack s of Some t \<Rightarrow> if b then pos_of (drate t) else (0, 0) | None \<Rightarrow> (0, 0)) s)"
| "tel_setValue d (WRefreshIdle v) s =
     (0, if moving_field s = TEL_OBSERVING \<or> moving_field s = TEL_PARKED then s\<lparr>idleInterval := v\<rparr> else s)"
| "tel_setValue d (WRefreshSlew v) s =
     (0, if moving_field s = TEL_MOVING \<or> moving_field s = TEL_PARKING then s\<lparr>idleInterval := v\<rparr> else s)"
| "tel_setValue d (WOffsAltAz p) s = (0, tel_maskState TEL_MASK_OFFSETING TEL_OFFSETING s)"
| "tel_setValue d (WGOffs p) s =
     (0, s\<lparr>guidingTime := (if guidingTime s = None then Some (tnow s) else guidingTime s), lastGuideTime := Some (tnow s)\<rparr>)"
| "tel_setValue d _ s = (0, s)"

fun store_value :: "tel_write \<Rightarrow> 'h tel \<Rightarrow> 'h tel" where
  "store_value (WTracking v) s = s\<lparr>tracking := map_option (\<lambda>_. v) (tracking s)\<rparr>"
| "store_value (WMpec v) s = s\<lparr>mpec := v, mpecChanged := True\<rparr>"
| "store_value (WDiffTrack p) s = s\<lparr>diffTrack := map_option (\<lambda>t. t\<lparr>drate := set_radec p (drate t)\<rparr>) (diffTrack s)\<rparr>"
| "store_value (WDiffTrackOn b) s = s\<lparr>diffTrack := map_option (\<lambda>t. t\<lparr>don := b\<rparr>) (diffTrack s)\<rparr>"
| "store_value (WRefreshIdle v) s = s\<lparr>refreshIdle := v\<rparr>"
| "store_value (WRefreshSlew v) s = s\<lparr>refreshSlew := v\<rparr>"
| "store_value (WOffsAltAz p) s = s\<lparr>offsAltAz := map_option (\<lambda>_. p) (offsAltAz s)\<rparr>"
| "store_value (WGOffs p) s = s\<lparr>gOffsRaDec := set_dist p (gOffsRaDec s)\<rparr>"
| "store_value (WWOffs p) s = s\<lparr>woffsRaDec := set_dist p (woffsRaDec s)\<rparr>"
| "store_value (WOri p) s = s\<lparr>oriRaDec := set_radec p (oriRaDec s)\<rparr>"
| "store_value (WOffs p) s = s\<lparr>offsRaDec := set_dist p (offsRaDec s)\<rparr>"
| "store_value (WCorr p) s = s\<lparr>corrRaDec := set_dist p (corrRaDec s)\<rparr>"
| "store_value (WWCorr p) s = s\<lparr>wcorrRaDec := set_dist p (wcorrRaDec s)\<rparr>"
| "store_value (WTarAltAz p) s = s\<lparr>tarAltAz := p\<rparr>"
| "store_value (WBlockMove b) s = s\<lparr>blockMove := b\<rparr>"
| "store_value (WBlockOnStandby b) s = s\<lparr>blockOnStandby := b\<rparr>"
| "store_value (WStandbyPark v) s = s\<lparr>standbyPark := v\<rparr>"
| "store_value (WDefaultTracking v) s = s\<lparr>defaultTracking := v\<rparr>"
| "store_value (WIgnoreCorrection a) s = s\<lparr>ignoreCorrection := a\<rparr>"
| "store_value (WSmallCorrection a) s = s\<lparr>smallCorrection := a\<rparr>"

fun tel_valueChanged :: "'h mount \<Rightarrow> tel_write \<Rightarrow> 'h tel \<Rightarrow> 'h tel" where
  "tel_valueChanged d (WWOffs p) s = tel_maskState BOP_EXPOSURE BOP_EXPOSURE s"
| "tel_valueChanged d (WOri p) s =
     snd (startResyncMove d None 0 False ((resetMpecTLE s)\<lparr>tarAltAz := (NaN, NaN)\<rparr>))"
| "tel_valueChanged d (WMpec v) s = snd (startResyncMove d None 0 False s)"
| "tel_valueChanged d (WOffs p) s = snd (startResyncMove d None 0 False s)"
| "tel_valueChanged d (WCorr p) s = snd (startResyncMove d None 0 False s)"
| "tel_valueChanged d (WTarAltAz p) s = snd (moveAltAz d False s)"
| "tel_valueChanged d _ s = s"

text \<open>Values some mounts do not have.\<close>

fun has_value :: "tel_write \<Rightarrow> 'h tel \<Rightarrow> bool" where
  "has_value (WTracking v) s \<longleftrightarrow> tracking s \<noteq> None"
| "has_value (WDefaultTracking v) s \<longleftrightarrow> tracking s \<noteq> None"
| "has_value (WDiffTrack p) s \<longleftrightarrow> diffTrack s \<noteq> None"
| "has_value (WDiffTrackOn b) s \<longleftrightarrow> diffTrack s \<noteq> None"
| "has_value (WOffsAltAz p) s \<longleftrightarrow> offsAltAz s \<noteq> None"
| "has_value _ s \<longleftrightarrow> True"

text \<open>\<open>Daemon::setCondValue\<close> and \<open>doSetValue\<close>; no value of a telescope is queued.\<close>

definition write_value :: "'h mount \<Rightarrow> tel_write \<Rightarrow> 'h tel \<Rightarrow> int \<times> 'h tel" where
  "write_value d w s =
     (if \<not> has_value w s then (-2, s)
      else if write_same w s then (0, s)
      else let (r, s1) = tel_setValue d w s in
           if r < 0 then (r, s1)
           else (0, if write_same w s1 then s1 else tel_valueChanged d w (store_value w s1)))"

subsection \<open>The state of the central server\<close>

definition stop_triggered :: "'h mount \<Rightarrow> 'h tel \<Rightarrow> 'h tel" where
  "stop_triggered d s = snd (stopMove d (stopTracking d True (s\<lparr>blockMove := True\<rparr>)))"

definition is_dark :: "u32 \<Rightarrow> bool" where
  "is_dark w \<longleftrightarrow>
     w AND SERVERD_STATUS_MASK = SERVERD_NIGHT \<or> w AND SERVERD_STATUS_MASK = SERVERD_DUSK
     \<or> w AND SERVERD_STATUS_MASK = SERVERD_DAWN"

definition wants_park :: "'h tel \<Rightarrow> u32 \<Rightarrow> bool" where
  "wants_park s new \<longleftrightarrow>
     (new AND SERVERD_STATUS_MASK = SERVERD_DAY \<or> new AND SERVERD_ONOFF_MASK \<noteq> 0) \<and> standbyPark s \<noteq> 0
     \<and> (standbyPark s = 2 \<or> \<not> is_dark new)
     \<and> \<not> is_parked_or_parking s"

definition block_on_standby :: "u32 \<Rightarrow> u32 \<Rightarrow> 'h tel \<Rightarrow> 'h tel" where
  "block_on_standby old new s =
     (if \<not> blockOnStandby s then s
      else if new AND SERVERD_ONOFF_MASK \<noteq> 0 then s\<lparr>blockMove := True\<rparr>
      else if old AND SERVERD_ONOFF_MASK \<noteq> 0 then s\<lparr>blockMove := False\<rparr>
      else s)"

definition tel_changeMasterState :: "'h mount \<Rightarrow> u32 \<Rightarrow> u32 \<Rightarrow> 'h tel \<Rightarrow> 'h tel" where
  "tel_changeMasterState d old new s =
     (let s1 = (if telState s AND STOP_MASK \<noteq> STOP_EVERYTHING \<and> new AND STOP_MASK = STOP_EVERYTHING
                then stop_triggered d s
                else if old AND STOP_MASK = STOP_EVERYTHING \<and> new AND STOP_MASK \<noteq> STOP_EVERYTHING
                then s\<lparr>blockMove := False\<rparr> else s);
          s2 = (if wants_park s1 new then snd (startPark d None s1) else s1)
      in block_on_standby old new s2)"

definition tel_setFullBopState :: "'h mount \<Rightarrow> u32 \<Rightarrow> 'h tel \<Rightarrow> 'h tel" where
  "tel_setFullBopState d new s =
     (let s1 = temit (TBopOut (telState s) new) (s\<lparr>telBop := new\<rparr>)
      in if pending s1 \<and> new AND BOP_TEL_MOVE = 0
         then snd (startResyncMove d None (pending_mask s1) False s1) else s1)"

subsection \<open>Commands\<close>

record correction =
  cor_mark :: int
  cor_img :: int
  cor_obs :: int
  img_id :: int
  obs_id :: int
  total_cor :: pos
  pos_err :: angle

datatype tel_command =
    Move bool pos int pos
  | HaDec pos
  | MoveMpec string
  | Peek pos
  | AltAz bool pos
  | Resync pos
  | SetTo pos
  | SetToPark
  | SyncCorr
  | Correct correction
  | MoveTle
  | Park
  | Stop
  | Change pos
  | WormStop
  | WormStart
  | Reset
  | BadParams

text \<open>
  \<open>move\<close>, \<open>move_pm\<close>, \<open>move_epoch\<close>, \<open>move_epoch_pm\<close> and \<open>move_not_model\<close> differ in whether the pointing
  model is used, in the epoch and the proper motion. A move starts tracking first.
\<close>

definition tracked_move :: "'h mount \<Rightarrow> nat \<Rightarrow> 'h tel \<Rightarrow> int \<times> 'h tel" where
  "tracked_move d c s =
     (let (r, s1) = startResyncMove d (Some c) 0 False (snd (startTracking d True s))
      in (r, if r \<noteq> 0 then stopTracking d True s1 else s1))"

definition move_to :: "'h mount \<Rightarrow> nat \<Rightarrow> pos \<Rightarrow> int \<Rightarrow> pos \<Rightarrow> 'h tel \<Rightarrow> int \<times> 'h tel" where
  "move_to d c p epoch pm s = tracked_move d c (resetMpecTLE ((setOri p epoch pm s)\<lparr>tarAltAz := (NaN, NaN)\<rparr>))"

definition tel_setTo :: "'h mount \<Rightarrow> nat \<Rightarrow> pos \<Rightarrow> 'h tel \<Rightarrow> int \<times> 'h tel" where
  "tel_setTo d c p s = (let (r, s1) = own (setTo_m d p) s in (r, if r \<noteq> 0 then temit (TEnd c DEVDEM_E_HW) s1 else s1))"

text \<open>A correction is for this move, which reached its target, for the current image, and newer than the one that waits.\<close>

definition correction_fits :: "correction \<Rightarrow> 'h tel \<Rightarrow> bool" where
  "correction_fits k s \<longleftrightarrow>
     cor_mark k = moveNum s \<and> cor_img k = corrImgId s \<and> cor_obs k = corrObsId s
     \<and> (obs_id k > wCorrObsId s \<or> img_id k > wCorrImgId s)"

definition correct :: "'h mount \<Rightarrow> nat \<Rightarrow> correction \<Rightarrow> 'h tel \<Rightarrow> int \<times> 'h tel" where
  "correct d c k s0 =
     (let (r, s) = own (applyCorrectionsFixed_m d (total_cor k)) s0 in
      if r = 0 then (DEVDEM_OK, s)
      else if cor_mark k = moveNum s \<and> \<not> moveCompleted s then (-1, temit (TEnd c DEVDEM_E_IGNORE) s)
      else if correction_fits k s then
        if pos_err k < ignoreCorrection s then (DEVDEM_E_COMMAND, temit (TEnd c DEVDEM_E_IGNORE) s)
        else
          let s1 = s\<lparr>wcorrRaDec := set_dist (total_cor k) (wcorrRaDec s), posErr := pos_err k,
                     wCorrImgId := img_id k, wCorrObsId := obs_id k\<rparr>
          in if pos_err k < smallCorrection s then (-1, temit (TEnd c DEVDEM_E_IGNORE) s1)
             else (0, tel_maskState BOP_EXPOSURE BOP_EXPOSURE s1)
      else (-1, temit (TEnd c DEVDEM_E_IGNORE) s))"

fun tel_commandAuthorized :: "'h mount \<Rightarrow> nat \<Rightarrow> tel_command \<Rightarrow> 'h tel \<Rightarrow> int \<times> 'h tel" where
  "tel_commandAuthorized d c (Move modelled p epoch pm) s = move_to d c p epoch pm (s\<lparr>calModel := modelled\<rparr>)"
| "tel_commandAuthorized d c (HaDec p) s = move_to d c (sidereal_m d s - fst p, snd p) 2000000 (0, 0) s"
| "tel_commandAuthorized d c (MoveMpec str) s =
     (let s1 = s\<lparr>calModel := True, tarAltAz := (NaN, NaN), mpec := str, mpecChanged := mpecChanged s \<or> mpec s \<noteq> str\<rparr>
      in if \<not> validMpec_m d str then (DEVDEM_E_PARAMSVAL, s1) else tracked_move d c s1)"
| "tel_commandAuthorized d c (Peek p) s = (if peek_m d p s = 0 then DEVDEM_OK else DEVDEM_E_PARAMSVAL, s)"
| "tel_commandAuthorized d c (AltAz nc p) s =
     (let (r, s1) = moveAltAz d nc (stopTracking d True (resetMpecTLE (s\<lparr>tarAltAz := p\<rparr>)))
      in (if r = 0 then DEVDEM_OK else DEVDEM_E_PARAMSVAL, s1))"
| "tel_commandAuthorized d c (Resync p) s = startResyncMove d (Some c) 0 False (resetMpecTLE (setOri p 2000000 (0, 0) s))"
| "tel_commandAuthorized d c (SetTo p) s = tel_setTo d c p (s\<lparr>calModel := True\<rparr>)"
| "tel_commandAuthorized d c SetToPark s =
     (let (r, s1) = own (setToPark_m d) s in (r, if r \<noteq> 0 then temit (TEnd c DEVDEM_E_HW) s1 else s1))"
| "tel_commandAuthorized d c SyncCorr s =
     (let (r, s1) = tel_setTo d c (pos_of (tarRaDec s)) s
      in (r, if r = 0 then s1\<lparr>corrRaDec := set_dist (0, 0) (corrRaDec s1), wcorrRaDec := set_dist (0, 0) (wcorrRaDec s1)\<rparr> else s1))"
| "tel_commandAuthorized d c (Correct k) s = correct d c k s"
| "tel_commandAuthorized d c MoveTle s = (DEVDEM_E_PARAMSVAL, s)"
| "tel_commandAuthorized d c Park s = startPark d (Some c) (s\<lparr>calModel := True\<rparr>)"
| "tel_commandAuthorized d c Stop s =
     (let (r, s1) = stopMove d (stopTracking d True s)
      in if r \<noteq> 0 then (-1, temit (TEnd c DEVDEM_E_HW) s1) else (0, s1))"
| "tel_commandAuthorized d c (Change p) s =
     startResyncMove d (Some c) 1 False (s\<lparr>offsRaDec := inc_dist p (offsRaDec s), woffsRaDec := inc_dist p (woffsRaDec s)\<rparr>)"
| "tel_commandAuthorized d c WormStop s = (0, stopTracking d True s)"
| "tel_commandAuthorized d c WormStart s =
     (let (r, s1) = (if blockMove s \<or> is_parked_or_parking s then (-1, s) else startTracking d True s)
      in (r, if r = -1 then temit (TEnd c DEVDEM_E_HW) s1 else s1))"
| "tel_commandAuthorized d c Reset s =
     (let (r, s1) = own (resetMount_m d) s in (r, if r = DEVDEM_E_COMMAND then temit (TEnd c DEVDEM_E_HW) s1 else s1))"
| "tel_commandAuthorized d c BadParams s = (DEVDEM_E_PARAMSNUM, s)"

subsection \<open>Events\<close>

datatype 'h tel_event =
    TCommand nat tel_command
  | TWrite tel_write
  | TBop u32
  | TMaster u32 u32
  | TLeave nat
  | TIdle
  | TTimer
  | TInfo
  | TScriptEnds
  | TTime int
  | THardware 'h

fun tel_step :: "'h mount \<Rightarrow> 'h tel_event \<Rightarrow> 'h tel \<Rightarrow> 'h tel" where
  "tel_step d (TCommand c x) s = snd (tel_commandAuthorized d c x s)"
| "tel_step d (TWrite w) s = snd (write_value d w s)"
| "tel_step d (TBop w) s = tel_setFullBopState d w s"
| "tel_step d (TMaster old new) s = tel_changeMasterState d old new s"
| "tel_step d (TLeave c) s = (if move_connection s = Some c then s\<lparr>move_connection := None\<rparr> else s)"
| "tel_step d TIdle s = checkMoves d s"
| "tel_step d TTimer s = tracking_timer s"
| "tel_step d TInfo s = tel_info d s"
| "tel_step d TScriptEnds s = s\<lparr>woffsRaDec := set_dist (0, 0) (woffsRaDec s), tle_freeze := False\<rparr>"
| "tel_step d (TTime t) s = s\<lparr>tnow := t\<rparr>"
| "tel_step d (THardware h) s = s\<lparr>thw := h\<rparr>"

definition fresh :: radec where
  "fresh = \<lparr>ra = NaN, decl = NaN, chg = False\<rparr>"

definition zeroed :: radec where
  "zeroed = \<lparr>ra = 0, decl = 0, chg = False\<rparr>"

text \<open>
  The state after the constructor and \<open>initValues\<close>, of a mount at position \<open>p\<close>.
\<close>

definition new_tel :: "'h \<Rightarrow> bool \<Rightarrow> bool \<Rightarrow> bool \<Rightarrow> pos \<Rightarrow> int \<Rightarrow> 'h tel" where
  "new_tel h track diff pblock p lat =
     \<lparr>thw = h, telState = 0, telBop = 0, telLatitude = lat,
      oriRaDec = set_radec p fresh, oriEpoch = 2000000, pmRaDec = (0, 0), useOEpoch = True,
      offsRaDec = zeroed, gOffsRaDec = zeroed, woffsRaDec = zeroed, corrRaDec = zeroed, wcorrRaDec = zeroed,
      total_offsets = fresh, objRaDec = set_radec p fresh, tarRaDec = set_radec p fresh,
      telTargetRaDec = set_radec p fresh, modelRaDec = zeroed, telRaDec = set_radec p fresh, telAltAz = (NaN, NaN),
      tarAltAz = (NaN, NaN), offsAltAz = None, mpec = [], mpecChanged = False, tle_freeze = False,
      moveNum = 0, moveCompleted = False, corrImgId = 0, corrObsId = 0, wCorrImgId = 0, wCorrObsId = 0, posErr = NaN,
      ignoreCorrection = 0, defIgnoreCorrection = 0, smallCorrection = 0, correctionLimit = Angle 18000000,
      tracking = (if track then Some 0 else None), defaultTracking = 1, trackingTimer = False, trackingNum = 0,
      ignoreHorizon = (if track then Some False else None), horizonIgnored = False,
      blockMove = False, blockOnStandby = False, standbyPark = 0, parkingBlockMove = pblock, useParkFlipping = False,
      decUpperLimit = NaN,
      diffTrack = (if diff then Some \<lparr>drate = zeroed, dstart = None, don = False\<rparr> else None), diffTrackAltAz = None,
      calModel = False, guidingTime = None, lastGuideTime = None, targetStarted = None, targetReached = None,
      failedMoveNum = 0, lastFailedMove = None, mountParkTime = None, moveInfoCount = 0, moveInfoMax = 100,
      move_connection = None, refreshIdle = 60000000, refreshSlew = 500000, idleInterval = 60000000,
      telFlip = 0, flip_move_start = 0, nextCupSync = 0, tnow = 0, ttimeout = 0, touts = []\<rparr>"

end
