(* ===== verification/TelescopeMotion.thy ===== *)
theory TelescopeMotion
  imports TelescopeOps
begin

section \<open>The motion of a telescope\<close>

text \<open>
  The abstract machine behind a telescope: of the state word the phase of the mount, the correcting
  flag and the block of exposures, whether the last move reached its target, whether moves
  are blocked, and the moves and parks the driver was told to start. Most operations do not touch
  any of it; \<open>resync_result\<close> and \<open>park_result\<close> are what starting a move or a park does to it.
\<close>

abbreviation MOTION_MASK :: u32 where "MOTION_MASK \<equiv> 0x01000047"

record motion =
  mword :: u32
  mcompleted :: bool
  mblocked :: bool
  mpblock :: bool
  mstarts :: "tel_out list"

fun is_start :: "tel_out \<Rightarrow> bool" where
  "is_start (StartMove b ok w) = True"
| "is_start (StartPark b) = True"
| "is_start _ = False"

definition motion :: "'h tel \<Rightarrow> motion" where
  "motion s = \<lparr>mword = telState s AND MOTION_MASK, mcompleted = moveCompleted s, mblocked = blockMove s,
     mpblock = parkingBlockMove s, mstarts = filter is_start (touts s)\<rparr>"

lemma motion_sel [simp]:
  "mword (motion s) = telState s AND MOTION_MASK" "mcompleted (motion s) = moveCompleted s"
  "mblocked (motion s) = blockMove s" "mpblock (motion s) = parkingBlockMove s"
  "mstarts (motion s) = filter is_start (touts s)"
  by (simp_all add: motion_def)

lemma motion_cong:
  "telState s' = telState s \<Longrightarrow> moveCompleted s' = moveCompleted s \<Longrightarrow> blockMove s' = blockMove s \<Longrightarrow>
   parkingBlockMove s' = parkingBlockMove s \<Longrightarrow> touts s' = touts s \<Longrightarrow> motion s' = motion s"
  by (simp add: motion_def)

subsection \<open>Operations that leave the motion alone\<close>

lemma motion_fields [simp]:
  "motion (s\<lparr>useParkFlipping := b\<rparr>) = motion s" "motion (s\<lparr>targetReached := t\<rparr>) = motion s"
  "motion (s\<lparr>targetStarted := u\<rparr>) = motion s" "motion (s\<lparr>tracking := v\<rparr>) = motion s"
  "motion (s\<lparr>trackingTimer := b\<rparr>) = motion s" "motion (s\<lparr>nextCupSync := i\<rparr>) = motion s"
  "motion (s\<lparr>move_connection := c\<rparr>) = motion s" "motion (s\<lparr>idleInterval := i\<rparr>) = motion s"
  "motion (s\<lparr>ttimeout := i\<rparr>) = motion s" "motion (s\<lparr>moveInfoCount := i\<rparr>) = motion s"
  "motion (s\<lparr>mountParkTime := t\<rparr>) = motion s" "motion (s\<lparr>flip_move_start := i\<rparr>) = motion s"
  "motion (s\<lparr>tarAltAz := p\<rparr>) = motion s" "motion (s\<lparr>objRaDec := r\<rparr>) = motion s"
  "motion (s\<lparr>tarRaDec := r\<rparr>) = motion s" "motion (s\<lparr>thw := h\<rparr>) = motion s"
  "motion (s\<lparr>telRaDec := r\<rparr>) = motion s" "motion (s\<lparr>telAltAz := p\<rparr>) = motion s"
  "motion (s\<lparr>telFlip := i\<rparr>) = motion s" "motion (s\<lparr>calModel := b\<rparr>) = motion s"
  "motion (s\<lparr>mpec := str\<rparr>) = motion s" "motion (s\<lparr>mpecChanged := b\<rparr>) = motion s"
  "motion (s\<lparr>offsRaDec := r\<rparr>) = motion s" "motion (s\<lparr>woffsRaDec := r\<rparr>) = motion s"
  "motion (s\<lparr>corrRaDec := r\<rparr>) = motion s" "motion (s\<lparr>wcorrRaDec := r\<rparr>) = motion s"
  "motion (s\<lparr>posErr := a\<rparr>) = motion s" "motion (s\<lparr>wCorrImgId := i\<rparr>) = motion s"
  "motion (s\<lparr>wCorrObsId := i\<rparr>) = motion s" "motion (s\<lparr>tle_freeze := b\<rparr>) = motion s"
  "motion (s\<lparr>tnow := i\<rparr>) = motion s" "motion (s\<lparr>telBop := w\<rparr>) = motion s"
  "motion (s\<lparr>guidingTime := t\<rparr>) = motion s" "motion (s\<lparr>lastGuideTime := t\<rparr>) = motion s"
  "motion (s\<lparr>useOEpoch := b\<rparr>) = motion s"
  by (simp_all add: motion_def)

lemma motion_moveCompleted [simp]: "motion (s\<lparr>moveCompleted := b\<rparr>) = (motion s)\<lparr>mcompleted := b\<rparr>"
  by (simp add: motion_def)

lemma motion_blockMove [simp]: "motion (s\<lparr>blockMove := b\<rparr>) = (motion s)\<lparr>mblocked := b\<rparr>"
  by (simp add: motion_def)

lemma motion_temit [simp]: "\<not> is_start e \<Longrightarrow> motion (temit e s) = motion s"
  by (simp add: motion_def temit_def)

lemma motion_own [simp]: "motion (snd (own f s)) = motion s"
  by (simp add: own_def motion_def split: prod.splits)

lemma motion_stopMove [simp]: "motion (snd (stopMove d s)) = motion s"
  by (simp add: stopMove_def)

lemma motion_end [simp]: "motion (tel_end c code s) = motion s"
  by (simp add: tel_end_def split: option.splits)

lemma motion_ignore [simp]: "motion (setIgnoreHorizon b s) = motion s"
  by (simp add: setIgnoreHorizon_def motion_def split: option.splits)

lemma motion_setOri [simp]: "motion (setOri p e pm s) = motion s"
  by (simp add: setOri_def motion_def)

lemma motion_resetMpec [simp]: "motion (resetMpecTLE s) = motion s"
  by (simp add: resetMpecTLE_def motion_def)

lemma motion_cupola [simp]: "motion (startCupolaSync s) = motion s"
  by (simp add: startCupolaSync_def motion_def temit_def)

lemma motion_runTracking [simp]: "motion (runTracking s) = motion s"
proof -
  have "motion (runTracking s) = motion (startCupolaSync s)"
    unfolding runTracking_def Let_def by (rule motion_cong) simp_all
  then show ?thesis by simp
qed

lemma motion_setDiff [simp]: "motion (setDiffTrack p s) = motion s" "motion (setDiffTrackAltAz p s) = motion s"
  by (simp_all add: setDiffTrack_def setDiffTrackAltAz_def motion_def temit_def split: option.splits)

lemma motion_difftrack [simp]:
  "motion (s\<lparr>diffTrack := x\<rparr>) = motion s" "motion (s\<lparr>diffTrackAltAz := x\<rparr>) = motion s"
  by (rule motion_cong; simp)+

lemma motion_reset_difftrack [simp]: "motion (reset_difftrack s) = motion s" "motion (reset_difftrackAltAz s) = motion s"
  by (simp_all add: reset_difftrack_def reset_difftrackAltAz_def Let_def split: option.splits)

lemma motion_incMoveNum [simp]: "motion (incMoveNum s) = motion s"
proof -
  have "motion (incMoveNum s) = motion (reset_difftrackAltAz (reset_difftrack s))"
    unfolding incMoveNum_def Let_def by (rule motion_cong) simp_all
  then show ?thesis by simp
qed

lemma motion_corrections [simp]:
  "motion (apply_wcorr s) = motion s" "motion (rollback b s) = motion s" "motion (reset_flags s) = motion s"
  by (simp_all add: apply_wcorr_def rollback_def reset_flags_def motion_def)

lemma motion_resync_target [simp]: "motion (snd (snd (resync_target d s))) = motion s"
  by (simp add: resync_target_def Let_def motion_def split: prod.splits)

lemma motion_resync_origin [simp]: "motion (resync_origin d ign s) = (motion s)\<lparr>mcompleted := False\<rparr>"
  by (simp add: resync_origin_def Let_def)

lemma motion_failed [simp]: "motion (failedMove s) = motion s"
  by (simp add: failedMove_def motion_def)

lemma motion_send_info [simp]: "motion (send_info s) = motion s"
  by (simp add: send_info_def split: option.splits)

lemma motion_forget [simp]: "motion (forget_target s) = motion s"
  by (simp add: forget_target_def motion_def)

subsection \<open>Writes of the state word\<close>

lemma mask_word_and: "K AND DEVICE_ERROR_MASK = 0 \<Longrightarrow> mask_word m n w AND K = (w AND K AND NOT m) OR (n AND K)"
  unfolding mask_word_def by (rule bit_word_eqI) (auto simp: bit_simps bit_eq_iff)

lemma motion_mask:
  "motion (tel_maskState m n s) = (motion s)\<lparr>mword := (telState s AND MOTION_MASK AND NOT m) OR (n AND MOTION_MASK)\<rparr>"
proof -
  have "telState (tel_maskState m n s) = mask_word m n (telState s)"
    by (simp add: tel_maskState_def tel_setState_def temit_def)
  moreover have "mask_word m n (telState s) AND MOTION_MASK = (telState s AND MOTION_MASK AND NOT m) OR (n AND MOTION_MASK)"
    by (rule mask_word_and) simp
  ultimately show ?thesis by (simp add: motion_def tel_maskState_def tel_setState_def temit_def)
qed

lemma motion_mask_other:
  assumes "m AND MOTION_MASK = 0" "n AND MOTION_MASK = 0"
  shows "motion (tel_maskState m n s) = motion s"
proof -
  have "telState s AND MOTION_MASK AND NOT m = telState s AND MOTION_MASK"
    using assms(1) by (intro bit_word_eqI) (auto simp: bit_simps bit_eq_iff)
  then show ?thesis unfolding motion_mask using assms(2) by (simp add: motion_def)
qed

lemma motion_track_mask [simp]:
  "motion (tel_maskState TEL_MASK_TRACK TEL_TRACKING s) = motion s"
  "motion (tel_maskState TEL_MASK_TRACK TEL_NOTRACK s) = motion s"
  "motion (tel_maskState TEL_MASK_OFFSETING TEL_NO_OFFSETING s) = motion s"
  "motion (tel_maskState TEL_MASK_OFFSETING TEL_OFFSETING s) = motion s"
  "motion (tel_maskState (TEL_MASK_TRACK OR TEL_MASK_OFFSETING OR TEL_MASK_UNSTABLE)
     (TEL_NOTRACK OR TEL_NO_OFFSETING OR TEL_STABLE) s) = motion s"
  by (rule motion_mask_other; simp)+

lemma motion_setTracking [simp]: "motion (snd (setTracking d t b m s)) = motion s"
proof -
  obtain r s0 where o: "own (setTracking_m d t) s = (r, s0)" by force
  then have "motion s0 = motion s" using motion_own [of "setTracking_m d t" s] by simp
  then show ?thesis by (simp add: setTracking_def o Let_def)
qed

lemma motion_startTracking [simp]: "motion (snd (startTracking d c s)) = motion s"
  by (simp add: startTracking_def Let_def split: option.splits)

lemma motion_stopTracking [simp]: "motion (stopTracking d m s) = motion s"
  by (simp add: stopTracking_def)

lemma motion_tracking_timer [simp]: "motion (tracking_timer s) = motion s"
  by (simp add: tracking_timer_def)

lemma motion_info [simp]: "motion (tel_info d s) = motion s"
  by (simp add: tel_info_def abortMoveTracking_def Let_def split: prod.splits)

lemma motion_endMove [simp]: "motion (snd (endMove d s)) = motion s"
proof -
  obtain r s0 where o: "own (endMove_m d) s = (r, s0)" by force
  then have "motion s0 = motion s" using motion_own [of "endMove_m d" s] by simp
  then show ?thesis by (simp add: endMove_def o)
qed

subsection \<open>Starting a move\<close>

text \<open>
  What \<open>startResyncMove\<close> may do: it refuses and only forgets that the target was reached; it finds
  that the target cannot be reached, or the driver refuses it, and the mount is left observing;
  or the mount moves. Only the last two reach the driver, and only when moves are not
  blocked and the mount is not parking.
\<close>

definition phase :: "u32 \<Rightarrow> u32" where
  "phase w = w AND TEL_MASK_MOVING"

definition may_move :: "motion \<Rightarrow> bool" where
  "may_move m \<longleftrightarrow> \<not> mblocked m \<and> (mpblock m \<longrightarrow> phase (mword m) \<noteq> TEL_PARKING)"

definition tried :: "u32 \<Rightarrow> motion \<Rightarrow> motion" where
  "tried w m = m\<lparr>mcompleted := False, mstarts := mstarts m @ [StartMove False True w]\<rparr>"

inductive resync_result :: "motion \<Rightarrow> int \<Rightarrow> motion \<Rightarrow> bool" where
  refused: "resync_result m (-1) (m\<lparr>mcompleted := False\<rparr>)"
| unreachable: "may_move m \<Longrightarrow> resync_result m (-1) (m\<lparr>mcompleted := False, mword := 0\<rparr>)"
| move_failed: "may_move m \<Longrightarrow> phase w = phase (mword m) \<Longrightarrow> resync_result m (-1) ((tried w m)\<lparr>mword := 0\<rparr>)"
| under_way: "may_move m \<Longrightarrow> phase w = phase (mword m) \<Longrightarrow> v \<in> {0, TEL_CORRECTING} \<Longrightarrow>
    resync_result m 0 ((tried w m)\<lparr>mword := TEL_MOVING OR BOP_EXPOSURE OR v\<rparr>)"

inductive_cases resync_resultE: "resync_result m r m'"
inductive_simps resync_result_ok: "resync_result m 0 m'"

lemma motion_clears:
  assumes "MOTION_MASK AND NOT m = 0"
  shows "motion (tel_maskState m n s) = (motion s)\<lparr>mword := n AND MOTION_MASK\<rparr>"
proof -
  have "telState s AND MOTION_MASK AND NOT m = 0" using assms by (simp add: and.assoc)
  then show ?thesis by (simp add: motion_mask)
qed

lemma motion_observing [simp]:
  "motion (tel_maskState (TEL_MASK_CORRECTING OR TEL_MASK_MOVING OR BOP_EXPOSURE OR TEL_MASK_TRACK)
     (TEL_NOT_CORRECTING OR TEL_OBSERVING OR TEL_NOTRACK) s) = (motion s)\<lparr>mword := 0\<rparr>"
  "motion (tel_maskState (TEL_MASK_CORRECTING OR TEL_MASK_MOVING OR BOP_EXPOSURE OR TEL_MASK_TRACK)
     (TEL_NOT_CORRECTING OR TEL_OBSERVING) s) = (motion s)\<lparr>mword := 0\<rparr>"
  "motion (tel_maskState (TEL_MASK_CORRECTING OR TEL_MASK_MOVING OR BOP_EXPOSURE)
     (TEL_NOT_CORRECTING OR TEL_OBSERVING) s) = (motion s)\<lparr>mword := 0\<rparr>"
  "motion (move_error s) = (motion s)\<lparr>mword := 0\<rparr>"
  unfolding move_error_def by (subst motion_clears; simp)+

lemma motion_cannot_perform [simp]: "motion (cannot_perform d s) = (motion s)\<lparr>mword := 0\<rparr>"
  by (simp only: cannot_perform_def Let_def motion_observing motion_stopTracking motion_stopMove motion_fields motion_setOri)

lemma mask_start_motion:
  "\<exists>v \<in> {0, TEL_CORRECTING}. motion (mask_start c s) = (motion s)\<lparr>mword := TEL_MOVING OR BOP_EXPOSURE OR v\<rparr>"
proof (cases "c = 0")
  case True
  let ?m = "TEL_MASK_MOVING OR TEL_MASK_CORRECTING OR TEL_MASK_NEED_STOP OR TEL_MASK_TRACK OR BOP_EXPOSURE"
  define s1 where "s1 = (if telState s AND TEL_MASK_CORRECTING \<noteq> 0
                  then tel_maskState (TEL_MASK_MOVING OR TEL_MASK_CORRECTING) 0 s else s)"
  have "motion (mask_start c s) = motion (tel_maskState ?m (TEL_MOVING OR BOP_EXPOSURE) s1)"
    using True by (simp add: mask_start_def s1_def Let_def)
  also have "\<dots> = (motion s1)\<lparr>mword := TEL_MOVING OR BOP_EXPOSURE\<rparr>" by (subst motion_clears; simp)
  also have "\<dots> = (motion s)\<lparr>mword := TEL_MOVING OR BOP_EXPOSURE\<rparr>" by (simp add: s1_def motion_mask)
  finally show ?thesis by simp
next
  case False
  then have "motion (mask_start c s) = (motion s)\<lparr>mword := TEL_MOVING OR BOP_EXPOSURE OR TEL_CORRECTING\<rparr>"
    unfolding mask_start_def by (simp only: if_True not_False_eq_True) (subst motion_clears; simp)
  then show ?thesis by blast
qed

lemma motion_start: "motion (temit (StartMove b ok w) s) = (motion s)\<lparr>mstarts := mstarts (motion s) @ [StartMove b ok w]\<rparr>"
  by (simp add: temit_def motion_def)

lemma phase_moving: "phase (telState s AND MOTION_MASK) = moving_field s"
  by (simp add: phase_def moving_field_def and.assoc)

lemma mask_start_keeps:
  "blockMove (mask_start c s) = blockMove s" "is_good d (mask_start c s) h = is_good d s h"
  "dec_limited (mask_start c s) p = dec_limited s p"
  by (simp_all add: mask_start_def tel_maskState_def tel_setState_def temit_def is_good_def dec_limited_def Let_def)

lemma motion_pair: "stopMove d s = (r, s1) \<Longrightarrow> motion s1 = motion s" "own f s = (r, s1) \<Longrightarrow> motion s1 = motion s"
  "endMove d s = (r, s1) \<Longrightarrow> motion s1 = motion s"
  by (metis motion_stopMove snd_conv) (metis motion_own snd_conv, metis motion_endMove snd_conv)

lemma resync_mount_motion:
  assumes "\<not> blockMove s" "is_good d s hrz \<and> \<not> dec_limited s tp" "may_move (motion s)" "\<not> moveCompleted s"
  shows "resync_result (motion s) (fst (resync_mount d conn c hrz tp s)) (motion (snd (resync_mount d conn c hrz tp s)))"
proof -
  obtain v where v: "v \<in> {0, TEL_CORRECTING}"
    and m: "motion (mask_start c s) = (motion s)\<lparr>mword := TEL_MOVING OR BOP_EXPOSURE OR v\<rparr>"
    using mask_start_motion by blast
  define s1 where "s1 = temit (StartMove False True (telState s)) (mask_start c s)"
  obtain r s2 where o: "own (startResync_m d) s1 = (r, s2)" by force
  have "motion s2 = motion s1" using motion_own [of "startResync_m d" s1] o by simp
  then have ms: "motion s2 = (motion s)\<lparr>mword := TEL_MOVING OR BOP_EXPOSURE OR v,
       mstarts := mstarts (motion s) @ [StartMove False True (telState s)]\<rparr>"
    by (simp add: s1_def motion_start m)
  have w: "phase (telState s) = phase (mword (motion s))" by (simp add: phase_def and.assoc)
  have e: "resync_mount d conn c hrz tp s =
      (if r \<noteq> 0 then
           (-1, tel_end conn DEVDEM_E_HW
                  (tel_maskState (TEL_MASK_CORRECTING OR TEL_MASK_MOVING OR BOP_EXPOSURE OR TEL_MASK_TRACK)
                     (TEL_NOT_CORRECTING OR TEL_OBSERVING) (stopTracking d False (s2\<lparr>useParkFlipping := False\<rparr>))))
         else
           let s2 = s2\<lparr>targetStarted := Some (tnow s2), targetReached := Some (tnow s2 + estimateTargetTime_m d s2)\<rparr>;
               s3 = tel_info d s2;
               s4 = reset_flags (startCupolaSync (s3\<lparr>nextCupSync := 0\<rparr>))
           in (0, s4\<lparr>move_connection := conn, idleInterval := refreshSlew s4\<rparr>))"
    using o assms(1,2) by (simp add: resync_mount_def s1_def mask_start_keeps del: motion_sel)
  show ?thesis
  proof (cases "r = 0")
    case True
    then have "motion (snd (resync_mount d conn c hrz tp s)) = motion s2" "fst (resync_mount d conn c hrz tp s) = 0"
      by (simp_all add: e Let_def)
    moreover have "motion s2 = (tried (telState s) (motion s))\<lparr>mword := TEL_MOVING OR BOP_EXPOSURE OR v\<rparr>"
      by (subst ms) (simp add: tried_def motion_def assms(4))
    ultimately show ?thesis using under_way [OF assms(3) w v] by simp
  next
    case False
    then have "motion (snd (resync_mount d conn c hrz tp s)) = (motion s2)\<lparr>mword := 0\<rparr>" "fst (resync_mount d conn c hrz tp s) = -1"
      unfolding e by (simp_all only: if_True not_False_eq_True snd_conv fst_conv motion_end motion_observing motion_stopTracking motion_fields)
    moreover have "(motion s2)\<lparr>mword := 0\<rparr> = (tried (telState s) (motion s))\<lparr>mword := 0\<rparr>"
      by (subst ms) (simp add: tried_def motion_def assms(4))
    ultimately show ?thesis using move_failed [OF assms(3) w] by simp
  qed
qed

lemma resync_move_motion:
  assumes "\<not> mcompleted (motion s)"
  shows "resync_result (motion s) (fst (resync_move d conn c hrz tp s)) (motion (snd (resync_move d conn c hrz tp s)))"
proof -
  have nc: "(motion s)\<lparr>mcompleted := False\<rparr> = motion s" using assms by (simp add: motion_def)
  have no: "resync_result (motion s) (-1) (motion s)" using refused [of "motion s"] nc by simp
  show ?thesis
  proof (cases "move_blocked s")
    case True
    then show ?thesis using no by (simp add: resync_move_blocked)
  next
    case False
    then have mm: "may_move (motion s)" by (auto simp: may_move_def phase_moving move_blocked_def)
    obtain r s1 where st: "(if must_stop s then stopMove d s else (0, s)) = (r, s1)" by force
    have m1: "motion s1 = motion s" using st by (cases "must_stop s") (auto dest: motion_pair simp del: motion_sel)
    have bm: "blockMove s1 = blockMove s" using arg_cong [OF m1, of mblocked] by simp
    note e = resync_move_free [OF False st]
    consider "r \<noteq> 0" | "r = 0" "\<not> is_good d s1 hrz \<or> dec_limited s1 tp"
      | "r = 0" "is_good d s1 hrz \<and> \<not> dec_limited s1 tp" by blast
    then show ?thesis
    proof cases
      case 1
      then show ?thesis using no m1 by (simp add: e)
    next
      case 2
      then show ?thesis using unreachable [OF mm] m1 nc by (simp add: e)
    next
      case 3
      moreover have "\<not> moveCompleted s1" using arg_cong [OF m1, of mcompleted] assms by simp
      ultimately have "resync_result (motion s1) (fst (resync_mount d conn c hrz tp s1)) (motion (snd (resync_mount d conn c hrz tp s1)))"
        using False bm mm m1 by (intro resync_mount_motion) (auto simp: move_blocked_def)
      then show ?thesis using 3 m1 by (simp add: e)
    qed
  qed
qed

lemma resync_result_any: "resync_result (m\<lparr>mcompleted := b\<rparr>) r m' \<Longrightarrow> resync_result m r m'"
proof (erule resync_resultE, goal_cases)
  case 1
  then show ?case using refused [of m] by simp
next
  case 2
  then show ?case using unreachable [of m] by (simp add: may_move_def)
next
  case (3 w)
  then show ?case using move_failed [of m w] by (simp add: may_move_def tried_def)
next
  case (4 w v)
  then show ?case using under_way [of m w v] by (simp add: may_move_def tried_def)
qed

lemma startResyncMove_motion:
  "resync_result (motion s) (fst (startResyncMove d conn c ign s)) (motion (snd (startResyncMove d conn c ign s)))"
proof -
  let ?m = "(motion s)\<lparr>mcompleted := False\<rparr>"
  define s1 where "s1 = resync_origin d ign s"
  define s2 where "s2 = (if new_target s1 then incMoveNum s1 else s1)"
  obtain hrz tp s3 where t: "resync_target d (apply_wcorr s2) = (hrz, tp, s3)" by (metis prod_cases3)
  obtain r s4 where v: "resync_move d conn c hrz tp s3 = (r, s4)" by force
  have m1: "motion s1 = ?m" by (simp add: s1_def)
  then have "motion s2 = ?m" by (simp add: s2_def)
  then have m3: "motion s3 = ?m" using motion_resync_target [of d "apply_wcorr s2"] t by simp
  show ?thesis
  proof (cases "null_pos (pos_of (oriRaDec s1))")
    case True
    then show ?thesis using m1 by (simp add: startResyncMove_def s1_def [symmetric] Let_def refused)
  next
    case False
    then have e: "startResyncMove d conn c ign s = (r, if r \<noteq> 0 then rollback s2 s4 else s4)"
      unfolding startResyncMove_def s1_def [symmetric] Let_def s2_def [symmetric] t by (simp add: v)
    have "mcompleted (motion s3) = False" using m3 by simp
    then have "resync_result ?m r (motion s4)" using resync_move_motion [of s3 d conn c hrz tp] m3 v by simp
    then have "resync_result (motion s) r (motion s4)" by (rule resync_result_any)
    then show ?thesis by (cases "r = 0") (simp_all add: e)
  qed
qed

subsection \<open>Parking\<close>

inductive park_result :: "motion \<Rightarrow> int \<Rightarrow> motion \<Rightarrow> bool" where
  not_parked: "park_result m r m"
| park_refused: "\<not> mblocked m \<Longrightarrow>
    park_result m (-1) (m\<lparr>mcompleted := False, mstarts := mstarts m @ [StartPark False]\<rparr>)"
| parking: "\<not> mblocked m \<Longrightarrow>
    park_result m 0 (m\<lparr>mcompleted := False, mstarts := mstarts m @ [StartPark False],
      mword := (mword m AND NOT TEL_MASK_MOVING) OR TEL_PARKING\<rparr>)"

inductive_cases park_resultE: "park_result m r m'"

lemma motion_start_park: "motion (temit (StartPark b) s) = (motion s)\<lparr>mstarts := mstarts (motion s) @ [StartPark b]\<rparr>"
  by (simp add: temit_def motion_def)

lemma motion_mask_parking:
  "motion (tel_maskState (TEL_MASK_MOVING OR TEL_MASK_TRACK OR TEL_MASK_NEED_STOP) TEL_PARKING s)
   = (motion s)\<lparr>mword := (mword (motion s) AND NOT TEL_MASK_MOVING) OR TEL_PARKING\<rparr>"
  by (simp add: motion_mask and.assoc)

lemma park_mount_motion:
  assumes "\<not> blockMove s"
  shows "park_result (motion s) (fst (park_mount d conn s)) (motion (snd (park_mount d conn s)))"
proof -
  define s1 where "s1 = (stopTracking d True (s\<lparr>useParkFlipping := True\<rparr>))\<lparr>moveCompleted := False\<rparr>"
  obtain r s2 where o: "own (startPark_m d) (temit (StartPark (blockMove s1)) s1) = (r, s2)" by force
  have m1: "motion s1 = (motion s)\<lparr>mcompleted := False\<rparr>" by (simp add: s1_def)
  have "blockMove s1 = False" using arg_cong [OF m1, of mblocked] assms by simp
  then have m2: "motion s2 = (motion s)\<lparr>mcompleted := False, mstarts := mstarts (motion s) @ [StartPark False]\<rparr>"
    using motion_pair(2) [OF o] m1 by (simp add: motion_start_park)
  show ?thesis
  proof (cases "r < 0")
    case True
    then show ?thesis using park_refused [of "motion s"] assms m2
      by (simp add: park_mount_def s1_def [symmetric] o Let_def)
  next
    case False
    then have e: "park_mount d conn s =
      (let s3 = incMoveNum (if r = 0 then forget_target s2 else s2);
           s4 = tel_maskState (TEL_MASK_MOVING OR TEL_MASK_TRACK OR TEL_MASK_NEED_STOP) TEL_PARKING
                  (s3\<lparr>mountParkTime := Some (tnow s3)\<rparr>)
       in (0, s4\<lparr>idleInterval := refreshSlew s4\<rparr>))"
      unfolding park_mount_def Let_def s1_def [symmetric] o by simp
    have "motion (incMoveNum (if r = 0 then forget_target s2 else s2)) = motion s2" by simp
    then have "motion (snd (park_mount d conn s)) = (motion s2)\<lparr>mword := (mword (motion s2) AND NOT TEL_MASK_MOVING) OR TEL_PARKING\<rparr>"
      unfolding e Let_def snd_conv by (simp only: motion_fields motion_mask_parking)
    moreover have "fst (park_mount d conn s) = 0" by (simp add: e Let_def)
    ultimately show ?thesis using parking [of "motion s"] assms m2 by simp
  qed
qed

lemma startPark_motion:
  "park_result (motion s) (fst (startPark d conn s)) (motion (snd (startPark d conn s)))"
proof (cases "moving_field s = TEL_PARKING \<or> blockMove s")
  case True
  then show ?thesis by (auto simp: startPark_def intro: not_parked)
next
  case False
  define s1 where "s1 = tel_maskState (TEL_MASK_TRACK OR TEL_MASK_OFFSETING OR TEL_MASK_UNSTABLE)
                   (TEL_NOTRACK OR TEL_NO_OFFSETING OR TEL_STABLE) (resetMpecTLE s)"
  obtain r s2 where st: "(if moving_field s1 = TEL_MOVING then stopMove d s1 else (0, s1)) = (r, s2)" by force
  have m1: "motion s1 = motion s" unfolding s1_def by (simp only: motion_track_mask motion_resetMpec)
  have m2: "motion s2 = motion s"
    using st m1 by (cases "moving_field s1 = TEL_MOVING") (auto dest: motion_pair simp del: motion_sel)
  have e: "startPark d conn s = (if r \<noteq> 0 then (-1, tel_end conn DEVDEM_E_HW s2) else park_mount d conn s2)"
    using False st unfolding startPark_def s1_def [symmetric] Let_def by simp
  have "\<not> blockMove s2" using arg_cong [OF m2, of mblocked] False by simp
  then show ?thesis using park_mount_motion [of s2 d conn] m2 not_parked [of "motion s" "-1"] by (simp add: e)
qed

end
