(* ===== verification/TelescopeSteps.thy ===== *)
theory TelescopeSteps
  imports TelescopeMotion
begin

section \<open>The abstract telescope\<close>

text \<open>
  The transition system \<open>motion_step\<close> is the contract of a telescope with the rest of the
  observatory. Every event of the program's telescope makes some of its transitions
  (\<open>tel_step_simulated\<close>), whatever the mount answers, so that its invariants hold for every run.
\<close>

inductive motion_step :: "bool \<Rightarrow> motion \<Rightarrow> motion \<Rightarrow> bool" for l where
  start_move: "resync_result m r m' \<Longrightarrow> motion_step l m m'"
| start_park: "park_result m r m' \<Longrightarrow> motion_step l m m'"
| arrive: "phase (mword m) = TEL_MOVING \<Longrightarrow> motion_step l m (m\<lparr>mcompleted := True, mword := 0\<rparr>)"
| fail: "phase (mword m) = TEL_MOVING \<Longrightarrow> motion_step l m (m\<lparr>mword := 0\<rparr>)"
| park_end: "phase (mword m) = TEL_PARKING \<Longrightarrow>
    motion_step l m (m\<lparr>mword := (mword m AND NOT (TEL_MASK_MOVING OR BOP_EXPOSURE)) OR TEL_PARKED\<rparr>)"
| block_exposures: "motion_step l m (m\<lparr>mword := mword m OR BOP_EXPOSURE\<rparr>)"
| block_moves: "(l \<longrightarrow> b) \<Longrightarrow> motion_step l m (m\<lparr>mblocked := b\<rparr>)"

inductive_cases motion_stepE: "motion_step l m m'"

abbreviation motion_steps :: "bool \<Rightarrow> motion \<Rightarrow> motion \<Rightarrow> bool" where
  "motion_steps l \<equiv> rtranclp (motion_step l)"

lemma one_step: "motion_step l m m' \<Longrightarrow> motion_steps l m m'"
  by (rule r_into_rtranclp)

lemmas more_steps = rtranclp_trans [of "motion_step l" for l]

subsection \<open>Invariants\<close>

definition permitted :: "bool \<Rightarrow> tel_out \<Rightarrow> bool" where
  "permitted pb e =
     (case e of
        StartMove b ok w \<Rightarrow> \<not> b \<and> ok \<and> (pb \<longrightarrow> phase w \<noteq> TEL_PARKING)
      | StartPark b \<Rightarrow> \<not> b
      | _ \<Rightarrow> True)"

definition motion_inv :: "motion \<Rightarrow> bool" where
  "motion_inv m \<longleftrightarrow>
     phase (mword m) \<in> {TEL_OBSERVING, TEL_MOVING, TEL_PARKED, TEL_PARKING}
     \<and> (phase (mword m) = TEL_MOVING \<longrightarrow> mword m AND BOP_EXPOSURE \<noteq> 0)
     \<and> (mcompleted m \<longrightarrow> phase (mword m) = TEL_OBSERVING)
     \<and> (\<forall>e \<in> set (mstarts m). permitted (mpblock m) e)"

lemma motion_invI:
  "phase (mword m) \<in> {TEL_OBSERVING, TEL_MOVING, TEL_PARKED, TEL_PARKING} \<Longrightarrow>
   (phase (mword m) = TEL_MOVING \<Longrightarrow> mword m AND BOP_EXPOSURE \<noteq> 0) \<Longrightarrow>
   (mcompleted m \<Longrightarrow> phase (mword m) = TEL_OBSERVING) \<Longrightarrow>
   (\<And>e. e \<in> set (mstarts m) \<Longrightarrow> permitted (mpblock m) e) \<Longrightarrow> motion_inv m"
  by (auto simp: motion_inv_def)

lemma and_not_or: "j AND NOT k = 0 \<Longrightarrow> (w AND NOT k OR n) AND j = n AND (j::u32)"
  by (simp add: bit_eq_iff bit_simps) blast

lemma phase_or [simp]:
  "phase (w OR BOP_EXPOSURE) = phase w" "phase (w AND - 8 OR TEL_PARKING) = TEL_PARKING"
  "phase (w AND - 16777224 OR TEL_PARKED) = TEL_PARKED" "phase 0 = 0"
proof -
  have "phase (w AND NOT TEL_MASK_MOVING OR TEL_PARKING) = TEL_PARKING"
    unfolding phase_def by (subst and_not_or) simp_all
  then show "phase (w AND - 8 OR TEL_PARKING) = TEL_PARKING" by simp
  have "phase (w AND NOT (TEL_MASK_MOVING OR BOP_EXPOSURE) OR TEL_PARKED) = TEL_PARKED"
    unfolding phase_def by (subst and_not_or) simp_all
  then show "phase (w AND - 16777224 OR TEL_PARKED) = TEL_PARKED" by simp
  show "phase (w OR BOP_EXPOSURE) = phase w" by (simp add: phase_def bit.conj_disj_distrib2)
qed (simp add: phase_def)

lemma phase_under_way [simp]: "v \<in> {0, TEL_CORRECTING} \<Longrightarrow> phase (TEL_MOVING OR BOP_EXPOSURE OR v) = TEL_MOVING"
  by (auto simp: phase_def)

lemma exposure_or: "(w OR BOP_EXPOSURE) AND BOP_EXPOSURE \<noteq> 0"
proof
  assume "(w OR BOP_EXPOSURE) AND BOP_EXPOSURE = 0"
  then have "bit ((w OR BOP_EXPOSURE) AND BOP_EXPOSURE) 24 = bit (0::u32) 24" by simp
  then show False by (simp add: bit_simps)
qed

lemma resync_result_inv: "resync_result m r m' \<Longrightarrow> motion_inv m \<Longrightarrow> motion_inv m'"
proof (erule resync_resultE, goal_cases)
  case (4 w v)
  then have "motion_inv ((tried w m)\<lparr>mword := TEL_MOVING OR BOP_EXPOSURE OR v\<rparr>)"
    by (intro motion_invI) (auto simp: motion_inv_def may_move_def permitted_def tried_def)
  then show ?case using 4 by simp
qed (auto simp: motion_inv_def may_move_def permitted_def tried_def)

lemma park_result_inv: "park_result m r m' \<Longrightarrow> motion_inv m \<Longrightarrow> motion_inv m'"
  by (erule park_resultE) (auto simp: motion_inv_def permitted_def)

lemma motion_step_inv: "motion_step l m m' \<Longrightarrow> motion_inv m \<Longrightarrow> motion_inv m'"
proof (erule motion_stepE, goal_cases)
  case (1 r)
  then show ?case by (blast intro: resync_result_inv)
next
  case (2 r)
  then show ?case by (blast intro: park_result_inv)
next
  case 5
  then show ?case by (auto simp: motion_inv_def)
next
  case 6
  then show ?case using exposure_or by (auto simp: motion_inv_def)
qed (auto simp: motion_inv_def)

lemma motion_steps_inv: "motion_steps l m m' \<Longrightarrow> motion_inv m \<Longrightarrow> motion_inv m'"
  by (induction rule: rtranclp_induct) (auto intro: motion_step_inv)

subsection \<open>The program follows the abstract telescope\<close>

lemma resync_steps: "motion_steps l (motion s) (motion (snd (startResyncMove d conn c ign s)))"
  by (rule one_step, rule start_move, rule startResyncMove_motion)

lemma park_steps: "motion_steps l (motion s) (motion (snd (startPark d conn s)))"
  by (rule one_step, rule start_park, rule startPark_motion)

lemma resync_from: "motion s = m \<Longrightarrow> motion_steps l m (motion (snd (startResyncMove d conn c ign s)))"
  using resync_steps by blast

lemma park_from: "motion s = m \<Longrightarrow> motion_steps l m (motion (snd (startPark d conn s)))"
  using park_steps by blast

lemma exposure_steps: "motion_steps l (motion s) (motion (tel_maskState BOP_EXPOSURE BOP_EXPOSURE s))"
proof -
  have "motion (tel_maskState BOP_EXPOSURE BOP_EXPOSURE s) = (motion s)\<lparr>mword := mword (motion s) OR BOP_EXPOSURE\<rparr>"
  proof -
    have "(x AND y AND NOT m) OR m = (x AND y) OR m" for x y m :: u32 by (simp add: bit_eq_iff bit_simps) blast
    moreover have "BOP_EXPOSURE AND MOTION_MASK = BOP_EXPOSURE" by simp
    ultimately show ?thesis unfolding motion_mask by (simp only: motion_sel)
  qed
  then show ?thesis using one_step [OF block_exposures, where m = "motion s"] by simp
qed

lemma reached_steps:
  assumes "moving_field s = TEL_MOVING"
  shows "motion_steps l (motion s) (motion (move_reached d s))"
proof -
  have p: "phase (mword (motion s)) = TEL_MOVING" using assms phase_moving [of s] by simp
  obtain r s1 where e: "endMove d (tel_info d s) = (r, s1)" by force
  have m1: "motion s1 = motion s" using motion_pair(3) [OF e] by simp
  define s3 where "s3 = s1\<lparr>moveCompleted := True\<rparr>"
  define s2 where "s2 = (if r \<noteq> 0 then move_error (failedMove s1)
      else if pending s3 then snd (startResyncMove d None (pending_mask s3) False s3)
      else tel_maskState (TEL_MASK_CORRECTING OR TEL_MASK_MOVING OR BOP_EXPOSURE) (TEL_NOT_CORRECTING OR TEL_OBSERVING) s3)"
  have m3: "motion s3 = (motion s)\<lparr>mcompleted := True\<rparr>" by (simp add: s3_def m1)
  have "motion (move_reached d s) = motion s2"
    by (simp only: move_reached_def e Let_def case_prod_conv s2_def [unfolded s3_def] motion_send_info motion_fields)
  moreover have "motion_steps l (motion s) (motion s2)"
  proof -
    consider "r \<noteq> 0" | "r = 0" "pending s3" | "r = 0" "\<not> pending s3" by blast
    then show ?thesis
    proof cases
      case 1
      then show ?thesis using one_step [OF fail [OF p]] m1 by (simp add: s2_def)
    next
      case 2
      have "resync_result (motion s3) (fst (startResyncMove d None (pending_mask s3) False s3)) (motion s2)"
        using 2 startResyncMove_motion [of s3] by (simp add: s2_def)
      then show ?thesis unfolding m3 by (intro one_step start_move [of _ "fst (startResyncMove d None (pending_mask s3) False s3)"])
          (rule resync_result_any)
    next
      case 3
      then have "motion s2 = (motion s)\<lparr>mcompleted := True, mword := 0\<rparr>"
        unfolding s2_def by (simp only: if_False not_False_eq_True simp_thms motion_observing m3)
      then show ?thesis using one_step [OF arrive [OF p]] by simp
    qed
  qed
  ultimately show ?thesis by simp
qed

lemma moving_steps:
  assumes "moving_field s = TEL_MOVING"
  shows "motion_steps l (motion s) (motion (check_moving d s))"
proof -
  obtain r s1 where o: "own (isMoving_m d) s = (r, s1)" by force
  have m1: "motion s1 = motion s" using motion_pair(2) [OF o] .
  have f1: "moving_field s1 = TEL_MOVING" using assms phase_moving [of s1] phase_moving [of s] arg_cong [OF m1, of mword] by simp
  have p: "phase (mword (motion s)) = TEL_MOVING" using assms phase_moving [of s] by simp
  consider "r \<ge> 0" | "r = -1" | "r = -2" | "r < -2" by linarith
  then show ?thesis
  proof cases
    case 1
    then have "motion (check_moving d s) = motion s"
      by (simp add: check_moving_def o still_moving_def Let_def m1)
    then show ?thesis by simp
  next
    case 2
    then have "motion (check_moving d s) = (motion s)\<lparr>mword := 0\<rparr>"
      by (simp add: check_moving_def o Let_def m1)
    then show ?thesis using one_step [OF fail [OF p]] by simp
  next
    case 3
    then show ?thesis using reached_steps [OF f1, where d = d] m1 by (simp add: check_moving_def o)
  next
    case 4
    then show ?thesis by (simp add: check_moving_def o m1)
  qed
qed

lemma motion_parked [simp]:
  "motion (park_error s) = (motion s)\<lparr>mword := (mword (motion s) AND NOT (TEL_MASK_MOVING OR BOP_EXPOSURE)) OR TEL_PARKED\<rparr>"
  "motion (tel_maskState (TEL_MASK_MOVING OR BOP_EXPOSURE) TEL_PARKED s)
   = (motion s)\<lparr>mword := (mword (motion s) AND NOT (TEL_MASK_MOVING OR BOP_EXPOSURE)) OR TEL_PARKED\<rparr>"
  by (simp_all add: park_error_def motion_mask and.assoc)

lemma parking_steps:
  assumes "moving_field s = TEL_PARKING"
  shows "motion_steps l (motion s) (motion (check_parking d s))"
proof -
  obtain r s1 where o: "own (isParking_m d) s = (r, s1)" by force
  have m1: "motion s1 = motion s" using motion_pair(2) [OF o] .
  have p: "phase (mword (motion s)) = TEL_PARKING" using assms phase_moving [of s] by simp
  let ?parked = "(motion s)\<lparr>mword := (mword (motion s) AND NOT (TEL_MASK_MOVING OR BOP_EXPOSURE)) OR TEL_PARKED\<rparr>"
  consider "r \<ge> 0" | "r = -1" | "r = -2" | "r < -2" by linarith
  then show ?thesis
  proof cases
    case 2
    then have "check_parking d s = (let s2 = park_error (tel_info d ((failedMove s1)\<lparr>useParkFlipping := False\<rparr>))
         in s2\<lparr>idleInterval := refreshIdle s2\<rparr>)" by (simp add: check_parking_def o)
    then have "motion (check_parking d s) = ?parked"
      by (simp only: Let_def motion_parked motion_fields motion_info motion_failed m1)
    then show ?thesis using one_step [OF park_end [OF p]] by simp
  next
    case 3
    obtain q s2 where e: "own (endPark_m d) (tel_info d (s1\<lparr>useParkFlipping := False\<rparr>)) = (q, s2)" by force
    have m2: "motion s2 = motion s" using motion_pair(2) [OF e] m1 by simp
    define s3 where "s3 = (if q \<noteq> 0 then park_error (failedMove s2) else tel_maskState (TEL_MASK_MOVING OR BOP_EXPOSURE) TEL_PARKED s2)"
    have "check_parking d s = (let s4 = send_info s3 in s4\<lparr>idleInterval := refreshIdle s4\<rparr>)"
      using 3 by (simp add: check_parking_def o e s3_def)
    then have "motion (check_parking d s) = motion s3" by (simp only: Let_def motion_fields motion_send_info)
    also have "motion s3 = ?parked"
      by (simp only: s3_def motion_parked motion_failed m2 if_distrib [of motion] if_cancel)
    finally have "motion (check_parking d s) = ?parked" .
    then show ?thesis using one_step [OF park_end [OF p]] by simp
  qed (simp_all add: check_parking_def o m1)
qed

lemma offseting_motion [simp]: "motion (check_offseting d s) = motion s"
proof -
  obtain r s1 where o: "own (isOffseting_m d) s = (r, s1)" by force
  then show ?thesis using motion_pair(2) [OF o] by (simp add: check_offseting_def o)
qed

lemma checkMoves_steps: "motion_steps l (motion s) (motion (checkMoves d s))"
  by (simp add: checkMoves_def moving_steps parking_steps)

lemma block_moves_steps: "(l \<longrightarrow> b) \<Longrightarrow> motion_steps l m (m\<lparr>mblocked := b\<rparr>)"
  by (rule one_step, rule block_moves)

lemma master_steps:
  assumes "l \<longrightarrow> new AND STOP_MASK = STOP_EVERYTHING \<and> (new AND SERVERD_ONOFF_MASK \<noteq> 0 \<or> old AND SERVERD_ONOFF_MASK = 0)"
  shows "motion_steps l (motion s) (motion (tel_changeMasterState d old new s))"
proof -
  define s1 where "s1 = (if telState s AND STOP_MASK \<noteq> STOP_EVERYTHING \<and> new AND STOP_MASK = STOP_EVERYTHING
       then stop_triggered d s
       else if old AND STOP_MASK = STOP_EVERYTHING \<and> new AND STOP_MASK \<noteq> STOP_EVERYTHING
       then s\<lparr>blockMove := False\<rparr> else s)"
  define s2 where "s2 = (if wants_park s1 new then snd (startPark d None s1) else s1)"
  have "motion_steps l (motion s) (motion s1)"
    using assms by (auto simp: s1_def stop_triggered_def intro: block_moves_steps)
  moreover have "motion_steps l (motion s1) (motion s2)" by (simp add: s2_def park_steps)
  moreover have "motion_steps l (motion s2) (motion (block_on_standby old new s2))"
    using assms by (auto simp: block_on_standby_def intro: block_moves_steps)
  moreover have "tel_changeMasterState d old new s = block_on_standby old new s2"
    by (simp only: tel_changeMasterState_def Let_def s1_def s2_def)
  ultimately show ?thesis by (metis more_steps)
qed

lemma bop_steps: "motion_steps l (motion s) (motion (tel_setFullBopState d w s))"
proof -
  define s1 where "s1 = temit (TBopOut (telState s) w) (s\<lparr>telBop := w\<rparr>)"
  have m1: "motion s1 = motion s" by (simp add: s1_def)
  have "tel_setFullBopState d w s = (if pending s1 \<and> w AND BOP_TEL_MOVE = 0
       then snd (startResyncMove d None (pending_mask s1) False s1) else s1)"
    by (simp only: tel_setFullBopState_def s1_def Let_def)
  then show ?thesis by (simp add: m1 resync_from del: motion_sel)
qed

lemma store_motion: "motion (store_value w s) = (case w of WBlockMove b \<Rightarrow> (motion s)\<lparr>mblocked := b\<rparr> | _ \<Rightarrow> motion s)"
  by (cases w) (simp_all add: motion_def)

lemma setValue_motion: "motion (snd (tel_setValue d w s)) = motion s"
  by (cases w) (simp_all split: prod.splits, metis motion_setTracking snd_conv)

lemma moveAltAz_steps: "motion_steps l (motion s) (motion (snd (moveAltAz d ign s)))"
  by (auto simp: moveAltAz_def intro: resync_from)

lemma valueChanged_steps: "motion_steps l (motion s) (motion (tel_valueChanged d w s))"
  by (cases w) (auto intro: resync_from exposure_steps moveAltAz_steps)

lemma write_steps:
  assumes "l \<longrightarrow> w \<noteq> WBlockMove False"
  shows "motion_steps l (motion s) (motion (snd (write_value d w s)))"
proof -
  obtain r s1 where v: "tel_setValue d w s = (r, s1)" by force
  then have m1: "motion s1 = motion s" using setValue_motion [of d w s] by simp
  have "motion_steps l (motion s) (motion (store_value w s1))"
    unfolding store_motion using assms by (cases w) (auto simp: m1 intro: block_moves_steps)
  then have "motion_steps l (motion s) (motion (tel_valueChanged d w (store_value w s1)))"
    using valueChanged_steps more_steps by blast
  then show ?thesis by (simp add: write_value_def v m1)
qed

lemma tracked_move_steps: "motion_steps l (motion s) (motion (snd (tracked_move d c s)))"
proof -
  obtain r s1 where v: "startResyncMove d (Some c) 0 False (snd (startTracking d True s)) = (r, s1)" by force
  then have "motion_steps l (motion s) (motion s1)"
    using resync_from [where s = "snd (startTracking d True s)" and m = "motion s" and conn = "Some c" and c = 0 and ign = False and d = d] by simp
  then show ?thesis by (simp add: tracked_move_def v)
qed

lemma tracked_from: "motion s = m \<Longrightarrow> motion_steps l m (motion (snd (tracked_move d c s)))"
  using tracked_move_steps by blast

lemma correct_steps: "motion_steps l (motion s) (motion (snd (correct d c k s)))"
proof -
  obtain r s1 where o: "own (applyCorrectionsFixed_m d (total_cor k)) s = (r, s1)" by force
  then have m1: "motion s1 = motion s" using motion_pair(2) by blast
  let ?s2 = "s1\<lparr>wcorrRaDec := set_dist (total_cor k) (wcorrRaDec s1), posErr := pos_err k,
                     wCorrImgId := img_id k, wCorrObsId := obs_id k\<rparr>"
  have "motion ?s2 = motion s" by (simp add: m1)
  then have "motion_steps l (motion s) (motion (tel_maskState BOP_EXPOSURE BOP_EXPOSURE ?s2))"
    using exposure_steps by metis
  then show ?thesis by (simp add: correct_def o m1 Let_def)
qed

lemma motion_setTo [simp]: "motion (snd (tel_setTo d c p s)) = motion s"
proof -
  obtain r s1 where o: "own (setTo_m d p) s = (r, s1)" by force
  then show ?thesis using motion_pair(2) [OF o] by (simp add: tel_setTo_def o)
qed

lemma snd_case: "motion (snd (case x of (r, s1) \<Rightarrow> (f r s1, g r s1))) = motion (g (fst x) (snd x))"
  by (simp add: case_prod_beta)

lemma command_steps: "motion_steps l (motion s) (motion (snd (tel_commandAuthorized d c x s)))"
proof (cases x)
  case (Move m p e pm)
  then show ?thesis by (auto simp: move_to_def intro: tracked_from)
next
  case (HaDec p)
  then show ?thesis by (auto simp: move_to_def intro: tracked_from)
next
  case (MoveMpec str)
  then show ?thesis by (auto simp: Let_def intro: tracked_from)
next
  case (AltAz nc p)
  have "motion (stopTracking d True (resetMpecTLE (s\<lparr>tarAltAz := p\<rparr>))) = motion s" by simp
  then show ?thesis
    using AltAz moveAltAz_steps [where s = "stopTracking d True (resetMpecTLE (s\<lparr>tarAltAz := p\<rparr>))" and d = d and ign = nc] by (simp add: snd_case)
next
  case (Resync p)
  then show ?thesis by (auto intro: resync_from)
next
  case (Correct k)
  then show ?thesis by (simp add: correct_steps)
next
  case Park
  then show ?thesis by (auto intro: park_from)
next
  case Stop
  then show ?thesis by (simp add: case_prod_beta)
next
  case (Change p)
  then show ?thesis by (auto intro: resync_from)
qed (simp_all add: snd_case)

text \<open>Events after which moves that were blocked are still blocked: no client and no change of the central server's state lifts the block.\<close>

fun keeps_block :: "'h tel_event \<Rightarrow> bool" where
  "keeps_block (TWrite w) \<longleftrightarrow> w \<noteq> WBlockMove False"
| "keeps_block (TMaster old new) \<longleftrightarrow>
     new AND STOP_MASK = STOP_EVERYTHING \<and> (new AND SERVERD_ONOFF_MASK \<noteq> 0 \<or> old AND SERVERD_ONOFF_MASK = 0)"
| "keeps_block _ \<longleftrightarrow> True"

lemma tel_step_simulated: "(l \<longrightarrow> keeps_block e) \<Longrightarrow> motion_steps l (motion s) (motion (tel_step d e s))"
  by (cases e) (auto simp: command_steps write_steps bop_steps master_steps checkMoves_steps)

lemma tel_run_simulated:
  "(l \<longrightarrow> list_all keeps_block es) \<Longrightarrow> motion_steps l (motion s) (motion (run_steps (tel_step d) es s))"
proof (induction es arbitrary: s)
  case (Cons e es)
  then have "motion_steps l (motion (tel_step d e s)) (motion (run_steps (tel_step d) es (tel_step d e s)))" by simp
  moreover have "motion_steps l (motion s) (motion (tel_step d e s))" using Cons.prems by (intro tel_step_simulated) simp
  ultimately show ?case using more_steps by simp
qed simp

lemma blocked_step: "motion_step True m m' \<Longrightarrow> mblocked m \<Longrightarrow> mblocked m' \<and> mstarts m' = mstarts m"
  by (erule motion_stepE) (auto simp: may_move_def elim: resync_resultE park_resultE)

lemma blocked_steps: "motion_steps True m m' \<Longrightarrow> mblocked m \<Longrightarrow> mblocked m' \<and> mstarts m' = mstarts m"
  by (induction rule: rtranclp_induct) (auto dest: blocked_step)

definition tel_inv :: "'h tel \<Rightarrow> bool" where
  "tel_inv s \<longleftrightarrow> motion_inv (motion s)"

interpretation telescope: invariant_system tel_inv "\<lambda>e s. True" "tel_step d"
  using tel_step_simulated [of False] motion_steps_inv unfolding tel_inv_def by unfold_locales blast+

lemma new_tel_inv: "tel_inv (new_tel h track diff pblock p lat)"
  by (simp add: tel_inv_def motion_inv_def new_tel_def phase_def)

lemma run_tel_inv: "tel_inv s \<Longrightarrow> tel_inv (run_steps (tel_step d) es s)"
  by (rule telescope.inv_run) simp_all

end
