(* ===== verification/TelescopeAim.thy ===== *)
theory TelescopeAim
  imports TelescopeOps
begin

section \<open>Where a telescope points\<close>

text \<open>
  The correction from astrometry that is applied (\<open>CORR\<close>), the one that waits (\<open>wcorr\<close>), the
  offsets that wait (\<open>woffs\<close>) and the target: the operations that leave them alone, and what
  the start of a move does with them. A correction is applied at most once, and a move that fails
  takes it back.
\<close>

record aim =
  acorr :: pos
  aimg :: "int \<times> int"
  awcorr :: radec
  awoffs :: radec
  aori :: radec
  ampec :: string

definition aim_of :: "'h tel \<Rightarrow> aim" where
  "aim_of s = \<lparr>acorr = pos_of (corrRaDec s), aimg = (corrImgId s, corrObsId s), awcorr = wcorrRaDec s,
     awoffs = woffsRaDec s, aori = oriRaDec s, ampec = mpec s\<rparr>"

lemma aim_sel [simp]:
  "acorr (aim_of s) = pos_of (corrRaDec s)" "aimg (aim_of s) = (corrImgId s, corrObsId s)" "awcorr (aim_of s) = wcorrRaDec s"
  "awoffs (aim_of s) = woffsRaDec s" "aori (aim_of s) = oriRaDec s" "ampec (aim_of s) = mpec s"
  by (simp_all add: aim_of_def)

lemma aim_fields [simp]:
  "aim_of (s\<lparr>useParkFlipping := b\<rparr>) = aim_of s" "aim_of (s\<lparr>targetReached := t\<rparr>) = aim_of s"
  "aim_of (s\<lparr>targetStarted := u\<rparr>) = aim_of s" "aim_of (s\<lparr>tracking := v\<rparr>) = aim_of s"
  "aim_of (s\<lparr>trackingTimer := b\<rparr>) = aim_of s" "aim_of (s\<lparr>nextCupSync := i\<rparr>) = aim_of s"
  "aim_of (s\<lparr>move_connection := c\<rparr>) = aim_of s" "aim_of (s\<lparr>idleInterval := i\<rparr>) = aim_of s"
  "aim_of (s\<lparr>ttimeout := i\<rparr>) = aim_of s" "aim_of (s\<lparr>moveInfoCount := i\<rparr>) = aim_of s"
  "aim_of (s\<lparr>flip_move_start := i\<rparr>) = aim_of s" "aim_of (s\<lparr>tarAltAz := p\<rparr>) = aim_of s"
  "aim_of (s\<lparr>objRaDec := r\<rparr>) = aim_of s" "aim_of (s\<lparr>tarRaDec := r\<rparr>) = aim_of s"
  "aim_of (s\<lparr>thw := h\<rparr>) = aim_of s" "aim_of (s\<lparr>telRaDec := r\<rparr>) = aim_of s"
  "aim_of (s\<lparr>telAltAz := p\<rparr>) = aim_of s" "aim_of (s\<lparr>telFlip := i\<rparr>) = aim_of s"
  "aim_of (s\<lparr>tnow := i\<rparr>) = aim_of s" "aim_of (s\<lparr>telBop := w\<rparr>) = aim_of s"
  "aim_of (s\<lparr>moveCompleted := b\<rparr>) = aim_of s" "aim_of (s\<lparr>useOEpoch := b\<rparr>) = aim_of s"
  "aim_of (s\<lparr>trackingNum := i\<rparr>) = aim_of s"
  by (simp_all add: aim_of_def)

lemma aim_emit [simp]: "aim_of (temit e s) = aim_of s"
  by (simp add: aim_of_def temit_def)

lemma aim_own [simp]: "aim_of (snd (own f s)) = aim_of s"
  by (simp add: own_def aim_of_def split: prod.splits)

lemma aim_stopMove [simp]: "aim_of (snd (stopMove d s)) = aim_of s"
  by (simp add: stopMove_def)

lemma aim_pair: "stopMove d s = (r, s1) \<Longrightarrow> aim_of s1 = aim_of s" "own f s = (r, s1) \<Longrightarrow> aim_of s1 = aim_of s"
  by (metis aim_stopMove snd_conv) (metis aim_own snd_conv)

lemma aim_end [simp]: "aim_of (tel_end c code s) = aim_of s"
  by (simp add: tel_end_def split: option.splits)

lemma aim_ignore [simp]: "aim_of (setIgnoreHorizon b s) = aim_of s"
  by (simp add: setIgnoreHorizon_def aim_of_def split: option.splits)

lemma aim_mask [simp]: "aim_of (tel_maskState m n s) = aim_of s"
  by (simp add: tel_maskState_def tel_setState_def temit_def aim_of_def)

lemma aim_masks [simp]: "aim_of (move_error s) = aim_of s" "aim_of (park_error s) = aim_of s" "aim_of (mask_start c s) = aim_of s"
  by (simp_all add: move_error_def park_error_def mask_start_def Let_def)

lemma aim_cupola [simp]: "aim_of (startCupolaSync s) = aim_of s" "aim_of (runTracking s) = aim_of s"
  by (simp_all add: startCupolaSync_def runTracking_def Let_def)

lemma aim_setTracking [simp]: "aim_of (snd (setTracking d t b m s)) = aim_of s"
proof -
  obtain r s0 where o: "own (setTracking_m d t) s = (r, s0)" by force
  then show ?thesis using aim_pair(2) [OF o] by (simp add: setTracking_def o Let_def)
qed

lemma aim_tracking [simp]:
  "aim_of (snd (startTracking d c s)) = aim_of s" "aim_of (stopTracking d m s) = aim_of s" "aim_of (tracking_timer s) = aim_of s"
  by (simp_all add: startTracking_def stopTracking_def tracking_timer_def Let_def split: option.splits)

lemma aim_info [simp]: "aim_of (tel_info d s) = aim_of s"
  by (simp add: tel_info_def abortMoveTracking_def Let_def split: prod.splits)

lemma aim_failed [simp]: "aim_of (failedMove s) = aim_of s"
  by (simp add: failedMove_def aim_of_def)

lemma aim_send_info [simp]: "aim_of (send_info s) = aim_of s"
  by (simp add: send_info_def split: option.splits)

lemma aim_endMove [simp]: "aim_of (snd (endMove d s)) = aim_of s"
proof -
  obtain r s0 where o: "own (endMove_m d) s = (r, s0)" by force
  then show ?thesis using aim_pair(2) [OF o] by (simp add: endMove_def o)
qed

lemma aim_check [simp]: "aim_of (still_moving d t s) = aim_of s" "aim_of (check_offseting d s) = aim_of s" "aim_of (check_parking d s) = aim_of s"
proof -
  show "aim_of (still_moving d t s) = aim_of s" by (simp add: still_moving_def Let_def)
  obtain r s1 where o: "own (isOffseting_m d) s = (r, s1)" by force
  then show "aim_of (check_offseting d s) = aim_of s" using aim_pair(2) [OF o] by (simp add: check_offseting_def o)
  obtain q s2 where p: "own (isParking_m d) s = (q, s2)" by force
  obtain t s3 where e: "own (endPark_m d) (tel_info d (s2\<lparr>useParkFlipping := False\<rparr>)) = (t, s3)" by force
  show "aim_of (check_parking d s) = aim_of s"
    using aim_pair(2) [OF p] aim_pair(2) [OF e] by (simp add: check_parking_def p e Let_def)
qed

subsection \<open>Normalized distances\<close>

lemma dist180_idem [simp]: "dist180 (dist180 a) = dist180 a"
proof (cases a)
  case (Angle x)
  let ?r = "x mod FULL_CIRCLE"
  have "0 \<le> ?r" "?r < FULL_CIRCLE" by simp_all
  then have "(?r - FULL_CIRCLE) mod FULL_CIRCLE = ?r" by (simp add: mod_pos_pos_trivial flip: mod_add_self2 [of "?r - FULL_CIRCLE" FULL_CIRCLE])
  then show ?thesis using Angle by (simp add: Let_def)
qed simp

lemma dist_pos_idem [simp]: "dist_pos (dist_pos p) = dist_pos p"
  by (simp add: dist_pos_def)

lemma pos_set_radec [simp]: "pos_of (set_radec p v) = p"
  by (simp add: pos_of_def set_radec_def)

lemma pos_set_dist [simp]: "pos_of (set_dist p v) = dist_pos p"
  by (simp add: set_dist_def dist_pos_def)

lemma zero_radec_sel [simp]: "chg (zero_radec v) = False" "pos_of (zero_radec v) = (0, 0)"
  by (simp_all add: zero_radec_def resetValueChanged_def pos_of_def set_radec_def)

lemma reset_sel [simp]: "chg (resetValueChanged v) = False" "pos_of (resetValueChanged v) = pos_of v"
  by (simp_all add: resetValueChanged_def pos_of_def)

definition add_pos :: "pos \<Rightarrow> pos \<Rightarrow> pos" where
  "add_pos p q = (fst p + fst q, snd p + snd q)"

lemma pos_inc_dist [simp]: "pos_of (inc_dist p v) = dist_pos (add_pos (pos_of v) p)"
  by (simp add: inc_dist_def add_pos_def pos_of_def)
    (simp add: set_dist_def set_radec_def dist_pos_def pos_of_def)

subsection \<open>The start of a move\<close>

text \<open>
  Outcomes of \<open>resync_move\<close>: the mount moves and nothing waits any more; or it does not, and at most
  the target is forgotten.
\<close>

definition aim_settled :: "aim \<Rightarrow> aim \<Rightarrow> bool" where
  "aim_settled a b \<longleftrightarrow>
     acorr b = acorr a \<and> aimg b = aimg a \<and> \<not> chg (awcorr b) \<and> \<not> chg (awoffs b) \<and> \<not> chg (aori b)
     \<and> pos_of (aori b) = pos_of (aori a) \<and> ampec b = ampec a
     \<and> pos_of (awcorr b) \<in> {dist_pos (0, 0), pos_of (awcorr a)} \<and> pos_of (awoffs b) = pos_of (awoffs a)"

definition aim_kept :: "aim \<Rightarrow> aim \<Rightarrow> bool" where
  "aim_kept a b \<longleftrightarrow> b = a \<or> (\<exists>v. null_pos (pos_of v) \<and> b = a\<lparr>aori := v\<rparr>)"

lemma cannot_perform_aim: "aim_kept (aim_of s) (aim_of (cannot_perform d s))"
proof -
  have "aim_of (cannot_perform d s) = (aim_of s)\<lparr>aori := set_radec (NaN, NaN) (oriRaDec s)\<rparr>"
    by (simp add: cannot_perform_def Let_def) (simp add: aim_of_def setOri_def)
  moreover have "null_pos (pos_of (set_radec (NaN, NaN) (oriRaDec s)))" by (simp add: null_pos_def)
  ultimately show ?thesis unfolding aim_kept_def by blast
qed

lemma reset_flags_aim: "aim_settled (aim_of s) (aim_of (reset_flags s))"
  by (simp add: aim_settled_def reset_flags_def)

lemma resync_mount_aim:
  assumes "resync_mount d conn c hrz tp s = (r, s')"
  shows "(r = 0 \<and> aim_settled (aim_of s) (aim_of s')) \<or> (r \<noteq> 0 \<and> aim_kept (aim_of s) (aim_of s'))"
proof -
  define s0 where "s0 = mask_start c s"
  obtain q s1 where o: "own (startResync_m d) (temit (StartMove (blockMove s0) (is_good d s0 hrz \<and> \<not> dec_limited s0 tp) (telState s)) s0)
     = (q, s1)" by force
  have m: "aim_of s1 = aim_of s" using aim_pair(2) [OF o] by (simp add: s0_def)
  show ?thesis
  proof (cases "q = 0")
    case True
    define s2 where "s2 = startCupolaSync ((tel_info d (s1\<lparr>targetStarted := Some (tnow s1),
       targetReached := Some (tnow s1 + estimateTargetTime_m d s1)\<rparr>))\<lparr>nextCupSync := 0\<rparr>)"
    have "r = 0" "aim_of s' = aim_of (reset_flags s2)"
      using assms True by (simp_all add: resync_mount_def s0_def [symmetric] o s2_def Let_def) auto
    moreover have "aim_of s2 = aim_of s" by (simp add: s2_def m)
    ultimately show ?thesis using reset_flags_aim [of s2] by simp
  next
    case False
    then have "r = -1" "aim_of s' = aim_of s" using assms m by (auto simp: resync_mount_def s0_def [symmetric] o Let_def)
    then show ?thesis by (simp add: aim_kept_def)
  qed
qed

lemma resync_move_aim:
  assumes "resync_move d conn c hrz tp s = (r, s')"
  shows "(r = 0 \<and> aim_settled (aim_of s) (aim_of s')) \<or> (r \<noteq> 0 \<and> aim_kept (aim_of s) (aim_of s'))"
proof (cases "move_blocked s")
  case True
  then show ?thesis using assms by (auto simp: resync_move_blocked aim_kept_def)
next
  case False
  obtain q s1 where st: "(if must_stop s then stopMove d s else (0, s)) = (q, s1)" by force
  have m: "aim_of s1 = aim_of s" using st by (cases "must_stop s") (auto dest: aim_pair)
  note e = assms [unfolded resync_move_free [OF False st]]
  consider "q \<noteq> 0" | "q = 0" "\<not> is_good d s1 hrz \<or> dec_limited s1 tp"
    | "q = 0" "is_good d s1 hrz \<and> \<not> dec_limited s1 tp" by blast
  then show ?thesis
  proof cases
    case 1
    then show ?thesis using e m by (auto simp: aim_kept_def)
  next
    case 2
    then show ?thesis using e m cannot_perform_aim [of s1 d] by auto
  next
    case 3
    then show ?thesis using e m resync_mount_aim [of d conn c hrz tp s1 r s'] by simp
  qed
qed

definition known_target :: "'h tel \<Rightarrow> bool" where
  "known_target s \<longleftrightarrow> mpec s = [] \<and> (null_pos (pos_of (oriRaDec s)) \<or> \<not> chg (oriRaDec s))"

lemma resync_origin_aim: "mpec s = [] \<Longrightarrow> aim_of (resync_origin d ign s) = aim_of s"
proof -
  assume "mpec s = []"
  moreover have "mpec (setIgnoreHorizon ign (s\<lparr>moveCompleted := False, useOEpoch := True\<rparr>)) = mpec s"
    by (simp add: setIgnoreHorizon_def split: option.splits)
  ultimately show ?thesis by (simp add: resync_origin_def Let_def)
qed

lemma apply_wcorr_aim:
  "aim_of (apply_wcorr s) = (if chg (wcorrRaDec s)
     then (aim_of s)\<lparr>acorr := dist_pos (add_pos (pos_of (corrRaDec s)) (pos_of (wcorrRaDec s))), aimg := (wCorrImgId s, wCorrObsId s)\<rparr>
     else aim_of s)"
  by (simp add: apply_wcorr_def aim_of_def)

lemma resync_target_aim: "resync_target d s = (hrz, tp, s') \<Longrightarrow> aim_of s' = aim_of s"
  by (auto simp: resync_target_def Let_def aim_of_def split: prod.splits)

lemma rollback_aim:
  "aim_of (rollback b s) = (if chg (wcorrRaDec b)
     then (aim_of s)\<lparr>acorr := dist_pos (pos_of (corrRaDec b)), aimg := (corrImgId b, corrObsId b), awcorr := zero_radec (wcorrRaDec s)\<rparr>
     else aim_of s)"
  by (simp add: rollback_def aim_of_def)

text \<open>
  What a start of a move does with corrections: \<open>c\<close> is the correction applied, \<open>w\<close> the one that waits.
\<close>

lemma startResyncMove_aim:
  assumes "known_target s" "startResyncMove d conn k ign s = (r, s')"
    and "pos_of (corrRaDec s) = dist_pos (pos_of (corrRaDec s))"
  shows "known_target s'"
    and "r \<noteq> 0 \<Longrightarrow> pos_of (corrRaDec s') = pos_of (corrRaDec s) \<and> corrImgId s' = corrImgId s \<and> corrObsId s' = corrObsId s
      \<and> (chg (wcorrRaDec s') \<longrightarrow> null_pos (pos_of (oriRaDec s)) \<and> wcorrRaDec s' = wcorrRaDec s)"
    and "r = 0 \<Longrightarrow> \<not> chg (wcorrRaDec s') \<and> \<not> chg (woffsRaDec s') \<and> pos_of (corrRaDec s') =
      (if chg (wcorrRaDec s) then dist_pos (add_pos (pos_of (corrRaDec s)) (pos_of (wcorrRaDec s))) else pos_of (corrRaDec s))"
proof -
  define s1 where "s1 = resync_origin d ign s"
  have a1: "aim_of s1 = aim_of s" using assms(1) by (simp add: s1_def known_target_def resync_origin_aim)
  note f1 = arg_cong [OF a1, of acorr] arg_cong [OF a1, of aimg] arg_cong [OF a1, of awcorr] arg_cong [OF a1, of aori]
    arg_cong [OF a1, of ampec]
  have "known_target s' \<and> (r \<noteq> 0 \<longrightarrow> pos_of (corrRaDec s') = pos_of (corrRaDec s) \<and> corrImgId s' = corrImgId s \<and> corrObsId s' = corrObsId s
      \<and> (chg (wcorrRaDec s') \<longrightarrow> null_pos (pos_of (oriRaDec s)) \<and> wcorrRaDec s' = wcorrRaDec s))
     \<and> (r = 0 \<longrightarrow> \<not> chg (wcorrRaDec s') \<and> \<not> chg (woffsRaDec s') \<and> pos_of (corrRaDec s') =
      (if chg (wcorrRaDec s) then dist_pos (add_pos (pos_of (corrRaDec s)) (pos_of (wcorrRaDec s))) else pos_of (corrRaDec s)))"
  proof (cases "null_pos (pos_of (oriRaDec s1))")
    case True
    then have "r = -1" "aim_of s' = aim_of s"
      using assms(2) a1 by (auto simp: startResyncMove_def s1_def [symmetric] Let_def)
    moreover have "null_pos (pos_of (oriRaDec s))" using True f1 by simp
    ultimately show ?thesis using assms(1) unfolding known_target_def aim_of_def by auto
  next
    case False
    obtain hrz tp s3 where t: "resync_target d (apply_wcorr s1) = (hrz, tp, s3)" by (metis prod_cases3)
    obtain s4 where v: "resync_move d conn k hrz tp s3 = (r, s4)" and s': "s' = (if r \<noteq> 0 then rollback s1 s4 else s4)"
    proof -
      have n: "\<not> new_target s1" using assms(1) False f1 by (simp add: new_target_def known_target_def)
      obtain q u where "resync_move d conn k hrz tp s3 = (q, u)" by force
      then show thesis using that assms(2) False n t
        by (simp add: startResyncMove_def s1_def [symmetric] Let_def split: if_splits)
    qed
    have a3: "aim_of s3 = aim_of (apply_wcorr s1)" using resync_target_aim [OF t] .
    show ?thesis
    proof (cases "r = 0")
      case True
      then have "aim_settled (aim_of s3) (aim_of s')" using resync_move_aim [OF v] s' by simp
      then show ?thesis using True a3 f1 assms(1) False
        by (simp add: aim_settled_def apply_wcorr_aim known_target_def split: if_splits)
    next
      case False
      then have "aim_kept (aim_of s3) (aim_of s4)" using resync_move_aim [OF v] by simp
      moreover have "aim_of s' = aim_of (rollback s1 s4)" using False s' by simp
      ultimately show ?thesis using False a3 f1 assms(1,3)
        unfolding rollback_aim known_target_def aim_kept_def apply_wcorr_aim
        by (simp add: aim_of_def split: if_splits) auto
    qed
  qed
  then show "known_target s'"
    and "r \<noteq> 0 \<Longrightarrow> pos_of (corrRaDec s') = pos_of (corrRaDec s) \<and> corrImgId s' = corrImgId s \<and> corrObsId s' = corrObsId s
      \<and> (chg (wcorrRaDec s') \<longrightarrow> null_pos (pos_of (oriRaDec s)) \<and> wcorrRaDec s' = wcorrRaDec s)"
    and "r = 0 \<Longrightarrow> \<not> chg (wcorrRaDec s') \<and> \<not> chg (woffsRaDec s') \<and> pos_of (corrRaDec s') =
      (if chg (wcorrRaDec s) then dist_pos (add_pos (pos_of (corrRaDec s)) (pos_of (wcorrRaDec s))) else pos_of (corrRaDec s))"
    by blast+
qed

subsection \<open>Bounds\<close>

text \<open>Corrections and offsets that wait are distances: at most half a circle.\<close>

definition dist_ok :: "'h tel \<Rightarrow> bool" where
  "dist_ok s \<longleftrightarrow>
     dist_pos (pos_of (corrRaDec s)) = pos_of (corrRaDec s) \<and> dist_pos (pos_of (wcorrRaDec s)) = pos_of (wcorrRaDec s)
     \<and> dist_pos (pos_of (woffsRaDec s)) = pos_of (woffsRaDec s)"

lemma dist_ok_cong: "aim_of s' = aim_of s \<Longrightarrow> dist_ok s' = dist_ok s"
  by (simp add: dist_ok_def aim_of_def)

lemma dist_zero [simp]: "dist_pos (0, 0) = (0, 0)"
  by (simp add: dist_pos_def zero_angle_def)

lemma dist180_bound: "dist180 a = Angle x \<Longrightarrow> - (FULL_CIRCLE div 2) < x \<and> x \<le> FULL_CIRCLE div 2"
proof (cases a)
  case (Angle y)
  assume d: "dist180 a = Angle x"
  have "0 \<le> y mod FULL_CIRCLE" "y mod FULL_CIRCLE < FULL_CIRCLE" by simp_all
  then show ?thesis using d Angle by (auto simp: Let_def split: if_splits)
qed simp

lemma incMoveNum_dist [simp]: "dist_ok (incMoveNum s)"
  by (simp add: incMoveNum_def dist_ok_def Let_def)

lemma resync_origin_dist: "dist_ok (resync_origin d ign s) = dist_ok s"
  by (simp add: resync_origin_def setOri_def setIgnoreHorizon_def dist_ok_def Let_def split: option.splits)

lemma dist_setOri [simp]: "dist_ok (setOri p e pm s) = dist_ok s" "dist_ok (resetMpecTLE s) = dist_ok s"
  "dist_ok (forget_target s) = dist_ok s"
  by (simp_all add: setOri_def resetMpecTLE_def forget_target_def dist_ok_def)

lemma dist_keep [simp]:
  "dist_ok (snd (startTracking d b s)) = dist_ok s" "dist_ok (stopTracking d b s) = dist_ok s"
  "dist_ok (tel_end c code s) = dist_ok s" "dist_ok (temit e s) = dist_ok s" "dist_ok (tel_maskState m n s) = dist_ok s"
  "dist_ok (snd (stopMove d s)) = dist_ok s" "dist_ok (snd (own f s)) = dist_ok s" "dist_ok (tel_info d s) = dist_ok s"
  "dist_ok (snd (setTracking d t b mm s)) = dist_ok s" "dist_ok (send_info s) = dist_ok s"
  "dist_ok (move_error s) = dist_ok s" "dist_ok (failedMove s) = dist_ok s"
  by (rule dist_ok_cong; simp)+

lemma dist_fields [simp]:
  "dist_ok (s\<lparr>tarAltAz := p\<rparr>) = dist_ok s" "dist_ok (s\<lparr>calModel := b\<rparr>) = dist_ok s" "dist_ok (s\<lparr>useParkFlipping := b\<rparr>) = dist_ok s"
  "dist_ok (s\<lparr>moveCompleted := b\<rparr>) = dist_ok s" "dist_ok (s\<lparr>mountParkTime := t\<rparr>) = dist_ok s"
  "dist_ok (s\<lparr>idleInterval := i\<rparr>) = dist_ok s" "dist_ok (s\<lparr>mpec := str\<rparr>) = dist_ok s" "dist_ok (s\<lparr>mpecChanged := b\<rparr>) = dist_ok s"
  "dist_ok (s\<lparr>offsRaDec := r\<rparr>) = dist_ok s" "dist_ok (s\<lparr>blockMove := b\<rparr>) = dist_ok s" "dist_ok (s\<lparr>telBop := w\<rparr>) = dist_ok s"
  "dist_ok (s\<lparr>move_connection := c\<rparr>) = dist_ok s" "dist_ok (s\<lparr>oriRaDec := r\<rparr>) = dist_ok s"
  "dist_ok (s\<lparr>tle_freeze := b\<rparr>) = dist_ok s"
  by (simp_all add: dist_ok_def)

lemma dist_pair: "stopMove d s = (r, s1) \<Longrightarrow> dist_ok s1 = dist_ok s" "own f s = (r, s1) \<Longrightarrow> dist_ok s1 = dist_ok s"
  "endMove d s = (r, s1) \<Longrightarrow> dist_ok s1 = dist_ok s"
  by (metis aim_pair(1) dist_ok_cong) (metis aim_pair(2) dist_ok_cong, metis aim_endMove dist_ok_cong snd_conv)

lemma startResyncMove_dist:
  assumes "dist_ok s"
  shows "dist_ok (snd (startResyncMove d conn k ign s))"
proof -
  define s1 where "s1 = resync_origin d ign s"
  define s2 where "s2 = (if new_target s1 then incMoveNum s1 else s1)"
  have ok1: "dist_ok s1" using assms by (simp add: s1_def resync_origin_dist)
  then have ok2: "dist_ok s2" by (simp add: s2_def)
  obtain hrz tp s3 where t: "resync_target d (apply_wcorr s2) = (hrz, tp, s3)" by (metis prod_cases3)
  obtain r s4 where v: "resync_move d conn k hrz tp s3 = (r, s4)" by force
  have "dist_ok (apply_wcorr s2)" using ok2 by (simp add: dist_ok_def apply_wcorr_def)
  then have ok3: "dist_ok s3" using dist_ok_cong [OF resync_target_aim [OF t]] by simp
  have ok4: "dist_ok s4"
    using resync_move_aim [OF v] ok3 by (auto simp: aim_settled_def aim_kept_def aim_of_def dist_ok_def)
  have "dist_ok (rollback s2 s4)" using ok4 by (simp add: rollback_def dist_ok_def)
  then show ?thesis using ok1 ok4
    by (simp add: startResyncMove_def s1_def [symmetric] s2_def [symmetric] t v Let_def)
qed

lemma startPark_dist:
  assumes "dist_ok s"
  shows "dist_ok (snd (startPark d conn s))"
proof -
  have pm: "dist_ok (snd (park_mount d conn u))" if "dist_ok u" for u
  proof -
    define s1 where "s1 = (stopTracking d True (u\<lparr>useParkFlipping := True\<rparr>))\<lparr>moveCompleted := False\<rparr>"
    obtain r s2 where o: "own (startPark_m d) (temit (StartPark (blockMove s1)) s1) = (r, s2)" by force
    have "dist_ok s2" using dist_pair(2) [OF o] that by (simp add: s1_def)
    then show ?thesis by (simp add: park_mount_def s1_def [symmetric] o Let_def)
  qed
  define s1 where "s1 = tel_maskState (TEL_MASK_TRACK OR TEL_MASK_OFFSETING OR TEL_MASK_UNSTABLE)
                   (TEL_NOTRACK OR TEL_NO_OFFSETING OR TEL_STABLE) (resetMpecTLE s)"
  obtain r s2 where st: "(if moving_field s1 = TEL_MOVING then stopMove d s1 else (0, s1)) = (r, s2)" by force
  have "dist_ok s1" using assms by (simp add: s1_def)
  then have "dist_ok s2" using st by (auto dest: dist_pair split: if_splits)
  then have p2: "dist_ok (snd (park_mount d conn s2))" "dist_ok s2" by (simp_all add: pm)
  show ?thesis
  proof (cases "moving_field s = TEL_PARKING \<or> blockMove s")
    case True
    then show ?thesis using assms by (auto simp: startPark_def)
  next
    case False
    then have "startPark d conn s = (if r \<noteq> 0 then (-1, tel_end conn DEVDEM_E_HW s2) else park_mount d conn s2)"
      using st unfolding startPark_def s1_def [symmetric] Let_def by simp
    then show ?thesis using p2 by simp
  qed
qed

end
