(* ===== verification/TelescopeEval.thy ===== *)
theory TelescopeEval
  imports TelescopeSteps TelescopeAim
begin

text \<open>
  Code equations of the operations of the telescope, proved equal to their definitions, which evaluate step
  by step: \<open>code_simp\<close> visits the state once for each step and not once for each place of it in a body.
\<close>

section \<open>Parking\<close>

lemma forget_target_code [code]:
  "forget_target s =
     tarAltAz_update (\<lambda>_. (NaN, NaN))
       (oriRaDec_update (\<lambda>c. resetValueChanged (set_radec (NaN, NaN) c))
         (telTargetRaDec_update (\<lambda>c. resetValueChanged (set_radec (NaN, NaN) c))
           (tarRaDec_update (\<lambda>c. resetValueChanged (set_radec (NaN, NaN) c)) s)))"
  unfolding forget_target_def by simp

definition park_begin :: "'h mount \<Rightarrow> 'h tel \<Rightarrow> int \<times> 'h tel" where
  "park_begin d s1 = own (startPark_m d) (temit (StartPark (blockMove s1)) s1)"

definition park_mask :: "'h tel \<Rightarrow> 'h tel" where
  "park_mask s3 =
     tel_maskState (TEL_MASK_MOVING OR TEL_MASK_TRACK OR TEL_MASK_NEED_STOP) TEL_PARKING (s3\<lparr>mountParkTime := Some (tnow s3)\<rparr>)"

definition refresh_slew :: "'h tel \<Rightarrow> 'h tel" where
  "refresh_slew s4 = s4\<lparr>idleInterval := refreshSlew s4\<rparr>"

definition park_started :: "nat option \<Rightarrow> int \<Rightarrow> 'h tel \<Rightarrow> int \<times> 'h tel" where
  "park_started conn r s2 =
     (if r < 0 then (-1, tel_end conn DEVDEM_E_HW (s2\<lparr>useParkFlipping := False\<rparr>))
      else (0, refresh_slew (park_mask (incMoveNum (if r = 0 then forget_target s2 else s2)))))"

lemma park_mount_code [code]:
  "park_mount d conn s =
     case_prod (park_started conn)
       (park_begin d (moveCompleted_update (\<lambda>_. False) (stopTracking d True (useParkFlipping_update (\<lambda>_. True) s))))"
  by (simp add: park_mount_def park_started_def park_begin_def park_mask_def refresh_slew_def Let_def split: prod.split)

definition park_clear :: "'h tel \<Rightarrow> 'h tel" where
  "park_clear s =
     tel_maskState (TEL_MASK_TRACK OR TEL_MASK_OFFSETING OR TEL_MASK_UNSTABLE)
       (TEL_NOTRACK OR TEL_NO_OFFSETING OR TEL_STABLE) (resetMpecTLE s)"

definition stop_if :: "bool \<Rightarrow> 'h mount \<Rightarrow> 'h tel \<Rightarrow> int \<times> 'h tel" where
  "stop_if b d s1 = (if b then stopMove d s1 else (0, s1))"

definition stop_moving :: "'h mount \<Rightarrow> 'h tel \<Rightarrow> int \<times> 'h tel" where
  "stop_moving d s1 = stop_if (moving_field s1 = TEL_MOVING) d s1"

definition park_stopped :: "'h mount \<Rightarrow> nat option \<Rightarrow> int \<Rightarrow> 'h tel \<Rightarrow> int \<times> 'h tel" where
  "park_stopped d conn r s2 = (if r \<noteq> 0 then (-1, tel_end conn DEVDEM_E_HW s2) else park_mount d conn s2)"

definition park_free :: "'h mount \<Rightarrow> nat option \<Rightarrow> 'h tel \<Rightarrow> int \<times> 'h tel" where
  "park_free d conn s = case_prod (park_stopped d conn) (stop_moving d (park_clear s))"

lemma startPark_code [code]:
  "startPark d conn s =
     (if moving_field s = TEL_PARKING then (0, s)
      else if blockMove s then (-1, tel_end conn DEVDEM_E_HW s) else park_free d conn s)"
  by (simp add: startPark_def park_free_def park_stopped_def park_clear_def stop_moving_def stop_if_def Let_def split: prod.split)

definition park_ended :: "int \<Rightarrow> 'h tel \<Rightarrow> 'h tel" where
  "park_ended q s1 = (if q \<noteq> 0 then park_error (failedMove s1) else tel_maskState (TEL_MASK_MOVING OR BOP_EXPOSURE) TEL_PARKED s1)"

definition refresh_idle :: "'h tel \<Rightarrow> 'h tel" where
  "refresh_idle s = s\<lparr>idleInterval := refreshIdle s\<rparr>"

definition parking_polled :: "'h mount \<Rightarrow> int \<Rightarrow> 'h tel \<Rightarrow> 'h tel" where
  "parking_polled d r s =
     (if r \<ge> 0 then s\<lparr>ttimeout := r\<rparr>
      else if r = -1 then refresh_idle (park_error (tel_info d (useParkFlipping_update (\<lambda>_. False) (failedMove s))))
      else if r = -2 then
        refresh_idle (send_info (case_prod park_ended (own (endPark_m d) (tel_info d (useParkFlipping_update (\<lambda>_. False) s)))))
      else s)"

lemma check_parking_code [code]: "check_parking d s0 = case_prod (parking_polled d) (own (isParking_m d) s0)"
  by (simp add: check_parking_def parking_polled_def park_ended_def refresh_idle_def Let_def split: prod.split)

section \<open>Moves\<close>

lemma reset_flags_code [code]:
  "reset_flags s =
     wcorrRaDec_update (\<lambda>w. if chg w then resetValueChanged (set_dist (0, 0) w) else w)
       (woffsRaDec_update resetValueChanged
         (mpecChanged_update (\<lambda>_. False)
           (telTargetRaDec_update resetValueChanged
             (corrRaDec_update resetValueChanged
               (offsRaDec_update resetValueChanged
                 (oriRaDec_update resetValueChanged (tarRaDec_update resetValueChanged s)))))))"
  unfolding reset_flags_def by simp

definition mount_start :: "'h mount \<Rightarrow> pos \<Rightarrow> pos \<Rightarrow> u32 \<Rightarrow> 'h tel \<Rightarrow> int \<times> 'h tel" where
  "mount_start d hrz tp w s =
     own (startResync_m d) (temit (StartMove (blockMove s) (is_good d s hrz \<and> \<not> dec_limited s tp) w) s)"

definition mount_refused :: "'h mount \<Rightarrow> nat option \<Rightarrow> 'h tel \<Rightarrow> int \<times> 'h tel" where
  "mount_refused d conn s1 =
     (-1, tel_end conn DEVDEM_E_HW
            (tel_maskState (TEL_MASK_CORRECTING OR TEL_MASK_MOVING OR BOP_EXPOSURE OR TEL_MASK_TRACK)
               (TEL_NOT_CORRECTING OR TEL_OBSERVING) (stopTracking d False (useParkFlipping_update (\<lambda>_. False) s1))))"

definition started_now :: "'h mount \<Rightarrow> 'h tel \<Rightarrow> 'h tel" where
  "started_now d s1 = s1\<lparr>targetStarted := Some (tnow s1), targetReached := Some (tnow s1 + estimateTargetTime_m d s1)\<rparr>"

definition mount_moves :: "'h mount \<Rightarrow> nat option \<Rightarrow> 'h tel \<Rightarrow> int \<times> 'h tel" where
  "mount_moves d conn s1 =
     (0, refresh_slew (move_connection_update (\<lambda>_. conn)
           (reset_flags (startCupolaSync (nextCupSync_update (\<lambda>_. 0) (tel_info d (started_now d s1)))))))"

definition mount_result :: "'h mount \<Rightarrow> nat option \<Rightarrow> int \<Rightarrow> 'h tel \<Rightarrow> int \<times> 'h tel" where
  "mount_result d conn r s1 = (if r \<noteq> 0 then mount_refused d conn s1 else mount_moves d conn s1)"

lemma resync_mount_code [code]:
  "resync_mount d conn c hrz tp s0 =
     case_prod (mount_result d conn) (mount_start d hrz tp (telState s0) (mask_start c s0))"
  by (simp add: resync_mount_def mount_result_def mount_start_def mount_refused_def mount_moves_def started_now_def
        refresh_slew_def Let_def split: prod.split)

definition resync_stopped :: "'h mount \<Rightarrow> nat option \<Rightarrow> int \<Rightarrow> pos \<Rightarrow> pos \<Rightarrow> int \<Rightarrow> 'h tel \<Rightarrow> int \<times> 'h tel" where
  "resync_stopped d conn c hrz tp r s1 =
     (if r \<noteq> 0 then (-1, tel_end conn DEVDEM_E_HW s1)
      else if \<not> is_good d s1 hrz \<or> dec_limited s1 tp then (-1, tel_end conn DEVDEM_E_HW (cannot_perform d s1))
      else resync_mount d conn c hrz tp s1)"

lemma resync_move_code [code]:
  "resync_move d conn c hrz tp s =
     (if move_blocked s then (-1, tel_end conn DEVDEM_E_HW s)
      else case_prod (resync_stopped d conn c hrz tp) (stop_if (must_stop s) d s))"
proof (cases "move_blocked s")
  case False
  show ?thesis
  proof (cases "stop_if (must_stop s) d s")
    case (Pair r s1)
    then show ?thesis using False resync_move_free [of s d r s1] by (simp add: stop_if_def resync_stopped_def)
  qed
qed (simp add: resync_move_blocked)

definition move_finish :: "'h tel \<Rightarrow> int \<Rightarrow> 'h tel \<Rightarrow> int \<times> 'h tel" where
  "move_finish kept r s4 = (r, if r \<noteq> 0 then rollback kept s4 else s4)"

definition move_target :: "'h mount \<Rightarrow> nat option \<Rightarrow> int \<Rightarrow> 'h tel \<Rightarrow> int \<times> 'h tel" where
  "move_target d conn c s2 =
     (case resync_target d (apply_wcorr s2) of
        (hrz, tp, s3) \<Rightarrow> case_prod (move_finish s2) (resync_move d conn c hrz tp s3))"

definition move_origin :: "'h mount \<Rightarrow> nat option \<Rightarrow> int \<Rightarrow> 'h tel \<Rightarrow> int \<times> 'h tel" where
  "move_origin d conn c s1 =
     (if null_pos (pos_of (oriRaDec s1)) then (-1, tel_end conn DEVDEM_E_HW s1)
      else move_target d conn c (if new_target s1 then incMoveNum s1 else s1))"

lemma startResyncMove_code [code]: "startResyncMove d conn c ign s = move_origin d conn c (resync_origin d ign s)"
  by (simp add: startResyncMove_def move_origin_def move_target_def move_finish_def Let_def split: prod.split)

end
