(* ===== verification/TelescopeRuns.thy ===== *)
theory TelescopeRuns
  imports TelescopeEval
begin

section \<open>Properties of the telescope\<close>

text \<open>
  Theorems on every run of a telescope, for every mount, and runs with a simple mount, at
  a site where the altitude of a target is its declination.
\<close>

subsection \<open>A mount\<close>

record sim =
  sim_steps :: nat
  sim_refuses :: bool
  sim_pos :: pos

definition sim_poll :: "sim tel \<Rightarrow> int \<times> sim" where
  "sim_poll s = (let h = thw s in if sim_steps h = 0 then (-2, h) else (1000000, h\<lparr>sim_steps := sim_steps h - 1\<rparr>))"

fun sim_distance :: "pos \<Rightarrow> pos \<Rightarrow> angle" where
  "sim_distance (Angle a, Angle b) (Angle c, Angle e) = Angle (\<bar>a - c\<bar> + \<bar>b - e\<bar>)"
| "sim_distance _ _ = NaN"

definition sim_start :: "sim tel \<Rightarrow> int \<times> sim" where
  "sim_start s = (if sim_refuses (thw s) then (-1, thw s) else (0, (thw s)\<lparr>sim_steps := 0, sim_pos := pos_of (telTargetRaDec s)\<rparr>))"

definition sim_stop :: "sim tel \<Rightarrow> int \<times> sim" where
  "sim_stop s = (0, (thw s)\<lparr>sim_steps := 0\<rparr>)"

definition sim_park :: "sim tel \<Rightarrow> int \<times> sim" where
  "sim_park s = (0, (thw s)\<lparr>sim_steps := 0, sim_pos := (0, Angle 324000000)\<rparr>)"

definition sim_done :: "sim tel \<Rightarrow> int \<times> sim" where
  "sim_done s = (0, thw s)"

definition sim_done_with :: "'p \<Rightarrow> sim tel \<Rightarrow> int \<times> sim" where
  "sim_done_with p s = (0, thw s)"

definition sim_leaves :: "pos \<Rightarrow> sim tel \<Rightarrow> int \<times> sim" where
  "sim_leaves p s = (-1, thw s)"

definition swap :: "pos \<Rightarrow> pos" where
  "swap p = (snd p, fst p)"

definition sim_read :: "sim tel \<Rightarrow> pos \<times> pos \<times> int \<times> sim" where
  "sim_read s = (sim_pos (thw s), swap (sim_pos (thw s)), 0, thw s)"

definition sim_peek :: "pos \<Rightarrow> sim tel \<Rightarrow> int" where
  "sim_peek p s = 0"

definition sim_estimate :: "sim tel \<Rightarrow> int" where
  "sim_estimate s = 3000000"

definition sim_horizon :: "pos \<Rightarrow> bool" where
  "sim_horizon p \<longleftrightarrow> 0 < fst p"

definition sim_precess :: "int \<Rightarrow> pos \<Rightarrow> pos" where
  "sim_precess e p = p"

definition sim_apply :: "sim tel \<Rightarrow> pos \<Rightarrow> pos \<times> pos" where
  "sim_apply s p = (p, swap p)"

definition sim_equ :: "sim tel \<Rightarrow> pos \<Rightarrow> pos" where
  "sim_equ s p = swap p"

definition sim_sidereal :: "sim tel \<Rightarrow> angle" where
  "sim_sidereal s = 0"

definition sim_mpec :: "string \<Rightarrow> bool" where
  "sim_mpec str = False"

definition sim_mpecPos :: "sim tel \<Rightarrow> pos" where
  "sim_mpecPos s = (NaN, NaN)"

lemmas sim_defs = sim_start_def sim_stop_def sim_park_def sim_done_def sim_done_with_def sim_leaves_def swap_def sim_read_def
  sim_peek_def sim_estimate_def sim_horizon_def sim_precess_def sim_apply_def sim_equ_def sim_poll_def

definition sim_mount :: "sim mount" where
  "sim_mount =
     \<lparr>isMoving_m = sim_poll, isParking_m = sim_poll, isOffseting_m = sim_poll, startResync_m = sim_start, stopMove_m = sim_stop,
      startPark_m = sim_park, endPark_m = sim_done, endMove_m = sim_done, setTracking_m = sim_done_with,
      setTo_m = sim_done_with, setToPark_m = sim_done, resetMount_m = sim_done, peek_m = sim_peek,
      applyCorrectionsFixed_m = sim_leaves, readPos_m = sim_read, estimateTargetTime_m = sim_estimate,
      horizon_m = sim_horizon, precess_m = sim_precess, applyCorrections_m = sim_apply, separation_m = sim_distance,
      equFromHrz_m = sim_equ, sidereal_m = sim_sidereal, validMpec_m = sim_mpec, mpecPos_m = sim_mpecPos\<rparr>"

definition sim_tel :: "sim tel" where
  "sim_tel = new_tel \<lparr>sim_steps = 0, sim_refuses = False, sim_pos = (0, Angle 324000000)\<rparr> True True True (0, Angle 324000000) 0"

abbreviation arcmin :: "int \<Rightarrow> angle" where "arcmin n \<equiv> Angle (n * 60000)"

definition target_a :: pos where
  "target_a = (Angle 36000000, Angle 108000000)"

definition run_sim :: "sim tel_event list \<Rightarrow> sim tel" where
  "run_sim es = run_steps (tel_step sim_mount) es sim_tel"

definition a_correction :: correction where
  "a_correction = \<lparr>cor_mark = 1, cor_img = 0, cor_obs = 0, img_id = 7, obs_id = 1, total_cor = (arcmin 12, 0), pos_err = arcmin 12\<rparr>"

definition to_target :: "sim tel_event list" where
  "to_target = [TCommand 1 (Move True target_a 2000000 (0, 0)), TIdle]"

text \<open>
  The telescope at its target. Runs from here on need not be computed from the start.
\<close>

definition on_a :: radec where
  "on_a = \<lparr>ra = fst target_a, decl = snd target_a, chg = False\<rparr>"

definition on_target :: "sim tel" where
  "on_target =
     \<lparr>thw = \<lparr>sim_steps = 0, sim_refuses = False, sim_pos = target_a\<rparr>, telState = TEL_TRACKING, telBop
     = 0, telLatitude = 0, oriRaDec = on_a, oriEpoch = 2000000, pmRaDec = (0, 0), useOEpoch = True, offsRaDec = zeroed,
     gOffsRaDec = zeroed, woffsRaDec = zeroed, corrRaDec = zeroed, wcorrRaDec = zeroed, total_offsets = (zeroed\<lparr>chg
     := True\<rparr>), objRaDec = (on_a\<lparr>chg := True\<rparr>), tarRaDec = on_a, telTargetRaDec = on_a, modelRaDec =
     zeroed, telRaDec = (on_a\<lparr>chg := True\<rparr>), telAltAz = (Angle 108000000, Angle 36000000), tarAltAz = (NaN,
     NaN), offsAltAz = None, mpec = [], mpecChanged = False, tle_freeze = False, moveNum = 1, moveCompleted = True,
     corrImgId = 0, corrObsId = 0, wCorrImgId = 0, wCorrObsId = 0, posErr = NaN, ignoreCorrection = Angle 0,
     defIgnoreCorrection = Angle 0, smallCorrection = Angle 0, correctionLimit = Angle 18000000, tracking = Some 1,
     defaultTracking = 1, trackingTimer = True, trackingNum = 1, ignoreHorizon = Some False, horizonIgnored = False,
     blockMove = False, blockOnStandby = False, standbyPark = 0, parkingBlockMove = True, useParkFlipping = False,
     decUpperLimit = NaN, diffTrack = Some \<lparr>drate = zeroed, dstart = None, don = False\<rparr>, diffTrackAltAz =
     None, calModel = True, guidingTime = None, lastGuideTime = None, targetStarted = Some 0, targetReached = Some 0,
     failedMoveNum = 0, lastFailedMove = None, mountParkTime = None, moveInfoCount = 0, moveInfoMax = 100, move_connection
     = None, refreshIdle = 60000000, refreshSlew = 500000, idleInterval = 60000000, telFlip = 0, flip_move_start = 0,
     nextCupSync = 2000000, tnow = 0, ttimeout = 0, touts = [TStatus TEL_TRACKING, CupolaSync (Angle 36000000) (Angle
     108000000), TStatus (TEL_MOVING OR BOP_EXPOSURE), StartMove False True TEL_TRACKING, CupolaSync (Angle 36000000)
     (Angle 108000000), TStatus (TEL_MOVING OR BOP_EXPOSURE OR TEL_TRACKING), TStatus TEL_TRACKING, SendInfo 1]\<rparr>"

lemma reaches_target: "run_sim to_target = on_target"
  by code_simp

lemma after_target: "run_sim (to_target @ es) = run_steps (tel_step sim_mount) es on_target"
proof -
  have "run_sim (to_target @ es) = run_steps (tel_step sim_mount) es (run_sim to_target)"
    by (simp only: run_sim_def run_steps_append)
  then show ?thesis by (simp only: reaches_target)
qed

subsection \<open>The telescope and the abstract one\<close>

text \<open>
  C12: The telescope refines the abstract one. Whatever the mount answers and whatever clients and
  the central server send, the phase of the telescope, its block of exposures and the moves it starts
  change by transitions of \<open>motion_step\<close> only.
\<close>

theorem telescope_refines:
  "rtranclp (motion_step False) (motion s) (motion (run_steps (tel_step d) es s))"
  by (rule tel_run_simulated) simp

text \<open>
  C10: In every run, while the telescope moves, it blocks exposures; its phase is one of the four of \<open>status.h\<close>; and
  the last move counts as completed only while the telescope observes.
\<close>

theorem moving_blocks_exposures:
  assumes "s = run_steps (tel_step d) es (new_tel h track diff pblock p lat)"
  shows "moving_field s \<in> {TEL_OBSERVING, TEL_MOVING, TEL_PARKED, TEL_PARKING}
    \<and> (moving_field s = TEL_MOVING \<longrightarrow> telState s AND BOP_EXPOSURE \<noteq> 0)
    \<and> (moveCompleted s \<longrightarrow> moving_field s = TEL_OBSERVING)"
proof -
  have "tel_inv s" unfolding assms by (rule run_tel_inv, rule new_tel_inv)
  then have i: "motion_inv (motion s)" by (simp add: tel_inv_def)
  have "(telState s AND MOTION_MASK) AND BOP_EXPOSURE = telState s AND BOP_EXPOSURE" by (simp add: and.assoc)
  then show ?thesis
    using i by (simp_all add: motion_inv_def phase_moving)
qed

lemma moving_blocks_exposures_witness:
  "let s = run_sim [TCommand 1 (Move True target_a 2000000 (0, 0))] in
   moving_field s = TEL_MOVING \<and> telState s AND BOP_EXPOSURE \<noteq> 0"
proof -
  have "moving_field (run_sim [TCommand 1 (Move True target_a 2000000 (0, 0))]) = TEL_MOVING" by code_simp
  then show ?thesis
    using moving_blocks_exposures [OF run_sim_def [unfolded sim_tel_def]] by (simp only: Let_def) simp
qed



subsection \<open>Stop\<close>

lemma stop_motion: "motion (stop_triggered d s) = (motion s)\<lparr>mblocked := True\<rparr>"
  by (simp add: stop_triggered_def)

lemma master_stops:
  assumes "new AND STOP_MASK = STOP_EVERYTHING" "new AND SERVERD_ONOFF_MASK \<noteq> 0 \<or> old AND SERVERD_ONOFF_MASK = 0"
    and "telState s AND STOP_MASK \<noteq> STOP_EVERYTHING"
  shows "motion_steps True ((motion s)\<lparr>mblocked := True\<rparr>) (motion (tel_changeMasterState d old new s))"
proof -
  define s2 where "s2 = (if wants_park (stop_triggered d s) new then snd (startPark d None (stop_triggered d s)) else stop_triggered d s)"
  have "motion_steps True (motion (stop_triggered d s)) (motion s2)" by (simp add: s2_def park_steps del: motion_sel)
  moreover have "motion_steps True (motion s2) (motion (block_on_standby old new s2))"
    using assms(2) by (auto simp: block_on_standby_def intro: block_moves_steps)
  moreover have "tel_changeMasterState d old new s = block_on_standby old new s2"
    using assms(1,3) by (simp add: tel_changeMasterState_def s2_def)
  ultimately show ?thesis unfolding stop_motion using more_steps by metis
qed

text \<open>
  C9: Stop means stop. When the central server sends the stop state, not at the same time switched from
  standby or off to on, moves are blocked, and the mount is not told to move or to park
  until one of three things happens: the stop state ends, the central server switches from standby or
  off to on (which lifts the block although the stop holds), or a client lifts the block.
\<close>

theorem stopped_telescope_stays:
  assumes "new AND STOP_MASK = STOP_EVERYTHING" "new AND SERVERD_ONOFF_MASK \<noteq> 0 \<or> old AND SERVERD_ONOFF_MASK = 0"
    and "telState s AND STOP_MASK \<noteq> STOP_EVERYTHING" "list_all keeps_block es"
    and "t = run_steps (tel_step d) es (tel_step d (TMaster old new) s)"
  shows "blockMove t \<and> filter is_start (touts t) = filter is_start (touts s)"
proof -
  have "motion_steps True (motion (tel_changeMasterState d old new s)) (motion t)"
    using assms(4,5) tel_run_simulated [of True es "tel_changeMasterState d old new s" d] by simp
  then have "motion_steps True ((motion s)\<lparr>mblocked := True\<rparr>) (motion t)"
    using master_stops [OF assms(1-3)] more_steps by blast
  then show ?thesis using blocked_steps by fastforce
qed

lemma stopped_telescope_stays_witness:
  "blockMove (run_sim [TMaster SERVERD_NIGHT (STOP_EVERYTHING OR SERVERD_NIGHT), TCommand 1 (Move True target_a 2000000 (0, 0)), TIdle])"
proof -
  have "run_sim [TMaster SERVERD_NIGHT (STOP_EVERYTHING OR SERVERD_NIGHT), TCommand 1 (Move True target_a 2000000 (0, 0)), TIdle]
    = run_steps (tel_step sim_mount) [TCommand 1 (Move True target_a 2000000 (0, 0)), TIdle]
        (tel_step sim_mount (TMaster SERVERD_NIGHT (STOP_EVERYTHING OR SERVERD_NIGHT)) sim_tel)"
    by (simp add: run_sim_def)
  from stopped_telescope_stays [OF _ _ _ _ this] show ?thesis by (simp add: sim_tel_def new_tel_def)
qed

subsection \<open>Corrections\<close>

text \<open>Events by which no client changes the target, its offsets or its corrections.\<close>

fun quiet_event :: "'h tel_event \<Rightarrow> bool" where
  "quiet_event (TBop w) = True"
| "quiet_event (TLeave c) = True"
| "quiet_event TIdle = True"
| "quiet_event TTimer = True"
| "quiet_event TInfo = True"
| "quiet_event (TTime t) = True"
| "quiet_event (THardware h) = True"
| "quiet_event _ = False"

text \<open>The correction \<open>c\<close> is applied, and \<open>w\<close> waits or was dropped; or \<open>w\<close> was added to it.\<close>

definition applied_once :: "pos \<Rightarrow> pos \<Rightarrow> 'h tel \<Rightarrow> bool" where
  "applied_once c w s \<longleftrightarrow>
     known_target s \<and>
     (pos_of (corrRaDec s) = c \<and> (chg (wcorrRaDec s) \<longrightarrow> pos_of (wcorrRaDec s) = w)
      \<or> pos_of (corrRaDec s) = dist_pos (add_pos c w) \<and> \<not> chg (wcorrRaDec s))"

lemma applied_once_cong: "aim_of s' = aim_of s \<Longrightarrow> applied_once c w s' = applied_once c w s"
  by (simp add: applied_once_def known_target_def aim_of_def)

lemma resync_applies_once:
  assumes "c = dist_pos c" "applied_once c w s"
  shows "applied_once c w (snd (startResyncMove d conn k ign s))"
proof -
  obtain r s' where e: "startResyncMove d conn k ign s = (r, s')" by force
  have k: "known_target s" using assms(2) by (simp add: applied_once_def)
  have n: "pos_of (corrRaDec s) = dist_pos (pos_of (corrRaDec s))"
    using assms unfolding applied_once_def by (metis dist_pos_idem)
  note a = startResyncMove_aim [OF k e n]
  show ?thesis
  proof (cases "r = 0")
    case True
    then show ?thesis using a assms(2) by (auto simp: applied_once_def e)
  next
    case False
    then show ?thesis using a assms(2) by (auto simp: applied_once_def e)
  qed
qed

lemma reached_applies_once:
  assumes "c = dist_pos c" "applied_once c w s"
  shows "applied_once c w (move_reached d s)"
proof -
  obtain r s1 where e: "endMove d (tel_info d s) = (r, s1)" by force
  have "aim_of (s1\<lparr>moveCompleted := True\<rparr>) = aim_of s" "aim_of s1 = aim_of s"
    using aim_endMove [of d "tel_info d s"] e by simp_all
  then have a: "applied_once c w (s1\<lparr>moveCompleted := True\<rparr>)" "applied_once c w s1"
    using assms(2) applied_once_cong by blast+
  define s2 where "s2 = (if r \<noteq> 0 then move_error (failedMove s1)
      else if pending (s1\<lparr>moveCompleted := True\<rparr>)
      then snd (startResyncMove d None (pending_mask (s1\<lparr>moveCompleted := True\<rparr>)) False (s1\<lparr>moveCompleted := True\<rparr>))
      else tel_maskState (TEL_MASK_CORRECTING OR TEL_MASK_MOVING OR BOP_EXPOSURE) (TEL_NOT_CORRECTING OR TEL_OBSERVING)
        (s1\<lparr>moveCompleted := True\<rparr>))"
  have "aim_of (move_reached d s) = aim_of s2"
    by (simp only: move_reached_def e Let_def case_prod_conv s2_def aim_send_info aim_fields)
  moreover have "applied_once c w s2"
    using a resync_applies_once [OF assms(1) a(1)] unfolding s2_def
    by (simp add: applied_once_cong [of "move_error (failedMove s1)" s1]
        applied_once_cong [of "tel_maskState m n u" u for m n u])
  ultimately show ?thesis using applied_once_cong by blast
qed

lemma quiet_applies_once:
  assumes "c = dist_pos c" "applied_once c w s" "quiet_event e"
  shows "applied_once c w (tel_step d e s)"
proof (cases e)
  case (TBop b)
  define s1 where "s1 = temit (TBopOut (telState s) b) (s\<lparr>telBop := b\<rparr>)"
  have "aim_of s1 = aim_of s" by (simp add: s1_def)
  then have "applied_once c w s1" using assms(2) applied_once_cong by blast
  then show ?thesis using TBop
    by (simp add: tel_setFullBopState_def s1_def [symmetric] Let_def resync_applies_once [OF assms(1)])
next
  case TIdle
  obtain r s1 where o: "own (isMoving_m d) s = (r, s1)" by force
  have s1: "applied_once c w s1" using aim_pair(2) [OF o] assms(2) applied_once_cong by blast
  have "applied_once c w (check_moving d s)"
  proof -
    consider "r \<ge> 0" | "r = -1" | "r = -2" | "r < -2" by linarith
    then show ?thesis
    proof cases
      case 1
      then show ?thesis using s1 applied_once_cong [of "still_moving d r s1" s1] by (simp add: check_moving_def o)
    next
      case 2
      then have "aim_of (check_moving d s) = aim_of s1" by (simp add: check_moving_def o Let_def)
      then show ?thesis using s1 applied_once_cong by blast
    next
      case 3
      then show ?thesis using reached_applies_once [OF assms(1) s1] by (simp add: check_moving_def o)
    next
      case 4
      then show ?thesis using s1 by (simp add: check_moving_def o)
    qed
  qed
  moreover have "applied_once c w (check_parking d s)" using assms(2) applied_once_cong [of "check_parking d s" s] by simp
  ultimately have "applied_once c w (if moving_field s = TEL_MOVING then check_moving d s
      else if moving_field s = TEL_PARKING then check_parking d s else s)" using assms(2) by simp
  then show ?thesis by (simp only: TIdle tel_step.simps checkMoves_def applied_once_cong [OF aim_check(2)])
next
  case TTimer
  then show ?thesis using assms(2) by (simp only: tel_step.simps applied_once_cong [OF aim_tracking(3)])
next
  case TInfo
  then show ?thesis using assms(2) by (simp only: tel_step.simps applied_once_cong [OF aim_info])
qed (use assms applied_once_cong [of "tel_step d e s" s] in \<open>simp_all add: aim_of_def\<close>)

text \<open>
  C11: A correction is applied at most once. While no client commands or writes anything and the central
  server's state does not change, through block words, passes of the idle loop, timers, information, clients that leave and
  whatever the mount does, the correction that is applied is the one before, or the sum of it and the one
  that waited. It does not grow with moves that fail.
\<close>

theorem correction_applied_once:
  assumes "known_target s" "pos_of (corrRaDec s) = c" "c = dist_pos c" "pos_of (wcorrRaDec s) = w"
    and "list_all quiet_event es"
  shows "pos_of (corrRaDec (run_steps (tel_step d) es s)) \<in> {c, dist_pos (add_pos c w)}"
proof -
  have "applied_once c w s" using assms by (simp add: applied_once_def)
  then have "applied_once c w (run_steps (tel_step d) es s)" using assms(5)
  proof (induction es arbitrary: s)
    case (Cons e es)
    then show ?case by (simp add: quiet_applies_once [OF assms(3)])
  qed simp
  then show ?thesis by (auto simp: applied_once_def)
qed

definition corrected :: "sim tel" where
  "corrected = run_sim (to_target @ [TCommand 1 (Correct a_correction)])"

definition quiet_run :: "sim tel_event list" where
  "quiet_run = [TBop BOP_TEL_MOVE, TBop 0, TIdle]"

lemma correction_applied_once_witness:
  "pos_of (corrRaDec (run_steps (tel_step sim_mount) quiet_run corrected)) = (arcmin 12, 0)"
proof -
  have "let s = corrected in known_target s \<and> pos_of (corrRaDec s) = (0, 0) \<and> pos_of (wcorrRaDec s) = (arcmin 12, 0)
      \<and> pos_of (corrRaDec (run_steps (tel_step sim_mount) quiet_run s)) \<noteq> (0, 0)"
    unfolding corrected_def after_target by code_simp
  then have k: "known_target corrected" "pos_of (corrRaDec corrected) = (0, 0)" "pos_of (wcorrRaDec corrected) = (arcmin 12, 0)"
    and n: "pos_of (corrRaDec (run_steps (tel_step sim_mount) quiet_run corrected)) \<noteq> (0, 0)" unfolding Let_def by blast+
  have z: "(0, 0) = dist_pos (0, 0)" "dist_pos (add_pos (0, 0) (arcmin 12, 0)) = (arcmin 12, 0)"
    by (simp_all add: dist_pos_def add_pos_def zero_angle_def)
  have "list_all quiet_event quiet_run" by (simp add: quiet_run_def)
  note m = correction_applied_once [OF k(1,2) z(1) k(3) this, of sim_mount, unfolded z(2)]
  show ?thesis using m n by blast
qed


definition refused :: "sim tel" where
  "refused = run_sim (to_target @ [TCommand 1 (Correct a_correction), THardware \<lparr>sim_steps = 0, sim_refuses = True, sim_pos = target_a\<rparr>])"




end
