(* ===== verification/TelescopeBounds.thy ===== *)
theory TelescopeBounds
  imports TelescopeRuns
begin

section \<open>Bounds and the end of moves\<close>

text \<open>
  Every event keeps the corrections and the offset that waits within half a circle; and a move ends, if the
  mount's polls do.
\<close>

subsection \<open>Corrections stay distances\<close>

lemma dist_checkMoves: "dist_ok s \<Longrightarrow> dist_ok (checkMoves d s)"
proof -
  assume ok: "dist_ok s"
  have reached: "dist_ok (move_reached d u)" if "dist_ok u" for u
  proof -
    obtain r s1 where e: "endMove d (tel_info d u) = (r, s1)" by force
    have s1: "dist_ok s1" using dist_pair(3) [OF e] that by simp
    define s2 where "s2 = (if r \<noteq> 0 then move_error (failedMove s1)
        else if pending (s1\<lparr>moveCompleted := True\<rparr>)
        then snd (startResyncMove d None (pending_mask (s1\<lparr>moveCompleted := True\<rparr>)) False (s1\<lparr>moveCompleted := True\<rparr>))
        else tel_maskState (TEL_MASK_CORRECTING OR TEL_MASK_MOVING OR BOP_EXPOSURE) (TEL_NOT_CORRECTING OR TEL_OBSERVING)
          (s1\<lparr>moveCompleted := True\<rparr>))"
    have "dist_ok s2" unfolding s2_def using s1 by (auto intro: startResyncMove_dist)
    moreover have "aim_of (move_reached d u) = aim_of s2"
      by (simp only: move_reached_def e Let_def case_prod_conv s2_def aim_send_info aim_fields)
    ultimately show ?thesis using dist_ok_cong by blast
  qed
  obtain r s1 where o: "own (isMoving_m d) s = (r, s1)" by force
  have s1: "dist_ok s1" using dist_pair(2) [OF o] ok by simp
  have "dist_ok (check_moving d s)"
    using s1 reached [OF s1] dist_ok_cong [OF aim_check(1), of d r s1] dist_ok_cong [of "check_moving d s" s1]
    by (auto simp: check_moving_def o Let_def)
  then have "dist_ok (if moving_field s = TEL_MOVING then check_moving d s
      else if moving_field s = TEL_PARKING then check_parking d s else s)"
    using ok by (simp add: dist_ok_cong [OF aim_check(3)])
  then show ?thesis by (simp only: checkMoves_def dist_ok_cong [OF aim_check(2)])
qed

lemma dist_moveAltAz: "dist_ok s \<Longrightarrow> dist_ok (snd (moveAltAz d ign s))"
  by (simp add: moveAltAz_def startResyncMove_dist)

lemma dist_tracked: "dist_ok s \<Longrightarrow> dist_ok (snd (tracked_move d c s))"
proof -
  assume ok: "dist_ok s"
  obtain r s1 where e: "startResyncMove d (Some c) 0 False (snd (startTracking d True s)) = (r, s1)" by force
  have "dist_ok s1" using startResyncMove_dist [of "snd (startTracking d True s)" d "Some c" 0 False] ok e by simp
  then show ?thesis by (simp add: tracked_move_def e)
qed

lemma dist_set: "dist_ok s \<Longrightarrow> dist_ok (s\<lparr>corrRaDec := set_dist p v\<rparr>)" "dist_ok s \<Longrightarrow> dist_ok (s\<lparr>wcorrRaDec := set_dist p v\<rparr>)"
  "dist_ok s \<Longrightarrow> dist_ok (s\<lparr>woffsRaDec := set_dist p v\<rparr>)" "dist_ok s \<Longrightarrow> dist_ok (s\<lparr>woffsRaDec := inc_dist p v\<rparr>)"
  by (simp_all add: dist_ok_def)

lemma dist_correct: "dist_ok s \<Longrightarrow> dist_ok (snd (correct d c k s))"
proof -
  assume ok: "dist_ok s"
  obtain r s1 where o: "own (applyCorrectionsFixed_m d (total_cor k)) s = (r, s1)" by force
  have "dist_ok s1" using dist_pair(2) [OF o] ok by simp
  then show ?thesis by (simp add: correct_def o Let_def) (simp add: dist_ok_def)
qed

lemma dist_setTo: "dist_ok (snd (tel_setTo d c p s)) = dist_ok s"
proof -
  obtain r s1 where o: "own (setTo_m d p) s = (r, s1)" by force
  then show ?thesis using dist_pair(2) [OF o] by (simp add: tel_setTo_def o)
qed

lemma dist_command: "dist_ok s \<Longrightarrow> dist_ok (snd (tel_commandAuthorized d c x s))"
proof (cases x)
  case (Change p)
  assume "dist_ok s"
  then have "dist_ok (s\<lparr>offsRaDec := inc_dist p (offsRaDec s), woffsRaDec := inc_dist p (woffsRaDec s)\<rparr>)"
    by (simp add: dist_ok_def)
  then show ?thesis using Change by (simp add: startResyncMove_dist)
next
  case SyncCorr
  assume ok: "dist_ok s"
  obtain r s1 where o: "tel_setTo d c (pos_of (tarRaDec s)) s = (r, s1)" by force
  have "dist_ok s1" using ok dist_setTo [of d c "pos_of (tarRaDec s)" s] o by simp
  then show ?thesis using SyncCorr by (simp add: o) (simp add: dist_ok_def)
qed (simp_all add: move_to_def dist_tracked dist_moveAltAz startResyncMove_dist startPark_dist dist_correct dist_setTo
      case_prod_beta Let_def)

lemma dist_write: "dist_ok s \<Longrightarrow> dist_ok (snd (write_value d w s))"
proof -
  assume ok: "dist_ok s"
  obtain r s1 where v: "tel_setValue d w s = (r, s1)" by force
  have "aim_of (snd (tel_setValue d w s)) = aim_of s"
    by (cases w) (simp_all split: prod.splits, metis aim_setTracking snd_conv,
        simp_all add: setDiffTrack_def aim_of_def temit_def split: option.splits)
  then have s1: "dist_ok s1" using ok v dist_ok_cong by fastforce
  then have "dist_ok (store_value w s1)" by (cases w) (simp_all add: dist_ok_def)
  then have "dist_ok (tel_valueChanged d w (store_value w s1))"
    by (cases w) (simp_all add: startResyncMove_dist dist_moveAltAz)
  then show ?thesis using ok s1 by (simp add: write_value_def v)
qed

lemma dist_master: "dist_ok s \<Longrightarrow> dist_ok (tel_changeMasterState d old new s)"
  by (simp add: tel_changeMasterState_def stop_triggered_def block_on_standby_def startPark_dist Let_def)

lemma dist_bop: "dist_ok s \<Longrightarrow> dist_ok (tel_setFullBopState d w s)"
  by (simp add: tel_setFullBopState_def startResyncMove_dist Let_def)

lemma dist_step: "dist_ok s \<Longrightarrow> dist_ok (tel_step d e s)"
proof (cases e)
  case TTimer
  assume "dist_ok s"
  then show ?thesis using TTimer by (simp only: tel_step.simps dist_ok_cong [OF aim_tracking(3)])
qed (simp_all add: dist_command dist_write dist_master dist_bop dist_checkMoves dist_ok_cong [of "s\<lparr>tnow := t\<rparr>" s for t]
      dist_ok_cong [of "s\<lparr>thw := h\<rparr>" s for h], simp add: dist_ok_def)

lemma dist_run: "dist_ok s \<Longrightarrow> dist_ok (run_steps (tel_step d) es s)"
  by (induction es arbitrary: s) (simp_all add: dist_step)

lemma dist_new: "dist_ok (new_tel h track diff pblock p lat)"
  by (simp add: dist_ok_def new_tel_def zeroed_def pos_of_def dist_pos_def zero_angle_def)

text \<open>
  C26: Corrections stay distances. In every run the correction that is applied, the one that
  waits and the offset that waits are, in each axis, more than -180 and at most 180 degrees, where they
  are not \<open>nan\<close>.
\<close>

theorem corrections_bounded:
  assumes "s = run_steps (tel_step d) es (new_tel h track diff pblock p lat)"
    and "Angle x \<in> {ra (corrRaDec s), decl (corrRaDec s), ra (wcorrRaDec s), decl (wcorrRaDec s),
           ra (woffsRaDec s), decl (woffsRaDec s)}"
  shows "- 180 * 3600000 < x \<and> x \<le> 180 * 3600000"
proof -
  have "dist_ok s" unfolding assms(1) by (rule dist_run, rule dist_new)
  then have "\<forall>a \<in> {ra (corrRaDec s), decl (corrRaDec s), ra (wcorrRaDec s), decl (wcorrRaDec s),
           ra (woffsRaDec s), decl (woffsRaDec s)}. dist180 a = a"
    by (simp add: dist_ok_def dist_pos_def pos_of_def)
  then have "dist180 (Angle x) = Angle x" using assms(2) by (rule bspec)
  then show ?thesis using dist180_bound [of "Angle x" x] by simp
qed

lemma corrections_bounded_witness:
  "ra (wcorrRaDec (run_sim [TWrite (WWCorr (Angle 1000000000, 0))])) = Angle (- 296000000) \<and> - 180 * 3600000 < (- 296000000 :: int)"
proof -
  have e: "Angle (- 296000000) = ra (wcorrRaDec (run_sim [TWrite (WWCorr (Angle 1000000000, 0))]))" by code_simp
  then show ?thesis
    using corrections_bounded [OF run_sim_def [unfolded sim_tel_def], of "- 296000000" "[TWrite (WWCorr (Angle 1000000000, 0))]"]
    by simp
qed

subsection \<open>Moves end\<close>

text \<open>
  A mount whose polls end: \<open>rk\<close> bounds how often it will say that it still moves. What the
  program calls meanwhile does not raise it.
\<close>

definition settles :: "'h mount \<Rightarrow> ('h \<Rightarrow> nat) \<Rightarrow> bool" where
  "settles d rk \<longleftrightarrow>
     (\<forall>s. fst (isMoving_m d s) \<in> {-1, -2} \<or> fst (isMoving_m d s) \<ge> 0 \<and> rk (snd (isMoving_m d s)) < rk (thw s))
     \<and> (\<forall>s. rk (snd (isOffseting_m d s)) \<le> rk (thw s)) \<and> (\<forall>s. rk (snd (stopMove_m d s)) \<le> rk (thw s))
     \<and> (\<forall>s t. rk (snd (setTracking_m d t s)) \<le> rk (thw s))
     \<and> (\<forall>s. rk (snd (snd (snd (readPos_m d s)))) \<le> rk (thw s))"

definition rank :: "('h \<Rightarrow> nat) \<Rightarrow> 'h tel \<Rightarrow> nat" where
  "rank rk s = rk (thw s)"

lemma rank_own: "(\<forall>s. rk (snd (f s)) \<le> rk (thw s)) \<Longrightarrow> rank rk (snd (own f s)) \<le> rank rk s"
  by (simp add: own_def rank_def split: prod.splits) (metis snd_conv)

lemma rank_simps [simp]:
  "rank rk (temit e s) = rank rk s" "rank rk (tel_maskState m n s) = rank rk s" "rank rk (send_info s) = rank rk s"
  "rank rk (setIgnoreHorizon b s) = rank rk s" "rank rk (runTracking s) = rank rk s"
  "rank rk (s\<lparr>tracking := v\<rparr>) = rank rk s" "rank rk (s\<lparr>trackingTimer := b\<rparr>) = rank rk s"
  "rank rk (s\<lparr>targetReached := t\<rparr>) = rank rk s" "rank rk (s\<lparr>moveInfoCount := i\<rparr>) = rank rk s"
  "rank rk (s\<lparr>ttimeout := i\<rparr>) = rank rk s"
  by (simp_all add: rank_def temit_def tel_maskState_def tel_setState_def send_info_def setIgnoreHorizon_def runTracking_def
      startCupolaSync_def Let_def split: option.splits)

lemma rank_info:
  assumes "settles d rk"
  shows "rank rk (tel_info d s) \<le> rank rk s"
proof -
  have track: "rank rk (snd (setTracking d 0 b m u)) \<le> rank rk u" for b m u
  proof -
    obtain r u1 where o: "own (setTracking_m d 0) u = (r, u1)" by force
    have "rank rk u1 \<le> rank rk u" using rank_own [of rk "setTracking_m d 0" u] assms o by (simp add: settles_def)
    moreover have "rank rk (snd (stopMove d v)) \<le> rank rk v" for v
      using rank_own [of rk "stopMove_m d" "temit StopMove v"] assms by (simp add: stopMove_def settles_def)
    then have "rank rk (snd (stopMove d (u1\<lparr>tracking := Some 0, trackingTimer := False\<rparr>))) \<le> rank rk u1"
      by (metis rank_simps(6,7))
    ultimately show ?thesis by (simp add: setTracking_def o Let_def)
  qed
  obtain p hrz flip h where r: "readPos_m d s = (p, hrz, flip, h)" by (metis prod_cases4)
  have "rk h \<le> rk (thw s)" using assms r unfolding settles_def by (metis snd_conv)
  define s1 where "s1 = s\<lparr>thw := h, telRaDec := set_radec p (telRaDec s), telAltAz := hrz, telFlip := flip\<rparr>"
  have s1: "rank rk s1 \<le> rank rk s" using \<open>rk h \<le> rk (thw s)\<close> by (simp add: s1_def rank_def)
  have "rank rk (abortMoveTracking d s1) \<le> rank rk s1"
    using track [of False True "s1\<lparr>targetReached := Some (tnow s1)\<rparr>"] by (simp add: abortMoveTracking_def stopTracking_def)
  then show ?thesis using s1 by (simp add: tel_info_def r s1_def [symmetric] Let_def)
qed

definition at_rest :: "'h tel \<Rightarrow> bool" where
  "at_rest s \<longleftrightarrow> telState s AND (TEL_MASK_MOVING OR TEL_MASK_CORRECTING OR BOP_EXPOSURE) = 0"

lemma at_rest_motion: "at_rest s \<longleftrightarrow> mword (motion s) = 0"
  by (simp add: at_rest_def)

lemma poll_progress:
  assumes "settles d rk" "moving_field s = TEL_MOVING" "\<not> pending s"
  shows "at_rest (checkMoves d s) \<or>
     moving_field (checkMoves d s) = TEL_MOVING \<and> \<not> pending (checkMoves d s) \<and> rank rk (checkMoves d s) < rank rk s"
proof -
  obtain r s1 where o: "own (isMoving_m d) s = (r, s1)" by force
  have r: "r \<in> {-1, -2} \<or> r \<ge> 0 \<and> rank rk s1 < rank rk s"
    using assms(1) o unfolding settles_def own_def rank_def by (auto split: prod.splits) (metis fst_conv snd_conv)+
  have m1: "motion s1 = motion s" and a1: "aim_of s1 = aim_of s" using motion_pair(2) [OF o] aim_pair(2) [OF o] by simp_all
  have np: "pending u = pending s" if "aim_of u = aim_of s" for u :: "'a tel"
    using that by (simp add: aim_of_def pending_def)
  have e: "checkMoves d s = check_offseting d (check_moving d s)" using assms(2) by (simp add: checkMoves_def)
  show ?thesis
  proof (cases "r \<ge> 0")
    case True
    then have c: "check_moving d s = still_moving d r s1" by (simp add: check_moving_def o)
    have mo: "motion (checkMoves d s) = motion s" by (simp add: e c still_moving_def Let_def m1)
    have "aim_of (checkMoves d s) = aim_of s" by (simp only: e c aim_check a1)
    then have "\<not> pending (checkMoves d s)" using np assms(3) by blast
    moreover have "moving_field (checkMoves d s) = TEL_MOVING"
    proof -
      have f: "moving_field u = phase (mword (motion u))" for u :: "'a tel" by (simp add: phase_moving)
      show ?thesis unfolding f mo using assms(2) f [of s] by simp
    qed
    moreover have "rank rk (checkMoves d s) < rank rk s"
    proof -
      have co: "rank rk (check_offseting d u) \<le> rank rk u" for u
      proof -
        obtain q v where ov: "own (isOffseting_m d) u = (q, v)" by force
        have "rank rk v \<le> rank rk u" using rank_own [of rk "isOffseting_m d" u] assms(1) ov by (simp add: settles_def)
        then show ?thesis by (simp add: check_offseting_def ov)
      qed
      have "rank rk (still_moving d r s1) \<le> rank rk s1"
        using rank_info [OF assms(1), of "s1\<lparr>ttimeout := r\<rparr>"] by (simp add: still_moving_def Let_def)
      also have "rank rk s1 < rank rk s" using r True by auto
      finally show ?thesis unfolding e c using co le_less_trans by blast
    qed
    ultimately show ?thesis by blast
  next
    case False
    then consider "r = -1" | "r = -2" using r by fastforce
    then have "mword (motion (check_moving d s)) = 0"
    proof cases
      case 1
      then show ?thesis by (simp add: check_moving_def o Let_def del: motion_sel)
    next
      case 2
      obtain q s2 where en: "endMove d (tel_info d s1) = (q, s2)" by force
      have "aim_of s2 = aim_of s" using aim_endMove [of d "tel_info d s1"] en a1 by simp
      then have "\<not> pending (s2\<lparr>moveCompleted := True\<rparr>)" using np [of "s2\<lparr>moveCompleted := True\<rparr>"] assms(3) by simp
      then have "motion (move_reached d s1) = motion (if q \<noteq> 0 then move_error (failedMove s2)
          else tel_maskState (TEL_MASK_CORRECTING OR TEL_MASK_MOVING OR BOP_EXPOSURE) (TEL_NOT_CORRECTING OR TEL_OBSERVING)
            (s2\<lparr>moveCompleted := True\<rparr>))"
        by (simp only: move_reached_def en Let_def case_prod_conv motion_send_info motion_fields if_False)
      then have "mword (motion (move_reached d s1)) = 0"
        by (simp only: if_distrib [of motion] motion_observing) simp
      then show ?thesis using 2 by (simp add: check_moving_def o)
    qed
    then have "at_rest (checkMoves d s)" unfolding e at_rest_motion offseting_motion .
    then show ?thesis ..
  qed
qed

text \<open>
  C25: A move ends. If nothing waits to be applied (no new target, offset or correction is pending) and the
  mount says at most \<open>rk\<close> times that it still moves, then after at most that many polls and one more,
  nothing else happening in between, the telescope observes, whether it arrived or failed, and
  exposures are no longer blocked.
\<close>

theorem move_ends:
  assumes "settles d rk" "moving_field s = TEL_MOVING" "\<not> pending s"
  shows "\<exists>n \<le> Suc (rk (thw s)). at_rest ((checkMoves d ^^ n) s)"
  using assms(2,3)
proof (induction "rk (thw s)" arbitrary: s rule: less_induct)
  case less
  consider "at_rest (checkMoves d s)"
    | "moving_field (checkMoves d s) = TEL_MOVING" "\<not> pending (checkMoves d s)" "rk (thw (checkMoves d s)) < rk (thw s)"
    using poll_progress [OF assms(1) less.prems] by (auto simp: rank_def)
  then show ?case
  proof cases
    case 1
    then show ?thesis by (intro exI [of _ 1]) simp
  next
    case 2
    then obtain n where n: "n \<le> Suc (rk (thw (checkMoves d s)))" "at_rest ((checkMoves d ^^ n) (checkMoves d s))"
      using less.hyps by blast
    then have "at_rest ((checkMoves d ^^ Suc n) s)" by (simp add: funpow_swap1)
    moreover have "Suc n \<le> Suc (rk (thw s))" using n(1) 2(3) by simp
    ultimately show ?thesis by blast
  qed
qed

definition slow_sim :: "sim tel" where
  "slow_sim = sim_tel\<lparr>thw := \<lparr>sim_steps = 2, sim_refuses = False, sim_pos = target_a\<rparr>, telState := TEL_MOVING OR BOP_EXPOSURE\<rparr>"

lemma move_ends_witness: "\<exists>n \<le> 3. at_rest ((checkMoves sim_mount ^^ n) slow_sim)"
proof -
  have "settles sim_mount sim_steps"
    by (auto simp: settles_def sim_mount_def sim_defs Let_def)
  moreover have "moving_field slow_sim = TEL_MOVING" by (simp add: slow_sim_def moving_field_def)
  moreover have "\<not> pending slow_sim" by (simp add: slow_sim_def pending_def sim_tel_def new_tel_def zeroed_def)
  ultimately have "\<exists>n \<le> Suc (sim_steps (thw slow_sim)). at_rest ((checkMoves sim_mount ^^ n) slow_sim)" by (rule move_ends)
  then show ?thesis by (simp add: slow_sim_def numeral_3_eq_3)
qed

end
