(* ===== verification/TelescopeCases.thy ===== *)
theory TelescopeCases
  imports TelescopeBounds
begin

section \<open>Runs where the telescope surprises\<close>

text \<open>
  Runs of the telescope from its target, computed event by event, where what the code does is not
  what its comments promise. They start after \<open>to_target\<close>, a move that arrived.
\<close>

definition from_target :: "sim tel_event list \<Rightarrow> sim tel" where
  "from_target es = run_sim (to_target @ es)"

lemma from_target: "from_target es = run_steps (tel_step sim_mount) es on_target"
  unfolding from_target_def by (rule after_target)

definition move_away :: "sim tel_event" where
  "move_away = TCommand 1 (Move True (Angle 72000000, Angle 108000000) 2000000 (0, 0))"

text \<open>
  A correction accepted while moves are blocked is dropped when it is its turn, but the block of exposures
  it set stays: nothing moves that would lift it.
\<close>

lemma blocked_correction_blocks_exposures:
  "let s = from_target [TWrite (WBlockMove True), TCommand 1 (Correct a_correction), TBop BOP_EXPOSURE, TIdle] in
   moving_field s = TEL_OBSERVING \<and> \<not> pending s \<and> telState s AND BOP_EXPOSURE \<noteq> 0"
  unfolding from_target by code_simp

text \<open>
  A move stopped by a client counts as completed, because the mount no longer moves at the next poll; the
  correction from an image of wherever it stopped is accepted.
\<close>

lemma stopped_move_counts_as_completed:
  "let s = from_target [move_away, TCommand 2 Stop, TIdle, TCommand 1 (Correct (a_correction\<lparr>cor_mark := 2\<rparr>))] in
   moveCompleted s \<and> chg (wcorrRaDec s)"
  unfolding from_target by code_simp

text \<open>A correction the client was told is ignored, as small, is performed at the next change of the block state.\<close>

lemma ignored_correction_performed:
  "let s = from_target [TWrite (WSmallCorrection (arcmin 20)), TCommand 1 (Correct a_correction), TBop 0] in
   TEnd 1 DEVDEM_E_IGNORE \<in> set (touts s) \<and> moving_field s = TEL_MOVING \<and> pos_of (corrRaDec s) = (arcmin 12, 0)"
  unfolding from_target by code_simp

text \<open>Offsets whose move fails still wait, and each state of the blocks, the one the failure causes too, starts another try.\<close>

lemma failed_offset_retried:
  "let s = from_target [THardware \<lparr>sim_steps = 0, sim_refuses = True, sim_pos = target_a\<rparr>, TWrite (WWOffs (arcmin 1, 0)),
       TBop BOP_EXPOSURE, TBop 0, TBop BOP_EXPOSURE] in
   chg (woffsRaDec s) \<and> length (filter is_start (touts s)) = length (filter is_start (touts on_target)) + 3"
  unfolding from_target by code_simp

text \<open>
  With \<open>block_on_standby\<close> set, a change from standby to on lifts the block of moves while the stop state
  still holds: the telescope moves.
\<close>

lemma standby_lifts_stop:
  "let s = from_target [TWrite (WBlockOnStandby True),
       TMaster (STOP_EVERYTHING OR SERVERD_STANDBY OR SERVERD_NIGHT) (STOP_EVERYTHING OR SERVERD_NIGHT), move_away] in
   \<not> blockMove s \<and> moving_field s = TEL_MOVING"
  unfolding from_target by code_simp

text \<open>A park during a correction leaves the flag of the correction set, also when the mount is parked.\<close>

lemma parked_while_correcting:
  "let s = from_target [TCommand 1 (Correct a_correction), TBop BOP_EXPOSURE, TCommand 1 Park, TIdle] in
   moving_field s = TEL_PARKED \<and> telState s AND TEL_MASK_CORRECTING = TEL_CORRECTING"
  unfolding from_target by code_simp

text \<open>\<open>change\<close> replaces the offset by the changes that wait: an offset set before it is lost.\<close>

lemma change_loses_offset:
  "let s = from_target [TWrite (WOffs (arcmin 5, 0)), TIdle, TCommand 1 (Change (arcmin 1, 0))] in
   pos_of (offsRaDec s) = (arcmin 1, 0)"
  unfolding from_target by code_simp

text \<open>A parked mount that refuses a target below the horizon says that it observes, and starts tracking when it is told to.\<close>

lemma parked_mount_tracks:
  "let s = from_target [TCommand 1 Park, TIdle, TCommand 1 (Resync (0, Angle (- 36000000))), TCommand 1 WormStart] in
   sim_pos (thw s) = (0, Angle 324000000) \<and> telState s = TEL_TRACKING"
  unfolding from_target by code_simp

end
