(* ===== verification/Filterd.thy ===== *)
theory Filterd
  imports Runs Status
begin

section \<open>Filter wheels\<close>

text \<open>
  \<open>Filterd\<close> (\<open>base/filterd/src/filterd.cpp\<close>), the base class of the filter wheels, the value of a
  selection (\<open>ValueSelection\<close> of \<open>base/kernel/src/value.cpp\<close> and \<open>value.h\<close>), and the driver
  \<open>base/filterd/dummy/dummy.cpp\<close>. A wheel moves inside the call that asks for it. Left out: log output.
\<close>

subsection \<open>Selections\<close>

record selection =
  sel_index :: int
  sel_names :: "string list"

definition sel_setValueInteger :: "int \<Rightarrow> selection \<Rightarrow> int \<times> selection" where
  "sel_setValueInteger i v =
     (if i < 0 \<or> int (length (sel_names v)) \<le> i then (-1, v) else (0, v\<lparr>sel_index := i\<rparr>))"

fun index_from :: "int \<Rightarrow> string \<Rightarrow> string list \<Rightarrow> int" where
  "index_from i x [] = -2"
| "index_from i x (y # ys) = (if y = x then i else index_from (i + 1) x ys)"

definition getSelIndex :: "string \<Rightarrow> selection \<Rightarrow> int" where
  "getSelIndex x v = index_from 0 x (sel_names v)"

text \<open>A number or a name; \<open>strtol\<close> takes the empty string for the number 0.\<close>

definition sel_setValueCharArr :: "string \<Rightarrow> selection \<Rightarrow> int \<times> selection" where
  "sel_setValueCharArr x v =
     (let (n, rest) = strtol10 x in
      if rest = [] then sel_setValueInteger (to_int32 n) v
      else let i = getSelIndex x v in if i < 0 then (-1, v) else sel_setValueInteger i v)"

definition getSelName :: "int \<Rightarrow> selection \<Rightarrow> string" where
  "getSelName i v = (if i < 0 \<or> int (length (sel_names v)) \<le> i then ''UNK'' else sel_names v ! nat i)"

text \<open>\<open>doOpValue\<close> of the new value: \<open>+\<close> is computed in \<open>size_t\<close>, \<open>-\<close> adds the size until the value is not negative.\<close>

partial_function (option) raise_sel :: "int \<Rightarrow> int \<Rightarrow> int option" where
  "raise_sel n x = (if x < 0 then raise_sel n (x + n) else Some x)"

declare raise_sel.simps [code]

definition sel_opValue :: "char \<Rightarrow> int \<Rightarrow> selection \<Rightarrow> (int \<times> selection) option" where
  "sel_opValue op old v =
     (let n = int (length (sel_names v)) in
      if op = CHR ''+'' then
        if n = 0 then None else Some (sel_setValueInteger (to_int32 (((old + sel_index v) mod 2 ^ 64) mod n)) v)
      else if op = CHR ''-'' then map_option (\<lambda>i. sel_setValueInteger i v) (raise_sel n (old - sel_index v))
      else Some (if op = CHR ''='' then sel_setValueInteger (sel_index v) v else (-2, v)))"

subsection \<open>Filter names\<close>

definition is_sep :: "char \<Rightarrow> bool" where
  "is_sep c \<longleftrightarrow> c = CHR '':'' \<or> c = CHR 0x22 \<or> c = CHR 0x27"

text \<open>
  The loop of \<open>setFilters\<close> on the buffer from \<open>tf\<close> on: skip separators, read a name, add it.
\<close>

lemma drop_name_length: "length (dropWhile P xs) \<le> length xs"
  by (induction xs) simp_all

function split_filters :: "string \<Rightarrow> string list" where
  "split_filters tf =
     (let name = dropWhile is_sep tf in
      if name = [] then []
      else let top = dropWhile (\<lambda>c. \<not> is_sep c) name in
           takeWhile (\<lambda>c. \<not> is_sep c) name # (if top = [] then [] else split_filters (tl top)))"
  by pat_completeness auto

termination
proof (relation "measure length")
  fix tf name top :: string
  assume "name = dropWhile is_sep tf" "top = dropWhile (\<lambda>c. \<not> is_sep c) name" "top \<noteq> []"
  then have "length (tl top) < length top" "length top \<le> length name" "length name \<le> length tf"
    by (simp_all add: drop_name_length)
  then show "(tl top, tf) \<in> measure length" by simp
qed simp

declare split_filters.simps [simp del]

definition setFilters :: "string \<Rightarrow> selection \<Rightarrow> int \<times> selection" where
  "setFilters x v =
     (let v1 = v\<lparr>sel_names := sel_names v @ split_filters x\<rparr>
      in (if sel_names v1 = [] then -1 else 0, v1))"

subsection \<open>The device\<close>

abbreviation FILTERD_MASK :: u32 where "FILTERD_MASK \<equiv> 0x002"
abbreviation FILTERD_IDLE :: u32 where "FILTERD_IDLE \<equiv> 0x000"
abbreviation FILTERD_MOVE :: u32 where "FILTERD_MOVE \<equiv> 0x002"

text \<open>\<open>FwMove\<close> is a call of the driver's \<open>setFilterNum\<close>, with the state word then; \<open>FwEnd\<close> the answer to a command.\<close>

datatype fw_out =
    FwStatus u32
  | FwMove int u32
  | FwEnd nat int

record 'h fwd =
  fwhw :: 'h
  fwState :: u32
  fwFilter :: selection
  fwDefault :: "selection option"
  fwDaytime :: "selection option"
  fwouts :: "fw_out list"

text \<open>\<open>setFilterNum_w\<close> also says whether the driver called the base class, which sets the value \<open>filter\<close>.\<close>

record 'h fw_driver =
  setFilterNum_w :: "int \<Rightarrow> 'h fwd \<Rightarrow> int \<times> bool \<times> 'h"
  getFilterNum_w :: "'h fwd \<Rightarrow> int"
  homeFilter_w :: "'h fwd \<Rightarrow> int \<times> 'h"

definition base_setFilterNum :: "int \<Rightarrow> 'h fwd \<Rightarrow> int \<times> 'h fwd" where
  "base_setFilterNum n s = (0, s\<lparr>fwFilter := snd (sel_setValueInteger n (fwFilter s))\<rparr>)"

definition fw_setState :: "u32 \<Rightarrow> 'h fwd \<Rightarrow> 'h fwd" where
  "fw_setState w s = (if fwState s = w then s else s\<lparr>fwState := w, fwouts := fwouts s @ [FwStatus w]\<rparr>)"

definition fw_maskState :: "u32 \<Rightarrow> u32 \<Rightarrow> 'h fwd \<Rightarrow> 'h fwd" where
  "fw_maskState m n s = fw_setState (mask_word m n (fwState s)) s"

definition fw_info :: "'h fw_driver \<Rightarrow> 'h fwd \<Rightarrow> 'h fwd" where
  "fw_info d s = s\<lparr>fwFilter := snd (sel_setValueInteger (getFilterNum_w d s) (fwFilter s))\<rparr>"

definition fw_call :: "'h fw_driver \<Rightarrow> int \<Rightarrow> 'h fwd \<Rightarrow> int \<times> 'h fwd" where
  "fw_call d n s =
     (let s1 = s\<lparr>fwouts := fwouts s @ [FwMove n (fwState s)]\<rparr>;
          (r, base, h) = setFilterNum_w d n s1;
          s2 = s1\<lparr>fwhw := h\<rparr>
      in (r, if base then snd (base_setFilterNum n s2) else s2))"

definition setFilterNumMask :: "'h fw_driver \<Rightarrow> int \<Rightarrow> 'h fwd \<Rightarrow> int \<times> 'h fwd" where
  "setFilterNumMask d n s =
     (let s1 = fw_maskState (FILTERD_MASK OR BOP_EXPOSURE) (FILTERD_MOVE OR BOP_EXPOSURE) s;
          (r, s2) = fw_call d n s1;
          s3 = fw_info d s2
      in (r, if r = -1
             then fw_maskState (DEVICE_ERROR_MASK OR FILTERD_MASK OR BOP_EXPOSURE) (DEVICE_ERROR_HW OR FILTERD_IDLE) s3
             else fw_maskState (FILTERD_MASK OR BOP_EXPOSURE) FILTERD_IDLE s3))"

definition fw_scriptEnds :: "'h fw_driver \<Rightarrow> 'h fwd \<Rightarrow> 'h fwd" where
  "fw_scriptEnds d s = (case fwDefault s of None \<Rightarrow> s | Some v \<Rightarrow> snd (setFilterNumMask d (sel_index v) s))"

definition fw_changeMasterState :: "'h fw_driver \<Rightarrow> u32 \<Rightarrow> 'h fwd \<Rightarrow> 'h fwd" where
  "fw_changeMasterState d new s =
     (case fwDaytime s of
        Some v \<Rightarrow> if new AND SERVERD_STATUS_MASK = SERVERD_DAY then snd (setFilterNumMask d (sel_index v) s) else s
      | None \<Rightarrow> s)"

text \<open>A write of the value \<open>filter\<close>: the new value has an index of the selection.\<close>

definition fw_write :: "'h fw_driver \<Rightarrow> string \<Rightarrow> 'h fwd \<Rightarrow> int \<times> 'h fwd" where
  "fw_write d x s =
     (let (r, new) = sel_setValueCharArr x ((fwFilter s)\<lparr>sel_index := 0\<rparr>) in
      if r \<noteq> 0 then (-2, s)
      else if sel_index (fwFilter s) = sel_index new then (0, s)
      else let (q, s1) = setFilterNumMask d (sel_index new) s in
           if q \<noteq> 0 then (-2, s1)
           else (0, if sel_index (fwFilter s1) = sel_index new then s1
                    else s1\<lparr>fwFilter := snd (sel_setValueInteger (sel_index new) (fwFilter s1))\<rparr>))"

datatype fw_command = FwFilter int | FwHome | FwBad

fun fw_commandAuthorized :: "'h fw_driver \<Rightarrow> nat \<Rightarrow> fw_command \<Rightarrow> 'h fwd \<Rightarrow> int \<times> 'h fwd" where
  "fw_commandAuthorized d c (FwFilter n) s =
     (let (r, s1) = setFilterNumMask d n s
      in (r, if r = -1 then s1\<lparr>fwouts := fwouts s1 @ [FwEnd c DEVDEM_E_HW]\<rparr> else s1))"
| "fw_commandAuthorized d c FwHome s = (let (r, h) = homeFilter_w d s in (if r = 0 then 0 else DEVDEM_E_HW, s\<lparr>fwhw := h\<rparr>))"
| "fw_commandAuthorized d c FwBad s = (-2, s)"

definition fw_initValues :: "string option \<Rightarrow> string option \<Rightarrow> 'h fwd \<Rightarrow> 'h fwd" where
  "fw_initValues def day s =
     (let fresh_sel = \<lparr>sel_index = 0, sel_names = sel_names (fwFilter s)\<rparr>
      in s\<lparr>fwDefault := map_option (\<lambda>x. snd (sel_setValueCharArr x fresh_sel)) def,
           fwDaytime := map_option (\<lambda>x. snd (sel_setValueCharArr x fresh_sel)) day\<rparr>)"

datatype 'h fw_event =
    FwCommand nat fw_command
  | FwWrite string
  | FwScriptEnds
  | FwMaster u32
  | FwInfo
  | FwHardware 'h

fun fw_step :: "'h fw_driver \<Rightarrow> 'h fw_event \<Rightarrow> 'h fwd \<Rightarrow> 'h fwd" where
  "fw_step d (FwCommand c x) s = snd (fw_commandAuthorized d c x s)"
| "fw_step d (FwWrite x) s = snd (fw_write d x s)"
| "fw_step d FwScriptEnds s = fw_scriptEnds d s"
| "fw_step d (FwMaster w) s = fw_changeMasterState d w s"
| "fw_step d FwInfo s = fw_info d s"
| "fw_step d (FwHardware h) s = s\<lparr>fwhw := h\<rparr>"

definition new_fwd :: "'h \<Rightarrow> string \<Rightarrow> 'h fwd" where
  "new_fwd h names =
     \<lparr>fwhw = h, fwState = 0, fwFilter = snd (setFilters names \<lparr>sel_index = 0, sel_names = []\<rparr>), fwDefault = None,
      fwDaytime = None, fwouts = []\<rparr>"

subsection \<open>The dummy driver\<close>

definition dummy_setFilterNum :: "int \<Rightarrow> int fwd \<Rightarrow> int \<times> bool \<times> int" where
  "dummy_setFilterNum n s = (0, True, n)"

definition dummy_homeFilter :: "int fwd \<Rightarrow> int \<times> int" where
  "dummy_homeFilter s = (-1, fwhw s)"

definition dummy_wheel :: "int fw_driver" where
  "dummy_wheel = \<lparr>setFilterNum_w = dummy_setFilterNum, getFilterNum_w = fwhw, homeFilter_w = dummy_homeFilter\<rparr>"

end
