(* ===== verification/Focuser.thy ===== *)
theory Focuser
  imports Runs Status
begin

section \<open>Focusers\<close>

text \<open>
  \<open>Focusd\<close> (\<open>base/focusd/src/focusd.cpp\<close>, \<open>focusd.h\<close>), the base class of the focuser drivers, and the
  driver \<open>base/focusd/dummy/dummy.cpp\<close>. The target position is the sum of a default position and three offsets;
  a write of one of them moves the focuser. The functions of the other drivers are the fields of a record
  \<open>foc_driver\<close>.

  Positions are whole steps, or \<open>None\<close> for \<open>NaN\<close>. Temperature, slope and intercept of the temperature
  compensation are integers in thousandths. Left out: progress estimates and log output.
\<close>

subsection \<open>Values with limits\<close>

type_synonym dbl = "int option"

fun dadd :: "dbl \<Rightarrow> dbl \<Rightarrow> dbl" where
  "dadd (Some x) (Some y) = Some (x + y)"
| "dadd _ _ = None"

fun dsub :: "dbl \<Rightarrow> dbl \<Rightarrow> dbl" where
  "dsub (Some x) (Some y) = Some (x - y)"
| "dsub _ _ = None"

text \<open>The C comparisons: with a \<open>NaN\<close> they are false.\<close>

fun dless :: "dbl \<Rightarrow> dbl \<Rightarrow> bool" where
  "dless (Some x) (Some y) \<longleftrightarrow> x < y"
| "dless _ _ \<longleftrightarrow> False"

fun dequal :: "dbl \<Rightarrow> dbl \<Rightarrow> bool" where
  "dequal (Some x) (Some y) \<longleftrightarrow> x = y"
| "dequal _ _ \<longleftrightarrow> False"

text \<open>\<open>ValueDoubleMinMax\<close>.\<close>

record fval =
  fnum :: dbl
  fmin :: dbl
  fmax :: dbl

text \<open>A new value as the client writes it, alone or with new limits (\<open>ValueDoubleMinMax::setValue\<close>).\<close>

definition parse_fval :: "dbl \<Rightarrow> (dbl \<times> dbl) option \<Rightarrow> fval \<Rightarrow> fval option" where
  "parse_fval x lims old =
     (let (lo, hi) = (case lims of None \<Rightarrow> (fmin old, fmax old) | Some l \<Rightarrow> l)
      in if dless x lo \<or> dless hi x then None else Some \<lparr>fnum = x, fmin = lo, fmax = hi\<rparr>)"

subsection \<open>State\<close>

abbreviation FOC_MASK_FOCUSING :: u32 where "FOC_MASK_FOCUSING \<equiv> 0x001"
abbreviation FOC_SLEEPING :: u32 where "FOC_SLEEPING \<equiv> 0x000"
abbreviation FOC_FOCUSING :: u32 where "FOC_FOCUSING \<equiv> 0x001"
abbreviation USEC_SEC :: int where "USEC_SEC \<equiv> 1000000"

record linear =
  linearOffset :: bool
  slope :: dbl
  intercept :: dbl
  nightOnly :: bool

text \<open>\<open>FocSetTo\<close> is a call of the driver's \<open>setTo\<close>, with the limits of the target and the state word then.\<close>

datatype foc_out =
    FocStatus u32
  | FocSetTo dbl dbl dbl u32

record 'h focd =
  fochw :: 'h
  focState :: u32
  focMaster :: u32
  focPosition :: dbl
  focTarget :: fval
  focDefault :: fval
  focFilterOff :: fval
  focFoff :: fval
  focTempOff :: fval
  focTemperature :: dbl
  focLinear :: "linear option"
  focTimeout :: int
  focouts :: "foc_out list"

record 'h foc_driver =
  setTo_f :: "dbl \<Rightarrow> 'h focd \<Rightarrow> int \<times> 'h"
  isFocusing_f :: "'h focd \<Rightarrow> int \<times> dbl \<times> 'h"
  endFocusing_f :: "'h focd \<Rightarrow> int \<times> 'h"
  info_f :: "'h focd \<Rightarrow> int \<times> dbl \<times> 'h"
  writePosition_f :: "dbl \<Rightarrow> 'h focd \<Rightarrow> int \<times> 'h"
  tcOffset_f :: "'h focd \<Rightarrow> dbl"
  isAtStartPosition_f :: "'h focd \<Rightarrow> bool"

definition foc_setState :: "u32 \<Rightarrow> 'h focd \<Rightarrow> 'h focd" where
  "foc_setState w s = (if focState s = w then s else s\<lparr>focState := w, focouts := focouts s @ [FocStatus w]\<rparr>)"

definition foc_maskState :: "u32 \<Rightarrow> u32 \<Rightarrow> 'h focd \<Rightarrow> 'h focd" where
  "foc_maskState m n s = foc_setState (mask_word m n (focState s)) s"

definition is_focusing :: "'h focd \<Rightarrow> bool" where
  "is_focusing s \<longleftrightarrow> focState s AND FOC_MASK_FOCUSING = FOC_FOCUSING"

subsection \<open>Moves\<close>

definition moved_extent :: "fval \<Rightarrow> fval \<Rightarrow> fval" where
  "moved_extent t v =
     v\<lparr>fmin := dadd (dsub (fmin t) (fnum t)) (fnum v), fmax := dadd (dsub (fmax t) (fnum t)) (fnum v)\<rparr>"

definition updateOffsetsExtent :: "'h focd \<Rightarrow> 'h focd" where
  "updateOffsetsExtent s =
     (let t = focTarget s
      in s\<lparr>focFilterOff := moved_extent t (focFilterOff s), focFoff := moved_extent t (focFoff s),
           focTempOff := moved_extent t (focTempOff s)\<rparr>)"

definition outside :: "dbl \<Rightarrow> fval \<Rightarrow> bool" where
  "outside x t \<longleftrightarrow> dless x (fmin t) \<or> dless (fmax t) x"

definition foc_failed :: "'h focd \<Rightarrow> 'h focd" where
  "foc_failed s = foc_maskState (FOC_MASK_FOCUSING OR BOP_EXPOSURE OR DEVICE_ERROR_HW) DEVICE_ERROR_HW s"

definition foc_setTo :: "'h foc_driver \<Rightarrow> dbl \<Rightarrow> 'h focd \<Rightarrow> int \<times> 'h focd" where
  "foc_setTo d x s =
     (let s1 = s\<lparr>focouts := focouts s @ [FocSetTo x (fmin (focTarget s)) (fmax (focTarget s)) (focState s)]\<rparr>;
          (r, h) = setTo_f d x s1
      in (r, s1\<lparr>fochw := h\<rparr>))"

definition setPosition :: "'h foc_driver \<Rightarrow> dbl \<Rightarrow> 'h focd \<Rightarrow> int \<times> 'h focd" where
  "setPosition d x s =
     (let s1 = foc_maskState (FOC_MASK_FOCUSING OR BOP_EXPOSURE) (FOC_FOCUSING OR BOP_EXPOSURE)
                 (s\<lparr>focTarget := (focTarget s)\<lparr>fnum := x\<rparr>\<rparr>)
      in if outside x (focTarget s1) then (-1, foc_failed s1)
         else let (r, s2) = foc_setTo d x s1
              in if r \<noteq> 0 then (r, foc_failed s2) else (r, updateOffsetsExtent s2))"

subsection \<open>Values\<close>

datatype foc_value = FocTar | FocDef | FocFilteroff | FocFoff | FocToff

fun foc_get :: "foc_value \<Rightarrow> 'h focd \<Rightarrow> fval" where
  "foc_get FocTar s = focTarget s"
| "foc_get FocDef s = focDefault s"
| "foc_get FocFilteroff s = focFilterOff s"
| "foc_get FocFoff s = focFoff s"
| "foc_get FocToff s = focTempOff s"

fun foc_put :: "foc_value \<Rightarrow> fval \<Rightarrow> 'h focd \<Rightarrow> 'h focd" where
  "foc_put FocTar v s = s\<lparr>focTarget := v\<rparr>"
| "foc_put FocDef v s = s\<lparr>focDefault := v\<rparr>"
| "foc_put FocFilteroff v s = s\<lparr>focFilterOff := v\<rparr>"
| "foc_put FocFoff v s = s\<lparr>focFoff := v\<rparr>"
| "foc_put FocToff v s = s\<lparr>focTempOff := v\<rparr>"

definition foc_sum :: "dbl \<Rightarrow> dbl \<Rightarrow> dbl \<Rightarrow> dbl \<Rightarrow> dbl \<Rightarrow> dbl" where
  "foc_sum a b c e tco = dadd (dadd (dadd (dadd a b) c) e) tco"

text \<open>The position the new value asks for (\<open>Focusd::setValue\<close>).\<close>

fun asked_position :: "foc_value \<Rightarrow> dbl \<Rightarrow> dbl \<Rightarrow> 'h focd \<Rightarrow> dbl" where
  "asked_position FocTar x tco s = x"
| "asked_position FocDef x tco s = foc_sum x (fnum (focFilterOff s)) (fnum (focFoff s)) (fnum (focTempOff s)) tco"
| "asked_position FocFilteroff x tco s = foc_sum (fnum (focDefault s)) x (fnum (focFoff s)) (fnum (focTempOff s)) tco"
| "asked_position FocFoff x tco s = foc_sum (fnum (focDefault s)) (fnum (focFilterOff s)) x (fnum (focTempOff s)) tco"
| "asked_position FocToff x tco s = foc_sum (fnum (focDefault s)) (fnum (focFilterOff s)) (fnum (focFoff s)) x tco"

definition foc_setValue :: "'h foc_driver \<Rightarrow> foc_value \<Rightarrow> fval \<Rightarrow> 'h focd \<Rightarrow> int \<times> 'h focd" where
  "foc_setValue d v new s =
     (let (r, s1) = setPosition d (asked_position v (fnum new) (tcOffset_f d s) s) s
      in (if r \<noteq> 0 then -2 else 0, s1))"

text \<open>
  \<open>Daemon::setValue\<close>, \<open>setCondValue\<close> and \<open>doSetValue\<close>, for \<open>=\<close>; the stored value has the limits that the value had,
  or the client gave, before the focuser moved.
\<close>

definition foc_write :: "'h foc_driver \<Rightarrow> foc_value \<Rightarrow> dbl \<Rightarrow> (dbl \<times> dbl) option \<Rightarrow> 'h focd \<Rightarrow> int \<times> 'h focd" where
  "foc_write d v x lims s =
     (case parse_fval x lims (foc_get v s) of
        None \<Rightarrow> (-2, s)
      | Some new \<Rightarrow>
          if dequal (fnum (foc_get v s)) x then (0, s)
          else let (r, s1) = foc_setValue d v new s
               in if r < 0 then (r, s1)
                  else (0, if dequal (fnum (foc_get v s1)) x then s1 else foc_put v new s1))"

text \<open>A write of the position itself, of a driver that allows it.\<close>

definition foc_write_position :: "'h foc_driver \<Rightarrow> dbl \<Rightarrow> 'h focd \<Rightarrow> int \<times> 'h focd" where
  "foc_write_position d x s =
     (if dequal (focPosition s) x then (0, s)
      else let (r, h) = writePosition_f d x s in
           if r \<noteq> 0 then (-2, s\<lparr>fochw := h\<rparr>)
           else (0, s\<lparr>fochw := h, focTarget := (focTarget s)\<lparr>fnum := x\<rparr>, focDefault := (focDefault s)\<lparr>fnum := x\<rparr>,
                      focPosition := x\<rparr>))"

definition setFocusExtent :: "dbl \<Rightarrow> dbl \<Rightarrow> 'h focd \<Rightarrow> 'h focd" where
  "setFocusExtent lo hi s =
     updateOffsetsExtent
       (s\<lparr>focTarget := (focTarget s)\<lparr>fmin := lo, fmax := hi\<rparr>, focDefault := (focDefault s)\<lparr>fmin := lo, fmax := hi\<rparr>\<rparr>)"

definition foc_scriptEnds :: "'h foc_driver \<Rightarrow> 'h focd \<Rightarrow> 'h focd" where
  "foc_scriptEnds d s =
     (let s1 = s\<lparr>focTempOff := (focTempOff s)\<lparr>fnum := Some 0\<rparr>\<rparr>
      in snd (setPosition d (foc_sum (fnum (focDefault s1)) (fnum (focFilterOff s1)) (fnum (focFoff s1))
                               (fnum (focTempOff s1)) (tcOffset_f d s1)) s1))"

subsection \<open>The idle loop\<close>

text \<open>C's \<open>round\<close> of a quotient: half away from zero.\<close>

definition c_round :: "int \<Rightarrow> int \<Rightarrow> int" where
  "c_round n k = sgn n * ((2 * \<bar>n\<bar> + k) div (2 * k))"

fun linear_position :: "linear \<Rightarrow> dbl \<Rightarrow> dbl" where
  "linear_position l t =
     (case (slope l, intercept l, t) of
        (Some a, Some b, Some x) \<Rightarrow> Some (c_round (a * x + 1000 * b) 1000000)
      | _ \<Rightarrow> None)"

definition compensate :: "'h foc_driver \<Rightarrow> 'h focd \<Rightarrow> 'h focd" where
  "compensate d s =
     (case focLinear s of
        None \<Rightarrow> s
      | Some l \<Rightarrow>
          if linearOffset l \<and> (\<not> nightOnly l \<or> focMaster s = SERVERD_NIGHT OR SERVERD_ON) then
            (case linear_position l (focTemperature s) of
               None \<Rightarrow> s
             | Some np \<Rightarrow> if dequal (Some np) (focPosition s) then s else snd (setPosition d (Some np) s))
          else s)"

definition foc_info :: "'h foc_driver \<Rightarrow> 'h focd \<Rightarrow> int \<times> 'h focd" where
  "foc_info d s = (let (r, p, h) = info_f d s in (r, s\<lparr>focPosition := p, fochw := h\<rparr>))"

definition focusing_ended :: "'h foc_driver \<Rightarrow> 'h focd \<Rightarrow> 'h focd" where
  "focusing_ended d s =
     (let (r, h) = endFocusing_f d s;
          s1 = (snd (foc_info d (s\<lparr>fochw := h\<rparr>)))\<lparr>focTimeout := USEC_SEC\<rparr>
      in if r \<noteq> 0 then foc_maskState (DEVICE_ERROR_MASK OR FOC_MASK_FOCUSING OR BOP_EXPOSURE) (DEVICE_ERROR_HW OR FOC_SLEEPING) s1
         else foc_maskState (FOC_MASK_FOCUSING OR BOP_EXPOSURE) FOC_SLEEPING s1)"

text \<open>\<open>ext\<close> is the value of the external temperature variable, when there is one.\<close>

definition foc_idle :: "'h foc_driver \<Rightarrow> dbl option \<Rightarrow> 'h focd \<Rightarrow> 'h focd" where
  "foc_idle d ext s0 =
     (let s = (case ext of None \<Rightarrow> s0 | Some t \<Rightarrow> s0\<lparr>focTemperature := t\<rparr>)
      in if is_focusing s then
           let (r, p, h) = isFocusing_f d s;
               s1 = s\<lparr>focPosition := p, fochw := h\<rparr>
           in if r \<ge> 0 then s1\<lparr>focTimeout := r\<rparr> else focusing_ended d s1
         else compensate d s)"

definition foc_initValues :: "'h foc_driver \<Rightarrow> 'h focd \<Rightarrow> int \<times> 'h focd" where
  "foc_initValues d s =
     (if fnum (focDefault s) = None then
        let (r, s1) = foc_info d s in
        if r \<noteq> 0 then (-1, s1)
        else (0, s1\<lparr>focTarget := (focTarget s1)\<lparr>fnum := focPosition s1\<rparr>, focDefault := (focDefault s1)\<lparr>fnum := focPosition s1\<rparr>\<rparr>)
      else if \<not> isAtStartPosition_f d s then (0, snd (setPosition d (fnum (focDefault s)) s))
      else (0, s\<lparr>focTarget := (focTarget s)\<lparr>fnum := focPosition s\<rparr>\<rparr>))"

subsection \<open>Events\<close>

datatype 'h foc_event =
    FocWrite foc_value dbl "(dbl \<times> dbl) option"
  | FocWritePosition dbl
  | FocWriteLinear linear
  | FocExtent dbl dbl
  | FocScriptEnds
  | FocIdle "dbl option"
  | FocMaster u32
  | FocHardware 'h

fun foc_step :: "'h foc_driver \<Rightarrow> 'h foc_event \<Rightarrow> 'h focd \<Rightarrow> 'h focd" where
  "foc_step d (FocWrite v x lims) s = snd (foc_write d v x lims s)"
| "foc_step d (FocWritePosition x) s = snd (foc_write_position d x s)"
| "foc_step d (FocWriteLinear l) s = s\<lparr>focLinear := map_option (\<lambda>_. l) (focLinear s)\<rparr>"
| "foc_step d (FocExtent lo hi) s = setFocusExtent lo hi s"
| "foc_step d FocScriptEnds s = foc_scriptEnds d s"
| "foc_step d (FocIdle ext) s = foc_idle d ext s"
| "foc_step d (FocMaster w) s = s\<lparr>focMaster := w\<rparr>"
| "foc_step d (FocHardware h) s = s\<lparr>fochw := h\<rparr>"

definition unset :: fval where
  "unset = \<lparr>fnum = None, fmin = None, fmax = None\<rparr>"

text \<open>The state after the constructor; \<open>lin\<close> says whether the driver has a temperature compensation.\<close>

definition new_focd :: "'h \<Rightarrow> bool \<Rightarrow> 'h focd" where
  "new_focd h lin =
     \<lparr>fochw = h, focState = 0, focMaster = 0, focPosition = None, focTarget = unset, focDefault = unset,
      focFilterOff = unset\<lparr>fnum := Some 0\<rparr>, focFoff = unset\<lparr>fnum := Some 0\<rparr>, focTempOff = unset\<lparr>fnum := Some 0\<rparr>,
      focTemperature = None,
      focLinear = (if lin then Some \<lparr>linearOffset = False, slope = None, intercept = None, nightOnly = True\<rparr> else None),
      focTimeout = 0, focouts = []\<rparr>"

subsection \<open>The dummy driver\<close>

text \<open>Its own field is the number of steps of a poll, whose sign is the direction.\<close>

definition dummy_setTo :: "dbl \<Rightarrow> int focd \<Rightarrow> int \<times> int" where
  "dummy_setTo x s = (0, if dless x (focPosition s) then - \<bar>fochw s\<bar> else \<bar>fochw s\<bar>)"

fun near :: "dbl \<Rightarrow> dbl \<Rightarrow> int \<Rightarrow> bool" where
  "near (Some p) (Some t) k \<longleftrightarrow> \<bar>p - t\<bar> < \<bar>k\<bar>"
| "near _ _ k \<longleftrightarrow> False"

definition dummy_isFocusing :: "int focd \<Rightarrow> int \<times> dbl \<times> int" where
  "dummy_isFocusing s =
     (if near (focPosition s) (fnum (focTarget s)) (fochw s) then (-2, fnum (focTarget s), fochw s)
      else (USEC_SEC, dadd (focPosition s) (Some (fochw s)), fochw s))"

definition dummy_foc_info :: "int focd \<Rightarrow> int \<times> dbl \<times> int" where
  "dummy_foc_info s = (0, focPosition s, fochw s)"

definition dummy_focuser :: "int foc_driver" where
  "dummy_focuser =
     \<lparr>setTo_f = dummy_setTo, isFocusing_f = dummy_isFocusing, endFocusing_f = (\<lambda>s. (0, fochw s)), info_f = dummy_foc_info,
      writePosition_f = (\<lambda>x s. (-1, fochw s)), tcOffset_f = (\<lambda>s. Some 0), isAtStartPosition_f = (\<lambda>s. False)\<rparr>"

text \<open>\<open>Dummy::initValues\<close>, at a step size.\<close>

definition dummy_start :: "int \<Rightarrow> int focd" where
  "dummy_start k =
     (new_focd k False)\<lparr>focPosition := Some 0, focDefault := unset\<lparr>fnum := Some 0\<rparr>, focTemperature := Some 100000\<rparr>"

definition dummy_focd :: "int \<Rightarrow> int focd" where
  "dummy_focd k = snd (foc_initValues dummy_focuser (dummy_start k))"

end
