(* ===== verification/FocuserProps.thy ===== *)
theory FocuserProps
  imports Focuser
begin

section \<open>Focusers: properties\<close>

text \<open>
  A focuser moves only inside its limits and while exposures are blocked, its target is the sum of its parts, the
  dummy focuser arrives; and runs where a focuser does what it should not.
\<close>

lemma foc_maskState_sel [simp]:
  "focState (foc_maskState m n s) = mask_word m n (focState s)"
  "focTarget (foc_maskState m n s) = focTarget s" "focDefault (foc_maskState m n s) = focDefault s"
  "focFilterOff (foc_maskState m n s) = focFilterOff s" "focFoff (foc_maskState m n s) = focFoff s"
  "focTempOff (foc_maskState m n s) = focTempOff s" "focPosition (foc_maskState m n s) = focPosition s"
  "fochw (foc_maskState m n s) = fochw s" "focLinear (foc_maskState m n s) = focLinear s"
  "focMaster (foc_maskState m n s) = focMaster s" "focTemperature (foc_maskState m n s) = focTemperature s"
  by (simp_all add: foc_maskState_def foc_setState_def)

interpretation focuser_state: masked_state focState foc_maskState
  by unfold_locales simp

lemma foc_maskState_outs:
  "e \<in> set (focouts (foc_maskState m n s)) \<Longrightarrow> e \<in> set (focouts s) \<or> (\<exists>w. e = FocStatus w)"
  by (auto simp: foc_maskState_def foc_setState_def split: if_splits)

subsection \<open>Exposures are blocked while the focuser moves\<close>

definition foc_bits :: "u32 \<Rightarrow> bool" where
  "foc_bits w \<longleftrightarrow> (w AND FOC_MASK_FOCUSING = 0 \<longleftrightarrow> w AND BOP_EXPOSURE = 0)"

text \<open>A call of the driver: while exposures are blocked, to a place inside the limits.\<close>

fun foc_call_ok :: "foc_out \<Rightarrow> bool" where
  "foc_call_ok (FocStatus w) \<longleftrightarrow> True"
| "foc_call_ok (FocSetTo x lo hi w) \<longleftrightarrow>
     \<not> dless x lo \<and> \<not> dless hi x \<and> w AND FOC_MASK_FOCUSING = FOC_FOCUSING \<and> w AND BOP_EXPOSURE \<noteq> 0"

definition foc_inv :: "'h focd \<Rightarrow> bool" where
  "foc_inv s \<longleftrightarrow> foc_bits (focState s) \<and> (\<forall>e \<in> set (focouts s). foc_call_ok e)"

lemma foc_inv_same:
  assumes "foc_inv s" "focState t = focState s" "focouts t = focouts s"
  shows "foc_inv t"
  using assms by (simp add: foc_inv_def)

lemma foc_outs_mask:
  "\<forall>e \<in> set (focouts s). foc_call_ok e \<Longrightarrow> \<forall>e \<in> set (focouts (foc_maskState m n s)). foc_call_ok e"
  using foc_maskState_outs by fastforce

lemma foc_failed_inv: "\<forall>e \<in> set (focouts s). foc_call_ok e \<Longrightarrow> foc_inv (foc_failed s)"
  unfolding foc_inv_def foc_failed_def foc_bits_def
  by (intro conjI foc_outs_mask) (simp_all add: mask_word_field)

text \<open>What \<open>setPosition\<close> does, in its three cases.\<close>

lemma setPosition_cases:
  assumes "setPosition d x s = (r, t)" "foc_inv s"
  obtains (refused) "outside x (focTarget s)" "r = -1" "foc_inv t" "\<not> is_focusing t" "fnum (focTarget t) = x"
      "focDefault t = focDefault s" "focFilterOff t = focFilterOff s" "focFoff t = focFoff s" "focTempOff t = focTempOff s"
    | (driver) "\<not> outside x (focTarget s)" "r \<noteq> 0" "foc_inv t" "\<not> is_focusing t"
    | (moves) h where "\<not> outside x (focTarget s)" "r = 0" "foc_inv t" "is_focusing t"
      "focTarget t = (focTarget s)\<lparr>fnum := x\<rparr>" "focDefault t = focDefault s"
      "fnum (focFilterOff t) = fnum (focFilterOff s)" "fnum (focFoff t) = fnum (focFoff s)"
      "fnum (focTempOff t) = fnum (focTempOff s)" "focPosition t = focPosition s" "fochw t = h" "focLinear t = focLinear s"
      "focFilterOff t = moved_extent (focTarget t) (focFilterOff s)"
      "\<exists>s1. setTo_f d x s1 = (0, h) \<and> focPosition s1 = focPosition s \<and> fochw s1 = fochw s"
proof -
  define s1 where "s1 = foc_maskState (FOC_MASK_FOCUSING OR BOP_EXPOSURE) (FOC_FOCUSING OR BOP_EXPOSURE)
                 (s\<lparr>focTarget := (focTarget s)\<lparr>fnum := x\<rparr>\<rparr>)"
  define s2 where "s2 = s1\<lparr>focouts := focouts s1 @ [FocSetTo x (fmin (focTarget s1)) (fmax (focTarget s1)) (focState s1)]\<rparr>"
  have setp: "setPosition d x s =
     (if outside x (focTarget s1) then (-1, foc_failed s1)
      else let (r, s2) = foc_setTo d x s1 in if r \<noteq> 0 then (r, foc_failed s2) else (r, updateOffsetsExtent s2))"
    by (simp only: setPosition_def s1_def Let_def)
  have t1: "focTarget s1 = (focTarget s)\<lparr>fnum := x\<rparr>" by (simp add: s1_def)
  have w1: "focState s1 AND FOC_MASK_FOCUSING = FOC_FOCUSING" "focState s1 AND BOP_EXPOSURE = BOP_EXPOSURE"
    by (simp_all add: s1_def mask_word_field)
  have o1: "\<forall>e \<in> set (focouts s1). foc_call_ok e"
    unfolding s1_def by (rule foc_outs_mask) (use assms(2) in \<open>simp add: foc_inv_def\<close>)
  show ?thesis
  proof (cases "outside x (focTarget s)")
    case True
    then have "outside x (focTarget s1)" by (simp add: outside_def t1)
    then have "r = -1" "t = foc_failed s1" using assms(1) by (simp_all add: setp)
    moreover have "\<not> is_focusing (foc_failed s1)"
      by (simp add: is_focusing_def foc_failed_def mask_word_field)
    ultimately show ?thesis using True refused foc_failed_inv [OF o1] by (simp add: foc_failed_def t1) (simp add: s1_def)
  next
    case False
    then have f: "\<not> outside x (focTarget s1)" by (simp add: outside_def t1)
    obtain q h where q: "setTo_f d x s2 = (q, h)" by force
    have o2: "\<forall>e \<in> set (focouts s2). foc_call_ok e"
      using o1 f w1 by (simp add: s2_def outside_def t1)
    have to: "foc_setTo d x s1 = (q, s2\<lparr>fochw := h\<rparr>)" by (simp add: foc_setTo_def s2_def [symmetric] q)
    show ?thesis
    proof (cases "q = 0")
      case True
      then have t: "r = 0" "t = updateOffsetsExtent (s2\<lparr>fochw := h\<rparr>)"
        using assms(1) f to by (simp_all add: setp)
      have e: "focState t = focState s1" "focouts t = focouts s2" "focTarget t = focTarget s1" "focDefault t = focDefault s1"
        "fnum (focFilterOff t) = fnum (focFilterOff s1)" "fnum (focFoff t) = fnum (focFoff s1)"
        "fnum (focTempOff t) = fnum (focTempOff s1)" "focPosition t = focPosition s1" "fochw t = h" "focLinear t = focLinear s1"
        "focFilterOff t = moved_extent (focTarget s1) (focFilterOff s1)"
        by (simp_all add: t(2) updateOffsetsExtent_def Let_def moved_extent_def s2_def)
      have "foc_inv t" using o2 w1 by (simp add: foc_inv_def foc_bits_def e)
      moreover have "is_focusing t" by (simp add: is_focusing_def e w1)
      moreover have "\<exists>s1. setTo_f d x s1 = (0, h) \<and> focPosition s1 = focPosition s \<and> fochw s1 = fochw s"
        using q True by (intro exI [of _ s2]) (simp add: s2_def s1_def)
      ultimately show ?thesis using moves [of h] False t(1) by (simp add: e) (simp add: s1_def moved_extent_def)
    next
      case q0: False
      then have "r = q" "t = foc_failed (s2\<lparr>fochw := h\<rparr>)"
        using assms(1) f to by (simp_all add: setp)
      then show ?thesis using driver False q0 foc_failed_inv [of "s2\<lparr>fochw := h\<rparr>"] o2
        by (simp add: is_focusing_def) (simp add: foc_failed_def mask_word_field)
    qed
  qed
qed

lemma setPosition_inv: "foc_inv s \<Longrightarrow> foc_inv (snd (setPosition d x s))"
  using setPosition_cases [of d x s "fst (setPosition d x s)" "snd (setPosition d x s)"] by auto

lemma foc_write_inv:
  assumes "foc_inv s"
  shows "foc_inv (snd (foc_write d v x lims s))"
proof -
  have "foc_inv (snd (foc_setValue d v new s))" for new
    using setPosition_inv [OF assms] by (simp add: foc_setValue_def split: prod.split) (metis snd_conv)
  moreover have "foc_inv (foc_put v new t) = foc_inv t" for new and t :: "'a focd"
    by (cases v) (simp_all add: foc_inv_def)
  ultimately show ?thesis using assms
    by (simp add: foc_write_def split: option.split prod.split) (metis snd_conv)
qed

lemma focusing_ended_inv:
  assumes "\<forall>e \<in> set (focouts s). foc_call_ok e"
  shows "foc_inv (focusing_ended d s)" "\<not> is_focusing (focusing_ended d s)"
proof -
  obtain r h where e: "endFocusing_f d s = (r, h)" by force
  obtain q p h' where i: "info_f d (s\<lparr>fochw := h\<rparr>) = (q, p, h')" using prod_cases3 by blast
  show "foc_inv (focusing_ended d s)" unfolding foc_inv_def foc_bits_def
    using assms by (auto simp: focusing_ended_def e foc_info_def i Let_def mask_word_field dest!: foc_maskState_outs)
  show "\<not> is_focusing (focusing_ended d s)"
    by (simp add: focusing_ended_def e foc_info_def i Let_def is_focusing_def mask_word_field)
qed

lemma foc_idle_inv:
  assumes "foc_inv s"
  shows "foc_inv (foc_idle d ext s)"
proof -
  define s1 where "s1 = (case ext of None \<Rightarrow> s | Some t \<Rightarrow> s\<lparr>focTemperature := t\<rparr>)"
  have s1: "foc_inv s1" using assms by (cases ext) (simp_all add: s1_def foc_inv_def)
  obtain r p h where i: "isFocusing_f d s1 = (r, p, h)" using prod_cases3 by blast
  have "foc_inv (compensate d s1)"
    using s1 setPosition_inv [OF s1] by (simp add: compensate_def split: option.split)
  moreover have "foc_inv (focusing_ended d (s1\<lparr>focPosition := p, fochw := h\<rparr>))"
    by (rule focusing_ended_inv) (use s1 in \<open>simp add: foc_inv_def\<close>)
  moreover have "foc_inv (s1\<lparr>focPosition := p, fochw := h, focTimeout := r\<rparr>)" using s1 by (simp add: foc_inv_def)
  ultimately show ?thesis by (simp add: foc_idle_def s1_def [symmetric] Let_def i)
qed

lemma foc_step_inv:
  assumes "foc_inv s"
  shows "foc_inv (foc_step d e s)"
proof (cases e)
  case (FocScriptEnds)
  have "foc_inv (s\<lparr>focTempOff := (focTempOff s)\<lparr>fnum := Some 0\<rparr>\<rparr>)" using assms by (simp add: foc_inv_def)
  then show ?thesis using setPosition_inv FocScriptEnds by (simp add: foc_scriptEnds_def Let_def)
qed (use assms foc_write_inv [OF assms] foc_idle_inv [OF assms] in
      \<open>simp_all add: foc_inv_def foc_write_position_def setFocusExtent_def updateOffsetsExtent_def Let_def split: prod.split\<close>)

interpretation focuser: invariant_system foc_inv "\<lambda>e s. True" "foc_step d" for d
  by unfold_locales (simp_all add: foc_step_inv)

lemma foc_initValues_inv:
  assumes "foc_inv s"
  shows "foc_inv (snd (foc_initValues d s))"
  using assms setPosition_inv [OF assms]
  by (auto simp: foc_initValues_def foc_info_def foc_inv_def split: prod.split)

lemma single_bit_and: "(w :: 'a::len word) AND 2 ^ n = 2 ^ n \<longleftrightarrow> w AND 2 ^ n \<noteq> 0" if "n < LENGTH('a)"
proof (cases "bit w n")
  case True
  then have "w AND 2 ^ n = 2 ^ n" using that by (intro bit_word_eqI) (auto simp: bit_simps)
  then show ?thesis using that by simp
qed (use that in \<open>simp add: and_exp_eq_0_iff_not_bit [symmetric] exp_eq_zero_iff\<close>)

text \<open>
  C29: A focuser moves only while exposures are blocked, and only inside its limits. In every run, after
  the start of any driver, the state says that the focuser moves exactly when it blocks exposures, and each
  call of the driver's \<open>setTo\<close> was made in such a state, with a position between the limits of the target.
\<close>

theorem focuser_moves_blocked:
  assumes "focState i = 0" "focouts i = []" "s = run_steps (foc_step d) es (snd (foc_initValues d i))"
  shows "(focState s AND FOC_MASK_FOCUSING = FOC_FOCUSING \<longleftrightarrow> focState s AND BOP_EXPOSURE = BOP_EXPOSURE)
    \<and> (\<forall>x lo hi w. FocSetTo x lo hi w \<in> set (focouts s) \<longrightarrow>
          \<not> dless x lo \<and> \<not> dless hi x \<and> w AND FOC_MASK_FOCUSING = FOC_FOCUSING \<and> w AND BOP_EXPOSURE = BOP_EXPOSURE)"
proof -
  have "foc_inv i" using assms(1,2) by (simp add: foc_inv_def foc_bits_def)
  then have s: "foc_inv s" unfolding assms(3) by (intro focuser.inv_run foc_initValues_inv) simp_all
  have bit: "w AND BOP_EXPOSURE = BOP_EXPOSURE \<longleftrightarrow> w AND BOP_EXPOSURE \<noteq> 0"
    "w AND FOC_MASK_FOCUSING = FOC_FOCUSING \<longleftrightarrow> w AND FOC_MASK_FOCUSING \<noteq> 0" for w :: u32
    using single_bit_and [of 24 w] single_bit_and [of 0 w] by simp_all
  show ?thesis using s foc_call_ok.simps(2) unfolding foc_inv_def foc_bits_def bit by blast
qed

lemma focuser_moves_blocked_witness:
  "let s = run_steps (foc_step dummy_focuser) [FocExtent (Some 0) (Some 100), FocWrite FocTar (Some 7) None] (dummy_focd 3)
   in FocSetTo (Some 7) (Some 0) (Some 100) 0x01000001 \<in> set (focouts s)
      \<and> (0x01000001 :: u32) AND BOP_EXPOSURE = BOP_EXPOSURE"
proof -
  let ?s = "run_steps (foc_step dummy_focuser) [FocExtent (Some 0) (Some 100), FocWrite FocTar (Some 7) None] (dummy_focd 3)"
  have "FocSetTo (Some 7) (Some 0) (Some 100) 0x01000001 \<in> set (focouts ?s)" by code_simp
  then show ?thesis using focuser_moves_blocked [OF _ _ refl, where d = dummy_focuser and i = "dummy_start 3"
        and es = "[FocExtent (Some 0) (Some 100), FocWrite FocTar (Some 7) None]"]
    unfolding Let_def dummy_focd_def by (simp add: dummy_start_def new_focd_def)
qed

subsection \<open>The dummy focuser arrives\<close>

lemma dummy_poll:
  assumes "is_focusing s" "focPosition s = Some p" "fnum (focTarget s) = Some x"
  shows "\<bar>p - x\<bar> < \<bar>fochw s\<bar> \<Longrightarrow>
      focPosition (foc_idle dummy_focuser None s) = Some x \<and> \<not> is_focusing (foc_idle dummy_focuser None s)"
    and "\<not> \<bar>p - x\<bar> < \<bar>fochw s\<bar> \<Longrightarrow>
      foc_idle dummy_focuser None s = s\<lparr>focPosition := Some (p + fochw s), focTimeout := USEC_SEC\<rparr>"
proof -
  assume "\<bar>p - x\<bar> < \<bar>fochw s\<bar>"
  then have "foc_idle dummy_focuser None s = focusing_ended dummy_focuser (s\<lparr>focPosition := Some x\<rparr>)"
    using assms by (simp add: foc_idle_def dummy_focuser_def dummy_isFocusing_def)
  then show "focPosition (foc_idle dummy_focuser None s) = Some x \<and> \<not> is_focusing (foc_idle dummy_focuser None s)"
    by (simp add: focusing_ended_def dummy_focuser_def dummy_foc_info_def foc_info_def Let_def is_focusing_def mask_word_field)
next
  assume "\<not> \<bar>p - x\<bar> < \<bar>fochw s\<bar>"
  then show "foc_idle dummy_focuser None s = s\<lparr>focPosition := Some (p + fochw s), focTimeout := USEC_SEC\<rparr>"
    using assms by (simp add: foc_idle_def dummy_focuser_def dummy_isFocusing_def)
qed

lemma step_closer:
  fixes p x k :: int
  assumes "k \<noteq> 0" "x < p \<longrightarrow> k < 0" "p < x \<longrightarrow> 0 < k" "\<not> \<bar>p - x\<bar> < \<bar>k\<bar>"
  shows "\<bar>(p + k) - x\<bar> = \<bar>p - x\<bar> - \<bar>k\<bar>" "x < p + k \<longrightarrow> k < 0" "p + k < x \<longrightarrow> 0 < k"
proof -
  consider "k < 0" "x \<le> p" "- k \<le> p - x" | "0 < k" "p \<le> x" "k \<le> x - p"
    using assms by (cases "k < 0") (simp_all add: abs_if split: if_splits)
  then show "\<bar>(p + k) - x\<bar> = \<bar>p - x\<bar> - \<bar>k\<bar>" "x < p + k \<longrightarrow> k < 0" "p + k < x \<longrightarrow> 0 < k"
    by (cases; simp)+
qed

lemma nat_div_zero: "0 < k \<Longrightarrow> nat (a div k) = 0 \<Longrightarrow> a < k" for a k :: int
  by (metis linorder_not_less nat_0_iff pos_imp_zdiv_pos_iff)

lemma nat_div_step:
  fixes a k :: int
  assumes "0 < k" "k \<le> a"
  shows "nat (a div k) = Suc (nat ((a - k) div k))"
proof -
  have "a div k = (a - k) div k + 1" using div_add_self2 [of k "a - k"] assms(1) by simp
  moreover have "0 \<le> (a - k) div k" using assms by (simp add: pos_imp_zdiv_nonneg_iff)
  ultimately show ?thesis by (simp only: Suc_nat_eq_nat_zadd1)
qed

lemma dummy_arrives:
  assumes "is_focusing s" "focPosition s = Some p" "fnum (focTarget s) = Some x" "fochw s \<noteq> 0"
    "x < p \<longrightarrow> fochw s < 0" "p < x \<longrightarrow> 0 < fochw s" "nat (\<bar>p - x\<bar> div \<bar>fochw s\<bar>) = n"
  shows "let u = run_steps (foc_step dummy_focuser) (replicate (Suc n) (FocIdle None)) s in focPosition u = Some x \<and> \<not> is_focusing u"
  using assms
proof (induction n arbitrary: s p)
  case 0
  have "\<bar>p - x\<bar> < \<bar>fochw s\<bar>" by (rule nat_div_zero [OF _ 0(7)]) (simp add: 0(4))
  then show ?case using dummy_poll(1) [OF 0(1-3)] by simp
next
  case (Suc n)
  have k: "0 < \<bar>fochw s\<bar>" using Suc.prems(4) by simp
  have m: "\<not> \<bar>p - x\<bar> < \<bar>fochw s\<bar>"
  proof
    assume "\<bar>p - x\<bar> < \<bar>fochw s\<bar>"
    then have "\<bar>p - x\<bar> div \<bar>fochw s\<bar> = 0" by (simp add: div_pos_pos_trivial)
    then show False using Suc.prems(7) by simp
  qed
  let ?t = "s\<lparr>focPosition := Some (p + fochw s), focTimeout := USEC_SEC\<rparr>"
  note d = step_closer [OF Suc.prems(4-6) m]
  have n: "nat (\<bar>p + fochw s - x\<bar> div \<bar>fochw s\<bar>) = n"
    using nat_div_step [OF k] m Suc.prems(7) unfolding d(1) by (simp add: not_less)
  have "let u = run_steps (foc_step dummy_focuser) (replicate (Suc n) (FocIdle None)) ?t in focPosition u = Some x \<and> \<not> is_focusing u"
  proof (rule Suc.IH)
    show "is_focusing ?t" "focPosition ?t = Some (p + fochw s)" "fnum (focTarget ?t) = Some x" "fochw ?t \<noteq> 0"
      using Suc.prems(1,3,4) by (simp_all add: is_focusing_def)
    show "x < p + fochw s \<longrightarrow> fochw ?t < 0" "p + fochw s < x \<longrightarrow> 0 < fochw ?t" using d(2,3) by simp_all
    show "nat (\<bar>p + fochw s - x\<bar> div \<bar>fochw ?t\<bar>) = n" using n by simp
  qed
  then show ?case using dummy_poll(2) [OF Suc.prems(1-3) m] by simp
qed

lemma dummy_start_move:
  assumes "foc_inv s" "setPosition dummy_focuser (Some x) s = (0, t)" "focPosition s = Some p"
  shows "is_focusing t" "focPosition t = Some p" "fnum (focTarget t) = Some x" "\<bar>fochw t\<bar> = \<bar>fochw s\<bar>"
    "x < p \<longrightarrow> fochw t \<le> 0" "p < x \<longrightarrow> 0 \<le> fochw t"
proof -
  have *: "is_focusing t \<and> focPosition t = Some p \<and> fnum (focTarget t) = Some x
      \<and> fochw t = (if x < p then - \<bar>fochw s\<bar> else \<bar>fochw s\<bar>)"
    using assms(2,1)
  proof (cases rule: setPosition_cases)
    case (moves h)
    then show ?thesis using assms(3) by (auto simp: dummy_focuser_def dummy_setTo_def)
  qed simp_all
  then show "is_focusing t" "focPosition t = Some p" "fnum (focTarget t) = Some x" "\<bar>fochw t\<bar> = \<bar>fochw s\<bar>"
    "x < p \<longrightarrow> fochw t \<le> 0" "p < x \<longrightarrow> 0 \<le> fochw t" by simp_all
qed

text \<open>
  The dummy focuser arrives. When it accepted a new position, with a step of at least one, then after
  the distance divided by the step, plus one, polls it is at the position, no longer moves and no longer
  blocks exposures.
\<close>

theorem dummy_focuser_arrives:
  assumes "foc_inv s" "setPosition dummy_focuser (Some x) s = (0, t)" "focPosition s = Some p" "fochw s \<noteq> 0"
    "n = nat (\<bar>p - x\<bar> div \<bar>fochw s\<bar>) + 1"
  shows "let u = run_steps (foc_step dummy_focuser) (replicate n (FocIdle None)) t
    in focPosition u = Some x \<and> focState u AND FOC_MASK_FOCUSING = FOC_SLEEPING \<and> focState u AND BOP_EXPOSURE = 0"
proof -
  note m = dummy_start_move [OF assms(1-3)]
  let ?u = "run_steps (foc_step dummy_focuser) (replicate n (FocIdle None)) t"
  have k: "fochw t \<noteq> 0" using m(4) assms(4) by simp
  have t: "foc_inv t" using setPosition_inv [OF assms(1), of dummy_focuser "Some x"] assms(2) by simp
  have n: "n = Suc (nat (\<bar>p - x\<bar> div \<bar>fochw t\<bar>))" using assms(5) m(4) by simp
  have "x < p \<longrightarrow> fochw t < 0" "p < x \<longrightarrow> 0 < fochw t" using m(5,6) k by linarith+
  then have u: "focPosition ?u = Some x" "\<not> is_focusing ?u"
    using dummy_arrives [OF m(1-3) k _ _ refl] by (simp_all only: Let_def n simp_thms)
  have "foc_inv ?u" by (rule focuser.inv_run [OF t]) simp
  moreover have "focState ?u AND FOC_MASK_FOCUSING = 0"
    using u(2) single_bit_and [of 0 "focState ?u"] by (simp add: is_focusing_def)
  ultimately show ?thesis using u(1) by (simp add: Let_def foc_inv_def foc_bits_def)
qed

lemma dummy_focuser_arrives_witness:
  "let u = run_steps (foc_step dummy_focuser) (replicate 3 (FocIdle None)) (snd (setPosition dummy_focuser (Some 7) (dummy_focd 3)))
   in focPosition u = Some 7 \<and> focState u AND FOC_MASK_FOCUSING = FOC_SLEEPING \<and> focState u AND BOP_EXPOSURE = 0"
proof (rule dummy_focuser_arrives)
  show "foc_inv (dummy_focd 3)" unfolding dummy_focd_def
    by (rule foc_initValues_inv) (simp add: dummy_start_def new_focd_def foc_inv_def foc_bits_def)
  show "setPosition dummy_focuser (Some 7) (dummy_focd 3) = (0, snd (setPosition dummy_focuser (Some 7) (dummy_focd 3)))"
    by code_simp
  show "focPosition (dummy_focd 3) = Some 0" "fochw (dummy_focd 3) \<noteq> 0" by code_simp+
  show "3 = nat (\<bar>0 - 7\<bar> div \<bar>fochw (dummy_focd 3)\<bar>) + 1" by code_simp
qed

subsection \<open>The position is the sum of its parts\<close>

text \<open>
  C38: Offsets add up. When a write of the default position or of one of its offsets, with or without new limits, is
  accepted and is not of the value there was, the target of the focuser is the sum of the default position, the three offsets and the
  temperature compensation, with the new value.
\<close>

theorem focuser_offsets_add:
  assumes "foc_inv s" "v \<noteq> FocTar" "foc_write d v x lims s = (0, t)" "\<not> dequal (fnum (foc_get v s)) x"
  shows "fnum (focTarget t) =
           foc_sum (fnum (focDefault t)) (fnum (focFilterOff t)) (fnum (focFoff t)) (fnum (focTempOff t)) (tcOffset_f d s)
    \<and> fnum (foc_get v t) = x"
proof -
  note ne = assms(4)
  obtain new where new: "parse_fval x lims (foc_get v s) = Some new"
    using assms(3) by (cases "parse_fval x lims (foc_get v s)") (simp_all add: foc_write_def)
  have nn: "fnum new = x" using new by (auto simp: parse_fval_def Let_def case_prod_beta split: if_splits option.splits)
  let ?y = "asked_position v x (tcOffset_f d s) s"
  obtain r s1 where sp: "setPosition d ?y s = (r, s1)" by force
  have "r = 0" and t: "t = (if dequal (fnum (foc_get v s1)) x then s1 else foc_put v new s1)"
    using assms(3) ne by (auto simp: foc_write_def new nn foc_setValue_def sp split: if_splits)
  from sp assms(1) show ?thesis
  proof (cases rule: setPosition_cases)
    case (moves h)
    have g: "fnum (foc_get v s1) = fnum (foc_get v s)" using moves assms(2) by (cases v) simp_all
    have "t = foc_put v new s1" using t ne g by simp
    then show ?thesis using moves assms(2) nn by (cases v) simp_all
  qed (use \<open>r = 0\<close> in simp_all)
qed

lemma focuser_offsets_add_witness:
  "let t = snd (foc_write dummy_focuser FocFilteroff (Some 5) None (dummy_focd 3))
   in fnum (focTarget t) = Some 5 \<and> fnum (focFilterOff t) = Some 5"
proof -
  let ?t = "snd (foc_write dummy_focuser FocFilteroff (Some 5) None (dummy_focd 3))"
  have "foc_inv (dummy_focd 3)" unfolding dummy_focd_def
    by (rule foc_initValues_inv) (simp add: dummy_start_def new_focd_def foc_inv_def foc_bits_def)
  moreover have "foc_write dummy_focuser FocFilteroff (Some 5) None (dummy_focd 3) = (0, ?t)" by code_simp
  moreover have "\<not> dequal (fnum (foc_get FocFilteroff (dummy_focd 3))) (Some 5)" by code_simp
  ultimately have "fnum (focTarget ?t) = foc_sum (fnum (focDefault ?t)) (fnum (focFilterOff ?t)) (fnum (focFoff ?t))
      (fnum (focTempOff ?t)) (tcOffset_f dummy_focuser (dummy_focd 3)) \<and> fnum (foc_get FocFilteroff ?t) = Some 5"
    by (intro focuser_offsets_add) simp_all
  moreover have "foc_sum (fnum (focDefault ?t)) (fnum (focFilterOff ?t)) (fnum (focFoff ?t)) (fnum (focTempOff ?t))
      (tcOffset_f dummy_focuser (dummy_focd 3)) = Some 5" by code_simp
  ultimately show ?thesis by (simp add: Let_def)
qed

subsection \<open>Runs where the focuser surprises\<close>

text \<open>A refused position stays as target, although nothing moves there.\<close>

lemma refused_position_is_target:
  "let s = run_steps (foc_step dummy_focuser) [FocExtent (Some 0) (Some 100), FocWrite FocDef (Some 90) None,
       FocExtent (Some 0) (Some 50), FocScriptEnds] (dummy_focd 3)
   in fnum (focTarget s) = Some 90 \<and> fmax (focTarget s) = Some 50 \<and> \<not> is_focusing s"
  by code_simp

text \<open>The end of a move is reported as success also when the driver reports an error, -1, of the move.\<close>

lemma failed_move_succeeds:
  assumes "is_focusing s" "isFocusing_f d s = (-1, p, h)" "endFocusing_f d (s\<lparr>focPosition := p, fochw := h\<rparr>) = (0, h)"
  shows "focState (foc_idle d None s) AND (FOC_MASK_FOCUSING OR BOP_EXPOSURE OR DEVICE_ERROR_MASK) = 0"
proof -
  obtain q p' h' where i: "info_f d (s\<lparr>focPosition := p, fochw := h\<rparr>) = (q, p', h')" using prod_cases3 by blast
  have "foc_idle d None s = foc_maskState (FOC_MASK_FOCUSING OR BOP_EXPOSURE) FOC_SLEEPING
      (s\<lparr>focPosition := p', fochw := h', focTimeout := USEC_SEC\<rparr>)"
    using assms i by (simp add: foc_idle_def focusing_ended_def foc_info_def Let_def)
  then show ?thesis by (simp add: mask_word_def word_bw_assocs)
qed

text \<open>A step of zero never arrives: exposures stay blocked.\<close>

lemma zero_step_never_arrives:
  assumes "is_focusing s" "fochw s = 0" "focPosition s = Some p"
  shows "is_focusing (run_steps (foc_step dummy_focuser) (replicate n (FocIdle None)) s)"
  using assms
proof (induction n arbitrary: s)
  case (Suc n)
  have "foc_idle dummy_focuser None s = s\<lparr>focPosition := Some p, focTimeout := USEC_SEC\<rparr>"
    using Suc.prems by (cases "fnum (focTarget s)") (simp_all add: foc_idle_def dummy_focuser_def dummy_isFocusing_def)
  then show ?case using Suc.IH [of "s\<lparr>focPosition := Some p, focTimeout := USEC_SEC\<rparr>"] Suc.prems
    by (simp add: is_focusing_def)
qed simp

end
