(* ===== verification/FilterdProps.thy ===== *)
theory FilterdProps
  imports Filterd FocuserProps
begin

section \<open>Filter wheels: properties\<close>

text \<open>
  The names of the filters are what a split of the argument gives and are found again by name; a wheel moves only
  while exposures are blocked; and runs where a wheel does what it should not.
\<close>

subsection \<open>Filter names\<close>

text \<open>The reference: cut the string at every separator, keep the pieces that are not empty.\<close>

fun pieces :: "(char \<Rightarrow> bool) \<Rightarrow> string \<Rightarrow> string list" where
  "pieces P [] = [[]]"
| "pieces P (c # cs) =
     (if P c then [] # pieces P cs else (case pieces P cs of p # ps \<Rightarrow> (c # p) # ps | [] \<Rightarrow> [[c]]))"

lemma pieces_Cons: "\<exists>p ps. pieces P cs = p # ps"
  by (cases cs) (simp_all split: list.split)

lemma pieces_takeWhile:
  "pieces P cs = takeWhile (\<lambda>c. \<not> P c) cs #
     (case dropWhile (\<lambda>c. \<not> P c) cs of [] \<Rightarrow> [] | _ # t \<Rightarrow> pieces P t)"
  by (induction cs) simp_all

definition nonempty_pieces :: "string \<Rightarrow> string list" where
  "nonempty_pieces x = filter (\<lambda>n. n \<noteq> []) (pieces is_sep x)"

lemma nonempty_pieces_skip: "nonempty_pieces x = nonempty_pieces (dropWhile is_sep x)"
  by (induction x) (simp_all add: nonempty_pieces_def)

lemma nonempty_pieces_name:
  assumes "dropWhile is_sep x = name" "name \<noteq> []"
  shows "nonempty_pieces name =
     takeWhile (\<lambda>c. \<not> is_sep c) name #
       (case dropWhile (\<lambda>c. \<not> is_sep c) name of [] \<Rightarrow> [] | _ # t \<Rightarrow> nonempty_pieces t)"
proof -
  have "\<not> is_sep (hd name)" using assms hd_dropWhile by metis
  then have "takeWhile (\<lambda>c. \<not> is_sep c) name \<noteq> []" using assms(2) by (cases name) simp_all
  then have "filter (\<lambda>n. n \<noteq> []) (takeWhile (\<lambda>c. \<not> is_sep c) name # ps)
      = takeWhile (\<lambda>c. \<not> is_sep c) name # filter (\<lambda>n. n \<noteq> []) ps" for ps
    by (simp only: filter.simps if_True not_False_eq_True)
  then show ?thesis unfolding nonempty_pieces_def
    by (subst pieces_takeWhile) (cases "dropWhile (\<lambda>c. \<not> is_sep c) name"; simp only: filter.simps(1) list.case)
qed

lemma split_filters_pieces: "split_filters x = nonempty_pieces x"
proof (induction x rule: split_filters.induct)
  case (1 x)
  show ?case
  proof (cases "dropWhile is_sep x = []")
    case True
    then have "nonempty_pieces x = nonempty_pieces []" using nonempty_pieces_skip [of x] by metis
    then have "nonempty_pieces x = []" by (simp add: nonempty_pieces_def)
    then show ?thesis by (subst split_filters.simps) (simp only: Let_def True simp_thms if_True)
  next
    case False
    define name where "name = dropWhile is_sep x"
    have n: "nonempty_pieces x = takeWhile (\<lambda>c. \<not> is_sep c) name #
        (case dropWhile (\<lambda>c. \<not> is_sep c) name of [] \<Rightarrow> [] | _ # t \<Rightarrow> nonempty_pieces t)"
      unfolding nonempty_pieces_skip [of x] name_def by (rule nonempty_pieces_name [OF refl False])
    show ?thesis
    proof (cases "dropWhile (\<lambda>c. \<not> is_sep c) name")
      case Nil
      then show ?thesis using False unfolding n
        by (subst split_filters.simps) (simp only: Let_def name_def [symmetric] list.case if_False if_True refl)
    next
      case (Cons c t)
      then have "split_filters t = nonempty_pieces t" using 1 [OF name_def _ refl] False by (simp add: name_def)
      then show ?thesis using False Cons unfolding n
        by (subst split_filters.simps) (simp only: Let_def name_def [symmetric] list.case if_False list.sel list.distinct)
    qed
  qed
qed

text \<open>
  C37: The names of the filters. \<open>setFilters\<close> adds exactly the pieces of its argument between separators
  (colon, quote, apostrophe) that are not empty, in their order, and fails exactly when the wheel then has
  no filter.
\<close>

theorem filters_are_pieces:
  "setFilters x v = (if sel_names v @ filter (\<lambda>n. n \<noteq> []) (pieces is_sep x) = [] then -1 else 0,
     v\<lparr>sel_names := sel_names v @ filter (\<lambda>n. n \<noteq> []) (pieces is_sep x)\<rparr>)"
  by (simp add: setFilters_def split_filters_pieces nonempty_pieces_def Let_def)

subsection \<open>Names round trip\<close>

fun join_names :: "string list \<Rightarrow> string" where
  "join_names [] = []"
| "join_names [n] = n"
| "join_names (n # ns) = n @ CHR '':'' # join_names ns"

definition good_name :: "string \<Rightarrow> bool" where
  "good_name n \<longleftrightarrow> n \<noteq> [] \<and> (\<forall>c \<in> set n. \<not> is_sep c)"

lemma pieces_plain: "\<forall>c \<in> set n. \<not> P c \<Longrightarrow> pieces P n = [n]"
  by (induction n) simp_all

lemma pieces_sep: "\<forall>c \<in> set n. \<not> P c \<Longrightarrow> P k \<Longrightarrow> pieces P (n @ k # r) = n # pieces P r"
  by (induction n) simp_all

lemma pieces_join: "ns \<noteq> [] \<Longrightarrow> \<forall>n \<in> set ns. good_name n \<Longrightarrow> pieces is_sep (join_names ns) = ns"
  by (induction ns rule: join_names.induct) (simp_all add: good_name_def pieces_plain pieces_sep is_sep_def)

lemma index_from_nth:
  "distinct ns \<Longrightarrow> i < length ns \<Longrightarrow> index_from k (ns ! i) ns = k + int i"
  by (induction ns arbitrary: k i) (auto simp: nth_Cons split: nat.split)

text \<open>
  C39: Filters are selected by name. A wheel whose filters were given as a list of different names joined by
  colons selects, when one of these names is written, the filter at its place of the list, unless the name is a
  number.
\<close>

theorem filter_by_name:
  assumes "\<forall>n \<in> set ns. good_name n" "distinct ns" "i < length ns" "snd (strtol10 (ns ! i)) \<noteq> []"
  shows "sel_setValueCharArr (ns ! i) (snd (setFilters (join_names ns) \<lparr>sel_index = k, sel_names = []\<rparr>))
    = (0, \<lparr>sel_index = int i, sel_names = ns\<rparr>)"
proof -
  have "ns \<noteq> []" using assms(3) by auto
  then have "pieces is_sep (join_names ns) = ns" by (rule pieces_join) (rule assms(1))
  moreover have "filter (\<lambda>n. n \<noteq> []) ns = ns" using assms(1) by (intro filter_True) (simp add: good_name_def)
  ultimately have f: "snd (setFilters (join_names ns) \<lparr>sel_index = k, sel_names = []\<rparr>) = \<lparr>sel_index = k, sel_names = ns\<rparr>"
    by (simp add: setFilters_def split_filters_pieces nonempty_pieces_def Let_def)
  obtain n rest where "strtol10 (ns ! i) = (n, rest)" by force
  then show ?thesis unfolding f
    using assms(3,4) by (simp add: sel_setValueCharArr_def getSelIndex_def index_from_nth [OF assms(2,3)]
        sel_setValueInteger_def Let_def)
qed

lemma filter_by_name_witness:
  "sel_setValueCharArr ''R'' (snd (setFilters ''B:V:R'' \<lparr>sel_index = 0, sel_names = []\<rparr>))
    = (0, \<lparr>sel_index = 2, sel_names = [''B'', ''V'', ''R'']\<rparr>)"
proof -
  have "sel_setValueCharArr ([''B'', ''V'', ''R''] ! 2) (snd (setFilters (join_names [''B'', ''V'', ''R'']) \<lparr>sel_index = 0, sel_names = []\<rparr>))
    = (0, \<lparr>sel_index = int 2, sel_names = [''B'', ''V'', ''R'']\<rparr>)"
    by (rule filter_by_name) (simp_all add: good_name_def is_sep_def strtol10_def skip_space_Cons is_digit_def)
  then show ?thesis by simp
qed

subsection \<open>Operations on a selection\<close>

text \<open>
  The subtraction adds the size until the difference is not negative; with no filter to select it does not end
  on a negative difference.
\<close>

lemma raise_sel_ends:
  assumes "0 < n"
  shows "raise_sel n x = Some (if x < 0 then x mod n else x)"
proof (induction "nat (- x)" arbitrary: x rule: less_induct)
  case less
  show ?case
  proof (cases "x < 0")
    case True
    have "raise_sel n (x + n) = Some (if x + n < 0 then (x + n) mod n else x + n)"
      by (rule less) (use True assms in linarith)
    moreover have "\<not> x + n < 0 \<Longrightarrow> x + n = x mod n"
      using True assms by (metis add.right_neutral linorder_not_less mod_add_self2 mod_pos_pos_trivial not_less add_less_same_cancel2)
    ultimately show ?thesis using True by (subst raise_sel.simps) simp
  qed (subst raise_sel.simps, simp)
qed

lemma raise_sel_loops: "x < 0 \<Longrightarrow> raise_sel 0 x = None"
proof -
  have "n = 0 \<longrightarrow> \<not> x < 0" if "raise_sel n x = Some y" for n y
    by (rule raise_sel.raw_induct [of "\<lambda>n x y. n = 0 \<longrightarrow> \<not> x < 0" "(n, x)" y, unfolded split_conv, OF _ that])
      (auto split: if_splits)
  then show "x < 0 \<Longrightarrow> raise_sel 0 x = None" by (cases "raise_sel 0 x") auto
qed

subsection \<open>Exposures are blocked while the wheel moves\<close>

lemma fw_maskState_sel [simp]:
  "fwState (fw_maskState m n s) = mask_word m n (fwState s)" "fwFilter (fw_maskState m n s) = fwFilter s"
  by (simp_all add: fw_maskState_def fw_setState_def)

interpretation wheel_state: masked_state fwState fw_maskState
  by unfold_locales simp

definition fw_idle :: "'h fwd \<Rightarrow> bool" where
  "fw_idle s \<longleftrightarrow> fwState s AND FILTERD_MASK = FILTERD_IDLE \<and> fwState s AND BOP_EXPOSURE = 0"

fun fw_call_ok :: "fw_out \<Rightarrow> bool" where
  "fw_call_ok (FwMove n w) \<longleftrightarrow> w AND FILTERD_MASK = FILTERD_MOVE \<and> w AND BOP_EXPOSURE = BOP_EXPOSURE"
| "fw_call_ok _ \<longleftrightarrow> True"

definition fw_inv :: "'h fwd \<Rightarrow> bool" where
  "fw_inv s \<longleftrightarrow> fw_idle s \<and> (\<forall>e \<in> set (fwouts s). fw_call_ok e)"

lemma fw_outs_mask:
  "\<forall>e \<in> set (fwouts s). fw_call_ok e \<Longrightarrow> \<forall>e \<in> set (fwouts (fw_maskState m n s)). fw_call_ok e"
  by (auto simp: fw_maskState_def fw_setState_def)

lemma fw_call_outs:
  assumes "fw_call d n s = (r, t)" "\<forall>e \<in> set (fwouts s). fw_call_ok e"
    "fwState s AND FILTERD_MASK = FILTERD_MOVE" "fwState s AND BOP_EXPOSURE = BOP_EXPOSURE"
  shows "\<forall>e \<in> set (fwouts t). fw_call_ok e"
  using assms by (auto simp: fw_call_def base_setFilterNum_def Let_def split: prod.splits if_splits)

lemma setFilterNumMask_inv:
  assumes "\<forall>e \<in> set (fwouts s). fw_call_ok e"
  shows "fw_inv (snd (setFilterNumMask d n s))"
proof -
  define s1 where "s1 = fw_maskState (FILTERD_MASK OR BOP_EXPOSURE) (FILTERD_MOVE OR BOP_EXPOSURE) s"
  obtain r s2 where c: "fw_call d n s1 = (r, s2)" by force
  have "\<forall>e \<in> set (fwouts s2). fw_call_ok e"
    by (rule fw_call_outs [OF c]) (use assms in \<open>simp_all add: s1_def fw_outs_mask mask_word_field\<close>)
  then have "\<forall>e \<in> set (fwouts (fw_info d s2)). fw_call_ok e" by (simp add: fw_info_def)
  moreover have "snd (setFilterNumMask d n s) =
      (if r = -1 then fw_maskState (DEVICE_ERROR_MASK OR FILTERD_MASK OR BOP_EXPOSURE) (DEVICE_ERROR_HW OR FILTERD_IDLE) (fw_info d s2)
       else fw_maskState (FILTERD_MASK OR BOP_EXPOSURE) FILTERD_IDLE (fw_info d s2))"
    by (simp only: setFilterNumMask_def s1_def [symmetric] Let_def c split_conv snd_conv)
  ultimately show ?thesis by (simp add: fw_inv_def fw_idle_def mask_word_field fw_outs_mask)
qed

lemma fw_step_inv:
  assumes "fw_inv s"
  shows "fw_inv (fw_step d e s)"
proof -
  have o: "\<forall>e \<in> set (fwouts s). fw_call_ok e" using assms by (simp add: fw_inv_def)
  have m: "fw_inv t" if "setFilterNumMask d n s = (r, t)" for n r t using setFilterNumMask_inv [OF o, of d n] that by simp
  have k: "fw_inv (t\<lparr>fwouts := fwouts t @ [FwEnd c x]\<rparr>) = fw_inv t" "fw_inv (t\<lparr>fwFilter := v\<rparr>) = fw_inv t" "fw_inv (t\<lparr>fwhw := h\<rparr>) = fw_inv t"
    for t :: "'a fwd" and c x v h by (auto simp: fw_inv_def fw_idle_def)
  show ?thesis
  proof (cases e)
    case (FwCommand c x)
    then show ?thesis using assms m by (cases x) (auto simp: k split: prod.splits)
  next
    case (FwWrite x)
    then show ?thesis using assms m by (auto simp: fw_write_def k Let_def split: prod.splits)
  next
    case FwScriptEnds
    then show ?thesis using assms setFilterNumMask_inv [OF o] by (simp add: fw_scriptEnds_def split: option.split)
  next
    case (FwMaster w)
    then show ?thesis using assms setFilterNumMask_inv [OF o] by (simp add: fw_changeMasterState_def split: option.split)
  qed (use assms in \<open>simp_all add: fw_info_def k\<close>)
qed

interpretation wheel: invariant_system fw_inv "\<lambda>e s. True" "fw_step d" for d
  by unfold_locales (simp_all add: fw_step_inv)

text \<open>
  A wheel moves only while exposures are blocked. In every run each call of the driver's
  \<open>setFilterNum\<close> was made in a state that blocks exposures and says that the wheel moves, and after every
  event, also one that failed, the wheel is idle and blocks no exposure.
\<close>

theorem wheel_moves_blocked:
  assumes "s = run_steps (fw_step d) es (fw_initValues def day (new_fwd h names))"
  shows "fwState s AND FILTERD_MASK = FILTERD_IDLE \<and> fwState s AND BOP_EXPOSURE = 0
    \<and> (\<forall>n w. FwMove n w \<in> set (fwouts s) \<longrightarrow> w AND FILTERD_MASK = FILTERD_MOVE \<and> w AND BOP_EXPOSURE = BOP_EXPOSURE)"
proof -
  have "fw_inv (fw_initValues def day (new_fwd h names))"
    by (simp add: fw_inv_def fw_idle_def fw_initValues_def new_fwd_def Let_def)
  then have "fw_inv s" unfolding assms by (rule wheel.inv_run) simp
  then show ?thesis using fw_call_ok.simps(1) unfolding fw_inv_def fw_idle_def by blast
qed

lemma wheel_moves_blocked_witness:
  "let s = run_steps (fw_step dummy_wheel) [FwWrite ''V''] (fw_initValues None None (new_fwd 0 ''B:V''))
   in FwMove 1 0x01000002 \<in> set (fwouts s) \<and> (0x01000002 :: u32) AND BOP_EXPOSURE = BOP_EXPOSURE"
proof -
  let ?s = "run_steps (fw_step dummy_wheel) [FwWrite ''V''] (fw_initValues None None (new_fwd 0 ''B:V''))"
  have "FwMove 1 0x01000002 \<in> set (fwouts ?s)" by code_simp
  then show ?thesis using wheel_moves_blocked [OF refl, where d = dummy_wheel and es = "[FwWrite ''V'']" and def = None
        and day = None and h = 0 and names = "''B:V''"] unfolding Let_def by blast
qed

subsection \<open>Runs where the wheel surprises\<close>

text \<open>The dummy wheel takes a filter it does not have: the command succeeds, the value keeps the old name.\<close>

lemma unknown_filter_accepted:
  "let (r, s) = fw_commandAuthorized dummy_wheel 1 (FwFilter 99) (new_fwd 0 ''B:V'')
   in r = 0 \<and> fwhw s = 99 \<and> sel_index (fwFilter s) = 0"
  by code_simp

text \<open>A default filter the wheel does not have is taken for the first one, without a message.\<close>

lemma unknown_default_is_first:
  "let s = run_steps (fw_step dummy_wheel) [FwWrite ''V'', FwScriptEnds] (fw_initValues (Some ''H-alpha'') None (new_fwd 0 ''B:V''))
   in fwhw s = 0"
  by code_simp

text \<open>A driver's error other than -1 is not an error of the device: the write fails, the state says nothing.\<close>

lemma other_errors_unnoticed:
  assumes "\<And>t. fst (setFilterNum_w d n t) = -2"
  shows "fst (setFilterNumMask d n s) = -2"
    "fwState (snd (setFilterNumMask d n s)) AND (DEVICE_ERROR_MASK OR FILTERD_MASK OR BOP_EXPOSURE) = 0"
proof -
  define s1 where "s1 = fw_maskState (FILTERD_MASK OR BOP_EXPOSURE) (FILTERD_MOVE OR BOP_EXPOSURE) s"
  obtain s2 where c: "fw_call d n s1 = (-2, s2)"
    using assms [of "s1\<lparr>fwouts := fwouts s1 @ [FwMove n (fwState s1)]\<rparr>"]
    by (cases "setFilterNum_w d n (s1\<lparr>fwouts := fwouts s1 @ [FwMove n (fwState s1)]\<rparr>)") (simp add: fw_call_def Let_def)
  have "setFilterNumMask d n s = (-2, fw_maskState (FILTERD_MASK OR BOP_EXPOSURE) FILTERD_IDLE (fw_info d s2))"
    by (simp only: setFilterNumMask_def s1_def [symmetric] Let_def c split_conv) simp
  then show "fst (setFilterNumMask d n s) = -2"
    "fwState (snd (setFilterNumMask d n s)) AND (DEVICE_ERROR_MASK OR FILTERD_MASK OR BOP_EXPOSURE) = 0"
    by (simp_all add: mask_word_def word_bw_assocs)
qed

end
