(* ===== verification/ScriptText.thy ===== *)
theory ScriptText
  imports Complex_Main ConnProtocol
begin

section \<open>Script text: numbers and elements\<close>

text \<open>
  The text layer of the script language of \<open>base/script\<close>: how the script's buffer is cut into elements
  (\<open>Script::nextElement\<close>, \<open>isNext\<close> and the parameter readers of \<open>script.cpp\<close>), what \<open>atof\<close> reads, and how
  \<open>std::ostream\<close> prints a floating point number, with its default format and with \<open>std::fixed\<close>. A pointer
  into the buffer is the text that is still to be read; the NUL the code writes behind an element is the
  end of the string it returns. Floating point numbers are their exact rational values, without the
  rounding to \<open>float\<close> and \<open>double\<close>; \<open>atof\<close> reads decimal numbers (neither NaN, infinities nor hexadecimal).
\<close>

subsection \<open>Character classes\<close>

definition is_alpha :: "char \<Rightarrow> bool" where
  "is_alpha c \<longleftrightarrow> (65 \<le> (of_char c :: nat) \<and> (of_char c :: nat) \<le> 90)
     \<or> (97 \<le> (of_char c :: nat) \<and> (of_char c :: nat) \<le> 122)"

definition is_alnum :: "char \<Rightarrow> bool" where
  "is_alnum c \<longleftrightarrow> is_alpha c \<or> is_digit c"

abbreviation SQ :: char where "SQ \<equiv> CHR 0x27"

text \<open>The character at the front, \<open>NUL\<close> at the end of the text.\<close>

definition front :: "string \<Rightarrow> char" where
  "front s = (case s of [] \<Rightarrow> NUL | c # _ \<Rightarrow> c)"

subsection \<open>Reading floating point numbers\<close>

definition read_sign :: "string \<Rightarrow> bool \<times> string" where
  "read_sign s = (if front s = CHR ''-'' then (True, tl s) else if front s = CHR ''+'' then (False, tl s) else (False, s))"

definition read_fraction :: "string \<Rightarrow> rat \<times> string" where
  "read_fraction s =
     (if front s = CHR ''.'' then
        (let (n, r) = read_digits 0 (tl s) in (of_nat n / 10 ^ (length (tl s) - length r), r))
      else (0, s))"

definition read_exponent :: "string \<Rightarrow> int" where
  "read_exponent s =
     (if front s = CHR ''e'' \<or> front s = CHR ''E'' then
        (let (neg, t) = read_sign (tl s); n = fst (read_digits 0 t) in if neg then - int n else int n)
      else 0)"

definition scale10 :: "int \<Rightarrow> rat \<Rightarrow> rat" where
  "scale10 e x = (if 0 \<le> e then x * 10 ^ nat e else x / 10 ^ nat (- e))"

definition atof :: "string \<Rightarrow> rat" where
  "atof s =
     (let (neg, t) = read_sign (skip_space s);
          (ip, t1) = read_digits 0 t;
          (fp, t2) = read_fraction t1;
          v = scale10 (read_exponent t2) (of_nat ip + fp)
      in if neg then - v else v)"

subsection \<open>Printing floating point numbers\<close>

text \<open>Rounding to an integer, ties to even, as the C library prints.\<close>

definition round_even :: "rat \<Rightarrow> int" where
  "round_even x =
     (let f = \<lfloor>x\<rfloor>; d = x - of_int f
      in if d < 1 / 2 then f else if 1 / 2 < d then f + 1 else if even f then f else f + 1)"

definition pad_left :: "nat \<Rightarrow> string \<Rightarrow> string" where
  "pad_left n s = replicate (n - length s) (CHR ''0'') @ s"

definition minus_if :: "bool \<Rightarrow> string" where
  "minus_if neg = (if neg then ''-'' else [])"

text \<open>\<open>std::fixed\<close> with the default precision of six digits.\<close>

definition show_fixed :: "rat \<Rightarrow> string" where
  "show_fixed x =
     (let n = nat (round_even (\<bar>x\<bar> * 1000000))
      in minus_if (x < 0) @ show_nat (n div 1000000) @ ''.'' @ pad_left 6 (show_nat (n mod 1000000)))"

text \<open>The decimal exponent: of the first digit of \<open>p / q\<close>.\<close>

function leading_zeros :: "nat \<Rightarrow> nat \<Rightarrow> nat" where
  "leading_zeros p q = (if p = 0 \<or> q \<le> p then 0 else Suc (leading_zeros (10 * p) q))"
  by pat_completeness auto

termination by (relation "measure (\<lambda>(p, q). q - p)") auto

declare leading_zeros.simps [simp del]

definition dec_exponent :: "rat \<Rightarrow> int" where
  "dec_exponent x =
     (let p = nat (fst (quotient_of x)); q = nat (snd (quotient_of x))
      in if q \<le> p then int (length (show_nat (p div q))) - 1 else - int (leading_zeros p q))"

definition strip_zeros :: "string \<Rightarrow> string" where
  "strip_zeros s = rev (dropWhile (\<lambda>c. c = CHR ''0'') (rev s))"

definition point_digits :: "string \<Rightarrow> string \<Rightarrow> string" where
  "point_digits ip fp = (if strip_zeros fp = [] then ip else ip @ ''.'' @ strip_zeros fp)"

text \<open>
  The default format: six significant digits, with an exponent when it is below \<open>-4\<close> or above \<open>5\<close>, and
  without trailing zeros. \<open>m\<close> has the six digits; a carry to a seventh digit raises the exponent.
\<close>

definition show_significant :: "int \<Rightarrow> nat \<Rightarrow> string" where
  "show_significant e m =
     (let ds = show_nat m
      in if e < -4 \<or> 5 < e
         then point_digits (take 1 ds) (drop 1 ds) @ ''e'' @ (if e < 0 then ''-'' else ''+'')
                @ pad_left 2 (show_nat (nat \<bar>e\<bar>))
         else if e < 0 then point_digits ''0'' (replicate (nat (- e) - 1) (CHR ''0'') @ ds)
         else point_digits (take (Suc (nat e)) ds) (drop (Suc (nat e)) ds))"

definition show_double :: "rat \<Rightarrow> string" where
  "show_double x =
     (if x = 0 then ''0''
      else let e = dec_exponent \<bar>x\<bar>; m = nat (round_even (scale10 (5 - e) \<bar>x\<bar>))
           in minus_if (x < 0)
              @ (if m = 1000000 then show_significant (e + 1) 100000 else show_significant e m))"

subsection \<open>Elements of the buffer\<close>

text \<open>\<open>Script::nextElement\<close>: the element and the text behind it.\<close>

definition nextElement :: "string \<Rightarrow> string \<times> string" where
  "nextElement buf =
     (let s = skip_space buf
      in if front s = DQ \<or> front s = SQ then
           (let q = front s; t = tl s
            in (takeWhile (\<lambda>c. c \<noteq> q) t, drop 1 (dropWhile (\<lambda>c. c \<noteq> q) t)))
         else (takeWhile (\<lambda>c. \<not> is_space c) s, drop 1 (dropWhile (\<lambda>c. \<not> is_space c) s)))"

text \<open>\<open>Script::isNext\<close>: whether the text goes on with a word, which is then eaten with one character more.\<close>

definition isNext :: "string \<Rightarrow> string \<Rightarrow> bool \<times> string" where
  "isNext w buf =
     (let s = skip_space buf
      in if take (length w) s = w then (True, drop 1 (drop (length w) s)) else (False, s))"

text \<open>The readers of parameters; an empty element fails.\<close>

definition getNextParamString :: "string param" where
  "getNextParamString s = (case nextElement s of (el, r) \<Rightarrow> (Some el, r))"

definition getNextParamFloat :: "rat param" where
  "getNextParamFloat s = (case nextElement s of (el, r) \<Rightarrow> (if el = [] then None else Some (atof el), r))"

definition getNextParamDouble :: "rat param" where
  "getNextParamDouble s = (case nextElement s of (el, r) \<Rightarrow> (if el = [] then None else Some (atof el), r))"

definition getNextParamInteger :: "int param" where
  "getNextParamInteger s = (case nextElement s of (el, r) \<Rightarrow> (if el = [] then None else Some (atoi el), r))"

text \<open>The start of a block: the next element begins with a brace.\<close>

definition block_start :: "unit param" where
  "block_start s = (case nextElement s of (el, r) \<Rightarrow> (if front el = CHR ''{'' then Some () else None, r))"

subsection \<open>Facts on elements\<close>

lemma front_simps [simp]: "front [] = NUL" "front (c # s) = c"
  by (simp_all add: front_def)

lemma rest_shorter: "length (drop 1 (dropWhile P t)) \<le> length t"
  using length_dropWhile_le [of P t] by simp

lemma nextElement_shorter: "length (snd (nextElement s)) \<le> length s"
proof -
  have "length (tl (skip_space s)) \<le> length s" using skip_space_length [of s] by simp
  then show ?thesis using rest_shorter [THEN order_trans] skip_space_length [of s]
    by (auto simp: nextElement_def Let_def simp del: length_drop drop_Suc length_tl)
qed

lemma nextElement_consumes:
  assumes "skip_space s \<noteq> []"
  shows "length (snd (nextElement s)) < length s"
proof -
  obtain c t where s: "skip_space s = c # t" using assms by (cases "skip_space s") auto
  have "length t < length s" using skip_space_length [of s] s by simp
  moreover have "\<not> is_space c" using s by (rule skip_space_hd)
  ultimately show ?thesis using rest_shorter [THEN le_less_trans]
    by (auto simp: nextElement_def Let_def s simp del: length_drop drop_Suc)
qed

lemma nextElement_nonempty: "fst (nextElement s) \<noteq> [] \<Longrightarrow> skip_space s \<noteq> []"
  by (auto simp: nextElement_def)

lemma isNext_shorter: "length (snd (isNext w s)) \<le> length s"
  using skip_space_length [of s] by (auto simp: isNext_def Let_def)

end
