(* ===== verification/ScriptOperand.thy ===== *)
theory ScriptOperand
  imports ScriptText
begin

section \<open>Operands of the script language\<close>

text \<open>
  \<open>base/script/src/operands.cpp\<close>: numbers with units, strings, random numbers and comparisons, as the
  right-hand side of a value change and as the condition of a loop. A \<open>ParsingError\<close> is \<open>Inl\<close> of its text.
  The values of other devices and the draws of the random generator come from the environment.
\<close>

datatype comparators = CMP_EQUAL | CMP_LESS | CMP_LESS_EQU | CMP_GREAT_EQU | CMP_GREAT

datatype operand =
    Number rat
  | SystemValue string string
  | OpString string
  | RandomNumber operand operand
  | OperandsLREquation operand comparators operand

datatype mulType = MUL_ANGLE | MUL_TIME

type_synonym 'a parsed = "string + 'a"

subsection \<open>Numbers with units\<close>

text \<open>
  The digits of one number: the value so far, the weight of the next decimal once a point was seen, and the text
  behind. A second point throws.
\<close>

fun read_number :: "rat \<Rightarrow> rat option \<Rightarrow> string \<Rightarrow> (rat \<times> string) parsed" where
  "read_number cn mul [] = Inr (cn, [])"
| "read_number cn mul (c # s) =
     (if c = CHR ''.'' then
        (if mul \<noteq> None then Inl ''multiple decimal points'' else read_number cn (Some (1 / 10)) s)
      else if is_digit c then
        (case mul of
           Some m \<Rightarrow> read_number (cn + of_nat (digit_val c) * m) (Some (m / 10)) s
         | None \<Rightarrow> read_number (cn * 10 + of_nat (digit_val c)) None s)
      else Inr (cn, c # s))"

definition unit_factor :: "mulType \<Rightarrow> char \<Rightarrow> rat option" where
  "unit_factor mt c =
     (case mt of
        MUL_ANGLE \<Rightarrow>
          (if c = CHR ''d'' then Some 1 else if c = CHR ''h'' then Some 15
           else if c = CHR ''m'' \<or> c = SQ then Some (1 / 60)
           else if c = CHR ''s'' \<or> c = DQ then Some (1 / 3600) else None)
      | MUL_TIME \<Rightarrow>
          (if c = CHR ''d'' then Some 86400 else if c = CHR ''h'' then Some 3600
           else if c = CHR ''w'' then Some (7 * 86400) else None))"

definition unknown_multiplier :: "char \<Rightarrow> string" where
  "unknown_multiplier c = ''unknow multiplier '' @ [SQ, c, SQ]"

lemma read_number_shorter: "read_number cn mul s = Inr (v, r) \<Longrightarrow> length r \<le> length s"
  by (induction cn mul s rule: read_number.induct) (auto split: if_splits option.splits)

lemma read_sign_shorter: "length (snd (read_sign s)) \<le> length s"
  by (simp add: read_sign_def)

text \<open>The loop over the numbers of a quantity: \<open>op\<close> is the sum, each number is followed by its unit.\<close>

function quantity_loop :: "mulType \<Rightarrow> rat \<Rightarrow> string \<Rightarrow> rat parsed" where
  "quantity_loop mt tot s =
     (case read_number 0 None (snd (read_sign s)) of
        Inl e \<Rightarrow> Inl e
      | Inr (cn, []) \<Rightarrow> Inr (tot + (if fst (read_sign s) then - cn else cn))
      | Inr (cn, c # r) \<Rightarrow>
          (case unit_factor mt c of
             None \<Rightarrow> Inl (unknown_multiplier c)
           | Some m \<Rightarrow> quantity_loop mt (tot + (if fst (read_sign s) then - cn else cn) * m) r))"
  by pat_completeness auto

termination
proof (relation "measure (\<lambda>(mt, tot, s). length s)", simp)
  fix mt tot s p cn l c r m
  assume "read_number 0 None (snd (read_sign s)) = Inr p" "(cn, l) = p" "l = c # r"
  then have "length (c # r) \<le> length (snd (read_sign s))" using read_number_shorter by metis
  then show "((mt, tot + (if fst (read_sign s) then - cn else cn) * m, r), mt, tot, s)
      \<in> measure (\<lambda>(mt, tot, s). length s)"
    using read_sign_shorter [of s] by simp
qed

declare quantity_loop.simps [simp del]

subsection \<open>Operands and sets of operands\<close>

definition operand_char :: "char \<Rightarrow> bool" where
  "operand_char c \<longleftrightarrow> is_alnum c \<or> c = CHR ''_'' \<or> c = CHR ''+'' \<or> c = CHR ''-'' \<or> c = CHR ''.''"

datatype quotes = NONE | SIMPLE | DOUBLE

record split_state =
  sbraces :: nat
  cbraces :: nat
  squotes :: quotes
  bracked :: bool
  part :: string

text \<open>
  One character of \<open>OperandsSet::parse\<close>: the part that has been collected, or \<open>None\<close> for a thrown error.
  The parts end at a comma inside the outer braces and at their closing brace; the separator belongs to no part.
\<close>

definition split_quotes :: "char \<Rightarrow> split_state \<Rightarrow> split_state" where
  "split_quotes c s =
     s\<lparr>squotes := (if c = SQ \<and> squotes s = SIMPLE \<or> c = DQ \<and> squotes s = DOUBLE then NONE else squotes s),
       part := part s @ [c]\<rparr>"

definition count_braces :: "bool \<Rightarrow> char \<Rightarrow> split_state \<Rightarrow> split_state parsed" where
  "count_braces first c s =
     (if c = CHR ''('' then Inr (s\<lparr>bracked := bracked s \<or> first, sbraces := Suc (sbraces s)\<rparr>)
      else if c = CHR '')'' then
        (if sbraces s = 0 then Inl ''too many closing simple braces - )'' else Inr (s\<lparr>sbraces := sbraces s - 1\<rparr>))
      else if c = CHR ''{'' then Inr (s\<lparr>cbraces := Suc (cbraces s)\<rparr>)
      else if c = CHR ''}'' then
        (if cbraces s = 0 then Inl ''too many closing curved braces - }'' else Inr (s\<lparr>cbraces := cbraces s - 1\<rparr>))
      else if c = SQ then Inr (s\<lparr>squotes := SIMPLE\<rparr>)
      else if c = DQ then Inr (s\<lparr>squotes := DOUBLE\<rparr>)
      else Inr s)"

definition split_here :: "char \<Rightarrow> split_state \<Rightarrow> bool" where
  "split_here c s \<longleftrightarrow> cbraces s = 0 \<and> squotes s = NONE \<and> (c = CHR '','' \<and> sbraces s = 1 \<or> sbraces s = 0 \<and> bracked s)"

fun split_set :: "bool \<Rightarrow> split_state \<Rightarrow> string \<Rightarrow> string list \<times> split_state parsed" where
  "split_set first s [] = ([], Inr s)"
| "split_set first s (c # cs) =
     (if squotes s \<noteq> NONE then split_set False (split_quotes c s) cs
      else case count_braces first c s of
        Inl e \<Rightarrow> ([], Inl e)
      | Inr t \<Rightarrow>
          if split_here c t then
            (case split_set False (t\<lparr>part := []\<rparr>) cs of (ps, e) \<Rightarrow> (part t # ps, e))
          else split_set False (t\<lparr>part := (if first \<and> c = CHR ''('' then [] else part t @ [c])\<rparr>) cs)"

definition split_start :: split_state where
  "split_start = \<lparr>sbraces = 0, cbraces = 0, squotes = NONE, bracked = False, part = []\<rparr>"

text \<open>All operands in order; the first error ends the parse.\<close>

fun collect :: "'a parsed list \<Rightarrow> 'a list parsed" where
  "collect [] = Inr []"
| "collect (Inl e # xs) = Inl e"
| "collect (Inr x # xs) = (case collect xs of Inl e \<Rightarrow> Inl e | Inr ys \<Rightarrow> Inr (x # ys))"

text \<open>
  \<open>OperandsSet::parse\<close> over the parts of the text, with the parser of one operand as argument: an error of
  the splitting comes after the errors of the parts before it.
\<close>

definition parse_set :: "(string \<Rightarrow> operand parsed) \<Rightarrow> string \<Rightarrow> operand list parsed" where
  "parse_set f str =
     (case split_set True split_start str of
        (ps, res) \<Rightarrow>
          (case collect (map f ps) of
             Inl e \<Rightarrow> Inl e
           | Inr xs \<Rightarrow>
               (case res of
                  Inl e \<Rightarrow> Inl e
                | Inr s \<Rightarrow> if bracked s then Inr xs else (case f str of Inl e \<Rightarrow> Inl e | Inr x \<Rightarrow> Inr (xs @ [x])))))"

lemma count_braces_part: "count_braces first c s = Inr t \<Longrightarrow> part t = part s"
  by (auto simp: count_braces_def split: if_splits)

lemma split_set_parts:
  "p \<in> set (fst (split_set first s cs)) \<Longrightarrow> length p \<le> length (part s) + length cs"
proof (induction first s cs rule: split_set.induct)
  case (2 first s c cs)
  show ?case
  proof (cases "squotes s \<noteq> NONE")
    case True
    then show ?thesis using 2 by (auto simp: split_quotes_def)
  next
    case quot: False
    show ?thesis
    proof (cases "count_braces first c s")
      case (Inl e)
      then show ?thesis using 2(4) quot by simp
    next
      case (Inr t)
      note t = count_braces_part [OF Inr]
      show ?thesis
      proof (cases "split_here c t")
        case True
        then have "p = part t \<or> p \<in> set (fst (split_set False (t\<lparr>part := []\<rparr>) cs))"
          using 2(4) quot Inr by (auto split: prod.splits)
        then show ?thesis using 2(2) [OF _ Inr True] quot t by auto
      next
        case False
        then show ?thesis using 2(3) [OF _ Inr False] 2(4) quot Inr t by (fastforce split: if_splits)
      qed
    qed
  qed
qed simp

lemma parse_set_cong [fundef_cong]:
  assumes "str = str'" "\<And>p. length p \<le> length str' \<Longrightarrow> f p = g p"
  shows "parse_set f str = parse_set g str'"
proof -
  have "f p = g p" if "p \<in> set (fst (split_set True split_start str'))" for p
    using split_set_parts [OF that] assms(2) [of p] by (simp add: split_start_def)
  then have m: "map f (fst (split_set True split_start str')) = map g (fst (split_set True split_start str'))"
    by (simp cong: map_cong)
  show ?thesis
    by (simp only: parse_set_def case_prod_unfold assms(1) m assms(2) [OF order_refl])
qed

text \<open>\<open>OperandsSet::parseOperand\<close>; \<open>rand\<close> takes two operands.\<close>

function parse_operand :: "mulType \<Rightarrow> string \<Rightarrow> operand parsed" where
  "parse_operand mt str =
     (let s = skip_space str
      in if s = [] then Inl ''Empty string''
         else if is_digit (hd s) \<or> hd s \<in> {CHR ''-'', CHR ''+'', CHR ''.''} then
           (case quantity_loop mt 0 str of Inl e \<Rightarrow> Inl e | Inr v \<Rightarrow> Inr (Number v))
         else if takeWhile operand_char s = ''rand'' then
           (case parse_set (parse_operand MUL_ANGLE) (drop 4 s) of
              Inl e \<Rightarrow> Inl e
            | Inr xs \<Rightarrow>
                (case xs of
                   [x, y] \<Rightarrow> Inr (RandomNumber x y)
                 | _ \<Rightarrow> Inl (''Invalid number of parameters - expecting two:'' @ drop 4 s)))
         else if dropWhile operand_char s \<noteq> [] then
           Inl (''Cannot find function with name '' @ takeWhile operand_char s)
         else Inr (OpString s))"
  by pat_completeness auto

termination
proof (relation "measure (\<lambda>(mt, str). length str)", simp)
  fix mt :: mulType and str s p :: string
  assume s: "s = skip_space str" and "takeWhile operand_char s = ''rand''" and p: "length p \<le> length (drop 4 s)"
  then have "4 \<le> length s" using length_takeWhile_le [of operand_char s] by simp
  then show "((MUL_ANGLE, p), mt, str) \<in> measure (\<lambda>(mt, str). length str)"
    using p s skip_space_length [of str] by simp
qed

declare parse_operand.simps [simp del]

subsection \<open>Values and printing\<close>

text \<open>
  What operands read: the values of the open connections (\<open>None\<close>: no such device) and \<open>random_num\<close>, by
  the number of draws before. \<open>getDouble\<close> and \<open>writeTo\<close> return the number of draws after them.
\<close>

record operand_env =
  sys_value :: "string \<Rightarrow> string \<Rightarrow> rat option"
  random_num :: "nat \<Rightarrow> rat"

definition compare_values :: "comparators \<Rightarrow> rat \<Rightarrow> rat \<Rightarrow> bool" where
  "compare_values c lv rv =
     (case c of CMP_EQUAL \<Rightarrow> lv = rv | CMP_LESS \<Rightarrow> lv < rv | CMP_LESS_EQU \<Rightarrow> lv \<le> rv
      | CMP_GREAT_EQU \<Rightarrow> rv \<le> lv | CMP_GREAT \<Rightarrow> rv < lv)"

definition both :: "(nat \<Rightarrow> (rat \<times> nat) parsed) \<Rightarrow> (nat \<Rightarrow> (rat \<times> nat) parsed) \<Rightarrow> nat \<Rightarrow> ((rat \<times> rat) \<times> nat) parsed" where
  "both f g n =
     (case f n of Inl e \<Rightarrow> Inl e
      | Inr (x, m) \<Rightarrow> (case g m of Inl e \<Rightarrow> Inl e | Inr (y, k) \<Rightarrow> Inr ((x, y), k)))"

primrec getDouble :: "operand_env \<Rightarrow> operand \<Rightarrow> nat \<Rightarrow> (rat \<times> nat) parsed" where
  "getDouble e (Number v) = (\<lambda>n. Inr (v, n))"
| "getDouble e (SystemValue d v) =
     (\<lambda>n. case sys_value e d v of None \<Rightarrow> Inl ''Cannot find device'' | Some x \<Rightarrow> Inr (x, n))"
| "getDouble e (OpString s) = (\<lambda>n. Inl ''Operand does not support conversion to double'')"
| "getDouble e (RandomNumber from to) =
     (\<lambda>n. case both (getDouble e from) (getDouble e to) n of Inl er \<Rightarrow> Inl er
       | Inr ((f, t), m) \<Rightarrow> Inr (f + (t - f) * random_num e m, Suc m))"
| "getDouble e (OperandsLREquation l c r) =
     (\<lambda>n. case both (getDouble e l) (getDouble e r) n of Inl er \<Rightarrow> Inl er
       | Inr ((x, y), m) \<Rightarrow> Inr (if compare_values c x y then 1 else 0, m))"

definition getCmpSymbol :: "comparators \<Rightarrow> string" where
  "getCmpSymbol c =
     (case c of CMP_EQUAL \<Rightarrow> ''=='' | CMP_LESS \<Rightarrow> ''<'' | CMP_LESS_EQU \<Rightarrow> ''<='' | CMP_GREAT_EQU \<Rightarrow> ''>='' | CMP_GREAT \<Rightarrow> ''>'')"

definition writeTo :: "operand_env \<Rightarrow> operand \<Rightarrow> nat \<Rightarrow> (string \<times> nat) parsed" where
  "writeTo e x n =
     (case x of
        OpString s \<Rightarrow> Inr (s, n)
      | OperandsLREquation l c r \<Rightarrow>
          (case both (getDouble e l) (getDouble e r) n of Inl er \<Rightarrow> Inl er
           | Inr ((a, b), m) \<Rightarrow> Inr (show_double a @ getCmpSymbol c @ show_double b, m))
      | _ \<Rightarrow> (case getDouble e x n of Inl er \<Rightarrow> Inl er | Inr (v, m) \<Rightarrow> Inr (show_double v, m)))"

text \<open>\<open>operator<<\<close> of a set: its operands with blanks between them.\<close>

fun write_operands :: "operand_env \<Rightarrow> operand list \<Rightarrow> nat \<Rightarrow> (string \<times> nat) parsed" where
  "write_operands e [] n = Inr ([], n)"
| "write_operands e [x] n = writeTo e x n"
| "write_operands e (x # xs) n =
     (case writeTo e x n of Inl er \<Rightarrow> Inl er
      | Inr (t, m) \<Rightarrow> (case write_operands e xs m of Inl er \<Rightarrow> Inl er | Inr (u, k) \<Rightarrow> Inr (t @ '' '' @ u, k)))"

end
