(* ===== verification/Script.thy ===== *)
theory Script
  imports ScriptOperand
begin

section \<open>Scripts: elements, printing and expected times\<close>

text \<open>
  The data of the script language of \<open>base/script\<close> (\<open>element.h\<close>, \<open>elementblock.h\<close>, \<open>elementhex.h\<close>,
  \<open>elementtarget.h\<close>, \<open>elementwaitfor.h\<close>, \<open>elementexe.h\<close>): a class of elements is a constructor with the class's
  fields, progress fields included, and a block holds its elements, the index of \<open>curr_element\<close> (the length of
  the list is \<open>end ()\<close>), \<open>loopCount\<close> and the index of \<open>reported_element\<close>. Here are also the methods that only read
  elements: \<open>printScript\<close>, \<open>getStartPos\<close>, \<open>getLen\<close> and the expected duration, light time and images.
\<close>

subsection \<open>Elements\<close>

text \<open>The fields of class \<open>Element\<close>; the idle timer is in microseconds, zero when it is not set.\<close>

datatype ebase = EBase (startPos: int) (elen: int) (idleTimeout: int) (nextIdle: int)

datatype callProgress = AtFirst | AtSHUTTER | AtFILTER | AtEXPOSURE

datatype image_class = ClassImage | ClassExpose | ClassDark

definition targetShutter :: "image_class \<Rightarrow> int" where
  "targetShutter k = (case k of ClassImage \<Rightarrow> -1 | ClassExpose \<Rightarrow> 0 | ClassDark \<Rightarrow> 1)"

datatype leaf =
    ElementSequence (sfilter: string) (repeats: int) (done_exposures: int) (sexpTime: rat) callProgress
  | ElementImage image_class rat callProgress
  | ElementShiftStoreStart rat
  | ElementShiftStoreProgress int rat
  | ElementShiftStoreEnd int rat
  | ElementBox int int int int
  | ElementCenter int int
  | ElementChange string rat rat
  | ElementWait
  | ElementWaitAcquire int
  | ElementPhotometer int rat int
  | ElementSendSignal int bool
  | ElementWaitSignal int
  | ElementChangeValue string string char "operand list" bool
  | ElementComment string int
  | ElementCommand string string "string list"
  | ElementLoopDisable
  | ElementWaitFor string string rat rat
  | ElementSleep rat bool bool
  | ElementWaitForIdle
  | ElementDisable
  | ElementTempDisable string
  | ElementTarBoost int int
  | ElementExecute string bool bool

datatype acquired_state = NOT_CALLED | ACQ_OK | ACQ_FAILED

text \<open>A pattern of \<open>elementhex.cpp\<close>: hexagon, five by five, spiral of a length.\<close>

datatype pattern = PatternHex | PatternFxF | PatternSpiral int

datatype bkind =
    ElementSignalEnd int
  | ElementElse
  | ElementFor int
  | ElementWhileSod int
  | ElementWhile "operand option" int
  | ElementDo "operand option" int
  | ElementOnce
  | ElementHex string rat rat pattern "(rat \<times> rat) list" nat "nat option"

datatype 'e blk = Blk (elements: "'e list") (curr: nat) (loops: int) (reported: "nat option")

datatype element =
    Leaf ebase leaf
  | Block ebase bkind "element blk"
  | IfAcquired ebase int acquired_state "element blk" "element blk option"

text \<open>A new block, and \<open>addElement\<close>.\<close>

definition empty_block :: "'e blk" where
  "empty_block = Blk [] 0 0 None"

definition addElement :: "'e \<Rightarrow> 'e blk \<Rightarrow> 'e blk" where
  "addElement e b = Blk (elements b @ [e]) (curr b) (loops b) (reported b)"

text \<open>
  \<open>curr_element\<close> equal to \<open>end ()\<close> stays the iterator of the end in C++ when an element is appended, so
  \<open>addElement\<close> sets it to the beginning. In a block that only grows it is at the end only while the block is empty,
  where index 0 already names the first element appended.
\<close>

fun base_of :: "element \<Rightarrow> ebase" where
  "base_of (Leaf b l) = b"
| "base_of (Block b k bl) = b"
| "base_of (IfAcquired b t st bl el) = b"

definition setLen :: "int \<Rightarrow> element \<Rightarrow> element" where
  "setLen n e =
     (let f = \<lambda>b. EBase (startPos b) n (idleTimeout b) (nextIdle b)
      in case e of Leaf b l \<Rightarrow> Leaf (f b) l | Block b k bl \<Rightarrow> Block (f b) k bl
         | IfAcquired b t st bl el \<Rightarrow> IfAcquired (f b) t st bl el)"

subsection \<open>Position of the running element\<close>

text \<open>
  \<open>getStartPos\<close> and \<open>getLen\<close>: a block reports the element whose command was returned last, else its current
  element, else itself.
\<close>

definition report_index :: "'e blk \<Rightarrow> nat option" where
  "report_index b = (case reported b of Some i \<Rightarrow> Some i | None \<Rightarrow> if curr b < length (elements b) then Some (curr b) else None)"

fun report_base :: "element \<Rightarrow> ebase" where
  "report_base (Leaf b l) = b"
| "report_base (Block b k (Blk es c n r)) =
     (case report_index (Blk es c n r) of
        Some i \<Rightarrow> if i < length es then map report_base es ! i else b
      | None \<Rightarrow> b)"
| "report_base (IfAcquired b t st (Blk es c n r) el) =
     (case report_index (Blk es c n r) of
        Some i \<Rightarrow> if i < length es then map report_base es ! i else b
      | None \<Rightarrow> b)"

definition getStartPos :: "element \<Rightarrow> int" where
  "getStartPos e = startPos (report_base e)"

definition getLen :: "element \<Rightarrow> int" where
  "getLen e = elen (report_base e)"

subsection \<open>Printing\<close>

definition words_of :: "string list \<Rightarrow> string" where
  "words_of ws = concat (case ws of [] \<Rightarrow> [] | w # vs \<Rightarrow> w # map (\<lambda>v. '' '' @ v) vs)"

definition image_word :: "image_class \<Rightarrow> string" where
  "image_word k = (case k of ClassImage \<Rightarrow> ''I'' | ClassExpose \<Rightarrow> ''E'' | ClassDark \<Rightarrow> ''D'')"

text \<open>\<open>w\<close> is what \<open>operator<<\<close> writes for an operand at this moment.\<close>

definition print_leaf :: "(operand \<Rightarrow> string) \<Rightarrow> leaf \<Rightarrow> string" where
  "print_leaf w l =
     (case l of
        ElementSequence f n d x p \<Rightarrow> words_of [''SEQUENCE'', f, show_int n, show_double x]
      | ElementImage k x p \<Rightarrow> words_of [image_word k, show_double x]
      | ElementShiftStoreStart x \<Rightarrow> words_of [''STARTSHIFT'', show_double x]
      | ElementShiftStoreProgress n x \<Rightarrow> words_of [''DOSHIFT'', show_int n, show_double x]
      | ElementShiftStoreEnd n x \<Rightarrow> words_of [''ENDSHIFT'', show_int n, show_double x]
      | ElementBox x y w h \<Rightarrow> words_of [''BOX'', show_int y, show_int y, show_int w, show_int h]
      | ElementCenter w h \<Rightarrow> ''CENTER''
      | ElementChange d x y \<Rightarrow> words_of [''C'', show_double x, show_double y]
      | ElementWait \<Rightarrow> ''W''
      | ElementWaitAcquire t \<Rightarrow> ''Aw''
      | ElementPhotometer f x n \<Rightarrow> words_of [''P'', show_int f, show_double x, show_int n]
      | ElementSendSignal n a \<Rightarrow> words_of [''SS'', show_int n]
      | ElementWaitSignal n \<Rightarrow> words_of [''SW'', show_int n]
      | ElementChangeValue d v p xs raw \<Rightarrow>
          (if d = [] then [] else d @ ''.'') @ v @ [p] @ words_of (map w xs)
      | ElementComment c n \<Rightarrow> ''# '' @ c
      | ElementCommand d c args \<Rightarrow> words_of ([''cmd'', c] @ args)
      | ElementLoopDisable \<Rightarrow> ''loopdisable''
      | ElementWaitFor d v t r \<Rightarrow> words_of [''waitfor'', v, show_double t, show_double r]
      | ElementSleep s a b \<Rightarrow> words_of [''sleep'', show_double s]
      | ElementWaitForIdle \<Rightarrow> ''wait_idle''
      | ElementDisable \<Rightarrow> ''tardisable''
      | ElementTempDisable t \<Rightarrow> words_of [''tempdisable'', t]
      | ElementTarBoost s b \<Rightarrow> words_of [''tarboost'', show_int s, show_int b]
      | ElementExecute x c e \<Rightarrow> words_of [''exe'', x])"

text \<open>
  What a block prints before its braces: \<open>while\<close> prints no condition, \<open>do\<close> prints it right behind the
  count, the patterns print no head.
\<close>

definition block_head :: "(operand \<Rightarrow> string) \<Rightarrow> bkind \<Rightarrow> string" where
  "block_head w k =
     (case k of
        ElementSignalEnd n \<Rightarrow> words_of [''block_waitsig'', show_int n]
      | ElementFor n \<Rightarrow> words_of [''for'', show_int n]
      | ElementWhileSod n \<Rightarrow> words_of [''waitsod'', show_int n]
      | ElementWhile c n \<Rightarrow> words_of [''while'', show_int n]
      | ElementDo c n \<Rightarrow> words_of [''do'', show_int n] @ (case c of None \<Rightarrow> [] | Some x \<Rightarrow> w x)
      | ElementOnce \<Rightarrow> ''once''
      | _ \<Rightarrow> [])"

definition braced :: "string list \<Rightarrow> string" where
  "braced ws = '' { '' @ words_of ws @ '' }''"

fun printScript :: "(operand \<Rightarrow> string) \<Rightarrow> element \<Rightarrow> string" where
  "printScript w (Leaf b l) = print_leaf w l"
| "printScript w (Block b k (Blk es c n r)) = block_head w k @ braced (map (printScript w) es)"
| "printScript w (IfAcquired b t st (Blk es c n r) None) = ''ifacq'' @ braced (map (printScript w) es)"
| "printScript w (IfAcquired b t st (Blk es c n r) (Some (Blk fs c' n' r'))) =
     ''ifacq'' @ braced (map (printScript w) es) @ '' else '' @ braced (map (printScript w) fs)"

text \<open>\<open>Script::prettyPrint\<close> with \<open>PRINT_SCRIPT\<close>.\<close>

definition print_script :: "(operand \<Rightarrow> string) \<Rightarrow> element list \<Rightarrow> string" where
  "print_script w es = words_of (map (printScript w) es)"

subsection \<open>Expected duration, light time and images\<close>

record timing =
  fullReadoutTime :: rat
  filterMovement :: rat

definition leaf_duration :: "timing \<Rightarrow> leaf \<Rightarrow> rat" where
  "leaf_duration t l =
     (case l of
        ElementSequence f n d x p \<Rightarrow> of_int n * (x + fullReadoutTime t)
      | ElementImage k x p \<Rightarrow> x + fullReadoutTime t
      | ElementShiftStoreEnd n x \<Rightarrow> x + fullReadoutTime t
      | ElementChangeValue d v p xs raw \<Rightarrow> if v = ''filter'' then filterMovement t else 0
      | ElementExecute x c e \<Rightarrow> 60
      | _ \<Rightarrow> 0)"

definition leaf_light :: "leaf \<Rightarrow> rat" where
  "leaf_light l =
     (case l of
        ElementSequence f n d x p \<Rightarrow> of_int n * x
      | ElementImage k x p \<Rightarrow> x
      | ElementShiftStoreEnd n x \<Rightarrow> x
      | _ \<Rightarrow> 0)"

definition leaf_images :: "leaf \<Rightarrow> int" where
  "leaf_images l =
     (case l of
        ElementSequence f n d x p \<Rightarrow> n
      | ElementImage k x p \<Rightarrow> 1
      | ElementShiftStoreEnd n x \<Rightarrow> 1
      | _ \<Rightarrow> 0)"

text \<open>Only \<open>for\<close> multiplies what it holds; an \<open>else\<close> block is not counted.\<close>

definition times_of :: "bkind \<Rightarrow> int" where
  "times_of k = (case k of ElementFor n \<Rightarrow> n | _ \<Rightarrow> 1)"

fun getExpectedDuration :: "timing \<Rightarrow> element \<Rightarrow> rat" where
  "getExpectedDuration t (Leaf b l) = leaf_duration t l"
| "getExpectedDuration t (Block b k (Blk es c n r)) =
     of_int (times_of k) * sum_list (map (getExpectedDuration t) es)"
| "getExpectedDuration t (IfAcquired b tr st (Blk es c n r) el) = sum_list (map (getExpectedDuration t) es)"

fun getExpectedLightTime :: "element \<Rightarrow> rat" where
  "getExpectedLightTime (Leaf b l) = leaf_light l"
| "getExpectedLightTime (Block b k (Blk es c n r)) = of_int (times_of k) * sum_list (map getExpectedLightTime es)"
| "getExpectedLightTime (IfAcquired b tr st (Blk es c n r) el) = sum_list (map getExpectedLightTime es)"

fun getExpectedImages :: "element \<Rightarrow> int" where
  "getExpectedImages (Leaf b l) = leaf_images l"
| "getExpectedImages (Block b k (Blk es c n r)) = times_of k * sum_list (map getExpectedImages es)"
| "getExpectedImages (IfAcquired b tr st (Blk es c n r) el) = sum_list (map getExpectedImages es)"

text \<open>
  \<open>Script::getExpectedDuration\<close>; \<open>slew\<close> is the angular separation of the target times the telescope's speed plus its settle
  time, when the telescope's position and the target's are known.
\<close>

definition script_duration :: "timing \<Rightarrow> rat option \<Rightarrow> element list \<Rightarrow> rat" where
  "script_duration t slew es = (case slew of Some x \<Rightarrow> x | None \<Rightarrow> 0) + sum_list (map (getExpectedDuration t) es)"

definition script_light :: "element list \<Rightarrow> rat" where
  "script_light es = sum_list (map getExpectedLightTime es)"

definition script_images :: "element list \<Rightarrow> int" where
  "script_images es = sum_list (map getExpectedImages es)"

end
