(* ===== verification/ScriptParse.thy ===== *)
theory ScriptParse
  imports Script
begin

section \<open>The parser of scripts\<close>

text \<open>
  \<open>base/script/src/script.cpp\<close>: \<open>parseOperand\<close>, \<open>parseBuf\<close>, \<open>parseBlock\<close>, \<open>parseScript\<close>, with the constructors of
  the elements. \<open>parseBuf\<close> and \<open>parseBlock\<close> call each other; the depth of the calls and the iterations of a loop
  are bounded by fuel, and theory \<open>ScriptParseProps\<close> shows that the fuel \<open>parseScript\<close> gives is never used up.
\<close>

subsection \<open>Conditions\<close>

definition ident_char :: "char \<Rightarrow> bool" where
  "ident_char c \<longleftrightarrow> is_alnum c \<or> c = CHR ''.'' \<or> c = CHR ''_''"

text \<open>
  A comparison operator at the front of \<open>c # s\<close>, and the text behind it: \<open>=\<close> alone throws.
\<close>

definition read_comparator :: "char \<Rightarrow> string \<Rightarrow> (comparators \<times> string) parsed" where
  "read_comparator c s =
     (if front s = CHR ''='' then
        Inr (if c = CHR ''='' then CMP_EQUAL else if c = CHR ''<'' then CMP_LESS_EQU else CMP_GREAT_EQU, tl s)
      else if c = CHR ''<'' then Inr (CMP_LESS, s)
      else if c = CHR ''>'' then Inr (CMP_GREAT, s)
      else Inl ''In conditions, only == is allowed'')"

lemma read_comparator_shorter: "read_comparator c s = Inr (cmp, t) \<Longrightarrow> length t \<le> length s"
  by (auto simp: read_comparator_def split: if_splits)

text \<open>A name: with a point the value of a device (the default device before a leading point), else nothing.\<close>

definition name_operand :: "string \<Rightarrow> string \<Rightarrow> operand option \<Rightarrow> operand option" where
  "name_operand dev nm op =
     (let d = takeWhile (\<lambda>c. c \<noteq> CHR ''.'') nm; v = dropWhile (\<lambda>c. c \<noteq> CHR ''.'') nm
      in if v = [] then op else Some (SystemValue (if d = [] then dev else d) (tl v)))"

lemma skip_space_Cons_length: "skip_space s = c # t \<Longrightarrow> length t < length s"
  using skip_space_length [of s] by simp

lemma skip_space_shortens: "skip_space s = c # t \<Longrightarrow> length (skip_space t) < length s"
  using skip_space_Cons_length skip_space_length le_less_trans by blast

lemma dropWhile_shortens: "skip_space s = c # t \<Longrightarrow> length (dropWhile P t) < length s"
  using skip_space_Cons_length length_dropWhile_le le_less_trans by blast

lemma comparator_shortens:
  assumes "skip_space s = c # t" "read_comparator c t = Inr b" "(x, y) = b"
  shows "length (skip_space y) < length s"
proof -
  have "length y \<le> length t" using assms(2,3) read_comparator_shorter by metis
  then show ?thesis using skip_space_Cons_length [OF assms(1)] skip_space_length [of y] by linarith
qed

text \<open>
  \<open>Script::parseOperand\<close>, at its loop; \<open>parseOperand\<close> itself skips blanks first. An opening brace
  begins a new operand and forgets the one before. A comparison whose right side is missing (the script ends
  there) holds a null pointer in C++; it is the null condition here, and the evaluation of either is a crash.
\<close>

function operand_loop :: "string \<Rightarrow> operand option \<Rightarrow> string \<Rightarrow> (operand option \<times> string) parsed" where
  "operand_loop dev op buf =
     (if buf = [] then Inr (op, [])
      else case skip_space buf of
        [] \<Rightarrow> Inl ''cannot parse sequence''
      | c # s \<Rightarrow>
          if c = CHR '')'' then
            (if op = None then Inl ''missing expression inside ()'' else Inr (op, s))
          else if c = CHR ''('' then operand_loop dev None (skip_space s)
          else if c \<in> {CHR ''='', CHR ''>'', CHR ''<''} then
            (case op of
               None \<Rightarrow> Inl ''expected operand before operator''
             | Some l \<Rightarrow>
                 (case read_comparator c s of
                    Inl e \<Rightarrow> Inl e
                  | Inr (cmp, t) \<Rightarrow>
                      (case operand_loop dev None (skip_space t) of
                         Inl e \<Rightarrow> Inl e
                       | Inr (op2, r) \<Rightarrow> Inr (map_option (OperandsLREquation l cmp) op2, r))))
          else if is_digit c \<or> c = CHR ''.'' \<and> is_digit (front s) then
            (case parse_operand MUL_ANGLE (takeWhile (\<lambda>x. \<not> is_space x) (c # s)) of
               Inl e \<Rightarrow> Inl e
             | Inr v \<Rightarrow> operand_loop dev (Some v) (dropWhile (\<lambda>x. \<not> is_space x) (c # s)))
          else if is_alpha c \<or> c = CHR ''.'' then
            operand_loop dev (name_operand dev (takeWhile ident_char (c # s)) op) (dropWhile ident_char (c # s))
          else Inl ''cannot parse sequence'')"
  by pat_completeness auto

termination
  by (relation "measure (\<lambda>(dev, op, buf). length buf)")
    (auto simp: skip_space_shortens dropWhile_shortens dest: skip_space_hd comparator_shortens
      simp: ident_char_def is_alnum_def)

declare operand_loop.simps [simp del]

text \<open>\<open>parseOperand (target)\<close>.\<close>

definition parseOperand :: "string \<Rightarrow> string \<Rightarrow> (operand option \<times> string) parsed" where
  "parseOperand dev s = operand_loop dev None (skip_space s)"

subsection \<open>The state of the parser\<close>

text \<open>
  \<open>rest\<close> is the text from \<open>cmdBufTop\<close>, \<open>mark\<close> the length of the text from \<open>commandStart\<close>, so that
  \<open>cmdBufTop - commandStart\<close> is \<open>mark - length rest\<close>. What a parse does not change: the length of the buffer, the line
  offset, the default device, the target's identification (\<open>None\<close>: no target), the clock and what operands read.
\<close>

record pstate =
  rest :: string
  mark :: nat

record pctx =
  buf_len :: nat
  lineOffset :: int
  defaultDevice :: string
  target_id :: "int option"
  parse_now :: int
  operands_env :: operand_env

text \<open>What a parse returns: a null pointer, an element, a thrown error, the dereference of a null pointer.\<close>

datatype 'a pres = PNull | PGot 'a | PThrow string | PCrash | PFuel

definition getParsedStartPos :: "pctx \<Rightarrow> pstate \<Rightarrow> int" where
  "getParsedStartPos c st = int (buf_len c) - int (mark st) + lineOffset c"

text \<open>\<open>Element::Element\<close>; the length is set when the element has been read.\<close>

definition new_base :: "pctx \<Rightarrow> pstate \<Rightarrow> ebase" where
  "new_base c st = EBase (getParsedStartPos c st) 0 0 0"

text \<open>\<open>setIdleTimeout\<close>.\<close>

definition setIdleTimeout :: "int \<Rightarrow> rat \<Rightarrow> ebase \<Rightarrow> ebase" where
  "setIdleTimeout now sec b = (let t = \<lfloor>sec * 1000000\<rfloor> in EBase (startPos b) (elen b) t (now + t))"

text \<open>The mark of the element \<open>nextElement\<close> returns.\<close>

definition element_mark :: "string \<Rightarrow> nat" where
  "element_mark buf = (let s = skip_space buf in if front s = DQ \<or> front s = SQ then length (tl s) else length s)"

text \<open>The device before the first point of a command, when no \<open>=\<close> comes earlier; \<open>DEVICE_NAME_SIZE\<close> is 50.\<close>

definition has_device :: "string \<Rightarrow> bool" where
  "has_device el \<longleftrightarrow> CHR ''.'' \<in> set (takeWhile (\<lambda>c. c \<noteq> CHR ''='') el)"

definition split_device :: "string \<Rightarrow> string \<Rightarrow> string \<times> string" where
  "split_device dflt el =
     (if has_device el
      then (take 49 (takeWhile (\<lambda>c. c \<noteq> CHR ''.'') el), tl (dropWhile (\<lambda>c. c \<noteq> CHR ''.'') el))
      else (dflt, el))"

subsection \<open>Constructors with text arguments\<close>

text \<open>\<open>ElementChangeValue\<close>: the value up to the first operator, then the operands.\<close>

definition change_char :: "char \<Rightarrow> bool" where
  "change_char c \<longleftrightarrow> c = CHR ''+'' \<or> c = CHR ''-'' \<or> c = CHR ''=''"

definition elementChangeValue :: "string \<Rightarrow> string \<Rightarrow> leaf parsed" where
  "elementChangeValue dev s =
     (let nm = takeWhile (\<lambda>c. \<not> change_char c) s; r = dropWhile (\<lambda>c. \<not> change_char c) s
      in case r of
           [] \<Rightarrow> Inr (ElementChangeValue dev [] NUL [] False)
         | c # t \<Rightarrow>
             (let ops = (if (c = CHR ''+'' \<or> c = CHR ''-'') \<and> front t = CHR ''='' then tl t else t)
              in case parse_set (parse_operand MUL_ANGLE) ops of
                   Inl e \<Rightarrow> Inl e
                 | Inr xs \<Rightarrow> Inr (ElementChangeValue dev nm c xs False)))"

lemma dropWhile_Cons_shorter: "dropWhile P r = x # t \<Longrightarrow> length t < length r"
  using length_dropWhile_le [of P r] by simp

lemma dropWhile_Cons_tl: "dropWhile P r = x # t \<Longrightarrow> length r - Suc 0 < length r"
  by (cases r) auto

text \<open>\<open>SplitStr\<close> with a delimiter of one character that is not a blank: the text from \<open>oldpos\<close>, in a text of length \<open>n\<close>.\<close>

function split_str :: "nat \<Rightarrow> char \<Rightarrow> string \<Rightarrow> string list" where
  "split_str n d r =
     (case dropWhile (\<lambda>c. c \<noteq> d) r of
        [] \<Rightarrow> [r]
      | x # t \<Rightarrow>
          if front r = d then (if n = 1 then [] else split_str n d (tl r))
          else takeWhile (\<lambda>c. c \<noteq> d) r # (if t = [] then [] else split_str n d t))"
  by pat_completeness auto

termination
  by (relation "measure (\<lambda>(n, d, r). length r)") (auto simp: dropWhile_Cons_shorter dropWhile_Cons_tl)

declare split_str.simps [simp del]

definition splitStr :: "char \<Rightarrow> string \<Rightarrow> string list" where
  "splitStr d s = (if s = [] then [] else split_str (length s) d s)"

text \<open>
  The command of \<open>cmd\<close>: one brace without the other is an error. Both braces are overwritten, so the
  name ends at the first of them, and the arguments at a closing brace behind the opening one.
\<close>

definition elementCommand :: "string \<Rightarrow> string \<Rightarrow> leaf option" where
  "elementCommand dev cmd =
     (let op = CHR ''('' \<in> set cmd; cl = CHR '')'' \<in> set cmd;
          t = tl (dropWhile (\<lambda>c. c \<noteq> CHR ''('') cmd);
          before_open = CHR '')'' \<in> set (takeWhile (\<lambda>c. c \<noteq> CHR ''('') cmd)
      in if op \<noteq> cl then None
         else if op then
           Some (ElementCommand dev (takeWhile (\<lambda>c. c \<noteq> CHR ''('' \<and> c \<noteq> CHR '')'') cmd)
             (splitStr (CHR '','') (if before_open then t else takeWhile (\<lambda>c. c \<noteq> CHR '')'') t)))
         else Some (ElementCommand dev cmd []))"

subsection \<open>Commands without a block\<close>

definition check_param :: "('a \<Rightarrow> 'b option) \<Rightarrow> 'a param \<Rightarrow> 'b param" where
  "check_param f p s = (case p s of (None, r) \<Rightarrow> (None, r) | (Some x, r) \<Rightarrow> (f x, r))"

definition map_param :: "('a \<Rightarrow> 'b) \<Rightarrow> 'a param \<Rightarrow> 'b param" where
  "map_param f = check_param (Some \<circ> f)"

definition reads :: "'a param \<Rightarrow> 'b param \<Rightarrow> ('a \<times> 'b) param" where
  "reads p q = pbind p (\<lambda>x. pbind q (\<lambda>y. preturn (x, y)))"

definition leaf_reader :: "string \<Rightarrow> string \<Rightarrow> leaf param option" where
  "leaf_reader dev cmd =
     (let fl = getNextParamFloat; db = getNextParamDouble; it = getNextParamInteger; st = getNextParamString
      in if cmd = ''SEQUENCE'' then
           Some (map_param (\<lambda>(f, n, x). ElementSequence f n 0 x AtFirst) (reads st (reads it fl)))
         else if cmd = ''I'' then Some (map_param (\<lambda>x. ElementImage ClassImage x AtFirst) fl)
         else if cmd = ''E'' then Some (map_param (\<lambda>x. ElementImage ClassExpose x AtFirst) fl)
         else if cmd = ''D'' then Some (map_param (\<lambda>x. ElementImage ClassDark x AtFirst) fl)
         else if cmd = ''STARTSHIFT'' then Some (map_param ElementShiftStoreStart fl)
         else if cmd = ''DOSHIFT'' then Some (map_param (\<lambda>(n, x). ElementShiftStoreProgress n x) (reads it fl))
         else if cmd = ''ENDSHIFT'' then Some (map_param (\<lambda>(n, x). ElementShiftStoreEnd n x) (reads it fl))
         else if cmd = ''BOX'' then
           Some (map_param (\<lambda>(x, y, w, h). ElementBox x y w h) (reads it (reads it (reads it it))))
         else if cmd = ''CENTER'' then Some (map_param (\<lambda>(w, h). ElementCenter w h) (reads it it))
         else if cmd = ''C'' then Some (map_param (\<lambda>(r, d). ElementChange dev r d) (reads db db))
         else if cmd = ''W'' then Some (preturn ElementWait)
         else if cmd = ''P'' then
           Some (map_param (\<lambda>(f, x, n). ElementPhotometer f x n) (reads it (reads fl it)))
         else if cmd = ''SS'' then Some (map_param (\<lambda>n. ElementSendSignal n False) it)
         else if cmd = ''SW'' then Some (check_param (\<lambda>n. if n \<le> 0 then None else Some (ElementWaitSignal n)) it)
         else if cmd = ''waitfor'' then
           Some (map_param (\<lambda>(v, t, r). ElementWaitFor dev v t r) (reads st (reads db db)))
         else if cmd = ''sleep'' then Some (map_param (\<lambda>s. ElementSleep s False False) db)
         else if cmd = ''wait_idle'' then Some (preturn ElementWaitForIdle)
         else if cmd = ''tardisable'' then Some (preturn ElementDisable)
         else if cmd = ''tempdisable'' then Some (map_param ElementTempDisable st)
         else if cmd = ''tarboost'' then Some (map_param (\<lambda>(s, b). ElementTarBoost s b) (reads it it))
         else if cmd = ''loopdisable'' then Some (preturn ElementLoopDisable)
         else if cmd = ''exe'' then Some (map_param (\<lambda>x. ElementExecute x False False) st)
         else if cmd = ''cmd'' then Some (check_param (elementCommand dev) st)
         else None)"

text \<open>\<open>ElementWaitFor\<close> sets its idle timer when it is constructed.\<close>

definition leaf_base :: "pctx \<Rightarrow> pstate \<Rightarrow> leaf \<Rightarrow> ebase" where
  "leaf_base c st l =
     (case l of ElementWaitFor d v t r \<Rightarrow> setIdleTimeout (parse_now c) 1 (new_base c st) | _ \<Rightarrow> new_base c st)"

subsection \<open>Commands with a block\<close>

text \<open>The parameters and the opening brace of the blocks that have nothing behind the closing one.\<close>

definition block_reader :: "string \<Rightarrow> string \<Rightarrow> bkind param option" where
  "block_reader dev cmd =
     (let db = getNextParamDouble; it = getNextParamInteger;
          opened = (\<lambda>p. check_param (\<lambda>(k, u). Some k) (reads p block_start))
      in if cmd = ''block_waitsig'' then Some (opened (map_param ElementSignalEnd it))
         else if cmd = ''for'' then Some (opened (map_param ElementFor it))
         else if cmd = ''once'' then Some (opened (preturn ElementOnce))
         else if cmd = ''waitsod'' then Some (opened (map_param ElementWhileSod it))
         else if cmd = ''hex'' then
           Some (opened (map_param (\<lambda>(r, d). ElementHex dev r d PatternHex [] 0 None) (reads db db)))
         else if cmd = ''fxf'' then
           Some (opened (map_param (\<lambda>(r, d). ElementHex dev r d PatternFxF [] 0 None) (reads db db)))
         else if cmd = ''spiral'' then
           Some (opened (map_param (\<lambda>(r, d, n). ElementHex dev r d (PatternSpiral n) [] 0 None)
             (reads db (reads db it))))
         else None)"

definition make_block :: "element list \<Rightarrow> element blk" where
  "make_block es = foldl (\<lambda>b e. addElement e b) empty_block es"

text \<open>What follows a parsed block; anything but a list of elements is passed on.\<close>

definition with_block :: "(element list \<Rightarrow> pstate \<Rightarrow> element pres \<times> pstate)
    \<Rightarrow> element list pres \<times> pstate \<Rightarrow> element pres \<times> pstate" where
  "with_block f r =
     (case r of
        (PGot es, st) \<Rightarrow> f es st
      | (PNull, st) \<Rightarrow> (PNull, st)
      | (PThrow e, st) \<Rightarrow> (PThrow e, st)
      | (PCrash, st) \<Rightarrow> (PCrash, st)
      | (PFuel, st) \<Rightarrow> (PFuel, st))"

type_synonym block_parser = "pstate \<Rightarrow> element list pres \<times> pstate"

text \<open>\<open>ifacq\<close>, with its \<open>else\<close>.\<close>

definition parse_acquired :: "pctx \<Rightarrow> block_parser \<Rightarrow> pstate \<Rightarrow> element pres \<times> pstate" where
  "parse_acquired c pb st =
     (case block_start (rest st) of
        (None, r) \<Rightarrow> (PNull, st\<lparr>rest := r\<rparr>)
      | (Some u, r) \<Rightarrow>
          (let b = new_base c st; t = (case target_id c of Some t \<Rightarrow> t | None \<Rightarrow> 1)
           in with_block
                (\<lambda>es s1.
                   case isNext ''else'' (rest s1) of
                     (False, r1) \<Rightarrow> (PGot (IfAcquired b t NOT_CALLED (make_block es) None), s1\<lparr>rest := r1\<rparr>)
                   | (True, r1) \<Rightarrow>
                       (case block_start r1 of
                          (None, r2) \<Rightarrow> (PNull, s1\<lparr>rest := r2\<rparr>)
                        | (Some u, r2) \<Rightarrow>
                            with_block
                              (\<lambda>fs s2. (PGot (IfAcquired b t NOT_CALLED (make_block es)
                                 (if fs = [] then None else Some (make_block fs))), s2))
                              (pb (s1\<lparr>rest := r2\<rparr>))))
                (pb (st\<lparr>rest := r\<rparr>))))"

definition parse_while :: "pctx \<Rightarrow> block_parser \<Rightarrow> pstate \<Rightarrow> element pres \<times> pstate" where
  "parse_while c pb st =
     (case parseOperand (defaultDevice c) (rest st) of
        Inl e \<Rightarrow> (PThrow e, st)
      | Inr (cond, r) \<Rightarrow>
          (case reads getNextParamInteger block_start r of
             (None, r1) \<Rightarrow> (PNull, st\<lparr>rest := r1\<rparr>)
           | (Some (n, u), r1) \<Rightarrow>
               with_block (\<lambda>es s1. (PGot (Block (new_base c st) (ElementWhile cond n) (make_block es)), s1))
                 (pb (st\<lparr>rest := r1\<rparr>))))"

definition parse_do :: "pctx \<Rightarrow> block_parser \<Rightarrow> pstate \<Rightarrow> element pres \<times> pstate" where
  "parse_do c pb st =
     (case reads getNextParamInteger block_start (rest st) of
        (None, r) \<Rightarrow> (PNull, st\<lparr>rest := r\<rparr>)
      | (Some (n, u), r) \<Rightarrow>
          with_block
            (\<lambda>es s1.
               case nextElement (rest s1) of
                 (el, r1) \<Rightarrow>
                   if el \<noteq> ''while'' then (PNull, s1\<lparr>rest := r1\<rparr>)
                   else (case parseOperand (defaultDevice c) r1 of
                           Inl e \<Rightarrow> (PThrow e, s1\<lparr>rest := r1\<rparr>)
                         | Inr (cond, r2) \<Rightarrow>
                             (PGot (Block (new_base c st) (ElementDo cond n) (make_block es)), s1\<lparr>rest := r2\<rparr>)))
            (pb (st\<lparr>rest := r\<rparr>)))"

subsection \<open>parseBuf, parseBlock, parseScript\<close>

text \<open>\<open>parseBuf\<close> with the parser of the inner blocks as argument.\<close>

definition parse_command :: "pctx \<Rightarrow> block_parser \<Rightarrow> string \<Rightarrow> string \<Rightarrow> pstate \<Rightarrow> element pres \<times> pstate" where
  "parse_command c pb dev cmd st =
     (if cmd = [] then (PNull, st)
      else if cmd = ''Aw'' then
        (case target_id c of None \<Rightarrow> (PCrash, st) | Some t \<Rightarrow> (PGot (Leaf (new_base c st) (ElementWaitAcquire t)), st))
      else if cmd = ''ifacq'' then parse_acquired c pb st
      else if cmd = ''}'' then (PNull, st)
      else if cmd = ''while'' then parse_while c pb st
      else if cmd = ''do'' then parse_do c pb st
      else case leaf_reader dev cmd of
        Some p \<Rightarrow>
          (case p (rest st) of
             (None, r) \<Rightarrow> (PNull, st\<lparr>rest := r\<rparr>)
           | (Some l, r) \<Rightarrow> (PGot (Leaf (leaf_base c st l) l), st\<lparr>rest := r\<rparr>))
      | None \<Rightarrow>
          (case block_reader dev cmd of
             Some p \<Rightarrow>
               (case p (rest st) of
                  (None, r) \<Rightarrow> (PNull, st\<lparr>rest := r\<rparr>)
                | (Some k, r) \<Rightarrow>
                    with_block (\<lambda>es s1. (PGot (Block (new_base c st) k (make_block es)), s1)) (pb (st\<lparr>rest := r\<rparr>)))
           | None \<Rightarrow>
               if CHR ''='' \<in> set cmd then
                 (case elementChangeValue dev cmd of
                    Inl e \<Rightarrow> (PThrow e, st)
                  | Inr l \<Rightarrow> (PGot (Leaf (new_base c st) l), st))
               else (PNull, st)))"

definition parse_buf_with :: "pctx \<Rightarrow> block_parser \<Rightarrow> pstate \<Rightarrow> element pres \<times> pstate" where
  "parse_buf_with c pb st =
     (case nextElement (rest st) of
        (el, r) \<Rightarrow>
          (case split_device (defaultDevice c) el of
             (dev, cmd) \<Rightarrow>
               parse_command c pb dev cmd
                 \<lparr>rest = r, mark = element_mark (rest st) - (length el - length cmd)\<rparr>))"

text \<open>
  The loop of \<open>parseBlock\<close> and of \<open>parseScript\<close>: elements until a null pointer; \<open>chk\<close> is
  \<open>checkParameters\<close> of the latter, which throws.
\<close>

primrec parse_loop :: "(element \<Rightarrow> string option) \<Rightarrow> (pstate \<Rightarrow> element pres \<times> pstate) \<Rightarrow> nat
    \<Rightarrow> element list \<Rightarrow> block_parser" where
  "parse_loop chk pe 0 es st = (PFuel, st)"
| "parse_loop chk pe (Suc k) es st =
     (case pe st of
        (PGot e, s1) \<Rightarrow>
          (case chk e of
             Some err \<Rightarrow> (PThrow err, s1)
           | None \<Rightarrow> parse_loop chk pe k (es @ [setLen (int (mark s1) - int (length (rest s1))) e]) s1)
      | (PNull, s1) \<Rightarrow> (PGot es, s1)
      | (PThrow err, s1) \<Rightarrow> (PThrow err, s1)
      | (PCrash, s1) \<Rightarrow> (PCrash, s1)
      | (PFuel, s1) \<Rightarrow> (PFuel, s1))"

definition no_check :: "element \<Rightarrow> string option" where
  "no_check e = None"

fun parseBuf :: "pctx \<Rightarrow> nat \<Rightarrow> pstate \<Rightarrow> element pres \<times> pstate" where
  "parseBuf c 0 st = (PFuel, st)"
| "parseBuf c (Suc n) st = parse_buf_with c (\<lambda>s. parse_loop no_check (parseBuf c n) n [] s) st"

definition parseBlock :: "pctx \<Rightarrow> nat \<Rightarrow> block_parser" where
  "parseBlock c n = parse_loop no_check (parseBuf c n) n []"

text \<open>\<open>ElementTempDisable::checkParameters\<close>.\<close>

definition checkParameters :: "operand_env \<Rightarrow> element \<Rightarrow> string option" where
  "checkParameters env e =
     (case e of
        Leaf b (ElementTempDisable t) \<Rightarrow>
          (case parse_operand MUL_TIME t of
             Inl err \<Rightarrow> Some err
           | Inr x \<Rightarrow> (case getDouble env x 0 of Inl err \<Rightarrow> Some err | Inr v \<Rightarrow> None))
      | _ \<Rightarrow> None)"

text \<open>The elements of one line, with fuel for its length.\<close>

definition parse_elements :: "pctx \<Rightarrow> string \<Rightarrow> element list pres \<times> pstate" where
  "parse_elements c s =
     parse_loop (checkParameters (operands_env c)) (parseBuf c (Suc (length s))) (Suc (length s)) []
       \<lparr>rest = s, mark = length s\<rparr>"

subsection \<open>parseScript and setTarget\<close>

text \<open>
  The fields of class \<open>Script\<close>; \<open>el_iter\<close> is an index, the length of the list at the end. \<open>faultLocation\<close> is what
  \<open>getFaultLocation\<close> returns for the line parsed last, \<open>parsedStart\<close> the position of \<open>commandStart\<close> in it.
\<close>

record script =
  elems :: "element list"
  el_iter :: nat
  executedCount :: int
  scriptLoops :: int
  scriptDevice :: string
  wholeScript :: string
  sc_lineOffset :: int
  lineNumber :: int
  commentNumber :: int
  faultLocation :: int
  parsedStart :: int

text \<open>\<open>Script::Script (scriptLoopCount, master)\<close>, and the device name \<open>setTarget\<close> copies.\<close>

definition new_script :: "int \<Rightarrow> string \<Rightarrow> script" where
  "new_script n dev =
     \<lparr>elems = [], el_iter = 0, executedCount = 0, scriptLoops = n, scriptDevice = dev, wholeScript = [],
      sc_lineOffset = 0, lineNumber = 0, commentNumber = 1, faultLocation = -1,
      parsedStart = 0\<rparr>"

definition blank_line :: "string \<Rightarrow> string" where
  "blank_line = map (\<lambda>c. if c = LF \<or> c = CR \<or> c = CHR 0x09 then CHR '' '' else c)"

definition code_part :: "string \<Rightarrow> string" where
  "code_part buf = takeWhile (\<lambda>c. c \<noteq> CHR ''#'') buf"

definition comment_part :: "string \<Rightarrow> string option" where
  "comment_part buf =
     (case dropWhile (\<lambda>c. c \<noteq> CHR ''#'') buf of [] \<Rightarrow> None | c # t \<Rightarrow> Some (skip_space t))"

text \<open>The line's code is appended to \<open>wholeScript\<close>, with a blank between the lines.\<close>

definition add_line :: "string \<Rightarrow> script \<Rightarrow> script" where
  "add_line code sc =
     (let w = (if lineNumber sc = 0 then [] else wholeScript sc);
          sep = (w \<noteq> [] \<and> last w \<noteq> CHR '' '')
      in sc\<lparr>wholeScript := w @ (if sep then '' '' else []) @ code,
            sc_lineOffset := sc_lineOffset sc + (if sep then 1 else 0), lineNumber := lineNumber sc + 1\<rparr>)"

definition line_ctx :: "pctx \<Rightarrow> string \<Rightarrow> script \<Rightarrow> pctx" where
  "line_ctx c code sc =
     c\<lparr>buf_len := length code, lineOffset := sc_lineOffset sc, defaultDevice := scriptDevice sc\<rparr>"

definition add_comment :: "pctx \<Rightarrow> pstate \<Rightarrow> string option \<Rightarrow> script \<Rightarrow> script" where
  "add_comment c st com sc =
     (case com of
        None \<Rightarrow> sc
      | Some t \<Rightarrow>
          (let n = commentNumber sc;
               e = setLen 2 (Leaf (new_base c st) (ElementComment t n));
               sep = (wholeScript sc \<noteq> [])
           in sc\<lparr>wholeScript := wholeScript sc @ (if sep then '' '' else []) @ ''#'' @ show_int n @ '' '',
                 sc_lineOffset := sc_lineOffset sc + (if sep then 1 else 0) + 3,
                 commentNumber := n + 1, elems := elems sc @ [e]\<rparr>))"

definition parseScript :: "pctx \<Rightarrow> string \<Rightarrow> script \<Rightarrow> script pres" where
  "parseScript c text sc =
     (let buf = blank_line text; code = code_part buf;
          sc1 = add_line code sc; c1 = line_ctx c code sc1
      in case parse_elements c1 code of
           (PGot es, st) \<Rightarrow>
             PGot (add_comment c1 st (comment_part buf)
               (sc1\<lparr>elems := elems sc1 @ es,
                    faultLocation := (if rest st = [] then -1 else int (length code) - int (length (rest st))),
                    parsedStart := int (length code) - int (mark st)\<rparr>))
         | (PNull, st) \<Rightarrow> PNull
         | (PThrow e, st) \<Rightarrow> PThrow e
         | (PCrash, st) \<Rightarrow> PCrash
         | (PFuel, st) \<Rightarrow> PFuel)"

subsection \<open>Before the first command\<close>

text \<open>
  The paths of \<open>elementhex.cpp\<close>, as (ra, dec). The spiral makes at least one step; \<open>dir\<close> turns after
  \<open>nsteps\<close> steps, which grow at every second turn.
\<close>

definition hex_path :: "(rat \<times> rat) list" where
  "hex_path =
     (let s = 866 / 1000
      in [(-1, 0), (1 / 2, s), (1, 0), (1 / 2, - s), (- (1 / 2), - s), (-1, 0), (1 / 2, s)])"

definition fxf_path :: "(rat \<times> rat) list" where
  "fxf_path =
     (let right = replicate 4 (1, 0); left = replicate 4 (-1, 0); up = [(0, 1)]
      in [(-2, -2)] @ right @ up @ left @ up @ right @ up @ left @ up @ right @ [(-2, -2)])"

definition spiral_turn :: "nat \<Rightarrow> rat \<times> rat" where
  "spiral_turn dir = [(0, 1), (1, 0), (0, -1), (-1, 0)] ! dir"

primrec spiral_steps :: "nat \<Rightarrow> nat \<Rightarrow> nat \<Rightarrow> nat \<Rightarrow> (rat \<times> rat) list" where
  "spiral_steps 0 dir stp nsteps = []"
| "spiral_steps (Suc n) dir stp nsteps =
     spiral_turn dir #
       (if nsteps \<le> Suc stp then
          (let d = Suc dir mod 4 in spiral_steps n d 0 (if d = 0 \<or> d = 2 then Suc nsteps else nsteps))
        else spiral_steps n dir (Suc stp) nsteps)"

definition constructPath :: "pattern \<Rightarrow> (rat \<times> rat) list" where
  "constructPath p =
     (case p of PatternHex \<Rightarrow> hex_path | PatternFxF \<Rightarrow> fxf_path
      | PatternSpiral n \<Rightarrow> spiral_steps (if n < 1 then 1 else nat n) 0 0 1)"

text \<open>
  \<open>beforeExecuting\<close>: a pattern makes its path and appends the change of the telescope's position to its block;
  \<open>pos\<close> is the start \<open>Element::Element\<close> takes from the parser then. It also posts \<open>EVENT_QUICK_ENABLE\<close> to the
  master, which is not recorded. A block passes the call to its elements, a pattern does not, and no one to an \<open>else\<close>.
\<close>

definition scaled :: "rat \<Rightarrow> rat \<Rightarrow> rat \<times> rat \<Rightarrow> rat \<times> rat" where
  "scaled r d p = (fst p * r, snd p * d)"

definition hex_before :: "int \<Rightarrow> bkind \<Rightarrow> element blk \<Rightarrow> bkind \<times> element blk" where
  "hex_before pos k bl =
     (case k of
        ElementHex dev r d pat path step chg \<Rightarrow>
          (let path1 = (if step < length path then path else path @ constructPath pat);
               step1 = (if step < length path then step else 0);
               p = scaled r d (path1 ! step1)
           in (ElementHex dev r d pat path1 step1 (Some (length (elements bl))),
               addElement (Leaf (EBase pos 0 0 0) (ElementChange dev (fst p) (snd p))) bl))
      | _ \<Rightarrow> (k, bl))"

definition is_hex :: "bkind \<Rightarrow> bool" where
  "is_hex k = (case k of ElementHex dev r d pat path step chg \<Rightarrow> True | _ \<Rightarrow> False)"

fun beforeExecuting :: "int \<Rightarrow> element \<Rightarrow> element" where
  "beforeExecuting pos (Leaf b l) = Leaf b l"
| "beforeExecuting pos (Block b k (Blk es c n r)) =
     (if is_hex k then (case hex_before pos k (Blk es c n r) of (k', bl) \<Rightarrow> Block b k' bl)
      else Block b k (Blk (map (beforeExecuting pos) es) c n r))"
| "beforeExecuting pos (IfAcquired b t st (Blk es c n r) el) =
     IfAcquired b t st (Blk (map (beforeExecuting pos) es) c n r) el"

text \<open>
  \<open>Script::setTarget\<close> with the lines the target gives; \<open>None\<close> is a thrown error of \<open>getScript\<close>, for which it
  returns \<open>-1\<close> with the lines read so far.
\<close>

fun load_lines :: "pctx \<Rightarrow> string option list \<Rightarrow> script \<Rightarrow> (bool \<times> script) pres" where
  "load_lines c [] sc = PGot (True, sc)"
| "load_lines c (None # ls) sc = PGot (False, sc)"
| "load_lines c (Some l # ls) sc =
     (case parseScript c l sc of
        PGot sc1 \<Rightarrow> load_lines c ls sc1
      | PNull \<Rightarrow> PNull | PThrow e \<Rightarrow> PThrow e | PCrash \<Rightarrow> PCrash | PFuel \<Rightarrow> PFuel)"

definition setTarget :: "pctx \<Rightarrow> string option list \<Rightarrow> script \<Rightarrow> (int \<times> script) pres" where
  "setTarget c ls sc =
     (case load_lines c ls (sc\<lparr>commentNumber := 1, wholeScript := []\<rparr>) of
        PGot (ok, s1) \<Rightarrow>
          PGot (if ok then
                  (0, s1\<lparr>executedCount := 0, elems := map (beforeExecuting (parsedStart s1 + sc_lineOffset s1)) (elems s1), el_iter := 0\<rparr>)
                else (-1, s1\<lparr>el_iter := 0\<rparr>))
      | PNull \<Rightarrow> PNull | PThrow e \<Rightarrow> PThrow e | PCrash \<Rightarrow> PCrash | PFuel \<Rightarrow> PFuel)"

end
