(* ===== verification/ScriptRun.thy ===== *)
theory ScriptRun
  imports ScriptParse
begin

section \<open>Execution of scripts\<close>

text \<open>
  \<open>nextCommand\<close> of the elements (\<open>element.cpp\<close>, \<open>elementblock.cpp\<close>, \<open>elementhex.cpp\<close>, \<open>elementwaitfor.cpp\<close>,
  \<open>elementtarget.cpp\<close>, \<open>elementexe.cpp\<close>) and of the script (the template of \<open>script.h\<close>), the idle calls and the
  signals. A call returns a code and changes the element; it may hand over one command. What it reads of the client, the
  master and the clock is a record that stays the same during one call; events it posts and commands it
  queues aside are appended to \<open>souts\<close>. A block repeats its elements inside one call as long as they return
  \<open>NEXT_COMMAND_NEXT\<close>, which need not end: fuel bounds the loop, and running out of it is a result of its own.
\<close>

subsection \<open>Codes, commands and the environment\<close>

named_theorems next_codes \<open>return codes of script.h\<close>

definition NEXT_STOP_TARGET :: int where [next_codes]: "NEXT_STOP_TARGET = -3"
definition NEXT_NEXT :: int where [next_codes]: "NEXT_NEXT = -2"
definition NEXT_END_SCRIPT :: int where [next_codes]: "NEXT_END_SCRIPT = -1"
definition NEXT_KEEP :: int where [next_codes]: "NEXT_KEEP = 1"
definition NEXT_WAITING :: int where [next_codes]: "NEXT_WAITING = 2"
definition NEXT_RESYNC :: int where [next_codes]: "NEXT_RESYNC = 3"
definition NEXT_CHECK_WAIT :: int where [next_codes]: "NEXT_CHECK_WAIT = 4"
definition NEXT_PRECISION_FAILED :: int where [next_codes]: "NEXT_PRECISION_FAILED = 5"
definition NEXT_PRECISION_OK :: int where [next_codes]: "NEXT_PRECISION_OK = 6"
definition NEXT_WAIT_ACQUSITION :: int where [next_codes]: "NEXT_WAIT_ACQUSITION = 7"
definition NEXT_ACQUSITION_IMAGE :: int where [next_codes]: "NEXT_ACQUSITION_IMAGE = 8"
definition NEXT_WAIT_SIGNAL :: int where [next_codes]: "NEXT_WAIT_SIGNAL = 9"
definition NEXT_WAIT_MIRROR :: int where [next_codes]: "NEXT_WAIT_MIRROR = 10"
definition NEXT_WAIT_SEARCH :: int where [next_codes]: "NEXT_WAIT_SEARCH = 11"
definition MASK_BLOCK :: int where [next_codes]: "MASK_BLOCK = 0x100000"

text \<open>The codes after which a script or a block goes on to the next element.\<close>

definition advances :: "int \<Rightarrow> bool" where
  "advances r \<longleftrightarrow> r = 0 \<or> r = NEXT_CHECK_WAIT \<or> r = NEXT_PRECISION_FAILED \<or> r = NEXT_PRECISION_OK
     \<or> r = NEXT_WAIT_ACQUSITION"

text \<open>The commands of \<open>command.cpp\<close> a script hands over; \<open>CmdSet\<close> is \<open>CommandChangeValue\<close> with its block mask.\<close>

datatype set_arg = SetInt int | SetFloat rat | SetString string bool

datatype scmd =
    CmdSet string char set_arg u32
  | CmdExposure
  | CmdShiftStart rat
  | CmdShiftProgress int rat
  | CmdShiftEnd int rat
  | CmdBox int int int int
  | CmdCenter int int
  | CmdChange rat rat
  | CmdIntegrate int rat int
  | CmdText string


definition bop_mask :: "scmd \<Rightarrow> u32" where
  "bop_mask c =
     (case c of CmdSet v p a m \<Rightarrow> m | CmdExposure \<Rightarrow> BOP_EXPOSURE | CmdShiftStart x \<Rightarrow> BOP_EXPOSURE
      | CmdShiftProgress n x \<Rightarrow> BOP_EXPOSURE | CmdShiftEnd n x \<Rightarrow> BOP_EXPOSURE | _ \<Rightarrow> 0)"

definition set_arg_text :: "set_arg \<Rightarrow> string" where
  "set_arg_text a =
     (case a of SetInt i \<Rightarrow> show_int i | SetFloat x \<Rightarrow> show_fixed x
      | SetString s raw \<Rightarrow> if raw then s else [DQ] @ s @ [DQ])"

text \<open>The text of the commands.\<close>

definition scmd_text :: "scmd \<Rightarrow> string" where
  "scmd_text c =
     (case c of
        CmdSet v p a m \<Rightarrow> words_of [''X'', v, [p], set_arg_text a]
      | CmdExposure \<Rightarrow> ''expose''
      | CmdShiftStart x \<Rightarrow> words_of [''shiftstore'', ''start'', show_double x]
      | CmdShiftProgress n x \<Rightarrow> words_of [''shiftstore'', ''shift'', show_int n, show_double x]
      | CmdShiftEnd n x \<Rightarrow> words_of [''shiftstore'', ''end'', show_int n, show_double x]
      | CmdBox x y w h \<Rightarrow> words_of [''box'', show_int x, show_int y, show_int w, show_int h]
      | CmdCenter w h \<Rightarrow> words_of [''center'', show_int w, show_int h]
      | CmdChange r d \<Rightarrow> words_of [''change'', show_fixed r, show_fixed d]
      | CmdIntegrate f x n \<Rightarrow> words_of [''intfil'', show_int f, show_fixed x, show_int n]
      | CmdText s \<Rightarrow> s)"

datatype sout =
    PostSignal int
  | QueValue string int
  | QuickEnable bool
  | DisableTarget
  | NextObservable int
  | TargetBonus int int
  | DisableAutoLoop
  | RunProcess string

text \<open>
  What an element reads: the values of the camera's connection (\<open>None\<close>: no such value), its queue and
  state; of the master the answers to the queries (acquisition state, scripts that will acquire, signals that
  will be sent), values and addresses of devices; the clock in microseconds; the script's loop count and device; whether there
  is a target and an \<open>auto_loop\<close> value; the process of an \<open>exe\<close>.
\<close>

record senv =
  que_exp_num :: "int option"
  has_SHUTTER :: bool
  has_filter :: bool
  has_exposure :: bool
  que_empty :: bool
  client_state :: u32
  acquire_state :: int
  acquire_count :: "int \<Rightarrow> int"
  signal_reply :: "int \<Rightarrow> int"
  opers :: operand_env
  has_address :: "string \<Rightarrow> bool"
  clock :: int
  script_loops :: int
  script_device :: string
  has_target :: bool
  has_auto_loop :: bool
  exe_init :: "string \<Rightarrow> int"
  exe_deleted :: bool

text \<open>The pointers the caller passes, the draws of the random generator, and the outputs.\<close>

record rstate =
  new_command :: "scmd option"
  new_device :: string
  draws :: nat
  souts :: "sout list"

datatype 'a outcome = Done 'a | Thrown string | NullDeref | OutOfFuel

definition obind :: "'a outcome \<Rightarrow> ('a \<Rightarrow> 'b outcome) \<Rightarrow> 'b outcome" where
  "obind x f = (case x of Done a \<Rightarrow> f a | Thrown e \<Rightarrow> Thrown e | NullDeref \<Rightarrow> NullDeref | OutOfFuel \<Rightarrow> OutOfFuel)"

definition of_parsed :: "'a parsed \<Rightarrow> 'a outcome" where
  "of_parsed x = (case x of Inl e \<Rightarrow> Thrown e | Inr a \<Rightarrow> Done a)"

datatype call = DefNext | CamNext | PhotNext

definition out :: "sout \<Rightarrow> rstate \<Rightarrow> rstate" where
  "out x s = s\<lparr>souts := souts s @ [x]\<rparr>"

definition give :: "scmd \<Rightarrow> string \<Rightarrow> rstate \<Rightarrow> rstate" where
  "give c dev s = s\<lparr>new_command := Some c, new_device := dev\<rparr>"

subsection \<open>Single elements\<close>

definition exposures_queued :: "senv \<Rightarrow> bool" where
  "exposures_queued env \<longleftrightarrow> (case que_exp_num env of None \<Rightarrow> False | Some n \<Rightarrow> n \<noteq> 0)"

text \<open>\<open>ElementSequence::nextCommand\<close>: the stages fall through when the camera does not have the value.\<close>

definition sequence_next :: "senv \<Rightarrow> string \<Rightarrow> int \<Rightarrow> int \<Rightarrow> rat \<Rightarrow> callProgress \<Rightarrow> rstate \<Rightarrow> int \<times> leaf \<times> rstate" where
  "sequence_next env f n d x p s0 =
     (let dev = script_device env; s = s0\<lparr>new_device := dev\<rparr>;
          set = (\<lambda>v a. give (CmdSet v (CHR ''='') a BOP_TEL_MOVE) dev s);
          exp_stage = (\<lambda>q.
            if q = AtFILTER \<and> has_exposure env then
              (NEXT_KEEP, ElementSequence f n d x AtEXPOSURE, set ''exposure'' (SetFloat x))
            else if d + 1 < n then (NEXT_KEEP, ElementSequence f n (d + 1) x q, give CmdExposure dev s)
            else (0, ElementSequence f n 0 x AtFirst, give CmdExposure dev s));
          filter_stage = (\<lambda>q.
            if q = AtSHUTTER then
              (if has_filter env then (NEXT_KEEP, ElementSequence f n d x AtFILTER, set ''filter'' (SetString f False))
               else exp_stage AtFILTER)
            else exp_stage q)
      in if p = AtFirst then
           (if exposures_queued env then (NEXT_KEEP, ElementSequence f n d x p, s)
            else if has_SHUTTER env then (NEXT_KEEP, ElementSequence f n d x AtSHUTTER, set ''SHUTTER'' (SetInt 0))
            else filter_stage AtSHUTTER)
         else filter_stage p)"

text \<open>\<open>ElementImage::nextCommand\<close>.\<close>

definition image_next :: "senv \<Rightarrow> image_class \<Rightarrow> rat \<Rightarrow> callProgress \<Rightarrow> rstate \<Rightarrow> int \<times> leaf \<times> rstate" where
  "image_next env k x p s0 =
     (let dev = script_device env; s = s0\<lparr>new_device := dev\<rparr>;
          set = (\<lambda>v a. give (CmdSet v (CHR ''='') a BOP_TEL_MOVE) dev s);
          exp_stage = (\<lambda>q.
            if q = AtSHUTTER \<and> has_exposure env then
              (NEXT_KEEP, ElementImage k x AtEXPOSURE, set ''exposure'' (SetFloat x))
            else (0, ElementImage k x AtFirst, give CmdExposure dev s))
      in if p = AtFirst then
           (if exposures_queued env then (NEXT_KEEP, ElementImage k x p, s)
            else if 0 \<le> targetShutter k \<and> has_SHUTTER env then
              (NEXT_KEEP, ElementImage k x AtSHUTTER, set ''SHUTTER'' (SetInt (targetShutter k)))
            else exp_stage AtSHUTTER)
         else exp_stage p)"

text \<open>\<open>ElementChangeValue::defnextCommand\<close>; a leading exclamation mark asks for the change while the camera works.\<close>

definition change_next :: "senv \<Rightarrow> string \<Rightarrow> string \<Rightarrow> char \<Rightarrow> operand list \<Rightarrow> bool \<Rightarrow> rstate
    \<Rightarrow> (int \<times> leaf \<times> rstate) outcome" where
  "change_next env d v p xs raw s =
     (if p = NUL \<or> xs = [] then Done (NEXT_END_SCRIPT, ElementChangeValue d v p xs raw, s)
      else obind (of_parsed (write_operands (opers env) xs (draws s)))
        (\<lambda>(t, n).
           (let raw' = (raw \<or> 1 < length xs);
                cmd = (if front v = CHR ''!'' then CmdSet (tl v) p (SetString t raw') (BOP_TEL_MOVE OR BOP_WHILE_STATE)
                       else CmdSet v p (SetString t raw') BOP_TEL_MOVE)
            in Done (0, ElementChangeValue d v p xs raw', give cmd d (s\<lparr>draws := n\<rparr>)))))"

text \<open>\<open>ElementWaitFor::idle\<close>, which is also its \<open>defnextCommand\<close>.\<close>

definition waitfor_idle :: "senv \<Rightarrow> string \<Rightarrow> string \<Rightarrow> rat \<Rightarrow> rat \<Rightarrow> int" where
  "waitfor_idle env d v t r =
     (case sys_value (opers env) d v of
        None \<Rightarrow> if has_address env d then NEXT_KEEP else NEXT_NEXT
      | Some x \<Rightarrow> if \<bar>x - t\<bar> \<le> r then NEXT_NEXT else NEXT_KEEP)"

text \<open>\<open>Execute::defnextCommand\<close>; the flags are \<open>connExecute\<close> and \<open>endScript\<close>.\<close>

definition execute_next :: "senv \<Rightarrow> string \<Rightarrow> bool \<Rightarrow> bool \<Rightarrow> rstate \<Rightarrow> int \<times> leaf \<times> rstate" where
  "execute_next env x conn ends s =
     (if \<not> conn \<and> exe_init env x \<noteq> 0 then (NEXT_STOP_TARGET, ElementExecute x False ends, s)
      else let s1 = (if conn then s else out (RunProcess x) s)
           in if ends then (NEXT_END_SCRIPT, ElementExecute x False ends, s1)
              else if conn \<and> exe_deleted env then (NEXT_NEXT, ElementExecute x False ends, s1)
              else (NEXT_KEEP, ElementExecute x True ends, s1))"

definition tempdisable_next :: "senv \<Rightarrow> string \<Rightarrow> rstate \<Rightarrow> rstate outcome" where
  "tempdisable_next env t s =
     obind (of_parsed (parse_operand MUL_TIME t)) (\<lambda>x.
     obind (of_parsed (getDouble (opers env) x (draws s))) (\<lambda>(v, n).
       if has_target env then Done (out (NextObservable \<lfloor>of_int (clock env div 1000000) + v\<rfloor>) (s\<lparr>draws := n\<rparr>))
       else NullDeref))"

text \<open>
  The call of one element. The elements that override only the camera's or the photometer's \<open>nextCommand\<close> answer
  \<open>NEXT_COMMAND_NEXT\<close> to the others.
\<close>

definition leaf_next :: "senv \<Rightarrow> call \<Rightarrow> ebase \<Rightarrow> leaf \<Rightarrow> rstate \<Rightarrow> (int \<times> element \<times> rstate) outcome" where
  "leaf_next env k b l s =
     (let dev = script_device env;
          same = (\<lambda>r t. Done (r, Leaf b l, t));
          camera = (\<lambda>c. if k = CamNext then same 0 (give c dev s) else same NEXT_NEXT s);
          put = (\<lambda>(r, l', t). Done (r, Leaf b l', t))
      in case l of
        ElementSequence f n d x p \<Rightarrow> if k = CamNext then put (sequence_next env f n d x p s) else same NEXT_NEXT s
      | ElementImage ic x p \<Rightarrow> if k = CamNext then put (image_next env ic x p s) else same NEXT_NEXT s
      | ElementShiftStoreStart x \<Rightarrow> camera (CmdShiftStart x)
      | ElementShiftStoreProgress n x \<Rightarrow> camera (CmdShiftProgress n x)
      | ElementShiftStoreEnd n x \<Rightarrow> camera (CmdShiftEnd n x)
      | ElementBox x y w h \<Rightarrow> camera (CmdBox x y w h)
      | ElementCenter w h \<Rightarrow> camera (CmdCenter w h)
      | ElementChange d r dec \<Rightarrow> same 0 (give (CmdChange r dec) d s)
      | ElementWait \<Rightarrow> same NEXT_CHECK_WAIT s
      | ElementWaitAcquire t \<Rightarrow> same (if acquire_count env t \<noteq> 0 then NEXT_WAIT_ACQUSITION else NEXT_NEXT) s
      | ElementPhotometer f x n \<Rightarrow> if k = PhotNext then same 0 (give (CmdIntegrate f x n) dev s) else same NEXT_NEXT s
      | ElementSendSignal n a \<Rightarrow> Done (NEXT_NEXT, Leaf b (ElementSendSignal n False), out (PostSignal n) s)
      | ElementWaitSignal n \<Rightarrow>
          same (if n = -1 then NEXT_NEXT else if signal_reply env n \<noteq> -1 then NEXT_NEXT else NEXT_WAIT_SIGNAL) s
      | ElementChangeValue d v p xs raw \<Rightarrow> obind (change_next env d v p xs raw s) put
      | ElementComment c n \<Rightarrow>
          same 0 (give (CmdSet ''SCR_COMM'' (CHR ''='') (SetString c False) 0) dev (out (QueValue ''COMM_NUM'' n) s))
      | ElementCommand d c args \<Rightarrow> same 0 (give (CmdText (words_of (c # args))) d s)
      | ElementLoopDisable \<Rightarrow> same NEXT_NEXT (if has_auto_loop env then out DisableAutoLoop s else s)
      | ElementWaitFor d v t r \<Rightarrow> same (waitfor_idle env d v t r) s
      | ElementSleep sec sl ex \<Rightarrow>
          if ex then Done (NEXT_NEXT, Leaf b (ElementSleep sec False False), s)
          else if sl then same NEXT_KEEP s
          else Done (NEXT_KEEP, Leaf (setIdleTimeout (clock env) sec b) (ElementSleep sec True False), s)
      | ElementWaitForIdle \<Rightarrow>
          same (if que_empty env \<and> client_state env AND DEVICE_STATUS_MASK = DEVICE_IDLE then NEXT_NEXT else NEXT_KEEP) s
      | ElementDisable \<Rightarrow> if has_target env then same NEXT_NEXT (out DisableTarget s) else NullDeref
      | ElementTempDisable t \<Rightarrow> obind (tempdisable_next env t s) (same NEXT_NEXT)
      | ElementTarBoost n bonus \<Rightarrow>
          if has_target env then same NEXT_NEXT (out (TargetBonus bonus (clock env div 1000000 + n)) s) else NullDeref
      | ElementExecute x c e \<Rightarrow> put (execute_next env x c e s))"

subsection \<open>Blocks\<close>

text \<open>\<open>endLoop\<close> of the blocks, at a loop count; the condition of a loop may throw or be a null pointer.\<close>

definition condition_false :: "senv \<Rightarrow> operand option \<Rightarrow> nat \<Rightarrow> (bool \<times> nat) outcome" where
  "condition_false env c n =
     (case c of
        None \<Rightarrow> NullDeref
      | Some x \<Rightarrow> obind (of_parsed (getDouble (opers env) x n)) (\<lambda>(v, m). Done (v = 0, m)))"

definition second_of_day :: "int \<Rightarrow> int" where
  "second_of_day t = (t div 1000000) mod 86400"

definition endLoop :: "senv \<Rightarrow> bkind \<Rightarrow> int \<Rightarrow> nat \<Rightarrow> (bool \<times> nat) outcome" where
  "endLoop env k lc n =
     (case k of
        ElementSignalEnd sig \<Rightarrow> Done (sig = -1, n)
      | ElementElse \<Rightarrow> Done (lc \<noteq> 0, n)
      | ElementFor m \<Rightarrow> Done (m \<le> lc, n)
      | ElementWhileSod sod \<Rightarrow> Done (sod \<le> second_of_day (clock env), n)
      | ElementWhile c m \<Rightarrow> if m \<le> lc then Done (True, n) else condition_false env c n
      | ElementDo c m \<Rightarrow> if lc = 0 then Done (False, n) else if m \<le> lc then Done (True, n) else condition_false env c n
      | ElementOnce \<Rightarrow> Done (\<not> (script_loops env = 0 \<and> lc = 0), n)
      | ElementHex d r de p path t chg \<Rightarrow> Done (length path \<le> t, n))"

text \<open>\<open>afterBlockEnd\<close>; a pattern also rewinds its path and enables the quick mode.\<close>

definition afterBlockEnd :: "bkind \<Rightarrow> element blk \<Rightarrow> rstate \<Rightarrow> bkind \<times> element blk \<times> rstate" where
  "afterBlockEnd k bl s =
     (let bl' = Blk (elements bl) 0 0 (reported bl)
      in case k of
           ElementHex d r de p path t chg \<Rightarrow> (ElementHex d r de p path 0 chg, bl', out (QuickEnable True) s)
         | _ \<Rightarrow> (k, bl', s))"

definition set_change :: "rat \<times> rat \<Rightarrow> element \<Rightarrow> element" where
  "set_change p e =
     (case e of Leaf b (ElementChange d r de) \<Rightarrow> Leaf b (ElementChange d (fst p) (snd p)) | _ \<Rightarrow> e)"

definition set_elem :: "nat \<Rightarrow> element \<Rightarrow> element blk \<Rightarrow> element blk" where
  "set_elem i e bl = Blk ((elements bl)[i := e]) (curr bl) (loops bl) (reported bl)"

text \<open>\<open>getNextLoop\<close>: whether the block ended. A pattern goes to the next point of its path, through \<open>changeEl\<close>.\<close>

definition getNextLoop :: "senv \<Rightarrow> bkind \<Rightarrow> element blk \<Rightarrow> rstate \<Rightarrow> (bool \<times> bkind \<times> element blk \<times> rstate) outcome" where
  "getNextLoop env k bl s =
     (case k of
        ElementHex d r de p path t chg \<Rightarrow>
          (let t' = (if t < length path then Suc t else t)
           in if t' < length path then
                (case chg of
                   None \<Rightarrow> NullDeref
                 | Some i \<Rightarrow>
                     Done (False, ElementHex d r de p path t' chg,
                       set_elem i (set_change (scaled r de (path ! t')) (elements bl ! i)) bl, s))
              else Done (True, afterBlockEnd (ElementHex d r de p path t' chg) bl s))
      | _ \<Rightarrow>
          obind (endLoop env k (loops bl) (draws s)) (\<lambda>(e, n).
            if e then Done (True, afterBlockEnd k bl (s\<lparr>draws := n\<rparr>)) else Done (False, k, bl, s\<lparr>draws := n\<rparr>)))"

text \<open>\<open>curr_element++\<close>, and the next loop behind the last element.\<close>

definition advance_block :: "senv \<Rightarrow> bkind \<Rightarrow> element blk \<Rightarrow> rstate \<Rightarrow> (bool \<times> bkind \<times> element blk \<times> rstate) outcome" where
  "advance_block env k bl s =
     (let c = Suc (curr bl)
      in if c = length (elements bl) then
           obind (getNextLoop env k (Blk (elements bl) c (loops bl + 1) (reported bl)) s) (\<lambda>(e, k', bl', s').
             Done (if e then (True, k', bl', s') else (False, k', Blk (elements bl') 0 (loops bl') (reported bl'), s')))
         else Done (False, k, Blk (elements bl) c (loops bl) (reported bl), s))"

text \<open>\<open>blockScriptRet\<close>.\<close>

definition blockScriptRet :: "senv \<Rightarrow> int \<Rightarrow> bkind \<Rightarrow> element blk \<Rightarrow> rstate \<Rightarrow> (int \<times> bkind \<times> element blk \<times> rstate) outcome" where
  "blockScriptRet env ret k bl s =
     (let bl1 = (if curr bl < length (elements bl)
                 then Blk (elements bl) (curr bl) (loops bl) (Some (curr bl)) else bl)
      in if advances ret then
           obind (advance_block env k bl1 s) (\<lambda>(e, k', bl', s'). Done (if e then ret else ret OR MASK_BLOCK, k', bl', s'))
         else Done (ret OR MASK_BLOCK, k, bl1, s))"

text \<open>
  The loop of \<open>ElementBlock::nextCommand\<close> and \<open>defnextCommand\<close>, with the call of an element as argument;
  \<open>sod\<close> holds for \<open>ElementWhileSod::nextCommand\<close> of a camera, which holds back the first element's command while
  more than one exposure is queued. Without an element the code dereferences the end of the list.
\<close>

definition holds_back :: "senv \<Rightarrow> bool \<Rightarrow> int \<Rightarrow> nat \<Rightarrow> bool" where
  "holds_back env sod ret c \<longleftrightarrow> sod \<and> ret = 0 \<and> c = 0 \<and> (case que_exp_num env of None \<Rightarrow> False | Some n \<Rightarrow> 1 < n)"

primrec block_loop :: "senv \<Rightarrow> bool \<Rightarrow> (element \<Rightarrow> rstate \<Rightarrow> (int \<times> element \<times> rstate) outcome) \<Rightarrow> nat
    \<Rightarrow> bkind \<Rightarrow> element blk \<Rightarrow> rstate \<Rightarrow> (int \<times> bkind \<times> element blk \<times> rstate) outcome" where
  "block_loop env sod child 0 k bl s = OutOfFuel"
| "block_loop env sod child (Suc n) k bl s =
     (if length (elements bl) \<le> curr bl then NullDeref
      else obind (child (elements bl ! curr bl) s) (\<lambda>(ret, e, s1).
        (let bl1 = set_elem (curr bl) e bl
         in if holds_back env sod ret (curr bl) then blockScriptRet env NEXT_KEEP k bl1 (s1\<lparr>new_command := None\<rparr>)
            else if ret \<noteq> NEXT_NEXT then blockScriptRet env ret k bl1 s1
            else obind (advance_block env k bl1 s1) (\<lambda>(e, k', bl', s').
              if e then Done (NEXT_NEXT, k', bl', s') else block_loop env sod child n k' bl' s'))))"

text \<open>\<open>ElementBlock::nextCommand\<close>: \<open>endLoop\<close> and the empty block first; \<open>defnextCommand\<close> begins with the loop.\<close>

definition is_sod :: "bkind \<Rightarrow> bool" where
  "is_sod k = (case k of ElementWhileSod n \<Rightarrow> True | _ \<Rightarrow> False)"

definition block_next :: "senv \<Rightarrow> call \<Rightarrow> (element \<Rightarrow> rstate \<Rightarrow> (int \<times> element \<times> rstate) outcome) \<Rightarrow> nat
    \<Rightarrow> bkind \<Rightarrow> element blk \<Rightarrow> rstate \<Rightarrow> (int \<times> bkind \<times> element blk \<times> rstate) outcome" where
  "block_next env c child n k bl s =
     (if c = DefNext then block_loop env False child n k bl s
      else obind (endLoop env k (loops bl) (draws s)) (\<lambda>(e, m).
        if e \<or> elements bl = [] then Done (NEXT_NEXT, k, bl, s\<lparr>draws := m\<rparr>)
        else block_loop env (c = CamNext \<and> is_sod k) child n k bl (s\<lparr>draws := m\<rparr>)))"

text \<open>\<open>ElementAcquired::checkState\<close>.\<close>

definition checkState :: "senv \<Rightarrow> acquired_state \<Rightarrow> acquired_state" where
  "checkState env st = (if st = NOT_CALLED then if acquire_state env = 1 then ACQ_OK else ACQ_FAILED else st)"

text \<open>
  \<open>nextCommand\<close> (\<open>defnextCommand\<close> for \<open>DefNext\<close>) of an element, with fuel for the depth and for the
  iterations. The \<open>else\<close> of \<open>ifacq\<close> is always called through \<open>defnextCommand\<close>.
\<close>

fun next_command :: "senv \<Rightarrow> nat \<Rightarrow> call \<Rightarrow> element \<Rightarrow> rstate \<Rightarrow> (int \<times> element \<times> rstate) outcome" where
  "next_command env 0 c e s = OutOfFuel"
| "next_command env (Suc n) c (Leaf b l) s = leaf_next env c b l s"
| "next_command env (Suc n) c (Block b k bl) s =
     obind (block_next env c (next_command env n c) n k bl s) (\<lambda>(r, k', bl', s'). Done (r, Block b k' bl', s'))"
| "next_command env (Suc n) c (IfAcquired b t st bl el) s =
     (if checkState env st = ACQ_OK then
        obind (block_next env c (next_command env n c) n ElementElse bl s)
          (\<lambda>(r, k', bl', s'). Done (r, IfAcquired b t ACQ_OK bl' el, s'))
      else case el of
        None \<Rightarrow> Done (NEXT_NEXT, IfAcquired b t (checkState env st) bl None, s)
      | Some eb \<Rightarrow>
          obind (block_next env DefNext (next_command env n DefNext) n ElementElse eb s)
            (\<lambda>(r, k', eb', s'). Done (r, IfAcquired b t (checkState env st) bl (Some eb'), s')))"

subsection \<open>The script\<close>

text \<open>
  The loop of \<open>Script::nextCommand\<close>. The device is told the position and the length of the element after each call,
  zeros at the end of the script.
\<close>

definition set_script_elem :: "nat \<Rightarrow> element \<Rightarrow> script \<Rightarrow> script" where
  "set_script_elem i e sc = sc\<lparr>elems := (elems sc)[i := e]\<rparr>"

definition report_position :: "int \<Rightarrow> int \<Rightarrow> rstate \<Rightarrow> rstate" where
  "report_position p l s = out (QueValue ''scriptLen'' l) (out (QueValue ''scriptPosition'' p) s)"

lemma set_script_elem_sel [simp]:
  "length (elems (set_script_elem i e sc)) = length (elems sc)" "el_iter (set_script_elem i e sc) = el_iter sc"
  by (simp_all add: set_script_elem_def)

function script_loop :: "senv \<Rightarrow> nat \<Rightarrow> call \<Rightarrow> script \<Rightarrow> rstate \<Rightarrow> (int \<times> script \<times> rstate) outcome" where
  "script_loop env n c sc s =
     (if length (elems sc) \<le> el_iter sc then Done (NEXT_END_SCRIPT, sc, report_position 0 0 s)
      else obind (next_command env n c (elems sc ! el_iter sc) s) (\<lambda>(r, e, s1).
        (let sc1 = set_script_elem (el_iter sc) e sc; s2 = report_position (getStartPos e) (getLen e) s1
         in if r \<noteq> NEXT_NEXT then Done (r, sc1, s2)
            else script_loop env n c (sc1\<lparr>el_iter := Suc (el_iter sc)\<rparr>) s2)))"
  by pat_completeness auto

termination
  by (relation "measure (\<lambda>(env, n, c, sc, s). length (elems sc) - el_iter sc)") auto

declare script_loop.simps [simp del]

text \<open>What \<open>Script::nextCommand\<close> does with the code of an element.\<close>

definition script_ret :: "int \<Rightarrow> script \<Rightarrow> rstate \<Rightarrow> int \<times> script \<times> rstate" where
  "script_ret r sc s =
     (let sc1 = sc\<lparr>executedCount := executedCount sc + 1\<rparr>
      in if r AND MASK_BLOCK \<noteq> 0 then (r AND NOT MASK_BLOCK, sc1, s)
         else if advances r then (r, sc1\<lparr>el_iter := Suc (el_iter sc)\<rparr>, s)
         else if r = NEXT_WAITING then (r, sc1, s\<lparr>new_command := None\<rparr>)
         else (r, sc1, s))"

definition script_nextCommand :: "senv \<Rightarrow> nat \<Rightarrow> call \<Rightarrow> script \<Rightarrow> rstate \<Rightarrow> (int \<times> script \<times> rstate) outcome" where
  "script_nextCommand env0 n c sc s0 =
     (let s = s0\<lparr>new_command := None\<rparr>;
          env = env0\<lparr>script_loops := scriptLoops sc, script_device := scriptDevice sc\<rparr>
      in if executedCount sc < 0 then Done (NEXT_END_SCRIPT, sc, s)
         else obind (script_loop env n c sc s) (\<lambda>(r, sc1, s1).
           Done (if length (elems sc1) \<le> el_iter sc1 then (NEXT_END_SCRIPT, sc1, s1) else script_ret r sc1 s1)))"

subsection \<open>Idle calls\<close>

text \<open>\<open>idle\<close> of the elements that have a timer: a wait for a value looks again, a sleep has expired.\<close>

definition leaf_idle :: "senv \<Rightarrow> leaf \<Rightarrow> int \<times> leaf" where
  "leaf_idle env l =
     (case l of
        ElementWaitFor d v t r \<Rightarrow> (waitfor_idle env d v t r, l)
      | ElementSleep sec sl ex \<Rightarrow> (NEXT_NEXT, ElementSleep sec sl True)
      | _ \<Rightarrow> (NEXT_KEEP, l))"

text \<open>\<open>Element::idleCall\<close>.\<close>

definition leaf_idleCall :: "senv \<Rightarrow> ebase \<Rightarrow> leaf \<Rightarrow> int \<times> element" where
  "leaf_idleCall env b l =
     (if idleTimeout b \<noteq> 0 \<and> nextIdle b < clock env then
        (case leaf_idle env l of
           (r, l') \<Rightarrow> (r, Leaf (EBase (startPos b) (elen b) (idleTimeout b) (clock env + idleTimeout b)) l'))
      else (NEXT_KEEP, Leaf b l))"

text \<open>\<open>ElementBlock::idleCall\<close>: a block leaves the element whose idle call says so.\<close>

definition block_idle :: "senv \<Rightarrow> (rstate \<Rightarrow> (int \<times> element \<times> rstate) outcome) option \<Rightarrow> bkind \<Rightarrow> element blk \<Rightarrow> rstate
    \<Rightarrow> (int \<times> bkind \<times> element blk \<times> rstate) outcome" where
  "block_idle env child k bl s =
     (case child of
        None \<Rightarrow> Done (NEXT_KEEP, k, bl, s)
      | Some f \<Rightarrow>
          obind (f s) (\<lambda>(r, e, s1).
            (let bl1 = set_elem (curr bl) e bl
             in if r \<noteq> NEXT_NEXT then blockScriptRet env r k bl1 s1
                else obind (advance_block env k bl1 s1) (\<lambda>(x, k', bl', s'). Done (NEXT_NEXT, k', bl', s')))))"

definition at_curr :: "'a list \<Rightarrow> nat \<Rightarrow> 'a option" where
  "at_curr xs c = (if c < length xs then Some (xs ! c) else None)"

fun idleCall :: "senv \<Rightarrow> element \<Rightarrow> rstate \<Rightarrow> (int \<times> element \<times> rstate) outcome" where
  "idleCall env (Leaf b l) s = (case leaf_idleCall env b l of (r, e) \<Rightarrow> Done (r, e, s))"
| "idleCall env (Block b k (Blk es c n rep)) s =
     obind (block_idle env (at_curr (map (idleCall env) es) c) k (Blk es c n rep) s)
       (\<lambda>(r, k', bl', s'). Done (r, Block b k' bl', s'))"
| "idleCall env (IfAcquired b t st (Blk es c n rep) el) s =
     obind (block_idle env (at_curr (map (idleCall env) es) c) ElementElse (Blk es c n rep) s)
       (\<lambda>(r, k', bl', s'). Done (r, IfAcquired b t st bl' el, s'))"

text \<open>\<open>Script::idle\<close>.\<close>

definition script_idle :: "senv \<Rightarrow> script \<Rightarrow> rstate \<Rightarrow> (int \<times> script \<times> rstate) outcome" where
  "script_idle env0 sc s =
     (let env = env0\<lparr>script_loops := scriptLoops sc, script_device := scriptDevice sc\<rparr>
      in if el_iter sc < length (elems sc) then
           obind (idleCall env (elems sc ! el_iter sc) s) (\<lambda>(r, e, s1). Done (r, set_script_elem (el_iter sc) e sc, s1))
         else Done (NEXT_KEEP, sc, s))"

subsection \<open>Signals\<close>

text \<open>\<open>waitForSignal\<close>: whether the element waited for the signal, which it then forgets.\<close>

fun waitForSignal :: "int \<Rightarrow> element \<Rightarrow> bool \<times> element" where
  "waitForSignal sg (Leaf b l) =
     (case l of
        ElementWaitSignal n \<Rightarrow> if n = sg then (True, Leaf b (ElementWaitSignal (-1))) else (False, Leaf b l)
      | _ \<Rightarrow> (False, Leaf b l))"
| "waitForSignal sg (Block b k (Blk es c n rep)) =
     (if k = ElementSignalEnd sg then (True, Block b (ElementSignalEnd (-1)) (Blk es c n rep))
      else case at_curr (map (waitForSignal sg) es) c of
        None \<Rightarrow> (False, Block b k (Blk es c n rep))
      | Some (x, e) \<Rightarrow> (x, Block b k (Blk (es[c := e]) c n rep)))"
| "waitForSignal sg (IfAcquired b t st (Blk es c n rep) None) =
     (case if st = ACQ_OK then at_curr (map (waitForSignal sg) es) c else None of
        None \<Rightarrow> (False, IfAcquired b t st (Blk es c n rep) None)
      | Some (x, e) \<Rightarrow> (x, IfAcquired b t st (Blk (es[c := e]) c n rep) None))"
| "waitForSignal sg (IfAcquired b t st (Blk es c n rep) (Some (Blk fs c' n' rep'))) =
     (if st = ACQ_OK then
        (case at_curr (map (waitForSignal sg) es) c of
           None \<Rightarrow> (False, IfAcquired b t st (Blk es c n rep) (Some (Blk fs c' n' rep')))
         | Some (x, e) \<Rightarrow> (x, IfAcquired b t st (Blk (es[c := e]) c n rep) (Some (Blk fs c' n' rep'))))
      else
        (case if st = ACQ_FAILED then at_curr (map (waitForSignal sg) fs) c' else None of
           None \<Rightarrow> (False, IfAcquired b t st (Blk es c n rep) (Some (Blk fs c' n' rep')))
         | Some (x, e) \<Rightarrow> (x, IfAcquired b t st (Blk es c n rep) (Some (Blk (fs[c' := e]) c' n' rep')))))"

text \<open>
  \<open>Script::postEvent\<close> for \<open>EVENT_SIGNAL\<close>: the elements from the current one on are asked; one that waited becomes the current
  one, and the argument \<open>-1\<close> says that the signal was taken. The loop goes on with \<open>-1\<close>.
\<close>

definition signal_step :: "int \<times> script \<Rightarrow> nat \<Rightarrow> int \<times> script" where
  "signal_step p i =
     (case waitForSignal (fst p) (elems (snd p) ! i) of
        (True, e) \<Rightarrow> (-1, (set_script_elem i e (snd p))\<lparr>el_iter := i\<rparr>)
      | (False, e) \<Rightarrow> p)"

definition script_signal :: "int \<Rightarrow> script \<Rightarrow> int \<times> script" where
  "script_signal sg sc = foldl signal_step (sg, sc) [el_iter sc..<length (elems sc)]"

text \<open>\<open>postEvent\<close> for \<open>EVENT_SIGNAL_QUERY\<close>: an element that will send the signal notes it and takes the argument.\<close>

fun signal_query :: "int \<Rightarrow> element \<Rightarrow> int \<times> element"
  and signal_queries :: "int \<Rightarrow> element list \<Rightarrow> int \<times> element list" where
  "signal_query a (Leaf b l) =
     (case l of
        ElementSendSignal n asked \<Rightarrow> if a = n then (-1, Leaf b (ElementSendSignal n True)) else (a, Leaf b l)
      | _ \<Rightarrow> (a, Leaf b l))"
| "signal_query a (Block b k (Blk es c n rep)) =
     (case signal_queries a es of (a', es') \<Rightarrow> (a', Block b k (Blk es' c n rep)))"
| "signal_query a (IfAcquired b t st (Blk es c n rep) el) =
     (case st of
        ACQ_OK \<Rightarrow> (case signal_queries a es of (a', es') \<Rightarrow> (a', IfAcquired b t st (Blk es' c n rep) el))
      | ACQ_FAILED \<Rightarrow>
          (case el of
             None \<Rightarrow> (a, IfAcquired b t st (Blk es c n rep) el)
           | Some (Blk fs c' n' rep') \<Rightarrow>
               (case signal_queries a fs of
                  (a', fs') \<Rightarrow> (a', IfAcquired b t st (Blk es c n rep) (Some (Blk fs' c' n' rep')))))
      | NOT_CALLED \<Rightarrow> (a, IfAcquired b t st (Blk es c n rep) el))"
| "signal_queries a [] = (a, [])"
| "signal_queries a (e # es) =
     (case signal_query a e of (a1, e') \<Rightarrow> (case signal_queries a1 es of (a2, es') \<Rightarrow> (a2, e' # es')))"

definition script_signal_query :: "int \<Rightarrow> script \<Rightarrow> int \<times> script" where
  "script_signal_query a sc =
     (case signal_queries a (drop (el_iter sc) (elems sc)) of
        (a', es) \<Rightarrow> (a', sc\<lparr>elems := take (el_iter sc) (elems sc) @ es\<rparr>))"

end
