(* ===== verification/ScriptRunProps.thy ===== *)
theory ScriptRunProps
  imports ScriptRun
begin

section \<open>Termination of nextCommand\<close>

text \<open>
  A call of \<open>nextCommand\<close> on a block runs through the elements that return \<open>NEXT_COMMAND_NEXT\<close>, loop after loop. It ends for
  every block that counts its loops, whatever it holds; \<open>fuel_need\<close> is a bound that the execution does not
  change. For the blocks that wait for a signal or for a time of the day there is no bound.
\<close>

subsection \<open>Blocks that count\<close>

definition counted_kind :: "bkind \<Rightarrow> bool" where
  "counted_kind k = (case k of ElementSignalEnd n \<Rightarrow> False | ElementWhileSod n \<Rightarrow> False | _ \<Rightarrow> True)"

definition loop_bound :: "bkind \<Rightarrow> nat" where
  "loop_bound k =
     (case k of ElementFor m \<Rightarrow> max 1 (nat m) | ElementWhile c m \<Rightarrow> max 1 (nat m) | ElementDo c m \<Rightarrow> max 1 (nat m)
      | ElementHex d r de p path t chg \<Rightarrow> max 1 (length path) | _ \<Rightarrow> 1)"

fun counted :: "element \<Rightarrow> bool" where
  "counted (Leaf b l) = True"
| "counted (Block b k (Blk es c n rep)) = (counted_kind k \<and> 0 \<le> n \<and> list_all counted es)"
| "counted (IfAcquired b t st (Blk es c n rep) None) = (0 \<le> n \<and> list_all counted es)"
| "counted (IfAcquired b t st (Blk es c n rep) (Some (Blk fs c' n' rep'))) =
     (0 \<le> n \<and> list_all counted es \<and> 0 \<le> n' \<and> list_all counted fs)"

definition block_fuel :: "nat list \<Rightarrow> nat \<Rightarrow> nat" where
  "block_fuel ns m = Suc (sum_list ns + length ns * m)"

fun fuel_need :: "element \<Rightarrow> nat" where
  "fuel_need (Leaf b l) = 1"
| "fuel_need (Block b k (Blk es c n rep)) = Suc (block_fuel (map fuel_need es) (loop_bound k))"
| "fuel_need (IfAcquired b t st (Blk es c n rep) None) = Suc (block_fuel (map fuel_need es) 1)"
| "fuel_need (IfAcquired b t st (Blk es c n rep) (Some (Blk fs c' n' rep'))) =
     Suc (block_fuel (map fuel_need es) 1 + block_fuel (map fuel_need fs) 1)"

text \<open>The passes through a block that are left, the current one included, and the visits of elements.\<close>

definition loop_passes :: "bkind \<Rightarrow> int \<Rightarrow> nat" where
  "loop_passes k lc =
     (case k of ElementFor m \<Rightarrow> max 1 (nat (m - lc)) | ElementWhile c m \<Rightarrow> max 1 (nat (m - lc))
      | ElementDo c m \<Rightarrow> max 1 (nat (m - lc)) | ElementHex d r de p path t chg \<Rightarrow> max 1 (length path - t) | _ \<Rightarrow> 1)"

definition visits :: "bkind \<Rightarrow> element blk \<Rightarrow> nat" where
  "visits k bl = (loop_passes k (loops bl) - 1) * length (elements bl) + (length (elements bl) - curr bl)"

lemma passes_bound: "0 \<le> lc \<Longrightarrow> loop_passes k lc \<le> loop_bound k"
  by (cases k) (auto simp: loop_passes_def loop_bound_def)

lemma passes_pos: "1 \<le> loop_passes k lc"
  by (cases k) (auto simp: loop_passes_def)

lemma visits_bound:
  assumes "0 \<le> loops bl" shows "visits k bl \<le> length (elements bl) * loop_bound k"
proof -
  have p: "loop_passes k (loops bl) \<le> loop_bound k" using passes_bound assms by simp
  have "visits k bl \<le> (loop_passes k (loops bl) - 1) * length (elements bl) + length (elements bl)"
    by (simp add: visits_def)
  also have "\<dots> = loop_passes k (loops bl) * length (elements bl)"
    using passes_pos [of k "loops bl"] by (cases "loop_passes k (loops bl)") auto
  also have "\<dots> \<le> loop_bound k * length (elements bl)" using p by simp
  finally show ?thesis by (simp add: mult.commute)
qed

subsection \<open>What a step keeps\<close>

text \<open>A counting block whose elements need the fuel \<open>ns\<close>.\<close>

definition blk_ok :: "bkind \<Rightarrow> nat \<Rightarrow> nat list \<Rightarrow> element blk \<Rightarrow> bool" where
  "blk_ok k m ns bl \<longleftrightarrow> counted_kind k \<and> loop_bound k = m \<and> 0 \<le> loops bl \<and> list_all counted (elements bl)
     \<and> map fuel_need (elements bl) = ns"

definition kept_fuel :: "('a \<Rightarrow> bool) \<Rightarrow> 'a outcome \<Rightarrow> bool" where
  "kept_fuel P x \<longleftrightarrow> (case x of Done a \<Rightarrow> P a | OutOfFuel \<Rightarrow> False | _ \<Rightarrow> True)"

lemma kept_simps [simp]: "kept_fuel P (Done a) = P a" "kept_fuel P (Thrown e)" "kept_fuel P NullDeref" "\<not> kept_fuel P OutOfFuel"
  by (simp_all add: kept_fuel_def)

lemma kept_obind:
  assumes "kept_fuel P x" "\<And>a. P a \<Longrightarrow> kept_fuel Q (f a)" shows "kept_fuel Q (obind x f)"
  using assms by (cases x) (auto simp: obind_def)

lemma kept_mono: "kept_fuel P x \<Longrightarrow> (\<And>a. P a \<Longrightarrow> Q a) \<Longrightarrow> kept_fuel Q x"
  by (cases x) auto

lemma kept_parsed [simp]: "kept_fuel (\<lambda>_. True) (of_parsed x)"
  by (simp add: of_parsed_def split: sum.split)

lemma set_elem_sel [simp]:
  "elements (set_elem i e bl) = (elements bl)[i := e]" "curr (set_elem i e bl) = curr bl"
  "loops (set_elem i e bl) = loops bl" "reported (set_elem i e bl) = reported bl"
  by (simp_all add: set_elem_def)

lemma list_all_update: "list_all P xs \<Longrightarrow> P x \<Longrightarrow> list_all P (xs[i := x])"
  by (auto simp: list_all_iff dest!: set_update_subset_insert [THEN subsetD])

lemma map_update_same: "f x = f (xs ! i) \<Longrightarrow> map f (xs[i := x]) = map f xs"
  by (metis list_update_id map_update)

lemma set_elem_ok:
  "blk_ok k m ns bl \<Longrightarrow> counted e \<Longrightarrow> fuel_need e = fuel_need (elements bl ! i) \<Longrightarrow> blk_ok k m ns (set_elem i e bl)"
  by (auto simp: blk_ok_def list_all_update map_update_same)

lemma set_change_need: "counted e \<Longrightarrow> counted (set_change p e)" "fuel_need (set_change p e) = fuel_need e"
  by (auto simp: set_change_def split: element.split leaf.split)

lemma set_change_ok: "blk_ok k m ns bl \<Longrightarrow> blk_ok k m ns (set_elem i (set_change p (elements bl ! i)) bl)"
proof (cases "i < length (elements bl)")
  case True
  then show "blk_ok k m ns bl \<Longrightarrow> blk_ok k m ns (set_elem i (set_change p (elements bl ! i)) bl)"
    by (intro set_elem_ok) (auto simp: set_change_need blk_ok_def list_all_length)
next
  case False
  then show "blk_ok k m ns bl \<Longrightarrow> blk_ok k m ns (set_elem i (set_change p (elements bl ! i)) bl)"
    by (simp add: blk_ok_def list_update_beyond)
qed

lemma condition_kept: "kept_fuel (\<lambda>_. True) (condition_false env c n)"
proof (cases c)
  case (Some x)
  then show ?thesis
    by (cases "getDouble (opers env) x n") (auto simp: condition_false_def obind_def of_parsed_def)
qed (simp add: condition_false_def)

lemma endLoop_kept: "kept_fuel (\<lambda>_. True) (endLoop env k lc n)"
  by (cases k) (simp_all add: endLoop_def condition_kept)

text \<open>After a pass that ends no loop there is one pass less.\<close>

definition next_pass :: "bkind \<Rightarrow> nat \<Rightarrow> nat list \<Rightarrow> element blk \<Rightarrow> bool \<times> bkind \<times> element blk \<times> rstate \<Rightarrow> bool" where
  "next_pass k m ns bl = (\<lambda>(e, k', bl', s').
     blk_ok k' m ns bl' \<and> length (elements bl') = length (elements bl)
     \<and> (\<not> e \<longrightarrow> loop_passes k' (loops bl') < loop_passes k (loops bl - 1)))"

lemma fewer_passes_for: "lc < (m :: int) \<Longrightarrow> max 1 (nat (m - lc)) < max 1 (nat (m - (lc - 1)))"
  by linarith

lemma endLoop_more:
  assumes "endLoop env k lc n = Done (False, n')" "counted_kind k" "\<not> is_hex k" "1 \<le> lc"
  shows "loop_passes k lc < loop_passes k (lc - 1)"
proof (cases k)
  case (ElementFor m)
  then show ?thesis using assms(1) fewer_passes_for [of lc m] by (simp add: endLoop_def loop_passes_def)
next
  case (ElementWhile c m)
  then have "\<not> m \<le> lc" using assms(1) by (auto simp: endLoop_def)
  then show ?thesis using fewer_passes_for [of lc m] by (simp add: ElementWhile loop_passes_def)
next
  case (ElementDo c m)
  then have "\<not> m \<le> lc" using assms(1,4) by (auto simp: endLoop_def)
  then show ?thesis using fewer_passes_for [of lc m] by (simp add: ElementDo loop_passes_def)
qed (use assms in \<open>simp_all add: endLoop_def counted_kind_def is_hex_def\<close>)

lemma getNextLoop_plain:
  "\<not> is_hex k \<Longrightarrow> getNextLoop env k bl s =
      obind (endLoop env k (loops bl) (draws s)) (\<lambda>(e, n).
        if e then Done (True, afterBlockEnd k bl (s\<lparr>draws := n\<rparr>)) else Done (False, k, bl, s\<lparr>draws := n\<rparr>))"
  by (cases k; hypsubst) (simp_all add: getNextLoop_def is_hex_def)

lemma afterBlockEnd_plain: "\<not> is_hex k \<Longrightarrow> afterBlockEnd k bl t = (k, Blk (elements bl) 0 0 (reported bl), t)"
  by (cases k; hypsubst) (simp_all add: afterBlockEnd_def is_hex_def)

lemma getNextLoop_kept:
  assumes "blk_ok k m ns bl" "1 \<le> loops bl"
  shows "kept_fuel (next_pass k m ns bl) (getNextLoop env k bl s)"
proof (cases "is_hex k")
  case True
  then obtain d r de p path t chg where k: "k = ElementHex d r de p path t chg"
    by (auto simp: is_hex_def split: bkind.splits)
  let ?k = "\<lambda>t. ElementHex d r de p path t chg"
  have ok: "blk_ok (?k t') m ns bl" for t'
    using assms(1) by (simp add: blk_ok_def k counted_kind_def loop_bound_def)
  show ?thesis
  proof (cases "Suc t < length path")
    case True
    then have "loop_passes (?k (Suc t)) i < loop_passes k j" for i j by (simp add: k loop_passes_def)
    then show ?thesis using set_change_ok [OF ok [of "Suc t"]] True
      by (cases chg) (simp_all add: k getNextLoop_def next_pass_def)
  next
    case False
    have "blk_ok (?k 0) m ns (Blk (elements bl) 0 0 (reported bl))" using ok [of 0] by (simp add: blk_ok_def)
    then show ?thesis using False by (simp add: k getNextLoop_def Let_def next_pass_def afterBlockEnd_def)
  qed
next
  case False
  note g = getNextLoop_plain [OF False] and a = afterBlockEnd_plain [OF False]
  have p: "loop_passes k (loops bl) < loop_passes k (loops bl - 1)"
    if "endLoop env k (loops bl) (draws s) = Done (False, n)" for n
    using endLoop_more [OF that] assms False by (simp add: blk_ok_def)
  show ?thesis
  proof (cases "endLoop env k (loops bl) (draws s)")
    case (Done x)
    obtain e n where x: "x = (e, n)" by fastforce
    show ?thesis using Done x p assms(1) by (cases e) (auto simp: g a obind_def next_pass_def blk_ok_def)
  qed (use endLoop_kept [of env k "loops bl" "draws s"] in \<open>simp_all add: g obind_def\<close>)
qed

definition next_visit :: "bkind \<Rightarrow> nat \<Rightarrow> nat list \<Rightarrow> element blk \<Rightarrow> bool \<times> bkind \<times> element blk \<times> rstate \<Rightarrow> bool" where
  "next_visit k m ns bl = (\<lambda>(e, k', bl', s'). blk_ok k' m ns bl' \<and> (\<not> e \<longrightarrow> visits k' bl' < visits k bl))"

lemma fewer_passes:
  assumes "p' < (p :: nat)" "c < (l :: nat)" shows "(p' - 1) * l + l \<le> (p - 1) * l \<or> p' = 0"
proof (cases p')
  case (Suc q)
  then have "Suc q \<le> p - 1" using assms by simp
  then have "Suc q * l \<le> (p - 1) * l" by (rule mult_le_mono1)
  then show ?thesis using Suc by simp
qed simp

lemma advance_kept:
  assumes "blk_ok k m ns bl" "curr bl < length (elements bl)"
  shows "kept_fuel (next_visit k m ns bl) (advance_block env k bl s)"
proof (cases "Suc (curr bl) = length (elements bl)")
  case True
  let ?bl = "Blk (elements bl) (Suc (curr bl)) (loops bl + 1) (reported bl)"
  have "kept_fuel (next_pass k m ns ?bl) (getNextLoop env k ?bl s)"
    by (rule getNextLoop_kept) (use assms in \<open>auto simp: blk_ok_def\<close>)
  then show ?thesis
    unfolding advance_block_def Let_def if_P [OF True]
  proof (rule kept_obind)
    fix a assume n: "next_pass k m ns ?bl a"
    obtain e k' bl' s' where a: "a = (e, k', bl', s')" by (cases a) auto
    have "loop_passes k' (loops bl') < loop_passes k (loops bl) \<Longrightarrow>
        (loop_passes k' (loops bl') - 1) * length (elements bl) + length (elements bl) \<le> (loop_passes k (loops bl) - 1) * length (elements bl)"
      using fewer_passes [OF _ assms(2)] passes_pos [of k' "loops bl'"] by fastforce
    then show "kept_fuel (next_visit k m ns bl) (case a of (e, k', bl', s') \<Rightarrow>
        Done (if e then (True, k', bl', s') else (False, k', Blk (elements bl') 0 (loops bl') (reported bl'), s')))"
      using n assms(2) by (auto simp: a next_pass_def next_visit_def blk_ok_def visits_def)
  qed
next
  case False
  then show ?thesis using assms by (simp add: advance_block_def next_visit_def blk_ok_def visits_def)
qed

subsection \<open>Calls end\<close>

text \<open>What a call of an element, and of a block, leaves.\<close>

definition keeps_need :: "element \<Rightarrow> int \<times> element \<times> rstate \<Rightarrow> bool" where
  "keeps_need e = (\<lambda>(r, e', s'). counted e' \<and> fuel_need e' = fuel_need e)"

definition keeps_blk :: "nat \<Rightarrow> nat list \<Rightarrow> int \<times> bkind \<times> element blk \<times> rstate \<Rightarrow> bool" where
  "keeps_blk m ns = (\<lambda>(r, k', bl', s'). blk_ok k' m ns bl')"

lemma mark_reported_ok: "blk_ok k m ns bl \<Longrightarrow> blk_ok k m ns (Blk (elements bl) (curr bl) (loops bl) r)"
  by (simp add: blk_ok_def)

lemma blockScriptRet_kept:
  assumes "blk_ok k m ns bl" "curr bl < length (elements bl)"
  shows "kept_fuel (keeps_blk m ns) (blockScriptRet env ret k bl s)"
proof -
  let ?bl = "Blk (elements bl) (curr bl) (loops bl) (Some (curr bl))"
  have ok: "blk_ok k m ns ?bl" by (rule mark_reported_ok [OF assms(1)])
  have "kept_fuel (keeps_blk m ns) (obind (advance_block env k ?bl s) (\<lambda>(e, k', bl', s'). Done (f e, k', bl', s')))" for f
    by (rule kept_obind [OF advance_kept [OF ok]]) (use assms in \<open>auto simp: keeps_blk_def next_visit_def\<close>)
  then show ?thesis using assms ok by (simp add: blockScriptRet_def Let_def keeps_blk_def)
qed

definition child_ok :: "(element \<Rightarrow> rstate \<Rightarrow> (int \<times> element \<times> rstate) outcome) \<Rightarrow> nat list \<Rightarrow> bool" where
  "child_ok child ns \<longleftrightarrow> (\<forall>e s. counted e \<and> fuel_need e \<in> set ns \<longrightarrow> kept_fuel (keeps_need e) (child e s))"

lemma block_loop_kept:
  assumes "child_ok child ns"
  shows "blk_ok k m ns bl \<Longrightarrow> visits k bl < n \<Longrightarrow> kept_fuel (keeps_blk m ns) (block_loop env sod child n k bl s)"
proof (induction n arbitrary: k bl s)
  case (Suc n)
  show ?case
  proof (cases "curr bl < length (elements bl)")
    case True
    let ?e = "elements bl ! curr bl"
    have "counted ?e" "fuel_need ?e \<in> set ns"
      using Suc.prems(1) True by (auto simp: blk_ok_def list_all_length)
    then have "kept_fuel (keeps_need ?e) (child ?e s)" using assms by (simp add: child_ok_def)
    then show ?thesis
      unfolding block_loop.simps if_not_P [OF True [unfolded not_le [symmetric]]]
    proof (rule kept_obind)
      fix a assume a: "keeps_need ?e a"
      obtain ret e s1 where x: "a = (ret, e, s1)" by (cases a) auto
      let ?bl = "set_elem (curr bl) e bl"
      have ok: "blk_ok k m ns ?bl" using a x set_elem_ok [OF Suc.prems(1)] by (simp add: keeps_need_def)
      have v: "visits k ?bl = visits k bl" by (simp add: visits_def)
      have "kept_fuel (keeps_blk m ns) (obind (advance_block env k ?bl s1) (\<lambda>(e, k', bl', s').
          if e then Done (NEXT_NEXT, k', bl', s') else block_loop env sod child n k' bl' s'))"
      proof (rule kept_obind [OF advance_kept [OF ok]])
        fix z assume z: "next_visit k m ns ?bl z"
        obtain b k' bl' s' where w: "z = (b, k', bl', s')" by (cases z) auto
        show "kept_fuel (keeps_blk m ns) (case z of (e, k', bl', s') \<Rightarrow>
            if e then Done (NEXT_NEXT, k', bl', s') else block_loop env sod child n k' bl' s')"
          using z v Suc.prems(2) Suc.IH [of k' bl' s'] by (auto simp: w next_visit_def keeps_blk_def)
      qed (use True in simp)
      then show "kept_fuel (keeps_blk m ns) (case a of (ret, e, s1) \<Rightarrow>
          let bl1 = set_elem (curr bl) e bl
          in if holds_back env sod ret (curr bl) then blockScriptRet env NEXT_KEEP k bl1 (s1\<lparr>new_command := None\<rparr>)
             else if ret \<noteq> NEXT_NEXT then blockScriptRet env ret k bl1 s1
             else obind (advance_block env k bl1 s1) (\<lambda>(e, k', bl', s').
               if e then Done (NEXT_NEXT, k', bl', s') else block_loop env sod child n k' bl' s'))"
        using blockScriptRet_kept [OF ok] True by (simp add: x Let_def)
    qed
  qed simp
qed simp

lemma block_next_kept:
  assumes "child_ok child ns" "blk_ok k m ns bl" "length ns * m < n"
  shows "kept_fuel (keeps_blk m ns) (block_next env c child n k bl s)"
proof -
  have "length (elements bl) = length ns" "loop_bound k = m" "0 \<le> loops bl"
    using assms(2) by (auto simp: blk_ok_def)
  then have v: "visits k bl < n" using visits_bound [of bl k] assms(3) by simp
  note bl = block_loop_kept [OF assms(1,2) v]
  show ?thesis
  proof (cases "c = DefNext")
    case False
    then show ?thesis unfolding block_next_def if_not_P [OF False]
    proof (intro kept_obind [OF endLoop_kept])
      fix a :: "bool \<times> nat"
      show "kept_fuel (keeps_blk m ns) (case a of (e, q) \<Rightarrow> if e \<or> elements bl = [] then Done (NEXT_NEXT, k, bl, s\<lparr>draws := q\<rparr>)
          else block_loop env (c = CamNext \<and> is_sod k) child n k bl (s\<lparr>draws := q\<rparr>))"
        using bl assms(2) by (cases a) (simp add: keeps_blk_def)
    qed
  qed (simp add: block_next_def bl)
qed

lemma leaf_next_kept: "kept_fuel (keeps_need (Leaf b l)) (leaf_next env c b l s)"
proof -
  have p: "kept_fuel P (case x of (r, l', t) \<Rightarrow> Done (r, Leaf b l', t))"
    if "\<And>r l' t. P (r, Leaf b l', t)" for P and x :: "int \<times> leaf \<times> rstate"
    using that by (cases x) simp
  have q: "kept_fuel (\<lambda>_. True) (change_next env d v p xs raw s)" for d v p xs raw
    by (auto simp: change_next_def Let_def intro!: kept_obind [OF kept_parsed] split: prod.split)
  have t: "kept_fuel (\<lambda>_. True) (tempdisable_next env x s)" for x
    by (auto simp: tempdisable_next_def intro!: kept_obind [OF kept_parsed] split: prod.split)
  show ?thesis
    by (cases l) (auto simp: leaf_next_def Let_def keeps_need_def intro!: p kept_obind [OF q] kept_obind [OF t])
qed

lemma child_fuel: "x \<in> set ns \<Longrightarrow> block_fuel ns m \<le> n \<Longrightarrow> x \<le> n"
  using member_le_sum_list [of x ns] by (simp add: block_fuel_def)

lemma block_visits: "block_fuel ns m \<le> n \<Longrightarrow> length ns * m < n"
  by (simp add: block_fuel_def)

lemma block_need:
  assumes "blk_ok k m ns bl"
  shows "counted (Block b k bl)" "fuel_need (Block b k bl) = Suc (block_fuel ns m)"
  using assms by (cases bl, simp add: blk_ok_def)+

lemma acquired_need:
  assumes "blk_ok ElementElse 1 ns bl"
  shows "counted (IfAcquired b t st bl None)" "fuel_need (IfAcquired b t st bl None) = Suc (block_fuel ns 1)"
  using assms by (cases bl, simp add: blk_ok_def)+

lemma else_need:
  assumes "blk_ok ElementElse 1 ns bl" "blk_ok ElementElse 1 ms eb"
  shows "counted (IfAcquired b t st bl (Some eb))"
    "fuel_need (IfAcquired b t st bl (Some eb)) = Suc (block_fuel ns 1 + block_fuel ms 1)"
  using assms by (cases bl, cases eb, simp add: blk_ok_def)+

lemma else_kind [simp]: "counted_kind ElementElse" "loop_bound ElementElse = 1"
  by (simp_all add: counted_kind_def loop_bound_def)

lemma any_kind: "blk_ok k 1 ns bl \<Longrightarrow> blk_ok ElementElse 1 ns bl"
  by (simp add: blk_ok_def)

lemma next_command_kept:
  "counted e \<Longrightarrow> fuel_need e \<le> n \<Longrightarrow> kept_fuel (keeps_need e) (next_command env n c e s)"
proof (induction n arbitrary: e c s)
  case 0
  then show ?case by (cases e rule: fuel_need.cases) auto
next
  case (Suc n)
  have child: "child_ok (next_command env n c) ns" if "\<And>x. x \<in> set ns \<Longrightarrow> x \<le> n" for ns c
    unfolding child_ok_def using Suc.IH that by blast
  have blk: "kept_fuel (keeps_blk m ns) (block_next env c (next_command env n c) n k bl s)"
    if "blk_ok k m ns bl" "block_fuel ns m \<le> n" for k m ns bl c s
    by (rule block_next_kept [OF child [OF child_fuel [OF _ that(2)]] that(1) block_visits [OF that(2)]])
  show ?case
  proof (cases e rule: fuel_need.cases)
    case (1 b l)
    then show ?thesis by (simp add: leaf_next_kept)
  next
    case (2 b k es c' lc rep)
    let ?ns = "map fuel_need es" and ?m = "loop_bound k"
    have ok: "blk_ok k ?m ?ns (Blk es c' lc rep)" using Suc.prems(1) 2 by (simp add: blk_ok_def)
    have "kept_fuel (keeps_blk ?m ?ns) (block_next env c (next_command env n c) n k (Blk es c' lc rep) s)"
      by (rule blk [OF ok]) (use Suc.prems(2) 2 in simp)
    then show ?thesis unfolding 2 next_command.simps
      by (rule kept_obind) (auto simp: keeps_blk_def keeps_need_def block_need)
  next
    case (3 b t st es c' lc rep)
    let ?ns = "map fuel_need es"
    have ok: "blk_ok ElementElse 1 ?ns (Blk es c' lc rep)" using Suc.prems(1) 3 by (simp add: blk_ok_def)
    have "kept_fuel (keeps_blk 1 ?ns) (block_next env c (next_command env n c) n ElementElse (Blk es c' lc rep) s)"
      by (rule blk [OF ok]) (use Suc.prems(2) 3 in simp)
    then have "kept_fuel (keeps_need e) (obind (block_next env c (next_command env n c) n ElementElse (Blk es c' lc rep) s)
          (\<lambda>(r, k', bl', s'). Done (r, IfAcquired b t ACQ_OK bl' None, s')))"
    proof (rule kept_obind)
      fix a assume a: "keeps_blk 1 ?ns a"
      obtain r k' bl' s' where x: "a = (r, k', bl', s')" by (cases a) auto
      have "blk_ok ElementElse 1 ?ns bl'" using a x any_kind by (simp add: keeps_blk_def)
      then show "kept_fuel (keeps_need e) (case a of (r, k', bl', s') \<Rightarrow> Done (r, IfAcquired b t ACQ_OK bl' None, s'))"
        using 3 acquired_need by (simp add: x keeps_need_def)
    qed
    then show ?thesis using acquired_need [OF ok] 3 by (simp add: keeps_need_def)
  next
    case (4 b t st es c' lc rep fs c'' lc' rep')
    let ?ns = "map fuel_need es" and ?ms = "map fuel_need fs"
    let ?bl = "Blk es c' lc rep" and ?eb = "Blk fs c'' lc' rep'"
    have ok: "blk_ok ElementElse 1 ?ns ?bl" "blk_ok ElementElse 1 ?ms ?eb"
      using Suc.prems(1) 4 by (simp_all add: blk_ok_def)
    have f: "block_fuel ?ns 1 \<le> n" "block_fuel ?ms 1 \<le> n" using Suc.prems(2) 4 by simp_all
    have main: "kept_fuel (keeps_need e) (obind (block_next env c (next_command env n c) n ElementElse ?bl s)
          (\<lambda>(r, k', bl', s'). Done (r, IfAcquired b t ACQ_OK bl' (Some ?eb), s')))"
    proof (rule kept_obind [OF blk [OF ok(1) f(1)]])
      fix a assume a: "keeps_blk 1 ?ns a"
      obtain r k' bl' s' where x: "a = (r, k', bl', s')" by (cases a) auto
      have "blk_ok ElementElse 1 ?ns bl'" using a x any_kind by (simp add: keeps_blk_def)
      then show "kept_fuel (keeps_need e) (case a of (r, k', bl', s') \<Rightarrow> Done (r, IfAcquired b t ACQ_OK bl' (Some ?eb), s'))"
        using 4 else_need [OF _ ok(2)] by (simp add: x keeps_need_def)
    qed
    have "kept_fuel (keeps_need e) (obind (block_next env DefNext (next_command env n DefNext) n ElementElse ?eb s)
          (\<lambda>(r, k', eb', s'). Done (r, IfAcquired b t (checkState env st) ?bl (Some eb'), s')))"
    proof (rule kept_obind [OF blk [OF ok(2) f(2)]])
      fix a assume a: "keeps_blk 1 ?ms a"
      obtain r k' eb' s' where x: "a = (r, k', eb', s')" by (cases a) auto
      have "blk_ok ElementElse 1 ?ms eb'" using a x any_kind by (simp add: keeps_blk_def)
      then show "kept_fuel (keeps_need e) (case a of (r, k', eb', s') \<Rightarrow> Done (r, IfAcquired b t (checkState env st) ?bl (Some eb'), s'))"
        using 4 else_need [OF ok(1)] by (simp add: x keeps_need_def)
    qed
    then show ?thesis using main 4 by simp
  qed
qed

subsection \<open>The script\<close>

definition script_fuel :: "script \<Rightarrow> nat" where
  "script_fuel sc = sum_list (map fuel_need (elems sc))"

definition script_counted :: "nat list \<Rightarrow> script \<Rightarrow> bool" where
  "script_counted ns sc \<longleftrightarrow> list_all counted (elems sc) \<and> map fuel_need (elems sc) = ns"

lemma script_loop_kept:
  assumes "script_counted ns sc" "\<And>x. x \<in> set ns \<Longrightarrow> x \<le> n"
  shows "kept_fuel (\<lambda>(r, sc', s'). script_counted ns sc') (script_loop env n c sc s)"
  using assms(1)
proof (induction "length (elems sc) - el_iter sc" arbitrary: sc s rule: less_induct)
  case less
  show ?case
  proof (cases "length (elems sc) \<le> el_iter sc")
    case True
    then show ?thesis using less.prems by (subst script_loop.simps) simp
  next
    case False
    let ?e = "elems sc ! el_iter sc"
    have "counted ?e" "fuel_need ?e \<le> n"
      using less.prems False assms(2) [of "fuel_need ?e"] by (auto simp: script_counted_def list_all_length)
    note k = next_command_kept [OF this, of env c s]
    show ?thesis
      unfolding script_loop.simps [of env n c sc s] if_not_P [OF False]
    proof (rule kept_obind [OF k])
      fix a assume a: "keeps_need ?e a"
      obtain r e s1 where x: "a = (r, e, s1)" by (cases a) auto
      let ?sc = "set_script_elem (el_iter sc) e sc"
      have ok: "script_counted ns ?sc" using less.prems a x
        by (auto simp: script_counted_def set_script_elem_def keeps_need_def list_all_update map_update_same)
      then have "kept_fuel (\<lambda>(r, sc', s'). script_counted ns sc') (script_loop env n c (?sc\<lparr>el_iter := Suc (el_iter sc)\<rparr>) t)" for t
        using False by (intro less.hyps) (auto simp: script_counted_def)
      then show "kept_fuel (\<lambda>(r, sc', s'). script_counted ns sc') (case a of (r, e, s1) \<Rightarrow>
          let sc1 = set_script_elem (el_iter sc) e sc; s2 = report_position (getStartPos e) (getLen e) s1
          in if r \<noteq> NEXT_NEXT then Done (r, sc1, s2) else script_loop env n c (sc1\<lparr>el_iter := Suc (el_iter sc)\<rparr>) s2)"
        using ok by (simp add: x Let_def)
    qed
  qed
qed

lemma nextCommand_bounded:
  assumes "script_counted ns sc" "sum_list ns \<le> n"
  shows "script_nextCommand env n c sc s \<noteq> OutOfFuel
    \<and> (\<forall>r sc' s'. script_nextCommand env n c sc s = Done (r, sc', s') \<longrightarrow> script_counted ns sc')"
proof -
  have n: "x \<le> n" if "x \<in> set ns" for x using member_le_sum_list [OF that] assms(2) by simp
  have r: "script_counted ns (fst (snd (script_ret r sc' s')))" if "script_counted ns sc'" for r sc' s'
    using that by (simp add: script_ret_def Let_def script_counted_def)
  have "kept_fuel (\<lambda>(r, sc', s'). script_counted ns sc') (script_nextCommand env n c sc s)"
    unfolding script_nextCommand_def Let_def
    using assms(1) r by (auto intro!: kept_obind [OF script_loop_kept [OF assms(1) n]] split: prod.split)
      (metis fst_conv snd_conv)
  then show ?thesis by (cases "script_nextCommand env n c sc s") auto
qed

end
