(* ===== verification/ScriptPlan.thy ===== *)
theory ScriptPlan
  imports ScriptRunProps
begin

section \<open>The plan of a script and its execution\<close>

text \<open>
  An abstract specification of what a script does: its plan, the list of the commands it hands over one call after
  the other, computed from the script's text alone by unrolling its loops. The execution by \<open>nextCommand\<close>, with its
  progress fields, iterators, loop counts and mask of blocks, refines it: each call hands over the next
  item of the plan. The elements of a plan depend on nothing but the camera's values; elements that wait for others are
  outside it (\<open>plain\<close>).
\<close>

subsection \<open>Plans\<close>

text \<open>What of the environment a plan depends on: the camera's values, the script's loop count and device.\<close>

record camera_view =
  v_SHUTTER :: bool
  v_filter :: bool
  v_exposure :: bool
  v_loops :: int
  v_device :: string

definition view_of :: "senv \<Rightarrow> camera_view" where
  "view_of env = \<lparr>v_SHUTTER = has_SHUTTER env, v_filter = has_filter env, v_exposure = has_exposure env,
     v_loops = script_loops env, v_device = script_device env\<rparr>"

text \<open>One call: its code, and the command with the device it is for.\<close>

type_synonym item = "int \<times> (scmd \<times> string) option"

definition set_item :: "camera_view \<Rightarrow> string \<Rightarrow> set_arg \<Rightarrow> item" where
  "set_item v nm a = (NEXT_KEEP, Some (CmdSet nm (CHR ''='') a BOP_TEL_MOVE, v_device v))"

definition opt_item :: "bool \<Rightarrow> item \<Rightarrow> item list" where
  "opt_item b x = (if b then [x] else [])"

text \<open>\<open>d\<close> exposures of \<open>n\<close> have been asked for; at least one more is.\<close>

definition exposure_items :: "camera_view \<Rightarrow> int \<Rightarrow> int \<Rightarrow> item list" where
  "exposure_items v n d =
     replicate (nat (n - d) - 1) (NEXT_KEEP, Some (CmdExposure, v_device v)) @ [(0, Some (CmdExposure, v_device v))]"

definition sequence_todo :: "camera_view \<Rightarrow> string \<Rightarrow> int \<Rightarrow> int \<Rightarrow> rat \<Rightarrow> callProgress \<Rightarrow> item list" where
  "sequence_todo v f n d x p =
     opt_item (p = AtFirst \<and> v_SHUTTER v) (set_item v ''SHUTTER'' (SetInt 0))
     @ opt_item ((p = AtFirst \<or> p = AtSHUTTER) \<and> v_filter v) (set_item v ''filter'' (SetString f False))
     @ opt_item (p \<noteq> AtEXPOSURE \<and> v_exposure v) (set_item v ''exposure'' (SetFloat x))
     @ exposure_items v n d"

definition image_todo :: "camera_view \<Rightarrow> image_class \<Rightarrow> rat \<Rightarrow> callProgress \<Rightarrow> item list" where
  "image_todo v k x p =
     opt_item (p = AtFirst \<and> 0 \<le> targetShutter k \<and> v_SHUTTER v) (set_item v ''SHUTTER'' (SetInt (targetShutter k)))
     @ opt_item ((p = AtFirst \<or> p = AtSHUTTER) \<and> v_exposure v) (set_item v ''exposure'' (SetFloat x))
     @ [(0, Some (CmdExposure, v_device v))]"

text \<open>A value change whose operands are numbers and strings; its text does not depend on the moment.\<close>

definition plain_operand :: "operand \<Rightarrow> bool" where
  "plain_operand x = (case x of Number v \<Rightarrow> True | OpString s \<Rightarrow> True | _ \<Rightarrow> False)"

definition operand_text :: "operand \<Rightarrow> string" where
  "operand_text x = (case x of Number v \<Rightarrow> show_double v | OpString s \<Rightarrow> s | _ \<Rightarrow> [])"

definition change_item :: "string \<Rightarrow> string \<Rightarrow> char \<Rightarrow> operand list \<Rightarrow> bool \<Rightarrow> item" where
  "change_item d nm p xs raw =
     (let a = SetString (words_of (map operand_text xs)) (raw \<or> 1 < length xs)
      in (0, Some (if front nm = CHR ''!'' then CmdSet (tl nm) p a (BOP_TEL_MOVE OR BOP_WHILE_STATE)
                   else CmdSet nm p a BOP_TEL_MOVE, d)))"

definition leaf_todo :: "camera_view \<Rightarrow> leaf \<Rightarrow> item list" where
  "leaf_todo v l =
     (let cam = (\<lambda>c. [(0, Some (c, v_device v))])
      in case l of
        ElementSequence f n d x p \<Rightarrow> sequence_todo v f n d x p
      | ElementImage k x p \<Rightarrow> image_todo v k x p
      | ElementShiftStoreStart x \<Rightarrow> cam (CmdShiftStart x)
      | ElementShiftStoreProgress n x \<Rightarrow> cam (CmdShiftProgress n x)
      | ElementShiftStoreEnd n x \<Rightarrow> cam (CmdShiftEnd n x)
      | ElementBox x y w h \<Rightarrow> cam (CmdBox x y w h)
      | ElementCenter w h \<Rightarrow> cam (CmdCenter w h)
      | ElementChange d r dec \<Rightarrow> [(0, Some (CmdChange r dec, d))]
      | ElementWait \<Rightarrow> [(NEXT_CHECK_WAIT, None)]
      | ElementChangeValue d nm p xs raw \<Rightarrow> [change_item d nm p xs raw]
      | ElementComment c n \<Rightarrow> cam (CmdSet ''SCR_COMM'' (CHR ''='') (SetString c False) 0)
      | ElementCommand d c args \<Rightarrow> [(0, Some (CmdText (words_of (c # args)), d))]
      | _ \<Rightarrow> [])"

definition plain_leaf :: "leaf \<Rightarrow> bool" where
  "plain_leaf l =
     (case l of
        ElementChangeValue d nm p xs raw \<Rightarrow> p \<noteq> NUL \<and> xs \<noteq> [] \<and> list_all plain_operand xs
      | ElementWaitAcquire t \<Rightarrow> False | ElementWaitSignal n \<Rightarrow> False | ElementWaitFor d nm t r \<Rightarrow> False
      | ElementSleep s a b \<Rightarrow> False | ElementWaitForIdle \<Rightarrow> False | ElementDisable \<Rightarrow> False
      | ElementTempDisable t \<Rightarrow> False | ElementTarBoost s b \<Rightarrow> False | ElementExecute x c e \<Rightarrow> False
      | _ \<Rightarrow> True)"

text \<open>An element that has not begun: \<open>first\<close> progress and no exposures done.\<close>

definition fresh_leaf :: "leaf \<Rightarrow> leaf" where
  "fresh_leaf l =
     (case l of ElementSequence f n d x p \<Rightarrow> ElementSequence f n 0 x AtFirst
      | ElementImage k x p \<Rightarrow> ElementImage k x AtFirst | _ \<Rightarrow> l)"

text \<open>The rounds a block has still to make, the current one included.\<close>

definition rounds :: "camera_view \<Rightarrow> bkind \<Rightarrow> int \<Rightarrow> nat" where
  "rounds v k lc = (case k of ElementFor m \<Rightarrow> nat (m - lc) | ElementOnce \<Rightarrow> if v_loops v = 0 \<and> lc = 0 then 1 else 0 | _ \<Rightarrow> 0)"

definition plain_kind :: "bkind \<Rightarrow> bool" where
  "plain_kind k = (case k of ElementFor m \<Rightarrow> True | ElementOnce \<Rightarrow> True | _ \<Rightarrow> False)"

fun plain :: "element \<Rightarrow> bool" where
  "plain (Leaf b l) = plain_leaf l"
| "plain (Block b k (Blk es c n rep)) = (plain_kind k \<and> list_all plain es)"
| "plain (IfAcquired b t st bl el) = False"

text \<open>The plan of an element, and what is left of it in a state of its execution.\<close>

fun plan :: "camera_view \<Rightarrow> element \<Rightarrow> item list" where
  "plan v (Leaf b l) = leaf_todo v (fresh_leaf l)"
| "plan v (Block b k (Blk es c n rep)) = concat (replicate (rounds v k 0) (concat (map (plan v) es)))"
| "plan v (IfAcquired b t st bl el) = []"

fun todo :: "camera_view \<Rightarrow> element \<Rightarrow> item list" where
  "todo v (Leaf b l) = leaf_todo v l"
| "todo v (Block b k (Blk es c n rep)) =
     (if rounds v k n = 0 then []
      else concat (drop c (map (todo v) es)) @ concat (replicate (rounds v k n - 1) (concat (map (plan v) es))))"
| "todo v (IfAcquired b t st bl el) = []"

fun idle_elem :: "element \<Rightarrow> bool" where
  "idle_elem (Leaf b l) = (fresh_leaf l = l)"
| "idle_elem (Block b k (Blk es c n rep)) = (c = 0 \<and> n = 0 \<and> list_all idle_elem es)"
| "idle_elem (IfAcquired b t st bl el) = False"

text \<open>A state of the execution: one element of a block is at work, the others have not begun.\<close>

fun sound :: "camera_view \<Rightarrow> element \<Rightarrow> bool" where
  "sound v (Leaf b l) = True"
| "sound v (Block b k (Blk es c n rep)) =
     (0 \<le> n \<and> (c = 0 \<and> n = 0 \<and> list_all idle_elem es
        \<or> 0 < rounds v k n \<and> c < length es \<and> map (sound v) es ! c
          \<and> list_all idle_elem (take c es) \<and> list_all idle_elem (drop (Suc c) es)))"
| "sound v (IfAcquired b t st bl el) = False"

lemma idle_sound: "plain e \<Longrightarrow> idle_elem e \<Longrightarrow> sound v e"
  by (cases e rule: plain.cases) auto

lemma idle_todo: "plain e \<Longrightarrow> idle_elem e \<Longrightarrow> todo v e = plan v e"
proof (induction e rule: plain.induct)
  case (2 b k es c n rep)
  have m: "map (todo v) es = map (plan v) es" using 2 by (auto simp: list_all_iff)
  show ?case using 2 by (cases "rounds v k 0") (auto simp: m)
qed auto

subsection \<open>One element\<close>

definition calm_camera :: "senv \<Rightarrow> bool" where
  "calm_camera env \<longleftrightarrow> \<not> exposures_queued env"

definition observed :: "rstate \<Rightarrow> (scmd \<times> string) option" where
  "observed s = map_option (\<lambda>c. (c, new_device s)) (new_command s)"

definition plan_code :: "int \<Rightarrow> bool" where
  "plan_code q \<longleftrightarrow> q = 0 \<or> q = NEXT_KEEP \<or> q = NEXT_CHECK_WAIT"

text \<open>
  A call that follows the plan \<open>xs\<close>. With nothing left it says so and the element is as new; else it hands over the
  first item, and either the element is done and as new, or (a code that keeps it) it goes on with the others.
\<close>

definition follows :: "item list \<Rightarrow> item list \<Rightarrow> bool \<Rightarrow> bool \<Rightarrow> int \<Rightarrow> rstate \<Rightarrow> bool" where
  "follows xs ys idle snd_ok r s \<longleftrightarrow>
     (case xs of
        [] \<Rightarrow> r = NEXT_NEXT \<and> idle \<and> new_command s = None
      | (q, oc) # zs \<Rightarrow>
          plan_code q \<and> observed s = oc
          \<and> (r = q \<and> advances q \<and> zs = [] \<and> idle
             \<or> (r = q OR MASK_BLOCK \<or> r = q \<and> \<not> advances q) \<and> ys = zs \<and> snd_ok))"

lemma follows_nil [simp]: "follows [] ys i sd r s \<longleftrightarrow> r = NEXT_NEXT \<and> i \<and> new_command s = None"
  by (simp add: follows_def)

lemma observed_give [simp]: "observed (give c d s) = Some (c, d)"
  by (simp add: observed_def give_def)

lemma write_plain: "list_all plain_operand xs \<Longrightarrow> write_operands env xs n = Inr (words_of (map operand_text xs), n)"
proof (induction env xs n rule: write_operands.induct)
  case (2 env x n)
  then show ?case by (cases x) (auto simp: plain_operand_def writeTo_def words_of_def operand_text_def)
next
  case (3 env x y ys n)
  have w: "writeTo env x n = Inr (operand_text x, n)"
    using 3(2) by (cases x) (auto simp: plain_operand_def writeTo_def operand_text_def)
  show ?case using 3(1) [OF w refl] 3(2) w by (simp add: words_of_def)
qed (simp add: words_of_def)

lemma exposure_items_next:
  "exposure_items v n d =
     (if d + 1 < n then (NEXT_KEEP, Some (CmdExposure, v_device v)) # exposure_items v n (d + 1)
      else [(0, Some (CmdExposure, v_device v))])"
proof (cases "d + 1 < n")
  case True
  then obtain m where "nat (n - (d + 1)) = Suc m" by (cases "nat (n - (d + 1))") auto
  moreover from this have "nat (n - d) = Suc (Suc m)" by linarith
  ultimately show ?thesis using True by (simp add: exposure_items_def)
qed (simp add: exposure_items_def)

lemma sequence_follows:
  assumes "calm_camera env" "v = view_of env" "new_command s = None"
  shows "\<exists>r d' p' s'. sequence_next env f n d x p s = (r, ElementSequence f n d' x p', s')
    \<and> follows (sequence_todo v f n d x p) (sequence_todo v f n d' x p') (d' = 0 \<and> AtFirst = p') True r s'"
proof -
  note e = exposure_items_next [of _ n d]
  show ?thesis using assms
    by (cases p; cases "has_SHUTTER env"; cases "has_filter env"; cases "has_exposure env"; cases "d + 1 < n")
      (simp_all add: calm_camera_def sequence_next_def sequence_todo_def Let_def view_of_def opt_item_def set_item_def
        follows_def plan_code_def advances_def next_codes e)
qed

lemma image_follows:
  assumes "calm_camera env" "v = view_of env" "new_command s = None"
  shows "\<exists>r p' s'. image_next env k x p s = (r, ElementImage k x p', s')
    \<and> follows (image_todo v k x p) (image_todo v k x p') (AtFirst = p') True r s'"
  using assms
  by (cases p; cases "has_SHUTTER env"; cases "has_exposure env"; cases "0 \<le> targetShutter k")
    (simp_all add: calm_camera_def image_next_def image_todo_def Let_def view_of_def opt_item_def set_item_def
      follows_def plan_code_def advances_def next_codes)

text \<open>What a call makes of an element: still plain, with the same plan, and it follows what was left of it.\<close>

definition good_call :: "camera_view \<Rightarrow> element \<Rightarrow> int \<times> element \<times> rstate \<Rightarrow> bool" where
  "good_call v e = (\<lambda>(r, e', s'). plain e' \<and> plan v e' = plan v e
     \<and> follows (todo v e) (todo v e') (idle_elem e') (sound v e') r s')"

lemma follows_one: "plan_code q \<Longrightarrow> advances q \<Longrightarrow> observed s = oc \<Longrightarrow> follows [(q, oc)] ys True sd q s"
  by (simp add: follows_def)

lemma plan_codes [simp]: "plan_code 0" "plan_code NEXT_CHECK_WAIT" "advances 0" "advances NEXT_CHECK_WAIT"
  by (simp_all add: plan_code_def advances_def)

lemma leaf_follows:
  assumes "plain_leaf l" "calm_camera env" "v = view_of env" "new_command s = None"
  shows "\<exists>a. leaf_next env CamNext b l s = Done a \<and> good_call v (Leaf b l) a"
proof (cases "(\<exists>f n d x p. l = ElementSequence f n d x p) \<or> (\<exists>k x p. l = ElementImage k x p)
    \<or> (\<exists>d nm p xs raw. l = ElementChangeValue d nm p xs raw)")
  case True
  then consider f n d x p where "l = ElementSequence f n d x p" | k x p where "l = ElementImage k x p"
    | d nm p xs raw where "l = ElementChangeValue d nm p xs raw" by blast
  then show ?thesis
  proof cases
    case 1
    then show ?thesis using sequence_follows [OF assms(2-4), of f n d x p]
      by (auto simp: leaf_next_def good_call_def leaf_todo_def fresh_leaf_def plain_leaf_def Let_def)
  next
    case 2
    then show ?thesis using image_follows [OF assms(2-4), of k x p]
      by (auto simp: leaf_next_def good_call_def leaf_todo_def fresh_leaf_def plain_leaf_def Let_def)
  next
    case 3
    then show ?thesis using assms(1)
      by (auto simp: leaf_next_def good_call_def leaf_todo_def fresh_leaf_def plain_leaf_def Let_def change_next_def
          write_plain of_parsed_def obind_def change_item_def follows_one)
  qed
next
  case False
  have o: "new_command (out x t) = new_command t" "observed (give c d t) = Some (c, d)" for x t c d
    by (simp_all add: out_def)
  have w: "observed s = None" using assms(4) by (simp add: observed_def)
  have v: "v_device v = script_device env" using assms(3) by (simp add: view_of_def)
  show ?thesis using False assms(1,4)
    by (cases l) (simp_all add: leaf_next_def good_call_def leaf_todo_def fresh_leaf_def plain_leaf_def Let_def
        follows_one o v w)
qed

subsection \<open>Blocks\<close>

definition after_curr :: "camera_view \<Rightarrow> bkind \<Rightarrow> element blk \<Rightarrow> item list" where
  "after_curr v k bl =
     concat (drop (Suc (curr bl)) (map (todo v) (elements bl)))
     @ concat (replicate (rounds v k (loops bl) - 1) (concat (map (plan v) (elements bl))))"

definition todo_blk :: "camera_view \<Rightarrow> bkind \<Rightarrow> element blk \<Rightarrow> item list" where
  "todo_blk v k bl =
     (if rounds v k (loops bl) = 0 then []
      else concat (drop (curr bl) (map (todo v) (elements bl)))
        @ concat (replicate (rounds v k (loops bl) - 1) (concat (map (plan v) (elements bl)))))"

definition idle_blk :: "element blk \<Rightarrow> bool" where
  "idle_blk bl \<longleftrightarrow> curr bl = 0 \<and> loops bl = 0 \<and> list_all idle_elem (elements bl)"

definition active :: "camera_view \<Rightarrow> bkind \<Rightarrow> element blk \<Rightarrow> bool" where
  "active v k bl \<longleftrightarrow> 0 \<le> loops bl \<and> 0 < rounds v k (loops bl) \<and> curr bl < length (elements bl)
     \<and> sound v (elements bl ! curr bl)
     \<and> list_all idle_elem (take (curr bl) (elements bl)) \<and> list_all idle_elem (drop (Suc (curr bl)) (elements bl))"

lemma block_views:
  "todo v (Block b k bl) = todo_blk v k bl" "idle_elem (Block b k bl) = idle_blk bl"
  "plain (Block b k bl) = (plain_kind k \<and> list_all plain (elements bl))"
  "plan v (Block b k bl) = concat (replicate (rounds v k 0) (concat (map (plan v) (elements bl))))"
  "sound v (Block b k bl) = (idle_blk bl \<or> active v k bl)"
  by (cases bl; auto simp: todo_blk_def idle_blk_def active_def)+

lemma todo_active: "active v k bl \<Longrightarrow> todo_blk v k bl = todo v (elements bl ! curr bl) @ after_curr v k bl"
  by (simp add: active_def todo_blk_def after_curr_def Cons_nth_drop_Suc [symmetric])

lemma rounds_next: "plain_kind k \<Longrightarrow> 0 \<le> lc \<Longrightarrow> rounds v k (lc + 1) = rounds v k lc - 1"
  by (cases k) (auto simp: plain_kind_def rounds_def)

lemma endLoop_rounds: "plain_kind k \<Longrightarrow> endLoop env k lc n = Done (rounds (view_of env) k lc = 0, n)"
  by (cases k) (auto simp: plain_kind_def endLoop_def rounds_def view_of_def)

lemma plain_not_hex: "plain_kind k \<Longrightarrow> \<not> is_hex k"
  by (cases k) (auto simp: plain_kind_def is_hex_def)

lemma draws_same [simp]: "s\<lparr>draws := draws s\<rparr> = s"
  by simp

lemma nextLoop_rounds:
  "plain_kind k \<Longrightarrow> getNextLoop env k bl s =
     (if rounds (view_of env) k (loops bl) = 0 then Done (True, k, Blk (elements bl) 0 0 (reported bl), s)
      else Done (False, k, bl, s))"
  by (simp add: getNextLoop_plain afterBlockEnd_plain plain_not_hex endLoop_rounds obind_def)

text \<open>Behind an element that is as new again, the block ends with nothing left, or goes on with what was behind it.\<close>

definition same_elems :: "camera_view \<Rightarrow> element blk \<Rightarrow> element blk \<Rightarrow> bool" where
  "same_elems v bl bl' \<longleftrightarrow> list_all plain (elements bl') \<and> map (plan v) (elements bl') = map (plan v) (elements bl)"

lemma advance_follows:
  assumes "active v k bl" "plain_kind k" "list_all plain (elements bl)" "idle_elem (elements bl ! curr bl)" "v = view_of env"
  obtains bl' where "elements bl' = elements bl" "advance_block env k bl s = Done (True, k, bl', s)" "idle_blk bl'" "after_curr v k bl = []"
  | bl' where "elements bl' = elements bl" "advance_block env k bl s = Done (False, k, bl', s)" "active v k bl'" "todo_blk v k bl' = after_curr v k bl"
proof (cases "Suc (curr bl) = length (elements bl)")
  case False
  let ?bl = "Blk (elements bl) (Suc (curr bl)) (loops bl) (reported bl)"
  have l: "Suc (curr bl) < length (elements bl)" using assms(1) False by (simp add: active_def)
  have d: "drop (Suc (curr bl)) (elements bl) = elements bl ! Suc (curr bl) # drop (Suc (Suc (curr bl))) (elements bl)"
    using l by (simp add: Cons_nth_drop_Suc)
  have "plain (elements bl ! Suc (curr bl))" using assms(3) l by (simp add: list_all_length)
  then have "sound v (elements bl ! Suc (curr bl))" "list_all idle_elem (take (Suc (curr bl)) (elements bl))"
    "list_all idle_elem (drop (Suc (Suc (curr bl))) (elements bl))"
    using assms(1,4) l by (auto simp: active_def d take_Suc_conv_app_nth idle_sound)
  then show ?thesis using l that(2) [of ?bl] assms(1) False
    by (simp add: advance_block_def active_def todo_blk_def after_curr_def)
next
  case True
  have idle: "list_all idle_elem (elements bl)"
    using assms(1,4) id_take_nth_drop [of "curr bl" "elements bl"]
    unfolding active_def by (metis list.pred_inject(2) list_all_append)
  have m: "map (todo v) (elements bl) = map (plan v) (elements bl)"
    using idle assms(3) idle_todo by (auto simp: list_all_iff)
  let ?r = "rounds v k (loops bl)"
  have r: "rounds v k (loops bl + 1) = ?r - 1" "0 < ?r" using assms(1,2) rounds_next by (auto simp: active_def)
  have a: "after_curr v k bl = concat (replicate (?r - 1) (concat (map (plan v) (elements bl))))"
    using True by (simp add: after_curr_def)
  show ?thesis
  proof (cases "?r = 1")
    case one: True
    let ?bl = "Blk (elements bl) 0 0 (reported bl)"
    have "advance_block env k bl s = Done (True, k, ?bl, s)"
      using True one r assms(2,5) by (simp add: advance_block_def nextLoop_rounds obind_def)
    then show ?thesis using that(1) [of ?bl] one a idle by (simp add: idle_blk_def)
  next
    case False
    let ?bl = "Blk (elements bl) 0 (loops bl + 1) (reported bl)"
    have z: "?r - 1 = Suc (?r - 2)" using False r(2) by simp
    have "advance_block env k bl s = Done (False, k, ?bl, s)"
      using True False r assms(2,5) by (simp add: advance_block_def nextLoop_rounds obind_def)
    moreover have "elements bl ! 0 \<in> set (elements bl)" by (rule nth_mem) (simp add: True [symmetric])
    then have "sound v (elements bl ! 0)"
      using assms(3) idle by (auto simp: list_all_iff intro: idle_sound)
    then have "active v k ?bl" using assms(1) True False r idle
      by (auto simp: active_def list_all_length)
    moreover have "todo_blk v k ?bl = after_curr v k bl"
      using r False z unfolding a by (simp add: todo_blk_def m numeral_2_eq_2)
    ultimately show ?thesis using that(2) [of ?bl] by simp
  qed
qed

definition oks :: "('a \<Rightarrow> bool) \<Rightarrow> 'a outcome \<Rightarrow> bool" where
  "oks P x \<longleftrightarrow> x = OutOfFuel \<or> (\<exists>a. x = Done a \<and> P a)"

definition good_block :: "camera_view \<Rightarrow> bkind \<Rightarrow> element blk \<Rightarrow> int \<times> bkind \<times> element blk \<times> rstate \<Rightarrow> bool" where
  "good_block v k bl = (\<lambda>(r, k', bl', s'). k' = k \<and> same_elems v bl bl'
     \<and> follows (todo_blk v k bl) (todo_blk v k bl') (idle_blk bl') (idle_blk bl' \<or> active v k bl') r s')"

lemma mask_codes:
  "plan_code q \<Longrightarrow> \<not> advances (q OR MASK_BLOCK)" "plan_code q \<Longrightarrow> q OR MASK_BLOCK \<noteq> NEXT_NEXT"
  "plan_code q \<Longrightarrow> q \<noteq> NEXT_NEXT" "(q OR MASK_BLOCK) OR MASK_BLOCK = q OR MASK_BLOCK"
  by (auto simp: plan_code_def advances_def next_codes or.assoc)

lemma reported_irrelevant [simp]:
  "active v k (Blk (elements bl) (curr bl) (loops bl) r) = active v k bl"
  "todo_blk v k (Blk (elements bl) (curr bl) (loops bl) r) = todo_blk v k bl"
  "after_curr v k (Blk (elements bl) (curr bl) (loops bl) r) = after_curr v k bl"
  by (simp_all add: active_def todo_blk_def after_curr_def)

lemma set_curr:
  assumes "active v k bl" "plan v e = plan v (elements bl ! curr bl)"
  shows "after_curr v k (set_elem (curr bl) e bl) = after_curr v k bl"
    "sound v e \<Longrightarrow> active v k (set_elem (curr bl) e bl)"
    "list_all plain (elements bl) \<Longrightarrow> plain e \<Longrightarrow> same_elems v bl (set_elem (curr bl) e bl)"
  using assms by (auto simp: active_def after_curr_def same_elems_def drop_update_swap map_update_same list_all_update drop_map)

lemma same_trans: "same_elems v a b \<Longrightarrow> same_elems v b c \<Longrightarrow> same_elems v a c"
  by (simp add: same_elems_def)

lemma same_elements: "same_elems v a b \<Longrightarrow> elements c = elements b \<Longrightarrow> same_elems v a c"
  by (simp add: same_elems_def)

lemma blockScriptRet_follows:
  assumes act: "active v k bl" and k: "plain_kind k" and pl: "list_all plain (elements bl)" and v: "v = view_of env"
    and td: "todo_blk v k b0 = (q, oc) # zs @ after_curr v k bl" and same: "same_elems v b0 bl"
    and q: "plan_code q" "observed s = oc"
    and r: "r = q \<and> advances q \<and> zs = [] \<and> idle_elem (elements bl ! curr bl)
      \<or> (r = q OR MASK_BLOCK \<or> r = q \<and> \<not> advances q) \<and> todo v (elements bl ! curr bl) = zs"
  shows "\<exists>a. blockScriptRet env r k bl s = Done a \<and> good_block v k b0 a"
proof -
  let ?bl = "Blk (elements bl) (curr bl) (loops bl) (Some (curr bl))"
  have c: "curr bl < length (elements bl)" using act by (simp add: active_def)
  have act': "active v k ?bl" and pl': "list_all plain (elements ?bl)" using act pl by simp_all
  show ?thesis
  proof (cases "advances r")
    case False
    then have "r OR MASK_BLOCK = q OR MASK_BLOCK" "todo v (elements bl ! curr bl) = zs"
      using r mask_codes(4) by auto
    then have "good_block v k b0 (r OR MASK_BLOCK, k, ?bl, s)"
      using act td q todo_active [OF act'] same by (simp add: good_block_def follows_def same_elems_def)
    then show ?thesis using False c by (simp add: blockScriptRet_def)
  next
    case True
    then have a: "r = q" "advances q" "zs = []" "idle_elem (elements ?bl ! curr ?bl)"
      using r q(1) mask_codes(1) by auto
    have "\<exists>bl' e. advance_block env k ?bl s = Done (e, k, bl', s) \<and> good_block v k b0 (if e then q else q OR MASK_BLOCK, k, bl', s)"
    proof (rule advance_follows [OF act' k pl' a(4) v, of s])
      fix bl' assume "elements bl' = elements ?bl" "advance_block env k ?bl s = Done (True, k, bl', s)" "idle_blk bl'"
        "after_curr v k ?bl = []"
      then show ?thesis using a td q same_elements [OF same, of bl']
        by (intro exI [of _ bl'] exI [of _ True]) (simp add: good_block_def follows_def)
    next
      fix bl' assume "elements bl' = elements ?bl" "advance_block env k ?bl s = Done (False, k, bl', s)" "active v k bl'"
        "todo_blk v k bl' = after_curr v k ?bl"
      then show ?thesis using a td q same_elements [OF same, of bl']
        by (intro exI [of _ bl'] exI [of _ False]) (simp add: good_block_def follows_def)
    qed
    then show ?thesis using c a(1,2) by (auto simp: blockScriptRet_def Let_def obind_def)
  qed
qed

definition child_follows :: "camera_view \<Rightarrow> (element \<Rightarrow> rstate \<Rightarrow> (int \<times> element \<times> rstate) outcome) \<Rightarrow> bool" where
  "child_follows v child \<longleftrightarrow>
     (\<forall>e s. plain e \<and> sound v e \<and> new_command s = None \<longrightarrow> oks (good_call v e) (child e s))"

lemma good_block_trans:
  "good_block v k b1 a \<Longrightarrow> same_elems v b0 b1 \<Longrightarrow> todo_blk v k b0 = todo_blk v k b1 \<Longrightarrow> good_block v k b0 a"
  by (auto simp: good_block_def dest: same_trans)

lemma block_loop_follows:
  assumes child: "child_follows v child" and k: "plain_kind k" and v: "v = view_of env"
  shows "active v k bl \<Longrightarrow> list_all plain (elements bl) \<Longrightarrow> new_command s = None
    \<Longrightarrow> oks (good_block v k bl) (block_loop env False child j k bl s)"
proof (induction j arbitrary: bl s)
  case (Suc j)
  let ?e = "elements bl ! curr bl"
  have c: "curr bl < length (elements bl)" and "sound v ?e" using Suc.prems(1) by (simp_all add: active_def)
  then have "oks (good_call v ?e) (child ?e s)"
    using child Suc.prems(2,3) by (simp add: child_follows_def list_all_length)
  then consider "child ?e s = OutOfFuel" | a where "child ?e s = Done a" "good_call v ?e a" by (auto simp: oks_def)
  then show ?case
  proof cases
    case 1
    then show ?thesis using c by (simp add: oks_def obind_def)
  next
    case 2
    obtain r e s1 where a: "a = (r, e, s1)" by (cases a) auto
    let ?bl = "set_elem (curr bl) e bl"
    have e: "plain e" "plan v e = plan v ?e" and f: "follows (todo v ?e) (todo v e) (idle_elem e) (sound v e) r s1"
      using 2 a by (simp_all add: good_call_def)
    note after = set_curr(1) [OF Suc.prems(1) e(2)] and same = set_curr(3) [OF Suc.prems(1) e(2) Suc.prems(2) e(1)]
    have pl: "list_all plain (elements ?bl)" using Suc.prems(2) e(1) by (simp add: list_all_update)
    have at: "elements ?bl ! curr ?bl = e" using c by simp
    have td: "todo_blk v k bl = todo v ?e @ after_curr v k ?bl" using todo_active [OF Suc.prems(1)] after by simp
    show ?thesis
    proof (cases "todo v ?e")
      case Nil
      then have r: "r = NEXT_NEXT" "idle_elem e" "new_command s1 = None" using f by simp_all
      have act: "active v k ?bl" by (rule set_curr(2) [OF Suc.prems(1) e(2)]) (rule idle_sound [OF e(1) r(2)])
      have id: "idle_elem (elements ?bl ! curr ?bl)" using r(2) at by simp
      have "oks (good_block v k bl) (obind (advance_block env k ?bl s1) (\<lambda>(e, k', bl', s').
          if e then Done (NEXT_NEXT, k', bl', s') else block_loop env False child j k' bl' s'))"
      proof (rule advance_follows [OF act k pl id v, of s1])
        fix bl' assume "elements bl' = elements ?bl" "advance_block env k ?bl s1 = Done (True, k, bl', s1)" "idle_blk bl'"
          "after_curr v k ?bl = []"
        then show ?thesis using td Nil r same_elements [OF same, of bl'] by (simp add: oks_def obind_def good_block_def)
      next
        fix bl' assume b: "elements bl' = elements ?bl" "advance_block env k ?bl s1 = Done (False, k, bl', s1)" "active v k bl'"
          "todo_blk v k bl' = after_curr v k ?bl"
        have "oks (good_block v k bl') (block_loop env False child j k bl' s1)"
          by (rule Suc.IH [OF b(3)]) (use pl b(1) r in simp_all)
        then have "oks (good_block v k bl) (block_loop env False child j k bl' s1)"
          using good_block_trans [OF _ same_elements [OF same b(1)]] td Nil b(4) by (auto simp: oks_def)
        then show ?thesis using b(2) by (simp add: obind_def)
      qed
      then show ?thesis using 2 a r c by (simp add: obind_def [of "Done _"] holds_back_def Let_def)
    next
      case (Cons it zs)
      obtain q oc where it: "it = (q, oc)" by fastforce
      have q: "plan_code q" "observed s1 = oc" using f by (simp_all add: Cons it follows_def)
      have rr: "r = q \<and> advances q \<and> zs = [] \<and> idle_elem (elements ?bl ! curr ?bl)
          \<or> (r = q OR MASK_BLOCK \<or> r = q \<and> \<not> advances q) \<and> todo v (elements ?bl ! curr ?bl) = zs"
        and snd: "sound v e"
        using f at e(1) by (auto simp: Cons it follows_def intro: idle_sound)
      have nn: "r \<noteq> NEXT_NEXT" using rr mask_codes(2,3) [OF q(1)] by metis
      have "\<exists>a. blockScriptRet env r k ?bl s1 = Done a \<and> good_block v k bl a"
        by (rule blockScriptRet_follows [OF set_curr(2) [OF Suc.prems(1) e(2) snd] k pl v _ same q rr]) (simp add: td Cons it)
      then show ?thesis using 2 a nn c by (auto simp: obind_def [of "Done _"] holds_back_def Let_def oks_def)
    qed
  qed
qed (simp add: oks_def)

subsection \<open>Elements and the script\<close>

lemma idle_active:
  assumes "idle_blk bl" "list_all plain (elements bl)" "rounds v k (loops bl) \<noteq> 0" "elements bl \<noteq> []"
  shows "active v k bl"
proof -
  have "elements bl ! 0 \<in> set (elements bl)" using assms(4) by simp
  then have "sound v (elements bl ! 0)" using assms(1,2) by (auto simp: idle_blk_def list_all_iff intro: idle_sound)
  then show ?thesis using assms by (auto simp: active_def idle_blk_def list_all_iff dest: in_set_dropD)
qed

lemma next_command_follows:
  assumes "calm_camera env" "v = view_of env"
  shows "plain e \<Longrightarrow> sound v e \<Longrightarrow> new_command s = None \<Longrightarrow> oks (good_call v e) (next_command env n CamNext e s)"
proof (induction n arbitrary: e s)
  case (Suc n)
  have child: "child_follows v (next_command env n CamNext)" using Suc.IH by (simp add: child_follows_def)
  show ?case
  proof (cases e)
    case (Leaf b l)
    then show ?thesis using leaf_follows [OF _ assms Suc.prems(3)] Suc.prems(1) by (simp add: oks_def)
  next
    case (Block b k bl)
    have k: "plain_kind k" and pl: "list_all plain (elements bl)" and snd: "idle_blk bl \<or> active v k bl"
      using Suc.prems(1,2) by (simp_all add: Block block_views)
    have "oks (good_block v k bl) (block_next env CamNext (next_command env n CamNext) n k bl s)"
    proof (cases "rounds v k (loops bl) = 0 \<or> elements bl = []")
      case True
      then have "\<not> active v k bl" by (auto simp: active_def)
      moreover have "todo_blk v k bl = []" using True by (auto simp: todo_blk_def)
      ultimately show ?thesis using True snd pl Suc.prems(3) assms(2)
        by (auto simp: block_next_def endLoop_rounds [OF k] obind_def oks_def good_block_def same_elems_def)
    next
      case False
      then have act: "active v k bl" using snd idle_active [OF _ pl] by blast
      have "\<not> is_sod k" using k by (cases k) (auto simp: plain_kind_def is_sod_def)
      then show ?thesis using block_loop_follows [OF child k assms(2) act pl Suc.prems(3)] False assms(2)
        by (simp add: block_next_def endLoop_rounds [OF k] obind_def)
    qed
    moreover have "good_call v e (r, Block b k bl', s')" if "good_block v k bl (r, k, bl', s')" for r bl' s'
      using that k by (simp add: Block good_call_def good_block_def block_views same_elems_def)
    ultimately show ?thesis by (auto simp: Block oks_def obind_def good_block_def)
  qed (use Suc.prems in simp)
qed (simp add: oks_def)

text \<open>A script between two calls.\<close>

definition script_ok :: "camera_view \<Rightarrow> script \<Rightarrow> bool" where
  "script_ok v sc \<longleftrightarrow> list_all plain (elems sc) \<and> list_all idle_elem (take (el_iter sc) (elems sc))
     \<and> list_all idle_elem (drop (Suc (el_iter sc)) (elems sc)) \<and> el_iter sc \<le> length (elems sc)
     \<and> (el_iter sc < length (elems sc) \<longrightarrow> sound v (elems sc ! el_iter sc))
     \<and> 0 \<le> executedCount sc \<and> scriptLoops sc = v_loops v \<and> scriptDevice sc = v_device v"

definition script_todo :: "camera_view \<Rightarrow> script \<Rightarrow> item list" where
  "script_todo v sc = concat (drop (el_iter sc) (map (todo v) (elems sc)))"

definition next_elem :: "script \<Rightarrow> script" where
  "next_elem sc = sc\<lparr>el_iter := Suc (el_iter sc)\<rparr>"

lemma next_elem_sel [simp]: "elems (next_elem sc) = elems sc" "el_iter (next_elem sc) = Suc (el_iter sc)"
  "executedCount (next_elem sc) = executedCount sc" "scriptLoops (next_elem sc) = scriptLoops sc"
  "scriptDevice (next_elem sc) = scriptDevice sc"
  by (simp_all add: next_elem_def)

lemma script_todo_at:
  "el_iter sc < length (elems sc) \<Longrightarrow> script_todo v sc = todo v (elems sc ! el_iter sc) @ script_todo v (next_elem sc)"
  by (simp add: script_todo_def Cons_nth_drop_Suc [symmetric])

lemma script_ok_elem:
  assumes "script_ok v sc" "el_iter sc < length (elems sc)" "plain e"
  shows "sound v e \<Longrightarrow> script_ok v (set_script_elem (el_iter sc) e sc)"
    "idle_elem e \<Longrightarrow> script_ok v (next_elem (set_script_elem (el_iter sc) e sc))"
    "script_todo v (next_elem (set_script_elem (el_iter sc) e sc)) = script_todo v (next_elem sc)"
proof -
  let ?i = "el_iter sc"
  have d: "drop (Suc ?i) ((elems sc)[?i := e]) = drop (Suc ?i) (elems sc)" by (simp add: drop_update_swap)
  have t: "take (Suc ?i) ((elems sc)[?i := e]) = take ?i (elems sc) @ [e]"
    using assms(2) by (simp add: take_Suc_conv_app_nth)
  have p: "list_all plain ((elems sc)[?i := e])" using assms(1,3) by (simp add: script_ok_def list_all_update)
  show "sound v e \<Longrightarrow> script_ok v (set_script_elem ?i e sc)"
    using assms(1,2) p d by (simp add: script_ok_def set_script_elem_def)
  show "script_todo v (next_elem (set_script_elem ?i e sc)) = script_todo v (next_elem sc)"
    using d by (simp add: script_todo_def set_script_elem_def drop_map)
  assume id: "idle_elem e"
  have s: "sound v (elems sc ! Suc ?i)" "list_all idle_elem (drop (Suc (Suc ?i)) (elems sc))" if "Suc ?i < length (elems sc)"
  proof -
    have x: "drop (Suc ?i) (elems sc) = elems sc ! Suc ?i # drop (Suc (Suc ?i)) (elems sc)"
      using that by (simp add: Cons_nth_drop_Suc)
    then show "sound v (elems sc ! Suc ?i)" "list_all idle_elem (drop (Suc (Suc ?i)) (elems sc))"
      using assms(1) that by (auto simp: script_ok_def list_all_length [of plain] intro: idle_sound)
  qed
  show "script_ok v (next_elem (set_script_elem ?i e sc))"
    using assms(1,2) p t id s
    by (cases "Suc ?i < length (elems sc)")
      (auto simp: script_ok_def set_script_elem_def drop_update_swap)
qed

text \<open>What the loop of \<open>Script::nextCommand\<close> leaves, before \<open>script_ret\<close>.\<close>

definition loop_result :: "camera_view \<Rightarrow> item list \<Rightarrow> int \<times> script \<times> rstate \<Rightarrow> bool" where
  "loop_result v xs = (\<lambda>(r, sc, s).
     case xs of
       [] \<Rightarrow> length (elems sc) \<le> el_iter sc \<and> new_command s = None \<and> script_ok v sc
     | (q, oc) # zs \<Rightarrow>
         el_iter sc < length (elems sc) \<and> plan_code q \<and> observed s = oc
         \<and> (r = q \<and> advances q \<and> script_ok v (next_elem sc) \<and> script_todo v (next_elem sc) = zs
            \<or> (r = q OR MASK_BLOCK \<or> r = q \<and> \<not> advances q) \<and> script_ok v sc \<and> script_todo v sc = zs))"

lemma report_sel [simp]: "new_command (report_position p l s) = new_command s" "observed (report_position p l s) = observed s"
  by (simp_all add: report_position_def out_def observed_def)

lemma script_loop_follows:
  assumes "calm_camera env" "v = view_of env"
  shows "script_ok v sc \<Longrightarrow> new_command s = None \<Longrightarrow> oks (loop_result v (script_todo v sc)) (script_loop env n CamNext sc s)"
proof (induction "length (elems sc) - el_iter sc" arbitrary: sc s rule: less_induct)
  case less
  show ?case
  proof (cases "length (elems sc) \<le> el_iter sc")
    case True
    then show ?thesis using less.prems
      by (subst script_loop.simps) (simp add: oks_def loop_result_def script_todo_def)
  next
    case False
    then have c: "el_iter sc < length (elems sc)" by simp
    let ?e = "elems sc ! el_iter sc"
    have e: "plain ?e" "sound v ?e" using less.prems(1) c by (simp_all add: script_ok_def list_all_length)
    note td = script_todo_at [OF c]
    have "oks (good_call v ?e) (next_command env n CamNext ?e s)"
      by (rule next_command_follows [OF assms e less.prems(2)])
    then consider "next_command env n CamNext ?e s = OutOfFuel"
      | a where "next_command env n CamNext ?e s = Done a" "good_call v ?e a" by (auto simp: oks_def)
    then show ?thesis
    proof cases
      case 1
      then show ?thesis using False by (subst script_loop.simps) (simp add: oks_def obind_def)
    next
      case 2
      obtain r e' s1 where a: "a = (r, e', s1)" by (cases a) auto
      let ?sc = "set_script_elem (el_iter sc) e' sc" and ?s = "report_position (getStartPos e') (getLen e') s1"
      have e': "plain e'" and f: "follows (todo v ?e) (todo v e') (idle_elem e') (sound v e') r s1"
        using 2 a by (simp_all add: good_call_def)
      note ok = script_ok_elem [OF less.prems(1) c e']
      have l: "script_loop env n CamNext sc s = (if r \<noteq> NEXT_NEXT then Done (r, ?sc, ?s) else script_loop env n CamNext (next_elem ?sc) ?s)"
        using False 2 a by (subst script_loop.simps) (simp add: obind_def Let_def next_elem_def)
      have at: "elems ?sc ! el_iter ?sc = e'" "el_iter ?sc < length (elems ?sc)" using c by (simp_all add: set_script_elem_def)
      show ?thesis
      proof (cases "todo v ?e")
        case Nil
        then have "r = NEXT_NEXT" "idle_elem e'" "new_command ?s = None" using f by simp_all
        then have "oks (loop_result v (script_todo v (next_elem ?sc))) (script_loop env n CamNext (next_elem ?sc) ?s)"
          using c by (intro less.hyps) (simp_all add: ok)
        then show ?thesis using l td Nil ok(3) \<open>r = NEXT_NEXT\<close> by simp
      next
        case (Cons it zs)
        obtain q oc where it: "it = (q, oc)" by fastforce
        have q: "plan_code q" "observed s1 = oc" and rr: "r = q \<and> advances q \<and> zs = [] \<and> idle_elem e'
            \<or> (r = q OR MASK_BLOCK \<or> r = q \<and> \<not> advances q) \<and> todo v e' = zs \<and> sound v e'"
          using f by (simp_all add: Cons it follows_def)
        have "r \<noteq> NEXT_NEXT" using rr mask_codes(2,3) [OF q(1)] by metis
        moreover have "loop_result v ((q, oc) # zs @ script_todo v (next_elem sc)) (r, ?sc, ?s)"
          using rr q at ok script_todo_at [OF at(2), of v] by (auto simp: loop_result_def)
        ultimately show ?thesis using l td Cons it by (simp add: oks_def)
      qed
    qed
  qed
qed

subsection \<open>Runs\<close>

definition sees :: "camera_view \<Rightarrow> senv \<Rightarrow> bool" where
  "sees v env \<longleftrightarrow> v_SHUTTER v = has_SHUTTER env \<and> v_filter v = has_filter env \<and> v_exposure v = has_exposure env"

lemma ret_codes:
  assumes "plan_code q"
  shows "(q OR MASK_BLOCK) AND MASK_BLOCK \<noteq> 0" "(q OR MASK_BLOCK) AND NOT MASK_BLOCK = q" "q AND MASK_BLOCK = 0" "q \<noteq> NEXT_WAITING"
  using assms by (auto simp: plan_code_def next_codes)

lemma plain_counted: "plain e \<Longrightarrow> sound v e \<Longrightarrow> counted e"
proof (induction e rule: plain.induct)
  case (2 b k es c n rep)
  have "counted e" if "e \<in> set es" for e
  proof -
    have "plain e" using 2(2) that by (auto simp: list_all_iff)
    have "idle_elem e \<or> sound v e"
    proof (cases "c = 0 \<and> n = 0 \<and> list_all idle_elem es")
      case True
      then show ?thesis using that by (auto simp: list_all_iff)
    next
      case False
      then have a: "c < length es" "sound v (es ! c)" "list_all idle_elem (take c es)" "list_all idle_elem (drop (Suc c) es)"
        using 2(3) by auto
      have "e = es ! c \<or> e \<in> set (take c es) \<or> e \<in> set (drop (Suc c) es)"
        using that id_take_nth_drop [OF a(1)] by (metis UnE set_ConsD set_append)
      then show ?thesis using a by (auto simp: list_all_iff)
    qed
    then show ?thesis using 2(1) [OF that] \<open>plain e\<close> idle_sound by blast
  qed
  then show ?case using 2(2,3) by (cases k) (auto simp: plain_kind_def counted_kind_def list_all_iff)
qed auto

lemma script_ok_counted: "script_ok v sc \<Longrightarrow> script_counted (map fuel_need (elems sc)) sc"
proof -
  assume ok: "script_ok v sc"
  let ?es = "elems sc" and ?i = "el_iter sc"
  have "counted e" if "e \<in> set ?es" for e
  proof -
    have pl: "plain e" using ok that by (auto simp: script_ok_def list_all_iff)
    have "e \<in> set (take ?i ?es) \<or> ?i < length ?es \<and> e = ?es ! ?i \<or> e \<in> set (drop (Suc ?i) ?es)"
    proof (cases "?i < length ?es")
      case True
      then show ?thesis using that id_take_nth_drop [OF True] by (metis UnE set_ConsD set_append)
    qed (use that in simp)
    then have "idle_elem e \<or> sound v e" using ok by (auto simp: script_ok_def list_all_iff)
    then show ?thesis using plain_counted [OF pl] idle_sound [OF pl] by blast
  qed
  then show ?thesis by (simp add: script_counted_def list_all_iff)
qed

text \<open>One call of the script hands over the next item of what is left, and the end of the script when nothing is.\<close>

lemma nextCommand_follows:
  assumes ok: "script_ok v sc" and env: "calm_camera env" "sees v env" and n: "sum_list (map fuel_need (elems sc)) \<le> n"
  obtains r sc' s' where "script_nextCommand env n CamNext sc s = Done (r, sc', s')" "script_ok v sc'"
    "map fuel_need (elems sc') = map fuel_need (elems sc)"
    "(r, observed s') # script_todo v sc' =
       (if script_todo v sc = [] then [(NEXT_END_SCRIPT, None)] else script_todo v sc)"
proof -
  let ?env = "env\<lparr>script_loops := scriptLoops sc, script_device := scriptDevice sc\<rparr>" and ?s = "s\<lparr>new_command := None\<rparr>"
  have calm_camera: "calm_camera ?env" using env(1) by (simp add: calm_camera_def exposures_queued_def)
  have v: "v = view_of ?env" using env(2) ok by (simp add: view_of_def sees_def script_ok_def)
  have ex: "0 \<le> executedCount sc" using ok by (simp add: script_ok_def)
  have c: "script_counted (map fuel_need (elems sc)) sc" by (rule script_ok_counted [OF ok])
  have fuel: "script_nextCommand env n CamNext sc s \<noteq> OutOfFuel"
    "\<And>r sc' s'. script_nextCommand env n CamNext sc s = Done (r, sc', s') \<Longrightarrow> map fuel_need (elems sc') = map fuel_need (elems sc)"
    using nextCommand_bounded [OF c n, of env CamNext s] by (auto simp: script_counted_def)
  have nc: "script_nextCommand env n CamNext sc s = obind (script_loop ?env n CamNext sc ?s) (\<lambda>(r, sc1, s1).
      Done (if length (elems sc1) \<le> el_iter sc1 then (NEXT_END_SCRIPT, sc1, s1) else script_ret r sc1 s1))"
    using ex by (simp add: script_nextCommand_def Let_def)
  have "oks (loop_result v (script_todo v sc)) (script_loop ?env n CamNext sc ?s)"
    by (rule script_loop_follows [OF calm_camera v ok]) simp
  then obtain r sc1 s1 where l: "script_loop ?env n CamNext sc ?s = Done (r, sc1, s1)"
    and res: "loop_result v (script_todo v sc) (r, sc1, s1)"
    using fuel(1) nc by (auto simp: oks_def obind_def)
  show ?thesis
  proof (cases "script_todo v sc")
    case Nil
    then have a: "length (elems sc1) \<le> el_iter sc1" "new_command s1 = None" "script_ok v sc1" using res by (simp_all add: loop_result_def)
    then have d: "script_nextCommand env n CamNext sc s = Done (NEXT_END_SCRIPT, sc1, s1)" using nc l by (simp add: obind_def)
    show ?thesis using that [OF d a(3) fuel(2) [OF d]] a Nil by (simp add: observed_def script_todo_def)
  next
    case (Cons it zs)
    obtain q oc where it: "it = (q, oc)" by fastforce
    have c1: "el_iter sc1 < length (elems sc1)" and q: "plan_code q" "observed s1 = oc"
      and rr: "r = q \<and> advances q \<and> script_ok v (next_elem sc1) \<and> script_todo v (next_elem sc1) = zs
        \<or> (r = q OR MASK_BLOCK \<or> r = q \<and> \<not> advances q) \<and> script_ok v sc1 \<and> script_todo v sc1 = zs"
      using res by (simp_all add: Cons it loop_result_def)
    have d: "script_nextCommand env n CamNext sc s = Done (script_ret r sc1 s1)" using nc l c1 by (simp add: obind_def)
    have "\<exists>sc'. script_ret r sc1 s1 = (q, sc', s1) \<and> script_ok v sc' \<and> script_todo v sc' = zs"
    proof (cases "r = q \<and> advances q")
      case True
      then have b: "script_ok v (next_elem sc1)" "script_todo v (next_elem sc1) = zs" using rr mask_codes(1) [OF q(1)] by auto
      have "script_ret r sc1 s1 = (q, next_elem (sc1\<lparr>executedCount := executedCount sc1 + 1\<rparr>), s1)"
        using True ret_codes(3) [OF q(1)] by (simp add: script_ret_def Let_def next_elem_def)
      then show ?thesis using b by (auto simp: script_ok_def script_todo_def)
    next
      case False
      then have b: "script_ok v sc1" "script_todo v sc1 = zs" "r = q OR MASK_BLOCK \<or> r = q \<and> \<not> advances q" using rr by auto
      have "script_ret r sc1 s1 = (q, sc1\<lparr>executedCount := executedCount sc1 + 1\<rparr>, s1)"
        using b(3) ret_codes [OF q(1)] by (auto simp: script_ret_def Let_def)
      then show ?thesis using b by (auto simp: script_ok_def script_todo_def)
    qed
    then obtain sc' where e: "script_nextCommand env n CamNext sc s = Done (q, sc', s1)" "script_ok v sc'" "script_todo v sc' = zs"
      using d by auto
    show ?thesis using that [OF e(1,2) fuel(2) [OF e(1)]] e(3) q Cons it by simp
  qed
qed

text \<open>The calls of a camera for its next command, one environment each, until one does not return.\<close>

fun script_run :: "nat \<Rightarrow> senv list \<Rightarrow> script \<Rightarrow> rstate \<Rightarrow> item list" where
  "script_run n [] sc s = []"
| "script_run n (env # envs) sc s =
     (case script_nextCommand env n CamNext sc s of
        Done (r, sc', s') \<Rightarrow> (r, observed s') # script_run n envs sc' s'
      | _ \<Rightarrow> [])"

lemma take_end: "m \<le> k \<Longrightarrow> take m (x # replicate k x) = replicate m x"
  by (cases m) simp_all

lemma script_run_todo:
  "script_ok v sc \<Longrightarrow> (\<And>env. env \<in> set envs \<Longrightarrow> calm_camera env \<and> sees v env) \<Longrightarrow> sum_list (map fuel_need (elems sc)) \<le> n
   \<Longrightarrow> script_run n envs sc s = take (length envs) (script_todo v sc @ replicate (length envs) (NEXT_END_SCRIPT, None))"
proof (induction envs arbitrary: sc s)
  case (Cons env envs)
  obtain r sc' s' where nx: "script_nextCommand env n CamNext sc s = Done (r, sc', s')" "script_ok v sc'"
    "map fuel_need (elems sc') = map fuel_need (elems sc)"
    "(r, observed s') # script_todo v sc' = (if script_todo v sc = [] then [(NEXT_END_SCRIPT, None)] else script_todo v sc)"
    by (rule nextCommand_follows [OF Cons.prems(1) _ _ Cons.prems(3), of env s]) (use Cons.prems(2) in auto)
  have ih: "script_run n envs sc' s' = take (length envs) (script_todo v sc' @ replicate (length envs) (NEXT_END_SCRIPT, None))"
    by (rule Cons.IH [OF nx(2)]) (use Cons.prems nx(3) in auto)
  show ?case
  proof (cases "script_todo v sc")
    case Nil
    then show ?thesis using nx ih by simp
  next
    case (Cons x xs)
    then show ?thesis using nx ih by (auto simp: take_end)
  qed
qed simp

end
