(* ===== verification/ScriptParseProps.thy ===== *)
theory ScriptParseProps
  imports ScriptParse
begin

section \<open>Properties of the parser\<close>

text \<open>
  The parser of scripts ends: its readers never go back in the text, an element it returns has consumed some of
  it, and the fuel for the length of the text is never used up, nor does more of it change the result.
\<close>

subsection \<open>Readers do not go back\<close>

definition shortens :: "'a param \<Rightarrow> bool" where
  "shortens p \<longleftrightarrow> (\<forall>s. length (snd (p s)) \<le> length s)"

named_theorems shrink \<open>readers that do not go back\<close>

lemma shrinks_by: "shortens p \<Longrightarrow> p s = (x, r) \<Longrightarrow> length r \<le> length s"
  by (metis shortens_def snd_conv)

lemma shrinks_params [shrink]:
  "shortens getNextParamString" "shortens getNextParamFloat" "shortens getNextParamDouble"
  "shortens getNextParamInteger" "shortens block_start"
  using nextElement_shorter
  by (simp_all add: shortens_def getNextParamString_def getNextParamFloat_def getNextParamDouble_def
      getNextParamInteger_def block_start_def case_prod_unfold)

lemma shrinks_preturn [shrink]: "shortens (preturn x)"
  by (simp add: shortens_def preturn_def)

lemma shrinks_check [shrink]: "shortens p \<Longrightarrow> shortens (check_param f p)"
  by (auto simp: shortens_def check_param_def split: prod.splits option.splits dest: spec)
     (metis snd_conv)+

lemma shrinks_map [shrink]: "shortens p \<Longrightarrow> shortens (map_param f p)"
  by (simp add: map_param_def shrink)

lemma shrinks_reads [shrink]:
  assumes p: "shortens p" and q: "shortens q" shows "shortens (reads p q)"
  unfolding shortens_def
proof
  fix s
  obtain x r where x: "p s = (x, r)" by fastforce
  obtain y t where y: "q r = (y, t)" by fastforce
  show "length (snd (reads p q s)) \<le> length s"
    using shrinks_by [OF p x] shrinks_by [OF q y]
    by (auto simp: reads_def pbind_def preturn_def x y split: option.splits)
qed

lemma leaf_reader_shrinks: "leaf_reader dev cmd = Some p \<Longrightarrow> shortens p"
  by (auto simp: leaf_reader_def Let_def shrink split: if_splits)

lemma block_reader_shrinks: "block_reader dev cmd = Some p \<Longrightarrow> shortens p"
  by (auto simp: block_reader_def Let_def shrink split: if_splits)

lemma leaf_reader_shorter: "leaf_reader dev cmd = Some p \<Longrightarrow> p s = (x, r) \<Longrightarrow> length r \<le> length s"
  using leaf_reader_shrinks shrinks_by by metis

lemma block_reader_shorter: "block_reader dev cmd = Some p \<Longrightarrow> p s = (x, r) \<Longrightarrow> length r \<le> length s"
  using block_reader_shrinks shrinks_by by metis

lemma block_start_shorter: "block_start s = (x, r) \<Longrightarrow> length r \<le> length s"
  using shrinks_by [of block_start s x r] by (simp add: shrink)

lemma int_block_shorter: "reads getNextParamInteger block_start s = (x, r) \<Longrightarrow> length r \<le> length s"
  using shrinks_by [of "reads getNextParamInteger block_start" s x r] by (simp add: shrink)

lemma operand_loop_shorter: "operand_loop dev op s = Inr (x, r) \<Longrightarrow> length r \<le> length s"
proof (induction dev op s arbitrary: x r rule: operand_loop.induct)
  case (1 dev op buf)
  note IH = 1(1-4) and res = 1(5)
  show ?case
  proof (cases "buf = [] \<or> skip_space buf = []")
    case True
    then show ?thesis using res by (subst (asm) operand_loop.simps) (auto split: list.splits if_splits)
  next
    case False
    then obtain c s where s: "skip_space buf = c # s" and b: "buf \<noteq> []" by (cases "skip_space buf") auto
    have l: "length s < length buf" by (rule skip_space_Cons_length [OF s])
    have d: "length (dropWhile P t) \<le> length t" for P and t :: string by (rule length_dropWhile_le)
    consider "c = CHR '')''" | "c = CHR ''(''" | "c \<in> {CHR ''='', CHR ''>'', CHR ''<''}"
      | "c \<notin> {CHR '')'', CHR ''('', CHR ''='', CHR ''>'', CHR ''<''}" by blast
    then show ?thesis
    proof cases
      case 1
      then show ?thesis using res s b l by (subst (asm) operand_loop.simps) (auto split: if_splits)
    next
      case 2
      then have "operand_loop dev None (skip_space s) = Inr (x, r)"
        using res s b by (subst (asm) operand_loop.simps) simp
      then have "length r \<le> length (skip_space s)" using IH(1) [OF b s] 2 by simp
      then show ?thesis using l skip_space_length [of s] by linarith
    next
      case 3
      then obtain lo cmp t op2 where t: "read_comparator c s = Inr (cmp, t)" "op = Some lo"
        and o2: "operand_loop dev None (skip_space t) = Inr (op2, r)"
        using res s b by (subst (asm) operand_loop.simps) (auto split: option.splits sum.splits prod.splits)
      have "length r \<le> length (skip_space t)"
        using IH(2) [OF b s _ _ 3 t(2,1) refl o2] 3 by auto
      then show ?thesis
        using l skip_space_length [of t] read_comparator_shorter [OF t(1)] by linarith
    next
      case 4
      show ?thesis
      proof (cases "is_digit c \<or> c = CHR ''.'' \<and> is_digit (front s)")
        case True
        then obtain v where v: "parse_operand MUL_ANGLE (takeWhile (\<lambda>x. \<not> is_space x) (c # s)) = Inr v"
          and r: "operand_loop dev (Some v) (dropWhile (\<lambda>x. \<not> is_space x) (c # s)) = Inr (x, r)"
          using res s b 4 by (subst (asm) operand_loop.simps) (auto split: sum.splits)
        have "length r \<le> length (dropWhile (\<lambda>x. \<not> is_space x) (c # s))"
          by (rule IH(3) [OF b s _ _ _ True v r]) (use 4 in auto)
        then show ?thesis using l d [of "\<lambda>x. \<not> is_space x" "c # s"] by simp
      next
        case False
        then have a: "is_alpha c \<or> c = CHR ''.''"
          and r: "operand_loop dev (name_operand dev (takeWhile ident_char (c # s)) op) (dropWhile ident_char (c # s)) = Inr (x, r)"
          using res s b 4 by (subst (asm) operand_loop.simps, auto split: if_splits)+
        have "length r \<le> length (dropWhile ident_char (c # s))"
          by (rule IH(4) [OF b s _ _ _ False a r]) (use 4 in auto)
        then show ?thesis using l d [of ident_char "c # s"] by simp
      qed
    qed
  qed
qed

lemma parseOperand_shorter: "parseOperand dev s = Inr (x, r) \<Longrightarrow> length r \<le> length s"
  unfolding parseOperand_def
  by (drule operand_loop_shorter) (erule order_trans, rule skip_space_length)

subsection \<open>Progress\<close>

text \<open>A result that does not run out of fuel and leaves at most \<open>m\<close> characters.\<close>

definition ends_within :: "nat \<Rightarrow> 'a pres \<times> pstate \<Rightarrow> bool" where
  "ends_within m r \<longleftrightarrow> fst r \<noteq> PFuel \<and> length (rest (snd r)) \<le> m"

definition block_ok :: "nat \<Rightarrow> block_parser \<Rightarrow> bool" where
  "block_ok n pb \<longleftrightarrow> (\<forall>st. length (rest st) < n \<longrightarrow> ends_within (length (rest st)) (pb st))"

definition elem_ok :: "nat \<Rightarrow> (pstate \<Rightarrow> element pres \<times> pstate) \<Rightarrow> bool" where
  "elem_ok n pe \<longleftrightarrow>
     (\<forall>st. length (rest st) < n \<longrightarrow> ends_within (length (rest st)) (pe st)
        \<and> (\<forall>e s1. pe st = (PGot e, s1) \<longrightarrow> length (rest s1) < length (rest st)))"

lemma within_got [simp]: "ends_within m (PGot x, st) \<longleftrightarrow> length (rest st) \<le> m"
  and within_null [simp]: "ends_within m (PNull, st) \<longleftrightarrow> length (rest st) \<le> m"
  and within_throw [simp]: "ends_within m (PThrow e, st) \<longleftrightarrow> length (rest st) \<le> m"
  and within_crash [simp]: "ends_within m (PCrash, st) \<longleftrightarrow> length (rest st) \<le> m"
  by (auto simp: ends_within_def)

lemma within_mono: "ends_within m r \<Longrightarrow> m \<le> k \<Longrightarrow> ends_within k r"
  by (auto simp: ends_within_def)

lemma block_okD: "block_ok n pb \<Longrightarrow> length (rest st) < n \<Longrightarrow> length (rest st) \<le> m \<Longrightarrow> ends_within m (pb st)"
  unfolding block_ok_def by (blast intro: within_mono)

lemma within_block:
  assumes "ends_within m r" "\<And>es st. length (rest st) \<le> m \<Longrightarrow> ends_within m (f es st)"
  shows "ends_within m (with_block f r)"
proof -
  obtain x st where "r = (x, st)" by fastforce
  then show ?thesis using assms by (cases x) (auto simp: with_block_def ends_within_def)
qed

lemma loop_ok:
  assumes "elem_ok n pe" "length (rest st) < n" "length (rest st) < k"
  shows "ends_within (length (rest st)) (parse_loop chk pe k es st)"
  using assms(2,3)
proof (induction k arbitrary: es st)
  case (Suc k)
  obtain x s1 where x: "pe st = (x, s1)" by fastforce
  have ok: "ends_within (length (rest st)) (pe st)" "\<And>e. x = PGot e \<Longrightarrow> length (rest s1) < length (rest st)"
    using assms(1) Suc.prems x by (auto simp: elem_ok_def)
  show ?case
  proof (cases x)
    case (PGot e)
    then have "ends_within (length (rest s1)) (parse_loop chk pe k (es @ [setLen (int (mark s1) - int (length (rest s1))) e]) s1)"
      using Suc.IH [of s1] ok(2) Suc.prems by simp
    then show ?thesis using PGot x ok(2) by (auto split: option.split intro: within_mono)
  qed (use ok(1) x in \<open>auto simp: ends_within_def\<close>)
qed simp

lemma acquired_within:
  assumes pb: "block_ok n pb" and len: "length (rest st) < n" shows "ends_within (length (rest st)) (parse_acquired c pb st)"
proof -
  obtain x r where x: "block_start (rest st) = (x, r)" by fastforce
  have r: "length r \<le> length (rest st)" by (rule block_start_shorter [OF x])
  have el: "ends_within (length (rest st)) (case isNext ''else'' (rest s1) of
        (False, r1) \<Rightarrow> (PGot (f es), s1\<lparr>rest := r1\<rparr>)
      | (True, r1) \<Rightarrow>
          (case block_start r1 of
             (None, r2) \<Rightarrow> (PNull, s1\<lparr>rest := r2\<rparr>)
           | (Some u, r2) \<Rightarrow> with_block (\<lambda>fs s2. (PGot (g es fs), s2)) (pb (s1\<lparr>rest := r2\<rparr>))))"
    if "length (rest s1) \<le> length (rest st)" for s1 f g and es :: "element list"
  proof -
    obtain b r1 where b: "isNext ''else'' (rest s1) = (b, r1)" by fastforce
    obtain y r2 where y: "block_start r1 = (y, r2)" by fastforce
    have "length r1 \<le> length (rest st)" using isNext_shorter [of "''else''" "rest s1"] b that by simp
    moreover have "length r2 \<le> length r1" by (rule block_start_shorter [OF y])
    ultimately show ?thesis using b y len
      by (auto split: bool.split option.split intro!: within_block block_okD [OF pb])
  qed
  show ?thesis
    using x r len
    by (auto simp: parse_acquired_def Let_def split: option.split intro!: within_block block_okD [OF pb] el)
qed

lemma while_within:
  assumes pb: "block_ok n pb" and len: "length (rest st) < n" shows "ends_within (length (rest st)) (parse_while c pb st)"
proof (cases "parseOperand (defaultDevice c) (rest st)")
  case (Inr p)
  obtain cond r where p: "p = (cond, r)" by fastforce
  obtain x r1 where x: "reads getNextParamInteger block_start r = (x, r1)" by fastforce
  have "length r \<le> length (rest st)" using Inr p parseOperand_shorter by blast
  moreover have "length r1 \<le> length r" by (rule int_block_shorter [OF x])
  ultimately show ?thesis using Inr p x len
   
    by (auto simp: parse_while_def split: option.split intro!: within_block block_okD [OF pb])
qed (simp add: parse_while_def)

lemma do_within:
  assumes pb: "block_ok n pb" and len: "length (rest st) < n" shows "ends_within (length (rest st)) (parse_do c pb st)"
proof -
  obtain x r where x: "reads getNextParamInteger block_start (rest st) = (x, r)" by fastforce
  have r: "length r \<le> length (rest st)" by (rule int_block_shorter [OF x])
  show ?thesis using x r len
    by (auto simp: parse_do_def split: option.split sum.split prod.splits intro!: within_block block_okD [OF pb]
        dest!: parseOperand_shorter)
      (metis nextElement_shorter order_trans snd_conv)+
qed

lemma command_within:
  assumes pb: "block_ok n pb" and len: "length (rest st) < n" shows "ends_within (length (rest st)) (parse_command c pb dev cmd st)"
proof -
  have "ends_within (length (rest st)) (case leaf_reader dev cmd of
        Some p \<Rightarrow>
          (case p (rest st) of
             (None, r) \<Rightarrow> (PNull, st\<lparr>rest := r\<rparr>)
           | (Some l, r) \<Rightarrow> (PGot (Leaf (leaf_base c st l) l), st\<lparr>rest := r\<rparr>))
      | None \<Rightarrow>
          (case block_reader dev cmd of
             Some p \<Rightarrow>
               (case p (rest st) of
                  (None, r) \<Rightarrow> (PNull, st\<lparr>rest := r\<rparr>)
                | (Some k, r) \<Rightarrow>
                    with_block (\<lambda>es s1. (PGot (Block (new_base c st) k (make_block es)), s1)) (pb (st\<lparr>rest := r\<rparr>)))
           | None \<Rightarrow>
               if CHR ''='' \<in> set cmd then
                 (case elementChangeValue dev cmd of
                    Inl e \<Rightarrow> (PThrow e, st)
                  | Inr l \<Rightarrow> (PGot (Leaf (new_base c st) l), st))
               else (PNull, st)))"
    using len
    by (auto split: option.split prod.split sum.split intro!: within_block block_okD [OF pb]
        dest: leaf_reader_shorter block_reader_shorter)
  then show ?thesis
    unfolding parse_command_def
    by (auto split: option.split intro: acquired_within while_within do_within pb len)
qed

lemma parse_buf_ok:
  assumes "block_ok n pb" shows "elem_ok (Suc n) (parse_buf_with c pb)"
  unfolding elem_ok_def
proof (intro allI impI)
  fix st :: pstate assume n: "length (rest st) < Suc n"
  obtain el r where e: "nextElement (rest st) = (el, r)" by fastforce
  obtain dev cmd where d: "split_device (defaultDevice c) el = (dev, cmd)" by fastforce
  let ?st = "\<lparr>rest = r, mark = element_mark (rest st) - (length el - length cmd)\<rparr>"
  have p: "parse_buf_with c pb st = parse_command c pb dev cmd ?st"
    using e d by (simp add: parse_buf_with_def)
  show "ends_within (length (rest st)) (parse_buf_with c pb st)
      \<and> (\<forall>e s1. parse_buf_with c pb st = (PGot e, s1) \<longrightarrow> length (rest s1) < length (rest st))"
  proof (cases "el = []")
    case True
    then have "cmd = []" using d by (auto simp: split_device_def has_device_def split: if_splits)
    then show ?thesis using p e nextElement_shorter [of "rest st"] by (simp add: parse_command_def)
  next
    case False
    then have l: "length r < length (rest st)"
      using e nextElement_consumes [OF nextElement_nonempty, of "rest st"] by simp
    then have "ends_within (length r) (parse_buf_with c pb st)"
      using command_within [OF assms, of ?st] n p by simp
    then show ?thesis using l by (auto intro: within_mono simp: ends_within_def)
  qed
qed

lemma parseBuf_ok: "elem_ok n (parseBuf c n)"
proof (induction n)
  case (Suc n)
  have "block_ok n (\<lambda>s. parse_loop no_check (parseBuf c n) n [] s)"
    using loop_ok [OF Suc.IH] by (simp add: block_ok_def)
  then have "elem_ok (Suc n) (parse_buf_with c (\<lambda>s. parse_loop no_check (parseBuf c n) n [] s))" by (rule parse_buf_ok)
  moreover have "parseBuf c (Suc n) = parse_buf_with c (\<lambda>s. parse_loop no_check (parseBuf c n) n [] s)"
    by (rule ext) simp
  ultimately show ?case by simp
qed (simp add: elem_ok_def)

lemma parse_elements_ends: "ends_within (length s) (parse_elements c s)"
  unfolding parse_elements_def
  using loop_ok [OF parseBuf_ok, of "\<lparr>rest = s, mark = length s\<rparr>"]
  by (simp del: parse_loop.simps parseBuf.simps)

subsection \<open>More fuel changes nothing\<close>

definition parses_agree :: "nat \<Rightarrow> (pstate \<Rightarrow> 'a) \<Rightarrow> (pstate \<Rightarrow> 'a) \<Rightarrow> bool" where
  "parses_agree n f g \<longleftrightarrow> (\<forall>st. length (rest st) < n \<longrightarrow> f st = g st)"

lemma with_block_cong:
  "(\<And>es s1. r = (PGot es, s1) \<Longrightarrow> f es s1 = g es s1) \<Longrightarrow> with_block f r = with_block g r"
  by (auto simp: with_block_def split: prod.split pres.split)

lemma block_shorter:
  "block_ok n pb \<Longrightarrow> length (rest st) < n \<Longrightarrow> pb st = (PGot es, s1) \<Longrightarrow> length (rest s1) \<le> length (rest st)"
  by (metis block_ok_def ends_within_def snd_conv)

lemma acquired_agree:
  assumes a: "parses_agree n pb pb'" and pb: "block_ok n pb" and len: "length (rest st) < n"
  shows "parse_acquired c pb st = parse_acquired c pb' st"
proof (cases "fst (block_start (rest st)) = None")
  case True
  then show ?thesis by (auto simp: parse_acquired_def split: option.splits prod.splits)
next
  case False
  then obtain u r where x: "block_start (rest st) = (Some u, r)" by (cases "block_start (rest st)") auto
  have r: "length r < n" using block_start_shorter [OF x] len by simp
  then have e: "pb (st\<lparr>rest := r\<rparr>) = pb' (st\<lparr>rest := r\<rparr>)" using a by (simp add: parses_agree_def)
  have f: "with_block f (pb (s1\<lparr>rest := r2\<rparr>)) = with_block f (pb' (s1\<lparr>rest := r2\<rparr>))"
    if "pb' (st\<lparr>rest := r\<rparr>) = (PGot es, s1)" "isNext ''else'' (rest s1) = (b, r1)" "block_start r1 = (y, r2)"
    for es s1 b r1 r2 y f
  proof -
    have "length (rest s1) \<le> length r" using block_shorter [OF pb, of "st\<lparr>rest := r\<rparr>" es s1] that(1) r e by simp
    moreover have "length r2 \<le> length r1" by (rule block_start_shorter [OF that(3)])
    moreover have "length r1 \<le> length (rest s1)" using isNext_shorter [of "''else''" "rest s1"] that(2) by simp
    ultimately show ?thesis using a r by (simp add: parses_agree_def)
  qed
  show ?thesis
    using x e f by (auto simp: parse_acquired_def Let_def split: bool.split option.split prod.split
        intro!: with_block_cong)
qed

lemma while_agree:
  assumes a: "parses_agree n pb pb'" and len: "length (rest st) < n"
  shows "parse_while c pb st = parse_while c pb' st"
proof -
  have "pb (st\<lparr>rest := r1\<rparr>) = pb' (st\<lparr>rest := r1\<rparr>)"
    if "parseOperand (defaultDevice c) (rest st) = Inr (x, r)" "reads getNextParamInteger block_start r = (y, r1)" for x r y r1
    using a len parseOperand_shorter [OF that(1)] int_block_shorter [OF that(2)] by (simp add: parses_agree_def)
  then show ?thesis by (auto simp: parse_while_def split: sum.split prod.split option.split)
qed

lemma do_agree:
  assumes a: "parses_agree n pb pb'" and len: "length (rest st) < n"
  shows "parse_do c pb st = parse_do c pb' st"
proof -
  have "pb (st\<lparr>rest := r\<rparr>) = pb' (st\<lparr>rest := r\<rparr>)"
    if "reads getNextParamInteger block_start (rest st) = (y, r)" for y r
    using a len int_block_shorter [OF that] by (simp add: parses_agree_def)
  then show ?thesis by (auto simp: parse_do_def split: prod.split option.split)
qed

lemma command_agree:
  assumes a: "parses_agree n pb pb'" and pb: "block_ok n pb" and len: "length (rest st) < n"
  shows "parse_command c pb dev cmd st = parse_command c pb' dev cmd st"
proof -
  have "pb (st\<lparr>rest := r\<rparr>) = pb' (st\<lparr>rest := r\<rparr>)"
    if "block_reader dev cmd = Some p" "p (rest st) = (y, r)" for p y r
    using a len block_reader_shorter [OF that] by (simp add: parses_agree_def)
  then show ?thesis
    using acquired_agree [OF a pb len] while_agree [OF a len] do_agree [OF a len]
    by (auto simp: parse_command_def split: option.split prod.split)
qed

lemma parse_buf_agree:
  assumes a: "parses_agree n pb pb'" and pb: "block_ok n pb"
  shows "parses_agree (Suc n) (parse_buf_with c pb) (parse_buf_with c pb')"
  unfolding parses_agree_def
proof (intro allI impI)
  fix st :: pstate assume n: "length (rest st) < Suc n"
  obtain el r where e: "nextElement (rest st) = (el, r)" by fastforce
  obtain dev cmd where d: "split_device (defaultDevice c) el = (dev, cmd)" by fastforce
  show "parse_buf_with c pb st = parse_buf_with c pb' st"
  proof (cases "el = []")
    case True
    then have "cmd = []" using d by (auto simp: split_device_def has_device_def split: if_splits)
    then show ?thesis using e d by (simp add: parse_buf_with_def parse_command_def)
  next
    case False
    then have "length r < n"
      using e nextElement_consumes [OF nextElement_nonempty, of "rest st"] n by simp
    then show ?thesis using e d command_agree [OF a pb] by (simp add: parse_buf_with_def)
  qed
qed

lemma loop_agree:
  assumes a: "parses_agree n pe pe'" and pe: "elem_ok n pe"
  shows "length (rest st) < n \<Longrightarrow> length (rest st) < k \<Longrightarrow> length (rest st) < m
    \<Longrightarrow> parse_loop chk pe k es st = parse_loop chk pe' m es st"
proof (induction k arbitrary: es st m)
  case (Suc k)
  then obtain m' where m: "m = Suc m'" by (cases m) auto
  obtain x s1 where x: "pe' st = (x, s1)" by fastforce
  have e: "pe st = pe' st" using a Suc.prems by (simp add: parses_agree_def)
  then have l: "length (rest s1) < length (rest st)" if "x = PGot e" for e
    using pe Suc.prems x that by (auto simp: elem_ok_def)
  show ?case
  proof (cases x)
    case (PGot el)
    then show ?thesis using Suc.IH [of s1 m'] l Suc.prems m x e by (auto split: option.split)
  qed (use x e m in simp_all)
qed simp

lemma parseBuf_agree: "parses_agree (min n m) (parseBuf c n) (parseBuf c m)"
proof (induction n arbitrary: m)
  case (Suc n)
  show ?case
  proof (cases m)
    case (Suc k)
    have ag: "parses_agree (min n k) (parseBuf c n) (parseBuf c k)" by (rule Suc.IH)
    have ok: "elem_ok (min n k) (parseBuf c n)" using parseBuf_ok [of n c] by (simp add: elem_ok_def)
    have "parses_agree (min n k) (\<lambda>s. parse_loop no_check (parseBuf c n) n [] s) (\<lambda>s. parse_loop no_check (parseBuf c k) k [] s)"
      using loop_agree [OF ag ok] by (simp add: parses_agree_def)
    moreover have "block_ok (min n k) (\<lambda>s. parse_loop no_check (parseBuf c n) n [] s)"
      using loop_ok [OF parseBuf_ok] by (simp add: block_ok_def)
    ultimately show ?thesis using parse_buf_agree [of "min n k" _ _ c] Suc by (simp add: parses_agree_def)
  qed (simp add: parses_agree_def)
qed (simp add: parses_agree_def)

lemma parse_elements_fuel:
  assumes "length s < n" "length s < k"
  shows "parse_loop (checkParameters (operands_env c)) (parseBuf c n) k [] \<lparr>rest = s, mark = length s\<rparr> = parse_elements c s"
  unfolding parse_elements_def
proof (rule loop_agree)
  show "parses_agree (min n (Suc (length s))) (parseBuf c n) (parseBuf c (Suc (length s)))" by (rule parseBuf_agree)
  show "elem_ok (min n (Suc (length s))) (parseBuf c n)" using parseBuf_ok [of n c] by (simp add: elem_ok_def)
qed (use assms in simp_all)

lemma parseScript_cases:
  obtains es st where "parse_elements c s = (PGot es, st)" | st where "parse_elements c s = (PNull, st)"
  | e st where "parse_elements c s = (PThrow e, st)" | st where "parse_elements c s = (PCrash, st)"
proof -
  obtain x st where x: "parse_elements c s = (x, st)" by fastforce
  then have "x \<noteq> PFuel" using parse_elements_ends [of s c] by (auto simp: ends_within_def)
  then show ?thesis using that x by (cases x) auto
qed

text \<open>
  C30: the parser ends. \<open>parseScript\<close> of any text on any script never runs out of the fuel it takes for the length of the line,
  so its recursion (blocks in blocks) and its loops end; and any greater fuel gives the same elements.
\<close>

theorem parser_ends:
  "parseScript c text sc \<noteq> PFuel
   \<and> parse_loop (checkParameters (operands_env c)) (parseBuf c (length s + i + 1)) (length s + j + 1) []
        \<lparr>rest = s, mark = length s\<rparr> = parse_elements c s"
proof
  show "parseScript c text sc \<noteq> PFuel"
    by (rule parseScript_cases [of "line_ctx c (code_part (blank_line text)) (add_line (code_part (blank_line text)) sc)"
          "code_part (blank_line text)"]) (simp_all add: parseScript_def Let_def)
qed (rule parse_elements_fuel, simp_all)

end
