(* ===== verification/ScriptProps.thy ===== *)
theory ScriptProps
  imports ScriptPlan ScriptParseProps
begin

section \<open>Properties of script execution\<close>

text \<open>
  The properties of the execution of scripts, each with a concrete script: calls end, the commands follow the plan,
  the exposures are as many as announced, and what the codes of blocks do to the request to stop a target.
\<close>

subsection \<open>A script on a calm camera\<close>

text \<open>A camera with the values shutter and exposure, nothing queued; no other script runs, no device has values.\<close>

definition no_values :: operand_env where
  "no_values = \<lparr>sys_value = (\<lambda>d v. None), random_num = (\<lambda>n. 0)\<rparr>"

definition calm_env :: senv where
  "calm_env =
     \<lparr>que_exp_num = Some 0, has_SHUTTER = True, has_filter = False, has_exposure = True, que_empty = True,
      client_state = 0, acquire_state = 0, acquire_count = (\<lambda>t. 0), signal_reply = (\<lambda>n. n), opers = no_values,
      has_address = (\<lambda>d. False), clock = 0, script_loops = 0, script_device = ''C0'', has_target = True,
      has_auto_loop = True, exe_init = (\<lambda>x. -1), exe_deleted = False\<rparr>"

definition demo_ctx :: pctx where
  "demo_ctx = \<lparr>buf_len = 0, lineOffset = 0, defaultDevice = ''C0'', target_id = Some 7, parse_now = 0, operands_env = no_values\<rparr>"

definition no_command :: rstate where
  "no_command = \<lparr>new_command = None, new_device = [], draws = 0, souts = []\<rparr>"

definition start_script :: "int \<Rightarrow> string \<Rightarrow> element list \<Rightarrow> script" where
  "start_script n dev es = (new_script n dev)\<lparr>elems := es\<rparr>"

definition zero_base :: ebase where
  "zero_base = EBase 0 0 0 0"

text \<open>\<open>for 2 { C 1 2 E 10 } W\<close>.\<close>

definition demo_elems :: "element list" where
  "demo_elems =
     [Block zero_base (ElementFor 2) (Blk [Leaf zero_base (ElementChange ''C0'' 1 2),
        Leaf zero_base (ElementImage ClassExpose 10 AtFirst)] 0 0 None),
      Leaf zero_base ElementWait]"

subsection \<open>Calls end\<close>

text \<open>
  C18: a call of the script ends. If every block of a script counts its loops (all blocks but those that wait for a
  signal or a time of the day), then \<open>Script::nextCommand\<close> returns, throws or crashes, for every
  camera, clock and state of the script, and with the same bound on the fuel also in every later call.
\<close>

theorem nextCommand_ends:
  assumes "list_all counted (elems sc)" "sum_list (map fuel_need (elems sc)) \<le> n"
  shows "script_nextCommand env n c sc s \<noteq> OutOfFuel
    \<and> (\<forall>r sc' s'. script_nextCommand env n c sc s = Done (r, sc', s') \<longrightarrow>
         list_all counted (elems sc') \<and> map fuel_need (elems sc') = map fuel_need (elems sc))"
  using nextCommand_bounded [of "map fuel_need (elems sc)" sc n env c s] assms by (simp add: script_counted_def)

lemma nextCommand_ends_witness:
  "script_nextCommand calm_env 20 CamNext (start_script 0 ''C0'' demo_elems) no_command \<noteq> OutOfFuel"
proof -
  let ?sc = "start_script 0 ''C0'' demo_elems"
  have c: "list_all counted (elems ?sc)" "sum_list (map fuel_need (elems ?sc)) \<le> 20"
    by (simp_all add: start_script_def demo_elems_def counted_kind_def block_fuel_def loop_bound_def)
  show ?thesis using nextCommand_ends [OF c, of calm_env CamNext no_command] by simp
qed

subsection \<open>The commands follow the plan\<close>

text \<open>
  C17: the execution refines the plan. Take a script of plain elements: exposures and other camera commands, sequences,
  images, value changes with plain operands, \<open>for\<close> and \<open>once\<close> blocks of such elements; not \<open>while\<close>, \<open>do\<close>,
  patterns, \<open>ifacq\<close>, sleeps, signals, waits, \<open>exe\<close> and changes of the target. A camera on which no exposures are queued, asked for its next command
  again and again (its clock, state and the other devices may change between the calls), gets the commands of the
  script's plan in order, with their codes and for their devices, and from then on the end of the script. The plan unrolls
  the loops of the script's text: \<open>for\<close> as often as it says, \<open>once\<close> only when the target's script runs for the first time.
\<close>

theorem script_follows_plan:
  assumes "list_all plain es" "list_all idle_elem es"
    and "\<And>env. env \<in> set envs \<Longrightarrow> calm_camera env \<and> has_SHUTTER env = sh \<and> has_filter env = fl \<and> has_exposure env = ex"
    and "v = \<lparr>v_SHUTTER = sh, v_filter = fl, v_exposure = ex, v_loops = k, v_device = dev\<rparr>"
    and "sum_list (map fuel_need es) \<le> n"
  shows "script_run n envs (start_script k dev es) s =
    take (length envs) (concat (map (plan v) es) @ replicate (length envs) (NEXT_END_SCRIPT, None))"
proof -
  let ?sc = "start_script k dev es"
  have td: "script_todo v ?sc = concat (map (plan v) es)"
    using assms(1,2) idle_todo by (auto simp: script_todo_def start_script_def new_script_def list_all_iff intro!: arg_cong [of _ _ concat])
  have "sound v (es ! 0)" if "es \<noteq> []"
    using assms(1,2) that by (intro idle_sound) (auto simp: list_all_length)
  then have ok: "script_ok v ?sc"
    using assms(1,2,4) by (auto simp: script_ok_def start_script_def new_script_def list_all_iff dest: in_set_dropD)
  show ?thesis
    unfolding td [symmetric] by (rule script_run_todo [OF ok]) (use assms in \<open>auto simp: sees_def start_script_def\<close>)
qed

lemma demo_plain: "list_all plain demo_elems" "list_all idle_elem demo_elems" "sum_list (map fuel_need demo_elems) \<le> 20"
  by (simp_all add: demo_elems_def plain_kind_def plain_leaf_def fresh_leaf_def block_fuel_def loop_bound_def)

lemma script_follows_plan_witness:
  "script_run 20 (replicate 4 calm_env) (start_script 0 ''C0'' demo_elems) no_command =
     [(0, Some (CmdChange 1 2, ''C0'')),
      (NEXT_KEEP, Some (CmdSet ''SHUTTER'' (CHR ''='') (SetInt 0) BOP_TEL_MOVE, ''C0'')),
      (NEXT_KEEP, Some (CmdSet ''exposure'' (CHR ''='') (SetFloat 10) BOP_TEL_MOVE, ''C0'')),
      (0, Some (CmdExposure, ''C0''))]"
proof -
  let ?v = "\<lparr>v_SHUTTER = True, v_filter = False, v_exposure = True, v_loops = 0, v_device = ''C0''\<rparr>"
  have e: "calm_camera env \<and> has_SHUTTER env = True \<and> has_filter env = False \<and> has_exposure env = True"
    if "env \<in> set (replicate 4 calm_env)" for env
    using that by (simp add: calm_env_def calm_camera_def exposures_queued_def)
  show ?thesis
    by (subst script_follows_plan [OF demo_plain(1,2) e refl demo_plain(3)], simp)
      (simp add: demo_elems_def rounds_def leaf_todo_def fresh_leaf_def image_todo_def opt_item_def set_item_def
        targetShutter_def eval_nat_numeral)
qed

subsection \<open>The exposures of a script\<close>

definition is_exposure :: "item \<Rightarrow> bool" where
  "is_exposure i \<longleftrightarrow> (\<exists>d. snd i = Some (CmdExposure, d))"

definition exposures :: "item list \<Rightarrow> int" where
  "exposures xs = int (length (filter is_exposure xs))"

text \<open>
  Scripts whose numbers make sense: loops are not counted negatively, a sequence takes at least one image, and no
  \<open>ENDSHIFT\<close>, which is counted as an image but sends its own command.
\<close>

definition sensible_leaf :: "leaf \<Rightarrow> bool" where
  "sensible_leaf l = (case l of ElementSequence f n d x p \<Rightarrow> 1 \<le> n | ElementShiftStoreEnd n x \<Rightarrow> False | _ \<Rightarrow> True)"

fun sensible :: "element \<Rightarrow> bool" where
  "sensible (Leaf b l) = sensible_leaf l"
| "sensible (Block b k (Blk es c n rep)) =
     ((case k of ElementFor m \<Rightarrow> 0 \<le> m | _ \<Rightarrow> True) \<and> list_all sensible es)"
| "sensible (IfAcquired b t st bl el) = False"

lemma exposures_append [simp]: "exposures (xs @ ys) = exposures xs + exposures ys" "exposures [] = 0"
  by (simp_all add: exposures_def)

lemma exposures_concat: "exposures (concat xss) = sum_list (map exposures xss)"
  by (induction xss) simp_all

lemma exposures_rounds: "exposures (concat (replicate k xs)) = int k * exposures xs"
  by (induction k) (simp_all add: algebra_simps)

lemma exposures_items [simp]:
  "exposures (opt_item b (set_item v nm a)) = 0" "1 \<le> n \<Longrightarrow> exposures (exposure_items v n 0) = n"
  by (simp_all add: exposures_def opt_item_def set_item_def is_exposure_def exposure_items_def filter_replicate)

lemma leaf_exposures: "plain_leaf l \<Longrightarrow> sensible_leaf l \<Longrightarrow> exposures (leaf_todo v (fresh_leaf l)) = leaf_images l"
  by (cases l)
    (auto simp: leaf_todo_def fresh_leaf_def leaf_images_def sensible_leaf_def sequence_todo_def image_todo_def
      change_item_def Let_def, auto simp: exposures_def is_exposure_def)

lemma plan_exposures:
  "plain e \<Longrightarrow> sensible e \<Longrightarrow> v_loops v = 0 \<Longrightarrow> exposures (plan v e) = getExpectedImages e"
proof (induction e rule: plain.induct)
  case (2 b k es c n rep)
  have m: "map (exposures \<circ> plan v) es = map getExpectedImages es" using 2 by (auto simp: list_all_iff)
  have s: "exposures (concat (map (plan v) es)) = sum_list (map getExpectedImages es)"
    by (simp only: exposures_concat map_map m)
  have "int (rounds v k 0) = times_of k" using 2(2-4) by (cases k) (auto simp: plain_kind_def rounds_def times_of_def)
  then show ?case by (simp add: exposures_rounds s)
qed (simp_all add: leaf_exposures)

text \<open>
  C19: a script takes as many exposures as it announces. Let a script of plain elements, run for the first time for its
  target, without \<open>ENDSHIFT\<close>, its sequences of at least one exposure and its loops not negative, be asked for commands,
  often enough, on a camera without queued exposures. Then the number of exposures it commands is
  \<open>Script::getExpectedImages\<close>.
\<close>

theorem script_takes_expected_images:
  assumes "list_all plain es" "list_all idle_elem es" "list_all sensible es"
    and "calm_camera env" "sum_list (map fuel_need es) \<le> n"
    and "length (concat (map (plan \<lparr>v_SHUTTER = has_SHUTTER env, v_filter = has_filter env, v_exposure = has_exposure env,
            v_loops = 0, v_device = dev\<rparr>) es)) \<le> m"
  shows "exposures (script_run n (replicate m env) (start_script 0 dev es) s) = script_images es"
proof -
  let ?v = "\<lparr>v_SHUTTER = has_SHUTTER env, v_filter = has_filter env, v_exposure = has_exposure env, v_loops = 0, v_device = dev\<rparr>"
  have ok: "script_ok ?v (start_script 0 dev es)" "script_todo ?v (start_script 0 dev es) = concat (map (plan ?v) es)"
  proof -
    show "script_todo ?v (start_script 0 dev es) = concat (map (plan ?v) es)"
      using assms(1,2) idle_todo by (auto simp: script_todo_def start_script_def new_script_def list_all_iff intro!: arg_cong [of _ _ concat])
    have "sound ?v (es ! 0)" if "es \<noteq> []"
      using assms(1,2) that by (intro idle_sound) (auto simp: list_all_length)
    then show "script_ok ?v (start_script 0 dev es)"
      using assms(1,2) by (auto simp: script_ok_def start_script_def new_script_def list_all_iff dest: in_set_dropD)
  qed
  have "script_run n (replicate m env) (start_script 0 dev es) s =
      take m (concat (map (plan ?v) es) @ replicate m (NEXT_END_SCRIPT, None))"
    using script_run_todo [OF ok(1), of "replicate m env" n s] assms(4,5) ok(2) by (simp add: sees_def start_script_def)
  then have "exposures (script_run n (replicate m env) (start_script 0 dev es) s) = exposures (concat (map (plan ?v) es))"
    using assms(6) by (simp add: exposures_def is_exposure_def)
  also have "\<dots> = sum_list (map getExpectedImages es)"
    unfolding exposures_concat map_map using assms(1,3) plan_exposures [of _ ?v]
    by (intro arg_cong [of _ _ sum_list]) (auto simp: list_all_iff)
  finally show ?thesis by (simp add: script_images_def)
qed

lemma script_takes_expected_images_witness:
  "exposures (script_run 20 (replicate 9 calm_env) (start_script 0 ''C0'' demo_elems) no_command) = 2"
proof -
  have s: "list_all sensible demo_elems" by (simp add: demo_elems_def sensible_leaf_def)
  have c: "calm_camera calm_env" by (simp add: calm_env_def calm_camera_def exposures_queued_def)
  have "length (concat (map (plan \<lparr>v_SHUTTER = has_SHUTTER calm_env, v_filter = has_filter calm_env,
      v_exposure = has_exposure calm_env, v_loops = 0, v_device = ''C0''\<rparr>) demo_elems)) \<le> 9"
    by (simp add: calm_env_def demo_elems_def rounds_def leaf_todo_def fresh_leaf_def image_todo_def opt_item_def
        targetShutter_def eval_nat_numeral)
  then show ?thesis
    using script_takes_expected_images [OF demo_plain(1,2) s c demo_plain(3), where m = 9 and dev = "''C0''" and s = no_command]
    by (simp add: script_images_def demo_elems_def times_of_def leaf_images_def)
qed

subsection \<open>Codes and the end of a script\<close>

text \<open>
  C31: a script never asks its device to stop the target. \<open>Script::nextCommand\<close> never returns
  \<open>NEXT_COMMAND_STOP_TARGET\<close>, whatever its elements return: the negative codes have the bit of the block mask set, and it
  is taken out of them. \<open>DevScript::nextPreparedCommand\<close>, which would remember the target as one not to be executed, thus
  never sees the code that a failed \<open>exe\<close> returns for it; \<open>NEXT_COMMAND_END_SCRIPT\<close> comes only from the end of the list.
\<close>

theorem stop_target_is_lost:
  assumes "script_nextCommand env n c sc s = Done (r, sc', s')"
  shows "r \<noteq> NEXT_STOP_TARGET \<and> (r = NEXT_END_SCRIPT \<longrightarrow> executedCount sc < 0 \<or> length (elems sc') \<le> el_iter sc')"
proof (cases "executedCount sc < 0")
  case True
  then show ?thesis using assms by (simp add: script_nextCommand_def next_codes)
next
  case False
  have bit: "r1 \<noteq> -3 \<and> r1 \<noteq> -1" if "script_ret q sc1 s1 = (r1, sc2, s2)" for q r1 sc1 s1 sc2 s2
  proof (cases "q AND MASK_BLOCK \<noteq> 0")
    case True
    then have r1: "r1 = q AND NOT MASK_BLOCK" using that by (simp add: script_ret_def Let_def)
    have "bit (MASK_BLOCK :: int) 20" by (simp add: next_codes bit_int_def)
    then have "\<not> bit (q AND NOT MASK_BLOCK) 20" by (simp add: bit_and_iff bit_not_iff)
    moreover have "bit (-3 :: int) 20" "bit (-1 :: int) 20" by (simp_all add: bit_int_def)
    ultimately show ?thesis using r1 by metis
  next
    case False
    have "(-3 :: int) AND MASK_BLOCK \<noteq> 0" "(-1 :: int) AND MASK_BLOCK \<noteq> 0" by (simp_all add: next_codes)
    then have "q \<noteq> -3" "q \<noteq> -1" using False by auto
    moreover have "r1 = q" using that False by (auto simp: script_ret_def Let_def split: if_splits)
    ultimately show ?thesis by simp
  qed
  obtain r1 sc1 s1 where l: "script_loop (env\<lparr>script_loops := scriptLoops sc, script_device := scriptDevice sc\<rparr>) n c sc
      (s\<lparr>new_command := None\<rparr>) = Done (r1, sc1, s1)"
    using assms False by (cases "script_loop (env\<lparr>script_loops := scriptLoops sc, script_device := scriptDevice sc\<rparr>) n c sc
      (s\<lparr>new_command := None\<rparr>)") (auto simp: script_nextCommand_def Let_def obind_def)
  then have "(r, sc', s') = (if length (elems sc1) \<le> el_iter sc1 then (NEXT_END_SCRIPT, sc1, s1) else script_ret r1 sc1 s1)"
    using assms False by (simp add: script_nextCommand_def Let_def obind_def)
  then show ?thesis using bit [of r1 sc1 s1 r sc' s'] by (auto simp: next_codes split: if_splits)
qed

text \<open>\<open>exe /x\<close>, whose process cannot be started.\<close>

lemma failed_exe:
  "script_nextCommand calm_env 2 CamNext (start_script 0 ''C0'' [Leaf zero_base (ElementExecute ''/x'' False False)]) no_command
   = Done (-1048579, (start_script 0 ''C0'' [Leaf zero_base (ElementExecute ''/x'' False False)])\<lparr>executedCount := 1\<rparr>,
       no_command\<lparr>souts := [QueValue ''scriptPosition'' 0, QueValue ''scriptLen'' 0]\<rparr>)"
  by code_simp

lemma stop_target_is_lost_witness: "(-1048579 :: int) \<noteq> NEXT_STOP_TARGET"
  using stop_target_is_lost [OF failed_exe] by simp

end
