(* ===== verification/ScriptCases.thy ===== *)
theory ScriptCases
  imports ScriptProps
begin

section \<open>Scripts that do not do what they say\<close>

text \<open>
  Runs of the parser and of the elements, computed on the model: patterns run twice, a sleep in a loop, a loop
  without a command, the \<open>else\<close> of \<open>ifacq\<close>, words the parser does not know, and elements whose text is not read back.
\<close>

definition load_text :: "string \<Rightarrow> script pres" where
  "load_text s = parseScript demo_ctx s (new_script 0 ''C0'')"

subsection \<open>Patterns\<close>

text \<open>
  A pass over the hexagon and over the five by five grid returns to its start: the offsets of the path add up to nothing.
\<close>

lemma patterns_return:
  "sum_list (map fst (constructPath p)) = 0 \<and> sum_list (map snd (constructPath p)) = 0" if "p = PatternHex \<or> p = PatternFxF"
  using that by (auto simp: constructPath_def hex_path_def fxf_path_def Let_def eval_nat_numeral)

text \<open>
  At the end of its path a pattern rewinds it, but the change of position keeps the last point's offset: \<open>for 2 { hex 1 1
  { E 10 } }\<close> begins its second pass with the last offset instead of the first, so it does not return to its start.
\<close>

lemma rewound_pattern_keeps_offset:
  assumes "getNextLoop env (ElementHex d r de p path t chg) bl s = Done (True, k, bl', s')"
  shows "k = ElementHex d r de p path 0 chg \<and> elements bl' = elements bl \<and> curr bl' = 0"
  using assms by (auto simp: getNextLoop_def afterBlockEnd_def Let_def split: if_splits option.splits)

text \<open>The second pass over a hexagon of size one whose block is a wait.\<close>

definition second_pass :: element where
  "second_pass = Block zero_base (ElementHex ''C0'' 1 1 PatternHex hex_path 6 (Some 1))
     (Blk [Leaf zero_base ElementWait, Leaf zero_base (ElementChange ''C0'' (1 / 2) (866 / 1000))] 1 0 (Some 1))"

lemma second_pass_starts_with_last:
  "\<exists>s' e s''. next_command calm_env 3 CamNext second_pass no_command = Done (0, e, s')
    \<and> elements (case e of Block b k bl \<Rightarrow> bl) ! 1 = Leaf zero_base (ElementChange ''C0'' (1 / 2) (866 / 1000))
    \<and> new_command s' = Some (CmdChange (1 / 2) (866 / 1000)) \<and> hex_path ! 0 = (-1, 0)"
  by (simp add: second_pass_def eval_nat_numeral block_next_def endLoop_def calm_env_def no_command_def obind_def
      hex_path_def leaf_next_def give_def set_elem_def holds_back_def next_codes blockScriptRet_def advances_def
      advance_block_def getNextLoop_def afterBlockEnd_def Let_def out_def)

subsection \<open>A sleep in a loop\<close>

text \<open>
  The timer of \<open>for 2 { sleep 5 W }\<close> ends in \<open>idleCall\<close>, which goes on to the next element of the block. The sleep is not
  called again in this loop, so that its flags are not reset: in the next loop it returns at once.
\<close>

definition expired_sleep :: element where
  "expired_sleep = Block zero_base (ElementFor 2)
     (Blk [Leaf (EBase 0 0 5000000 5000000) (ElementSleep 5 True False), Leaf zero_base ElementWait] 0 0 None)"

lemma second_sleep_is_skipped:
  "idleCall (calm_env\<lparr>clock := 6000000\<rparr>) expired_sleep no_command =
     Done (NEXT_NEXT, Block zero_base (ElementFor 2)
       (Blk [Leaf (EBase 0 0 5000000 11000000) (ElementSleep 5 True True), Leaf zero_base ElementWait] 1 0 None), no_command)
   \<and> next_command calm_env 3 CamNext (Block zero_base (ElementFor 2)
       (Blk [Leaf (EBase 0 0 5000000 11000000) (ElementSleep 5 True True), Leaf zero_base ElementWait] 0 1 (Some 1))) no_command =
     Done (NEXT_CHECK_WAIT, Block zero_base (ElementFor 2)
       (Blk [Leaf (EBase 0 0 5000000 11000000) (ElementSleep 5 False False), Leaf zero_base ElementWait] 0 0 (Some 1)), no_command)"
  unfolding expired_sleep_def by (rule conjI; code_simp)

subsection \<open>Loops without a command\<close>

text \<open>
  \<open>block_waitsig 1 { loopdisable }\<close>: no element returns a command and nothing ends the block, so that one call of
  \<open>nextCommand\<close> does not return, whatever the fuel.
\<close>

lemma waitsig_spins:
  "block_loop env False (next_command env (Suc m) CamNext) n (ElementSignalEnd 1) (Blk [Leaf b ElementLoopDisable] 0 lc rep) s = OutOfFuel"
proof (induction n arbitrary: lc rep s)
  case (Suc n)
  then show ?case
    by (simp add: leaf_next_def obind_def holds_back_def set_elem_def advance_block_def getNextLoop_def endLoop_def Let_def next_codes)
qed simp

lemma endless_nextCommand:
  "next_command env n CamNext (Block b (ElementSignalEnd 1) (Blk [Leaf b ElementLoopDisable] 0 0 None)) s = OutOfFuel"
proof (cases n)
  case (Suc m)
  then show ?thesis
  proof (cases m)
    case (Suc k)
    then show ?thesis using \<open>n = Suc m\<close>
      by (simp del: block_loop.simps add: block_next_def endLoop_def obind_def is_sod_def waitsig_spins)
  qed (simp add: block_next_def endLoop_def obind_def)
qed simp

subsection \<open>The else of ifacq\<close>

text \<open>
  A camera calls an \<open>else\<close> block through \<open>defnextCommand\<close>, which exposures do not have: \<open>ifacq { ... } else { E 10 }\<close>
  takes no image when the acquisition failed. The loops in it run without the test of their count: \<open>for 0 { W }\<close> waits.
\<close>

lemma else_takes_no_image:
  "next_command (calm_env\<lparr>acquire_state := 0\<rparr>) 4 CamNext
     (IfAcquired zero_base 7 NOT_CALLED empty_block (Some (Blk [Leaf zero_base (ElementImage ClassExpose 10 AtFirst)] 0 0 None))) no_command =
   Done (NEXT_NEXT, IfAcquired zero_base 7 ACQ_FAILED empty_block (Some (Blk [Leaf zero_base (ElementImage ClassExpose 10 AtFirst)] 0 0 None)),
     no_command)"
  by code_simp

lemma else_runs_empty_for:
  "\<exists>e s. next_command (calm_env\<lparr>acquire_state := 0\<rparr>) 6 CamNext
     (IfAcquired zero_base 7 NOT_CALLED empty_block
       (Some (Blk [Block zero_base (ElementFor 0) (Blk [Leaf zero_base ElementWait] 0 0 None)] 0 0 None))) no_command =
     Done (NEXT_CHECK_WAIT, e, s)"
  by (simp add: eval_nat_numeral checkState_def calm_env_def block_next_def leaf_next_def obind_def holds_back_def set_elem_def
      blockScriptRet_def advances_def advance_block_def getNextLoop_def endLoop_def afterBlockEnd_def Let_def next_codes)

subsection \<open>Texts\<close>

text \<open>
  An unknown word ends the script without an error: of \<open>E 10 foo\<close> only the exposure is left, and
  \<open>getFaultLocation\<close> says that nothing is wrong.
\<close>

lemma unknown_word_is_silent:
  "(case load_text ''E 10 foo'' of PGot sc \<Rightarrow> length (elems sc) = 1 \<and> faultLocation sc = -1 | _ \<Rightarrow> False)"
  by code_simp

text \<open>
  Elements whose script text is not what was read: the box prints its y twice, a \<open>while\<close> loses its condition (and
  is not read back), the centre its size.
\<close>

lemma box_prints_y_twice: "printScript w (Leaf b (ElementBox 1 2 3 4)) = ''BOX 2 2 3 4''"
  by (simp add: words_of_def show_int_def) code_simp

lemma while_prints_no_condition:
  "printScript w (Block b (ElementWhile c 2) (Blk [Leaf b ElementWait] 0 0 None)) = ''while 2 { W }''
   \<and> load_text ''while 2 { W }'' = PThrow ''cannot parse sequence''"
proof
  have "show_int 2 = ''2''" by code_simp
  then show "printScript w (Block b (ElementWhile c 2) (Blk [Leaf b ElementWait] 0 0 None)) = ''while 2 { W }''"
    by (simp add: block_head_def braced_def words_of_def print_leaf_def)
  show "load_text ''while 2 { W }'' = PThrow ''cannot parse sequence''" by code_simp
qed

text \<open>A sequence of no exposures takes one and announces none.\<close>

lemma empty_sequence_exposes:
  "map snd (script_run 9 (replicate 3 (calm_env\<lparr>has_SHUTTER := False, has_exposure := False\<rparr>))
     (start_script 0 ''C0'' [Leaf zero_base (ElementSequence ''R'' 0 0 10 AtFirst)]) no_command) =
   [Some (CmdExposure, ''C0''), None, None]
   \<and> script_images [Leaf zero_base (ElementSequence ''R'' 0 0 10 AtFirst)] = 0"
  by (rule conjI; code_simp)

end
