(* ===== verification/Spec2Isabelle.thy ===== *)
theory Spec2Isabelle
  imports Main CentraldMore DomeSafety CameraCases TelescopeCases FilterdProps ScriptCases
begin

text \<open>
  \<^bold>\<open>RTS2-ng: a verification development of its observatory daemons.\<close>

  RTS2 runs a robotic observatory as a set of daemons, one per device, and one central server. Every daemon
  keeps a 32-bit state word and a set of named values, prints both to its connections and takes commands from
  them. The central server (\<open>centrald\<close>) collects the state words, decides whether the weather is good and
  whether the system may observe, opens and closes the roof, and sends each device the word of operations that
  other devices block (\<open>BOP_EXPOSURE\<close>, \<open>BOP_TEL_MOVE\<close> and others). The devices heed these words: a camera
  starts no exposure while a telescope moves, a telescope performs no correction while a camera exposes. The
  development models these state machines from \<open>base/\<close>, each with its messages, and proves what keeps the
  observatory safe. It is written for a reader with the sources at hand.

  \<^bold>\<open>How a component is modelled.\<close> The fields of a class are a record; each method is a definition that takes the
  record and returns it updated, with the code it returns. What the code sends, prints to a device or calls of a
  driver is appended to a list of the record (\<open>outs\<close>, \<open>couts\<close>, \<open>touts\<close>), so that a property can speak
  of it. A driver's virtual functions, a library and the clock are parameters: the fields of a record of functions, or
  arguments. A component's step function takes one event (a command, a block word, a pass of the idle loop, a message);
  \<open>run_steps\<close> of theory \<open>Runs\<close> folds it over a list, and its locale \<open>invariant_system\<close> carries an
  invariant through every run. Each component interprets it, and \<open>masked_state\<close> of theory \<open>Status\<close> for its
  state word. Error codes are integers as in \<open>status.h\<close>; a failed read of a parameter is \<open>None\<close>.

  \<^bold>\<open>The theories.\<close>

  \<^item> \<open>Rts2Prelude\<close>: characters and decimal text of C, \<open>strtol\<close>, 32-bit conversions. \<open>Runs\<close>: runs and their
    locales. \<open>Status\<close>: the layout of \<open>status.h\<close>, masked writes of \<open>Daemon::maskState\<close>, \<open>centralstate.cpp\<close>.
  \<^item> \<open>ConnText\<close>, \<open>Connection\<close>, \<open>ConnQueue\<close>, \<open>ConnBop\<close>, \<open>ConnProtocol\<close>: \<open>kernel/src/connection.cpp\<close>,
    \<open>command.cpp\<close>, \<open>message.cpp\<close>. Splitting the stream into lines, the parameter readers, the queue of
    commands with the handshake of the block word, the lines of the protocol with their printers. Proved:
    lines arrive whatever the cut into reads; replies match commands in order; no command is written
    while the operations it must wait for are blocked; status and message lines round trip.
  \<^item> \<open>Ini\<close>: \<open>iniparser.cpp\<close>, with \<open>blockDevice\<close>, which says which device blocks which.
  \<^item> \<open>Centrald\<close>, \<open>CentraldConn\<close>, \<open>CentraldOpen\<close>, \<open>CentraldProps\<close>, \<open>CentraldMore\<close>: \<open>centrald.cpp\<close>. Weather and
    stop as conjunctions over the devices, the opening and closing sequences with their timers, keys and
    authorization, the night and day switch. Proved: the roof is only asked to open in good weather, bad
    weather starts the closing with a command to the right device, closing ends when the clock goes on, one key
    per request.
  \<^item> \<open>Dome\<close>, \<open>DomeProps\<close>, \<open>Ford\<close>, \<open>Bart\<close>, \<open>DomeSafety\<close>: \<open>dome/src/dome.cpp\<close>, the relay board
    \<open>connford.cpp\<close>, and the driver \<open>dome/bart/bart.cpp\<close>. Proved for every driver that keeps the locale
    \<open>dome_driver\<close>, which \<open>bart\<close> interprets: the roof opens only in good weather, the state word says
    where the roof is (once it has left the phase the driver's \<open>init\<close> found and wrote without its blocks), bad
    weather closes it. \<open>bart_step\<close> is BART's daemon with its own \<open>idle\<close>, which keeps the same invariant.
  \<^item> \<open>Camera\<close>, \<open>CameraOps\<close> and the theories \<open>Camera*\<close>: \<open>camd/src/camd.cpp\<close> with the queue of value
    changes of \<open>device.cpp\<close> and \<open>daemon.cpp\<close>, filters and focuser of the camera, and two drivers. Proved:
    exposures do not overlap (when the driver can stop one) and heed the blocks, the telescope is released, the recursion through
    \<open>setFullBopState\<close> ends, queued changes refine immediate ones.
  \<^item> \<open>Telescope\<close>, \<open>TelescopeOps\<close> and the theories \<open>Telescope*\<close>: \<open>teld/src/teld.cpp\<close>. Moves, parking,
    corrections from images and their roll back, offsets, stop and standby. \<open>TelescopeMotion\<close> and
    \<open>TelescopeSteps\<close> are an abstract machine of phase, block and starts, and the simulation by which every run
    refines it; \<open>TelescopeAim\<close> follows the corrections; \<open>TelescopeEval\<close> has code equations for concrete runs.
  \<^item> \<open>Filterd\<close>, \<open>FilterdProps\<close>, \<open>Focuser\<close>, \<open>FocuserProps\<close>: filter wheels and focusers with their dummy
    drivers, the value types of selections and of limited numbers.
  \<^item> \<open>ScriptText\<close>, \<open>ScriptOperand\<close>, \<open>Script\<close>, \<open>ScriptParse\<close>, \<open>ScriptParseProps\<close>: \<open>base/script\<close>, the language in which a
    target says what a camera does. The text of elements and numbers, the operands of \<open>operands.cpp\<close>, the elements of
    \<open>element.h\<close> and \<open>elementblock.h\<close> as datatypes with what they print and expect, and the parser of \<open>script.cpp\<close>, which
    returns elements, a null pointer, a thrown error or a crash. Proved: parsing ends.
  \<^item> \<open>ScriptRun\<close>, \<open>ScriptRunProps\<close>, \<open>ScriptPlan\<close>, \<open>ScriptProps\<close>: \<open>nextCommand\<close> of every element and of the script, idle
    calls and signals. A plan unrolls the loops of a script; the calls of a camera refine it. Proved: calls
    end, the commands are those of the plan, the exposures are as many as the script announces.
  \<^item> This theory: properties of several components. A status line of a dome decides whether centrald closes it; a
    status line of a moving telescope keeps every camera it blocks from exposing.

  The theories \<open>CameraCases\<close>, \<open>TelescopeCases\<close> and \<open>ScriptCases\<close>, the last parts of \<open>FilterdProps\<close>, \<open>FocuserProps\<close> and
  \<open>CentraldMore\<close>, and single lemmas of \<open>CentraldProps\<close>, \<open>DomeSafety\<close> and this theory hold runs in which the code does not do what it means to; they are computed on the
  model.

  \<^bold>\<open>Numbers, bounds and fuel.\<close> State words are \<open>32 word\<close>. C integers that only count are \<open>int\<close>; where the
  code narrows a number (\<open>strtol\<close> to \<open>int\<close>, 64-bit times) the narrowing is written out (\<open>to_int32\<close>). Angles are
  milliarcseconds and positions steps, as integers with a value for \<open>NaN\<close>; rounding of floating point is not
  modelled. Times are microseconds and enter with events. The recursion of a camera's
  \<open>setFullBopState\<close> is unfolded to a depth of the length of the queue plus one (\<open>full_level\<close>), and
  \<open>block_recursion_ends\<close> proves that a greater depth changes nothing. The numbers of scripts are rationals, read and printed
  as C does with its rounding to six digits but none to \<open>double\<close>. The parser of a line of \<open>n\<close> characters takes
  fuel \<open>n + 1\<close> for its depth and its loops, which \<open>parser_ends\<close> shows to be enough; a call of a script takes fuel for the depth
  and the iterations of its blocks, and \<open>nextCommand_ends\<close> says how much (\<open>fuel_need\<close>, a bound on what is left of the counted
  loops). Other loops of the source are structural, or have a
  measure, or (the subtraction of selections) a partial function whose end is decided.

  \<^bold>\<open>Not modelled.\<close> Sockets, name resolution and the binary data channel (a connection's socket is a list of
  write results); value and meta-information lines, which are passed on; images, FITS and statistics;
  pointing models, coordinate transformations (\<open>libnova\<close> is a parameter) and the mount drivers; the other dome,
  camera, wheel and focuser drivers; the processes scripts start with \<open>exe\<close> and the executor that gives a camera its
  targets; the monitor, the web server, the
  database programs and the Python code; vendored libraries (\<open>base/external\<close>).
\<close>

section \<open>A dome and its centrald\<close>

text \<open>
  C24: centrald asks exactly the unclosed domes to close. Let \<open>w\<close> be the state word of a dome
  after any run of a driver that touches only its own fields, and let centrald have processed the
  status line with it. While the dome knows where its roof is (closed, opening, open or closing), its
  word is not still the bare phase \<open>init\<close> has found, and it has not timed out in this closing, the closing
  sequence that comes to the dome passes on to the next device if the dome is closed; otherwise it stops there
  and queues one \<open>close\<close> command, on the connection of the dome.
\<close>

theorem centrald_closes_unclosed_dome:
  assumes "dome_driver d" "w = dstate (run_steps (dome_step d) es (start_dome p h cs))"
    and "k = processLine cmdf m (status_text w None) c" "getOpenConnection nm s = Some k" "nm \<notin> set (failedClose s)"
    and "w AND DOME_DOME_MASK \<in> {DOME_CLOSED, DOME_OPENING, DOME_OPENED, DOME_CLOSING}"
    and "p \<in> {FoundNothing, FoundClosed} \<or> w AND (DOME_DOME_MASK OR DOME_BLOCKS) \<noteq> found_phase p"
  shows "if w AND DOME_DOME_MASK = DOME_CLOSED then doClose_seq (nm # ns) s = doClose_seq ns s
    else fst (doClose_seq (nm # ns) s) = 0 \<and> openCloseLast (snd (doClose_seq (nm # ns) s)) = nm
      \<and> closes (snd (doClose_seq (nm # ns) s)) = closes s @ [(cid k, state s)]"
proof -
  have k: "k = setState w c" unfolding assms(3) by (rule status_line) simp
  have b: "getState k = w" by (simp add: k setState_def Let_def getState_def emit_sel)
  have "field_ok p (dome_field w)" using run_dome_inv [OF assms(1), of p es h cs] assms(2) by (simp add: dome_inv_def)
  then have "dome_field w = found_phase p \<or> blocks_match w" by (rule field_says)
  then have "w AND DEVICE_BLOCK_CLOSE \<noteq> 0 \<longleftrightarrow> w AND DOME_DOME_MASK \<noteq> DOME_CLOSED"
  proof
    assume f: "dome_field w = found_phase p"
    then have "p = FoundNothing \<or> p = FoundClosed" using assms(7) unfolding dome_field_eq by blast
    moreover have "w AND DEVICE_BLOCK_CLOSE = dome_field w AND DEVICE_BLOCK_CLOSE" by (rule field_sub) simp
    ultimately show ?thesis using assms(6) unfolding field_dome [of w] f by auto
  qed (rule blocks_close [OF _ assms(6)])
  then have nc: "needs_close s nm \<longleftrightarrow> w AND DOME_DOME_MASK \<noteq> DOME_CLOSED"
    using assms(4,5) b by (simp add: needs_close_def)
  show ?thesis
  proof (cases "w AND DOME_DOME_MASK = DOME_CLOSED")
    case True
    then show ?thesis using nc by (simp add: doClose_seq_find)
  next
    case False
    then have "needs_close s nm" using nc by simp
    then show ?thesis using ask_close_sel(1,5) [of s nm] False assms(4) by (simp add: doClose_seq_find del: doClose_seq.simps)
  qed
qed

text \<open>
  BART's roof found open, after a command to open, and as \<open>init\<close> left it; and a centrald that has
  processed a status line of the dome.
\<close>

definition open_roof :: u32 where
  "open_roof = dstate (run_steps (dome_step bart_driver) [DCommand Open] (start_dome FoundOpened (new_bart (still_board 20 4 0)) []))"

definition found_roof :: u32 where
  "found_roof = dstate (snd (bart_init (new_dome (new_bart (still_board 20 4 0)) [])))"

definition dome_line :: "u32 \<Rightarrow> cconn" where
  "dome_line w = processLine (\<lambda>_ _ c. (-4, c)) (\<lambda>_ c. (0, c)) (status_text w None) (demo_conn 1 ''DOME'' 0)"

definition with_dome :: "u32 \<Rightarrow> centrald" where
  "with_dome w = (new_centrald [] [''DOME''] [])\<lparr>conns := [dome_line w]\<rparr>"

lemma dome_line_sel: "cid (dome_line w) = 1" "cname (dome_line w) = ''DOME''" "getState (dome_line w) = w"
proof -
  have e: "dome_line w = setState w (demo_conn 1 ''DOME'' 0)" unfolding dome_line_def by (rule status_line) simp
  show "cid (dome_line w) = 1" "cname (dome_line w) = ''DOME''" "getState (dome_line w) = w"
    unfolding e by (simp_all add: setState_def Let_def emit_def getState_def demo_conn_def new_cconn_def)
qed

lemma with_dome_sel: "getOpenConnection ''DOME'' (with_dome w) = Some (dome_line w)" "failedClose (with_dome w) = []"
  "openSequence (with_dome w) = [''DOME'']" "closes (with_dome w) = []"
  by (simp_all add: with_dome_def getOpenConnection_def dome_line_sel new_centrald_def closes_def)

lemma centrald_closes_unclosed_dome_witness:
  "map fst (closes (snd (doClose_seq [''DOME''] (with_dome open_roof)))) = [1]"
proof -
  have "open_roof AND DOME_DOME_MASK = DOME_OPENED" "open_roof AND (DOME_DOME_MASK OR DOME_BLOCKS) \<noteq> found_phase FoundOpened"
    by code_simp+
  then show ?thesis
    using centrald_closes_unclosed_dome [OF bart_dome.dome_driver_axioms open_roof_def dome_line_def,
        of "''DOME''" "with_dome open_roof" "[]"]
    by (simp add: with_dome_sel dome_line_sel del: doClose_seq.simps)
qed

text \<open>
  The roof BART's \<open>init\<close> finds open is not asked to close: its word does not block closing, so the
  closing sequence is over at once.
\<close>

lemma found_open_not_closed:
  "found_roof AND DOME_DOME_MASK = DOME_OPENED
   \<and> fst (doClose (with_dome found_roof)) = -1 \<and> closes (snd (doClose (with_dome found_roof))) = []"
proof -
  have "found_roof AND DOME_DOME_MASK = DOME_OPENED" "found_roof AND DEVICE_BLOCK_CLOSE = 0" by code_simp+
  then show ?thesis
    by (simp add: doClose_def doClose_seq_find needs_close_def with_dome_sel dome_line_sel close_done_def updateOpenClose_def
        closes_def sendValueAll_def cent_emit_def del: doClose_seq.simps)
      (simp add: with_dome_def new_centrald_def)
qed

section \<open>A telescope, its centrald and a camera\<close>

text \<open>
  C13: no exposure while the telescope moves. Let a telescope move after any run, let centrald have
  processed the status line of its state, and let the configuration say that the telescope blocks the device of
  connection \<open>c\<close>. Then the block word centrald computes for the device blocks exposures, and a camera, in any
  run, starts no exposure with open shutter that asked for the checks while this is the last word it was sent.
\<close>

theorem moving_telescope_holds_exposures:
  assumes "t = run_steps (tel_step d) es (new_tel h track diff pblock p lat)" "moving_field t = TEL_MOVING"
    and "k = processLine cmdf m (status_text (telState t) None) k0" "k \<in> set (conns s)"
    and "ctype c = DEVICE_SERVER" "blockDevice (cname c) (cname k) (config s)" "w = getStateForConnection c s"
  shows "w AND BOP_EXPOSURE \<noteq> 0
    \<and> StartExposure v w True \<notin> set (couts (cam_run cd ces (new_cam ch x ws f sh)))"
proof -
  have "tel_inv t" unfolding assms(1) by (rule run_tel_inv, rule new_tel_inv)
  then have "motion_inv (motion t)" by (simp add: tel_inv_def)
  moreover have "(telState t AND MOTION_MASK) AND BOP_EXPOSURE = telState t AND BOP_EXPOSURE" by (simp add: and.assoc)
  ultimately have "telState t AND BOP_EXPOSURE \<noteq> 0"
    using assms(2) by (simp_all add: motion_inv_def phase_moving)
  then have b: "bit (telState t) 24" using and_exp_eq_0_iff_not_bit [of "telState t" 24] by simp
  have "k = setState (telState t) k0" unfolding assms(3) by (rule status_line) simp
  then have "getState k = telState t" by (simp add: setState_def Let_def getState_def emit_sel)
  then have "bit (getBopState k) 24" using b by (simp add: getBopState_def bit_and_iff)
  then have "bit w 24" using assms(4-7)
    by (auto simp: getStateForConnection_def bop_fold_bit)
  then have w: "w AND BOP_EXPOSURE \<noteq> 0" using and_exp_eq_0_iff_not_bit [of w 24] by simp
  have "bop_inv (cam_run cd ces (new_cam ch x ws f sh))"
    by (rule blocks.inv_run) (simp_all add: new_cam_inv)
  then show ?thesis using w by (auto simp: start_in bop_inv_def list_all_iff heeds_def)
qed

lemma moving_telescope_holds_exposures_witness:
  "getStateForConnection (demo_conn 1 ''C0'' 0)
     ((new_centrald [] [] [])\<lparr>conns := [processLine (\<lambda>_ _ c. (-4, c)) (\<lambda>_ c. (0, c))
        (status_text (telState (run_sim [TCommand 1 (Move True target_a 2000000 (0, 0))])) None) (demo_conn 2 ''T0'' 0)]\<rparr>)
   AND BOP_EXPOSURE \<noteq> 0"
proof -
  let ?t = "run_sim [TCommand 1 (Move True target_a 2000000 (0, 0))]"
  let ?k = "processLine (\<lambda>_ _ c. (-4, c)) (\<lambda>_ c. (0, c)) (status_text (telState ?t) None) (demo_conn 2 ''T0'' 0)"
  have m: "moving_field ?t = TEL_MOVING" by code_simp
  let ?s = "(new_centrald [] [] [])\<lparr>conns := [?k]\<rparr>" and ?c = "demo_conn 1 ''C0'' 0"
  have p: "?k \<in> set (conns ?s)" "ctype ?c = DEVICE_SERVER" "blockDevice (cname ?c) (cname ?k) (config ?s)"
    by (simp_all add: new_centrald_def demo_conn_def blockDevice_def getSection_def)
  show ?thesis
    by (rule moving_telescope_holds_exposures [OF run_sim_def [unfolded sim_tel_def] m refl p refl, THEN conjunct1])
qed

end
